(* ===== verification/Prelude.thy ===== *)
theory Prelude
  imports Main
begin

text \<open>
  What every component of the model shares: the vocabulary of Go values (fixed-width
  integers read as \<open>int\<close>, instants and durations), tables as lists of rows with the
  operations the SQL queries are made of, and the contracts (locales) that several
  components meet.
\<close>

section \<open>Collections of facts\<close>

named_theorems table_simps \<open>facts on tables: keys, look-ups, updates\<close>
named_theorems query_defs \<open>definitions of the SQL queries\<close>
named_theorems frame_simps \<open>what an operation leaves unchanged\<close>

section \<open>Go integers\<close>

text \<open>
  A Go \<open>int32\<close> or \<open>int64\<close> is an \<open>int\<close> kept in range by writing the two's complement
  wrap-around out at the operations that can overflow.
\<close>

definition wrap32 :: "int \<Rightarrow> int" where
  "wrap32 x = (x + 2147483648) mod 4294967296 - 2147483648"

definition wrap64 :: "int \<Rightarrow> int" where
  "wrap64 x = (x + 9223372036854775808) mod 18446744073709551616 - 9223372036854775808"

definition in_int32 :: "int \<Rightarrow> bool" where
  "in_int32 x \<longleftrightarrow> -2147483648 \<le> x \<and> x \<le> 2147483647"

definition in_int64 :: "int \<Rightarrow> bool" where
  "in_int64 x \<longleftrightarrow> -9223372036854775808 \<le> x \<and> x \<le> 9223372036854775807"

lemma wrap32_range [simp, intro]: "in_int32 (wrap32 x)"
  unfolding in_int32_def wrap32_def by (smt (verit) pos_mod_bound pos_mod_sign)

lemma wrap64_range [simp, intro]: "in_int64 (wrap64 x)"
  unfolding in_int64_def wrap64_def by (smt (verit) pos_mod_bound pos_mod_sign)

lemma wrap32_id: "in_int32 x \<Longrightarrow> wrap32 x = x"
  by (simp add: in_int32_def wrap32_def)

lemma wrap64_id: "in_int64 x \<Longrightarrow> wrap64 x = x"
  by (simp add: in_int64_def wrap64_def)

text \<open>Go's integer division truncates towards zero.\<close>

definition go_div :: "int \<Rightarrow> int \<Rightarrow> int" where
  "go_div a b = sgn a * sgn b * (\<bar>a\<bar> div \<bar>b\<bar>)"

lemma go_div_nonneg: "0 \<le> a \<Longrightarrow> 0 < b \<Longrightarrow> go_div a b = a div b"
  by (cases "a = 0") (simp_all add: go_div_def sgn_if)

section \<open>Instants and durations\<close>

text \<open>A \<open>time.Time\<close> and a \<open>time.Duration\<close>, both counted in nanoseconds.\<close>

type_synonym instant = int
type_synonym duration = int

abbreviation second :: duration where "second \<equiv> 1000000000"
abbreviation minute :: duration where "minute \<equiv> 60000000000"
abbreviation hour :: duration where "hour \<equiv> 3600000000000"

text \<open>\<open>t.Sub(u)\<close> saturates at the range of a duration.\<close>

definition go_Sub :: "instant \<Rightarrow> instant \<Rightarrow> duration" where
  "go_Sub t u = max (-9223372036854775808) (min 9223372036854775807 (t - u))"

text \<open>\<open>d.Milliseconds()\<close>\<close>

definition milliseconds :: "duration \<Rightarrow> int" where
  "milliseconds d = go_div d 1000000"

section \<open>Tables\<close>

text \<open>
  A table is the list of its rows. \<open>lookup_key\<close> is a \<open>SELECT\<close> by primary key, \<open>update_key\<close> an
  \<open>UPDATE\<close> by primary key and \<open>update_where\<close> an \<open>UPDATE\<close> with a condition.
\<close>

definition lookup_key :: "('r \<Rightarrow> 'k) \<Rightarrow> 'k \<Rightarrow> 'r list \<Rightarrow> 'r option" where
  "lookup_key key k rows = List.find (\<lambda>r. key r = k) rows"

definition update_where :: "('r \<Rightarrow> bool) \<Rightarrow> ('r \<Rightarrow> 'r) \<Rightarrow> 'r list \<Rightarrow> 'r list" where
  "update_where P f rows = map (\<lambda>r. if P r then f r else r) rows"

definition update_key :: "('r \<Rightarrow> 'k) \<Rightarrow> 'k \<Rightarrow> ('r \<Rightarrow> 'r) \<Rightarrow> 'r list \<Rightarrow> 'r list" where
  "update_key key k = update_where (\<lambda>r. key r = k)"

lemma lookup_key_Nil [simp]: "lookup_key key k [] = None"
  by (simp add: lookup_key_def)

lemma lookup_key_Cons [simp]:
  "lookup_key key k (r # rows) = (if key r = k then Some r else lookup_key key k rows)"
  by (simp add: lookup_key_def)

lemma lookup_key_append:
  "lookup_key key k (xs @ ys) =
     (case lookup_key key k xs of Some r \<Rightarrow> Some r | None \<Rightarrow> lookup_key key k ys)"
  by (induction xs) auto

lemma lookup_key_SomeD:
  "lookup_key key k rows = Some r \<Longrightarrow> r \<in> set rows \<and> key r = k"
  by (induction rows) (auto split: if_splits)

lemma lookup_key_None_iff: "lookup_key key k rows = None \<longleftrightarrow> k \<notin> key ` set rows"
  by (induction rows) auto

lemma lookup_key_mem:
  "distinct (map key rows) \<Longrightarrow> r \<in> set rows \<Longrightarrow> lookup_key key (key r) rows = Some r"
  by (induction rows) auto

lemma update_where_Nil [simp]: "update_where P f [] = []"
  by (simp add: update_where_def)

lemma update_where_Cons [simp]:
  "update_where P f (r # rows) = (if P r then f r else r) # update_where P f rows"
  by (simp add: update_where_def)

lemma update_key_Nil [simp]: "update_key key k f [] = []"
  by (simp add: update_key_def)

lemma update_key_Cons [simp]:
  "update_key key k f (r # rows) = (if key r = k then f r else r) # update_key key k f rows"
  by (simp add: update_key_def)

lemma length_update_where [simp]: "length (update_where P f rows) = length rows"
  by (simp add: update_where_def)

lemma length_update_key [simp]: "length (update_key key k f rows) = length rows"
  by (simp add: update_key_def)

lemma set_update_where: "set (update_where P f rows) = (\<lambda>r. if P r then f r else r) ` set rows"
  by (simp add: update_where_def)

lemma in_update_where:
  assumes "r \<in> set (update_where P f rows)"
  obtains r0 where "r0 \<in> set rows" "r = (if P r0 then f r0 else r0)"
  using assms unfolding set_update_where by blast

lemma find_append: "List.find P (xs @ ys) = (case List.find P xs of Some x \<Rightarrow> Some x | None \<Rightarrow> List.find P ys)"
  by (induction xs) auto

lemma update_where_none: "(\<And>r. r \<in> set rows \<Longrightarrow> \<not> P r) \<Longrightarrow> update_where P f rows = rows"
  by (induction rows) auto

lemma map_update_where:
  "(\<And>r. g (f r) = g r) \<Longrightarrow> map g (update_where P f rows) = map g rows"
  by (simp add: update_where_def comp_def if_distrib cong: if_cong)

lemma map_update_key:
  "(\<And>r. g (f r) = g r) \<Longrightarrow> map g (update_key key k f rows) = map g rows"
  by (simp add: update_key_def map_update_where)

lemma lookup_key_update_where:
  "(\<And>r. key (f r) = key r) \<Longrightarrow>
   lookup_key key k (update_where P f rows) =
     map_option (\<lambda>r. if P r then f r else r) (lookup_key key k rows)"
  by (induction rows) auto

text \<open>The first rows of a sorted table: what a \<open>LIMIT\<close> leaves out comes later in the order.\<close>

lemma in_take_sort_keyD: "x \<in> set (take n (sort_key k xs)) \<Longrightarrow> x \<in> set xs"
  by (drule in_set_takeD) simp

lemma take_sort_key:
  assumes "x \<in> set xs" "x \<notin> set (take n (sort_key k xs))"
  shows "length (take n (sort_key k xs)) = n" "\<forall>y\<in>set (take n (sort_key k xs)). k y \<le> k x"
proof -
  let ?s = "sort_key k xs"
  have "x \<in> set (take n ?s @ drop n ?s)" using assms(1) by simp
  then have d: "x \<in> set (drop n ?s)" using assms(2) by (metis Un_iff set_append)
  then have "n < length ?s" by (metis drop_all empty_iff leI list.set(1))
  then show "length (take n ?s) = n" by simp
  have "sorted (map k (take n ?s @ drop n ?s))" by simp
  then show "\<forall>y\<in>set (take n ?s). k y \<le> k x"
    using d unfolding map_append sorted_append by auto
qed

text \<open>A second key: rows that the outer key does not separate keep the order of the inner one.\<close>

lemma take_sort_key_tie:
  assumes "x \<in> set (take n (sort_key f (sort_key g xs)))" "y \<in> set xs"
    "y \<notin> set (take n (sort_key f (sort_key g xs)))" "f x = f y"
  shows "g x \<le> g y"
proof -
  let ?s = "sort_key f (sort_key g xs)"
  have "y \<in> set (take n ?s @ drop n ?s)" using assms(2) by simp
  then have y: "y \<in> set (drop n ?s)" using assms(3) by (metis Un_iff set_append)
  have "filter (\<lambda>z. f z = f y) (take n ?s @ drop n ?s) = filter (\<lambda>z. f z = f y) (sort_key g xs)"
    unfolding append_take_drop_id by (rule sort_key_stable)
  moreover have "sorted (map g (filter (\<lambda>z. f z = f y) (sort_key g xs)))"
    by (rule sorted_filter) simp
  ultimately have "sorted (map g (filter (\<lambda>z. f z = f y) (take n ?s)) @
      map g (filter (\<lambda>z. f z = f y) (drop n ?s)))"
    by (metis filter_append map_append)
  then show ?thesis
    using assms(1,4) y unfolding sorted_append by fastforce
qed

text \<open>
  The contract of an update that keeps the primary key, whatever else it writes: it is met by
  every \<open>UPDATE ... WHERE id = $1\<close> of the model.
\<close>

locale row_update =
  fixes key :: "'r \<Rightarrow> 'k" and upd :: "'a \<Rightarrow> 'r \<Rightarrow> 'r"
  assumes upd_key: "key (upd a r) = key r"
begin

lemma keys_kept: "map key (update_key key k (upd a) rows) = map key rows"
  by (simp add: map_update_key upd_key)

lemma lookup_updated:
  "lookup_key key k (update_key key k (upd a) rows) = map_option (upd a) (lookup_key key k rows)"
  by (induction rows) (auto simp: upd_key)

lemma lookup_other:
  "k' \<noteq> k \<Longrightarrow> lookup_key key k' (update_key key k (upd a) rows) = lookup_key key k' rows"
  by (induction rows) (auto simp: upd_key)

lemma lookup_any:
  "lookup_key key k' (update_key key k (upd a) rows) =
     (if k' = k then map_option (upd a) (lookup_key key k rows) else lookup_key key k' rows)"
  by (simp add: lookup_updated lookup_other)

lemma distinct_kept:
  "distinct (map key rows) \<Longrightarrow> distinct (map key (update_key key k (upd a) rows))"
  by (simp add: keys_kept)

end

section \<open>Life cycles\<close>

text \<open>
  The contract shared by the state machines of runs and jobs: terminal states are the stuck
  ones, a rank rises on every step that does not enter one of the \<open>resting\<close> states (the
  states a life cycle may come back to), and the rank is bounded.
\<close>

locale life_cycle =
  fixes step :: "'s \<Rightarrow> 's \<Rightarrow> bool" and terminal :: "'s \<Rightarrow> bool"
    and resting :: "'s \<Rightarrow> bool" and rank :: "'s \<Rightarrow> nat" and top :: nat
  assumes terminal_stuck: "terminal s \<Longrightarrow> \<not> step s t"
    and nonterminal_moves: "\<not> terminal s \<Longrightarrow> \<exists>t. step s t"
    and rank_rises: "step s t \<Longrightarrow> \<not> resting s \<Longrightarrow> \<not> resting t \<Longrightarrow> rank s < rank t"
    and rank_top: "rank s \<le> top"
begin

lemma terminal_iff_stuck: "terminal s \<longleftrightarrow> (\<forall>t. \<not> step s t)"
  using terminal_stuck nonterminal_moves by blast

lemma path_rank:
  "successively step (s # xs) \<Longrightarrow> (\<And>x. x \<in> set (s # xs) \<Longrightarrow> \<not> resting x) \<Longrightarrow>
   rank s + length xs \<le> top"
proof (induction xs arbitrary: s)
  case Nil
  then show ?case by (simp add: rank_top)
next
  case (Cons x xs)
  have "rank s < rank x"
    using Cons.prems by (intro rank_rises) auto
  moreover have "rank x + length xs \<le> top"
    using Cons.prems by (intro Cons.IH) auto
  ultimately show ?case by simp
qed

lemma path_after_terminal: "successively step (s # xs) \<Longrightarrow> terminal s \<Longrightarrow> xs = []"
  by (cases xs) (auto simp: terminal_stuck)

end

end
