(* ===== verification/Backoff.thy ===== *)
theory Backoff
  imports Go_Std
begin

text \<open>
  Retry delays. The executor (\<open>internal/executor/orchestrator.go\<close>), the queue processor
  (\<open>internal/queue/processor.go\<close>) and the worker dispatcher (\<open>internal/worker/dispatcher.go\<close>)
  each have their own \<open>calculateBackoff\<close> and their own parser of the comma-separated list of
  durations; the contract the three meet is the locale \<open>backoff\<close>. \<open>None\<close> is the panic of an
  index out of range.
\<close>

section \<open>The three copies\<close>

definition executor_calculateBackoff :: "instant \<Rightarrow> int \<Rightarrow> duration list \<Rightarrow> instant option" where
  "executor_calculateBackoff from attempt backoffs =
     (if backoffs = [] then Some (from + minute)
      else let i = attempt - 1;
               idx = (if i \<ge> int (length backoffs) then int (length backoffs) - 1 else i)
           in if idx < 0 then None else Some (from + backoffs ! nat idx))"

definition queue_calculateBackoff :: "instant \<Rightarrow> int \<Rightarrow> duration list \<Rightarrow> instant option" where
  "queue_calculateBackoff from attempt backoffs =
     (if backoffs = [] then Some (from + minute)
      else let i = attempt - 1;
               idx = (if i \<ge> int (length backoffs) then int (length backoffs) - 1 else i)
           in if idx < 0 then None else Some (from + backoffs ! nat idx))"

definition worker_calculateBackoff :: "instant \<Rightarrow> int \<Rightarrow> duration list \<Rightarrow> instant option" where
  "worker_calculateBackoff from attempt backoffs =
     (if backoffs = [] then Some (from + minute)
      else let i = attempt - 1;
               idx = (if i \<ge> int (length backoffs) then int (length backoffs) - 1 else i)
           in if idx < 0 then None else Some (from + backoffs ! nat idx))"

text \<open>The parts that parse as durations, in order; the others are dropped.\<close>

fun parse_parts :: "string list \<Rightarrow> duration list" where
  "parse_parts [] = []"
| "parse_parts (part # parts) =
     (case ParseDuration (TrimSpace part) of
        Some d \<Rightarrow> d # parse_parts parts
      | None \<Rightarrow> parse_parts parts)"

definition executor_parseBackoffList :: "string option \<Rightarrow> duration list" where
  "executor_parseBackoffList s =
     (case s of None \<Rightarrow> [] | Some t \<Rightarrow> parse_parts (strings_Split (CHR '','') t))"

definition getBackoffListFromString :: "string \<Rightarrow> duration list" where
  "getBackoffListFromString s = parse_parts (strings_Split (CHR '','') s)"

definition worker_parseBackoffList :: "string \<Rightarrow> string option \<Rightarrow> duration list" where
  "worker_parseBackoffList defaultBackoff override =
     (let backoffStr = (case override of None \<Rightarrow> defaultBackoff | Some s \<Rightarrow> s)
      in parse_parts (strings_Split (CHR '','') backoffStr))"

section \<open>The contract\<close>

locale backoff =
  fixes next_at :: "instant \<Rightarrow> int \<Rightarrow> duration list \<Rightarrow> instant option"
  assumes default_minute: "next_at from attempt [] = Some (from + minute)"
    and entry: "bs \<noteq> [] \<Longrightarrow> 1 \<le> attempt \<Longrightarrow>
      next_at from attempt bs = Some (from + bs ! min (nat (attempt - 1)) (length bs - 1))"
    and out_of_range: "bs \<noteq> [] \<Longrightarrow> attempt < 1 \<Longrightarrow> next_at from attempt bs = None"
begin

lemma panics_iff: "next_at from attempt bs = None \<longleftrightarrow> bs \<noteq> [] \<and> attempt < 1"
  using default_minute entry out_of_range
  by (metis not_le_imp_less option.distinct(1) linorder_not_le)

lemma first_attempt: "bs \<noteq> [] \<Longrightarrow> next_at from 1 bs = Some (from + hd bs)"
  by (simp add: entry hd_conv_nth)

lemma saturates:
  assumes "bs \<noteq> []" "int (length bs) \<le> attempt"
  shows "next_at from attempt bs = Some (from + last bs)"
proof -
  have "0 < length bs" using assms(1) by simp
  then have "1 \<le> attempt" "min (nat (attempt - 1)) (length bs - 1) = length bs - 1"
    using assms(2) by linarith+
  then show ?thesis using assms(1) entry last_conv_nth by metis
qed

lemma delay_from_list:
  assumes "1 \<le> attempt" "next_at from attempt bs = Some t"
  shows "t - from \<in> insert minute (set bs)"
proof (cases "bs = []")
  case True
  then show ?thesis using assms by (simp add: default_minute)
next
  case False
  then have "min (nat (attempt - 1)) (length bs - 1) < length bs"
    by (simp add: min_less_iff_disj)
  then show ?thesis using assms False by (auto simp: entry)
qed

lemma monotone_in_attempt:
  assumes "sorted bs" "1 \<le> a" "a \<le> b" "next_at from a bs = Some t" "next_at from b bs = Some u"
  shows "t \<le> u"
proof (cases "bs = []")
  case True
  then show ?thesis using assms by (simp add: default_minute)
next
  case False
  have "min (nat (a - 1)) (length bs - 1) \<le> min (nat (b - 1)) (length bs - 1)"
    using assms(3) by (intro min.mono) auto
  moreover have "min (nat (b - 1)) (length bs - 1) < length bs"
    using False by (simp add: min_less_iff_disj)
  ultimately have "bs ! min (nat (a - 1)) (length bs - 1) \<le> bs ! min (nat (b - 1)) (length bs - 1)"
    using assms(1) by (intro sorted_nth_mono) auto
  then show ?thesis using assms False by (auto simp: entry)
qed

end

interpretation executor_backoff: backoff executor_calculateBackoff
  by unfold_locales
    (auto simp: executor_calculateBackoff_def Let_def min_def nat_diff_distrib'
      intro!: arg_cong[of _ _ "(!) _"])

interpretation queue_backoff: backoff queue_calculateBackoff
  by unfold_locales
    (auto simp: queue_calculateBackoff_def Let_def min_def nat_diff_distrib'
      intro!: arg_cong[of _ _ "(!) _"])

interpretation worker_backoff: backoff worker_calculateBackoff
  by unfold_locales
    (auto simp: worker_calculateBackoff_def Let_def min_def nat_diff_distrib'
      intro!: arg_cong[of _ _ "(!) _"])

section \<open>Properties\<close>

text \<open>
  C21: the three copies of \<open>calculateBackoff\<close> compute the same instant, for every attempt and every
  list, and panic on the same inputs.
\<close>

theorem backoff_copies_agree:
  "executor_calculateBackoff from attempt bs = queue_calculateBackoff from attempt bs \<and>
   queue_calculateBackoff from attempt bs = worker_calculateBackoff from attempt bs \<and>
   (executor_calculateBackoff from attempt bs = None \<longleftrightarrow> bs \<noteq> [] \<and> attempt < 1)"
proof -
  have "executor_calculateBackoff from attempt bs = queue_calculateBackoff from attempt bs"
    by (simp add: executor_calculateBackoff_def queue_calculateBackoff_def)
  moreover have "queue_calculateBackoff from attempt bs = worker_calculateBackoff from attempt bs"
    by (simp add: queue_calculateBackoff_def worker_calculateBackoff_def)
  ultimately show ?thesis using executor_backoff.panics_iff[of "from" attempt bs] by blast
qed

text \<open>
  With a sorted list of delays the retries of a run never come closer together: the delay
  after an attempt grows with the attempt, until the last entry of the list is kept for ever.
\<close>

theorem backoff_monotone:
  assumes "sorted bs" "1 \<le> a" "a \<le> b"
  shows "\<exists>t u. executor_calculateBackoff from a bs = Some t \<and> executor_calculateBackoff from b bs = Some u \<and>
    t \<le> u \<and> (bs \<noteq> [] \<and> int (length bs) \<le> b \<longrightarrow> u = from + last bs)"
proof -
  have "executor_calculateBackoff from a bs \<noteq> None" "executor_calculateBackoff from b bs \<noteq> None"
    using assms by (auto simp: executor_backoff.panics_iff)
  then obtain t u where tu: "executor_calculateBackoff from a bs = Some t"
    "executor_calculateBackoff from b bs = Some u" by blast
  have "t \<le> u" by (rule executor_backoff.monotone_in_attempt[OF assms tu])
  moreover have "u = from + last bs" if "bs \<noteq> []" "int (length bs) \<le> b"
    using executor_backoff.saturates[OF that, of "from"] tu by simp
  ultimately show ?thesis using tu by blast
qed

theorem backoff_monotone_witness:
  "\<exists>t u. executor_calculateBackoff 0 1 [second, minute] = Some t \<and>
    executor_calculateBackoff 0 7 [second, minute] = Some u \<and> t \<le> u \<and> u = minute"
  using backoff_monotone[of "[second, minute]" 1 7 0] by auto

end
