(* ===== verification/Run_State.thy ===== *)
theory Run_State
  imports Prelude
begin

text \<open>
  The run state machine, \<open>internal/runstate/state.go\<close>: the states, the table of allowed
  transitions, \<open>ValidateTransition\<close> and the predicates on states.
\<close>

section \<open>States\<close>

datatype run_state =
    Pending | WaitingForWorker | Queued | Running | Retrying | KillRequested
  | Completed | Failed | Hung | Killed | Skipped | Cancelled | Paused | WaitingForChoice

fun state_name :: "run_state \<Rightarrow> string" where
  "state_name Pending = ''pending''"
| "state_name WaitingForWorker = ''waiting_for_worker''"
| "state_name Queued = ''queued''"
| "state_name Running = ''running''"
| "state_name Retrying = ''retrying''"
| "state_name KillRequested = ''kill_requested''"
| "state_name Completed = ''completed''"
| "state_name Failed = ''failed''"
| "state_name Hung = ''hung''"
| "state_name Killed = ''killed''"
| "state_name Skipped = ''skipped''"
| "state_name Cancelled = ''cancelled''"
| "state_name Paused = ''paused''"
| "state_name WaitingForChoice = ''waiting_for_choice''"

definition AllStates :: "run_state list" where
  "AllStates =
     [Pending, WaitingForWorker, Queued, Running, Retrying, KillRequested,
      Completed, Failed, Hung, Killed, Skipped, Cancelled, Paused, WaitingForChoice]"

text \<open>There are no other states: statements about all of them can be evaluated.\<close>

instantiation run_state :: enum
begin

definition enum_run_state :: "run_state list" where
  "enum_run_state = AllStates"

definition enum_all_run_state :: "(run_state \<Rightarrow> bool) \<Rightarrow> bool" where
  "enum_all_run_state P = list_all P AllStates"

definition enum_ex_run_state :: "(run_state \<Rightarrow> bool) \<Rightarrow> bool" where
  "enum_ex_run_state P = list_ex P AllStates"

instance
proof
  show all: "UNIV = set (enum_class.enum :: run_state list)"
    unfolding enum_run_state_def AllStates_def by (auto intro: run_state.exhaust)
  show "distinct (enum_class.enum :: run_state list)"
    by (simp add: enum_run_state_def AllStates_def)
  show "enum_class.enum_all P \<longleftrightarrow> Ball UNIV P" for P :: "run_state \<Rightarrow> bool"
    unfolding all by (simp add: enum_run_state_def enum_all_run_state_def list_all_iff)
  show "enum_class.enum_ex P \<longleftrightarrow> Bex UNIV P" for P :: "run_state \<Rightarrow> bool"
    unfolding all by (simp add: enum_run_state_def enum_ex_run_state_def list_ex_iff)
qed

end

text \<open>The key of the Go map \<open>validTransitions\<close> that a string names, if any.\<close>

definition state_of :: "string \<Rightarrow> run_state option" where
  "state_of s = List.find (\<lambda>st. state_name st = s) AllStates"

fun validTransitions :: "run_state \<Rightarrow> run_state list" where
  "validTransitions Pending = [WaitingForWorker, Queued, Running, Skipped, Cancelled, Paused]"
| "validTransitions WaitingForWorker = [Running, Cancelled]"
| "validTransitions Queued = [Running, Cancelled, Paused]"
| "validTransitions Running = [Completed, Failed, Hung, KillRequested, Retrying, WaitingForChoice]"
| "validTransitions Retrying = [Running, Failed, Cancelled, Killed]"
| "validTransitions KillRequested = [Killed]"
| "validTransitions Completed = []"
| "validTransitions Failed = []"
| "validTransitions Hung = [Retrying, Failed]"
| "validTransitions Killed = []"
| "validTransitions Skipped = []"
| "validTransitions Cancelled = []"
| "validTransitions Paused = [Pending]"
| "validTransitions WaitingForChoice = [Completed, Cancelled]"

datatype transition_error = UnknownState string | InvalidTransition string string

definition ValidateTransition :: "string \<Rightarrow> string \<Rightarrow> transition_error + unit" where
  "ValidateTransition from to =
     (case state_of from of
        None \<Rightarrow> Inl (UnknownState from)
      | Some f \<Rightarrow>
          if List.member (map state_name (validTransitions f)) to then Inr ()
          else Inl (InvalidTransition from to))"

fun IsTerminal :: "run_state \<Rightarrow> bool" where
  "IsTerminal Completed = True"
| "IsTerminal Failed = True"
| "IsTerminal Killed = True"
| "IsTerminal Skipped = True"
| "IsTerminal Cancelled = True"
| "IsTerminal _ = False"

definition IsFinalTerminal :: "run_state \<Rightarrow> bool" where
  "IsFinalTerminal s = IsTerminal s"

fun IsActive :: "run_state \<Rightarrow> bool" where
  "IsActive Running = True"
| "IsActive Retrying = True"
| "IsActive KillRequested = True"
| "IsActive _ = False"

fun BlocksOverlap :: "run_state \<Rightarrow> bool" where
  "BlocksOverlap Running = True"
| "BlocksOverlap Retrying = True"
| "BlocksOverlap KillRequested = True"
| "BlocksOverlap Queued = True"
| "BlocksOverlap _ = False"

fun ContinuesFixedDelayChain :: "run_state \<Rightarrow> bool" where
  "ContinuesFixedDelayChain Completed = True"
| "ContinuesFixedDelayChain Failed = True"
| "ContinuesFixedDelayChain Hung = True"
| "ContinuesFixedDelayChain Killed = True"
| "ContinuesFixedDelayChain Cancelled = True"
| "ContinuesFixedDelayChain Paused = False"
| "ContinuesFixedDelayChain _ = False"

section \<open>The machine as a relation\<close>

definition run_step :: "run_state \<Rightarrow> run_state \<Rightarrow> bool" where
  "run_step s t \<longleftrightarrow> ValidateTransition (state_name s) (state_name t) = Inr ()"

lemma state_names_differ: "\<forall>s t. state_name s = state_name t \<longrightarrow> s = t"
  by code_simp

lemma state_name_inj [simp]: "state_name s = state_name t \<longleftrightarrow> s = t"
  using state_names_differ by blast

lemma in_AllStates [simp]: "s \<in> set AllStates"
  using UNIV_enum [where 'a = run_state] by (simp add: enum_run_state_def [symmetric])

lemma state_of_name [simp]: "state_of (state_name s) = Some s"
  by (cases s) (simp_all add: state_of_def AllStates_def)

lemma state_of_SomeD: "state_of x = Some s \<Longrightarrow> x = state_name s"
  unfolding state_of_def by (auto simp: find_Some_iff)

lemma run_step_iff [simp]: "run_step s t \<longleftrightarrow> t \<in> set (validTransitions s)"
  by (auto simp: run_step_def ValidateTransition_def image_iff)

text \<open>
  The rank of a state: how far along a run is. Only \<open>Retrying\<close> and \<open>Paused\<close> are entered
  again and again.
\<close>

fun run_rank :: "run_state \<Rightarrow> nat" where
  "run_rank Pending = 0"
| "run_rank WaitingForWorker = 1"
| "run_rank Queued = 1"
| "run_rank Running = 2"
| "run_rank KillRequested = 3"
| "run_rank Hung = 3"
| "run_rank WaitingForChoice = 3"
| "run_rank _ = 4"

definition run_resting :: "run_state \<Rightarrow> bool" where
  "run_resting s \<longleftrightarrow> s = Retrying \<or> s = Paused"

interpretation run_cycle: life_cycle run_step IsTerminal run_resting run_rank 4
proof
  fix s t
  show "IsTerminal s \<Longrightarrow> \<not> run_step s t"
    by (cases s) simp_all
  show "\<not> IsTerminal s \<Longrightarrow> \<exists>t. run_step s t"
    by (cases s) auto
  show "run_step s t \<Longrightarrow> \<not> run_resting s \<Longrightarrow> \<not> run_resting t \<Longrightarrow> run_rank s < run_rank t"
    by (cases s) (auto simp: run_resting_def)
  show "run_rank s \<le> 4"
    by (cases s) simp_all
qed

section \<open>Properties\<close>

lemma terminal_no_targets: "IsTerminal s \<Longrightarrow> validTransitions s = []"
  by (cases s) simp_all

text \<open>
  The terminal states are exactly those from which \<open>ValidateTransition\<close> rejects every target,
  known or unknown.
\<close>

theorem terminal_iff_no_transition:
  "IsTerminal s \<longleftrightarrow> (\<forall>t. ValidateTransition (state_name s) t \<noteq> Inr ())"
proof
  assume "IsTerminal s"
  then show "\<forall>t. ValidateTransition (state_name s) t \<noteq> Inr ()"
    using terminal_no_targets[of s] by (simp add: ValidateTransition_def)
next
  assume r: "\<forall>t. ValidateTransition (state_name s) t \<noteq> Inr ()"
  have "\<not> run_step s t" for t using r by (simp add: run_step_def del: run_step_iff)
  then show "IsTerminal s" using run_cycle.terminal_iff_stuck by blast
qed

lemma not_running_yet:
  "successively run_step (s # xs) \<Longrightarrow> Running \<notin> set xs \<Longrightarrow>
   s \<in> {Pending, WaitingForWorker, Queued, Paused, Skipped, Cancelled} \<Longrightarrow>
   set xs \<subseteq> {Pending, WaitingForWorker, Queued, Paused, Skipped, Cancelled}"
proof (induction xs arbitrary: s)
  case Nil
  then show ?case by simp
next
  case (Cons x xs)
  have "x \<in> {Pending, WaitingForWorker, Queued, Paused, Skipped, Cancelled}"
    using Cons.prems by (cases s) auto
  then show ?case using Cons.IH[of x] Cons.prems by auto
qed

text \<open>
  Along the table of transitions a pending run cannot complete, fail, hang, be killed or
  come to a retry without having been running.
\<close>

theorem outcome_needs_running:
  assumes "successively run_step (Pending # xs)"
    and "xs \<noteq> []" "last xs \<in> {Completed, Failed, Hung, Killed, Retrying, KillRequested, WaitingForChoice}"
  shows "Running \<in> set xs"
proof (rule ccontr)
  assume "Running \<notin> set xs"
  then have "set xs \<subseteq> {Pending, WaitingForWorker, Queued, Paused, Skipped, Cancelled}"
    using not_running_yet assms(1) by blast
  moreover have "last xs \<in> set xs" using assms(2) by simp
  ultimately show False using assms(3) by auto
qed

theorem outcome_needs_running_witness: "Running \<in> set [Queued, Running, Completed]"
  by (rule outcome_needs_running) simp_all

text \<open>
  A run that is neither retried nor paused goes through at most five states, and only a
  finite number of transitions lie between two retries or pauses.
\<close>

theorem run_path_bounded:
  assumes "successively run_step (s # xs)" "\<forall>x\<in>set (s # xs). x \<noteq> Retrying \<and> x \<noteq> Paused"
  shows "length xs + run_rank s \<le> 4"
  using run_cycle.path_rank[OF assms(1)] assms(2) by (auto simp: run_resting_def)

theorem run_path_bounded_witness: "length [Queued, Running, KillRequested, Killed] + run_rank Pending \<le> 4"
  by (rule run_path_bounded) simp_all

end
