(* ===== verification/Job_State.thy ===== *)
theory Job_State
  imports Prelude
begin

text \<open>
  The job state machine of the queues, \<open>internal/jobstate/state.go\<close>. Its constants have the
  names of the run states; here they carry the prefix \<open>Job\<close>.
\<close>

datatype job_state =
    JobPending | JobWaitingForWorker | JobRunning | JobRetrying | JobKillRequested
  | JobCompleted | JobFailed | JobKilled | JobCancelled

fun job_state_name :: "job_state \<Rightarrow> string" where
  "job_state_name JobPending = ''pending''"
| "job_state_name JobWaitingForWorker = ''waiting_for_worker''"
| "job_state_name JobRunning = ''running''"
| "job_state_name JobRetrying = ''retrying''"
| "job_state_name JobKillRequested = ''kill_requested''"
| "job_state_name JobCompleted = ''completed''"
| "job_state_name JobFailed = ''failed''"
| "job_state_name JobKilled = ''killed''"
| "job_state_name JobCancelled = ''cancelled''"

definition job_states :: "job_state list" where
  "job_states = [JobPending, JobWaitingForWorker, JobRunning, JobRetrying, JobKillRequested,
     JobCompleted, JobFailed, JobKilled, JobCancelled]"

text \<open>There are no other states: statements about all of them can be evaluated.\<close>

instantiation job_state :: enum
begin

definition enum_job_state :: "job_state list" where
  "enum_job_state = job_states"

definition enum_all_job_state :: "(job_state \<Rightarrow> bool) \<Rightarrow> bool" where
  "enum_all_job_state P = list_all P job_states"

definition enum_ex_job_state :: "(job_state \<Rightarrow> bool) \<Rightarrow> bool" where
  "enum_ex_job_state P = list_ex P job_states"

instance
proof
  show all: "UNIV = set (enum_class.enum :: job_state list)"
    unfolding enum_job_state_def job_states_def by (auto intro: job_state.exhaust)
  show "distinct (enum_class.enum :: job_state list)"
    by (simp add: enum_job_state_def job_states_def)
  show "enum_class.enum_all P \<longleftrightarrow> Ball UNIV P" for P :: "job_state \<Rightarrow> bool"
    unfolding all by (simp add: enum_job_state_def enum_all_job_state_def list_all_iff)
  show "enum_class.enum_ex P \<longleftrightarrow> Bex UNIV P" for P :: "job_state \<Rightarrow> bool"
    unfolding all by (simp add: enum_job_state_def enum_ex_job_state_def list_ex_iff)
qed

end

definition job_state_of :: "string \<Rightarrow> job_state option" where
  "job_state_of s = List.find (\<lambda>st. job_state_name st = s) job_states"

fun job_validTransitions :: "job_state \<Rightarrow> job_state list" where
  "job_validTransitions JobPending = [JobWaitingForWorker, JobRunning, JobCancelled]"
| "job_validTransitions JobWaitingForWorker = [JobRunning, JobCancelled]"
| "job_validTransitions JobRunning = [JobCompleted, JobFailed, JobRetrying, JobKillRequested]"
| "job_validTransitions JobRetrying = [JobRunning, JobFailed, JobCancelled, JobKilled]"
| "job_validTransitions JobKillRequested = [JobKilled]"
| "job_validTransitions JobCompleted = []"
| "job_validTransitions JobFailed = []"
| "job_validTransitions JobKilled = []"
| "job_validTransitions JobCancelled = []"

datatype job_transition_error = UnknownJobState string | InvalidJobTransition string string

definition job_ValidateTransition :: "string \<Rightarrow> string \<Rightarrow> job_transition_error + unit" where
  "job_ValidateTransition from to =
     (case job_state_of from of
        None \<Rightarrow> Inl (UnknownJobState from)
      | Some f \<Rightarrow>
          if List.member (map job_state_name (job_validTransitions f)) to then Inr ()
          else Inl (InvalidJobTransition from to))"

fun job_IsTerminal :: "job_state \<Rightarrow> bool" where
  "job_IsTerminal JobCompleted = True"
| "job_IsTerminal JobFailed = True"
| "job_IsTerminal JobKilled = True"
| "job_IsTerminal JobCancelled = True"
| "job_IsTerminal _ = False"

definition job_IsReplayable :: "job_state \<Rightarrow> bool" where
  "job_IsReplayable s = job_IsTerminal s"

section \<open>The machine as a relation\<close>

definition job_step :: "job_state \<Rightarrow> job_state \<Rightarrow> bool" where
  "job_step s t \<longleftrightarrow> job_ValidateTransition (job_state_name s) (job_state_name t) = Inr ()"

lemma job_state_names_differ: "\<forall>s t. job_state_name s = job_state_name t \<longrightarrow> s = t"
  by code_simp

lemma job_state_name_inj [simp]: "job_state_name s = job_state_name t \<longleftrightarrow> s = t"
  using job_state_names_differ by blast

lemma job_state_of_name [simp]: "job_state_of (job_state_name s) = Some s"
  by (cases s) (simp_all add: job_state_of_def job_states_def)

lemma job_state_of_SomeD: "job_state_of x = Some s \<Longrightarrow> x = job_state_name s"
  unfolding job_state_of_def by (auto simp: find_Some_iff)

lemma job_step_iff [simp]: "job_step s t \<longleftrightarrow> t \<in> set (job_validTransitions s)"
  by (auto simp: job_step_def job_ValidateTransition_def image_iff)

fun job_rank :: "job_state \<Rightarrow> nat" where
  "job_rank JobPending = 0"
| "job_rank JobWaitingForWorker = 1"
| "job_rank JobRunning = 2"
| "job_rank JobKillRequested = 3"
| "job_rank _ = 4"

definition job_resting :: "job_state \<Rightarrow> bool" where
  "job_resting s \<longleftrightarrow> s = JobRetrying"

interpretation job_cycle: life_cycle job_step job_IsTerminal job_resting job_rank 4
proof
  fix s t
  show "job_IsTerminal s \<Longrightarrow> \<not> job_step s t"
    by (cases s) simp_all
  show "\<not> job_IsTerminal s \<Longrightarrow> \<exists>t. job_step s t"
    by (cases s) auto
  show "job_step s t \<Longrightarrow> \<not> job_resting s \<Longrightarrow> \<not> job_resting t \<Longrightarrow> job_rank s < job_rank t"
    by (cases s) (auto simp: job_resting_def)
  show "job_rank s \<le> 4"
    by (cases s) simp_all
qed

lemma job_terminal_no_targets: "job_IsTerminal s \<Longrightarrow> job_validTransitions s = []"
  by (cases s) simp_all

text \<open>
  The terminal job states are exactly those from which the table of the job state machine
  rejects every target.
\<close>

theorem job_terminal_iff_no_transition:
  "job_IsTerminal s \<longleftrightarrow> (\<forall>t. job_ValidateTransition (job_state_name s) t \<noteq> Inr ())"
proof
  assume "job_IsTerminal s"
  then show "\<forall>t. job_ValidateTransition (job_state_name s) t \<noteq> Inr ()"
    using job_terminal_no_targets[of s] by (simp add: job_ValidateTransition_def)
next
  assume r: "\<forall>t. job_ValidateTransition (job_state_name s) t \<noteq> Inr ()"
  have "\<not> job_step s t" for t using r by (simp add: job_step_def del: job_step_iff)
  then show "job_IsTerminal s" using job_cycle.terminal_iff_stuck by blast
qed

end
