(* ===== verification/Schema.thy ===== *)
theory Schema
  imports Complex_Main Run_State Job_State Go_Std
begin

text \<open>
  The rows of the database, \<open>internal/db/models.go\<close>, with the column types of \<open>migrations/\<close>:
  a nullable column is an \<open>option\<close>, a \<open>NOT NULL\<close> column is not; the columns \<open>runs.state\<close> and
  \<open>jobs.state\<close>, whose \<open>CHECK\<close> constraints list exactly the constants of the Go packages
  \<open>runstate\<close> and \<open>jobstate\<close>, have the datatypes of those packages. A \<open>JSONB\<close> column holds a
  JSON value, an \<open>INTEGER\<close> or \<open>BIGINT\<close> an \<open>int\<close>.
\<close>

section \<open>JSON\<close>

datatype json =
    JNull
  | JBool bool
  | JNum rat
  | JStr string
  | JArr "json list"
  | JObj "(string \<times> json) list"

text \<open>
  \<open>json.Unmarshal\<close> into a \<open>map[string]any\<close>: \<open>null\<close> leaves the map nil, anything but an object
  is an error. A Go map is nil (\<open>None\<close>) or the list of its entries, last binding first met.
\<close>

type_synonym go_map = "(string \<times> json) list"

fun unmarshal_map :: "json \<Rightarrow> go_map option option" where
  "unmarshal_map JNull = Some None"
| "unmarshal_map (JObj kvs) = Some (Some kvs)"
| "unmarshal_map _ = None"

text \<open>Into a \<open>[]string\<close>; \<open>null\<close> as an element leaves the empty string.\<close>

fun unmarshal_string :: "json \<Rightarrow> string option" where
  "unmarshal_string JNull = Some []"
| "unmarshal_string (JStr s) = Some s"
| "unmarshal_string _ = None"

fun unmarshal_strings :: "json \<Rightarrow> string list option" where
  "unmarshal_strings JNull = Some []"
| "unmarshal_strings (JArr xs) = those (map unmarshal_string xs)"
| "unmarshal_strings _ = None"

text \<open>Assignment to a key of a map.\<close>

definition map_put :: "string \<Rightarrow> json \<Rightarrow> go_map \<Rightarrow> go_map" where
  "map_put k v m = (k, v) # filter (\<lambda>kv. fst kv \<noteq> k) m"

definition map_delete :: "string \<Rightarrow> go_map \<Rightarrow> go_map" where
  "map_delete k m = filter (\<lambda>kv. fst kv \<noteq> k) m"

text \<open>The type assertion \<open>m[k].(string)\<close> with its zero value.\<close>

definition map_string :: "go_map \<Rightarrow> string \<Rightarrow> string" where
  "map_string m k = (case map_of m k of Some (JStr s) \<Rightarrow> s | _ \<Rightarrow> [])"

lemma map_of_map_put [simp]: "map_of (map_put k v m) = (map_of m)(k \<mapsto> v)"
proof -
  have "map_of (filter (\<lambda>kv. fst kv \<noteq> k) m) x = (if x = k then None else map_of m x)" for x
    by (induction m) auto
  then show ?thesis by (auto simp: map_put_def)
qed

lemma map_of_map_delete [simp]: "map_of (map_delete k m) = (map_of m)(k := None)"
  by (induction m) (auto simp: map_delete_def fun_upd_def fun_eq_iff)

section \<open>SQL values\<close>

text \<open>\<open>pgtype.Interval\<close>\<close>

record interval =
  iv_microseconds :: int
  iv_days :: int
  iv_months :: int

text \<open>\<open>COALESCE(new, old)\<close>\<close>

fun coalesce :: "'a option \<Rightarrow> 'a option \<Rightarrow> 'a option" where
  "coalesce (Some x) _ = Some x"
| "coalesce None y = y"

section \<open>Rows\<close>

record workspace =
  wsp_id :: string
  wsp_slug :: string
  wsp_name :: string
  wsp_state :: string
  wsp_default_timezone :: string
  wsp_created_at :: instant
  wsp_updated_at :: instant

record worker =
  wk_id :: string
  wk_workspace_id :: string
  wk_name :: string
  wk_credential_hash :: string
  wk_labels :: json
  wk_capabilities :: json
  wk_max_concurrency :: int
  wk_version :: "string option"
  wk_enabled :: bool
  wk_status :: string
  wk_last_heartbeat_at :: "instant option"
  wk_consecutive_failures :: int
  wk_consecutive_healthy :: int
  wk_created_at :: instant
  wk_updated_at :: instant
  wk_enrollment_token_hash :: "string option"
  wk_enrollment_token_expires_at :: "instant option"

record process =
  p_id :: string
  p_workspace_id :: string
  p_name :: string
  p_schedule_type :: string
  p_schedule :: "string option"
  p_delay_duration :: "string option"
  p_timezone :: "string option"
  p_miss_policy :: "string option"
  p_max_recovery_slots :: int
  p_allow_parallel :: bool
  p_max_parallel :: int
  p_on_overlap :: string
  p_execution_method :: string
  p_runtime :: string
  p_method_config :: json
  p_max_attempts :: int
  p_retry_backoff :: "string option"
  p_execution_timeout :: interval
  p_heartbeat_timeout :: "interval option"
  p_timeout_action :: string
  p_ssh_credential_id :: "string option"
  p_ssm_profile_id :: "string option"
  p_k8s_cluster_id :: "string option"
  p_worker_id :: "string option"
  p_worker_labels :: "json option"
  p_depends_on_process_id :: "string option"
  p_dependency_type :: "string option"
  p_environment :: "json option"
  p_tags :: "string list"
  p_enabled :: bool
  p_created_at :: instant
  p_updated_at :: instant

record run =
  r_id :: string
  r_workspace_id :: string
  r_process_id :: string
  r_scheduled_at :: instant
  r_state :: run_state
  r_origin :: string
  r_attempt :: int
  r_max_attempts :: int
  r_next_attempt_at :: "instant option"
  r_started_at :: "instant option"
  r_finished_at :: "instant option"
  r_duration_ms :: "int option"
  r_exit_code :: "int option"
  r_progress_total :: "int option"
  r_progress_current :: "int option"
  r_progress :: "int option"
  r_progress_message :: "string option"
  r_last_heartbeat_at :: "instant option"
  r_queue_reason :: "string option"
  r_waiting_reason :: "string option"
  r_actor_type :: "string option"
  r_actor_id :: "string option"
  r_killed_by_actor_type :: "string option"
  r_killed_by_actor_id :: "string option"
  r_triggered_by_run_id :: "string option"
  r_replayed_from_run_id :: "string option"
  r_effective_config :: "json option"
  r_runtime :: "string option"
  r_worker_id :: "string option"
  r_tags :: "string list"
  r_created_at :: instant
  r_updated_at :: instant
  r_result :: "json option"
  r_orchestra_id :: "string option"
  r_orchestra_step :: "int option"
  r_choice_config :: "json option"
  r_chosen_index :: "int option"
  r_execution_handle :: "json option"
  r_stdout_offset :: int
  r_stderr_offset :: int

record run_attempt =
  ra_id :: string
  ra_run_id :: string
  ra_attempt_number :: int
  ra_started_at :: instant
  ra_finished_at :: "instant option"
  ra_duration_ms :: "int option"
  ra_exit_code :: "int option"
  ra_worker_id :: "string option"
  ra_error_message :: "string option"
  ra_created_at :: instant

record run_output =
  ro_id :: string
  ro_run_id :: string
  ro_stream :: string
  ro_content :: string
  ro_truncated :: bool
  ro_created_at :: instant

record heartbeat =
  hb_id :: string
  hb_run_id :: string
  hb_total :: "int option"
  hb_current :: "int option"
  hb_progress :: "int option"
  hb_message :: "string option"
  hb_created_at :: instant

record queue =
  q_id :: string
  q_workspace_id :: string
  q_name :: string
  q_execution_method :: string
  q_runtime :: string
  q_method_config :: json
  q_concurrency :: int
  q_max_attempts :: int
  q_retry_backoff :: string
  q_job_timeout :: interval
  q_max_response_size :: int
  q_ssh_credential_id :: "string option"
  q_ssm_profile_id :: "string option"
  q_k8s_cluster_id :: "string option"
  q_worker_id :: "string option"
  q_worker_labels :: "json option"
  q_tags :: "string list"
  q_enabled :: bool
  q_created_at :: instant
  q_updated_at :: instant

record job =
  j_id :: string
  j_workspace_id :: string
  j_queue_id :: string
  j_runtime_override :: "string option"
  j_worker_id_override :: "string option"
  j_worker_labels_override :: "json option"
  j_payload :: json
  j_priority :: int
  j_max_attempts :: "int option"
  j_attempt :: int
  j_retry_backoff :: "string option"
  j_state :: job_state
  j_scheduled_at :: instant
  j_expires_at :: "instant option"
  j_next_attempt_at :: "instant option"
  j_reference :: "string option"
  j_idempotency_key :: "string option"
  j_replayed_from_job_id :: "string option"
  j_cancel_reason :: "string option"
  j_waiting_reason :: "string option"
  j_actor_type :: "string option"
  j_actor_id :: "string option"
  j_effective_config :: "json option"
  j_tags :: "string list"
  j_worker_id :: "string option"
  j_duration_ms :: "int option"
  j_created_at :: instant
  j_updated_at :: instant
  j_execution_handle :: "json option"
  j_stdout_offset :: int
  j_stderr_offset :: int

record job_attempt =
  ja_id :: string
  ja_job_id :: string
  ja_attempt_number :: int
  ja_started_at :: instant
  ja_finished_at :: "instant option"
  ja_duration_ms :: "int option"
  ja_request :: json
  ja_response_code :: "int option"
  ja_response_headers :: "json option"
  ja_response_body :: "string option"
  ja_truncated :: bool
  ja_original_size :: "int option"
  ja_error_message :: "string option"
  ja_worker_id :: "string option"
  ja_created_at :: instant

record ssh_credential =
  sc_id :: string
  sc_workspace_id :: string
  sc_name :: string
  sc_private_key_enc :: string
  sc_fingerprint :: string
  sc_username :: "string option"
  sc_port :: "int option"
  sc_strict_host_key :: bool
  sc_created_at :: instant
  sc_updated_at :: instant

record ssm_profile =
  sm_id :: string
  sm_workspace_id :: string
  sm_name :: string
  sm_region :: string
  sm_role_arn :: "string option"
  sm_created_at :: instant
  sm_updated_at :: instant

record k8s_cluster =
  kc_id :: string
  kc_workspace_id :: string
  kc_name :: string
  kc_kubeconfig_enc :: string
  kc_default_namespace :: "string option"
  kc_created_at :: instant
  kc_updated_at :: instant

record api_key =
  ak_id :: string
  ak_workspace_id :: string
  ak_name :: string
  ak_key_hash :: string
  ak_key_prefix :: string
  ak_role :: string
  ak_expires_at :: "instant option"
  ak_created_by :: "string option"
  ak_last_used_at :: "instant option"
  ak_last_ip :: "string option"
  ak_last_user_agent :: "string option"
  ak_enabled :: bool
  ak_created_at :: instant

record user =
  u_id :: string
  u_email :: string
  u_name :: string
  u_auth_provider :: string
  u_password_hash :: "string option"
  u_email_verified :: bool
  u_active_workspace_id :: "string option"
  u_last_login_at :: "instant option"
  u_created_at :: instant
  u_updated_at :: instant
  u_is_platform_admin :: bool

record workspace_membership =
  mb_id :: string
  mb_workspace_id :: string
  mb_user_id :: string
  mb_role :: string
  mb_created_at :: instant
  mb_updated_at :: instant

record user_token =
  ut_id :: string
  ut_user_id :: string
  ut_token_hash :: string
  ut_token_type :: string
  ut_expires_at :: instant
  ut_used_at :: "instant option"
  ut_created_at :: instant

record orchestra =
  oc_id :: string
  oc_workspace_id :: string
  oc_name :: string
  oc_director_type :: string
  oc_director_process_id :: "string option"
  oc_ai_config :: "json option"
  oc_state :: string
  oc_movement_count :: int
  oc_secrets :: "string list"
  oc_summary :: "string option"
  oc_budget :: "json option"
  oc_budget_used :: "json option"
  oc_timeout :: "interval option"
  oc_timeout_at :: "instant option"
  oc_created_at :: instant
  oc_updated_at :: instant

record orchestra_message =
  om_id :: string
  om_orchestra_id :: string
  om_sender_type :: string
  om_sender_id :: "string option"
  om_message_type :: string
  om_content :: string
  om_data :: "json option"
  om_created_at :: instant

record workspace_server =
  sv_id :: string
  sv_workspace_id :: string
  sv_hetzner_id :: int
  sv_name :: string
  sv_ip_address :: "string option"
  sv_state :: string
  sv_server_type :: string
  sv_datacenter :: string
  sv_containers_running :: int
  sv_max_containers :: int
  sv_last_activity_at :: "instant option"
  sv_monthly_cost :: rat
  sv_created_at :: instant
  sv_destroyed_at :: "instant option"
  sv_updated_at :: instant

record workspace_secret =
  sx_id :: string
  sx_workspace_id :: string
  sx_name :: string
  sx_value_enc :: string
  sx_created_at :: instant
  sx_updated_at :: instant

end
