(* ===== verification/Exec_Method.thy ===== *)
theory Exec_Method
  imports Schema
begin

text \<open>
  The contract of the execution methods, \<open>internal/executor/method.go\<close>: results, handles,
  the method interface as a record of functions (what an HTTP, SSH, SSM or Kubernetes target
  answers is a parameter of the model), the adapter of blocking methods and the registry.
\<close>

section \<open>Errors\<close>

text \<open>
  A Go \<open>error\<close>: the two sentinels the code compares with, an error of PostgreSQL with its
  SQLSTATE and message, or any other text.
\<close>

datatype go_error = ErrPollUnsupported | ErrNoRows | PgError string string | ErrText string

fun Error :: "go_error \<Rightarrow> string" where
  "Error ErrPollUnsupported = ''executor: poll unsupported for blocking method''"
| "Error ErrNoRows = ''no rows in result set''"
| "Error (PgError code msg) = ''ERROR: '' @ msg @ '' (SQLSTATE '' @ code @ '')''"
| "Error (ErrText s) = s"

definition unique_violation :: "string \<Rightarrow> go_error" where
  "unique_violation c = PgError ''23505'' (''duplicate key value violates unique constraint '' @ c)"

definition not_null_violation :: "string \<Rightarrow> go_error" where
  "not_null_violation c = PgError ''23502'' (''null value violates not-null constraint in column '' @ c)"

definition check_violation :: "string \<Rightarrow> go_error" where
  "check_violation c = PgError ''23514'' (''new row violates check constraint '' @ c)"

definition foreign_key_violation :: "string \<Rightarrow> go_error" where
  "foreign_key_violation c = PgError ''23503'' (''insert or update violates foreign key constraint '' @ c)"

section \<open>Parameters, results, handles\<close>

record execute_params =
  ep_run_id :: string
  ep_workspace_id :: string
  ep_method_config :: "go_map option"
  ep_environment :: "(string \<times> string) list option"
  ep_api_base_url :: string

record start_params =
  sp_run_id :: string
  sp_workspace_id :: string
  sp_method_config :: "go_map option"
  sp_environment :: "(string \<times> string) list option"
  sp_api_base_url :: string
  sp_timeout :: duration

record result =
  res_exit_code :: "int option"
  res_response_code :: "int option"
  res_stdout :: string
  res_stderr :: string
  res_response_body :: string
  res_duration_ms :: int
  res_error :: "go_error option"

record handle =
  h_method_name :: string
  h_run_id :: string
  h_data :: "go_map option"

record start_result =
  sr_handle :: handle
  sr_accepted_at :: instant
  sr_result :: "result option"

record poll_cursor =
  pc_stdout_offset :: int
  pc_stderr_offset :: int

text \<open>\<open>RemoteState\<close> is a string type with four constants; a method may also leave it empty.\<close>

definition RemoteRunning :: string where "RemoteRunning = ''running''"
definition RemoteCompleted :: string where "RemoteCompleted = ''completed''"
definition RemoteFailed :: string where "RemoteFailed = ''failed''"
definition RemoteKilled :: string where "RemoteKilled = ''killed''"

record poll_result =
  pr_state :: string
  pr_exit_code :: "int option"
  pr_stdout_chunk :: string
  pr_stderr_chunk :: string
  pr_response_body_chunk :: string
  pr_cursor :: poll_cursor
  pr_error :: "go_error option"

definition IsSuccess :: "result \<Rightarrow> bool" where
  "IsSuccess r =
     (case res_exit_code r of
        Some c \<Rightarrow> c = 0
      | None \<Rightarrow>
          (case res_response_code r of
             Some c \<Rightarrow> 200 \<le> c \<and> c < 300
           | None \<Rightarrow> res_error r = None))"

section \<open>Methods\<close>

record method_impl =
  m_Start :: "start_params \<Rightarrow> start_result \<times> go_error option"
  m_Poll :: "handle \<Rightarrow> poll_cursor \<Rightarrow> poll_result \<times> go_error option"
  m_Kill :: "handle \<Rightarrow> go_error option"
  m_SupportsKill :: bool
  m_SupportsHeartbeat :: bool
  m_IsAsync :: bool

record blocking_method =
  bm_Execute :: "execute_params \<Rightarrow> result \<times> go_error option"
  bm_Kill :: "handle \<Rightarrow> go_error option"
  bm_SupportsKill :: bool
  bm_SupportsHeartbeat :: bool

definition zero_poll_result :: poll_result where
  "zero_poll_result =
     \<lparr>pr_state = [], pr_exit_code = None, pr_stdout_chunk = [], pr_stderr_chunk = [],
      pr_response_body_chunk = [],
      pr_cursor = \<lparr>pc_stdout_offset = 0, pc_stderr_offset = 0\<rparr>, pr_error = None\<rparr>"

text \<open>\<open>blockingAdapter.Start\<close>; \<open>now\<close> is the clock when \<open>Execute\<close> has returned.\<close>

definition adapter_Start ::
  "string \<Rightarrow> instant \<Rightarrow> blocking_method \<Rightarrow> start_params \<Rightarrow> start_result \<times> go_error option" where
  "adapter_Start name now m params =
     (let (r, err) = bm_Execute m
        \<lparr>ep_run_id = sp_run_id params, ep_workspace_id = sp_workspace_id params,
         ep_method_config = sp_method_config params, ep_environment = sp_environment params,
         ep_api_base_url = sp_api_base_url params\<rparr>;
          h = \<lparr>h_method_name = name, h_run_id = sp_run_id params, h_data = Some []\<rparr>
      in (\<lparr>sr_handle = h, sr_accepted_at = now, sr_result = Some r\<rparr>, err))"

definition AdaptBlocking :: "string \<Rightarrow> instant \<Rightarrow> blocking_method \<Rightarrow> method_impl" where
  "AdaptBlocking name now m =
     \<lparr>m_Start = adapter_Start name now m,
      m_Poll = (\<lambda>_ _. (zero_poll_result, Some ErrPollUnsupported)),
      m_Kill = bm_Kill m,
      m_SupportsKill = bm_SupportsKill m,
      m_SupportsHeartbeat = bm_SupportsHeartbeat m,
      m_IsAsync = False\<rparr>"

type_synonym registry = "string \<Rightarrow> method_impl option"

definition NewRegistry :: registry where
  "NewRegistry = (\<lambda>_. None)"

definition Register :: "string \<Rightarrow> method_impl \<Rightarrow> registry \<Rightarrow> registry" where
  "Register name m reg = reg(name \<mapsto> m)"

definition RegisterBlocking ::
  "string \<Rightarrow> instant \<Rightarrow> blocking_method \<Rightarrow> registry \<Rightarrow> registry" where
  "RegisterBlocking name now m reg = reg(name \<mapsto> AdaptBlocking name now m)"

definition registry_Get :: "registry \<Rightarrow> string \<Rightarrow> method_impl option" where
  "registry_Get reg name = reg name"

section \<open>Persisted handles\<close>

text \<open>\<open>json.Marshal(handle)\<close> and \<open>json.Unmarshal(data, &handle)\<close>\<close>

definition marshal_handle :: "handle \<Rightarrow> json" where
  "marshal_handle h =
     JObj [(''MethodName'', JStr (h_method_name h)), (''RunID'', JStr (h_run_id h)),
           (''Data'', case h_data h of None \<Rightarrow> JNull | Some d \<Rightarrow> JObj d)]"

definition unmarshal_field :: "go_map \<Rightarrow> string \<Rightarrow> string option" where
  "unmarshal_field m k = (case map_of m k of None \<Rightarrow> Some [] | Some v \<Rightarrow> unmarshal_string v)"

definition unmarshal_handle :: "json \<Rightarrow> handle option" where
  "unmarshal_handle j =
     (case unmarshal_map j of
        None \<Rightarrow> None
      | Some None \<Rightarrow> Some \<lparr>h_method_name = [], h_run_id = [], h_data = None\<rparr>
      | Some (Some m) \<Rightarrow>
          (case (unmarshal_field m ''MethodName'', unmarshal_field m ''RunID'',
                 case map_of m ''Data'' of None \<Rightarrow> Some None | Some v \<Rightarrow> unmarshal_map v) of
             (Some n, Some r, Some d) \<Rightarrow> Some \<lparr>h_method_name = n, h_run_id = r, h_data = d\<rparr>
           | _ \<Rightarrow> None))"

lemma unmarshal_marshal_handle [simp]: "unmarshal_handle (marshal_handle h) = Some h"
  by (cases h) (simp add: unmarshal_handle_def marshal_handle_def unmarshal_field_def
      split: option.split)

section \<open>The adapter\<close>

lemma adapter_result:
  "sr_result (fst (m_Start (AdaptBlocking name now m) params)) =
     Some (fst (bm_Execute m
        \<lparr>ep_run_id = sp_run_id params, ep_workspace_id = sp_workspace_id params,
         ep_method_config = sp_method_config params, ep_environment = sp_environment params,
         ep_api_base_url = sp_api_base_url params\<rparr>))"
  by (simp add: AdaptBlocking_def adapter_Start_def Let_def split: prod.split)

lemma adapter_poll [simp]:
  "m_Poll (AdaptBlocking name now m) h c = (zero_poll_result, Some ErrPollUnsupported)"
  by (simp add: AdaptBlocking_def)

lemma adapter_handle:
  "h_method_name (sr_handle (fst (m_Start (AdaptBlocking name now m) params))) = name"
  by (simp add: AdaptBlocking_def adapter_Start_def Let_def split: prod.split)

end
