(* ===== verification/World.thy ===== *)
theory World
  imports Exec_Method
begin

text \<open>
  The state the components share: the tables of the database, the in-memory state of the
  orchestrator and of the worker dispatcher, and the trace of what leaves the process (calls
  of the execution methods, log writes, metrics, alerts). The environment \<open>env\<close> carries what an
  operation reads from outside: the two clocks, the failures of the database, the rows other
  transactions hold locked, the source of ULIDs and the text PostgreSQL prints of a JSON value.
\<close>

section \<open>The world\<close>

text \<open>\<open>worker.Task\<close>, \<open>internal/worker/dispatcher.go\<close>\<close>

record task =
  t_id :: string
  t_type :: string
  t_attempt_id :: string
  t_workspace_id :: string
  t_execution_method :: string
  t_method_config :: "go_map option"
  t_environment :: "go_map option"
  t_api_base_url :: string

text \<open>\<open>logging.JobAttemptLog\<close>, the fields the queue processor fills in\<close>

record job_attempt_log =
  jl_attempt_number :: int
  jl_started_at :: instant
  jl_finished_at :: "instant option"
  jl_duration_ms :: int
  jl_response_code :: "int option"
  jl_response_body :: string
  jl_error_message :: string

datatype event =
    EvStart string start_params
  | EvKill handle
  | EvRunOutput string string string
  | EvJobAttempt string job_attempt_log
  | EvCounter string
  | EvObserve string int
  | EvHung string string

record world =
  w_workspaces :: "workspace list"
  w_workers :: "worker list"
  w_processes :: "process list"
  w_runs :: "run list"
  w_run_attempts :: "run_attempt list"
  w_run_output :: "run_output list"
  w_heartbeats :: "heartbeat list"
  w_queues :: "queue list"
  w_jobs :: "job list"
  w_job_attempts :: "job_attempt list"
  w_ssh_credentials :: "ssh_credential list"
  w_ssm_profiles :: "ssm_profile list"
  w_k8s_clusters :: "k8s_cluster list"
  w_users :: "user list"
  w_memberships :: "workspace_membership list"
  w_api_keys :: "api_key list"
  w_user_tokens :: "user_token list"
  w_orchestras :: "orchestra list"
  w_orchestra_chat :: "orchestra_message list"
  w_servers :: "workspace_server list"
  w_secrets :: "workspace_secret list"
  w_running :: "string \<Rightarrow> handle option"
  w_task_queues :: "string \<Rightarrow> task list option"
  w_ids :: nat
  w_trace :: "event list"
  w_panicked :: bool

definition empty_world :: world where
  "empty_world =
     \<lparr>w_workspaces = [], w_workers = [], w_processes = [], w_runs = [], w_run_attempts = [],
      w_run_output = [], w_heartbeats = [], w_queues = [], w_jobs = [], w_job_attempts = [],
      w_ssh_credentials = [], w_ssm_profiles = [], w_k8s_clusters = [], w_users = [],
      w_memberships = [], w_api_keys = [], w_user_tokens = [], w_orchestras = [],
      w_orchestra_chat = [], w_servers = [], w_secrets = [],
      w_running = (\<lambda>_. None), w_task_queues = (\<lambda>_. None),
      w_ids = 0, w_trace = [], w_panicked = False\<rparr>"

definition emit :: "event \<Rightarrow> world \<Rightarrow> world" where
  "emit ev w = w\<lparr>w_trace := w_trace w @ [ev]\<rparr>"

section \<open>The environment of an operation\<close>

record env =
  e_now :: instant
  e_db_now :: instant
  e_fault :: "string \<Rightarrow> go_error option"
  e_locked :: "string \<Rightarrow> bool"
  e_ulid :: "nat \<Rightarrow> string"
  e_json_text :: "json \<Rightarrow> string"

text \<open>\<open>id.New\<close>, \<open>internal/id/id.go\<close>: the prefix and the next ULID.\<close>

definition id_New :: "env \<Rightarrow> string \<Rightarrow> world \<Rightarrow> string \<times> world" where
  "id_New e prefix w = (prefix @ e_ulid e (w_ids w), w\<lparr>w_ids := Suc (w_ids w)\<rparr>)"

section \<open>Queries\<close>

text \<open>
  A query fails when the connection does (\<open>e_fault\<close> at the query's name) or when a constraint is
  violated; then it changes nothing. A \<open>:one\<close> query without a row is \<open>ErrNoRows\<close>.
\<close>

type_synonym 'a answer = "go_error + 'a"

definition db_read :: "env \<Rightarrow> string \<Rightarrow> 'a answer \<Rightarrow> 'a answer" where
  "db_read e q x = (case e_fault e q of Some err \<Rightarrow> Inl err | None \<Rightarrow> x)"

definition one_row :: "'a option \<Rightarrow> 'a answer" where
  "one_row r = (case r of None \<Rightarrow> Inl ErrNoRows | Some x \<Rightarrow> Inr x)"

definition db_exec ::
  "env \<Rightarrow> string \<Rightarrow> go_error option \<Rightarrow> (world \<Rightarrow> world) \<Rightarrow> world \<Rightarrow> go_error option \<times> world" where
  "db_exec e q violation f w =
     (case e_fault e q of
        Some err \<Rightarrow> (Some err, w)
      | None \<Rightarrow> (case violation of Some err \<Rightarrow> (Some err, w) | None \<Rightarrow> (None, f w)))"

definition has_key :: "('r \<Rightarrow> 'k) \<Rightarrow> 'k \<Rightarrow> 'r list \<Rightarrow> bool" where
  "has_key key k rows \<longleftrightarrow> (\<exists>r\<in>set rows. key r = k)"

text \<open>A nullable foreign key.\<close>

definition dangling :: "('r \<Rightarrow> 'k) \<Rightarrow> 'k option \<Rightarrow> 'r list \<Rightarrow> bool" where
  "dangling key k rows = (case k of None \<Rightarrow> False | Some x \<Rightarrow> \<not> has_key key x rows)"

fun first_violation :: "(bool \<times> go_error) list \<Rightarrow> go_error option" where
  "first_violation [] = None"
| "first_violation ((bad, err) # cs) = (if bad then Some err else first_violation cs)"

lemma first_violation_None_iff: "first_violation cs = None \<longleftrightarrow> (\<forall>c\<in>set cs. \<not> fst c)"
  by (induction cs rule: first_violation.induct) auto

lemma has_key_iff: "has_key key k rows \<longleftrightarrow> lookup_key key k rows \<noteq> None"
  by (auto simp: has_key_def lookup_key_None_iff)

lemma has_key_update [simp]:
  "(\<And>r. key (f r) = key r) \<Longrightarrow> has_key key k (update_where P f rows) = has_key key k rows"
  "(\<And>r. key (f r) = key r) \<Longrightarrow> has_key key k (update_key key k' f rows) = has_key key k rows"
  by (auto simp: has_key_iff update_key_def lookup_key_update_where)

text \<open>An \<open>UPDATE\<close> that keeps the row is seen or not; nothing else can happen.\<close>

lemma db_exec_cases:
  obtains "snd (db_exec e q v f w) = w" "fst (db_exec e q v f w) \<noteq> None"
  | "snd (db_exec e q v f w) = f w" "fst (db_exec e q v f w) = None" "v = None" "e_fault e q = None"
  by (cases "e_fault e q"; cases v) (auto simp: db_exec_def)

lemma db_exec_preserves: "P w \<Longrightarrow> (v = None \<Longrightarrow> P (f w)) \<Longrightarrow> P (snd (db_exec e q v f w))"
  by (auto simp: db_exec_def split: option.split)

lemma db_exec_ok: "e_fault e q = None \<Longrightarrow> v = None \<Longrightarrow> db_exec e q v f w = (None, f w)"
  by (simp add: db_exec_def)

text \<open>The environment of a run without failures, for examples.\<close>

definition calm :: "instant \<Rightarrow> env" where
  "calm t = \<lparr>e_now = t, e_db_now = t, e_fault = (\<lambda>_. None), e_locked = (\<lambda>_. False),
     e_ulid = (\<lambda>n. replicate n CHR ''0''), e_json_text = (\<lambda>_. ''{}'')\<rparr>"

lemma calm_simps [simp]:
  "e_now (calm t) = t" "e_db_now (calm t) = t" "e_fault (calm t) q = None"
  "e_locked (calm t) x = False"
  "e_ulid (calm t) n = replicate n CHR ''0''" "e_json_text (calm t) j = ''{}''"
  by (simp_all add: calm_def)

lemma inj_calm_ulid: "inj (e_ulid (calm t))"
  by (rule injI) (metis calm_simps(5) length_replicate)

end
