(* ===== verification/Run_Queries.thy ===== *)
theory Run_Queries
  imports World
begin

text \<open>
  The queries on runs, their attempts, output and heartbeats: \<open>internal/db/runs.sql.go\<close>,
  \<open>run_attempts.sql.go\<close>, \<open>run_output.sql.go\<close>, \<open>run_result.sql.go\<close> and \<open>heartbeats.sql.go\<close>. A
  \<open>SELECT\<close> is a function of the world; \<open>ORDER BY\<close> is a stable sort; \<open>FOR UPDATE SKIP LOCKED\<close>
  leaves out the rows that another transaction holds.
\<close>

section \<open>Reading runs\<close>

definition workspace_active :: "world \<Rightarrow> string \<Rightarrow> bool" where
  "workspace_active w ws =
     (\<exists>x\<in>set (w_workspaces w). wsp_id x = ws \<and> wsp_state x = ''active'')"

definition GetRun :: "env \<Rightarrow> string \<Rightarrow> string \<Rightarrow> world \<Rightarrow> run answer" where
  "GetRun e rid ws w =
     db_read e ''GetRun''
       (one_row (List.find (\<lambda>r. r_id r = rid \<and> r_workspace_id r = ws) (w_runs w)))"

definition ClaimPendingRuns :: "env \<Rightarrow> int \<Rightarrow> world \<Rightarrow> run list answer" where
  "ClaimPendingRuns e lmt w =
     db_read e ''ClaimPendingRuns'' (Inr (take (nat lmt) (sort_key r_scheduled_at
       (filter (\<lambda>r. r_state r \<in> {Pending, Queued} \<and> r_scheduled_at r \<le> e_db_now e \<and>
          workspace_active w (r_workspace_id r) \<and> \<not> e_locked e (r_id r)) (w_runs w)))))"

definition due :: "instant \<Rightarrow> instant option \<Rightarrow> bool" where
  "due now t = (case t of None \<Rightarrow> False | Some x \<Rightarrow> x \<le> now)"

definition ClaimRetryingRuns :: "env \<Rightarrow> int \<Rightarrow> world \<Rightarrow> run list answer" where
  "ClaimRetryingRuns e lmt w =
     db_read e ''ClaimRetryingRuns'' (Inr (take (nat lmt) (sort_key (\<lambda>r. the (r_next_attempt_at r))
       (filter (\<lambda>r. r_state r = Retrying \<and> due (e_db_now e) (r_next_attempt_at r) \<and>
          workspace_active w (r_workspace_id r) \<and> \<not> e_locked e (r_id r)) (w_runs w)))))"

definition CountActiveByProcess :: "env \<Rightarrow> string \<Rightarrow> world \<Rightarrow> int answer" where
  "CountActiveByProcess e pid w =
     db_read e ''CountActiveByProcess'' (Inr (int (length (filter
       (\<lambda>r. r_process_id r = pid \<and> r_state r \<in> {Running, Retrying, WaitingForWorker}) (w_runs w)))))"

definition CountRunningByWorkspace :: "env \<Rightarrow> string \<Rightarrow> world \<Rightarrow> int answer" where
  "CountRunningByWorkspace e ws w =
     db_read e ''CountRunningByWorkspace'' (Inr (int (length (filter
       (\<lambda>r. r_workspace_id r = ws \<and> r_state r = Running) (w_runs w)))))"

text \<open>The optional filters \<open>($2 = '' OR ...)\<close>\<close>

definition matches :: "string \<Rightarrow> string \<Rightarrow> bool" where
  "matches wanted value \<longleftrightarrow> wanted = [] \<or> value = wanted"

definition CountRuns ::
  "env \<Rightarrow> string \<Rightarrow> string \<Rightarrow> string \<Rightarrow> string \<Rightarrow> world \<Rightarrow> int answer" where
  "CountRuns e ws pid st origin w =
     db_read e ''CountRuns'' (Inr (int (length (filter
       (\<lambda>r. r_workspace_id r = ws \<and> matches pid (r_process_id r) \<and>
            matches st (state_name (r_state r)) \<and> matches origin (r_origin r)) (w_runs w)))))"

definition GetLastRunByProcess :: "env \<Rightarrow> string \<Rightarrow> world \<Rightarrow> run answer" where
  "GetLastRunByProcess e pid w =
     db_read e ''GetLastRunByProcess''
       (case sort_key (\<lambda>r. - r_scheduled_at r) (filter (\<lambda>r. r_process_id r = pid) (w_runs w)) of
          [] \<Rightarrow> Inl ErrNoRows
        | r # _ \<Rightarrow> Inr r)"

definition RunExists :: "env \<Rightarrow> string \<Rightarrow> instant \<Rightarrow> string \<Rightarrow> world \<Rightarrow> bool answer" where
  "RunExists e pid sched origin w =
     db_read e ''RunExists'' (Inr (\<exists>r\<in>set (w_runs w).
       r_process_id r = pid \<and> r_scheduled_at r = sched \<and> r_origin r = origin))"

definition GetRunExecutionHandle :: "env \<Rightarrow> string \<Rightarrow> world \<Rightarrow> (json \<times> int \<times> int) answer" where
  "GetRunExecutionHandle e rid w =
     db_read e ''GetRunExecutionHandle''
       (case lookup_key r_id rid (w_runs w) of
          None \<Rightarrow> Inl ErrNoRows
        | Some r \<Rightarrow>
            (case r_execution_handle r of
               None \<Rightarrow> Inl ErrNoRows
             | Some h \<Rightarrow> Inr (h, r_stdout_offset r, r_stderr_offset r)))"

text \<open>The pairs of an inner join of \<open>runs\<close> with \<open>processes\<close> on the process id.\<close>

definition join_runs :: "(run \<Rightarrow> bool) \<Rightarrow> world \<Rightarrow> (run \<times> process) list" where
  "join_runs P w =
     List.maps (\<lambda>r. map (Pair r) (filter (\<lambda>p. p_id p = r_process_id r) (w_processes w)))
       (filter P (w_runs w))"

definition ListKillRequestedRuns :: "env \<Rightarrow> world \<Rightarrow> (run \<times> process) list answer" where
  "ListKillRequestedRuns e w =
     db_read e ''ListKillRequestedRuns'' (Inr (join_runs (\<lambda>r. r_state r = KillRequested) w))"

definition ListRunningRuns :: "env \<Rightarrow> world \<Rightarrow> (run \<times> process) list answer" where
  "ListRunningRuns e w =
     db_read e ''ListRunningRuns'' (Inr (join_runs (\<lambda>r. r_state r = Running) w))"

definition GetRunWithProcess ::
  "env \<Rightarrow> string \<Rightarrow> string \<Rightarrow> world \<Rightarrow> (run \<times> process) answer" where
  "GetRunWithProcess e rid ws w =
     db_read e ''GetRunWithProcess''
       (case join_runs (\<lambda>r. r_id r = rid \<and> r_workspace_id r = ws) w of
          [] \<Rightarrow> Inl ErrNoRows
        | x # _ \<Rightarrow> Inr x)"

definition ListRuns ::
  "env \<Rightarrow> string \<Rightarrow> string \<Rightarrow> string \<Rightarrow> string \<Rightarrow> int \<Rightarrow> int \<Rightarrow> world \<Rightarrow>
   (run \<times> string) list answer" where
  "ListRuns e ws pid st origin lmt off w =
     db_read e ''ListRuns'' (Inr (map (\<lambda>(r, p). (r, p_name p))
       (take (nat lmt) (drop (nat off) (sort_key (\<lambda>(r, p). - r_created_at r)
         (join_runs (\<lambda>r. r_workspace_id r = ws \<and> matches pid (r_process_id r) \<and>
            matches st (state_name (r_state r)) \<and> matches origin (r_origin r)) w))))))"

definition ListUpcomingRuns :: "env \<Rightarrow> string \<Rightarrow> int \<Rightarrow> world \<Rightarrow> (run \<times> string) list answer" where
  "ListUpcomingRuns e ws lmt w =
     db_read e ''ListUpcomingRuns'' (Inr (map (\<lambda>(r, p). (r, p_name p))
       (take (nat lmt) (sort_key (\<lambda>(r, p). r_scheduled_at r)
         (join_runs (\<lambda>r. r_workspace_id r = ws \<and> r_state r \<in> {Pending, Queued}) w)))))"

text \<open>\<open>ListActiveAsyncRunsRow\<close>; the open attempt of the highest number, if any.\<close>

record async_run_row =
  ar_id :: string
  ar_workspace_id :: string
  ar_process_id :: string
  ar_attempt :: int
  ar_state :: run_state
  ar_started_at :: "instant option"
  ar_attempt_id :: string
  ar_execution_handle :: json
  ar_stdout_offset :: int
  ar_stderr_offset :: int
  ar_execution_method :: string

definition open_run_attempt :: "string \<Rightarrow> world \<Rightarrow> string" where
  "open_run_attempt rid w =
     (case sort_key (\<lambda>a. - ra_attempt_number a)
        (filter (\<lambda>a. ra_run_id a = rid \<and> ra_finished_at a = None) (w_run_attempts w)) of
        [] \<Rightarrow> []
      | a # _ \<Rightarrow> ra_id a)"

definition async_run_row_of :: "world \<Rightarrow> run \<times> process \<Rightarrow> async_run_row" where
  "async_run_row_of w rp = (let (r, p) = rp in
     \<lparr>ar_id = r_id r, ar_workspace_id = r_workspace_id r, ar_process_id = r_process_id r,
      ar_attempt = r_attempt r, ar_state = r_state r, ar_started_at = r_started_at r,
      ar_attempt_id = open_run_attempt (r_id r) w,
      ar_execution_handle = the (r_execution_handle r),
      ar_stdout_offset = r_stdout_offset r, ar_stderr_offset = r_stderr_offset r,
      ar_execution_method = p_execution_method p\<rparr>)"

definition ListActiveAsyncRuns :: "env \<Rightarrow> world \<Rightarrow> async_run_row list answer" where
  "ListActiveAsyncRuns e w =
     db_read e ''ListActiveAsyncRuns'' (Inr (map (async_run_row_of w)
       (join_runs (\<lambda>r. r_state r \<in> {Running, KillRequested} \<and> r_execution_handle r \<noteq> None) w)))"

section \<open>Writing runs\<close>

record create_run_params =
  cr_id :: string
  cr_workspace_id :: string
  cr_process_id :: string
  cr_scheduled_at :: "instant option"
  cr_state :: run_state
  cr_origin :: string
  cr_max_attempts :: int
  cr_actor_type :: "string option"
  cr_actor_id :: "string option"
  cr_triggered_by_run_id :: "string option"
  cr_replayed_from_run_id :: "string option"
  cr_runtime :: "string option"
  cr_worker_id :: "string option"
  cr_tags :: "string list"

definition run_origins :: "string list" where
  "run_origins = [''cron'', ''fixed_delay'', ''manual'', ''one_time'', ''recovery'', ''dependency'',
     ''replay'']"

definition actor_types :: "string list" where
  "actor_types = [''user'', ''api_key'', ''worker'', ''system'']"

definition one_of :: "string list \<Rightarrow> string option \<Rightarrow> bool" where
  "one_of xs s = (case s of None \<Rightarrow> True | Some x \<Rightarrow> x \<in> set xs)"

definition create_run_violation :: "create_run_params \<Rightarrow> world \<Rightarrow> go_error option" where
  "create_run_violation a w = first_violation
     [(cr_scheduled_at a = None, not_null_violation ''scheduled_at''),
      (cr_origin a \<notin> set run_origins, check_violation ''runs_origin_check''),
      (\<not> one_of actor_types (cr_actor_type a), check_violation ''runs_actor_type_check''),
      (\<not> one_of [''direct'', ''worker''] (cr_runtime a), check_violation ''runs_runtime_check''),
      (has_key r_id (cr_id a) (w_runs w), unique_violation ''runs_pkey''),
      (\<exists>r\<in>set (w_runs w). r_process_id r = cr_process_id a \<and>
         Some (r_scheduled_at r) = cr_scheduled_at a \<and> r_origin r = cr_origin a,
       unique_violation ''runs_process_id_scheduled_at_origin_key''),
      (\<not> has_key wsp_id (cr_workspace_id a) (w_workspaces w),
       foreign_key_violation ''runs_workspace_id_fkey''),
      (\<not> has_key p_id (cr_process_id a) (w_processes w),
       foreign_key_violation ''runs_process_id_fkey''),
      (dangling r_id (cr_triggered_by_run_id a) (w_runs w),
       foreign_key_violation ''runs_triggered_by_run_id_fkey''),
      (dangling r_id (cr_replayed_from_run_id a) (w_runs w),
       foreign_key_violation ''runs_replayed_from_run_id_fkey''),
      (dangling wk_id (cr_worker_id a) (w_workers w),
       foreign_key_violation ''runs_worker_id_fkey'')]"

text \<open>The inserted row: the columns the statement does not name have their defaults.\<close>

definition new_run :: "env \<Rightarrow> create_run_params \<Rightarrow> run" where
  "new_run e a =
     \<lparr>r_id = cr_id a, r_workspace_id = cr_workspace_id a, r_process_id = cr_process_id a,
      r_scheduled_at = the (cr_scheduled_at a), r_state = cr_state a, r_origin = cr_origin a,
      r_attempt = 0, r_max_attempts = cr_max_attempts a, r_next_attempt_at = None,
      r_started_at = None, r_finished_at = None, r_duration_ms = None, r_exit_code = None,
      r_progress_total = None, r_progress_current = None, r_progress = None,
      r_progress_message = None, r_last_heartbeat_at = None, r_queue_reason = None,
      r_waiting_reason = None, r_actor_type = cr_actor_type a, r_actor_id = cr_actor_id a,
      r_killed_by_actor_type = None, r_killed_by_actor_id = None,
      r_triggered_by_run_id = cr_triggered_by_run_id a,
      r_replayed_from_run_id = cr_replayed_from_run_id a, r_effective_config = None,
      r_runtime = cr_runtime a, r_worker_id = cr_worker_id a, r_tags = cr_tags a,
      r_created_at = e_db_now e, r_updated_at = e_db_now e, r_result = None,
      r_orchestra_id = None, r_orchestra_step = None, r_choice_config = None,
      r_chosen_index = None, r_execution_handle = None, r_stdout_offset = 0, r_stderr_offset = 0\<rparr>"

definition CreateRun :: "env \<Rightarrow> create_run_params \<Rightarrow> world \<Rightarrow> go_error option \<times> world" where
  "CreateRun e a w =
     db_exec e ''CreateRun'' (create_run_violation a w)
       (\<lambda>w. w\<lparr>w_runs := w_runs w @ [new_run e a]\<rparr>) w"

record update_run_state_params =
  us_id :: string
  us_state :: run_state
  us_started_at :: "instant option"
  us_finished_at :: "instant option"
  us_duration_ms :: "int option"
  us_exit_code :: "int option"
  us_attempt :: "int option"
  us_next_attempt_at :: "instant option"
  us_queue_reason :: "string option"
  us_waiting_reason :: "string option"
  us_killed_by_actor_type :: "string option"
  us_killed_by_actor_id :: "string option"
  us_worker_id :: "string option"

text \<open>\<open>UpdateRunStateParams{ID: id, State: state}\<close>, the other fields nil\<close>

definition run_upd :: "string \<Rightarrow> run_state \<Rightarrow> update_run_state_params" where
  "run_upd rid s =
     \<lparr>us_id = rid, us_state = s, us_started_at = None, us_finished_at = None, us_duration_ms = None,
      us_exit_code = None, us_attempt = None, us_next_attempt_at = None, us_queue_reason = None,
      us_waiting_reason = None, us_killed_by_actor_type = None, us_killed_by_actor_id = None,
      us_worker_id = None\<rparr>"

definition set_run_state :: "instant \<times> update_run_state_params \<Rightarrow> run \<Rightarrow> run" where
  "set_run_state na r = (let (now, a) = na in
     r\<lparr>r_state := us_state a,
       r_started_at := coalesce (us_started_at a) (r_started_at r),
       r_finished_at := coalesce (us_finished_at a) (r_finished_at r),
       r_duration_ms := coalesce (us_duration_ms a) (r_duration_ms r),
       r_exit_code := coalesce (us_exit_code a) (r_exit_code r),
       r_attempt := (case us_attempt a of Some n \<Rightarrow> n | None \<Rightarrow> r_attempt r),
       r_next_attempt_at := us_next_attempt_at a,
       r_queue_reason := us_queue_reason a,
       r_waiting_reason := us_waiting_reason a,
       r_killed_by_actor_type := coalesce (us_killed_by_actor_type a) (r_killed_by_actor_type r),
       r_killed_by_actor_id := coalesce (us_killed_by_actor_id a) (r_killed_by_actor_id r),
       r_worker_id := coalesce (us_worker_id a) (r_worker_id r),
       r_updated_at := now\<rparr>)"

text \<open>
  An \<open>UPDATE runs ... WHERE id = $1\<close> applies a change to the row of that id; the only
  constraint a change of state can violate is the foreign key of the worker.
\<close>

definition on_run :: "string \<Rightarrow> (run \<Rightarrow> run) \<Rightarrow> world \<Rightarrow> world" where
  "on_run rid f w = w\<lparr>w_runs := update_key r_id rid f (w_runs w)\<rparr>"

definition UpdateRunState ::
  "env \<Rightarrow> update_run_state_params \<Rightarrow> world \<Rightarrow> go_error option \<times> world" where
  "UpdateRunState e a w =
     db_exec e ''UpdateRunState''
       (if has_key r_id (us_id a) (w_runs w) \<and> dangling wk_id (us_worker_id a) (w_workers w)
        then Some (foreign_key_violation ''runs_worker_id_fkey'') else None)
       (on_run (us_id a) (set_run_state (e_db_now e, a))) w"

definition SaveRunExecutionHandle :: "env \<Rightarrow> string \<Rightarrow> json \<Rightarrow> world \<Rightarrow> go_error option \<times> world" where
  "SaveRunExecutionHandle e rid h w =
     db_exec e ''SaveRunExecutionHandle'' None (on_run rid (\<lambda>r. r\<lparr>r_execution_handle := Some h,
       r_stdout_offset := 0, r_stderr_offset := 0, r_updated_at := e_db_now e\<rparr>)) w"

definition ClearRunExecutionHandle :: "env \<Rightarrow> string \<Rightarrow> world \<Rightarrow> go_error option \<times> world" where
  "ClearRunExecutionHandle e rid w =
     db_exec e ''ClearRunExecutionHandle'' None (on_run rid (\<lambda>r. r\<lparr>r_execution_handle := None,
       r_stdout_offset := 0, r_stderr_offset := 0, r_updated_at := e_db_now e\<rparr>)) w"

definition UpdateRunOffsets :: "env \<Rightarrow> string \<Rightarrow> int \<Rightarrow> int \<Rightarrow> world \<Rightarrow> go_error option \<times> world" where
  "UpdateRunOffsets e rid so se w =
     db_exec e ''UpdateRunOffsets'' None (on_run rid (\<lambda>r. r\<lparr>r_stdout_offset := so,
       r_stderr_offset := se, r_updated_at := e_db_now e\<rparr>)) w"

definition UpdateRunProgress ::
  "env \<Rightarrow> string \<Rightarrow> int option \<Rightarrow> int option \<Rightarrow> int option \<Rightarrow> string option \<Rightarrow> world \<Rightarrow>
   go_error option \<times> world" where
  "UpdateRunProgress e rid tot current progress msg w =
     db_exec e ''UpdateRunProgress'' None (on_run rid (\<lambda>r. r\<lparr>r_progress_total := tot,
       r_progress_current := current, r_progress := progress, r_progress_message := msg,
       r_last_heartbeat_at := Some (e_db_now e), r_updated_at := e_db_now e\<rparr>)) w"

definition SnapshotRunConfig :: "env \<Rightarrow> string \<Rightarrow> json \<Rightarrow> world \<Rightarrow> go_error option \<times> world" where
  "SnapshotRunConfig e rid cfg w =
     db_exec e ''SnapshotRunConfig'' None (on_run rid (\<lambda>r. r\<lparr>r_effective_config := Some cfg,
       r_updated_at := e_db_now e\<rparr>)) w"

definition SetRunChoiceConfig :: "env \<Rightarrow> string \<Rightarrow> json option \<Rightarrow> world \<Rightarrow> go_error option \<times> world" where
  "SetRunChoiceConfig e rid cfg w =
     db_exec e ''SetRunChoiceConfig'' None (on_run rid (\<lambda>r. r\<lparr>r_choice_config := cfg,
       r_updated_at := e_db_now e\<rparr>)) w"

definition SetRunChosenIndex :: "env \<Rightarrow> string \<Rightarrow> int option \<Rightarrow> world \<Rightarrow> go_error option \<times> world" where
  "SetRunChosenIndex e rid i w =
     db_exec e ''SetRunChosenIndex'' None (on_run rid (\<lambda>r. r\<lparr>r_chosen_index := i,
       r_updated_at := e_db_now e\<rparr>)) w"

definition SetRunResult :: "env \<Rightarrow> string \<Rightarrow> json option \<Rightarrow> world \<Rightarrow> go_error option \<times> world" where
  "SetRunResult e rid res w =
     db_exec e ''SetRunResult'' None (on_run rid (\<lambda>r. r\<lparr>r_result := res,
       r_updated_at := e_db_now e\<rparr>)) w"

definition GetRunResult :: "env \<Rightarrow> string \<Rightarrow> world \<Rightarrow> (string \<times> json option) answer" where
  "GetRunResult e rid w =
     db_read e ''GetRunResult''
       (one_row (map_option (\<lambda>r. (r_id r, r_result r)) (lookup_key r_id rid (w_runs w))))"

text \<open>The bulk updates of a process; each returns the number of rows it changed.\<close>

definition bulk_update ::
  "string \<Rightarrow> env \<Rightarrow> string \<Rightarrow> string \<Rightarrow> run_state \<Rightarrow> run_state \<Rightarrow> world \<Rightarrow> int answer \<times> world" where
  "bulk_update q e pid ws from to w =
     (let sel = (\<lambda>r. r_process_id r = pid \<and> r_workspace_id r = ws \<and> r_state r = from)
      in case e_fault e q of
           Some err \<Rightarrow> (Inl err, w)
         | None \<Rightarrow> (Inr (int (length (filter sel (w_runs w)))),
             w\<lparr>w_runs := update_where sel (\<lambda>r. r\<lparr>r_state := to, r_updated_at := e_db_now e\<rparr>)
                 (w_runs w)\<rparr>))"

definition BulkCancelRuns :: "env \<Rightarrow> string \<Rightarrow> string \<Rightarrow> world \<Rightarrow> int answer \<times> world" where
  "BulkCancelRuns e pid ws = bulk_update ''BulkCancelRuns'' e pid ws Pending Cancelled"

definition BulkPauseRuns :: "env \<Rightarrow> string \<Rightarrow> string \<Rightarrow> world \<Rightarrow> int answer \<times> world" where
  "BulkPauseRuns e pid ws = bulk_update ''BulkPauseRuns'' e pid ws Pending Paused"

definition BulkResumeRuns :: "env \<Rightarrow> string \<Rightarrow> string \<Rightarrow> world \<Rightarrow> int answer \<times> world" where
  "BulkResumeRuns e pid ws = bulk_update ''BulkResumeRuns'' e pid ws Paused Pending"

section \<open>Attempts, output, heartbeats\<close>

definition new_run_attempt ::
  "env \<Rightarrow> string \<Rightarrow> string \<Rightarrow> int \<Rightarrow> instant \<Rightarrow> string option \<Rightarrow> run_attempt" where
  "new_run_attempt e xid run n started worker =
     \<lparr>ra_id = xid, ra_run_id = run, ra_attempt_number = n, ra_started_at = started,
      ra_finished_at = None, ra_duration_ms = None, ra_exit_code = None, ra_worker_id = worker,
      ra_error_message = None, ra_created_at = e_db_now e\<rparr>"

definition CreateRunAttempt ::
  "env \<Rightarrow> string \<Rightarrow> string \<Rightarrow> int \<Rightarrow> instant \<Rightarrow> string option \<Rightarrow> world \<Rightarrow> go_error option \<times> world" where
  "CreateRunAttempt e xid run n started worker w =
     db_exec e ''CreateRunAttempt''
       (first_violation
         [(has_key ra_id xid (w_run_attempts w), unique_violation ''run_attempts_pkey''),
          (\<not> has_key r_id run (w_runs w), foreign_key_violation ''run_attempts_run_id_fkey''),
          (dangling wk_id worker (w_workers w), foreign_key_violation ''run_attempts_worker_id_fkey'')])
       (\<lambda>w. w\<lparr>w_run_attempts := w_run_attempts w @ [new_run_attempt e xid run n started worker]\<rparr>) w"

definition FinishRunAttempt ::
  "env \<Rightarrow> string \<Rightarrow> instant option \<Rightarrow> int option \<Rightarrow> int option \<Rightarrow> string option \<Rightarrow> world \<Rightarrow>
   go_error option \<times> world" where
  "FinishRunAttempt e xid finished ms ec msg w =
     db_exec e ''FinishRunAttempt'' None
       (\<lambda>w. w\<lparr>w_run_attempts := update_key ra_id xid (\<lambda>a. a\<lparr>ra_finished_at := finished,
          ra_duration_ms := ms, ra_exit_code := ec, ra_error_message := msg\<rparr>)
          (w_run_attempts w)\<rparr>) w"

definition ListRunAttemptsByRun :: "env \<Rightarrow> string \<Rightarrow> world \<Rightarrow> run_attempt list answer" where
  "ListRunAttemptsByRun e run w =
     db_read e ''ListRunAttemptsByRun''
       (Inr (sort_key ra_attempt_number (filter (\<lambda>a. ra_run_id a = run) (w_run_attempts w))))"

text \<open>\<open>site\<close> tells apart the calls one operation makes.\<close>

definition AppendRunOutput ::
  "env \<Rightarrow> string \<Rightarrow> string \<Rightarrow> string \<Rightarrow> string \<Rightarrow> string \<Rightarrow> bool \<Rightarrow> world \<Rightarrow>
   go_error option \<times> world" where
  "AppendRunOutput e site xid run stream content truncated w =
     db_exec e (''AppendRunOutput.'' @ site)
       (first_violation
         [(stream \<notin> {''stdout'', ''stderr''}, check_violation ''run_output_stream_check''),
          (has_key ro_id xid (w_run_output w), unique_violation ''run_output_pkey''),
          (\<not> has_key r_id run (w_runs w), foreign_key_violation ''run_output_run_id_fkey'')])
       (\<lambda>w. w\<lparr>w_run_output := w_run_output w @
          [\<lparr>ro_id = xid, ro_run_id = run, ro_stream = stream, ro_content = content,
            ro_truncated = truncated, ro_created_at = e_db_now e\<rparr>]\<rparr>) w"

definition GetRunOutput :: "env \<Rightarrow> string \<Rightarrow> string option \<Rightarrow> world \<Rightarrow> run_output list answer" where
  "GetRunOutput e run stream w =
     db_read e ''GetRunOutput'' (Inr (sort_key ro_created_at
       (filter (\<lambda>o'. ro_run_id o' = run \<and> (stream = None \<or> Some (ro_stream o') = stream))
         (w_run_output w))))"

definition CreateHeartbeat ::
  "env \<Rightarrow> string \<Rightarrow> string \<Rightarrow> int option \<Rightarrow> int option \<Rightarrow> int option \<Rightarrow> string option \<Rightarrow> world \<Rightarrow>
   go_error option \<times> world" where
  "CreateHeartbeat e xid run tot current progress msg w =
     db_exec e ''CreateHeartbeat''
       (first_violation
         [(has_key hb_id xid (w_heartbeats w), unique_violation ''heartbeats_pkey''),
          (\<not> has_key r_id run (w_runs w), foreign_key_violation ''heartbeats_run_id_fkey'')])
       (\<lambda>w. w\<lparr>w_heartbeats := w_heartbeats w @
          [\<lparr>hb_id = xid, hb_run_id = run, hb_total = tot, hb_current = current,
            hb_progress = progress, hb_message = msg, hb_created_at = e_db_now e\<rparr>]\<rparr>) w"

definition ListHeartbeatsByRun :: "env \<Rightarrow> string \<Rightarrow> world \<Rightarrow> heartbeat list answer" where
  "ListHeartbeatsByRun e run w =
     db_read e ''ListHeartbeatsByRun''
       (Inr (sort_key hb_created_at (filter (\<lambda>h. hb_run_id h = run) (w_heartbeats w))))"

end
