(* ===== verification/Run_Store.thy ===== *)
theory Run_Store
  imports Run_Queries
begin

text \<open>
  What the queries of \<open>Run_Queries\<close> do to the table of runs: the row under an id, the integrity
  of the table (primary key and \<open>UNIQUE (process_id, scheduled_at, origin)\<close>), and the two ways
  a run changes: its row is rewritten, or a new pending row is appended.
\<close>

section \<open>The row of an id\<close>

definition run_at :: "world \<Rightarrow> string \<Rightarrow> run option" where
  "run_at w k = lookup_key r_id k (w_runs w)"

definition state_at :: "world \<Rightarrow> string \<Rightarrow> run_state option" where
  "state_at w k = map_option r_state (run_at w k)"

lemma r_id_set_run_state [simp]: "r_id (set_run_state na r) = r_id r"
  by (simp add: set_run_state_def Let_def split: prod.split)

lemma r_state_set_run_state [simp]: "r_state (set_run_state (now, a) r) = us_state a"
  by (simp add: set_run_state_def)

interpretation run_state_update: row_update r_id set_run_state
  by unfold_locales simp

lemma run_at_on_run:
  "(\<And>r. r_id (f r) = r_id r) \<Longrightarrow>
   run_at (on_run rid f w) k = (if k = rid then map_option f (run_at w k) else run_at w k)"
  unfolding run_at_def on_run_def update_key_def
  by (cases "lookup_key r_id k (w_runs w)")
    (auto simp: lookup_key_update_where dest: lookup_key_SomeD)

lemma on_run_frame [frame_simps]:
  "w_workspaces (on_run rid f w) = w_workspaces w" "w_workers (on_run rid f w) = w_workers w"
  "w_processes (on_run rid f w) = w_processes w"
  "w_run_attempts (on_run rid f w) = w_run_attempts w"
  "w_run_output (on_run rid f w) = w_run_output w" "w_heartbeats (on_run rid f w) = w_heartbeats w"
  "w_queues (on_run rid f w) = w_queues w" "w_jobs (on_run rid f w) = w_jobs w"
  "w_job_attempts (on_run rid f w) = w_job_attempts w"
  "w_running (on_run rid f w) = w_running w" "w_task_queues (on_run rid f w) = w_task_queues w"
  "w_ids (on_run rid f w) = w_ids w" "w_trace (on_run rid f w) = w_trace w"
  "w_panicked (on_run rid f w) = w_panicked w"
  by (simp_all add: on_run_def)

section \<open>Integrity\<close>

definition run_slot :: "run \<Rightarrow> string \<times> instant \<times> string" where
  "run_slot r = (r_process_id r, r_scheduled_at r, r_origin r)"

definition runs_ok :: "world \<Rightarrow> bool" where
  "runs_ok w \<longleftrightarrow> distinct (map r_id (w_runs w)) \<and> distinct (map run_slot (w_runs w))"

text \<open>An update that keeps the key and the slot.\<close>

definition keeps_slot :: "(run \<Rightarrow> run) \<Rightarrow> bool" where
  "keeps_slot f \<longleftrightarrow> (\<forall>r. r_id (f r) = r_id r \<and> run_slot (f r) = run_slot r)"

lemma runs_ok_on_run: "keeps_slot f \<Longrightarrow> runs_ok w \<Longrightarrow> runs_ok (on_run rid f w)"
  by (simp add: runs_ok_def on_run_def keeps_slot_def map_update_key)

lemma keeps_slot_set_run_state [intro, simp]: "keeps_slot (set_run_state na)"
  by (simp add: keeps_slot_def run_slot_def set_run_state_def Let_def split: prod.split)

lemma runs_ok_CreateRun:
  assumes "runs_ok w" shows "runs_ok (snd (CreateRun e a w))"
  unfolding CreateRun_def
proof (rule db_exec_preserves)
  show "runs_ok w" by (rule assms)
  assume v: "create_run_violation a w = None"
  then have "\<not> has_key r_id (cr_id a) (w_runs w)"
    and "\<not> (\<exists>r\<in>set (w_runs w). r_process_id r = cr_process_id a \<and>
         Some (r_scheduled_at r) = cr_scheduled_at a \<and> r_origin r = cr_origin a)"
    and "cr_scheduled_at a \<noteq> None"
    by (simp_all add: create_run_violation_def split: if_split_asm)
  then show "runs_ok (w\<lparr>w_runs := w_runs w @ [new_run e a]\<rparr>)"
    using assms by (auto simp: runs_ok_def has_key_def new_run_def run_slot_def)
qed

lemma runs_ok_UpdateRunState: "runs_ok w \<Longrightarrow> runs_ok (snd (UpdateRunState e a w))"
  unfolding UpdateRunState_def by (rule db_exec_preserves) (auto intro: runs_ok_on_run)

section \<open>Frames\<close>

lemma SetRun_frame [frame_simps]:
  "w_runs (snd (CreateRunAttempt e xid rid n t wk w)) = w_runs w"
  "w_runs (snd (FinishRunAttempt e xid fin ms ec msg w)) = w_runs w"
  "w_runs (snd (AppendRunOutput e site xid rid stream content tr w)) = w_runs w"
  "w_runs (snd (CreateHeartbeat e xid rid tot cur prog msg w)) = w_runs w"
  "w_runs (emit ev w) = w_runs w"
  "w_runs (snd (id_New e prefix w)) = w_runs w"
  by (simp_all add: CreateRunAttempt_def FinishRunAttempt_def AppendRunOutput_def
      CreateHeartbeat_def db_exec_def emit_def id_New_def split: option.split)

lemma running_trace_frame [frame_simps]:
  "w_running (snd (CreateRunAttempt e xid rid n t wk w)) = w_running w"
  "w_running (snd (SnapshotRunConfig e rid cfg w)) = w_running w"
  "w_running (emit ev w) = w_running w" "w_running (snd (id_New e prefix w)) = w_running w"
  "w_trace (snd (CreateRunAttempt e xid rid n t wk w)) = w_trace w"
  "w_trace (snd (SnapshotRunConfig e rid cfg w)) = w_trace w"
  "w_trace (emit ev w) = w_trace w @ [ev]" "w_trace (snd (id_New e prefix w)) = w_trace w"
  by (simp_all add: CreateRunAttempt_def SnapshotRunConfig_def db_exec_def emit_def id_New_def
      on_run_def split: option.split)

section \<open>New rows\<close>

text \<open>\<open>spawns w w'\<close>: the table of runs only got new pending rows, none of them attempted.\<close>

definition fresh_run :: "run \<Rightarrow> bool" where
  "fresh_run r \<longleftrightarrow> r_state r = Pending \<and> r_attempt r = 0 \<and> r_started_at r = None \<and>
     r_execution_handle r = None"

definition spawns :: "world \<Rightarrow> world \<Rightarrow> bool" where
  "spawns w w' \<longleftrightarrow> (\<exists>new. w_runs w' = w_runs w @ new \<and> (\<forall>r\<in>set new. fresh_run r))"

lemma spawns_refl [simp, intro]: "spawns w w"
  by (simp add: spawns_def)

lemma spawns_same_runs: "w_runs w' = w_runs w \<Longrightarrow> spawns w w'"
  by (simp add: spawns_def)

lemma spawns_trans [trans]: "spawns w w' \<Longrightarrow> spawns w' w'' \<Longrightarrow> spawns w w''"
  unfolding spawns_def by (elim exE conjE) (auto intro!: exI[of _ "_ @ _"])

lemma spawns_run_at: "spawns w w' \<Longrightarrow> run_at w k = Some r \<Longrightarrow> run_at w' k = Some r"
  by (auto simp: spawns_def run_at_def lookup_key_append)

lemma spawns_state_at: "spawns w w' \<Longrightarrow> state_at w k = Some s \<Longrightarrow> state_at w' k = Some s"
  by (auto simp: state_at_def dest: spawns_run_at)

lemma spawns_CreateRun: "cr_state a = Pending \<Longrightarrow> spawns w (snd (CreateRun e a w))"
  unfolding CreateRun_def
  by (rule db_exec_preserves) (auto simp: spawns_def fresh_run_def new_run_def)

text \<open>The contract of what runs after a run has ended: it may only create runs.\<close>

locale run_spawner =
  fixes act :: "'c \<Rightarrow> world \<Rightarrow> world"
  assumes act_spawns: "spawns w (act c w)"
begin

lemma act_run_at: "run_at w k = Some r \<Longrightarrow> run_at (act c w) k = Some r"
  using act_spawns spawns_run_at by blast

lemma act_state_at: "state_at w k = Some s \<Longrightarrow> state_at (act c w) k = Some s"
  using act_spawns spawns_state_at by blast

lemma fold_spawns: "spawns w (fold act cs w)"
proof (induction cs arbitrary: w)
  case Nil
  then show ?case by simp
next
  case (Cons c cs)
  have "spawns w (act c w)" by (rule act_spawns)
  also have "spawns (act c w) (fold act cs (act c w))" by (rule Cons.IH)
  finally show ?case by simp
qed

lemma fold_run_at: "run_at w k = Some r \<Longrightarrow> run_at (fold act cs w) k = Some r"
  using fold_spawns spawns_run_at by blast

end

section \<open>A change of state\<close>

lemma run_at_UpdateRunState:
  "run_at (snd (UpdateRunState e a w)) k =
     (if fst (UpdateRunState e a w) = None \<and> k = us_id a
      then map_option (set_run_state (e_db_now e, a)) (run_at w k) else run_at w k)"
  by (auto simp: UpdateRunState_def db_exec_def run_at_on_run split: option.split)

lemma UpdateRunState_ok:
  "e_fault e ''UpdateRunState'' = None \<Longrightarrow> us_worker_id a = None \<Longrightarrow>
   UpdateRunState e a w = (None, on_run (us_id a) (set_run_state (e_db_now e, a)) w)"
  by (simp add: UpdateRunState_def db_exec_def dangling_def)

lemma UpdateRunState_frame [frame_simps]:
  "w_workspaces (snd (UpdateRunState e a w)) = w_workspaces w"
  "w_processes (snd (UpdateRunState e a w)) = w_processes w"
  "w_workers (snd (UpdateRunState e a w)) = w_workers w"
  "w_run_attempts (snd (UpdateRunState e a w)) = w_run_attempts w"
  "w_run_output (snd (UpdateRunState e a w)) = w_run_output w"
  "w_running (snd (UpdateRunState e a w)) = w_running w"
  "w_jobs (snd (UpdateRunState e a w)) = w_jobs w"
  "w_panicked (snd (UpdateRunState e a w)) = w_panicked w"
  "w_trace (snd (UpdateRunState e a w)) = w_trace w"
  by (simp_all add: UpdateRunState_def db_exec_def on_run_def split: option.split)

section \<open>Runs the system creates\<close>

text \<open>
  What an insert needs to be accepted: unused ids ahead, and no run of the process with this
  instant and origin yet.
\<close>

definition fresh_run_ids :: "env \<Rightarrow> world \<Rightarrow> bool" where
  "fresh_run_ids e w \<longleftrightarrow> inj (e_ulid e) \<and>
     (\<forall>n\<ge>w_ids w. \<not> has_key r_id (''run_'' @ e_ulid e n) (w_runs w))"

lemma fresh_run_ids_step:
  "fresh_run_ids e w \<Longrightarrow> r_id r = ''run_'' @ e_ulid e (w_ids w) \<Longrightarrow>
   fresh_run_ids e (w\<lparr>w_ids := Suc (w_ids w), w_runs := w_runs w @ [r]\<rparr>)"
  by (auto simp: fresh_run_ids_def has_key_def dest: injD Suc_leD)

text \<open>The parameters of a run that the system itself schedules, without lineage or routing.\<close>

definition system_run :: "create_run_params \<Rightarrow> bool" where
  "system_run a \<longleftrightarrow> cr_state a = Pending \<and> cr_origin a \<in> set run_origins \<and>
     cr_actor_type a = Some ''system'' \<and> cr_triggered_by_run_id a = None \<and>
     cr_replayed_from_run_id a = None \<and> cr_runtime a = None \<and> cr_worker_id a = None"

lemma system_run_accepted:
  assumes "e_fault e ''CreateRun'' = None" "fresh_run_ids e w" "system_run a"
    and "cr_id a = ''run_'' @ e_ulid e (w_ids w)" "cr_scheduled_at a = Some t"
    and "has_key p_id (cr_process_id a) (w_processes w)"
    and "has_key wsp_id (cr_workspace_id a) (w_workspaces w)"
    and "\<forall>r\<in>set (w_runs w). run_slot r \<noteq> (cr_process_id a, t, cr_origin a)"
  shows "CreateRun e a (w\<lparr>w_ids := Suc (w_ids w)\<rparr>) =
    (None, w\<lparr>w_ids := Suc (w_ids w), w_runs := w_runs w @ [new_run e a]\<rparr>)"
proof -
  have "create_run_violation a (w\<lparr>w_ids := Suc (w_ids w)\<rparr>) = None"
    using assms(2-8)
    by (auto simp: create_run_violation_def system_run_def one_of_def actor_types_def dangling_def
        fresh_run_ids_def run_slot_def)
  then show ?thesis using assms(1) by (simp add: CreateRun_def db_exec_ok)
qed

end
