(* ===== verification/Process_Queries.thy ===== *)
theory Process_Queries
  imports Run_Store
begin

text \<open>
  The queries on processes and workspaces, \<open>internal/db/processes.sql.go\<close> and
  \<open>internal/db/workspaces.sql.go\<close>. The parameters of \<open>CreateProcess\<close> and \<open>UpdateProcess\<close>, which name
  every column but the two timestamps, are passed as a row whose timestamps are not used.
\<close>

section \<open>Reading\<close>

definition CountProcesses :: "env \<Rightarrow> string \<Rightarrow> world \<Rightarrow> int answer" where
  "CountProcesses e ws w =
     db_read e ''CountProcesses''
       (Inr (int (length (filter (\<lambda>p. p_workspace_id p = ws) (w_processes w)))))"

definition GetProcess :: "env \<Rightarrow> string \<Rightarrow> string \<Rightarrow> world \<Rightarrow> process answer" where
  "GetProcess e pid ws w =
     db_read e ''GetProcess''
       (one_row (List.find (\<lambda>p. p_id p = pid \<and> p_workspace_id p = ws) (w_processes w)))"

definition GetProcessByName :: "env \<Rightarrow> string \<Rightarrow> string \<Rightarrow> world \<Rightarrow> process answer" where
  "GetProcessByName e name ws w =
     db_read e ''GetProcessByName''
       (one_row (List.find (\<lambda>p. p_name p = name \<and> p_workspace_id p = ws) (w_processes w)))"

definition GetDependentProcesses :: "env \<Rightarrow> string \<Rightarrow> world \<Rightarrow> process list answer" where
  "GetDependentProcesses e pid w =
     db_read e ''GetDependentProcesses''
       (Inr (filter (\<lambda>p. p_depends_on_process_id p = Some pid \<and> p_enabled p) (w_processes w)))"

definition list_enabled :: "string \<Rightarrow> world \<Rightarrow> process list" where
  "list_enabled schedule_type w =
     filter (\<lambda>p. p_enabled p \<and> p_schedule_type p = schedule_type \<and>
       workspace_active w (p_workspace_id p)) (w_processes w)"

definition ListEnabledCronProcesses :: "env \<Rightarrow> world \<Rightarrow> process list answer" where
  "ListEnabledCronProcesses e w =
     db_read e ''ListEnabledCronProcesses'' (Inr (list_enabled ''cron'' w))"

definition ListEnabledFixedDelayProcesses :: "env \<Rightarrow> world \<Rightarrow> process list answer" where
  "ListEnabledFixedDelayProcesses e w =
     db_read e ''ListEnabledFixedDelayProcesses'' (Inr (list_enabled ''fixed_delay'' w))"

definition GetWorkspace :: "env \<Rightarrow> string \<Rightarrow> world \<Rightarrow> workspace answer" where
  "GetWorkspace e ws w =
     db_read e ''GetWorkspace'' (one_row (lookup_key wsp_id ws (w_workspaces w)))"

definition GetWorkspaceBySlug :: "env \<Rightarrow> string \<Rightarrow> world \<Rightarrow> workspace answer" where
  "GetWorkspaceBySlug e slug w =
     db_read e ''GetWorkspaceBySlug'' (one_row (lookup_key wsp_slug slug (w_workspaces w)))"

section \<open>Writing\<close>

text \<open>The constraints of the table \<open>processes\<close>, on a row to be inserted or rewritten.\<close>

definition process_violation :: "process \<Rightarrow> world \<Rightarrow> go_error option" where
  "process_violation a w = first_violation
     [(p_schedule_type a \<notin> {''cron'', ''fixed_delay'', ''on_demand''},
       check_violation ''processes_schedule_type_check''),
      (\<not> one_of [''execute'', ''skip''] (p_miss_policy a), check_violation ''processes_miss_policy_check''),
      (p_on_overlap a \<notin> {''skip'', ''queue''}, check_violation ''processes_on_overlap_check''),
      (p_execution_method a \<notin> {''http'', ''ssh'', ''ssm'', ''k8s''},
       check_violation ''processes_execution_method_check''),
      (p_runtime a \<notin> {''direct'', ''worker''}, check_violation ''processes_runtime_check''),
      (p_timeout_action a \<notin> {''kill'', ''alert'', ''both''},
       check_violation ''processes_timeout_action_check''),
      (\<not> one_of [''after'', ''after_success''] (p_dependency_type a),
       check_violation ''processes_dependency_type_check''),
      (dangling sc_id (p_ssh_credential_id a) (w_ssh_credentials w),
       foreign_key_violation ''processes_ssh_credential_id_fkey''),
      (dangling sm_id (p_ssm_profile_id a) (w_ssm_profiles w),
       foreign_key_violation ''processes_ssm_profile_id_fkey''),
      (dangling kc_id (p_k8s_cluster_id a) (w_k8s_clusters w),
       foreign_key_violation ''processes_k8s_cluster_id_fkey''),
      (dangling wk_id (p_worker_id a) (w_workers w),
       foreign_key_violation ''processes_worker_id_fkey''),
      (dangling p_id (p_depends_on_process_id a) (w_processes w) \<and>
         p_depends_on_process_id a \<noteq> Some (p_id a),
       foreign_key_violation ''processes_depends_on_process_id_fkey'')]"

definition CreateProcess :: "env \<Rightarrow> process \<Rightarrow> world \<Rightarrow> process answer \<times> world" where
  "CreateProcess e a w =
     (let row = a\<lparr>p_created_at := e_db_now e, p_updated_at := e_db_now e\<rparr>;
          bad = (case process_violation a w of
            Some err \<Rightarrow> Some err
          | None \<Rightarrow> first_violation
              [(has_key p_id (p_id a) (w_processes w), unique_violation ''processes_pkey''),
               (\<exists>p\<in>set (w_processes w). p_workspace_id p = p_workspace_id a \<and> p_name p = p_name a,
                unique_violation ''processes_workspace_id_name_key''),
               (\<not> has_key wsp_id (p_workspace_id a) (w_workspaces w),
                foreign_key_violation ''processes_workspace_id_fkey'')]);
          (err, w') = db_exec e ''CreateProcess'' bad
            (\<lambda>w. w\<lparr>w_processes := w_processes w @ [row]\<rparr>) w
      in (case err of Some x \<Rightarrow> Inl x | None \<Rightarrow> Inr row, w'))"

text \<open>Every column but the id, the workspace and the time of creation is overwritten.\<close>

definition set_process_columns :: "instant \<times> process \<Rightarrow> process \<Rightarrow> process" where
  "set_process_columns na p = (let (now, a) = na in
     a\<lparr>p_id := p_id p, p_workspace_id := p_workspace_id p, p_created_at := p_created_at p,
       p_updated_at := now\<rparr>)"

definition UpdateProcess :: "env \<Rightarrow> process \<Rightarrow> world \<Rightarrow> process answer \<times> world" where
  "UpdateProcess e a w =
     (case List.find (\<lambda>p. p_id p = p_id a \<and> p_workspace_id p = p_workspace_id a) (w_processes w) of
        None \<Rightarrow> (db_read e ''UpdateProcess'' (Inl ErrNoRows), w)
      | Some p \<Rightarrow>
          (let row = set_process_columns (e_db_now e, a) p;
               bad = (case process_violation a w of
                 Some err \<Rightarrow> Some err
               | None \<Rightarrow> first_violation
                   [(\<exists>q\<in>set (w_processes w). p_id q \<noteq> p_id a \<and>
                       p_workspace_id q = p_workspace_id a \<and> p_name q = p_name a,
                     unique_violation ''processes_workspace_id_name_key'')]);
               (err, w') = db_exec e ''UpdateProcess'' bad
                 (\<lambda>w. w\<lparr>w_processes := update_key p_id (p_id a)
                    (set_process_columns (e_db_now e, a)) (w_processes w)\<rparr>) w
           in (case err of Some x \<Rightarrow> Inl x | None \<Rightarrow> Inr row, w')))"

definition SetProcessEnabled :: "env \<Rightarrow> string \<Rightarrow> string \<Rightarrow> bool \<Rightarrow> world \<Rightarrow> go_error option \<times> world" where
  "SetProcessEnabled e pid ws enabled w =
     db_exec e ''SetProcessEnabled'' None
       (\<lambda>w. w\<lparr>w_processes := update_where (\<lambda>p. p_id p = pid \<and> p_workspace_id p = ws)
          (\<lambda>p. p\<lparr>p_enabled := enabled, p_updated_at := e_db_now e\<rparr>) (w_processes w)\<rparr>) w"

text \<open>
  \<open>DELETE FROM processes\<close>: the runs of the process go with it (\<open>ON DELETE CASCADE\<close>), with their
  attempts, output and heartbeats; a reference to one of them becomes \<open>NULL\<close>.
\<close>

definition forget :: "'a set \<Rightarrow> 'a option \<Rightarrow> 'a option" where
  "forget gone x = (case x of Some y \<Rightarrow> if y \<in> gone then None else x | None \<Rightarrow> None)"

definition delete_process_rows :: "string \<Rightarrow> string \<Rightarrow> world \<Rightarrow> world" where
  "delete_process_rows pid ws w =
     (let gone = p_id ` set (filter (\<lambda>p. p_id p = pid \<and> p_workspace_id p = ws) (w_processes w));
          runs = r_id ` set (filter (\<lambda>r. r_process_id r \<in> gone) (w_runs w))
      in w\<lparr>w_processes := map (\<lambda>p. p\<lparr>p_depends_on_process_id := forget gone (p_depends_on_process_id p)\<rparr>)
             (filter (\<lambda>p. p_id p \<notin> gone) (w_processes w)),
           w_runs := map (\<lambda>r. r\<lparr>r_triggered_by_run_id := forget runs (r_triggered_by_run_id r),
               r_replayed_from_run_id := forget runs (r_replayed_from_run_id r)\<rparr>)
             (filter (\<lambda>r. r_id r \<notin> runs) (w_runs w)),
           w_run_attempts := filter (\<lambda>a. ra_run_id a \<notin> runs) (w_run_attempts w),
           w_run_output := filter (\<lambda>x. ro_run_id x \<notin> runs) (w_run_output w),
           w_heartbeats := filter (\<lambda>h. hb_run_id h \<notin> runs) (w_heartbeats w)\<rparr>)"

definition DeleteProcess :: "env \<Rightarrow> string \<Rightarrow> string \<Rightarrow> world \<Rightarrow> int answer \<times> world" where
  "DeleteProcess e pid ws w =
     (case e_fault e ''DeleteProcess'' of
        Some err \<Rightarrow> (Inl err, w)
      | None \<Rightarrow>
          (Inr (int (length (filter (\<lambda>p. p_id p = pid \<and> p_workspace_id p = ws) (w_processes w)))),
           delete_process_rows pid ws w))"

definition CreateWorkspace ::
  "env \<Rightarrow> string \<Rightarrow> string \<Rightarrow> string \<Rightarrow> string \<Rightarrow> world \<Rightarrow> workspace answer \<times> world" where
  "CreateWorkspace e wid slug name st w =
     (let row = \<lparr>wsp_id = wid, wsp_slug = slug, wsp_name = name, wsp_state = st,
            wsp_default_timezone = ''UTC'', wsp_created_at = e_db_now e,
            wsp_updated_at = e_db_now e\<rparr>;
          (err, w') = db_exec e ''CreateWorkspace''
            (first_violation
              [(st \<notin> {''active'', ''suspended'', ''archived''}, check_violation ''workspaces_state_check''),
               (has_key wsp_id wid (w_workspaces w), unique_violation ''workspaces_pkey''),
               (has_key wsp_slug slug (w_workspaces w), unique_violation ''workspaces_slug_key'')])
            (\<lambda>w. w\<lparr>w_workspaces := w_workspaces w @ [row]\<rparr>) w
      in (case err of Some x \<Rightarrow> Inl x | None \<Rightarrow> Inr row, w'))"

definition UpdateWorkspaceState :: "env \<Rightarrow> string \<Rightarrow> string \<Rightarrow> world \<Rightarrow> go_error option \<times> world" where
  "UpdateWorkspaceState e wid st w =
     db_exec e ''UpdateWorkspaceState''
       (if has_key wsp_id wid (w_workspaces w) \<and> st \<notin> {''active'', ''suspended'', ''archived''}
        then Some (check_violation ''workspaces_state_check'') else None)
       (\<lambda>w. w\<lparr>w_workspaces := update_key wsp_id wid
          (\<lambda>x. x\<lparr>wsp_state := st, wsp_updated_at := e_db_now e\<rparr>) (w_workspaces w)\<rparr>) w"

definition set_workspace :: "instant \<times> string option \<times> string option \<Rightarrow> workspace \<Rightarrow> workspace" where
  "set_workspace na x = (let (now, name, tz) = na in
     x\<lparr>wsp_name := (case name of Some n \<Rightarrow> n | None \<Rightarrow> wsp_name x),
       wsp_default_timezone := (case tz of Some z \<Rightarrow> z | None \<Rightarrow> wsp_default_timezone x),
       wsp_updated_at := now\<rparr>)"

definition UpdateWorkspace ::
  "env \<Rightarrow> string \<Rightarrow> string option \<Rightarrow> string option \<Rightarrow> world \<Rightarrow> workspace answer \<times> world" where
  "UpdateWorkspace e wid name tz w =
     (case lookup_key wsp_id wid (w_workspaces w) of
        None \<Rightarrow> (db_read e ''UpdateWorkspace'' (Inl ErrNoRows), w)
      | Some x \<Rightarrow>
          (let (err, w') = db_exec e ''UpdateWorkspace'' None
             (\<lambda>w. w\<lparr>w_workspaces := update_key wsp_id wid (set_workspace (e_db_now e, name, tz))
                (w_workspaces w)\<rparr>) w
           in (case err of Some er \<Rightarrow> Inl er | None \<Rightarrow> Inr (set_workspace (e_db_now e, name, tz) x), w')))"

section \<open>Facts\<close>

interpretation process_update: row_update p_id set_process_columns
  by unfold_locales (simp add: set_process_columns_def Let_def split: prod.split)

interpretation workspace_update: row_update wsp_id set_workspace
  by unfold_locales (simp add: set_workspace_def Let_def split: prod.split)

lemma GetProcess_SomeD:
  "GetProcess e pid ws w = Inr p \<Longrightarrow>
   p \<in> set (w_processes w) \<and> p_id p = pid \<and> p_workspace_id p = ws"
  by (auto simp: GetProcess_def db_read_def one_row_def find_Some_iff split: option.splits)

lemma GetDependentProcesses_SomeD:
  "GetDependentProcesses e pid w = Inr ps \<Longrightarrow> p \<in> set ps \<Longrightarrow>
   p_depends_on_process_id p = Some pid \<and> p_enabled p \<and> p \<in> set (w_processes w)"
  by (auto simp: GetDependentProcesses_def db_read_def split: option.splits)

end
