(* ===== verification/Orchestrator.thy ===== *)
theory Orchestrator
  imports Backoff Process_Queries
begin

text \<open>
  The executor, \<open>internal/executor/orchestrator.go\<close> and \<open>async_runs.go\<close>: it claims due runs and
  dispatches them to the execution methods, forwards kill requests, polls asynchronous runs and
  finalizes results. A dispatch is cut at the call of \<open>Start\<close>, which may block for as long as
  the run takes: \<open>dispatch_begin\<close> is what happens before, \<open>dispatch_finish\<close> what happens after.
\<close>

section \<open>Configuration\<close>

text \<open>
  What is wired into the orchestrator: the registry and the callbacks. A log backend only shows
  in the trace.
\<close>

record orchestrator =
  o_registry :: registry
  o_onRunTerminal :: "(env \<Rightarrow> run \<Rightarrow> process \<Rightarrow> world \<Rightarrow> world) option"
  o_workerDispatch :: "(env \<Rightarrow> run \<Rightarrow> process \<Rightarrow> world \<Rightarrow> go_error option \<times> world) option"
  o_logBackend :: bool

definition panic :: "world \<Rightarrow> world" where
  "panic w = w\<lparr>w_panicked := True\<rparr>"

text \<open>\<open>%q\<close>, on strings without characters to escape\<close>

definition quoted :: "string \<Rightarrow> string" where
  "quoted s = CHR 0x22 # s @ [CHR 0x22]"

section \<open>Kill\<close>

text \<open>\<open>loadPersistedRunHandle\<close>: \<open>Inr None\<close> is a run without a handle.\<close>

definition loadPersistedRunHandle :: "env \<Rightarrow> string \<Rightarrow> world \<Rightarrow> handle option answer" where
  "loadPersistedRunHandle e rid w =
     (case GetRunExecutionHandle e rid w of
        Inl err \<Rightarrow> if err = ErrNoRows then Inr None else Inl err
      | Inr (j, _) \<Rightarrow>
          (case unmarshal_handle j of
             None \<Rightarrow> Inl (ErrText ''unmarshal run handle: cannot unmarshal'')
           | Some h \<Rightarrow> Inr (Some h)))"

definition kill_handle :: "orchestrator \<Rightarrow> handle \<Rightarrow> world \<Rightarrow> go_error option \<times> world" where
  "kill_handle o' h w =
     (case registry_Get (o_registry o') (h_method_name h) of
        None \<Rightarrow> (Some (ErrText (''executor: kill: method '' @ quoted (h_method_name h) @
                   '' not found in registry'')), w)
      | Some m \<Rightarrow> (m_Kill m h, emit (EvKill h) w))"

definition orchestrator_Kill ::
  "orchestrator \<Rightarrow> env \<Rightarrow> string \<Rightarrow> world \<Rightarrow> go_error option \<times> world" where
  "orchestrator_Kill o' e rid w =
     (case w_running w rid of
        Some h \<Rightarrow> kill_handle o' h w
      | None \<Rightarrow>
          (case loadPersistedRunHandle e rid w of
             Inl err \<Rightarrow> (Some err, w)
           | Inr None \<Rightarrow> (None, w)
           | Inr (Some h) \<Rightarrow> kill_handle o' h w))"

text \<open>One signal per run in \<open>kill_requested\<close>; the state is left to the poll.\<close>

definition processKillRequests :: "orchestrator \<Rightarrow> env \<Rightarrow> world \<Rightarrow> world" where
  "processKillRequests o' e w =
     (case ListKillRequestedRuns e w of
        Inl _ \<Rightarrow> w
      | Inr rows \<Rightarrow> fold (\<lambda>(r, p) w. snd (orchestrator_Kill o' e (r_id r) w)) rows w)"

section \<open>Claiming\<close>

text \<open>\<open>tick\<close>: the runs a goroutine is started for. The transaction writes nothing.\<close>

definition orchestrator_tick :: "env \<Rightarrow> world \<Rightarrow> run list" where
  "orchestrator_tick e w =
     (case e_fault e ''BeginTx'' of
        Some _ \<Rightarrow> []
      | None \<Rightarrow>
          (case ClaimPendingRuns e 10 w of
             Inl _ \<Rightarrow> []
           | Inr runs \<Rightarrow>
               (case ClaimRetryingRuns e 10 w of
                  Inl _ \<Rightarrow> []
                | Inr retrying \<Rightarrow>
                    (case e_fault e ''Commit'' of
                       Some _ \<Rightarrow> []
                     | None \<Rightarrow> runs @ retrying))))"

section \<open>After a run has ended\<close>

definition fixed_delay_params :: "string \<Rightarrow> process \<Rightarrow> instant \<Rightarrow> create_run_params" where
  "fixed_delay_params rid p next_at =
     \<lparr>cr_id = rid, cr_workspace_id = p_workspace_id p, cr_process_id = p_id p,
      cr_scheduled_at = Some next_at, cr_state = Pending, cr_origin = ''fixed_delay'',
      cr_max_attempts = p_max_attempts p, cr_actor_type = Some ''system'', cr_actor_id = None,
      cr_triggered_by_run_id = None, cr_replayed_from_run_id = None,
      cr_runtime = None, cr_worker_id = None, cr_tags = p_tags p\<rparr>"

definition continue_chain :: "env \<Rightarrow> process \<Rightarrow> run_state \<Rightarrow> world \<Rightarrow> world" where
  "continue_chain e p st w =
     (if p_schedule_type p = ''fixed_delay'' \<and> ContinuesFixedDelayChain st then
        (case p_delay_duration p of
           None \<Rightarrow> w
         | Some d \<Rightarrow>
             (case ParseDuration d of
                None \<Rightarrow> w
              | Some delay \<Rightarrow>
                  (let (rid, w) = id_New e ''run_'' w
                   in snd (CreateRun e (fixed_delay_params rid p (e_now e + delay)) w))))
      else w)"

definition handleTerminal ::
  "orchestrator \<Rightarrow> env \<Rightarrow> run \<Rightarrow> process \<Rightarrow> run_state \<Rightarrow> world \<Rightarrow> world" where
  "handleTerminal o' e run p st w =
     (let w = continue_chain e p st w
      in case o_onRunTerminal o' of None \<Rightarrow> w | Some f \<Rightarrow> f e run p w)"

definition updateState :: "env \<Rightarrow> string \<Rightarrow> run_state \<Rightarrow> world \<Rightarrow> world" where
  "updateState e rid st w = snd (UpdateRunState e (run_upd rid st) w)"

definition updateStateFailed :: "env \<Rightarrow> string \<Rightarrow> int \<Rightarrow> world \<Rightarrow> world" where
  "updateStateFailed e rid ec w =
     snd (UpdateRunState e ((run_upd rid Failed)
       \<lparr>us_finished_at := Some (e_now e), us_exit_code := Some (wrap32 ec)\<rparr>) w)"

section \<open>Finalizing\<close>

definition clip200 :: "string \<Rightarrow> string" where
  "clip200 s = (if length s > 200 then take 200 s @ ''...'' else s)"

text \<open>The error message of an attempt.\<close>

definition attempt_error :: "result \<Rightarrow> string option" where
  "attempt_error r =
     (case res_error r of
        Some err \<Rightarrow> Some (Error err)
      | None \<Rightarrow>
          if IsSuccess r then None
          else Some (case res_response_code r of
              Some c \<Rightarrow> ''HTTP '' @ Itoa c @
                (if res_response_body r \<noteq> [] then '': '' @ clip200 (res_response_body r) else [])
            | None \<Rightarrow>
                (case res_exit_code r of
                   Some c \<Rightarrow> ''exit code '' @ Itoa c @
                     (if res_stderr r \<noteq> [] then '': '' @ clip200 (res_stderr r) else [])
                 | None \<Rightarrow> ''execution failed (unknown reason)'')))"

text \<open>One of the outputs of a result: stored, and sent to the log backend if there is one.\<close>

definition store_output ::
  "orchestrator \<Rightarrow> env \<Rightarrow> string \<Rightarrow> string \<Rightarrow> string \<Rightarrow> string \<Rightarrow> world \<Rightarrow> world" where
  "store_output o' e site rid stream content w =
     (if content = [] then w
      else (let (oid, w) = id_New e ''out_'' w;
                w = snd (AppendRunOutput e site oid rid stream content False w)
            in if o_logBackend o' then emit (EvRunOutput rid stream content) w else w))"

definition run_ended ::
  "orchestrator \<Rightarrow> env \<Rightarrow> string \<Rightarrow> string \<Rightarrow> process \<Rightarrow> run_state \<Rightarrow> world \<Rightarrow> world" where
  "run_ended o' e rid ws p st w =
     (case GetRun e rid ws w of
        Inl _ \<Rightarrow> w
      | Inr run \<Rightarrow> handleTerminal o' e run p st w)"

text \<open>What is recorded of a result before the run itself is classified.\<close>

definition record_result ::
  "orchestrator \<Rightarrow> env \<Rightarrow> string \<Rightarrow> string \<Rightarrow> instant \<Rightarrow> result \<Rightarrow> world \<Rightarrow> world" where
  "record_result o' e rid attempt_id started r w =
     (let finished = e_now e;
          ms = milliseconds (go_Sub finished started);
          ec = map_option wrap32 (res_exit_code r);
          w = (if attempt_id \<noteq> []
               then snd (FinishRunAttempt e attempt_id (Some finished) (Some ms) ec (attempt_error r) w)
               else w);
          w = store_output o' e ''stdout'' rid ''stdout'' (res_stdout r) w;
          w = store_output o' e ''stderr'' rid ''stderr'' (res_stderr r) w;
          w = store_output o' e ''body'' rid ''stdout'' (res_response_body r) w
      in snd (ClearRunExecutionHandle e rid w))"

definition finalizeRunResult ::
  "orchestrator \<Rightarrow> env \<Rightarrow> string \<Rightarrow> string \<Rightarrow> string \<Rightarrow> int \<Rightarrow> instant \<Rightarrow> process \<Rightarrow> result \<Rightarrow>
   world \<Rightarrow> world" where
  "finalizeRunResult o' e rid ws attempt_id attempt started p r w =
     (let finished = e_now e;
          ms = milliseconds (go_Sub finished started);
          ec = map_option wrap32 (res_exit_code r);
          w = record_result o' e rid attempt_id started r w
      in if IsSuccess r then
           (let w = snd (UpdateRunState e ((run_upd rid Completed)
                      \<lparr>us_finished_at := Some finished, us_duration_ms := Some ms,
                       us_exit_code := ec\<rparr>) w);
                w = emit (EvObserve ''run_duration'' ms) (emit (EvCounter ''runs_completed'') w)
            in run_ended o' e rid ws p Completed w)
         else if attempt < p_max_attempts p then
           (case executor_calculateBackoff finished attempt
                   (executor_parseBackoffList (p_retry_backoff p)) of
              None \<Rightarrow> panic w
            | Some next_at \<Rightarrow>
                snd (UpdateRunState e ((run_upd rid Retrying)
                  \<lparr>us_attempt := Some attempt, us_next_attempt_at := Some next_at,
                   us_duration_ms := Some ms\<rparr>) w))
         else
           (let w = snd (UpdateRunState e ((run_upd rid Failed)
                      \<lparr>us_finished_at := Some finished, us_duration_ms := Some ms,
                       us_exit_code := Some (case ec of Some c \<Rightarrow> c | None \<Rightarrow> -1)\<rparr>) w);
                w = emit (EvObserve ''run_duration'' ms) (emit (EvCounter ''runs_failed'') w)
            in run_ended o' e rid ws p Failed w))"

section \<open>Dispatching\<close>

text \<open>What \<open>dispatch\<close> holds while \<open>Start\<close> is running.\<close>

record start_call =
  dc_run :: run
  dc_process :: process
  dc_method :: method_impl
  dc_params :: start_params
  dc_attempt_id :: string
  dc_attempt :: int
  dc_now :: instant

definition config_snapshot :: "env \<Rightarrow> process \<Rightarrow> json" where
  "config_snapshot e p =
     JObj [(''execution_method'', JStr (p_execution_method p)),
           (''method_config'', JStr (e_json_text e (p_method_config p))),
           (''runtime'', JStr (p_runtime p))]"

definition run_start_params :: "run \<Rightarrow> process \<Rightarrow> start_params" where
  "run_start_params run p =
     \<lparr>sp_run_id = r_id run, sp_workspace_id = r_workspace_id run,
      sp_method_config = (case unmarshal_map (p_method_config p) of Some m \<Rightarrow> m | None \<Rightarrow> None),
      sp_environment = None, sp_api_base_url = [], sp_timeout = 0\<rparr>"

text \<open>The transition to running, the snapshot and the attempt record, and the call.\<close>

definition begin_attempt ::
  "env \<Rightarrow> run \<Rightarrow> process \<Rightarrow> method_impl \<Rightarrow> world \<Rightarrow> start_call \<times> world" where
  "begin_attempt e run p m w =
     (let now = e_now e;
          attempt = wrap32 (r_attempt run + 1);
          w = snd (UpdateRunState e ((run_upd (r_id run) Running)
                \<lparr>us_started_at := Some now, us_attempt := Some attempt\<rparr>) w);
          w = (if attempt = 1 then snd (SnapshotRunConfig e (r_id run) (config_snapshot e p) w) else w);
          (attempt_id, w) = id_New e ''rat_'' w;
          w = snd (CreateRunAttempt e attempt_id (r_id run) attempt now None w);
          w = emit (EvStart (p_execution_method p) (run_start_params run p)) w
      in (\<lparr>dc_run = run, dc_process = p, dc_method = m, dc_params = run_start_params run p,
           dc_attempt_id = attempt_id, dc_attempt = attempt, dc_now = now\<rparr>, w))"

definition dispatch_to_worker ::
  "orchestrator \<Rightarrow> env \<Rightarrow> run \<Rightarrow> process \<Rightarrow> world \<Rightarrow> world" where
  "dispatch_to_worker o' e run p w =
     (case o_workerDispatch o' of
        Some f \<Rightarrow>
          (case f e run p w of
             (Some err, w) \<Rightarrow> snd (UpdateRunState e ((run_upd (r_id run) WaitingForWorker)
                \<lparr>us_waiting_reason := Some (''Worker dispatch failed: '' @ Error err)\<rparr>) w)
           | (None, w) \<Rightarrow> w)
      | None \<Rightarrow> snd (UpdateRunState e ((run_upd (r_id run) WaitingForWorker)
          \<lparr>us_waiting_reason := Some ''Waiting for available worker''\<rparr>) w))"

text \<open>The parallelism check came out in favour of the run, or does not apply.\<close>

definition dispatch_route ::
  "orchestrator \<Rightarrow> env \<Rightarrow> run \<Rightarrow> process \<Rightarrow> world \<Rightarrow> start_call option \<times> world" where
  "dispatch_route o' e run p w =
     (if p_runtime p = ''worker'' then (None, dispatch_to_worker o' e run p w)
      else (case registry_Get (o_registry o') (p_execution_method p) of
              None \<Rightarrow> (None, updateStateFailed e (r_id run) (-1) w)
            | Some m \<Rightarrow> (let (c, w) = begin_attempt e run p m w in (Some c, w))))"

definition dispatch_begin ::
  "orchestrator \<Rightarrow> env \<Rightarrow> run \<Rightarrow> world \<Rightarrow> start_call option \<times> world" where
  "dispatch_begin o' e run w =
     (case GetProcess e (r_process_id run) (r_workspace_id run) w of
        Inl _ \<Rightarrow> (None, w)
      | Inr p \<Rightarrow>
          if p_schedule_type p = ''cron'' \<and> \<not> p_allow_parallel p then
            (case CountActiveByProcess e (p_id p) w of
               Inl _ \<Rightarrow> (None, w)
             | Inr active \<Rightarrow>
                 if active > 1 \<and> p_on_overlap p = ''skip'' then
                   (None, handleTerminal o' e run p Skipped (updateState e (r_id run) Skipped w))
                 else if active > 1 \<and> p_on_overlap p = ''queue'' then
                   (None, updateState e (r_id run) Queued w)
                 else dispatch_route o' e run p w)
          else dispatch_route o' e run p w)"

definition saveRunExecutionHandle :: "env \<Rightarrow> string \<Rightarrow> handle \<Rightarrow> world \<Rightarrow> go_error option \<times> world" where
  "saveRunExecutionHandle e rid h w = SaveRunExecutionHandle e rid (marshal_handle h) w"

definition store_running :: "string \<Rightarrow> handle \<Rightarrow> world \<Rightarrow> world" where
  "store_running rid h w = w\<lparr>w_running := (w_running w)(rid \<mapsto> h)\<rparr>"

definition delete_running :: "string \<Rightarrow> world \<Rightarrow> world" where
  "delete_running rid w = w\<lparr>w_running := (w_running w)(rid := None)\<rparr>"

text \<open>\<open>Start\<close> has returned a result: the run may have been asked to stop meanwhile.\<close>

definition finish_blocking ::
  "orchestrator \<Rightarrow> env \<Rightarrow> start_call \<Rightarrow> result \<Rightarrow> world \<Rightarrow> world" where
  "finish_blocking o' e c r w =
     (let run = dc_run c; p = dc_process c; finished = e_now e;
          ms = milliseconds (go_Sub finished (dc_now c));
          kill_requested = (case GetRun e (r_id run) (r_workspace_id run) w of
              Inl _ \<Rightarrow> False | Inr cur \<Rightarrow> r_state cur = KillRequested)
      in if kill_requested \<and> m_SupportsKill (dc_method c) \<and> \<not> IsSuccess r then
           handleTerminal o' e run p Killed
             (snd (UpdateRunState e ((run_upd (r_id run) Killed)
               \<lparr>us_finished_at := Some finished, us_duration_ms := Some ms,
                us_exit_code := Some (case res_exit_code r of Some c \<Rightarrow> wrap32 c | None \<Rightarrow> 137)\<rparr>) w))
         else finalizeRunResult o' e (r_id run) (r_workspace_id run) (dc_attempt_id c)
                (dc_attempt c) (dc_now c) p r w)"

definition dispatch_finish ::
  "orchestrator \<Rightarrow> env \<Rightarrow> start_call \<Rightarrow> start_result \<times> go_error option \<Rightarrow> world \<Rightarrow> world" where
  "dispatch_finish o' e c answer w =
     (let run = dc_run c; p = dc_process c
      in case answer of
           (_, Some err) \<Rightarrow>
             snd (UpdateRunState e ((run_upd (r_id run) Failed)
               \<lparr>us_finished_at := Some (e_now e),
                us_waiting_reason := Some (''start failed: '' @ Error err)\<rparr>) w)
         | (sr, None) \<Rightarrow>
             (let h = (if h_method_name (sr_handle sr) = []
                       then \<lparr>h_method_name = p_execution_method p, h_run_id = r_id run, h_data = Some []\<rparr>
                       else sr_handle sr);
                  w = store_running (r_id run) h w;
                  w = (case sr_result sr of
                         None \<Rightarrow>
                           (case saveRunExecutionHandle e (r_id run) h w of
                              (Some _, w) \<Rightarrow> updateStateFailed e (r_id run) (-1) w
                            | (None, w) \<Rightarrow> w)
                       | Some r \<Rightarrow> finish_blocking o' e c r w)
              in delete_running (r_id run) w))"

text \<open>The whole dispatch of a run whose method answers at once; \<open>e'\<close> is the environment after.\<close>

definition dispatch :: "orchestrator \<Rightarrow> env \<Rightarrow> env \<Rightarrow> run \<Rightarrow> world \<Rightarrow> world" where
  "dispatch o' e e' run w =
     (case dispatch_begin o' e run w of
        (None, w) \<Rightarrow> w
      | (Some c, w) \<Rightarrow> dispatch_finish o' e' c (m_Start (dc_method c) (dc_params c)) w)"

end
