(* ===== verification/Async_Runs.thy ===== *)
theory Async_Runs
  imports Orchestrator
begin

text \<open>
  Polling of asynchronous runs, \<open>internal/executor/async_runs.go\<close>: each active run with a
  persisted handle is polled, its output chunks are appended, and a final answer finalizes it.
\<close>

section \<open>The rows to poll\<close>

record async_run_poll_row =
  ap_id :: string
  ap_workspace_id :: string
  ap_process_id :: string
  ap_attempt :: int
  ap_state :: run_state
  ap_started_at :: instant
  ap_attempt_id :: string
  ap_execution_handle :: json
  ap_stdout_offset :: int
  ap_stderr_offset :: int
  ap_execution_method :: string

text \<open>A row without \<open>started_at\<close> is skipped.\<close>

fun poll_rows :: "async_run_row list \<Rightarrow> async_run_poll_row list" where
  "poll_rows [] = []"
| "poll_rows (x # xs) =
     (case ar_started_at x of
        None \<Rightarrow> poll_rows xs
      | Some t \<Rightarrow>
          \<lparr>ap_id = ar_id x, ap_workspace_id = ar_workspace_id x, ap_process_id = ar_process_id x,
           ap_attempt = ar_attempt x, ap_state = ar_state x, ap_started_at = t,
           ap_attempt_id = ar_attempt_id x, ap_execution_handle = ar_execution_handle x,
           ap_stdout_offset = ar_stdout_offset x, ap_stderr_offset = ar_stderr_offset x,
           ap_execution_method = ar_execution_method x\<rparr> # poll_rows xs)"

definition listActiveAsyncRuns :: "env \<Rightarrow> world \<Rightarrow> async_run_poll_row list answer" where
  "listActiveAsyncRuns e w =
     (case ListActiveAsyncRuns e w of Inl err \<Rightarrow> Inl err | Inr rows \<Rightarrow> Inr (poll_rows rows))"

section \<open>One poll\<close>

text \<open>A chunk is logged only when it was stored; the flag says whether the insert failed.\<close>

definition append_chunk ::
  "orchestrator \<Rightarrow> env \<Rightarrow> string \<Rightarrow> string \<Rightarrow> string \<Rightarrow> string \<Rightarrow> world \<Rightarrow> bool \<times> world" where
  "append_chunk o' e site rid stream content w =
     (if content = [] then (False, w)
      else (let (oid, w) = id_New e ''out_'' w
            in case AppendRunOutput e site oid rid stream content False w of
                 (Some _, w) \<Rightarrow> (True, w)
               | (None, w) \<Rightarrow>
                   (False, if o_logBackend o' then emit (EvRunOutput rid stream content) w else w)))"

text \<open>The offset a poll leaves: the method's own, or the row's moved on by the chunk.\<close>

definition next_offset :: "int \<Rightarrow> int \<Rightarrow> string \<Rightarrow> int" where
  "next_offset cursor old chunk =
     (if cursor = 0 \<and> chunk \<noteq> [] then wrap64 (old + int (length chunk)) else cursor)"

definition store_poll_output ::
  "orchestrator \<Rightarrow> env \<Rightarrow> async_run_poll_row \<Rightarrow> poll_result \<Rightarrow> world \<Rightarrow> world" where
  "store_poll_output o' e row poll w =
     (let so = next_offset (pc_stdout_offset (pr_cursor poll)) (ap_stdout_offset row) (pr_stdout_chunk poll);
          se = next_offset (pc_stderr_offset (pr_cursor poll)) (ap_stderr_offset row) (pr_stderr_chunk poll);
          (f1, w) = append_chunk o' e ''stdout'' (ap_id row) ''stdout'' (pr_stdout_chunk poll) w;
          (f2, w) = append_chunk o' e ''stderr'' (ap_id row) ''stderr'' (pr_stderr_chunk poll) w;
          (f3, w) = append_chunk o' e ''body'' (ap_id row) ''stdout'' (pr_response_body_chunk poll) w
      in if \<not> (f1 \<or> f2 \<or> f3) \<and> (so \<noteq> ap_stdout_offset row \<or> se \<noteq> ap_stderr_offset row)
         then snd (UpdateRunOffsets e (ap_id row) so se w) else w)"

definition poll_outcome :: "poll_result \<Rightarrow> result" where
  "poll_outcome poll =
     \<lparr>res_exit_code = pr_exit_code poll, res_response_code = None, res_stdout = pr_stdout_chunk poll,
      res_stderr = pr_stderr_chunk poll, res_response_body = pr_response_body_chunk poll,
      res_duration_ms = 0, res_error = pr_error poll\<rparr>"

definition finalize_row ::
  "orchestrator \<Rightarrow> env \<Rightarrow> async_run_poll_row \<Rightarrow> process \<Rightarrow> result \<Rightarrow> world \<Rightarrow> world" where
  "finalize_row o' e row p r w =
     finalizeRunResult o' e (ap_id row) (ap_workspace_id row) (ap_attempt_id row) (ap_attempt row)
       (ap_started_at row) p r w"

definition finalizeRunKilled ::
  "orchestrator \<Rightarrow> env \<Rightarrow> async_run_poll_row \<Rightarrow> process \<Rightarrow> result \<Rightarrow> world \<Rightarrow> world" where
  "finalizeRunKilled o' e row p r w =
     (if ap_state row \<noteq> KillRequested then
        finalize_row o' e row p
          (if res_error r = None then r\<lparr>res_error := Some (ErrText ''process was killed'')\<rparr> else r) w
      else
        (let finished = e_now e;
             ms = milliseconds (go_Sub finished (ap_started_at row));
             ec = map_option wrap32 (res_exit_code r);
             w = (if ap_attempt_id row \<noteq> []
                  then snd (FinishRunAttempt e (ap_attempt_id row) (Some finished) (Some ms) ec
                         (map_option Error (res_error r)) w)
                  else w);
             w = snd (ClearRunExecutionHandle e (ap_id row) w);
             w = snd (UpdateRunState e ((run_upd (ap_id row) Killed)
                   \<lparr>us_finished_at := Some finished, us_duration_ms := Some ms,
                    us_exit_code := Some (case ec of Some c \<Rightarrow> c | None \<Rightarrow> 137)\<rparr>) w)
         in run_ended o' e (ap_id row) (ap_workspace_id row) p Killed w))"

text \<open>The final states of a poll; an unknown one is ignored.\<close>

definition conclude_poll ::
  "orchestrator \<Rightarrow> env \<Rightarrow> async_run_poll_row \<Rightarrow> process \<Rightarrow> poll_result \<Rightarrow> world \<Rightarrow> world" where
  "conclude_poll o' e row p poll w =
     (let r = poll_outcome poll
      in if pr_state poll = RemoteKilled then finalizeRunKilled o' e row p r w
         else if pr_state poll = RemoteCompleted then finalize_row o' e row p r w
         else if pr_state poll = RemoteFailed then
           finalize_row o' e row p
             (if res_error r = None \<and> res_exit_code r = None
              then r\<lparr>res_error := Some (ErrText ''remote execution failed'')\<rparr> else r) w
         else w)"

definition pollAsyncRun :: "orchestrator \<Rightarrow> env \<Rightarrow> async_run_poll_row \<Rightarrow> world \<Rightarrow> world" where
  "pollAsyncRun o' e row w =
     (case unmarshal_handle (ap_execution_handle row) of
        None \<Rightarrow> w
      | Some h0 \<Rightarrow>
          (let h = (if h_method_name h0 = [] then h0\<lparr>h_method_name := ap_execution_method row\<rparr> else h0)
           in case registry_Get (o_registry o') (h_method_name h) of
                None \<Rightarrow> w
              | Some m \<Rightarrow>
                  (case m_Poll m h \<lparr>pc_stdout_offset = ap_stdout_offset row,
                                    pc_stderr_offset = ap_stderr_offset row\<rparr> of
                     (_, Some _) \<Rightarrow> w
                   | (poll, None) \<Rightarrow>
                       (let w = store_poll_output o' e row poll w
                        in if pr_state poll = [] \<or> pr_state poll = RemoteRunning then w
                           else (case GetProcess e (ap_process_id row) (ap_workspace_id row) w of
                                   Inl _ \<Rightarrow> w
                                 | Inr p \<Rightarrow> conclude_poll o' e row p poll w)))))"

text \<open>The polls of a round run side by side; here one after the other.\<close>

definition processAsyncRuns :: "orchestrator \<Rightarrow> env \<Rightarrow> world \<Rightarrow> world" where
  "processAsyncRuns o' e w =
     (case listActiveAsyncRuns e w of
        Inl _ \<Rightarrow> w
      | Inr rows \<Rightarrow> fold (pollAsyncRun o' e) rows w)"

end
