(* ===== verification/Dependency.thy ===== *)
theory Dependency
  imports Process_Queries
begin

text \<open>
  Dependencies between processes, \<open>internal/dependency/resolver.go\<close>: \<open>Evaluate\<close> creates the runs
  that depend on a run that has ended, \<open>ValidateNoCycles\<close> walks the chain of dependencies.
\<close>

section \<open>Evaluate\<close>

definition dependent_params :: "env \<Rightarrow> string \<Rightarrow> process \<Rightarrow> run \<Rightarrow> create_run_params" where
  "dependent_params e rid p parent =
     \<lparr>cr_id = rid, cr_workspace_id = p_workspace_id p, cr_process_id = p_id p,
      cr_scheduled_at = Some (e_now e), cr_state = Pending, cr_origin = ''dependency'',
      cr_max_attempts = p_max_attempts p, cr_actor_type = Some ''system'', cr_actor_id = None,
      cr_triggered_by_run_id = Some (r_id parent), cr_replayed_from_run_id = None,
      cr_runtime = None, cr_worker_id = None, cr_tags = p_tags p\<rparr>"

definition createDependentRun ::
  "env \<Rightarrow> process \<Rightarrow> run \<Rightarrow> world \<Rightarrow> go_error option \<times> world" where
  "createDependentRun e p parent w =
     (let (rid, w) = id_New e ''run_'' w in CreateRun e (dependent_params e rid p parent) w)"

text \<open>The body of the loop; an error of the insert is logged.\<close>

definition evaluate_dependent :: "env \<Rightarrow> run \<Rightarrow> process \<Rightarrow> world \<Rightarrow> world" where
  "evaluate_dependent e parent dep w =
     (case p_dependency_type dep of
        None \<Rightarrow> w
      | Some t \<Rightarrow>
          if t = ''after'' then snd (createDependentRun e dep parent w)
          else if t = ''after_success'' then
            (if r_state parent = Completed then snd (createDependentRun e dep parent w) else w)
          else w)"

definition Evaluate :: "env \<Rightarrow> run \<Rightarrow> world \<Rightarrow> go_error option \<times> world" where
  "Evaluate e run w =
     (if \<not> IsFinalTerminal (r_state run) then (None, w)
      else (case GetDependentProcesses e (r_process_id run) w of
              Inl err \<Rightarrow> (Some err, w)
            | Inr deps \<Rightarrow> (None, fold (evaluate_dependent e run) deps w)))"

section \<open>Cycles\<close>

text \<open>
  The walk of \<open>ValidateNoCycles\<close>: \<open>ws\<close> is the workspace id passed to \<open>GetProcess\<close>, \<open>visited\<close> the
  keys of the map; the answer is the process the cycle is at. The map only ever holds ids of
  processes that were found, so the walk ends.
\<close>

function cycle_walk ::
  "env \<Rightarrow> string \<Rightarrow> world \<Rightarrow> string list \<Rightarrow> string \<Rightarrow> string option" where
  "cycle_walk e ws w visited current =
     (if current = [] then None
      else if current \<in> set visited then Some current
      else (case GetProcess e current ws w of
              Inl _ \<Rightarrow> None
            | Inr p \<Rightarrow>
                (case p_depends_on_process_id p of
                   None \<Rightarrow> None
                 | Some d \<Rightarrow> cycle_walk e ws w (current # visited) d)))"
  by pat_completeness auto

termination
proof (relation "measure (\<lambda>(e, ws, w, visited, current).
    card (p_id ` set (w_processes w) - set visited))")
  fix e ws w visited current p d
  assume "current \<notin> set visited" and "GetProcess e current ws w = Inr p"
  then have "current \<in> p_id ` set (w_processes w) - set visited"
    by (auto dest: GetProcess_SomeD)
  then have "card (p_id ` set (w_processes w) - set visited - {current})
      < card (p_id ` set (w_processes w) - set visited)"
    by (intro card_Diff1_less) auto
  moreover have "p_id ` set (w_processes w) - set (current # visited) =
      p_id ` set (w_processes w) - set visited - {current}"
    by auto
  ultimately show "((e, ws, w, current # visited, d), (e, ws, w, visited, current))
      \<in> measure (\<lambda>(e, ws, w, visited, current). card (p_id ` set (w_processes w) - set visited))"
    by simp
qed simp

declare cycle_walk.simps [simp del]

definition ValidateNoCycles :: "env \<Rightarrow> world \<Rightarrow> string \<Rightarrow> string \<Rightarrow> string option" where
  "ValidateNoCycles e w childID parentID = cycle_walk e [] w [childID] parentID"

section \<open>What Evaluate does\<close>

lemma spawns_createDependentRun: "spawns w (snd (createDependentRun e p parent w))"
proof -
  have "spawns w (snd (id_New e ''run_'' w))"
    by (rule spawns_same_runs) (simp add: frame_simps)
  also have "spawns \<dots> (snd (createDependentRun e p parent w))"
    by (simp add: createDependentRun_def spawns_CreateRun dependent_params_def split: prod.split)
  finally show ?thesis .
qed

interpretation dependent_run: run_spawner "evaluate_dependent e parent"
  by unfold_locales (auto simp: evaluate_dependent_def spawns_createDependentRun split: option.split)

interpretation evaluate: run_spawner "\<lambda>run w. snd (Evaluate e run w)"
  by unfold_locales (auto simp: Evaluate_def dependent_run.fold_spawns split: sum.split)

text \<open>Which dependents a run that ended in a state triggers.\<close>

definition triggers :: "run_state \<Rightarrow> process \<Rightarrow> bool" where
  "triggers s dep \<longleftrightarrow> p_dependency_type dep = Some ''after'' \<or>
     p_dependency_type dep = Some ''after_success'' \<and> s = Completed"

lemma evaluate_dependent_triggers:
  "evaluate_dependent e parent dep w =
     (if triggers (r_state parent) dep then snd (createDependentRun e dep parent w) else w)"
  by (auto simp: evaluate_dependent_def triggers_def split: option.split)

text \<open>
  What an insert of a dependent run needs besides unused ids: the parent in the table, the
  workspace of the process, and no run of the process at this instant yet.
\<close>

definition slot_free :: "env \<Rightarrow> world \<Rightarrow> process \<Rightarrow> bool" where
  "slot_free e w dep \<longleftrightarrow>
     (\<forall>r\<in>set (w_runs w). run_slot r \<noteq> (p_id dep, e_now e, ''dependency''))"

definition dependent_run_of :: "env \<Rightarrow> world \<Rightarrow> run \<Rightarrow> process \<Rightarrow> run" where
  "dependent_run_of e w parent dep =
     new_run e (dependent_params e (''run_'' @ e_ulid e (w_ids w)) dep parent)"

lemma createDependentRun_accepted:
  assumes "e_fault e ''CreateRun'' = None" "fresh_run_ids e w" "slot_free e w dep"
    and "has_key r_id (r_id parent) (w_runs w)" "has_key p_id (p_id dep) (w_processes w)"
    and "has_key wsp_id (p_workspace_id dep) (w_workspaces w)"
  shows "snd (createDependentRun e dep parent w) =
    w\<lparr>w_ids := Suc (w_ids w), w_runs := w_runs w @ [dependent_run_of e w parent dep]\<rparr>"
proof -
  have "create_run_violation (dependent_params e (''run_'' @ e_ulid e (w_ids w)) dep parent)
      (w\<lparr>w_ids := Suc (w_ids w)\<rparr>) = None"
    using assms(2-6)
    by (auto simp: create_run_violation_def dependent_params_def run_origins_def one_of_def
        actor_types_def dangling_def fresh_run_ids_def slot_free_def run_slot_def)
  then show ?thesis
    using assms(1)
    by (simp add: createDependentRun_def id_New_def CreateRun_def db_exec_ok dependent_run_of_def)
qed

lemma evaluate_fold:
  assumes "e_fault e ''CreateRun'' = None" "fresh_run_ids e w"
    and "has_key r_id (r_id parent) (w_runs w)" "distinct (map p_id deps)"
    and "\<And>dep. dep \<in> set deps \<Longrightarrow> slot_free e w dep \<and> has_key p_id (p_id dep) (w_processes w) \<and>
           has_key wsp_id (p_workspace_id dep) (w_workspaces w)"
  shows "\<exists>new. w_runs (fold (evaluate_dependent e parent) deps w) = w_runs w @ new \<and>
    list_all2 (\<lambda>r dep. r = new_run e (dependent_params e (r_id r) dep parent)) new
      (filter (triggers (r_state parent)) deps)"
  using assms(2-)
proof (induction deps arbitrary: w)
  case Nil
  then show ?case by simp
next
  case (Cons dep deps)
  show ?case
  proof (cases "triggers (r_state parent) dep")
    case False
    then show ?thesis using Cons by (simp add: evaluate_dependent_triggers)
  next
    case True
    let ?w = "w\<lparr>w_ids := Suc (w_ids w), w_runs := w_runs w @ [dependent_run_of e w parent dep]\<rparr>"
    have step: "evaluate_dependent e parent dep w = ?w"
      using True Cons.prems assms(1)
      by (simp add: evaluate_dependent_triggers createDependentRun_accepted)
    have slots: "slot_free e ?w d" if "d \<in> set deps" for d
      using that Cons.prems
      by (auto simp: slot_free_def dependent_run_of_def new_run_def run_slot_def dependent_params_def)
    have "\<exists>new. w_runs (fold (evaluate_dependent e parent) deps ?w) = w_runs ?w @ new \<and>
      list_all2 (\<lambda>r dep. r = new_run e (dependent_params e (r_id r) dep parent)) new
        (filter (triggers (r_state parent)) deps)"
    proof (rule Cons.IH)
      show "fresh_run_ids e ?w"
        by (rule fresh_run_ids_step)
          (use Cons.prems in \<open>simp_all add: dependent_run_of_def new_run_def dependent_params_def\<close>)
    qed (use Cons.prems slots in \<open>auto simp: has_key_def\<close>)
    then obtain new where new: "w_runs (fold (evaluate_dependent e parent) deps ?w) = w_runs ?w @ new"
      "list_all2 (\<lambda>r dep. r = new_run e (dependent_params e (r_id r) dep parent)) new
        (filter (triggers (r_state parent)) deps)" by blast
    show ?thesis
      using True new
      by (intro exI[of _ "dependent_run_of e w parent dep # new"])
        (simp add: step dependent_run_of_def new_run_def dependent_params_def)
  qed
qed

section \<open>What the walk decides\<close>

text \<open>The edges the walk follows.\<close>

definition dep_edge :: "env \<Rightarrow> string \<Rightarrow> world \<Rightarrow> string \<Rightarrow> string \<Rightarrow> bool" where
  "dep_edge e ws w x y \<longleftrightarrow> x \<noteq> [] \<and>
     (\<exists>p. GetProcess e x ws w = Inr p \<and> p_depends_on_process_id p = Some y)"

lemma cycle_walk_sound:
  "cycle_walk e ws w visited current = Some c \<Longrightarrow>
   (dep_edge e ws w)\<^sup>*\<^sup>* current c \<and> (c \<in> set visited \<or> (dep_edge e ws w)\<^sup>+\<^sup>+ c c)"
proof (induction e ws w visited current rule: cycle_walk.induct)
  case (1 e ws w visited current)
  show ?case
  proof (cases "current \<in> set visited")
    case True
    then show ?thesis using "1.prems" by (simp add: cycle_walk.simps split: if_splits)
  next
    case False
    then obtain p d where p: "current \<noteq> []" "GetProcess e current ws w = Inr p"
      "p_depends_on_process_id p = Some d" "cycle_walk e ws w (current # visited) d = Some c"
      using "1.prems" by (subst (asm) cycle_walk.simps) (auto split: if_splits sum.splits option.splits)
    then have edge: "dep_edge e ws w current d" by (simp add: dep_edge_def)
    have IH: "(dep_edge e ws w)\<^sup>*\<^sup>* d c \<and> (c \<in> set (current # visited) \<or> (dep_edge e ws w)\<^sup>+\<^sup>+ c c)"
      using "1.IH" p False by blast
    then show ?thesis
      using edge by (auto intro: converse_rtranclp_into_rtranclp rtranclp_into_tranclp2)
  qed
qed

lemma cycle_walk_complete:
  "(dep_edge e ws w)\<^sup>*\<^sup>* current c \<Longrightarrow> c \<in> set visited \<Longrightarrow> c \<noteq> [] \<Longrightarrow>
   cycle_walk e ws w visited current \<noteq> None"
proof (induction e ws w visited current rule: cycle_walk.induct)
  case (1 e ws w visited current)
  show ?case
  proof (cases "current \<in> set visited")
    case True
    moreover have "current \<noteq> []"
      using "1.prems" by (metis converse_rtranclpE dep_edge_def)
    ultimately show ?thesis by (simp add: cycle_walk.simps)
  next
    case False
    then obtain d where d: "dep_edge e ws w current d" "(dep_edge e ws w)\<^sup>*\<^sup>* d c"
      using "1.prems" by (metis converse_rtranclpE)
    then obtain p where p: "current \<noteq> []" "GetProcess e current ws w = Inr p"
      "p_depends_on_process_id p = Some d" by (auto simp: dep_edge_def)
    have "cycle_walk e ws w (current # visited) d \<noteq> None"
      using "1.IH"[OF p(1) False p(2) p(3) d(2)] "1.prems" by simp
    then show ?thesis using p False by (subst cycle_walk.simps) simp
  qed
qed

lemma GetProcess_no_workspace:
  "\<forall>p\<in>set (w_processes w). p_workspace_id p \<noteq> [] \<Longrightarrow> \<exists>err. GetProcess e pid [] w = Inl err"
  by (auto simp: GetProcess_def db_read_def one_row_def find_None_iff split: option.split)
    (metis (mono_tags, lifting) find_Some_iff nth_mem)

end
