(* ===== verification/Executor_Facts.thy ===== *)
theory Executor_Facts
  imports Async_Runs Dependency
begin

text \<open>
  What the executor does to the table of runs: which rows an operation may write, what state it
  leaves, and what it starts, whatever the callback of ended runs does as long as it only
  creates runs (the contract \<open>run_spawner\<close>, met by the dependency resolver).
\<close>

section \<open>Rows an operation may write\<close>

text \<open>Every run but \<open>rid\<close> keeps its row.\<close>

definition writes_only :: "string set \<Rightarrow> world \<Rightarrow> world \<Rightarrow> bool" where
  "writes_only ids w w' \<longleftrightarrow> (\<forall>k r. k \<notin> ids \<longrightarrow> run_at w k = Some r \<longrightarrow> run_at w' k = Some r)"

lemma writes_only_refl [simp, intro]: "writes_only ids w w"
  by (simp add: writes_only_def)

lemma writes_only_trans [trans]: "writes_only ids w w' \<Longrightarrow> writes_only ids w' w'' \<Longrightarrow> writes_only ids w w''"
  by (simp add: writes_only_def)

lemma writes_only_mono: "writes_only ids w w' \<Longrightarrow> ids \<subseteq> ids' \<Longrightarrow> writes_only ids' w w'"
  by (auto simp: writes_only_def)

lemma writes_only_same: "w_runs w' = w_runs w \<Longrightarrow> writes_only ids w w'"
  by (simp add: writes_only_def run_at_def)

lemma writes_only_spawns: "spawns w w' \<Longrightarrow> writes_only ids w w'"
  by (auto simp: writes_only_def intro: spawns_run_at)

lemma writes_only_UpdateRunState:
  "us_id a \<in> ids \<Longrightarrow> writes_only ids w (snd (UpdateRunState e a w))"
  by (auto simp: writes_only_def run_at_UpdateRunState)

lemma us_id_run_upd [simp]: "us_id (run_upd rid s) = rid"
  by (simp add: run_upd_def)

lemma us_state_run_upd [simp]: "us_state (run_upd rid s) = s"
  by (simp add: run_upd_def)

lemma us_worker_run_upd [simp]: "us_worker_id (run_upd rid s) = None"
  by (simp add: run_upd_def)

lemma run_upd_nones [simp]:
  "us_started_at (run_upd rid s) = None" "us_finished_at (run_upd rid s) = None"
  "us_duration_ms (run_upd rid s) = None" "us_exit_code (run_upd rid s) = None"
  "us_attempt (run_upd rid s) = None" "us_next_attempt_at (run_upd rid s) = None"
  "us_queue_reason (run_upd rid s) = None" "us_waiting_reason (run_upd rid s) = None"
  "us_killed_by_actor_type (run_upd rid s) = None" "us_killed_by_actor_id (run_upd rid s) = None"
  by (simp_all add: run_upd_def)

section \<open>Recording a result\<close>

lemma store_output_runs [frame_simps]: "w_runs (store_output o' e site rid stream c w) = w_runs w"
  by (simp add: store_output_def Let_def frame_simps split: prod.split)
    (metis snd_conv SetRun_frame(6))

definition cleared :: "env \<Rightarrow> run \<Rightarrow> run" where
  "cleared e r = r\<lparr>r_execution_handle := None, r_stdout_offset := 0, r_stderr_offset := 0,
     r_updated_at := e_db_now e\<rparr>"

lemma cleared_simps [simp]:
  "r_id (cleared e r) = r_id r" "r_state (cleared e r) = r_state r"
  "r_attempt (cleared e r) = r_attempt r" "r_execution_handle (cleared e r) = None"
  "r_workspace_id (cleared e r) = r_workspace_id r" "run_slot (cleared e r) = run_slot r"
  "r_exit_code (cleared e r) = r_exit_code r" "r_finished_at (cleared e r) = r_finished_at r"
  "r_process_id (cleared e r) = r_process_id r" "r_started_at (cleared e r) = r_started_at r"
  by (simp_all add: cleared_def run_slot_def)

lemma ClearRunExecutionHandle_eq:
  "snd (ClearRunExecutionHandle e rid w) =
     (if e_fault e ''ClearRunExecutionHandle'' = None then on_run rid (cleared e) w else w)"
  by (auto simp: ClearRunExecutionHandle_def db_exec_def cleared_def[abs_def] split: option.split)

lemma run_at_Clear:
  "run_at (snd (ClearRunExecutionHandle e rid w)) k =
     (if e_fault e ''ClearRunExecutionHandle'' = None \<and> k = rid
      then map_option (cleared e) (run_at w k) else run_at w k)"
  by (simp add: ClearRunExecutionHandle_eq run_at_on_run)

lemma run_at_store_output [simp]:
  "run_at (store_output o' e site rid stream c w) k = run_at w k"
  "run_at (snd (FinishRunAttempt e xid fin ms ec msg w)) k = run_at w k"
  by (simp_all add: run_at_def frame_simps)

lemma run_at_record_result:
  "run_at (record_result o' e rid aid t r w) k =
     (if e_fault e ''ClearRunExecutionHandle'' = None \<and> k = rid
      then map_option (cleared e) (run_at w k) else run_at w k)"
  by (auto simp: record_result_def Let_def run_at_Clear)

lemma state_at_record_result [simp]:
  "state_at (record_result o' e rid aid t r w) k = state_at w k"
  by (cases "run_at w k") (auto simp: state_at_def run_at_record_result)

lemma runs_ok_record_result: "runs_ok w \<Longrightarrow> runs_ok (record_result o' e rid aid t r w)"
  unfolding record_result_def Let_def ClearRunExecutionHandle_eq
  by (auto intro!: runs_ok_on_run simp: keeps_slot_def) (simp_all add: runs_ok_def frame_simps)

section \<open>Ended runs\<close>

lemma spawns_continue_chain: "spawns w (continue_chain e p st w)"
proof -
  have "spawns w (snd (CreateRun e (fixed_delay_params rid p t) (snd (id_New e ''run_'' w))))" for rid t
    by (rule spawns_trans[OF spawns_same_runs spawns_CreateRun])
      (simp_all add: frame_simps fixed_delay_params_def)
  then show ?thesis
    by (auto simp: continue_chain_def Let_def split: option.split prod.split)
qed

text \<open>The callback of ended runs, seen as one action.\<close>

definition on_terminal :: "orchestrator \<Rightarrow> env \<times> run \<times> process \<Rightarrow> world \<Rightarrow> world" where
  "on_terminal o' erp w = (case erp of (e, run, p) \<Rightarrow>
     (case o_onRunTerminal o' of None \<Rightarrow> w | Some f \<Rightarrow> f e run p w))"

definition spawning :: "orchestrator \<Rightarrow> bool" where
  "spawning o' \<longleftrightarrow> run_spawner (on_terminal o')"

lemma spawns_handleTerminal:
  assumes "spawning o'" shows "spawns w (handleTerminal o' e run p st w)"
proof -
  have "spawns (continue_chain e p st w) (on_terminal o' (e, run, p) (continue_chain e p st w))"
    using assms run_spawner.act_spawns[of "on_terminal o'"] by (simp add: spawning_def)
  then have "spawns w (on_terminal o' (e, run, p) (continue_chain e p st w))"
    using spawns_continue_chain spawns_trans by blast
  then show ?thesis by (simp add: handleTerminal_def Let_def on_terminal_def)
qed

lemma spawns_run_ended: "spawning o' \<Longrightarrow> spawns w (run_ended o' e rid ws p st w)"
  by (auto simp: run_ended_def spawns_handleTerminal split: sum.split)

lemma emit_run_at [simp]: "run_at (emit ev w) k = run_at w k" "state_at (emit ev w) k = state_at w k"
  by (simp_all add: run_at_def state_at_def emit_def)

lemma panic_run_at [simp]: "run_at (panic w) k = run_at w k"
  by (simp add: run_at_def panic_def)

section \<open>Classification of a result\<close>

text \<open>The update that a result asks for; \<open>None\<close> when the backoff panics.\<close>

definition result_update ::
  "env \<Rightarrow> string \<Rightarrow> int \<Rightarrow> instant \<Rightarrow> process \<Rightarrow> result \<Rightarrow> update_run_state_params option" where
  "result_update e rid attempt started p r =
     (let finished = e_now e; ms = milliseconds (go_Sub finished started);
          ec = map_option wrap32 (res_exit_code r)
      in if IsSuccess r then
           Some ((run_upd rid Completed)
             \<lparr>us_finished_at := Some finished, us_duration_ms := Some ms, us_exit_code := ec\<rparr>)
         else if attempt < p_max_attempts p then
           map_option (\<lambda>next_at. (run_upd rid Retrying)
               \<lparr>us_attempt := Some attempt, us_next_attempt_at := Some next_at,
                us_duration_ms := Some ms\<rparr>)
             (executor_calculateBackoff finished attempt
                (executor_parseBackoffList (p_retry_backoff p)))
         else Some ((run_upd rid Failed)
             \<lparr>us_finished_at := Some finished, us_duration_ms := Some ms,
              us_exit_code := Some (case ec of Some c \<Rightarrow> c | None \<Rightarrow> -1)\<rparr>))"

lemma us_id_result_update: "result_update e rid attempt started p r = Some a \<Longrightarrow> us_id a = rid"
  by (auto simp: result_update_def Let_def split: if_splits)

lemma us_worker_result_update:
  "result_update e rid attempt started p r = Some a \<Longrightarrow> us_worker_id a = None"
  by (auto simp: result_update_def Let_def split: if_splits)

lemma us_state_result_update:
  "result_update e rid attempt started p r = Some a \<Longrightarrow>
   us_state a = (if IsSuccess r then Completed
                 else if attempt < p_max_attempts p then Retrying else Failed)"
  by (auto simp: result_update_def Let_def split: if_splits)

text \<open>Up to runs that are created afterwards, finalizing is one update after the recording.\<close>

lemma finalize_spawns:
  assumes "spawning o'"
  shows "spawns (case result_update e rid attempt started p r of
      None \<Rightarrow> record_result o' e rid aid started r w
    | Some a \<Rightarrow> snd (UpdateRunState e a (record_result o' e rid aid started r w)))
    (finalizeRunResult o' e rid ws aid attempt started p r w)"
proof -
  have "spawns w' (run_ended o' e rid ws p st (emit ev (emit ev' w')))" for w' st ev ev'
    by (rule spawns_trans[OF spawns_same_runs spawns_run_ended[OF assms]]) (simp add: frame_simps)
  then show ?thesis
    by (auto simp: finalizeRunResult_def result_update_def Let_def spawns_same_runs panic_def
        split: option.split)
qed

lemma finalize_writes_only:
  assumes "spawning o'"
  shows "writes_only {rid} w (finalizeRunResult o' e rid ws aid attempt started p r w)"
proof -
  have rec: "writes_only {rid} w (record_result o' e rid aid started r w)"
    by (auto simp: writes_only_def run_at_record_result)
  show ?thesis
  proof (cases "result_update e rid attempt started p r")
    case None
    then show ?thesis
      using finalize_spawns[OF assms, where e = e and rid = rid and attempt = attempt and
          started = started and p = p and r = r and aid = aid and w = w and ws = ws] rec
      by (auto intro: writes_only_trans writes_only_spawns)
  next
    case (Some a)
    then have "writes_only {rid} w (snd (UpdateRunState e a (record_result o' e rid aid started r w)))"
      using rec by (intro writes_only_trans[OF rec] writes_only_UpdateRunState)
        (simp add: us_id_result_update)
    then show ?thesis
      using finalize_spawns[OF assms, where e = e and rid = rid and attempt = attempt and
          started = started and p = p and r = r and aid = aid and w = w and ws = ws] Some
      by (auto intro: writes_only_trans writes_only_spawns)
  qed
qed

definition result_state :: "process \<Rightarrow> int \<Rightarrow> result \<Rightarrow> run_state" where
  "result_state p attempt r =
     (if IsSuccess r then Completed else if attempt < p_max_attempts p then Retrying else Failed)"

lemma state_at_UpdateRunState:
  "state_at w (us_id a) = Some s \<Longrightarrow>
   state_at (snd (UpdateRunState e a w)) (us_id a) \<in> {Some s, Some (us_state a)}"
  by (auto simp: state_at_def run_at_UpdateRunState)

lemma finalize_state:
  assumes "spawning o'" "state_at w rid = Some s"
  shows "state_at (finalizeRunResult o' e rid ws aid attempt started p r w) rid
    \<in> {Some s, Some (result_state p attempt r)}"
proof -
  let ?rec = "record_result o' e rid aid started r w"
  have rec: "state_at ?rec rid = Some s" using assms(2) by simp
  note sp = finalize_spawns[OF assms(1), where e = e and rid = rid and attempt = attempt and
          started = started and p = p and r = r and aid = aid and w = w and ws = ws]
  show ?thesis
  proof (cases "result_update e rid attempt started p r")
    case None
    then show ?thesis using sp rec spawns_state_at by auto
  next
    case (Some a)
    then have "state_at (snd (UpdateRunState e a ?rec)) rid \<in> {Some s, Some (result_state p attempt r)}"
      using state_at_UpdateRunState[of ?rec a s e] rec us_id_result_update us_state_result_update
      by (fastforce simp: result_state_def)
    then show ?thesis using sp Some spawns_state_at by auto
  qed
qed

section \<open>Polling\<close>

lemma append_chunk_runs [frame_simps]:
  "w_runs (snd (append_chunk o' e site rid stream c w)) = w_runs w"
  by (auto simp: append_chunk_def AppendRunOutput_def db_exec_def id_New_def emit_def Let_def
      split: option.split)

lemma append_chunk_run_at: "run_at (snd (append_chunk o' e site rid stream c w)) k = run_at w k"
  by (simp add: run_at_def frame_simps)

lemma run_at_UpdateRunOffsets:
  "run_at (snd (UpdateRunOffsets e rid so se w)) k =
     (if e_fault e ''UpdateRunOffsets'' = None \<and> k = rid
      then map_option (\<lambda>r. r\<lparr>r_stdout_offset := so, r_stderr_offset := se, r_updated_at := e_db_now e\<rparr>)
        (run_at w k) else run_at w k)"
  by (auto simp: UpdateRunOffsets_def db_exec_def run_at_on_run split: option.split)

lemma store_poll_output_cases:
  "\<exists>w'. (\<forall>k. run_at w' k = run_at w k) \<and>
    (store_poll_output o' e row poll w = w' \<or>
     (\<exists>so se. store_poll_output o' e row poll w = snd (UpdateRunOffsets e (ap_id row) so se w')))"
proof -
  obtain f1 w1 where 1: "append_chunk o' e ''stdout'' (ap_id row) ''stdout'' (pr_stdout_chunk poll) w = (f1, w1)"
    by fastforce
  obtain f2 w2 where 2: "append_chunk o' e ''stderr'' (ap_id row) ''stderr'' (pr_stderr_chunk poll) w1 = (f2, w2)"
    by fastforce
  obtain f3 w3 where 3: "append_chunk o' e ''body'' (ap_id row) ''stdout'' (pr_response_body_chunk poll) w2 = (f3, w3)"
    by fastforce
  have "run_at w3 k = run_at w k" for k
    using 1 2 3 append_chunk_run_at by (metis snd_conv)
  moreover have "store_poll_output o' e row poll w = w3 \<or>
     (\<exists>so se. store_poll_output o' e row poll w = snd (UpdateRunOffsets e (ap_id row) so se w3))"
    unfolding store_poll_output_def Let_def 1 prod.case 2 3 by (simp split: if_split) blast
  ultimately show ?thesis by blast
qed

lemma store_poll_output_run_at:
  "k \<noteq> ap_id row \<Longrightarrow> run_at (store_poll_output o' e row poll w) k = run_at w k"
  "state_at (store_poll_output o' e row poll w) k = state_at w k"
proof -
  obtain w' where w': "\<And>k. run_at w' k = run_at w k"
    "store_poll_output o' e row poll w = w' \<or>
     (\<exists>so se. store_poll_output o' e row poll w = snd (UpdateRunOffsets e (ap_id row) so se w'))"
    using store_poll_output_cases by blast
  show "run_at (store_poll_output o' e row poll w) k = run_at w k" if "k \<noteq> ap_id row"
    using w' that by (auto simp: run_at_UpdateRunOffsets)
  show "state_at (store_poll_output o' e row poll w) k = state_at w k"
    using w' by (cases "run_at w k") (auto simp: run_at_UpdateRunOffsets state_at_def)
qed

text \<open>The four ways a poll ends.\<close>

lemma pollAsyncRun_cases:
  "pollAsyncRun o' e row w = w \<or>
   (\<exists>poll. pollAsyncRun o' e row w = store_poll_output o' e row poll w) \<or>
   (\<exists>p poll. pollAsyncRun o' e row w =
      conclude_poll o' e row p poll (store_poll_output o' e row poll w))"
proof (cases "unmarshal_handle (ap_execution_handle row)")
  case None
  then show ?thesis by (simp add: pollAsyncRun_def)
next
  case (Some h0)
  let ?h = "if h_method_name h0 = [] then h0\<lparr>h_method_name := ap_execution_method row\<rparr> else h0"
  show ?thesis
  proof (cases "registry_Get (o_registry o') (h_method_name ?h)")
    case None
    then show ?thesis using Some by (simp add: pollAsyncRun_def Let_def)
  next
    case m: (Some m)
    obtain poll err where poll: "m_Poll m ?h \<lparr>pc_stdout_offset = ap_stdout_offset row,
        pc_stderr_offset = ap_stderr_offset row\<rparr> = (poll, err)" by fastforce
    have "pollAsyncRun o' e row w = (case err of Some _ \<Rightarrow> w | None \<Rightarrow>
       (let w = store_poll_output o' e row poll w
        in if pr_state poll = [] \<or> pr_state poll = RemoteRunning then w
           else (case GetProcess e (ap_process_id row) (ap_workspace_id row) w of
                   Inl _ \<Rightarrow> w | Inr p \<Rightarrow> conclude_poll o' e row p poll w)))"
      unfolding pollAsyncRun_def Some option.case Let_def m poll prod.case
      by (cases err) simp_all
    then show ?thesis
      by (cases err; cases "GetProcess e (ap_process_id row) (ap_workspace_id row)
          (store_poll_output o' e row poll w)") (simp_all add: Let_def, blast+)
  qed
qed

lemma state_at_run_ended:
  "spawning o' \<Longrightarrow> state_at w k = Some s \<Longrightarrow> state_at (run_ended o' e rid ws p st w) k = Some s"
  using spawns_run_ended spawns_state_at by blast

lemma finalizeRunKilled_writes_only:
  assumes "spawning o'" shows "writes_only {ap_id row} w (finalizeRunKilled o' e row p r w)"
proof -
  have "writes_only {ap_id row} w (run_ended o' e (ap_id row) ws p Killed
      (snd (UpdateRunState e a (snd (ClearRunExecutionHandle e (ap_id row) w')))))"
    if "us_id a = ap_id row" "\<And>k. run_at w' k = run_at w k" for a ws w'
  proof -
    have "writes_only {ap_id row} w (snd (ClearRunExecutionHandle e (ap_id row) w'))"
      using that by (auto simp: writes_only_def run_at_Clear)
    also have "writes_only {ap_id row} \<dots>
        (snd (UpdateRunState e a (snd (ClearRunExecutionHandle e (ap_id row) w'))))"
      using that(1) by (simp add: writes_only_UpdateRunState)
    also have "writes_only {ap_id row} \<dots>
        (run_ended o' e (ap_id row) ws p Killed
          (snd (UpdateRunState e a (snd (ClearRunExecutionHandle e (ap_id row) w')))))"
      by (rule writes_only_spawns[OF spawns_run_ended[OF assms]])
    finally show ?thesis .
  qed
  then show ?thesis
    using assms
    by (auto simp: finalizeRunKilled_def Let_def finalize_row_def finalize_writes_only)
qed

lemma conclude_poll_writes_only:
  "spawning o' \<Longrightarrow> writes_only {ap_id row} w (conclude_poll o' e row p poll w)"
  by (auto simp: conclude_poll_def Let_def finalizeRunKilled_writes_only finalize_row_def
      finalize_writes_only)

lemma poll_writes_only:
  assumes "spawning o'" shows "writes_only {ap_id row} w (pollAsyncRun o' e row w)"
proof -
  have out: "writes_only {ap_id row} w (store_poll_output o' e row poll w)" for poll
    by (auto simp: writes_only_def store_poll_output_run_at)
  then have con: "writes_only {ap_id row} w (conclude_poll o' e row p poll (store_poll_output o' e row poll w))"
    for p poll
    using writes_only_trans conclude_poll_writes_only[OF assms] by blast
  show ?thesis
    using pollAsyncRun_cases[of o' e row w] out con by (elim disjE exE) simp_all
qed

lemma finalizeRunKilled_state:
  assumes "spawning o'" "state_at w (ap_id row) = Some s"
  shows "state_at (finalizeRunKilled o' e row p r w) (ap_id row) \<in>
    (if ap_state row = KillRequested then {Some s, Some Killed}
     else {Some s, Some Completed, Some Retrying, Some Failed})"
proof (cases "ap_state row = KillRequested")
  case False
  let ?r = "if res_error r = None then r\<lparr>res_error := Some (ErrText ''process was killed'')\<rparr> else r"
  have "finalizeRunKilled o' e row p r w = finalize_row o' e row p ?r w"
    using False by (simp add: finalizeRunKilled_def)
  then show ?thesis
    using finalize_state[OF assms, of e "ap_workspace_id row" "ap_attempt_id row" "ap_attempt row"
        "ap_started_at row" p ?r] False
    by (auto simp: finalize_row_def result_state_def split: if_splits)
next
  case True
  have "state_at (run_ended o' e (ap_id row) ws p Killed
      (snd (UpdateRunState e a (snd (ClearRunExecutionHandle e (ap_id row) w')))))
      (ap_id row) \<in> {Some s, Some Killed}"
    if "us_id a = ap_id row" "us_state a = Killed" "\<And>k. run_at w' k = run_at w k" for a ws w'
  proof -
    have "state_at (snd (ClearRunExecutionHandle e (ap_id row) w')) (us_id a) = Some s"
      using that assms(2) by (auto simp: state_at_def run_at_Clear)
    from state_at_UpdateRunState[OF this, of e]
    show ?thesis using that state_at_run_ended[OF assms(1)] by auto
  qed
  then show ?thesis using True by (auto simp: finalizeRunKilled_def Let_def)
qed

lemma conclude_poll_state:
  assumes "spawning o'" "state_at w (ap_id row) = Some s"
  shows "state_at (conclude_poll o' e row p poll w) (ap_id row) \<in>
    {Some s, Some Completed, Some Retrying, Some Failed} \<union>
    (if ap_state row = KillRequested \<and> pr_state poll = RemoteKilled then {Some Killed} else {})"
proof -
  have fin: "state_at (finalize_row o' e row p r w) (ap_id row) \<in>
      {Some s, Some Completed, Some Retrying, Some Failed}" for r
    using finalize_state[OF assms, of e "ap_workspace_id row" "ap_attempt_id row" "ap_attempt row"
        "ap_started_at row" p r]
    by (auto simp: finalize_row_def result_state_def split: if_splits)
  show ?thesis
    using fin finalizeRunKilled_state[OF assms, of e p "poll_outcome poll"] assms(2)
    by (auto simp: conclude_poll_def Let_def split: if_splits)
qed

lemma poll_state:
  assumes "spawning o'" "state_at w (ap_id row) = Some s"
  shows "state_at (pollAsyncRun o' e row w) (ap_id row) \<in>
    {Some s, Some Completed, Some Retrying, Some Failed} \<union>
    (if ap_state row = KillRequested then {Some Killed} else {})"
proof -
  have out: "state_at (store_poll_output o' e row poll w) (ap_id row) = Some s" for poll
    using assms(2) by (simp add: store_poll_output_run_at)
  have con: "state_at (conclude_poll o' e row p poll (store_poll_output o' e row poll w)) (ap_id row) \<in>
    {Some s, Some Completed, Some Retrying, Some Failed} \<union>
    (if ap_state row = KillRequested then {Some Killed} else {})" for p poll
    using conclude_poll_state[OF assms(1) out, of e p poll poll] by (auto split: if_splits)
  show ?thesis
    using pollAsyncRun_cases[of o' e row w]
  proof (elim disjE exE)
    assume "pollAsyncRun o' e row w = w"
    then show ?thesis using assms(2) by simp
  next
    fix poll assume "pollAsyncRun o' e row w = store_poll_output o' e row poll w"
    then show ?thesis using out by simp
  next
    fix p poll assume "pollAsyncRun o' e row w =
      conclude_poll o' e row p poll (store_poll_output o' e row poll w)"
    then show ?thesis using con by simp
  qed
qed

section \<open>The rows of a round\<close>

lemma poll_rows_mem:
  "x \<in> set (poll_rows xs) \<Longrightarrow>
   \<exists>y\<in>set xs. ap_id x = ar_id y \<and> ap_state x = ar_state y \<and> ap_attempt x = ar_attempt y"
  by (induction xs) (auto split: option.splits)

lemma join_runs_mem: "(r, p) \<in> set (join_runs P w) \<longleftrightarrow>
   r \<in> set (w_runs w) \<and> P r \<and> p \<in> set (w_processes w) \<and> p_id p = r_process_id r"
  by (auto simp: join_runs_def List.maps_eq)

lemma listActiveAsyncRuns_mem:
  assumes "listActiveAsyncRuns e w = Inr rows" "x \<in> set rows"
  obtains r where "r \<in> set (w_runs w)" "r_id r = ap_id x" "r_state r = ap_state x"
    "r_state r \<in> {Running, KillRequested}" "r_execution_handle r \<noteq> None" "r_attempt r = ap_attempt x"
  using assms
  by (auto simp: listActiveAsyncRuns_def ListActiveAsyncRuns_def db_read_def async_run_row_of_def
      join_runs_mem split: option.splits dest!: poll_rows_mem)

lemma run_at_mem: "runs_ok w \<Longrightarrow> r \<in> set (w_runs w) \<Longrightarrow> run_at w (r_id r) = Some r"
  by (simp add: runs_ok_def run_at_def lookup_key_mem)

lemma fold_writes_only:
  "(\<And>x w. x \<in> set xs \<Longrightarrow> writes_only {key x} w (f x w)) \<Longrightarrow> writes_only (key ` set xs) w (fold f xs w)"
proof (induction xs arbitrary: w)
  case Nil
  then show ?case by simp
next
  case (Cons x xs)
  have "writes_only (key ` set (x # xs)) w (f x w)"
    by (rule writes_only_mono[of "{key x}"]) (simp_all add: Cons.prems)
  moreover have "writes_only (key ` set (x # xs)) (f x w) (fold f xs (f x w))"
    by (rule writes_only_mono[OF Cons.IH]) (auto simp: Cons.prems)
  ultimately have "writes_only (key ` set (x # xs)) w (fold f xs (f x w))"
    by (rule writes_only_trans)
  then show ?case by simp
qed

section \<open>Beginning an attempt\<close>

definition no_faults :: "env \<Rightarrow> bool" where
  "no_faults e \<longleftrightarrow> (\<forall>q. e_fault e q = None)"

lemma no_faults_calm [simp]: "no_faults (calm t)"
  by (simp add: no_faults_def)

lemma no_faultsD [simp]: "no_faults e \<Longrightarrow> e_fault e q = None"
  by (simp add: no_faults_def)

text \<open>The row an attempt leaves: running, started now, one attempt more.\<close>

definition started_run :: "env \<Rightarrow> run \<Rightarrow> process \<Rightarrow> run \<Rightarrow> run" where
  "started_run e claimed p r =
     (let n = wrap32 (r_attempt claimed + 1);
          r = set_run_state (e_db_now e, (run_upd (r_id claimed) Running)
                \<lparr>us_started_at := Some (e_now e), us_attempt := Some n\<rparr>) r
      in if n = 1 then r\<lparr>r_effective_config := Some (config_snapshot e p), r_updated_at := e_db_now e\<rparr>
         else r)"

lemma started_run_simps [simp]:
  "r_id (started_run e c p r) = r_id r" "r_state (started_run e c p r) = Running"
  "r_attempt (started_run e c p r) = wrap32 (r_attempt c + 1)"
  "r_started_at (started_run e c p r) = Some (e_now e)"
  "r_execution_handle (started_run e c p r) = r_execution_handle r"
  "r_process_id (started_run e c p r) = r_process_id r"
  by (simp_all add: started_run_def set_run_state_def Let_def)

lemma on_run_on_run:
  "(\<And>r. r_id (f r) = r_id r) \<Longrightarrow> on_run rid g (on_run rid f w) = on_run rid (\<lambda>r. g (f r)) w"
  by (simp add: on_run_def update_key_def update_where_def comp_def cong: if_cong)

lemma begin_attempt_runs:
  assumes "no_faults e"
  shows "w_runs (snd (begin_attempt e run p m w)) =
    update_key r_id (r_id run) (started_run e run p) (w_runs w)"
  using assms
  by (auto simp: begin_attempt_def Let_def UpdateRunState_ok SnapshotRunConfig_def db_exec_ok
      started_run_def[abs_def] on_run_on_run frame_simps id_New_def)
    (simp_all add: on_run_def)

lemma begin_attempt_attempts:
  assumes "no_faults e" "has_key r_id (r_id run) (w_runs w)"
    and "\<not> has_key ra_id (''rat_'' @ e_ulid e (w_ids w)) (w_run_attempts w)"
  shows "w_run_attempts (snd (begin_attempt e run p m w)) = w_run_attempts w @
    [new_run_attempt e (''rat_'' @ e_ulid e (w_ids w)) (r_id run) (wrap32 (r_attempt run + 1))
       (e_now e) None]"
  using assms
  by (auto simp: begin_attempt_def Let_def UpdateRunState_ok SnapshotRunConfig_def db_exec_ok
      id_New_def CreateRunAttempt_def dangling_def emit_def on_run_on_run frame_simps)
    (simp_all add: on_run_def)

lemma begin_attempt_frame:
  "w_running (snd (begin_attempt e run p m w)) = w_running w"
  "w_trace (snd (begin_attempt e run p m w)) =
     w_trace w @ [EvStart (p_execution_method p) (run_start_params run p)]"
  "dc_run (fst (begin_attempt e run p m w)) = run"
  "dc_process (fst (begin_attempt e run p m w)) = p"
  "dc_method (fst (begin_attempt e run p m w)) = m"
  "dc_params (fst (begin_attempt e run p m w)) = run_start_params run p"
  "dc_attempt (fst (begin_attempt e run p m w)) = wrap32 (r_attempt run + 1)"
  "dc_now (fst (begin_attempt e run p m w)) = e_now e"
  by (simp_all add: begin_attempt_def Let_def frame_simps split: prod.split)
    (auto simp: id_New_def frame_simps)

section \<open>One write per row\<close>

text \<open>With distinct keys a join of runs with processes has at most one row for each run.\<close>

lemma filter_key_unique:
  "distinct (map key xs) \<Longrightarrow> length (filter (\<lambda>x. key x = k) xs) \<le> 1"
  by (induction xs) (fastforce simp: filter_empty_conv image_iff)+

lemma join_runs_distinct:
  assumes "distinct (map r_id (w_runs w))" "distinct (map p_id (w_processes w))"
  shows "distinct (map (\<lambda>rp. r_id (fst rp)) (join_runs P w))"
proof -
  have "distinct (map (\<lambda>rp. r_id (fst rp)) (concat (map (\<lambda>r. map (Pair r)
      (filter (\<lambda>p. p_id p = r_process_id r) (w_processes w))) rs)))"
    if "distinct (map r_id rs)" for rs
    using that
  proof (induction rs)
    case Nil
    then show ?case by simp
  next
    case (Cons r rs)
    have "length (filter (\<lambda>p. p_id p = r_process_id r) (w_processes w)) \<le> 1"
      by (rule filter_key_unique[OF assms(2)])
    then have "filter (\<lambda>p. p_id p = r_process_id r) (w_processes w) = [] \<or>
        (\<exists>p. filter (\<lambda>p. p_id p = r_process_id r) (w_processes w) = [p])"
      by (cases "filter (\<lambda>p. p_id p = r_process_id r) (w_processes w)") auto
    then show ?case using Cons by (auto simp: image_iff)
  qed
  moreover have "distinct (map r_id (filter P (w_runs w)))"
    using assms(1) by (simp add: distinct_map_filter)
  ultimately show ?thesis by (simp add: join_runs_def)
qed

lemma fold_rows_at:
  assumes "\<And>x w k. run_at (f x w) k = (if k = key x then g x (run_at w k) else run_at w k)"
    and "distinct (map key xs)"
  shows "x \<in> set xs \<Longrightarrow> run_at (fold f xs w) (key x) = g x (run_at w (key x))"
    and "k \<notin> key ` set xs \<Longrightarrow> run_at (fold f xs w) k = run_at w k"
proof -
  have other: "run_at (fold f ys w) k = run_at w k" if "k \<notin> key ` set ys" for ys k w
    using that by (induction ys arbitrary: w) (auto simp: assms(1))
  show "k \<notin> key ` set xs \<Longrightarrow> run_at (fold f xs w) k = run_at w k" by (rule other)
  show "x \<in> set xs \<Longrightarrow> run_at (fold f xs w) (key x) = g x (run_at w (key x))"
    using assms(2)
  proof (induction xs arbitrary: w)
    case Nil
    then show ?case by simp
  next
    case (Cons y ys)
    show ?case
    proof (cases "x = y")
      case True
      then have "key x \<notin> key ` set ys" using Cons.prems by simp
      then show ?thesis using True by (simp add: other assms(1))
    next
      case False
      then have "x \<in> set ys" "key x \<noteq> key y" using Cons.prems by (auto simp: image_iff)
      then show ?thesis using Cons by (simp add: assms(1))
    qed
  qed
qed

section \<open>Polling rounds\<close>

text \<open>A round of polls leaves the rows of all but active asynchronous runs.\<close>

lemma active_only_polls:
  assumes "spawning o'" "runs_ok w" "run_at w k = Some r"
    and "r_state r \<notin> {Running, KillRequested} \<or> r_execution_handle r = None"
  shows "run_at (processAsyncRuns o' e w) k = Some r"
proof (cases "listActiveAsyncRuns e w")
  case (Inl err)
  then show ?thesis using assms(3) by (simp add: processAsyncRuns_def)
next
  case (Inr rows)
  have "k \<notin> ap_id ` set rows"
  proof
    assume "k \<in> ap_id ` set rows"
    then obtain x where x: "x \<in> set rows" "k = ap_id x" by blast
    from listActiveAsyncRuns_mem[OF Inr x(1)] obtain r' where r': "r' \<in> set (w_runs w)"
      "r_id r' = k" "r_state r' \<in> {Running, KillRequested}" "r_execution_handle r' \<noteq> None"
      using x(2) by metis
    have "run_at w (r_id r') = Some r'" by (rule run_at_mem[OF assms(2) r'(1)])
    then have "r' = r" using r'(2) assms(3) by simp
    then show False using r' assms(4) by auto
  qed
  moreover have "writes_only (ap_id ` set rows) w (fold (pollAsyncRun o' e) rows w)"
    by (rule fold_writes_only) (rule poll_writes_only[OF assms(1)])
  ultimately show ?thesis
    using assms(3) Inr by (simp add: processAsyncRuns_def writes_only_def)
qed

end
