(* ===== verification/Samples.thy ===== *)
theory Samples
  imports Executor_Facts
begin

text \<open>
  Small concrete rows, worlds and methods, on which the theorems with hypotheses are shown to
  apply.
\<close>

definition sample_workspace :: workspace where
  "sample_workspace =
     \<lparr>wsp_id = ''wsp_1'', wsp_slug = ''one'', wsp_name = ''One'', wsp_state = ''active'',
      wsp_default_timezone = ''UTC'', wsp_created_at = 0, wsp_updated_at = 0\<rparr>"

definition sample_process :: "string \<Rightarrow> process" where
  "sample_process pid =
     \<lparr>p_id = pid, p_workspace_id = ''wsp_1'', p_name = pid, p_schedule_type = ''cron'',
      p_schedule = Some ''* * * * *'', p_delay_duration = None, p_timezone = None,
      p_miss_policy = Some ''skip'', p_max_recovery_slots = 10, p_allow_parallel = False,
      p_max_parallel = 1, p_on_overlap = ''skip'', p_execution_method = ''http'',
      p_runtime = ''direct'', p_method_config = JObj [], p_max_attempts = 3,
      p_retry_backoff = Some ''30s,2m'',
      p_execution_timeout = \<lparr>iv_microseconds = 3600000000, iv_days = 0, iv_months = 0\<rparr>,
      p_heartbeat_timeout = None, p_timeout_action = ''both'', p_ssh_credential_id = None,
      p_ssm_profile_id = None, p_k8s_cluster_id = None, p_worker_id = None, p_worker_labels = None,
      p_depends_on_process_id = None, p_dependency_type = None, p_environment = None, p_tags = [],
      p_enabled = True, p_created_at = 0, p_updated_at = 0\<rparr>"

definition sample_params :: "string \<Rightarrow> create_run_params" where
  "sample_params rid =
     \<lparr>cr_id = rid, cr_workspace_id = ''wsp_1'', cr_process_id = ''prc_1'', cr_scheduled_at = Some 0,
      cr_state = Pending, cr_origin = ''cron'', cr_max_attempts = 3, cr_actor_type = Some ''system'',
      cr_actor_id = None, cr_triggered_by_run_id = None, cr_replayed_from_run_id = None,
      cr_runtime = None, cr_worker_id = None, cr_tags = []\<rparr>"

definition sample_run :: "string \<Rightarrow> run_state \<Rightarrow> run" where
  "sample_run rid st = (new_run (calm 0) (sample_params rid))\<lparr>r_state := st\<rparr>"

definition sample_world :: "process list \<Rightarrow> run list \<Rightarrow> world" where
  "sample_world procs runs =
     empty_world\<lparr>w_workspaces := [sample_workspace], w_processes := procs, w_runs := runs\<rparr>"

definition sample_result :: "int \<Rightarrow> result" where
  "sample_result code =
     \<lparr>res_exit_code = Some code, res_response_code = None, res_stdout = ''out'', res_stderr = [],
      res_response_body = [], res_duration_ms = 0, res_error = None\<rparr>"

definition sample_handle :: handle where
  "sample_handle = \<lparr>h_method_name = ''http'', h_run_id = ''run_1'', h_data = Some []\<rparr>"

text \<open>A blocking method that ends with an exit code, and an asynchronous one that a poll finds
  in a given state.\<close>

definition sample_blocking :: "int \<Rightarrow> method_impl" where
  "sample_blocking code = AdaptBlocking ''http'' 0
     \<lparr>bm_Execute = (\<lambda>_. (sample_result code, None)), bm_Kill = (\<lambda>_. None),
      bm_SupportsKill = True, bm_SupportsHeartbeat = False\<rparr>"

definition sample_poll :: "string \<Rightarrow> int option \<Rightarrow> poll_result" where
  "sample_poll st code =
     \<lparr>pr_state = st, pr_exit_code = code, pr_stdout_chunk = [], pr_stderr_chunk = [],
      pr_response_body_chunk = [], pr_cursor = \<lparr>pc_stdout_offset = 0, pc_stderr_offset = 0\<rparr>,
      pr_error = None\<rparr>"

definition sample_async :: "poll_result \<Rightarrow> method_impl" where
  "sample_async poll =
     \<lparr>m_Start = (\<lambda>_. (\<lparr>sr_handle = sample_handle, sr_accepted_at = 0, sr_result = None\<rparr>, None)),
      m_Poll = (\<lambda>_ _. (poll, None)), m_Kill = (\<lambda>_. None),
      m_SupportsKill = True, m_SupportsHeartbeat = False, m_IsAsync = True\<rparr>"

definition sample_orchestrator :: "method_impl \<Rightarrow> orchestrator" where
  "sample_orchestrator m =
     \<lparr>o_registry = Register ''http'' m NewRegistry,
      o_onRunTerminal = Some (\<lambda>e run p w. snd (Evaluate e run w)),
      o_workerDispatch = None, o_logBackend = False\<rparr>"

lemma spawning_Evaluate:
  "o_onRunTerminal o' = Some (\<lambda>e run p w. snd (Evaluate e run w)) \<Longrightarrow> spawning o'"
  unfolding spawning_def
  by unfold_locales (auto simp: on_terminal_def evaluate.act_spawns split: prod.split)

lemma spawning_sample [simp]: "spawning (sample_orchestrator m)"
  by (rule spawning_Evaluate) (simp add: sample_orchestrator_def)

end
