(* ===== verification/Executor_Properties.thy ===== *)
theory Executor_Properties
  imports Samples
begin

text \<open>
  The properties of the executor and of the dependency resolver.
\<close>

section \<open>Results\<close>

lemma finalize_row_at:
  assumes "spawning o'" "e_fault e ''UpdateRunState'' = None" "e_fault e ''ClearRunExecutionHandle'' = None"
    and "run_at w rid = Some run" "result_update e rid attempt started p r = Some a"
  shows "run_at (finalizeRunResult o' e rid ws aid attempt started p r w) rid =
    Some (set_run_state (e_db_now e, a) (cleared e run))"
proof -
  have "run_at (snd (UpdateRunState e a (record_result o' e rid aid started r w))) rid =
      Some (set_run_state (e_db_now e, a) (cleared e run))"
    using assms(2-5)
    by (simp add: UpdateRunState_ok us_worker_result_update us_id_result_update run_at_on_run
        run_at_record_result)
  then show ?thesis
    using finalize_spawns[OF assms(1), where e = e and rid = rid and attempt = attempt and
          started = started and p = p and r = r and aid = aid and w = w and ws = ws] assms(5)
    by (auto intro: spawns_run_at)
qed

text \<open>
  C1: the outcome of an execution decides the state of its run: completed on success, else
  retrying while the attempt is below the process's maximum, else failed; the persisted handle
  is cleared, a retry is due after one of the delays of the process's backoff list (a minute
  when the list is empty), the other outcomes record when the run finished.
\<close>

theorem finalize_classifies:
  assumes "spawning o'" "e_fault e ''UpdateRunState'' = None" "e_fault e ''ClearRunExecutionHandle'' = None"
    and "run_at w rid = Some run" "1 \<le> attempt"
  shows "\<exists>run'. run_at (finalizeRunResult o' e rid ws aid attempt started p r w) rid = Some run' \<and>
    r_execution_handle run' = None \<and>
    (if IsSuccess r then r_state run' = Completed \<and> r_finished_at run' = Some (e_now e)
     else if attempt < p_max_attempts p then
       r_state run' = Retrying \<and> r_attempt run' = attempt \<and>
       (\<exists>d\<in>insert minute (set (executor_parseBackoffList (p_retry_backoff p))).
          r_next_attempt_at run' = Some (e_now e + d))
     else r_state run' = Failed \<and> r_finished_at run' = Some (e_now e))"
proof -
  have "executor_calculateBackoff (e_now e) attempt bs \<noteq> None" for bs
    using assms(5) by (simp add: executor_backoff.panics_iff)
  then obtain t where t: "executor_calculateBackoff (e_now e) attempt
      (executor_parseBackoffList (p_retry_backoff p)) = Some t" by blast
  have "\<exists>a. result_update e rid attempt started p r = Some a"
    using t by (simp add: result_update_def Let_def)
  then obtain a where a: "result_update e rid attempt started p r = Some a" by blast
  have "t - e_now e \<in> insert minute (set (executor_parseBackoffList (p_retry_backoff p)))"
    using executor_backoff.delay_from_list[OF assms(5) t] .
  moreover have "t = e_now e + (t - e_now e)" by simp
  ultimately show ?thesis
    using finalize_row_at[OF assms(1-4) a, of ws aid] a t
    by (auto simp: result_update_def Let_def set_run_state_def simp del: insert_iff
        split: if_splits intro!: bexI[of _ "t - e_now e"])
qed

theorem finalize_classifies_witness:
  "\<exists>run'. run_at (finalizeRunResult (sample_orchestrator (sample_blocking 1)) (calm 100) ''run_1''
       ''wsp_1'' '''' 1 0 (sample_process ''prc_1'') (sample_result 1)
       (sample_world [sample_process ''prc_1''] [sample_run ''run_1'' Running])) ''run_1'' = Some run' \<and>
     r_state run' = Retrying"
proof -
  have "run_at (sample_world [sample_process ''prc_1''] [sample_run ''run_1'' Running]) ''run_1'' =
      Some (sample_run ''run_1'' Running)"
    by (simp add: run_at_def sample_world_def sample_run_def new_run_def sample_params_def)
  from finalize_classifies[OF spawning_sample _ _ this, of "calm 100" 1 "sample_blocking 1" "''wsp_1''" "''''" 0
      "sample_process ''prc_1''" "sample_result 1"]
  show ?thesis by (auto simp: IsSuccess_def sample_result_def sample_process_def)
qed

section \<open>Polling\<close>

text \<open>
  C4: a round of polls only writes runs that are running or asked to stop and have a persisted
  handle: a run that has ended, or is not started, keeps its row whatever the methods answer
  and whatever fails.
\<close>

theorem processAsyncRuns_active_only:
  assumes "spawning o'" "runs_ok w" "run_at w k = Some r"
    and "r_state r \<notin> {Running, KillRequested} \<or> r_execution_handle r = None"
  shows "run_at (processAsyncRuns o' e w) k = Some r"
  using active_only_polls[OF assms] .

theorem processAsyncRuns_active_only_witness:
  "run_at (processAsyncRuns (sample_orchestrator (sample_async (sample_poll RemoteFailed None))) (calm 5)
     (sample_world [sample_process ''prc_1''] [sample_run ''run_1'' Completed])) ''run_1'' =
   Some (sample_run ''run_1'' Completed)"
  by (rule processAsyncRuns_active_only[OF spawning_sample])
    (simp_all add: runs_ok_def run_at_def sample_world_def sample_run_def new_run_def sample_params_def)

text \<open>
  C3: what one poll does to the state of the run it is about: a running run stays or takes a
  step of the run state machine; a run asked to stop may also come out completed, failed or
  retrying; killed is only ever reached from kill_requested.
\<close>

theorem pollAsyncRun_steps:
  assumes "spawning o'" "runs_ok w" "listActiveAsyncRuns e w = Inr rows" "row \<in> set rows"
  shows "\<exists>t. state_at (pollAsyncRun o' e row w) (ap_id row) = Some t \<and>
    (ap_state row = Running \<and> (t = Running \<or> run_step Running t \<and> t \<noteq> KillRequested) \<or>
     ap_state row = KillRequested \<and> t \<in> {KillRequested, Killed, Completed, Failed, Retrying})"
proof -
  from listActiveAsyncRuns_mem[OF assms(3,4)] obtain r where r: "r \<in> set (w_runs w)"
    "r_id r = ap_id row" "r_state r = ap_state row" "r_state r \<in> {Running, KillRequested}" by metis
  have "run_at w (r_id r) = Some r" by (rule run_at_mem[OF assms(2) r(1)])
  then have "state_at w (ap_id row) = Some (ap_state row)" using r by (simp add: state_at_def)
  from poll_state[OF assms(1) this, of e] r(3,4)
  show ?thesis by (auto split: if_splits)
qed

definition sample_async_run :: "run_state \<Rightarrow> run" where
  "sample_async_run st = (sample_run ''run_1'' st)\<lparr>r_started_at := Some 0, r_attempt := 1,
     r_execution_handle := Some (marshal_handle sample_handle)\<rparr>"

definition sample_row :: "run_state \<Rightarrow> async_run_poll_row" where
  "sample_row st =
     \<lparr>ap_id = ''run_1'', ap_workspace_id = ''wsp_1'', ap_process_id = ''prc_1'', ap_attempt = 1,
      ap_state = st, ap_started_at = 0, ap_attempt_id = [],
      ap_execution_handle = marshal_handle sample_handle, ap_stdout_offset = 0,
      ap_stderr_offset = 0, ap_execution_method = ''http''\<rparr>"

lemma sample_rows:
  "st \<in> {Running, KillRequested} \<Longrightarrow>
   listActiveAsyncRuns (calm t) (sample_world [sample_process ''prc_1''] [sample_async_run st]) =
     Inr [sample_row st]"
  by (auto simp: listActiveAsyncRuns_def ListActiveAsyncRuns_def db_read_def join_runs_def
      List.maps_eq sample_world_def empty_world_def sample_async_run_def sample_run_def new_run_def
      sample_params_def sample_process_def async_run_row_of_def open_run_attempt_def sample_row_def)

lemma sample_runs_ok: "runs_ok (sample_world procs [r])"
  by (simp add: runs_ok_def sample_world_def)

theorem pollAsyncRun_steps_witness:
  "\<exists>t. state_at (pollAsyncRun (sample_orchestrator (sample_async (sample_poll RemoteCompleted (Some 0))))
       (calm 5) (sample_row Running)
       (sample_world [sample_process ''prc_1''] [sample_async_run Running])) ''run_1'' = Some t \<and>
     t \<in> {Running, Completed, Failed, Hung, Retrying, WaitingForChoice}"
proof -
  have "listActiveAsyncRuns (calm 5) (sample_world [sample_process ''prc_1''] [sample_async_run Running]) =
      Inr [sample_row Running]" by (rule sample_rows) simp
  from pollAsyncRun_steps[OF spawning_sample sample_runs_ok this,
      of "sample_row Running" "sample_async (sample_poll RemoteCompleted (Some 0))"]
  show ?thesis by (auto simp: sample_row_def)
qed

text \<open>
  A poll that reports \<open>killed\<close> for a run nobody asked to stop is not always a failure, as the
  comment of \<open>finalizeRunKilled\<close> says: with exit code 0 the run is completed.
\<close>

theorem killed_with_exit_code_0_completes:
  assumes "spawning o'" "e_fault e ''UpdateRunState'' = None" "e_fault e ''ClearRunExecutionHandle'' = None"
    and "run_at w (ap_id row) = Some run" "ap_state row \<noteq> KillRequested"
    and "pr_state poll = RemoteKilled" "pr_exit_code poll = Some 0"
  shows "state_at (conclude_poll o' e row p poll w) (ap_id row) = Some Completed"
proof -
  let ?r = "if res_error (poll_outcome poll) = None
    then (poll_outcome poll)\<lparr>res_error := Some (ErrText ''process was killed'')\<rparr> else poll_outcome poll"
  have ok: "IsSuccess ?r" using assms(7) by (simp add: IsSuccess_def poll_outcome_def)
  have "conclude_poll o' e row p poll w = finalize_row o' e row p ?r w"
    using assms(5,6) by (simp add: conclude_poll_def finalizeRunKilled_def Let_def)
  moreover obtain a where a: "result_update e (ap_id row) (ap_attempt row) (ap_started_at row) p ?r = Some a"
    using ok by (simp add: result_update_def Let_def)
  ultimately show ?thesis
    using finalize_row_at[OF assms(1-4) a] us_state_result_update[OF a] ok
    by (simp add: finalize_row_def state_at_def)
qed

theorem killed_with_exit_code_0_completes_witness:
  "state_at (conclude_poll (sample_orchestrator (sample_async (sample_poll RemoteKilled (Some 0)))) (calm 5)
     (sample_row Running) (sample_process ''prc_1'') (sample_poll RemoteKilled (Some 0))
     (sample_world [sample_process ''prc_1''] [sample_async_run Running])) ''run_1'' = Some Completed"
  using killed_with_exit_code_0_completes[OF spawning_sample, of "calm 5"
      "sample_world [sample_process ''prc_1''] [sample_async_run Running]" "sample_row Running"
      "sample_async_run Running" "sample_poll RemoteKilled (Some 0)"
      "sample_async (sample_poll RemoteKilled (Some 0))" "sample_process ''prc_1''"]
  by (simp add: sample_row_def sample_poll_def run_at_def sample_world_def sample_async_run_def
      sample_run_def new_run_def sample_params_def)

section \<open>Claiming\<close>

definition eligible :: "env \<Rightarrow> world \<Rightarrow> run \<Rightarrow> bool" where
  "eligible e w r \<longleftrightarrow> r \<in> set (w_runs w) \<and> workspace_active w (r_workspace_id r) \<and>
     \<not> e_locked e (r_id r)"

text \<open>
  A tick claims at most twenty runs, each due, pending, queued or retrying, of an active
  workspace and not locked elsewhere; it claims the oldest first: a pending run that is left
  out is not older than any of the ten that were claimed.
\<close>

theorem tick_claims:
  assumes "no_faults e"
  shows "length (orchestrator_tick e w) \<le> 20 \<and>
    (\<forall>r\<in>set (orchestrator_tick e w). eligible e w r \<and>
       (r_state r \<in> {Pending, Queued} \<and> r_scheduled_at r \<le> e_db_now e \<or>
        r_state r = Retrying \<and> due (e_db_now e) (r_next_attempt_at r))) \<and>
    (\<forall>r. eligible e w r \<and> r_state r \<in> {Pending, Queued} \<and> r_scheduled_at r \<le> e_db_now e \<and>
         r \<notin> set (orchestrator_tick e w) \<longrightarrow>
       length (filter (\<lambda>c. r_state c \<noteq> Retrying) (orchestrator_tick e w)) = 10 \<and>
       (\<forall>c\<in>set (orchestrator_tick e w). r_state c \<noteq> Retrying \<longrightarrow> r_scheduled_at c \<le> r_scheduled_at r))"
proof -
  define P where "P = filter (\<lambda>r. r_state r \<in> {Pending, Queued} \<and> r_scheduled_at r \<le> e_db_now e \<and>
          workspace_active w (r_workspace_id r) \<and> \<not> e_locked e (r_id r)) (w_runs w)"
  define R where "R = filter (\<lambda>r. r_state r = Retrying \<and> due (e_db_now e) (r_next_attempt_at r) \<and>
          workspace_active w (r_workspace_id r) \<and> \<not> e_locked e (r_id r)) (w_runs w)"
  define p where "p = take 10 (sort_key r_scheduled_at P)"
  define r where "r = take 10 (sort_key (\<lambda>r. the (r_next_attempt_at r)) R)"
  have tick: "orchestrator_tick e w = p @ r"
    using assms by (simp add: orchestrator_tick_def ClaimPendingRuns_def ClaimRetryingRuns_def db_read_def
        P_def R_def p_def r_def)
  have P: "x \<in> set P \<longleftrightarrow> eligible e w x \<and> r_state x \<in> {Pending, Queued} \<and> r_scheduled_at x \<le> e_db_now e" for x
    by (auto simp: P_def eligible_def)
  have R: "x \<in> set R \<longleftrightarrow> eligible e w x \<and> r_state x = Retrying \<and> due (e_db_now e) (r_next_attempt_at x)" for x
    by (auto simp: R_def eligible_def)
  have pD: "x \<in> set P" if "x \<in> set p" for x using that unfolding p_def by (rule in_take_sort_keyD)
  have rD: "x \<in> set R" if "x \<in> set r" for x using that unfolding r_def by (rule in_take_sort_keyD)
  have "filter (\<lambda>c. r_state c \<noteq> Retrying) p = p"
    using pD P by (intro filter_True ballI) fastforce
  moreover have "filter (\<lambda>c. r_state c \<noteq> Retrying) r = []"
    using rD R by (intro filter_False ballI) fastforce
  ultimately have fil: "filter (\<lambda>c. r_state c \<noteq> Retrying) (orchestrator_tick e w) = p"
    by (simp add: tick)
  have left_out: "length p = 10 \<and> (\<forall>c\<in>set p. r_scheduled_at c \<le> r_scheduled_at x)"
    if "x \<in> set P" "x \<notin> set p" for x
    using take_sort_key[OF that[unfolded p_def]] unfolding p_def[symmetric] by (rule conjI)
  have "length (orchestrator_tick e w) \<le> 20" by (simp add: tick p_def r_def)
  moreover have "\<forall>x\<in>set (orchestrator_tick e w). eligible e w x \<and>
       (r_state x \<in> {Pending, Queued} \<and> r_scheduled_at x \<le> e_db_now e \<or>
        r_state x = Retrying \<and> due (e_db_now e) (r_next_attempt_at x))"
    using pD rD P R by (auto simp: tick)
  moreover have "length (filter (\<lambda>c. r_state c \<noteq> Retrying) (orchestrator_tick e w)) = 10 \<and>
       (\<forall>c\<in>set (orchestrator_tick e w). r_state c \<noteq> Retrying \<longrightarrow> r_scheduled_at c \<le> r_scheduled_at x)"
    if "eligible e w x" "r_state x \<in> {Pending, Queued}" "r_scheduled_at x \<le> e_db_now e"
       "x \<notin> set (orchestrator_tick e w)" for x
  proof -
    have "x \<in> set P" "x \<notin> set p" using that P by (simp_all add: tick)
    from left_out[OF this] show ?thesis unfolding fil using rD R by (auto simp: tick)
  qed
  ultimately show ?thesis by blast
qed

theorem tick_claims_witness:
  "length (orchestrator_tick (calm 5) (sample_world [sample_process ''prc_1''] [sample_run ''run_1'' Pending])) \<le> 20"
  using tick_claims[OF no_faults_calm] by blast

end
