(* ===== verification/Dispatch_Properties.thy ===== *)
theory Dispatch_Properties
  imports Samples
begin

text \<open>
  The properties of dispatching and killing runs, and of the dependency resolver.
\<close>

section \<open>Starting\<close>

text \<open>The parallelism check lets the run pass.\<close>

definition may_start :: "env \<Rightarrow> world \<Rightarrow> process \<Rightarrow> bool" where
  "may_start e w p \<longleftrightarrow> p_schedule_type p \<noteq> ''cron'' \<or> p_allow_parallel p \<or>
     (\<exists>n. CountActiveByProcess e (p_id p) w = Inr n \<and> n \<le> 1)"

lemma dispatch_begin_route:
  "GetProcess e (r_process_id run) (r_workspace_id run) w = Inr p \<Longrightarrow> may_start e w p \<Longrightarrow>
   dispatch_begin o' e run w = dispatch_route o' e run p w"
  by (auto simp: dispatch_begin_def may_start_def)

lemma dispatch_begin_start:
  assumes "GetProcess e (r_process_id run) (r_workspace_id run) w = Inr p" "may_start e w p"
    and "p_runtime p \<noteq> ''worker''" "registry_Get (o_registry o') (p_execution_method p) = Some m"
  shows "dispatch_begin o' e run w =
    (Some (fst (begin_attempt e run p m w)), snd (begin_attempt e run p m w))"
  using assms by (simp add: dispatch_begin_route dispatch_route_def split: prod.split)


lemma sample_lookups:
  "run_at (sample_world procs (r # rs)) k = (if r_id r = k then Some r else lookup_key r_id k rs)"
  "GetProcess (calm t) pid ws (sample_world (p # ps) rs) =
     (if p_id p = pid \<and> p_workspace_id p = ws then Inr p
      else one_row (List.find (\<lambda>p. p_id p = pid \<and> p_workspace_id p = ws) ps))"
  "w_run_attempts (sample_world ps rs) = []" "w_runs (sample_world ps rs) = rs"
  "w_trace (sample_world ps rs) = []" "w_ids (sample_world ps rs) = 0"
  "w_processes (sample_world ps rs) = ps" "w_running (sample_world ps rs) k = None"
  by (simp_all add: run_at_def sample_world_def GetProcess_def db_read_def one_row_def empty_world_def)

lemma sample_fields [simp]:
  "r_id (sample_run rid st) = rid" "r_state (sample_run rid st) = st" "r_attempt (sample_run rid st) = 0"
  "r_process_id (sample_run rid st) = ''prc_1''" "r_workspace_id (sample_run rid st) = ''wsp_1''"
  "r_execution_handle (sample_run rid st) = None" "r_scheduled_at (sample_run rid st) = 0"
  "p_id (sample_process pid) = pid" "p_workspace_id (sample_process pid) = ''wsp_1''"
  "p_runtime (sample_process pid) = ''direct''" "p_execution_method (sample_process pid) = ''http''"
  "p_schedule_type (sample_process pid) = ''cron''" "p_allow_parallel (sample_process pid) = False"
  "p_on_overlap (sample_process pid) = ''skip''" "p_max_attempts (sample_process pid) = 3"
  "registry_Get (o_registry (sample_orchestrator m)) ''http'' = Some m"
  by (simp_all add: sample_run_def new_run_def sample_params_def sample_process_def
      sample_orchestrator_def registry_Get_def Register_def)


section \<open>Overlap\<close>

text \<open>
  When at least two runs of a cron process without parallelism are active, a further run is
  not started: it is skipped or queued, as the process says.
\<close>

theorem overlap_is_not_started:
  assumes "spawning o'" "no_faults e" "GetProcess e (r_process_id run) (r_workspace_id run) w = Inr p"
    and "p_schedule_type p = ''cron''" "\<not> p_allow_parallel p"
    and "CountActiveByProcess e (p_id p) w = Inr n" "n > 1"
    and "run_at w (r_id run) = Some r" "p_on_overlap p \<in> {''skip'', ''queue''}"
  shows "fst (dispatch_begin o' e run w) = None \<and>
    state_at (snd (dispatch_begin o' e run w)) (r_id run) =
      Some (if p_on_overlap p = ''skip'' then Skipped else Queued)"
proof -
  have upd: "state_at (updateState e (r_id run) st w) (r_id run) = Some st" for st
    using assms(2,8) by (simp add: updateState_def UpdateRunState_ok state_at_def run_at_on_run)
  then have "state_at (handleTerminal o' e run p Skipped (updateState e (r_id run) Skipped w)) (r_id run)
      = Some Skipped"
    using spawns_handleTerminal[OF assms(1)] spawns_state_at by blast
  then show ?thesis
    using assms(3-7,9) upd by (auto simp: dispatch_begin_def)
qed

theorem overlap_is_not_started_witness:
  "fst (dispatch_begin (sample_orchestrator (sample_blocking 0)) (calm 7) (sample_run ''run_3'' Pending)
     (sample_world [sample_process ''prc_1'']
       [sample_run ''run_1'' Running, sample_run ''run_2'' Running, sample_run ''run_3'' Pending])) = None"
  using overlap_is_not_started[of "sample_orchestrator (sample_blocking 0)" "calm 7" "sample_run ''run_3'' Pending"
      "sample_world [sample_process ''prc_1'']
         [sample_run ''run_1'' Running, sample_run ''run_2'' Running, sample_run ''run_3'' Pending]"
      "sample_process ''prc_1''" 2 "sample_run ''run_3'' Pending"]
  by (simp add: sample_lookups CountActiveByProcess_def db_read_def)

text \<open>
  The check counts the active runs without the pending run itself, and compares with one:
  while a run of a process without parallelism is running, a second one is started beside it.
\<close>

theorem second_run_starts_in_parallel:
  assumes "no_faults e" "GetProcess e (r_process_id run) (r_workspace_id run) w = Inr p"
    and "CountActiveByProcess e (p_id p) w = Inr 1"
    and "p_runtime p \<noteq> ''worker''" "registry_Get (o_registry o') (p_execution_method p) = Some m"
    and "run_at w (r_id run) = Some r" "run_at w k = Some other" "k \<noteq> r_id run" "r_state other = Running"
  shows "state_at (snd (dispatch_begin o' e run w)) (r_id run) = Some Running \<and>
    state_at (snd (dispatch_begin o' e run w)) k = Some Running"
proof -
  have "may_start e w p" using assms(3) by (simp add: may_start_def)
  then have "snd (dispatch_begin o' e run w) = snd (begin_attempt e run p m w)"
    by (simp add: dispatch_begin_start[OF assms(2) _ assms(4,5)])
  moreover have "run_at (snd (begin_attempt e run p m w)) x =
      (if x = r_id run then map_option (started_run e run p) (run_at w x) else run_at w x)" for x
    using run_at_on_run[of "started_run e run p" "r_id run" w x]
    by (simp add: run_at_def on_run_def begin_attempt_runs[OF assms(1)])
  ultimately show ?thesis using assms(6-9) by (simp add: state_at_def)
qed

theorem second_run_starts_in_parallel_witness:
  "(let w = snd (dispatch_begin (sample_orchestrator (sample_blocking 0)) (calm 7) (sample_run ''run_2'' Pending)
      (sample_world [sample_process ''prc_1''] [sample_run ''run_1'' Running, sample_run ''run_2'' Pending]))
    in state_at w ''run_1'' = Some Running \<and> state_at w ''run_2'' = Some Running) \<and>
   \<not> p_allow_parallel (sample_process ''prc_1'')"
  using second_run_starts_in_parallel[of "calm 7" "sample_run ''run_2'' Pending"
      "sample_world [sample_process ''prc_1''] [sample_run ''run_1'' Running, sample_run ''run_2'' Pending]"
      "sample_process ''prc_1''" "sample_orchestrator (sample_blocking 0)" "sample_blocking 0"
      "sample_run ''run_2'' Pending" "''run_1''" "sample_run ''run_1'' Running"]
  by (simp add: sample_lookups CountActiveByProcess_def db_read_def Let_def)

text \<open>
  A run that is skipped because of an overlap triggers no dependent process: the resolver is
  given the run as it was claimed, whose state is not terminal, although the row has just been
  written with a terminal one.
\<close>

theorem skipped_run_triggers_nothing:
  assumes "o_onRunTerminal o' = Some (\<lambda>e run p w. snd (Evaluate e run w))" "no_faults e"
    and "GetProcess e (r_process_id run) (r_workspace_id run) w = Inr p"
    and "p_schedule_type p = ''cron''" "\<not> p_allow_parallel p" "p_on_overlap p = ''skip''"
    and "CountActiveByProcess e (p_id p) w = Inr n" "n > 1"
    and "run_at w (r_id run) = Some r" "r_state run \<in> {Pending, Queued, Retrying}"
  shows "w_runs (snd (dispatch_begin o' e run w)) = w_runs (updateState e (r_id run) Skipped w) \<and>
    state_at (snd (dispatch_begin o' e run w)) (r_id run) = Some Skipped \<and> IsFinalTerminal Skipped"
proof -
  have "handleTerminal o' e run p Skipped w' = w'" for w'
    using assms(1,4,10)
    by (auto simp: handleTerminal_def continue_chain_def Evaluate_def IsFinalTerminal_def)
  then have "snd (dispatch_begin o' e run w) = updateState e (r_id run) Skipped w"
    using assms(3-8) by (simp add: dispatch_begin_def)
  moreover have "state_at (updateState e (r_id run) Skipped w) (r_id run) = Some Skipped"
    using assms(2,9) by (simp add: updateState_def UpdateRunState_ok state_at_def run_at_on_run)
  ultimately show ?thesis by (simp add: IsFinalTerminal_def)
qed

theorem skipped_run_triggers_nothing_witness:
  "w_runs (snd (dispatch_begin (sample_orchestrator (sample_blocking 0)) (calm 7) (sample_run ''run_3'' Pending)
     (sample_world [sample_process ''prc_1'',
         (sample_process ''prc_2'')\<lparr>p_depends_on_process_id := Some ''prc_1'', p_dependency_type := Some ''after''\<rparr>]
       [sample_run ''run_1'' Running, sample_run ''run_2'' Running, sample_run ''run_3'' Pending]))) =
   w_runs (updateState (calm 7) ''run_3'' Skipped
     (sample_world [sample_process ''prc_1'',
         (sample_process ''prc_2'')\<lparr>p_depends_on_process_id := Some ''prc_1'', p_dependency_type := Some ''after''\<rparr>]
       [sample_run ''run_1'' Running, sample_run ''run_2'' Running, sample_run ''run_3'' Pending]))"
  using skipped_run_triggers_nothing[of "sample_orchestrator (sample_blocking 0)" "calm 7"
      "sample_run ''run_3'' Pending" "sample_world [sample_process ''prc_1'',
         (sample_process ''prc_2'')\<lparr>p_depends_on_process_id := Some ''prc_1'', p_dependency_type := Some ''after''\<rparr>]
       [sample_run ''run_1'' Running, sample_run ''run_2'' Running, sample_run ''run_3'' Pending]"
      "sample_process ''prc_1''" 2 "sample_run ''run_3'' Pending"]
  by (simp add: sample_lookups CountActiveByProcess_def db_read_def sample_orchestrator_def)

section \<open>Killing\<close>

text \<open>
  A blocking run whose stop was requested while it ran ends killed exactly when its method
  can kill and the result is not a success; a success, or the result of a method that cannot
  kill, is classified as if nobody had asked.
\<close>

theorem kill_request_honours_result:
  assumes "spawning o'" "no_faults e" "run_at w (r_id (dc_run c)) = Some cur"
    and "GetRun e (r_id (dc_run c)) (r_workspace_id (dc_run c)) w = Inr cur"
    and "r_state cur = KillRequested" "1 \<le> dc_attempt c"
  shows "state_at (finish_blocking o' e c r w) (r_id (dc_run c)) =
    Some (if m_SupportsKill (dc_method c) \<and> \<not> IsSuccess r then Killed
          else result_state (dc_process c) (dc_attempt c) r)"
proof (cases "m_SupportsKill (dc_method c) \<and> \<not> IsSuccess r")
  case True
  have "state_at (snd (UpdateRunState e a w)) (r_id (dc_run c)) = Some (us_state a)"
    if "us_id a = r_id (dc_run c)" "us_worker_id a = None" for a
    using that assms(2,3) by (simp add: UpdateRunState_ok state_at_def run_at_on_run)
  then show ?thesis
    using True assms(4,5) spawns_state_at[OF spawns_handleTerminal[OF assms(1)]]
    by (simp add: finish_blocking_def Let_def)
next
  case False
  then have "finish_blocking o' e c r w = finalizeRunResult o' e (r_id (dc_run c))
      (r_workspace_id (dc_run c)) (dc_attempt_id c) (dc_attempt c) (dc_now c) (dc_process c) r w"
    by (auto simp: finish_blocking_def Let_def)
  moreover have "executor_calculateBackoff (e_now e) (dc_attempt c) bs \<noteq> None" for bs
    using assms(6) by (simp add: executor_backoff.panics_iff)
  then obtain a where a: "result_update e (r_id (dc_run c)) (dc_attempt c) (dc_now c) (dc_process c) r = Some a"
    by (fastforce simp: result_update_def Let_def)
  have "state_at (snd (UpdateRunState e a (record_result o' e (r_id (dc_run c)) aid (dc_now c) r w)))
      (r_id (dc_run c)) = Some (us_state a)" for aid
    using assms(2,3) us_id_result_update[OF a] us_worker_result_update[OF a]
    by (simp add: UpdateRunState_ok state_at_def run_at_on_run run_at_record_result)
  ultimately show ?thesis
    using False us_state_result_update[OF a] spawns_state_at[OF finalize_spawns[OF assms(1),
        where e = e and rid = "r_id (dc_run c)" and attempt = "dc_attempt c" and started = "dc_now c"
          and p = "dc_process c" and r = r and aid = "dc_attempt_id c" and w = w
          and ws = "r_workspace_id (dc_run c)"]] a
    by (auto simp: result_state_def)
qed

definition sample_call :: start_call where
  "sample_call =
     \<lparr>dc_run = sample_run ''run_1'' Pending, dc_process = sample_process ''prc_1'',
      dc_method = sample_blocking 1,
      dc_params = run_start_params (sample_run ''run_1'' Pending) (sample_process ''prc_1''),
      dc_attempt_id = [], dc_attempt = 1, dc_now = 0\<rparr>"

theorem kill_request_honours_result_witness:
  "state_at (finish_blocking (sample_orchestrator (sample_blocking 1)) (calm 9) sample_call (sample_result 1)
     (sample_world [sample_process ''prc_1''] [sample_run ''run_1'' KillRequested])) ''run_1'' = Some Killed"
  using kill_request_honours_result[of "sample_orchestrator (sample_blocking 1)" "calm 9"
      "sample_world [sample_process ''prc_1''] [sample_run ''run_1'' KillRequested]" sample_call
      "sample_run ''run_1'' KillRequested" "sample_result 1"]
  by (simp add: sample_call_def sample_lookups GetRun_def db_read_def one_row_def sample_blocking_def
      AdaptBlocking_def IsSuccess_def sample_result_def)

text \<open>
  While a blocking method is starting, that is for as long as it runs, a kill of its run is
  answered with success and reaches no method: the handle is registered only when \<open>Start\<close> has
  returned.
\<close>

theorem kill_lost_while_starting:
  assumes "no_faults e" "no_faults e'" "run_at w (r_id run) = Some r" "r_execution_handle r = None"
    and "w_running w (r_id run) = None"
  shows "orchestrator_Kill o' e' (r_id run) (snd (begin_attempt e run p m w)) =
    (None, snd (begin_attempt e run p m w))"
proof -
  have "lookup_key r_id (r_id run) (w_runs (snd (begin_attempt e run p m w))) = Some (started_run e run p r)"
    using run_at_on_run[of "started_run e run p" "r_id run" w "r_id run"] assms(3)
    by (simp add: run_at_def on_run_def begin_attempt_runs[OF assms(1)])
  then show ?thesis
    using assms(2,4,5)
    by (simp add: orchestrator_Kill_def begin_attempt_frame loadPersistedRunHandle_def
        GetRunExecutionHandle_def db_read_def)
qed

theorem kill_lost_while_starting_witness:
  "(let w = snd (begin_attempt (calm 1) (sample_run ''run_1'' Pending) (sample_process ''prc_1'')
        (sample_blocking 0) (sample_world [sample_process ''prc_1''] [sample_run ''run_1'' Pending]))
    in orchestrator_Kill (sample_orchestrator (sample_blocking 0)) (calm 2) ''run_1'' w = (None, w))"
  using kill_lost_while_starting[of "calm 1" "calm 2"
      "sample_world [sample_process ''prc_1''] [sample_run ''run_1'' Pending]" "sample_run ''run_1'' Pending"
      "sample_run ''run_1'' Pending" "sample_orchestrator (sample_blocking 0)" "sample_process ''prc_1''"
      "sample_blocking 0"]
  by (simp add: sample_lookups Let_def)

text \<open>
  A claim leaves no mark on the run, so the same run can be claimed by two ticks before its
  first dispatch has begun; both dispatches then start it, with the same attempt number.
\<close>

theorem double_dispatch:
  "\<exists>w r. orchestrator_tick (calm 10) w = [r] \<and>
    (let w1 = snd (dispatch_begin (sample_orchestrator (sample_blocking 0)) (calm 10) r w);
         w2 = snd (dispatch_begin (sample_orchestrator (sample_blocking 0)) (calm 11) r w1)
     in map ra_attempt_number (w_run_attempts w2) = [1, 1] \<and>
        w_trace w2 = replicate 2 (EvStart ''http'' (run_start_params r (sample_process ''prc_1''))))"
proof -
  let ?r = "sample_run ''run_1'' Pending" and ?p = "sample_process ''prc_1''" and ?m = "sample_blocking 0"
  let ?w = "sample_world [?p] [?r]"
  let ?w1 = "snd (begin_attempt (calm 10) ?r ?p ?m ?w)"
  let ?w2 = "snd (begin_attempt (calm 11) ?r ?p ?m ?w1)"
  have tick: "orchestrator_tick (calm 10) ?w = [?r]"
    by (simp add: orchestrator_tick_def ClaimPendingRuns_def ClaimRetryingRuns_def db_read_def
        sample_lookups workspace_active_def)
      (simp add: sample_world_def sample_workspace_def)
  have runs1: "w_runs ?w1 = [started_run (calm 10) ?r ?p ?r]"
    by (simp add: begin_attempt_runs sample_lookups)
  have atts1: "w_run_attempts ?w1 = [new_run_attempt (calm 10) ''rat_'' ''run_1'' 1 10 None]"
    using begin_attempt_attempts[of "calm 10" ?r ?w ?p ?m]
    by (simp add: sample_lookups has_key_def wrap32_def)
  have ids1: "w_ids ?w1 = 1" "w_processes ?w1 = [?p]"
    by (simp_all add: begin_attempt_def Let_def id_New_def CreateRunAttempt_def emit_def
        SnapshotRunConfig_def db_exec_def UpdateRunState_def on_run_def sample_lookups
        split: option.split)
  have "dispatch_begin (sample_orchestrator ?m) (calm 10) ?r ?w = (Some (fst (begin_attempt (calm 10) ?r ?p ?m ?w)), ?w1)"
    by (rule dispatch_begin_start)
      (simp_all add: sample_lookups may_start_def CountActiveByProcess_def db_read_def)
  moreover have "dispatch_begin (sample_orchestrator ?m) (calm 11) ?r ?w1 = (Some (fst (begin_attempt (calm 11) ?r ?p ?m ?w1)), ?w2)"
    by (rule dispatch_begin_start)
      (simp_all add: GetProcess_def one_row_def ids1 may_start_def CountActiveByProcess_def db_read_def runs1)
  moreover have "w_run_attempts ?w2 = w_run_attempts ?w1 @ [new_run_attempt (calm 11) ''rat_0'' ''run_1'' 1 11 None]"
    using begin_attempt_attempts[of "calm 11" ?r ?w1 ?p ?m]
    by (simp add: runs1 atts1 ids1 has_key_def wrap32_def new_run_attempt_def)
  ultimately show ?thesis
    by (intro exI[of _ ?w] exI[of _ ?r])
      (simp add: tick atts1 new_run_attempt_def begin_attempt_frame sample_lookups Let_def numeral_2_eq_2)
qed

section \<open>Dependencies\<close>

text \<open>
  C15: when a run has ended, the resolver creates exactly one pending run for each enabled process
  that depends on the run's process and whose condition holds (any end, or a completed one), in
  the order of the table, and nothing else.
\<close>

theorem evaluate_creates_dependents:
  assumes "IsFinalTerminal (r_state run)" "no_faults e" "fresh_run_ids e w"
    and "has_key r_id (r_id run) (w_runs w)" "distinct (map p_id (w_processes w))"
    and "\<forall>p\<in>set (w_processes w). slot_free e w p \<and> has_key wsp_id (p_workspace_id p) (w_workspaces w)"
  shows "\<exists>new. w_runs (snd (Evaluate e run w)) = w_runs w @ new \<and>
    list_all2 (\<lambda>r dep. r = new_run e (dependent_params e (r_id r) dep run)) new
      (filter (\<lambda>p. p_depends_on_process_id p = Some (r_process_id run) \<and> p_enabled p \<and>
         triggers (r_state run) p) (w_processes w))"
proof -
  let ?deps = "filter (\<lambda>p. p_depends_on_process_id p = Some (r_process_id run) \<and> p_enabled p) (w_processes w)"
  have "snd (Evaluate e run w) = fold (evaluate_dependent e run) ?deps w"
    using assms(1,2) by (simp add: Evaluate_def GetDependentProcesses_def db_read_def)
  moreover have "\<exists>new. w_runs (fold (evaluate_dependent e run) ?deps w) = w_runs w @ new \<and>
    list_all2 (\<lambda>r dep. r = new_run e (dependent_params e (r_id r) dep run)) new
      (filter (triggers (r_state run)) ?deps)"
    by (rule evaluate_fold) (use assms(2-6) in \<open>auto simp: distinct_map_filter has_key_def\<close>)
  moreover have "filter (triggers (r_state run)) ?deps = filter (\<lambda>p. p_depends_on_process_id p = Some (r_process_id run) \<and>
      p_enabled p \<and> triggers (r_state run) p) (w_processes w)"
    by (simp add: conj_ac)
  ultimately show ?thesis by simp
qed

definition sample_dependent :: process where
  "sample_dependent = (sample_process ''prc_2'')
     \<lparr>p_depends_on_process_id := Some ''prc_1'', p_dependency_type := Some ''after''\<rparr>"

lemma sample_dependent_fields [simp]:
  "p_id sample_dependent = ''prc_2''" "p_workspace_id sample_dependent = ''wsp_1''"
  "p_depends_on_process_id sample_dependent = Some ''prc_1''"
  "p_dependency_type sample_dependent = Some ''after''" "p_enabled sample_dependent = True"
  "p_depends_on_process_id (sample_process pid) = None"
  by (simp_all add: sample_dependent_def sample_process_def)

lemma sample_workspaces:
  "w_workspaces (sample_world ps rs) = [sample_workspace]" "wsp_id sample_workspace = ''wsp_1''"
  by (simp_all add: sample_world_def sample_workspace_def)

lemma sample_fresh:
  "(\<And>n r. r \<in> set rs \<Longrightarrow> r_id r \<noteq> ''run_'' @ replicate n CHR ''0'') \<Longrightarrow>
   fresh_run_ids (calm t) (sample_world ps rs)"
  using inj_calm_ulid[of t] by (auto simp: fresh_run_ids_def has_key_def sample_lookups)

lemma one_not_zeros: "''1'' \<noteq> replicate n CHR ''0''"
  by (cases n) auto

theorem evaluate_creates_dependents_witness:
  "\<exists>new. w_runs (snd (Evaluate (calm 5) (sample_run ''run_1'' Failed)
       (sample_world [sample_process ''prc_1'', sample_dependent] [sample_run ''run_1'' Failed]))) =
     [sample_run ''run_1'' Failed] @ new \<and> length new = 1"
proof -
  let ?w = "sample_world [sample_process ''prc_1'', sample_dependent] [sample_run ''run_1'' Failed]"
  have "fresh_run_ids (calm 5) ?w" by (rule sample_fresh) (auto simp: one_not_zeros)
  then have "\<exists>new. w_runs (snd (Evaluate (calm 5) (sample_run ''run_1'' Failed) ?w)) = w_runs ?w @ new \<and>
    list_all2 (\<lambda>r dep. r = new_run (calm 5) (dependent_params (calm 5) (r_id r) dep (sample_run ''run_1'' Failed))) new
      (filter (\<lambda>p. p_depends_on_process_id p = Some (r_process_id (sample_run ''run_1'' Failed)) \<and> p_enabled p \<and>
         triggers (r_state (sample_run ''run_1'' Failed)) p) (w_processes ?w))"
    by (intro evaluate_creates_dependents)
      (simp_all add: IsFinalTerminal_def sample_lookups has_key_def sample_workspaces slot_free_def run_slot_def)
  then show ?thesis
    by (auto simp: sample_lookups triggers_def dest!: list_all2_lengthD)
qed

text \<open>
  The walk of \<open>ValidateNoCycles\<close>, given the workspace the processes are in, finds every chain
  from the parent back to the child, and what it reports is on the chain and is the child or
  closes a cycle.
\<close>

theorem cycle_walk_decides:
  assumes "child \<noteq> []"
  shows "((dep_edge e ws w)\<^sup>*\<^sup>* parent child \<longrightarrow> cycle_walk e ws w [child] parent \<noteq> None) \<and>
    (\<forall>c. cycle_walk e ws w [child] parent = Some c \<longrightarrow>
       (dep_edge e ws w)\<^sup>*\<^sup>* parent c \<and> (c = child \<or> (dep_edge e ws w)\<^sup>+\<^sup>+ c c))"
  using assms cycle_walk_complete[of e ws w parent child "[child]"]
    cycle_walk_sound[of e ws w "[child]" parent] by auto

theorem cycle_walk_decides_witness:
  "cycle_walk (calm 0) ''wsp_1'' (sample_world [sample_process ''prc_1'', sample_dependent] []) [''prc_1''] ''prc_2'' \<noteq> None"
proof -
  let ?w = "sample_world [sample_process ''prc_1'', sample_dependent] []"
  have "dep_edge (calm 0) ''wsp_1'' ?w ''prc_2'' ''prc_1''"
    by (simp add: dep_edge_def sample_lookups one_row_def)
  then show ?thesis
    using cycle_walk_decides[of "''prc_1''" "calm 0" "''wsp_1''" ?w "''prc_2''"] by blast
qed

text \<open>
  \<open>ValidateNoCycles\<close> calls \<open>GetProcess\<close> with the empty workspace id, which no process has: a
  dependency is only ever refused when a process is to depend on itself, whatever chain there is.
\<close>

theorem ValidateNoCycles_sees_no_chain:
  assumes "\<forall>p\<in>set (w_processes w). p_workspace_id p \<noteq> []" "parentID \<noteq> []"
  shows "ValidateNoCycles e w childID parentID = (if parentID = childID then Some childID else None)"
proof -
  obtain err where "GetProcess e parentID [] w = Inl err"
    using GetProcess_no_workspace[OF assms(1)] by blast
  then show ?thesis
    using assms(2) by (auto simp: ValidateNoCycles_def cycle_walk.simps)
qed

theorem ValidateNoCycles_sees_no_chain_witness:
  "(let w = sample_world [sample_process ''prc_1'', sample_dependent] []
    in ValidateNoCycles (calm 0) w ''prc_1'' ''prc_2'' = None \<and>
       dep_edge (calm 0) ''wsp_1'' w ''prc_2'' ''prc_1'')"
  using ValidateNoCycles_sees_no_chain[of "sample_world [sample_process ''prc_1'', sample_dependent] []"
      "''prc_2''" "calm 0" "''prc_1''"]
  by (simp add: sample_lookups Let_def dep_edge_def one_row_def)

section \<open>Fixed delay\<close>



end
