(* ===== verification/Planner.thy ===== *)
theory Planner
  imports Process_Queries
begin

text \<open>
  The planner, \<open>internal/planner/planner.go\<close>: it creates the runs of the enabled cron processes for
  the coming horizon. The cron library and the time zone database are parameters: a schedule is
  its function \<open>Next\<close>, which for an expression that is ever met returns a later instant, and for
  one that is never met (30 February) returns the zero time.
\<close>

record cron_lib =
  cl_LoadLocation :: "string \<Rightarrow> bool"
  cl_Parse :: "string \<Rightarrow> string \<Rightarrow> (instant \<Rightarrow> instant) option"

text \<open>The zero \<open>time.Time\<close>, 1 January of year 1.\<close>

definition zero_time :: instant where
  "zero_time = -62135596800000000000"

definition process_timezone :: "process \<Rightarrow> string" where
  "process_timezone p =
     (case p_timezone p of Some tz \<Rightarrow> if tz = [] then ''UTC'' else tz | None \<Rightarrow> ''UTC'')"

text \<open>The function \<open>Next\<close> of a process, if its expression and its time zone are valid.\<close>

definition process_schedule :: "cron_lib \<Rightarrow> process \<Rightarrow> (instant \<Rightarrow> instant) option" where
  "process_schedule lib p =
     (case p_schedule p of
        None \<Rightarrow> None
      | Some s \<Rightarrow>
          if s = [] then None
          else if \<not> cl_LoadLocation lib (process_timezone p) then None
          else cl_Parse lib (process_timezone p) s)"

definition scheduled_params :: "string \<Rightarrow> string \<Rightarrow> process \<Rightarrow> instant \<Rightarrow> create_run_params" where
  "scheduled_params origin rid p t =
     \<lparr>cr_id = rid, cr_workspace_id = p_workspace_id p, cr_process_id = p_id p,
      cr_scheduled_at = Some t, cr_state = Pending, cr_origin = origin,
      cr_max_attempts = p_max_attempts p, cr_actor_type = Some ''system'', cr_actor_id = None,
      cr_triggered_by_run_id = None, cr_replayed_from_run_id = None,
      cr_runtime = None, cr_worker_id = None, cr_tags = p_tags p\<rparr>"

definition create_scheduled ::
  "string \<Rightarrow> env \<Rightarrow> process \<Rightarrow> instant \<Rightarrow> world \<Rightarrow> go_error option \<times> world" where
  "create_scheduled origin e p t w =
     (let (rid, w) = id_New e ''run_'' w in CreateRun e (scheduled_params origin rid p t) w)"

text \<open>The loop over the instants of the window; \<open>None\<close> is a loop that does not end.\<close>

partial_function (option) plan_loop ::
  "(instant \<Rightarrow> instant) \<Rightarrow> env \<Rightarrow> process \<Rightarrow> instant \<Rightarrow> instant \<Rightarrow> instant \<Rightarrow> world \<Rightarrow> world option" where
  "plan_loop Next e p now end' next' w =
     (if next' > end' then Some w
      else if next' < now then plan_loop Next e p now end' (Next next') w
      else (case RunExists e (p_id p) next' ''cron'' w of
              Inl _ \<Rightarrow> Some w
            | Inr ex \<Rightarrow>
                if ex then plan_loop Next e p now end' (Next next') w
                else (case create_scheduled ''cron'' e p next' w of
                        (Some _, w) \<Rightarrow> Some w
                      | (None, w) \<Rightarrow> plan_loop Next e p now end' (Next next') w)))"

definition plan_process :: "cron_lib \<Rightarrow> env \<Rightarrow> duration \<Rightarrow> process \<Rightarrow> world \<Rightarrow> world option" where
  "plan_process lib e horizon p w =
     (case process_schedule lib p of
        None \<Rightarrow> Some w
      | Some Next \<Rightarrow>
          (let now = e_now e
           in plan_loop Next e p now (now + horizon) (Next (now - minute)) w))"

fun plan_processes ::
  "cron_lib \<Rightarrow> env \<Rightarrow> duration \<Rightarrow> process list \<Rightarrow> world \<Rightarrow> world option" where
  "plan_processes lib e horizon [] w = Some w"
| "plan_processes lib e horizon (p # ps) w =
     (case plan_process lib e horizon p w of
        None \<Rightarrow> None
      | Some w \<Rightarrow> plan_processes lib e horizon ps w)"

definition plan :: "cron_lib \<Rightarrow> env \<Rightarrow> duration \<Rightarrow> world \<Rightarrow> world option" where
  "plan lib e horizon w =
     (case ListEnabledCronProcesses e w of
        Inl _ \<Rightarrow> Some w
      | Inr ps \<Rightarrow> plan_processes lib e horizon ps w)"

section \<open>The loop\<close>

lemma system_run_scheduled [simp]: "origin \<in> set run_origins \<Longrightarrow> system_run (scheduled_params origin rid p t)"
  by (simp add: system_run_def scheduled_params_def)

lemma spawns_create_scheduled: "spawns w (snd (create_scheduled origin e p t w))"
proof -
  have "spawns w (snd (id_New e ''run_'' w))"
    by (rule spawns_same_runs) (simp add: frame_simps)
  also have "spawns \<dots> (snd (create_scheduled origin e p t w))"
    by (simp add: create_scheduled_def scheduled_params_def spawns_CreateRun split: prod.split)
  finally show ?thesis .
qed

text \<open>What an accepted insert needs of the world: the rows the new run refers to.\<close>

definition plannable :: "world \<Rightarrow> process \<Rightarrow> bool" where
  "plannable w p \<longleftrightarrow> has_key p_id (p_id p) (w_processes w) \<and>
     has_key wsp_id (p_workspace_id p) (w_workspaces w)"

definition scheduled_run :: "string \<Rightarrow> env \<Rightarrow> process \<Rightarrow> instant \<Rightarrow> world \<Rightarrow> run" where
  "scheduled_run origin e p t w =
     new_run e (scheduled_params origin (''run_'' @ e_ulid e (w_ids w)) p t)"

lemma scheduled_run_simps [simp]:
  "run_slot (scheduled_run origin e p t w) = (p_id p, t, origin)"
  "fresh_run (scheduled_run origin e p t w)"
  "r_id (scheduled_run origin e p t w) = ''run_'' @ e_ulid e (w_ids w)"
  "r_scheduled_at (scheduled_run origin e p t w) = t"
  by (simp_all add: scheduled_run_def new_run_def scheduled_params_def run_slot_def fresh_run_def)

definition with_run :: "world \<Rightarrow> run \<Rightarrow> world" where
  "with_run w r = w\<lparr>w_ids := Suc (w_ids w), w_runs := w_runs w @ [r]\<rparr>"

lemma with_run_simps [simp]:
  "w_runs (with_run w r) = w_runs w @ [r]" "plannable (with_run w r) p = plannable w p"
  by (simp_all add: with_run_def plannable_def)

lemma create_scheduled_ok:
  assumes "e_fault e ''CreateRun'' = None" "fresh_run_ids e w" "plannable w p" "origin \<in> set run_origins"
    and "\<not> (\<exists>r\<in>set (w_runs w). run_slot r = (p_id p, t, origin))"
  shows "create_scheduled origin e p t w = (None, with_run w (scheduled_run origin e p t w))"
proof -
  have "CreateRun e (scheduled_params origin (''run_'' @ e_ulid e (w_ids w)) p t) (w\<lparr>w_ids := Suc (w_ids w)\<rparr>) =
      (None, with_run w (scheduled_run origin e p t w))"
    unfolding with_run_def scheduled_run_def
    by (rule system_run_accepted)
      (use assms in \<open>auto simp: plannable_def scheduled_params_def system_run_def\<close>)
  then show ?thesis by (simp add: create_scheduled_def id_New_def)
qed

lemma fresh_run_ids_with_run:
  "fresh_run_ids e w \<Longrightarrow> r_id r = ''run_'' @ e_ulid e (w_ids w) \<Longrightarrow> fresh_run_ids e (with_run w r)"
  unfolding with_run_def by (rule fresh_run_ids_step)

text \<open>The instants the loop goes through from a first one.\<close>

definition occurrence :: "(instant \<Rightarrow> instant) \<Rightarrow> instant \<Rightarrow> instant \<Rightarrow> bool" where
  "occurrence Next first t \<longleftrightarrow> (\<exists>k. t = (Next ^^ k) first)"

lemma occurrence_first: "occurrence Next t t"
  unfolding occurrence_def by (intro exI[of _ 0]) simp

lemma occurrence_next: "occurrence Next (Next first) t \<Longrightarrow> occurrence Next first t"
proof -
  assume "occurrence Next (Next first) t"
  then obtain k where "t = (Next ^^ k) (Next first)" by (auto simp: occurrence_def)
  then show ?thesis
    unfolding occurrence_def by (intro exI[of _ "Suc k"]) (simp add: funpow_swap1)
qed

lemma occurrence_cases: "occurrence Next first t \<Longrightarrow> t = first \<or> occurrence Next (Next first) t"
proof -
  assume "occurrence Next first t"
  then obtain k where k: "t = (Next ^^ k) first" by (auto simp: occurrence_def)
  show ?thesis
  proof (cases k)
    case 0
    then show ?thesis using k by simp
  next
    case (Suc n)
    then have "t = (Next ^^ n) (Next first)" using k by (simp add: funpow_swap1)
    then show ?thesis by (auto simp: occurrence_def)
  qed
qed

lemma occurrence_later:
  assumes "\<And>t. t < Next t" "occurrence Next first t"
  shows "first \<le> t"
proof -
  have "first \<le> (Next ^^ k) first" for k
    by (induction k) (use assms(1) in \<open>auto intro: less_imp_le order.trans\<close>)
  then show ?thesis using assms(2) by (auto simp: occurrence_def)
qed

definition no_plan_faults :: "env \<Rightarrow> bool" where
  "no_plan_faults e \<longleftrightarrow> e_fault e ''CreateRun'' = None \<and> e_fault e ''RunExists'' = None"

lemma RunExists_eq:
  "e_fault e ''RunExists'' = None \<Longrightarrow>
   RunExists e pid t origin w = Inr (\<exists>r\<in>set (w_runs w). run_slot r = (pid, t, origin))"
  by (auto simp: RunExists_def db_read_def run_slot_def)

text \<open>What the loop leaves: the old runs, and new ones for the instants of the window.\<close>

definition planned ::
  "(instant \<Rightarrow> instant) \<Rightarrow> process \<Rightarrow> instant \<Rightarrow> instant \<Rightarrow> instant \<Rightarrow> world \<Rightarrow> world \<Rightarrow> bool" where
  "planned Next p now end' first w w' \<longleftrightarrow>
     (\<exists>new. w_runs w' = w_runs w @ new \<and>
        (\<forall>r\<in>set new. fresh_run r \<and> (\<exists>t. occurrence Next first t \<and> now \<le> t \<and> t \<le> end' \<and>
           run_slot r = (p_id p, t, ''cron'')))) \<and>
     (\<forall>t. occurrence Next first t \<and> now \<le> t \<and> t \<le> end' \<longrightarrow>
        (\<exists>r\<in>set (w_runs w'). run_slot r = (p_id p, t, ''cron'')))"

lemma plan_loop_planned:
  assumes inc: "\<And>t. t < Next t" and ok: "no_plan_faults e"
    and "fresh_run_ids e w" "plannable w p"
  shows "\<exists>w'. plan_loop Next e p now end' next' w = Some w' \<and> planned Next p now end' next' w w'"
  using assms(3,4)
proof (induction "nat (end' + 1 - next')" arbitrary: next' w rule: less_induct)
  case less
  note faults = ok[unfolded no_plan_faults_def]
  show ?case
  proof (cases "next' > end'")
    case True
    then have "\<not> (occurrence Next next' t \<and> t \<le> end')" for t
      using occurrence_later[of Next next' t, OF inc] by auto
    then show ?thesis
      using True by (subst plan_loop.simps) (auto simp: planned_def)
  next
    case False
    have dec: "nat (end' + 1 - Next next') < nat (end' + 1 - next')"
      using False inc[of next'] by simp
    note IH = less.hyps[OF dec]
    show ?thesis
    proof (cases "next' < now \<or> (\<exists>r\<in>set (w_runs w). run_slot r = (p_id p, next', ''cron''))")
      case True
      obtain w' where w': "plan_loop Next e p now end' (Next next') w = Some w'"
        "planned Next p now end' (Next next') w w'"
        using IH less.prems by blast
      have "plan_loop Next e p now end' next' w = Some w'"
        using True False w'(1) faults by (subst plan_loop.simps) (auto simp: RunExists_eq)
      moreover have "planned Next p now end' next' w w'"
      proof -
        obtain new where new: "w_runs w' = w_runs w @ new"
          "\<forall>r\<in>set new. fresh_run r \<and> (\<exists>t. occurrence Next (Next next') t \<and> now \<le> t \<and> t \<le> end' \<and>
             run_slot r = (p_id p, t, ''cron''))"
          using w'(2) unfolding planned_def by blast
        have "\<exists>r\<in>set (w_runs w'). run_slot r = (p_id p, t, ''cron'')"
          if t: "occurrence Next next' t" "now \<le> t" "t \<le> end'" for t
        proof (cases "t = next'")
          case True
          then have "\<exists>r\<in>set (w_runs w). run_slot r = (p_id p, t, ''cron'')"
            using \<open>next' < now \<or> _\<close> t(2) by auto
          then show ?thesis using new(1) by auto
        next
          case False
          then have "occurrence Next (Next next') t" using occurrence_cases[OF t(1)] by simp
          then show ?thesis using w'(2) t unfolding planned_def by blast
        qed
        then show ?thesis
          using new occurrence_next unfolding planned_def by blast
      qed
      ultimately show ?thesis by blast
    next
      case no: False
      let ?r = "scheduled_run ''cron'' e p next' w"
      have cs: "create_scheduled ''cron'' e p next' w = (None, with_run w ?r)"
        by (rule create_scheduled_ok) (use less.prems no faults in \<open>auto simp: run_origins_def\<close>)
      have "fresh_run_ids e (with_run w ?r)" "plannable (with_run w ?r) p"
        using less.prems by (simp_all add: fresh_run_ids_with_run)
      then obtain w' where w': "plan_loop Next e p now end' (Next next') (with_run w ?r) = Some w'"
        "planned Next p now end' (Next next') (with_run w ?r) w'"
        using IH by blast
      have "plan_loop Next e p now end' next' w = Some w'"
        using no False w'(1) cs faults by (subst plan_loop.simps) (auto simp: RunExists_eq)
      moreover have "planned Next p now end' next' w w'"
      proof -
        obtain new where new: "w_runs w' = w_runs w @ ?r # new"
          "\<forall>r\<in>set new. fresh_run r \<and> (\<exists>t. occurrence Next (Next next') t \<and> now \<le> t \<and> t \<le> end' \<and>
             run_slot r = (p_id p, t, ''cron''))"
          using w'(2) unfolding planned_def by auto
        have slot: "\<exists>r\<in>set (w_runs w'). run_slot r = (p_id p, t, ''cron'')"
          if t: "occurrence Next next' t" "now \<le> t" "t \<le> end'" for t
        proof (cases "t = next'")
          case True
          then show ?thesis using new(1) by (intro bexI[of _ ?r]) simp_all
        next
          case False
          then have "occurrence Next (Next next') t" using occurrence_cases[OF t(1)] by simp
          then show ?thesis using w'(2) t unfolding planned_def by blast
        qed
        have here: "fresh_run ?r \<and> (\<exists>t. occurrence Next next' t \<and> now \<le> t \<and> t \<le> end' \<and>
            run_slot ?r = (p_id p, t, ''cron''))"
          using False no occurrence_first[of Next next'] by (intro conjI exI[of _ next']) simp_all
        have "\<forall>r\<in>set (?r # new). fresh_run r \<and> (\<exists>t. occurrence Next next' t \<and> now \<le> t \<and> t \<le> end' \<and>
             run_slot r = (p_id p, t, ''cron''))"
          using here new(2) occurrence_next by (metis set_ConsD)
        then show ?thesis using new(1) slot unfolding planned_def by blast
      qed
      ultimately show ?thesis by blast
    qed
  qed
qed

text \<open>A second pass over the same window finds every run and writes nothing.\<close>

lemma plan_loop_idle:
  assumes inc: "\<And>t. t < Next t" and ok: "no_plan_faults e"
    and all: "\<And>t. occurrence Next next' t \<Longrightarrow> now \<le> t \<Longrightarrow> t \<le> end' \<Longrightarrow>
      \<exists>r\<in>set (w_runs w). run_slot r = (p_id p, t, ''cron'')"
  shows "plan_loop Next e p now end' next' w = Some w"
  using all
proof (induction "nat (end' + 1 - next')" arbitrary: next' rule: less_induct)
  case less
  show ?case
  proof (cases "next' > end'")
    case True
    then show ?thesis by (subst plan_loop.simps) simp
  next
    case False
    have dec: "nat (end' + 1 - Next next') < nat (end' + 1 - next')"
      using False inc[of next'] by simp
    have "plan_loop Next e p now end' (Next next') w = Some w"
      by (rule less.hyps[OF dec]) (use less.prems occurrence_next in blast)
    moreover have "next' < now \<or> (\<exists>r\<in>set (w_runs w). run_slot r = (p_id p, next', ''cron''))"
      using less.prems[OF occurrence_first] False by (cases "next' < now") auto
    ultimately show ?thesis
      using False ok[unfolded no_plan_faults_def] by (subst plan_loop.simps) (auto simp: RunExists_eq)
  qed
qed

text \<open>An expression that is never met keeps the loop at the zero time.\<close>

lemma plan_loop_stuck: "plan_loop (\<lambda>_. zero_time) e p now end' zero_time w = None"
  if "zero_time < now" "zero_time \<le> end'"
proof -
  have "plan_loop Next e p now' end'' next' v = Some w' \<Longrightarrow>
      Next = (\<lambda>_. zero_time) \<Longrightarrow> next' = zero_time \<Longrightarrow> now' = now \<Longrightarrow> end'' = end' \<Longrightarrow> False"
    for Next now' end'' next' v w'
  proof (induction rule: plan_loop.raw_induct[rotated 1, consumes 1])
    case (1 plan_loop Next e p now' end'' next' w y)
    then show ?case using that by (auto split: if_splits)
  qed
  then show ?thesis by (metis option.exhaust)
qed

text \<open>The loop ends from any world, failures included, when the schedule always moves on.\<close>

lemma plan_loop_total:
  assumes inc: "\<And>t. t < Next t"
  shows "\<exists>w'. plan_loop Next e p now end' next' w = Some w' \<and> spawns w w'"
proof (induction "nat (end' + 1 - next')" arbitrary: next' w rule: less_induct)
  case less
  show ?case
  proof (cases "next' > end'")
    case True
    then show ?thesis by (subst plan_loop.simps) simp
  next
    case False
    have IH: "\<exists>w'. plan_loop Next e p now end' (Next next') v = Some w' \<and> spawns v w'" for v
      using less.hyps[of "Next next'" v] False inc[of next'] by simp
    show ?thesis
    proof (cases "next' < now \<or> RunExists e (p_id p) next' ''cron'' w = Inr True")
      case True
      then show ?thesis using IH[of w] False by (subst plan_loop.simps) auto
    next
      case no: False
      show ?thesis
      proof (cases "RunExists e (p_id p) next' ''cron'' w")
        case (Inl err)
        then show ?thesis using no False by (subst plan_loop.simps) auto
      next
        case (Inr ex)
        obtain err w1 where c: "create_scheduled ''cron'' e p next' w = (err, w1)" by fastforce
        then have "spawns w w1" using spawns_create_scheduled[of w "''cron''" e p next'] by simp
        then show ?thesis
          using IH[of w1] spawns_trans no False Inr c by (subst plan_loop.simps) (cases err; auto)
      qed
    qed
  qed
qed

lemma plan_processes_total:
  assumes "\<And>p Next t. p \<in> set ps \<Longrightarrow> process_schedule lib p = Some Next \<Longrightarrow> t < Next t"
  shows "\<exists>w'. plan_processes lib e horizon ps w = Some w' \<and> spawns w w'"
  using assms
proof (induction ps arbitrary: w)
  case Nil
  then show ?case by simp
next
  case (Cons p ps)
  have "\<exists>w1. plan_process lib e horizon p w = Some w1 \<and> spawns w w1"
    using Cons.prems[of p] plan_loop_total
    by (cases "process_schedule lib p") (auto simp: plan_process_def Let_def)
  then obtain w1 where "plan_process lib e horizon p w = Some w1" "spawns w w1" by blast
  moreover have "\<exists>w'. plan_processes lib e horizon ps w1 = Some w' \<and> spawns w1 w'"
    using Cons.prems by (intro Cons.IH) auto
  ultimately show ?case using spawns_trans by auto
qed

lemma plan_processes_stuck:
  assumes "p \<in> set ps" "process_schedule lib p = Some (\<lambda>_. zero_time)"
    and "zero_time < e_now e" "0 \<le> horizon"
  shows "plan_processes lib e horizon ps w = None"
  using assms(1)
proof (induction ps arbitrary: w)
  case Nil
  then show ?case by simp
next
  case (Cons q ps)
  have "plan_process lib e horizon p v = None" for v
    using assms(2-4) plan_loop_stuck[of "e_now e" "e_now e + horizon"]
    by (simp add: plan_process_def Let_def)
  then show ?case using Cons by (auto split: option.split)
qed

end
