(* ===== verification/Recovery.thy ===== *)
theory Recovery
  imports Planner
begin

text \<open>
  Recovery at start-up, \<open>internal/recovery/recovery.go\<close>: running runs are declared hung, missed
  cron instants and broken fixed-delay chains get recovery runs. As in the planner, a loop that
  does not end is \<open>None\<close>.
\<close>

section \<open>Orphans\<close>

definition detectOrphans :: "env \<Rightarrow> world \<Rightarrow> go_error option \<times> world" where
  "detectOrphans e w =
     (case ListRunningRuns e w of
        Inl err \<Rightarrow> (Some err, w)
      | Inr runs \<Rightarrow>
          (None, fold (\<lambda>(r, p) w. snd (UpdateRunState e ((run_upd (r_id r) Hung)
             \<lparr>us_finished_at := Some (e_now e)\<rparr>) w)) runs w))"

section \<open>Missed cron runs\<close>

partial_function (option) recover_loop ::
  "(instant \<Rightarrow> instant) \<Rightarrow> env \<Rightarrow> process \<Rightarrow> instant \<Rightarrow> instant \<Rightarrow> int \<Rightarrow> world \<Rightarrow> world option" where
  "recover_loop Next e p now next' created w =
     (if \<not> (next' < now \<and> created < p_max_recovery_slots p) then Some w
      else (case RunExists e (p_id p) next' ''recovery'' w of
              Inl _ \<Rightarrow> Some w
            | Inr ex \<Rightarrow>
                if ex then recover_loop Next e p now (Next next') created w
                else (case create_scheduled ''recovery'' e p next' w of
                        (Some _, w) \<Rightarrow> Some w
                      | (None, w) \<Rightarrow> recover_loop Next e p now (Next next') (created + 1) w)))"

definition recover_cron_process :: "cron_lib \<Rightarrow> env \<Rightarrow> process \<Rightarrow> world \<Rightarrow> world option" where
  "recover_cron_process lib e p w =
     (if p_miss_policy p \<noteq> Some ''execute'' \<or> p_schedule p = None \<or> p_schedule p = Some [] then Some w
      else (case GetLastRunByProcess e (p_id p) w of
              Inl _ \<Rightarrow> Some w
            | Inr last_run \<Rightarrow>
                (case process_schedule lib p of
                   None \<Rightarrow> Some w
                 | Some Next \<Rightarrow>
                     recover_loop Next e p (e_now e) (Next (r_scheduled_at last_run)) 0 w)))"

fun recover_cron_list :: "cron_lib \<Rightarrow> env \<Rightarrow> process list \<Rightarrow> world \<Rightarrow> world option" where
  "recover_cron_list lib e [] w = Some w"
| "recover_cron_list lib e (p # ps) w =
     (case recover_cron_process lib e p w of
        None \<Rightarrow> None
      | Some w \<Rightarrow> recover_cron_list lib e ps w)"

definition recoverCronProcesses :: "cron_lib \<Rightarrow> env \<Rightarrow> world \<Rightarrow> (go_error option \<times> world) option" where
  "recoverCronProcesses lib e w =
     (case ListEnabledCronProcesses e w of
        Inl err \<Rightarrow> Some (Some err, w)
      | Inr ps \<Rightarrow> map_option (Pair None) (recover_cron_list lib e ps w))"

section \<open>Fixed-delay chains\<close>

definition recover_fixed_delay_process :: "env \<Rightarrow> process \<Rightarrow> world \<Rightarrow> world" where
  "recover_fixed_delay_process e p w =
     (case GetLastRunByProcess e (p_id p) w of
        Inl _ \<Rightarrow> snd (create_scheduled ''recovery'' e p (e_now e) w)
      | Inr last_run \<Rightarrow>
          if IsFinalTerminal (r_state last_run) \<or> r_state last_run = Hung
          then snd (create_scheduled ''recovery'' e p (e_now e) w)
          else w)"

definition recoverFixedDelayProcesses :: "env \<Rightarrow> world \<Rightarrow> go_error option \<times> world" where
  "recoverFixedDelayProcesses e w =
     (case ListEnabledFixedDelayProcesses e w of
        Inl err \<Rightarrow> (Some err, w)
      | Inr ps \<Rightarrow> (None, fold (recover_fixed_delay_process e) ps w))"

text \<open>\<open>recovery.Run\<close>\<close>

definition recovery_Run :: "cron_lib \<Rightarrow> env \<Rightarrow> world \<Rightarrow> (go_error option \<times> world) option" where
  "recovery_Run lib e w =
     (case detectOrphans e w of
        (Some err, w) \<Rightarrow> Some (Some err, w)
      | (None, w) \<Rightarrow>
          (case recoverCronProcesses lib e w of
             None \<Rightarrow> None
           | Some (Some err, w) \<Rightarrow> Some (Some err, w)
           | Some (None, w) \<Rightarrow> Some (recoverFixedDelayProcesses e w)))"

section \<open>Facts\<close>

text \<open>The loop creates at most as many runs as the process allows, all for past instants.\<close>

lemma recover_loop_total:
  assumes inc: "\<And>t. t < Next t" and "created \<le> p_max_recovery_slots p"
  shows "\<exists>w' new. recover_loop Next e p now next' created w = Some w' \<and> w_runs w' = w_runs w @ new \<and>
    int (length new) \<le> p_max_recovery_slots p - created \<and>
    (\<forall>r\<in>set new. fresh_run r \<and> r_scheduled_at r < now \<and> r_process_id r = p_id p \<and> r_origin r = ''recovery'')"
  using assms(2)
proof (induction "nat (now - next')" arbitrary: next' created w rule: less_induct)
  case less
  show ?case
  proof (cases "next' < now \<and> created < p_max_recovery_slots p")
    case False
    then show ?thesis using less.prems by (subst recover_loop.simps) simp
  next
    case True
    have dec: "nat (now - Next next') < nat (now - next')" using True inc[of next'] by simp
    consider (stop) err where "RunExists e (p_id p) next' ''recovery'' w = Inl err"
      | (ex) "RunExists e (p_id p) next' ''recovery'' w = Inr True"
      | (no) "RunExists e (p_id p) next' ''recovery'' w = Inr False"
      by (metis (full_types) sumE)
    then show ?thesis
    proof cases
      case stop
      then show ?thesis using True less.prems by (subst recover_loop.simps) simp
    next
      case ex
      then show ?thesis
        using True less.hyps[OF dec less.prems, of w] by (subst recover_loop.simps) simp
    next
      case no
      obtain err w1 where c: "create_scheduled ''recovery'' e p next' w = (err, w1)" by fastforce
      show ?thesis
      proof (cases err)
        case (Some x)
        have "spawns w w1" using spawns_create_scheduled[of w "''recovery''" e p next'] c by simp
        moreover have "w_runs w1 = w_runs w"
          using c Some by (auto simp: create_scheduled_def id_New_def CreateRun_def db_exec_def
              split: option.splits)
        ultimately show ?thesis
          using True no c Some less.prems by (subst recover_loop.simps) simp
      next
        case None
        have w1: "w_runs w1 = w_runs w @ [scheduled_run ''recovery'' e p next' w]"
          using c None by (auto simp: create_scheduled_def id_New_def CreateRun_def db_exec_def
              scheduled_run_def split: option.splits)
        have le: "created + 1 \<le> p_max_recovery_slots p" using True by simp
        obtain w' new where w': "recover_loop Next e p now (Next next') (created + 1) w1 = Some w'"
          "w_runs w' = w_runs w1 @ new" "int (length new) \<le> p_max_recovery_slots p - (created + 1)"
          "\<forall>r\<in>set new. fresh_run r \<and> r_scheduled_at r < now \<and> r_process_id r = p_id p \<and> r_origin r = ''recovery''"
          using less.hyps[OF dec le, of w1] by blast
        have "r_process_id (scheduled_run ''recovery'' e p next' w) = p_id p"
          "r_origin (scheduled_run ''recovery'' e p next' w) = ''recovery''"
          using scheduled_run_simps(1)[of "''recovery''" e p next' w] by (simp_all add: run_slot_def)
        then have "recover_loop Next e p now next' created w = Some w' \<and>
            w_runs w' = w_runs w @ (scheduled_run ''recovery'' e p next' w # new) \<and>
            int (length (scheduled_run ''recovery'' e p next' w # new)) \<le> p_max_recovery_slots p - created \<and>
            (\<forall>r\<in>set (scheduled_run ''recovery'' e p next' w # new). fresh_run r \<and> r_scheduled_at r < now \<and>
               r_process_id r = p_id p \<and> r_origin r = ''recovery'')"
          using True no c None w' w1 by (subst recover_loop.simps) simp
        then show ?thesis by blast
      qed
    qed
  qed
qed

end
