(* ===== verification/Monitor.thy ===== *)
theory Monitor
  imports Orchestrator
begin

text \<open>
  The monitor, \<open>internal/monitor/monitor.go\<close>: a running run that exceeds its execution timeout or
  is silent for longer than its heartbeat timeout is declared hung, killed and reported, as its
  process says. The kill callback is the executor's \<open>Kill\<close>, the alert one an event.
\<close>

record monitor =
  mo_killFn :: "(string \<Rightarrow> world \<Rightarrow> go_error option \<times> world) option"
  mo_alertFn :: "(run \<Rightarrow> string \<Rightarrow> world \<Rightarrow> world) option"

text \<open>A month counts as thirty days; the products wrap around in 64 bits.\<close>

definition intervalToDuration :: "interval option \<Rightarrow> duration" where
  "intervalToDuration iv =
     (case iv of
        None \<Rightarrow> 0
      | Some i \<Rightarrow>
          wrap64 (wrap64 (wrap64 (iv_microseconds i * 1000) + wrap64 (wrap64 (iv_days i * 24) * hour)) +
            wrap64 (wrap64 (wrap64 (iv_months i * 30) * 24) * hour)))"

text \<open>The reason a run counts as hung, if it does.\<close>

definition hung_reason :: "instant \<Rightarrow> run \<Rightarrow> process \<Rightarrow> string option" where
  "hung_reason now r p =
     (case r_started_at r of
        None \<Rightarrow> None
      | Some started \<Rightarrow>
          (let timeout = intervalToDuration (Some (p_execution_timeout p))
           in if timeout > 0 \<and> go_Sub now started > timeout then Some ''execution_timeout''
              else if p_heartbeat_timeout p \<noteq> None \<and> p_execution_method p \<noteq> ''http'' then
                (let hb = intervalToDuration (p_heartbeat_timeout p);
                     last_hb = (case r_last_heartbeat_at r of Some t \<Rightarrow> t | None \<Rightarrow> started)
                 in if hb > 0 \<and> go_Sub now last_hb > hb then Some ''heartbeat_timeout'' else None)
              else None))"

definition doKill :: "monitor \<Rightarrow> string \<Rightarrow> world \<Rightarrow> world" where
  "doKill m rid w = (case mo_killFn m of None \<Rightarrow> w | Some f \<Rightarrow> snd (f rid w))"

definition doAlert :: "monitor \<Rightarrow> run \<Rightarrow> string \<Rightarrow> world \<Rightarrow> world" where
  "doAlert m r reason w = (case mo_alertFn m of None \<Rightarrow> w | Some f \<Rightarrow> f r reason w)"

definition apply_timeout_action :: "monitor \<Rightarrow> run \<Rightarrow> process \<Rightarrow> string \<Rightarrow> world \<Rightarrow> world" where
  "apply_timeout_action m r p reason w =
     (let action = (if p_timeout_action p \<noteq> [] then p_timeout_action p else ''both'')
      in if action = ''kill'' then doKill m (r_id r) w
         else if action = ''alert'' then doAlert m r reason w
         else if action = ''both'' then doAlert m r reason (doKill m (r_id r) w)
         else w)"

definition check_run :: "monitor \<Rightarrow> env \<Rightarrow> run \<times> process \<Rightarrow> world \<Rightarrow> world" where
  "check_run m e rp w = (let (r, p) = rp in
     (case hung_reason (e_now e) r p of
        None \<Rightarrow> w
      | Some reason \<Rightarrow>
          (case UpdateRunState e ((run_upd (r_id r) Hung)\<lparr>us_finished_at := Some (e_now e)\<rparr>) w of
             (Some _, w) \<Rightarrow> w
           | (None, w) \<Rightarrow> apply_timeout_action m r p reason w)))"

definition monitor_check :: "monitor \<Rightarrow> env \<Rightarrow> world \<Rightarrow> world" where
  "monitor_check m e w =
     (case ListRunningRuns e w of
        Inl _ \<Rightarrow> w
      | Inr rows \<Rightarrow> fold (check_run m e) rows w)"

text \<open>The monitor that \<open>main.go\<close> builds: the executor's kill and a webhook event.\<close>

definition wired_monitor :: "orchestrator \<Rightarrow> env \<Rightarrow> monitor" where
  "wired_monitor o' e =
     \<lparr>mo_killFn = Some (orchestrator_Kill o' e),
      mo_alertFn = Some (\<lambda>r reason. emit (EvHung (r_id r) reason))\<rparr>"

lemma orchestrator_Kill_runs [frame_simps]: "w_runs (snd (orchestrator_Kill o' e rid w)) = w_runs w"
proof -
  have "w_runs (snd (kill_handle o' h w)) = w_runs w" for h
    by (simp add: kill_handle_def emit_def split: option.split)
  then show ?thesis by (simp add: orchestrator_Kill_def split: option.split sum.split)
qed

end
