(* ===== verification/Schedule_Properties.thy ===== *)
theory Schedule_Properties
  imports Recovery Monitor Samples
begin

text \<open>
  The properties of the planner, of recovery and of the monitor.
\<close>

section \<open>Planner\<close>

text \<open>
  C12: for a process whose schedule moves on, the planner creates, over the runs that exist, one
  pending run for each scheduled instant from now to the horizon that has none, and no other;
  planning again finds everything in place and changes nothing.
\<close>

theorem plan_covers_window:
  assumes "process_schedule lib p = Some Next" "\<forall>t. t < Next t" "no_plan_faults e"
    and "fresh_run_ids e w" "plannable w p"
  shows "\<exists>w'. plan_process lib e horizon p w = Some w' \<and>
    planned Next p (e_now e) (e_now e + horizon) (Next (e_now e - minute)) w w' \<and>
    plan_process lib e horizon p w' = Some w'"
proof -
  have inc: "\<And>t. t < Next t" using assms(2) by simp
  obtain w' where w': "plan_loop Next e p (e_now e) (e_now e + horizon) (Next (e_now e - minute)) w = Some w'"
    "planned Next p (e_now e) (e_now e + horizon) (Next (e_now e - minute)) w w'"
    using plan_loop_planned[OF inc assms(3-5)] by blast
  have "plan_loop Next e p (e_now e) (e_now e + horizon) (Next (e_now e - minute)) w' = Some w'"
    by (rule plan_loop_idle[OF inc assms(3)]) (use w'(2) in \<open>auto simp: planned_def\<close>)
  then show ?thesis using w' assms(1) by (auto simp: plan_process_def Let_def)
qed

text \<open>A schedule that fires every minute.\<close>

definition sample_lib :: "(instant \<Rightarrow> instant) \<Rightarrow> cron_lib" where
  "sample_lib Next = \<lparr>cl_LoadLocation = (\<lambda>_. True), cl_Parse = (\<lambda>_ _. Some Next)\<rparr>"

lemma sample_schedule: "process_schedule (sample_lib Next) (sample_process pid) = Some Next"
  by (simp add: process_schedule_def sample_lib_def sample_process_def)

lemma sample_plannable: "plannable (sample_world [sample_process pid] rs) (sample_process pid)"
  by (simp add: plannable_def has_key_def sample_world_def sample_process_def sample_workspace_def)

lemma sample_fresh_empty: "fresh_run_ids (calm t) (sample_world ps [])"
  using inj_calm_ulid[of t] by (simp add: fresh_run_ids_def has_key_def sample_world_def)

theorem plan_covers_window_witness:
  "\<exists>w'. plan_process (sample_lib (\<lambda>t. t + minute)) (calm 0) hour (sample_process ''prc_1'')
      (sample_world [sample_process ''prc_1''] []) = Some w' \<and>
    planned (\<lambda>t. t + minute) (sample_process ''prc_1'') 0 hour 0
      (sample_world [sample_process ''prc_1''] []) w'"
proof -
  have "\<forall>t::int. t < t + minute" "no_plan_faults (calm 0)" by (simp_all add: no_plan_faults_def)
  from plan_covers_window[OF sample_schedule this sample_fresh_empty sample_plannable, of hour]
  show ?thesis by auto
qed

text \<open>
  C13: a planning round ends, whatever the database answers, when the schedule of every process
  moves on, and it only adds pending runs.
\<close>

theorem plan_terminates:
  assumes "\<forall>p\<in>set (w_processes w). \<forall>Next. process_schedule lib p = Some Next \<longrightarrow> (\<forall>t. t < Next t)"
  shows "\<exists>w'. plan lib e horizon w = Some w' \<and> spawns w w'"
proof (cases "ListEnabledCronProcesses e w")
  case (Inl err)
  then show ?thesis by (simp add: plan_def)
next
  case (Inr ps)
  then have "set ps \<subseteq> set (w_processes w)"
    by (auto simp: ListEnabledCronProcesses_def db_read_def list_enabled_def split: option.splits)
  then have "t < Next t" if "p \<in> set ps" "process_schedule lib p = Some Next" for p Next t
    using assms that by blast
  then have "\<exists>w'. plan_processes lib e horizon ps w = Some w' \<and> spawns w w'"
    by (rule plan_processes_total)
  then show ?thesis using Inr by (simp add: plan_def)
qed

theorem plan_terminates_witness:
  "\<exists>w'. plan (sample_lib (\<lambda>t. t + minute)) (calm 0) hour (sample_world [sample_process ''prc_1''] []) = Some w'"
proof -
  have "\<forall>p\<in>set (w_processes (sample_world [sample_process ''prc_1''] [])). \<forall>Next.
      process_schedule (sample_lib (\<lambda>t. t + minute)) p = Some Next \<longrightarrow> (\<forall>t. t < Next t)"
    by (simp add: sample_world_def sample_schedule)
  from plan_terminates[OF this] show ?thesis by blast
qed

text \<open>
  One enabled process whose expression is never met (\<open>Next\<close> is the zero time) keeps the
  planner in its loop for ever: the round does not end, for no workspace.
\<close>

theorem plan_hangs:
  assumes "p \<in> set (w_processes w)" "p_enabled p" "p_schedule_type p = ''cron''"
    and "workspace_active w (p_workspace_id p)" "e_fault e ''ListEnabledCronProcesses'' = None"
    and "process_schedule lib p = Some (\<lambda>_. zero_time)" "zero_time < e_now e" "0 \<le> horizon"
  shows "plan lib e horizon w = None"
proof -
  have "ListEnabledCronProcesses e w = Inr (list_enabled ''cron'' w)" "p \<in> set (list_enabled ''cron'' w)"
    using assms(1-5) by (simp_all add: ListEnabledCronProcesses_def db_read_def list_enabled_def)
  then show ?thesis
    using plan_processes_stuck[OF _ assms(6-8)] by (simp add: plan_def)
qed

theorem plan_hangs_witness:
  "plan (sample_lib (\<lambda>_. zero_time)) (calm 0) hour (sample_world [sample_process ''prc_1''] []) = None"
  by (rule plan_hangs[of "sample_process ''prc_1''", OF _ _ _ _ _ sample_schedule])
    (simp_all add: sample_world_def sample_process_def workspace_active_def sample_workspace_def zero_time_def)

section \<open>Recovery\<close>

text \<open>
  C16: the recovery of a cron process ends when its schedule moves on; it only appends pending
  runs, at most as many as the process allows, each for an instant that has passed.
\<close>

theorem recovery_bounded:
  assumes "process_schedule lib p = Some Next" "\<forall>t. t < Next t" "0 \<le> p_max_recovery_slots p"
  shows "\<exists>w' new. recover_cron_process lib e p w = Some w' \<and> w_runs w' = w_runs w @ new \<and>
    int (length new) \<le> p_max_recovery_slots p \<and>
    (\<forall>r\<in>set new. fresh_run r \<and> r_scheduled_at r < e_now e \<and> r_process_id r = p_id p \<and> r_origin r = ''recovery'')"
proof (cases "p_miss_policy p \<noteq> Some ''execute'' \<or> p_schedule p = None \<or> p_schedule p = Some []")
  case True
  then show ?thesis using assms(3) by (auto simp: recover_cron_process_def)
next
  case False
  show ?thesis
  proof (cases "GetLastRunByProcess e (p_id p) w")
    case (Inl err)
    then show ?thesis using False assms(3) by (auto simp: recover_cron_process_def)
  next
    case (Inr last_run)
    then show ?thesis
      using False assms(1) recover_loop_total[of Next 0 p e "e_now e" "Next (r_scheduled_at last_run)" w] assms(2,3)
      by (simp add: recover_cron_process_def)
  qed
qed

theorem recovery_bounded_witness:
  "\<exists>w' new. recover_cron_process (sample_lib (\<lambda>t. t + minute)) (calm (60 * minute))
      ((sample_process ''prc_1'')\<lparr>p_miss_policy := Some ''execute''\<rparr>)
      (sample_world [sample_process ''prc_1''] [sample_run ''run_1'' Completed]) = Some w' \<and>
    w_runs w' = [sample_run ''run_1'' Completed] @ new \<and> length new \<le> 10"
  using recovery_bounded[of "sample_lib (\<lambda>t. t + minute)"
      "(sample_process ''prc_1'')\<lparr>p_miss_policy := Some ''execute''\<rparr>" "\<lambda>t. t + minute" "calm (60 * minute)"
      "sample_world [sample_process ''prc_1''] [sample_run ''run_1'' Completed]"]
  by (fastforce simp: process_schedule_def sample_lib_def sample_process_def sample_world_def)

text \<open>
  What recovery calls the last executed run is the run with the latest scheduled instant,
  executed or not: once the planner has created a future run of a process, no missed instant of
  it is recovered.
\<close>

theorem recovery_blind_to_missed_runs:
  assumes "process_schedule lib p = Some Next" "\<forall>t. t < Next t"
    and "r \<in> set (w_runs w)" "r_process_id r = p_id p" "e_now e \<le> r_scheduled_at r"
  shows "recover_cron_process lib e p w = Some w"
proof (cases "GetLastRunByProcess e (p_id p) w")
  case (Inl err)
  then show ?thesis by (simp add: recover_cron_process_def)
next
  case (Inr last_run)
  let ?s = "sort_key (\<lambda>r. - r_scheduled_at r) (filter (\<lambda>r. r_process_id r = p_id p) (w_runs w))"
  obtain rs where s: "?s = last_run # rs"
    using Inr by (auto simp: GetLastRunByProcess_def db_read_def split: option.splits list.splits)
  have "r \<in> set ?s" using assms(3,4) by simp
  moreover have "sorted (map (\<lambda>r. - r_scheduled_at r) ?s)" by simp
  ultimately have "r_scheduled_at r \<le> r_scheduled_at last_run"
    unfolding s by auto
  then have "\<not> Next (r_scheduled_at last_run) < e_now e"
    using assms(2,5) by (metis linorder_not_less order.strict_trans2 order_less_imp_le order_trans)
  then have "recover_loop Next e p (e_now e) (Next (r_scheduled_at last_run)) 0 w = Some w"
    by (subst recover_loop.simps) simp
  then show ?thesis using Inr assms(1) by (simp add: recover_cron_process_def)
qed

theorem recovery_blind_to_missed_runs_witness:
  "(let p = (sample_process ''prc_1'')\<lparr>p_miss_policy := Some ''execute''\<rparr>;
        w = sample_world [p] [sample_run ''run_1'' Completed,
              (sample_run ''run_2'' Pending)\<lparr>r_scheduled_at := 100 * minute\<rparr>]
    in recover_cron_process (sample_lib (\<lambda>t. t + minute)) (calm (60 * minute)) p w = Some w)"
  unfolding Let_def
  by (rule recovery_blind_to_missed_runs[where Next = "\<lambda>t. t + minute" and
        r = "(sample_run ''run_2'' Pending)\<lparr>r_scheduled_at := 100 * minute\<rparr>"])
    (simp_all add: process_schedule_def sample_lib_def sample_process_def sample_world_def
      sample_run_def new_run_def sample_params_def)

definition hang :: "env \<Rightarrow> run \<Rightarrow> run" where
  "hang e r = set_run_state (e_db_now e, (run_upd (r_id r) Hung)\<lparr>us_finished_at := Some (e_now e)\<rparr>) r"

lemma run_at_hang:
  "no_faults e \<Longrightarrow>
   run_at (snd (UpdateRunState e ((run_upd rid Hung)\<lparr>us_finished_at := Some (e_now e)\<rparr>) w)) k =
     (if k = rid then map_option (\<lambda>r. set_run_state (e_db_now e,
        (run_upd rid Hung)\<lparr>us_finished_at := Some (e_now e)\<rparr>) r) (run_at w k) else run_at w k)"
  by (simp add: UpdateRunState_ok run_at_on_run)

text \<open>
  After a restart no run of the table is left running: every running run is declared hung,
  also one with a durable handle of an asynchronous execution, which is then never polled again;
  all other runs keep their rows.
\<close>

theorem orphans_are_hung:
  assumes "no_faults e" "runs_ok w" "distinct (map p_id (w_processes w))"
    and "\<forall>r\<in>set (w_runs w). has_key p_id (r_process_id r) (w_processes w)" "run_at w k = Some r"
  shows "\<exists>r'. run_at (snd (detectOrphans e w)) k = Some r' \<and>
    (if r_state r = Running then r_state r' = Hung \<and> r_execution_handle r' = r_execution_handle r \<and>
       r_finished_at r' = Some (e_now e) else r' = r)"
proof -
  let ?rows = "join_runs (\<lambda>r. r_state r = Running) w"
  let ?f = "\<lambda>rp w. snd (UpdateRunState e ((run_upd (r_id (fst rp)) Hung)\<lparr>us_finished_at := Some (e_now e)\<rparr>) w)"
  let ?g = "\<lambda>rp :: run \<times> process. map_option (\<lambda>r. set_run_state (e_db_now e,
        (run_upd (r_id (fst rp)) Hung)\<lparr>us_finished_at := Some (e_now e)\<rparr>) r)"
  have orphans: "snd (detectOrphans e w) = fold ?f ?rows w"
    using assms(1) by (simp add: detectOrphans_def ListRunningRuns_def db_read_def case_prod_unfold)
  have dist: "distinct (map (\<lambda>rp. r_id (fst rp)) ?rows)"
    using join_runs_distinct assms(2,3) by (simp add: runs_ok_def)
  have r: "r \<in> set (w_runs w)" "r_id r = k"
    using assms(5) lookup_key_SomeD by (fastforce simp: run_at_def)+
  show ?thesis
  proof (cases "r_state r = Running")
    case True
    obtain p where "p \<in> set (w_processes w)" "p_id p = r_process_id r"
      using assms(4) r(1) by (auto simp: has_key_def)
    then have "(r, p) \<in> set ?rows" using r True by (simp add: join_runs_mem)
    then have "run_at (fold ?f ?rows w) (r_id (fst (r, p))) = ?g (r, p) (run_at w (r_id (fst (r, p))))"
      by (rule fold_rows_at(1)[rotated -1]) (use dist run_at_hang[OF assms(1)] in auto)
    then show ?thesis using orphans assms(5) r(2) True by (simp add: set_run_state_def)
  next
    case False
    have "k \<notin> (\<lambda>rp. r_id (fst rp)) ` set ?rows"
    proof
      assume "k \<in> (\<lambda>rp. r_id (fst rp)) ` set ?rows"
      then obtain r' p where r': "(r', p) \<in> set ?rows" "r_id r' = k" by auto
      then have "r' \<in> set (w_runs w)" "r_state r' = Running" by (simp_all add: join_runs_mem)
      then show False using run_at_mem[OF assms(2)] r'(2) assms(5) False by auto
    qed
    then have "run_at (fold ?f ?rows w) k = run_at w k"
      by (rule fold_rows_at(2)[rotated -1]) (use dist run_at_hang[OF assms(1)] in auto)
    then show ?thesis using orphans assms(5) False by simp
  qed
qed

theorem orphans_are_hung_witness:
  "\<exists>r'. run_at (snd (detectOrphans (calm 9) (sample_world [sample_process ''prc_1''] [sample_run ''run_1'' Running])))
      ''run_1'' = Some r' \<and> r_state r' = Hung"
  using orphans_are_hung[of "calm 9" "sample_world [sample_process ''prc_1''] [sample_run ''run_1'' Running]"
      "''run_1''" "sample_run ''run_1'' Running"]
  by (auto simp: runs_ok_def sample_world_def has_key_def sample_process_def sample_run_def new_run_def
      sample_params_def run_at_def)

section \<open>Monitor\<close>

text \<open>What the check of a row does to the run of the row; other runs it leaves.\<close>

definition hang_effect :: "env \<Rightarrow> run \<times> process \<Rightarrow> run option \<Rightarrow> run option" where
  "hang_effect e rp x =
     (if hung_reason (e_now e) (fst rp) (snd rp) = None then x
      else map_option (\<lambda>r. set_run_state (e_db_now e,
        (run_upd (r_id (fst rp)) Hung)\<lparr>us_finished_at := Some (e_now e)\<rparr>) r) x)"

lemma run_at_timeout_action:
  "run_at (apply_timeout_action (wired_monitor o' e') r p reason w) k = run_at w k"
  by (simp add: apply_timeout_action_def doKill_def doAlert_def wired_monitor_def run_at_def frame_simps Let_def)

lemma run_at_check_run:
  assumes "no_faults e"
  shows "run_at (check_run (wired_monitor o' e') e rp w) k =
    (if k = r_id (fst rp) then hang_effect e rp (run_at w k) else run_at w k)"
proof (cases rp)
  case (Pair r p)
  let ?a = "(run_upd (r_id r) Hung)\<lparr>us_finished_at := Some (e_now e)\<rparr>"
  have u: "UpdateRunState e ?a w = (None, on_run (r_id r) (set_run_state (e_db_now e, ?a)) w)"
    using assms by (simp add: UpdateRunState_ok)
  show ?thesis
  proof (cases "hung_reason (e_now e) r p")
    case None
    then show ?thesis using Pair by (simp add: check_run_def hang_effect_def)
  next
    case (Some reason)
    then have "check_run (wired_monitor o' e') e rp w = apply_timeout_action (wired_monitor o' e') r p reason
        (on_run (r_id r) (set_run_state (e_db_now e, ?a)) w)"
      using Pair by (simp add: check_run_def u)
    then show ?thesis using Pair Some by (simp add: run_at_timeout_action run_at_on_run hang_effect_def)
  qed
qed

lemma not_joined:
  assumes "runs_ok w" "run_at w k = Some r" "\<not> P r"
  shows "k \<notin> (\<lambda>rp. r_id (fst rp)) ` set (join_runs P w)"
proof
  assume "k \<in> (\<lambda>rp. r_id (fst rp)) ` set (join_runs P w)"
  then obtain r' p where r': "(r', p) \<in> set (join_runs P w)" "r_id r' = k" by auto
  then have "r' \<in> set (w_runs w)" "P r'" by (simp_all add: join_runs_mem)
  then show False using run_at_mem[OF assms(1)] r'(2) assms(2,3) by auto
qed



end
