(* ===== verification/Job_Queries.thy ===== *)
theory Job_Queries
  imports Run_Store
begin

text \<open>
  The queries on jobs, their attempts, queues and workers: \<open>internal/db/jobs.sql.go\<close>,
  \<open>job_attempts.sql.go\<close>, \<open>queues.sql.go\<close> and \<open>workers.sql.go\<close>. The rows of a join of jobs with
  queues are pairs.
\<close>

section \<open>Reading jobs\<close>

definition join_jobs :: "(job \<Rightarrow> bool) \<Rightarrow> world \<Rightarrow> (job \<times> queue) list" where
  "join_jobs P w =
     List.maps (\<lambda>j. map (Pair j) (filter (\<lambda>q. q_id q = j_queue_id j) (w_queues w)))
       (filter P (w_jobs w))"

text \<open>The three keys of \<open>ORDER BY\<close>, the last one sorted first.\<close>

definition claim_order :: "(job \<times> queue) list \<Rightarrow> (job \<times> queue) list" where
  "claim_order rows =
     sort_key (\<lambda>(j, q). - j_priority j)
       (sort_key (\<lambda>(j, q). j_scheduled_at j) (sort_key (\<lambda>(j, q). j_created_at j) rows))"

definition claimable :: "env \<Rightarrow> world \<Rightarrow> job \<Rightarrow> queue \<Rightarrow> bool" where
  "claimable e w j q \<longleftrightarrow>
     (j_state j = JobPending \<and> j_scheduled_at j \<le> e_db_now e \<or>
      j_state j = JobRetrying \<and> due (e_db_now e) (j_next_attempt_at j)) \<and>
     q_enabled q \<and> workspace_active w (j_workspace_id j) \<and> \<not> e_locked e (j_id j)"

definition ClaimPendingJobs :: "env \<Rightarrow> int \<Rightarrow> world \<Rightarrow> (job \<times> queue) list answer" where
  "ClaimPendingJobs e lmt w =
     db_read e ''ClaimPendingJobs'' (Inr (take (nat lmt) (claim_order
       (filter (\<lambda>(j, q). claimable e w j q) (join_jobs (\<lambda>_. True) w)))))"

definition GetJob :: "env \<Rightarrow> string \<Rightarrow> string \<Rightarrow> world \<Rightarrow> job answer" where
  "GetJob e jid ws w =
     db_read e ''GetJob''
       (one_row (List.find (\<lambda>j. j_id j = jid \<and> j_workspace_id j = ws) (w_jobs w)))"

definition GetJobWithQueue :: "env \<Rightarrow> string \<Rightarrow> string \<Rightarrow> world \<Rightarrow> (job \<times> queue) answer" where
  "GetJobWithQueue e jid ws w =
     db_read e ''GetJobWithQueue''
       (case join_jobs (\<lambda>j. j_id j = jid \<and> j_workspace_id j = ws) w of
          [] \<Rightarrow> Inl ErrNoRows
        | x # _ \<Rightarrow> Inr x)"

definition CheckIdempotencyKey :: "env \<Rightarrow> string \<Rightarrow> string option \<Rightarrow> world \<Rightarrow> string answer" where
  "CheckIdempotencyKey e ws key w =
     db_read e ''CheckIdempotencyKey''
       (case filter (\<lambda>j. j_workspace_id j = ws \<and> key \<noteq> None \<and> j_idempotency_key j = key) (w_jobs w) of
          [] \<Rightarrow> Inl ErrNoRows
        | j # _ \<Rightarrow> Inr (j_id j))"

definition CountJobs :: "env \<Rightarrow> string \<Rightarrow> string \<Rightarrow> string \<Rightarrow> string \<Rightarrow> world \<Rightarrow> int answer" where
  "CountJobs e ws qid st ref w =
     db_read e ''CountJobs'' (Inr (int (length (filter
       (\<lambda>j. j_workspace_id j = ws \<and> matches qid (j_queue_id j) \<and>
            matches st (job_state_name (j_state j)) \<and>
            (ref = [] \<or> j_reference j = Some ref)) (w_jobs w)))))"

definition CountRunningByQueue :: "env \<Rightarrow> string \<Rightarrow> world \<Rightarrow> int answer" where
  "CountRunningByQueue e qid w =
     db_read e ''CountRunningByQueue'' (Inr (int (length (filter
       (\<lambda>j. j_queue_id j = qid \<and> j_state j = JobRunning) (w_jobs w)))))"

definition GetJobExecutionHandle :: "env \<Rightarrow> string \<Rightarrow> world \<Rightarrow> (json \<times> int \<times> int) answer" where
  "GetJobExecutionHandle e jid w =
     db_read e ''GetJobExecutionHandle''
       (case lookup_key j_id jid (w_jobs w) of
          None \<Rightarrow> Inl ErrNoRows
        | Some j \<Rightarrow>
            (case j_execution_handle j of
               None \<Rightarrow> Inl ErrNoRows
             | Some h \<Rightarrow> Inr (h, j_stdout_offset j, j_stderr_offset j)))"

definition ListKillRequestedAsyncJobIDs :: "env \<Rightarrow> world \<Rightarrow> string list answer" where
  "ListKillRequestedAsyncJobIDs e w =
     db_read e ''ListKillRequestedAsyncJobIDs'' (Inr (map j_id (filter
       (\<lambda>j. j_state j = JobKillRequested \<and> j_execution_handle j \<noteq> None) (w_jobs w))))"

definition ListExpiredPendingJobs :: "env \<Rightarrow> int \<Rightarrow> world \<Rightarrow> job list answer" where
  "ListExpiredPendingJobs e lmt w =
     db_read e ''ListExpiredPendingJobs'' (Inr (take (nat lmt) (filter
       (\<lambda>j. j_state j = JobPending \<and> due (e_db_now e) (j_expires_at j) \<and> \<not> e_locked e (j_id j))
       (w_jobs w))))"

definition ListJobs ::
  "env \<Rightarrow> string \<Rightarrow> string \<Rightarrow> string \<Rightarrow> string \<Rightarrow> int \<Rightarrow> int \<Rightarrow> world \<Rightarrow> (job \<times> string) list answer" where
  "ListJobs e ws qid st ref lmt off w =
     db_read e ''ListJobs'' (Inr (map (\<lambda>(j, q). (j, q_name q))
       (take (nat lmt) (drop (nat off) (sort_key (\<lambda>(j, q). - j_created_at j)
         (join_jobs (\<lambda>j. j_workspace_id j = ws \<and> matches qid (j_queue_id j) \<and>
            matches st (job_state_name (j_state j)) \<and> (ref = [] \<or> j_reference j = Some ref)) w))))))"

record async_job_row =
  aj_id :: string
  aj_workspace_id :: string
  aj_queue_id :: string
  aj_attempt :: int
  aj_state :: job_state
  aj_attempt_id :: string
  aj_started_at :: "instant option"
  aj_execution_handle :: json
  aj_stdout_offset :: int
  aj_stderr_offset :: int
  aj_execution_method :: string
  aj_max_attempts :: int
  aj_retry_backoff :: string
  aj_max_response_size :: int

definition open_job_attempt :: "string \<Rightarrow> world \<Rightarrow> job_attempt option" where
  "open_job_attempt jid w =
     (case sort_key (\<lambda>a. - ja_attempt_number a)
        (filter (\<lambda>a. ja_job_id a = jid \<and> ja_finished_at a = None) (w_job_attempts w)) of
        [] \<Rightarrow> None
      | a # _ \<Rightarrow> Some a)"

definition async_job_row_of :: "world \<Rightarrow> job \<times> queue \<Rightarrow> async_job_row" where
  "async_job_row_of w jq = (let (j, q) = jq; a = open_job_attempt (j_id j) w in
     \<lparr>aj_id = j_id j, aj_workspace_id = j_workspace_id j, aj_queue_id = j_queue_id j,
      aj_attempt = j_attempt j, aj_state = j_state j,
      aj_attempt_id = (case a of None \<Rightarrow> [] | Some x \<Rightarrow> ja_id x),
      aj_started_at = map_option ja_started_at a,
      aj_execution_handle = the (j_execution_handle j),
      aj_stdout_offset = j_stdout_offset j, aj_stderr_offset = j_stderr_offset j,
      aj_execution_method = q_execution_method q,
      aj_max_attempts = (case j_max_attempts j of Some n \<Rightarrow> n | None \<Rightarrow> q_max_attempts q),
      aj_retry_backoff = (case j_retry_backoff j of Some s \<Rightarrow> s | None \<Rightarrow> q_retry_backoff q),
      aj_max_response_size = q_max_response_size q\<rparr>)"

definition ListActiveAsyncJobs :: "env \<Rightarrow> world \<Rightarrow> async_job_row list answer" where
  "ListActiveAsyncJobs e w =
     db_read e ''ListActiveAsyncJobs'' (Inr (map (async_job_row_of w)
       (join_jobs (\<lambda>j. j_state j \<in> {JobRunning, JobKillRequested} \<and> j_execution_handle j \<noteq> None) w)))"

section \<open>Writing jobs\<close>

record create_job_params =
  cj_id :: string
  cj_workspace_id :: string
  cj_queue_id :: string
  cj_payload :: "json option"
  cj_priority :: int
  cj_max_attempts :: "int option"
  cj_retry_backoff :: "string option"
  cj_scheduled_at :: "instant option"
  cj_expires_at :: "instant option"
  cj_reference :: "string option"
  cj_idempotency_key :: "string option"
  cj_runtime_override :: "string option"
  cj_worker_id_override :: "string option"
  cj_worker_labels_override :: "json option"
  cj_actor_type :: "string option"
  cj_actor_id :: "string option"
  cj_tags :: "string list"

definition create_job_violation :: "create_job_params \<Rightarrow> world \<Rightarrow> go_error option" where
  "create_job_violation a w = first_violation
     [(cj_payload a = None, not_null_violation ''payload''),
      (cj_scheduled_at a = None, not_null_violation ''scheduled_at''),
      (\<not> one_of [''direct'', ''worker''] (cj_runtime_override a), check_violation ''jobs_runtime_override_check''),
      (\<not> one_of actor_types (cj_actor_type a), check_violation ''jobs_actor_type_check''),
      (has_key j_id (cj_id a) (w_jobs w), unique_violation ''jobs_pkey''),
      (\<exists>j\<in>set (w_jobs w). cj_idempotency_key a \<noteq> None \<and> j_workspace_id j = cj_workspace_id a \<and>
         j_idempotency_key j = cj_idempotency_key a, unique_violation ''idx_jobs_idempotency''),
      (\<not> has_key wsp_id (cj_workspace_id a) (w_workspaces w), foreign_key_violation ''jobs_workspace_id_fkey''),
      (\<not> has_key q_id (cj_queue_id a) (w_queues w), foreign_key_violation ''jobs_queue_id_fkey''),
      (dangling wk_id (cj_worker_id_override a) (w_workers w),
       foreign_key_violation ''jobs_worker_id_override_fkey'')]"

definition new_job :: "env \<Rightarrow> create_job_params \<Rightarrow> job" where
  "new_job e a =
     \<lparr>j_id = cj_id a, j_workspace_id = cj_workspace_id a, j_queue_id = cj_queue_id a,
      j_runtime_override = cj_runtime_override a, j_worker_id_override = cj_worker_id_override a,
      j_worker_labels_override = cj_worker_labels_override a, j_payload = the (cj_payload a),
      j_priority = cj_priority a, j_max_attempts = cj_max_attempts a, j_attempt = 0,
      j_retry_backoff = cj_retry_backoff a, j_state = JobPending,
      j_scheduled_at = the (cj_scheduled_at a), j_expires_at = cj_expires_at a,
      j_next_attempt_at = None, j_reference = cj_reference a,
      j_idempotency_key = cj_idempotency_key a, j_replayed_from_job_id = None,
      j_cancel_reason = None, j_waiting_reason = None, j_actor_type = cj_actor_type a,
      j_actor_id = cj_actor_id a, j_effective_config = None, j_tags = cj_tags a,
      j_worker_id = None, j_duration_ms = None, j_created_at = e_db_now e,
      j_updated_at = e_db_now e, j_execution_handle = None, j_stdout_offset = 0, j_stderr_offset = 0\<rparr>"

definition CreateJob :: "env \<Rightarrow> create_job_params \<Rightarrow> world \<Rightarrow> job answer \<times> world" where
  "CreateJob e a w =
     (let (err, w') = db_exec e ''CreateJob'' (create_job_violation a w)
            (\<lambda>w. w\<lparr>w_jobs := w_jobs w @ [new_job e a]\<rparr>) w
      in (case err of Some x \<Rightarrow> Inl x | None \<Rightarrow> Inr (new_job e a), w'))"

text \<open>
  \<open>CreateReplayJob\<close> copies a job; the columns it does not name have their defaults, so the copy
  is scheduled now, without expiry, key or overrides.
\<close>

definition replay_job ::
  "env \<Rightarrow> string \<Rightarrow> string option \<Rightarrow> string option \<Rightarrow> json option \<Rightarrow> int option \<Rightarrow> job \<Rightarrow> job" where
  "replay_job e new_id actor_type actor payload priority j =
     \<lparr>j_id = new_id, j_workspace_id = j_workspace_id j, j_queue_id = j_queue_id j,
      j_runtime_override = None, j_worker_id_override = None, j_worker_labels_override = None,
      j_payload = (case payload of Some p \<Rightarrow> p | None \<Rightarrow> j_payload j),
      j_priority = (case priority of Some n \<Rightarrow> n | None \<Rightarrow> j_priority j),
      j_max_attempts = j_max_attempts j, j_attempt = 0, j_retry_backoff = j_retry_backoff j,
      j_state = JobPending, j_scheduled_at = e_db_now e, j_expires_at = None,
      j_next_attempt_at = None, j_reference = j_reference j, j_idempotency_key = None,
      j_replayed_from_job_id = Some (j_id j), j_cancel_reason = None, j_waiting_reason = None,
      j_actor_type = actor_type, j_actor_id = actor, j_effective_config = None, j_tags = j_tags j,
      j_worker_id = None, j_duration_ms = None, j_created_at = e_db_now e,
      j_updated_at = e_db_now e, j_execution_handle = None, j_stdout_offset = 0, j_stderr_offset = 0\<rparr>"

definition CreateReplayJob ::
  "env \<Rightarrow> string \<Rightarrow> string \<Rightarrow> string option \<Rightarrow> string option \<Rightarrow> json option \<Rightarrow> int option \<Rightarrow>
   world \<Rightarrow> job answer \<times> world" where
  "CreateReplayJob e source new_id actor_type actor payload priority w =
     (case lookup_key j_id source (w_jobs w) of
        None \<Rightarrow> (db_read e ''CreateReplayJob'' (Inl ErrNoRows), w)
      | Some j \<Rightarrow>
          (let row = replay_job e new_id actor_type actor payload priority j;
               (err, w') = db_exec e ''CreateReplayJob''
                 (first_violation
                   [(\<not> one_of actor_types actor_type, check_violation ''jobs_actor_type_check''),
                    (has_key j_id new_id (w_jobs w), unique_violation ''jobs_pkey'')])
                 (\<lambda>w. w\<lparr>w_jobs := w_jobs w @ [row]\<rparr>) w
           in (case err of Some x \<Rightarrow> Inl x | None \<Rightarrow> Inr row, w')))"

record update_job_state_params =
  uj_id :: string
  uj_state :: job_state
  uj_attempt :: "int option"
  uj_next_attempt_at :: "instant option"
  uj_cancel_reason :: "string option"
  uj_waiting_reason :: "string option"
  uj_worker_id :: "string option"
  uj_duration_ms :: "int option"

text \<open>\<open>UpdateJobStateParams{ID: id, State: state}\<close>, the other fields nil\<close>

definition job_upd :: "string \<Rightarrow> job_state \<Rightarrow> update_job_state_params" where
  "job_upd jid s =
     \<lparr>uj_id = jid, uj_state = s, uj_attempt = None, uj_next_attempt_at = None,
      uj_cancel_reason = None, uj_waiting_reason = None, uj_worker_id = None, uj_duration_ms = None\<rparr>"

text \<open>Only the attempt is kept when its parameter is nil; the other columns are overwritten.\<close>

definition set_job_state :: "instant \<times> update_job_state_params \<Rightarrow> job \<Rightarrow> job" where
  "set_job_state na j = (let (now, a) = na in
     j\<lparr>j_state := uj_state a,
       j_attempt := (case uj_attempt a of Some n \<Rightarrow> n | None \<Rightarrow> j_attempt j),
       j_next_attempt_at := uj_next_attempt_at a,
       j_cancel_reason := uj_cancel_reason a,
       j_waiting_reason := uj_waiting_reason a,
       j_worker_id := uj_worker_id a,
       j_duration_ms := uj_duration_ms a,
       j_updated_at := now\<rparr>)"

definition on_job :: "string \<Rightarrow> (job \<Rightarrow> job) \<Rightarrow> world \<Rightarrow> world" where
  "on_job jid f w = w\<lparr>w_jobs := update_key j_id jid f (w_jobs w)\<rparr>"

definition UpdateJobState ::
  "env \<Rightarrow> update_job_state_params \<Rightarrow> world \<Rightarrow> go_error option \<times> world" where
  "UpdateJobState e a w =
     db_exec e ''UpdateJobState''
       (if has_key j_id (uj_id a) (w_jobs w) \<and> dangling wk_id (uj_worker_id a) (w_workers w)
        then Some (foreign_key_violation ''jobs_worker_id_fkey'') else None)
       (on_job (uj_id a) (set_job_state (e_db_now e, a))) w"

definition db_CancelJob :: "env \<Rightarrow> string \<Rightarrow> string option \<Rightarrow> world \<Rightarrow> go_error option \<times> world" where
  "db_CancelJob e jid reason w =
     db_exec e ''CancelJob'' None (on_job jid (\<lambda>j. j\<lparr>j_state := JobCancelled,
       j_cancel_reason := reason, j_updated_at := e_db_now e\<rparr>)) w"

definition SaveJobExecutionHandle :: "env \<Rightarrow> string \<Rightarrow> json \<Rightarrow> world \<Rightarrow> go_error option \<times> world" where
  "SaveJobExecutionHandle e jid h w =
     db_exec e ''SaveJobExecutionHandle'' None (on_job jid (\<lambda>j. j\<lparr>j_execution_handle := Some h,
       j_stdout_offset := 0, j_stderr_offset := 0, j_updated_at := e_db_now e\<rparr>)) w"

definition ClearJobExecutionHandle :: "env \<Rightarrow> string \<Rightarrow> world \<Rightarrow> go_error option \<times> world" where
  "ClearJobExecutionHandle e jid w =
     db_exec e ''ClearJobExecutionHandle'' None (on_job jid (\<lambda>j. j\<lparr>j_execution_handle := None,
       j_stdout_offset := 0, j_stderr_offset := 0, j_updated_at := e_db_now e\<rparr>)) w"

definition UpdateJobOffsets :: "env \<Rightarrow> string \<Rightarrow> int \<Rightarrow> int \<Rightarrow> world \<Rightarrow> go_error option \<times> world" where
  "UpdateJobOffsets e jid so se w =
     db_exec e ''UpdateJobOffsets'' None (on_job jid (\<lambda>j. j\<lparr>j_stdout_offset := so,
       j_stderr_offset := se, j_updated_at := e_db_now e\<rparr>)) w"

definition SnapshotJobConfig :: "env \<Rightarrow> string \<Rightarrow> json \<Rightarrow> world \<Rightarrow> go_error option \<times> world" where
  "SnapshotJobConfig e jid cfg w =
     db_exec e ''SnapshotJobConfig'' None (on_job jid (\<lambda>j. j\<lparr>j_effective_config := Some cfg,
       j_updated_at := e_db_now e\<rparr>)) w"

section \<open>Job attempts\<close>

definition new_job_attempt ::
  "env \<Rightarrow> string \<Rightarrow> string \<Rightarrow> int \<Rightarrow> instant \<Rightarrow> json \<Rightarrow> string option \<Rightarrow> job_attempt" where
  "new_job_attempt e xid jid n started request wk =
     \<lparr>ja_id = xid, ja_job_id = jid, ja_attempt_number = n, ja_started_at = started,
      ja_finished_at = None, ja_duration_ms = None, ja_request = request, ja_response_code = None,
      ja_response_headers = None, ja_response_body = None, ja_truncated = False,
      ja_original_size = None, ja_error_message = None, ja_worker_id = wk,
      ja_created_at = e_db_now e\<rparr>"

definition CreateJobAttempt ::
  "env \<Rightarrow> string \<Rightarrow> string \<Rightarrow> int \<Rightarrow> instant \<Rightarrow> json \<Rightarrow> string option \<Rightarrow> world \<Rightarrow>
   go_error option \<times> world" where
  "CreateJobAttempt e xid jid n started request wk w =
     db_exec e ''CreateJobAttempt''
       (first_violation
         [(has_key ja_id xid (w_job_attempts w), unique_violation ''job_attempts_pkey''),
          (\<not> has_key j_id jid (w_jobs w), foreign_key_violation ''job_attempts_job_id_fkey''),
          (dangling wk_id wk (w_workers w), foreign_key_violation ''job_attempts_worker_id_fkey'')])
       (\<lambda>w. w\<lparr>w_job_attempts := w_job_attempts w @ [new_job_attempt e xid jid n started request wk]\<rparr>) w"

record finish_job_attempt_params =
  fj_id :: string
  fj_finished_at :: "instant option"
  fj_duration_ms :: "int option"
  fj_response_code :: "int option"
  fj_truncated :: bool
  fj_response_headers :: "json option"
  fj_response_body :: "string option"
  fj_original_size :: "int option"
  fj_error_message :: "string option"

definition FinishJobAttempt ::
  "env \<Rightarrow> finish_job_attempt_params \<Rightarrow> world \<Rightarrow> go_error option \<times> world" where
  "FinishJobAttempt e a w =
     db_exec e ''FinishJobAttempt'' None
       (\<lambda>w. w\<lparr>w_job_attempts := update_key ja_id (fj_id a) (\<lambda>x. x\<lparr>ja_finished_at := fj_finished_at a,
          ja_duration_ms := fj_duration_ms a, ja_response_code := fj_response_code a,
          ja_response_headers := fj_response_headers a, ja_response_body := fj_response_body a,
          ja_truncated := fj_truncated a, ja_original_size := fj_original_size a,
          ja_error_message := fj_error_message a\<rparr>) (w_job_attempts w)\<rparr>) w"

definition AppendJobAttemptResponseChunk ::
  "env \<Rightarrow> string \<Rightarrow> string option \<Rightarrow> world \<Rightarrow> go_error option \<times> world" where
  "AppendJobAttemptResponseChunk e xid chunk w =
     db_exec e ''AppendJobAttemptResponseChunk'' None
       (\<lambda>w. w\<lparr>w_job_attempts := update_key ja_id xid (\<lambda>a. a\<lparr>ja_response_body :=
          (case chunk of None \<Rightarrow> None
           | Some c \<Rightarrow> Some ((case ja_response_body a of Some b \<Rightarrow> b | None \<Rightarrow> []) @ c))\<rparr>)
          (w_job_attempts w)\<rparr>) w"

definition ListJobAttemptsByJob :: "env \<Rightarrow> string \<Rightarrow> world \<Rightarrow> job_attempt list answer" where
  "ListJobAttemptsByJob e jid w =
     db_read e ''ListJobAttemptsByJob''
       (Inr (sort_key ja_attempt_number (filter (\<lambda>a. ja_job_id a = jid) (w_job_attempts w))))"

section \<open>Queues\<close>

definition GetQueue :: "env \<Rightarrow> string \<Rightarrow> string \<Rightarrow> world \<Rightarrow> queue answer" where
  "GetQueue e qid ws w =
     db_read e ''GetQueue''
       (one_row (List.find (\<lambda>q. q_id q = qid \<and> q_workspace_id q = ws) (w_queues w)))"

definition CountQueues :: "env \<Rightarrow> string \<Rightarrow> world \<Rightarrow> int answer" where
  "CountQueues e ws w =
     db_read e ''CountQueues''
       (Inr (int (length (filter (\<lambda>q. q_workspace_id q = ws) (w_queues w)))))"

definition SetQueueEnabled :: "env \<Rightarrow> string \<Rightarrow> string \<Rightarrow> bool \<Rightarrow> world \<Rightarrow> go_error option \<times> world" where
  "SetQueueEnabled e qid ws enabled w =
     db_exec e ''SetQueueEnabled'' None
       (\<lambda>w. w\<lparr>w_queues := update_where (\<lambda>q. q_id q = qid \<and> q_workspace_id q = ws)
          (\<lambda>q. q\<lparr>q_enabled := enabled, q_updated_at := e_db_now e\<rparr>) (w_queues w)\<rparr>) w"

section \<open>The row of a job\<close>

definition job_at :: "world \<Rightarrow> string \<Rightarrow> job option" where
  "job_at w k = lookup_key j_id k (w_jobs w)"

definition job_state_at :: "world \<Rightarrow> string \<Rightarrow> job_state option" where
  "job_state_at w k = map_option j_state (job_at w k)"

lemma j_id_set_job_state [simp]: "j_id (set_job_state na j) = j_id j"
  by (simp add: set_job_state_def Let_def split: prod.split)

lemma j_state_set_job_state [simp]: "j_state (set_job_state (now, a) j) = uj_state a"
  by (simp add: set_job_state_def)

interpretation job_state_update: row_update j_id set_job_state
  by unfold_locales simp

lemma job_at_on_job:
  "(\<And>j. j_id (f j) = j_id j) \<Longrightarrow>
   job_at (on_job jid f w) k = (if k = jid then map_option f (job_at w k) else job_at w k)"
  unfolding job_at_def on_job_def update_key_def
  by (cases "lookup_key j_id k (w_jobs w)")
    (auto simp: lookup_key_update_where dest: lookup_key_SomeD)

lemma job_at_UpdateJobState:
  "job_at (snd (UpdateJobState e a w)) k =
     (if fst (UpdateJobState e a w) = None \<and> k = uj_id a
      then map_option (set_job_state (e_db_now e, a)) (job_at w k) else job_at w k)"
  by (auto simp: UpdateJobState_def db_exec_def job_at_on_job split: option.split)

lemma UpdateJobState_ok:
  "e_fault e ''UpdateJobState'' = None \<Longrightarrow> uj_worker_id a = None \<Longrightarrow>
   UpdateJobState e a w = (None, on_job (uj_id a) (set_job_state (e_db_now e, a)) w)"
  by (simp add: UpdateJobState_def db_exec_def dangling_def)

lemma job_upd_simps [simp]:
  "uj_id (job_upd jid s) = jid" "uj_state (job_upd jid s) = s" "uj_attempt (job_upd jid s) = None"
  "uj_next_attempt_at (job_upd jid s) = None" "uj_worker_id (job_upd jid s) = None"
  "uj_duration_ms (job_upd jid s) = None" "uj_waiting_reason (job_upd jid s) = None"
  "uj_cancel_reason (job_upd jid s) = None"
  by (simp_all add: job_upd_def)

lemma job_frames [frame_simps]:
  "w_jobs (emit ev w) = w_jobs w" "w_jobs (snd (id_New e prefix w)) = w_jobs w"
  "w_jobs (snd (FinishJobAttempt e fa w)) = w_jobs w"
  "w_jobs (snd (CreateJobAttempt e xid jid n t req wk w)) = w_jobs w"
  "w_jobs (snd (AppendJobAttemptResponseChunk e xid c w)) = w_jobs w"
  by (simp_all add: emit_def id_New_def FinishJobAttempt_def CreateJobAttempt_def
      AppendJobAttemptResponseChunk_def db_exec_def split: option.split)

end
