(* ===== verification/Queue_Processor.thy ===== *)
theory Queue_Processor
  imports Backoff Job_Queries
begin

text \<open>
  The queue processor, \<open>internal/queue/processor.go\<close>, \<open>async_jobs.go\<close> and \<open>job_config.go\<close>: it
  claims due jobs, dispatches them within the concurrency of their queue, polls asynchronous
  jobs, classifies results and cancels expired jobs. As for runs, a dispatch is cut at \<open>Start\<close>.
\<close>

record processor =
  qp_registry :: registry
  qp_workerDispatch :: "(env \<Rightarrow> job \<Rightarrow> queue \<Rightarrow> world \<Rightarrow> go_error option \<times> world) option"
  qp_logBackend :: bool

text \<open>The method config of the queue with the payload of the job; a null payload adds nothing.\<close>

definition BuildJobMethodConfig :: "json \<Rightarrow> json \<Rightarrow> go_map" where
  "BuildJobMethodConfig cfg payload =
     (let m = (case unmarshal_map cfg of Some (Some m) \<Rightarrow> m | _ \<Rightarrow> [])
      in if payload = JNull then m else map_put ''payload'' payload m)"

definition getRetryBackoffString :: "job \<Rightarrow> queue \<Rightarrow> string" where
  "getRetryBackoffString j q =
     (case j_retry_backoff j of Some s \<Rightarrow> s | None \<Rightarrow> q_retry_backoff q)"

definition getBackoffList :: "job \<Rightarrow> queue \<Rightarrow> duration list" where
  "getBackoffList j q = getBackoffListFromString (getRetryBackoffString j q)"

text \<open>\<open>tick\<close>: the jobs a goroutine is started for.\<close>

definition processor_tick :: "env \<Rightarrow> world \<Rightarrow> (job \<times> queue) list" where
  "processor_tick e w =
     (case e_fault e ''BeginTx'' of
        Some _ \<Rightarrow> []
      | None \<Rightarrow>
          (case ClaimPendingJobs e 10 w of
             Inl _ \<Rightarrow> []
           | Inr jobs \<Rightarrow> (case e_fault e ''Commit'' of Some _ \<Rightarrow> [] | None \<Rightarrow> jobs)))"

definition failJob :: "env \<Rightarrow> string \<Rightarrow> int \<Rightarrow> world \<Rightarrow> world" where
  "failJob e jid ms w =
     snd (UpdateJobState e ((job_upd jid JobFailed)\<lparr>uj_duration_ms := Some ms\<rparr>) w)"

section \<open>Results\<close>

text \<open>The body that is stored: cut at the maximum of the queue, when that is positive.\<close>

definition truncate_body :: "int \<Rightarrow> string \<Rightarrow> string \<times> bool" where
  "truncate_body max_size body =
     (if max_size > 0 \<and> int (length body) > max_size then (take (nat max_size) body, True)
      else (body, False))"

definition record_job_result ::
  "processor \<Rightarrow> env \<Rightarrow> string \<Rightarrow> string \<Rightarrow> int \<Rightarrow> instant \<Rightarrow> int \<Rightarrow> result \<Rightarrow> world \<Rightarrow> world" where
  "record_job_result qp e jid attempt_id attempt started max_size r w =
     (let finished = e_now e;
          ms = milliseconds (go_Sub finished started);
          rc = map_option wrap32 (res_response_code r);
          err = map_option Error (res_error r);
          (body, truncated) = truncate_body max_size (res_response_body r);
          w = (if attempt_id \<noteq> []
               then snd (FinishJobAttempt e
                 \<lparr>fj_id = attempt_id, fj_finished_at = Some finished, fj_duration_ms = Some ms,
                  fj_response_code = rc, fj_truncated = truncated, fj_response_headers = None,
                  fj_response_body = Some body, fj_original_size = None, fj_error_message = err\<rparr> w)
               else w);
          w = (if qp_logBackend qp
               then emit (EvJobAttempt jid
                 \<lparr>jl_attempt_number = attempt, jl_started_at = started, jl_finished_at = Some finished,
                  jl_duration_ms = ms, jl_response_code = rc, jl_response_body = body,
                  jl_error_message = (case err of Some m \<Rightarrow> m | None \<Rightarrow> [])\<rparr>) w
               else w)
      in snd (ClearJobExecutionHandle e jid w))"

definition finalizeJobResult ::
  "processor \<Rightarrow> env \<Rightarrow> string \<Rightarrow> string \<Rightarrow> int \<Rightarrow> job_state \<Rightarrow> instant \<Rightarrow> int \<Rightarrow> string \<Rightarrow> int \<Rightarrow>
   result \<Rightarrow> bool \<Rightarrow> world \<Rightarrow> world" where
  "finalizeJobResult qp e jid attempt_id attempt current started max_attempts retry_backoff max_size r killed w =
     (let finished = e_now e;
          ms = milliseconds (go_Sub finished started);
          w = record_job_result qp e jid attempt_id attempt started max_size r w
      in if killed \<and> current = JobKillRequested then
           snd (UpdateJobState e ((job_upd jid JobKilled)\<lparr>uj_duration_ms := Some ms\<rparr>) w)
         else if IsSuccess r then
           snd (UpdateJobState e ((job_upd jid JobCompleted)\<lparr>uj_duration_ms := Some ms\<rparr>) w)
         else if attempt < max_attempts then
           (case queue_calculateBackoff finished attempt (getBackoffListFromString retry_backoff) of
              None \<Rightarrow> w\<lparr>w_panicked := True\<rparr>
            | Some next_at \<Rightarrow>
                snd (UpdateJobState e ((job_upd jid JobRetrying)
                  \<lparr>uj_attempt := Some attempt, uj_next_attempt_at := Some next_at\<rparr>) w))
         else failJob e jid ms w)"

section \<open>Dispatching\<close>

record job_call =
  jc_job :: job
  jc_queue :: queue
  jc_method :: method_impl
  jc_params :: start_params
  jc_attempt_id :: string
  jc_attempt :: int
  jc_start :: instant

definition job_start_params :: "job \<Rightarrow> queue \<Rightarrow> start_params" where
  "job_start_params j q =
     \<lparr>sp_run_id = j_id j, sp_workspace_id = j_workspace_id j,
      sp_method_config = Some (BuildJobMethodConfig (q_method_config q) (j_payload j)),
      sp_environment = None, sp_api_base_url = [], sp_timeout = 0\<rparr>"

definition job_snapshot :: "job \<Rightarrow> queue \<Rightarrow> json" where
  "job_snapshot j q =
     JObj [(''method_config'', JObj (BuildJobMethodConfig (q_method_config q) (j_payload j))),
           (''execution_method'', JStr (q_execution_method q))]"

definition begin_job ::
  "env \<Rightarrow> job \<Rightarrow> queue \<Rightarrow> method_impl \<Rightarrow> world \<Rightarrow> job_call option \<times> world" where
  "begin_job e j q m w =
     (let attempt = wrap32 (j_attempt j + 1)
      in case UpdateJobState e ((job_upd (j_id j) JobRunning)\<lparr>uj_attempt := Some attempt\<rparr>) w of
           (Some _, w) \<Rightarrow> (None, w)
         | (None, w) \<Rightarrow>
             (let w = (if attempt = 1 then snd (SnapshotJobConfig e (j_id j) (job_snapshot j q) w) else w);
                  (attempt_id, w) = id_New e ''jat_'' w;
                  w = snd (CreateJobAttempt e attempt_id (j_id j) attempt (e_now e)
                        (JObj (BuildJobMethodConfig (q_method_config q) (j_payload j))) None w);
                  w = emit (EvStart (q_execution_method q) (job_start_params j q)) w
              in (Some \<lparr>jc_job = j, jc_queue = q, jc_method = m, jc_params = job_start_params j q,
                     jc_attempt_id = attempt_id, jc_attempt = attempt, jc_start = e_now e\<rparr>, w)))"

text \<open>The runtime of a job: its own, or that of its queue.\<close>

definition job_runtime :: "job \<Rightarrow> queue \<Rightarrow> string" where
  "job_runtime j q =
     (case j_runtime_override j of
        Some rt \<Rightarrow> if rt \<noteq> [] then rt else q_runtime q
      | None \<Rightarrow> q_runtime q)"

definition job_dispatch_begin ::
  "processor \<Rightarrow> env \<Rightarrow> job \<times> queue \<Rightarrow> world \<Rightarrow> job_call option \<times> world" where
  "job_dispatch_begin qp e jq w = (let (j, q) = jq in
     (case (if job_runtime j q = ''worker'' then qp_workerDispatch qp else None) of
        Some f \<Rightarrow>
          (None, case f e j q w of
             (Some err, w) \<Rightarrow> snd (UpdateJobState e ((job_upd (j_id j) JobWaitingForWorker)
                \<lparr>uj_waiting_reason := Some (''Worker dispatch failed: '' @ Error err)\<rparr>) w)
           | (None, w) \<Rightarrow> w)
      | None \<Rightarrow>
          (case CountRunningByQueue e (j_queue_id j) w of
             Inl _ \<Rightarrow> (None, w)
           | Inr running \<Rightarrow>
               if running \<ge> q_concurrency q then (None, w)
               else (case registry_Get (qp_registry qp) (q_execution_method q) of
                       None \<Rightarrow> (None, failJob e (j_id j) 0 w)
                     | Some m \<Rightarrow> begin_job e j q m w))))"

definition saveJobExecutionHandle :: "env \<Rightarrow> string \<Rightarrow> handle \<Rightarrow> world \<Rightarrow> go_error option \<times> world" where
  "saveJobExecutionHandle e jid h w = SaveJobExecutionHandle e jid (marshal_handle h) w"

text \<open>\<open>Start\<close> has returned; its error is not looked at.\<close>

definition job_dispatch_finish ::
  "processor \<Rightarrow> env \<Rightarrow> job_call \<Rightarrow> start_result \<times> go_error option \<Rightarrow> world \<Rightarrow> world" where
  "job_dispatch_finish qp e c answer w =
     (let j = jc_job c; q = jc_queue c; sr = fst answer
      in case sr_result sr of
           None \<Rightarrow>
             (let h = (if h_method_name (sr_handle sr) = []
                       then \<lparr>h_method_name = q_execution_method q, h_run_id = j_id j, h_data = Some []\<rparr>
                       else sr_handle sr)
              in case saveJobExecutionHandle e (j_id j) h w of
                   (Some _, w) \<Rightarrow> failJob e (j_id j) 0 w
                 | (None, w) \<Rightarrow> w)
         | Some r \<Rightarrow>
             finalizeJobResult qp e (j_id j) (jc_attempt_id c) (jc_attempt c) (j_state j) (jc_start c)
               (case j_max_attempts j of Some n \<Rightarrow> n | None \<Rightarrow> q_max_attempts q)
               (getRetryBackoffString j q) (q_max_response_size q) r False w)"

definition job_dispatch :: "processor \<Rightarrow> env \<Rightarrow> env \<Rightarrow> job \<times> queue \<Rightarrow> world \<Rightarrow> world" where
  "job_dispatch qp e e' jq w =
     (case job_dispatch_begin qp e jq w of
        (None, w) \<Rightarrow> w
      | (Some c, w) \<Rightarrow> job_dispatch_finish qp e' c (m_Start (jc_method c) (jc_params c)) w)"

section \<open>Asynchronous jobs\<close>

definition loadPersistedJobHandle :: "env \<Rightarrow> string \<Rightarrow> world \<Rightarrow> handle option answer" where
  "loadPersistedJobHandle e jid w =
     (case GetJobExecutionHandle e jid w of
        Inl err \<Rightarrow> if err = ErrNoRows then Inr None else Inl err
      | Inr (j, _) \<Rightarrow>
          (case unmarshal_handle j of
             None \<Rightarrow> Inl (ErrText ''unmarshal job handle: cannot unmarshal'')
           | Some h \<Rightarrow> Inr (Some h)))"

definition kill_job :: "processor \<Rightarrow> env \<Rightarrow> string \<Rightarrow> world \<Rightarrow> world" where
  "kill_job qp e jid w =
     (case loadPersistedJobHandle e jid w of
        Inr (Some h) \<Rightarrow>
          (case registry_Get (qp_registry qp) (h_method_name h) of
             None \<Rightarrow> w
           | Some m \<Rightarrow> emit (EvKill h) w)
      | _ \<Rightarrow> w)"

definition job_processKillRequests :: "processor \<Rightarrow> env \<Rightarrow> world \<Rightarrow> world" where
  "job_processKillRequests qp e w =
     (case ListKillRequestedAsyncJobIDs e w of
        Inl _ \<Rightarrow> w
      | Inr ids \<Rightarrow> fold (kill_job qp e) ids w)"

text \<open>\<open>asyncJobPollRow\<close>: a row whose open attempt has a start.\<close>

record async_job_poll_row =
  pj_id :: string
  pj_workspace_id :: string
  pj_queue_id :: string
  pj_attempt :: int
  pj_state :: job_state
  pj_attempt_id :: string
  pj_attempt_started_at :: instant
  pj_execution_handle :: json
  pj_stdout_offset :: int
  pj_stderr_offset :: int
  pj_execution_method :: string
  pj_max_attempts :: int
  pj_retry_backoff :: string
  pj_max_response_size :: int

fun job_poll_rows :: "async_job_row list \<Rightarrow> async_job_poll_row list" where
  "job_poll_rows [] = []"
| "job_poll_rows (x # xs) =
     (case aj_started_at x of
        None \<Rightarrow> job_poll_rows xs
      | Some t \<Rightarrow>
          \<lparr>pj_id = aj_id x, pj_workspace_id = aj_workspace_id x, pj_queue_id = aj_queue_id x,
           pj_attempt = aj_attempt x, pj_state = aj_state x, pj_attempt_id = aj_attempt_id x,
           pj_attempt_started_at = t, pj_execution_handle = aj_execution_handle x,
           pj_stdout_offset = aj_stdout_offset x, pj_stderr_offset = aj_stderr_offset x,
           pj_execution_method = aj_execution_method x, pj_max_attempts = aj_max_attempts x,
           pj_retry_backoff = aj_retry_backoff x,
           pj_max_response_size = aj_max_response_size x\<rparr> # job_poll_rows xs)"

definition listAsyncJobs :: "env \<Rightarrow> world \<Rightarrow> async_job_poll_row list answer" where
  "listAsyncJobs e w =
     (case ListActiveAsyncJobs e w of Inl err \<Rightarrow> Inl err | Inr rows \<Rightarrow> Inr (job_poll_rows rows))"

definition appendJobAttemptResponseChunk :: "env \<Rightarrow> string \<Rightarrow> string \<Rightarrow> world \<Rightarrow> world" where
  "appendJobAttemptResponseChunk e attempt_id chunk w =
     (if attempt_id = [] \<or> chunk = [] then w
      else snd (AppendJobAttemptResponseChunk e attempt_id (Some chunk) w))"

definition job_next_offset :: "int \<Rightarrow> int \<Rightarrow> string \<Rightarrow> int" where
  "job_next_offset cursor old chunk =
     (if cursor = 0 \<and> chunk \<noteq> [] then wrap64 (old + int (length chunk)) else cursor)"

definition store_job_poll :: "env \<Rightarrow> async_job_poll_row \<Rightarrow> poll_result \<Rightarrow> world \<Rightarrow> world" where
  "store_job_poll e row poll w =
     (let so = job_next_offset (pc_stdout_offset (pr_cursor poll)) (pj_stdout_offset row) (pr_stdout_chunk poll);
          se = job_next_offset (pc_stderr_offset (pr_cursor poll)) (pj_stderr_offset row) (pr_stderr_chunk poll);
          w = (if so \<noteq> pj_stdout_offset row \<or> se \<noteq> pj_stderr_offset row
               then snd (UpdateJobOffsets e (pj_id row) so se w) else w)
      in if pr_response_body_chunk poll \<noteq> []
         then appendJobAttemptResponseChunk e (pj_attempt_id row) (pr_response_body_chunk poll) w else w)"

definition conclude_job_poll ::
  "processor \<Rightarrow> env \<Rightarrow> async_job_poll_row \<Rightarrow> poll_result \<Rightarrow> world \<Rightarrow> world" where
  "conclude_job_poll qp e row poll w =
     (let r = \<lparr>res_exit_code = pr_exit_code poll, res_response_code = None, res_stdout = [],
            res_stderr = [], res_response_body = pr_response_body_chunk poll, res_duration_ms = 0,
            res_error = (if pr_state poll = RemoteFailed \<and> pr_error poll = None \<and> pr_exit_code poll = None
                         then Some (ErrText ''remote execution failed'') else pr_error poll)\<rparr>
      in finalizeJobResult qp e (pj_id row) (pj_attempt_id row) (pj_attempt row) (pj_state row)
           (pj_attempt_started_at row) (pj_max_attempts row) (pj_retry_backoff row)
           (pj_max_response_size row) r (pr_state poll = RemoteKilled) w)"

definition pollAsyncJob :: "processor \<Rightarrow> env \<Rightarrow> async_job_poll_row \<Rightarrow> world \<Rightarrow> world" where
  "pollAsyncJob qp e row w =
     (case unmarshal_handle (pj_execution_handle row) of
        None \<Rightarrow> w
      | Some h0 \<Rightarrow>
          (let h = (if h_method_name h0 = [] then h0\<lparr>h_method_name := pj_execution_method row\<rparr> else h0)
           in case registry_Get (qp_registry qp) (h_method_name h) of
                None \<Rightarrow> w
              | Some m \<Rightarrow>
                  (case m_Poll m h \<lparr>pc_stdout_offset = pj_stdout_offset row,
                                    pc_stderr_offset = pj_stderr_offset row\<rparr> of
                     (_, Some _) \<Rightarrow> w
                   | (poll, None) \<Rightarrow>
                       (let w = store_job_poll e row poll w
                        in if pr_state poll = [] \<or> pr_state poll = RemoteRunning then w
                           else conclude_job_poll qp e row poll w))))"

definition processAsyncJobs :: "processor \<Rightarrow> env \<Rightarrow> world \<Rightarrow> world" where
  "processAsyncJobs qp e w =
     (case listAsyncJobs e w of
        Inl _ \<Rightarrow> w
      | Inr rows \<Rightarrow> fold (pollAsyncJob qp e) rows w)"

section \<open>Expiration\<close>

text \<open>One round of \<open>expirationLoop\<close>.\<close>

definition expire_jobs :: "env \<Rightarrow> world \<Rightarrow> world" where
  "expire_jobs e w =
     (case ListExpiredPendingJobs e 100 w of
        Inl _ \<Rightarrow> w
      | Inr jobs \<Rightarrow> fold (\<lambda>j w. snd (db_CancelJob e (j_id j) (Some ''expired'') w)) jobs w)"

end
