(* ===== verification/Queue_Properties.thy ===== *)
theory Queue_Properties
  imports Queue_Processor Samples
begin

text \<open>
  The properties of the queue processor. An operation on a job is an edit of its row: it keeps
  the key and the queue of every row and changes no other row.
\<close>

section \<open>Edits of one job\<close>

definition jobs_ok :: "world \<Rightarrow> bool" where
  "jobs_ok w \<longleftrightarrow> distinct (map j_id (w_jobs w))"

text \<open>\<open>R\<close> relates the states of the row before and after.\<close>

definition job_edit :: "(job_state \<Rightarrow> job_state \<Rightarrow> bool) \<Rightarrow> string \<Rightarrow> world \<Rightarrow> world \<Rightarrow> bool" where
  "job_edit R jid w w' \<longleftrightarrow>
     (\<exists>f. (\<forall>j. j_id (f j) = j_id j \<and> j_queue_id (f j) = j_queue_id j \<and> R (j_state j) (j_state (f j))) \<and>
          w_jobs w' = update_key j_id jid f (w_jobs w))"

definition no_start :: "job_state \<Rightarrow> job_state \<Rightarrow> bool" where
  "no_start s t \<longleftrightarrow> (t = JobRunning \<longrightarrow> s = JobRunning)"

abbreviation any_state :: "job_state \<Rightarrow> job_state \<Rightarrow> bool" where
  "any_state \<equiv> (\<lambda>_ _. True)"

lemma no_start_refl [simp]: "no_start s s"
  by (simp add: no_start_def)

lemma transp_no_start: "transp no_start"
  by (auto simp: transp_def no_start_def)

lemma update_key_id [simp]: "update_key key k (\<lambda>r. r) rows = rows"
  by (simp add: update_key_def update_where_def cong: if_cong)

lemma job_edit_same: "w_jobs w' = w_jobs w \<Longrightarrow> (\<And>s. R s s) \<Longrightarrow> job_edit R jid w w'"
  unfolding job_edit_def by (intro exI[of _ "\<lambda>j. j"]) simp

lemma job_edit_trans:
  assumes "transp R" "job_edit R jid w w'" "job_edit R jid w' w''"
  shows "job_edit R jid w w''"
proof -
  obtain f g where
    f: "\<And>j. j_id (f j) = j_id j \<and> j_queue_id (f j) = j_queue_id j \<and> R (j_state j) (j_state (f j))"
       "w_jobs w' = update_key j_id jid f (w_jobs w)" and
    g: "\<And>j. j_id (g j) = j_id j \<and> j_queue_id (g j) = j_queue_id j \<and> R (j_state j) (j_state (g j))"
       "w_jobs w'' = update_key j_id jid g (w_jobs w')"
    using assms(2,3) unfolding job_edit_def by blast
  have "w_jobs w'' = update_key j_id jid (\<lambda>j. g (f j)) (w_jobs w)"
    using f g by (simp add: update_key_def update_where_def comp_def cong: if_cong)
  moreover have "R (j_state j) (j_state (g (f j)))" for j
    using assms(1) f(1)[of j] g(1)[of "f j"] by (metis transpD)
  ultimately show ?thesis
    unfolding job_edit_def using f(1) g(1) by (intro exI[of _ "\<lambda>j. g (f j)"]) simp
qed

lemma job_edit_weaken: "job_edit R jid w w' \<Longrightarrow> (\<And>s t. R s t \<Longrightarrow> R' s t) \<Longrightarrow> job_edit R' jid w w'"
  unfolding job_edit_def by blast

lemma job_edit_on_job:
  "(\<And>j. j_id (f j) = j_id j) \<Longrightarrow> (\<And>j. j_queue_id (f j) = j_queue_id j) \<Longrightarrow>
   (\<And>j. R (j_state j) (j_state (f j))) \<Longrightarrow> job_edit R jid w (on_job jid f w)"
  unfolding job_edit_def by (intro exI[of _ f]) (simp add: on_job_def)

lemma job_edit_db_exec:
  "(\<And>s. R s s) \<Longrightarrow> job_edit R jid w (f w) \<Longrightarrow> job_edit R jid w (snd (db_exec e q v f w))"
  by (rule db_exec_preserves) (auto intro: job_edit_same)

lemma job_edit_UpdateJobState:
  "(\<And>s. R s (uj_state a)) \<Longrightarrow> (\<And>s. R s s) \<Longrightarrow> job_edit R (uj_id a) w (snd (UpdateJobState e a w))"
  unfolding UpdateJobState_def
  by (rule job_edit_db_exec) (auto intro!: job_edit_on_job simp: set_job_state_def)

lemma job_edit_columns:
  assumes "\<And>s. R s s"
  shows "job_edit R jid w (snd (SaveJobExecutionHandle e jid h w))"
    "job_edit R jid w (snd (ClearJobExecutionHandle e jid w))"
    "job_edit R jid w (snd (UpdateJobOffsets e jid so se w))"
    "job_edit R jid w (snd (SnapshotJobConfig e jid cfg w))"
  unfolding SaveJobExecutionHandle_def ClearJobExecutionHandle_def UpdateJobOffsets_def
    SnapshotJobConfig_def
  by (rule job_edit_db_exec; auto intro!: job_edit_on_job simp: assms)+

lemma job_edit_other: "job_edit R jid w w' \<Longrightarrow> k \<noteq> jid \<Longrightarrow> job_at w' k = job_at w k"
  unfolding job_edit_def job_at_def update_key_def
  by (cases "lookup_key j_id k (w_jobs w)")
    (auto simp: lookup_key_update_where dest: lookup_key_SomeD)

lemma job_edit_ok: "job_edit R jid w w' \<Longrightarrow> jobs_ok w \<Longrightarrow> jobs_ok w'"
  unfolding job_edit_def jobs_ok_def by (auto simp: map_update_key)

lemma job_at_mem: "jobs_ok w \<Longrightarrow> j \<in> set (w_jobs w) \<Longrightarrow> job_at w (j_id j) = Some j"
  by (simp add: jobs_ok_def job_at_def lookup_key_mem)

lemma fold_job_edits:
  "(\<And>x w. job_edit any_state (key x) w (f x w)) \<Longrightarrow> k \<notin> key ` set xs \<Longrightarrow>
   job_at (fold f xs w) k = job_at w k"
  by (induction xs arbitrary: w) (simp_all, metis job_edit_other)

section \<open>Results\<close>

lemma record_job_result_jobs:
  "\<exists>w0. w_jobs w0 = w_jobs w \<and>
     record_job_result qp e jid aid attempt started n r w = snd (ClearJobExecutionHandle e jid w0)"
proof (cases "truncate_body n (res_response_body r)")
  case (Pair body truncated)
  show ?thesis
    unfolding record_job_result_def Let_def Pair prod.case
    by (rule exI, rule conjI[rotated], rule refl) (simp add: job_frames)
qed

lemma job_edit_from: "w_jobs w0 = w_jobs w \<Longrightarrow> job_edit R jid w0 w' \<Longrightarrow> job_edit R jid w w'"
  by (simp add: job_edit_def)

lemma record_job_result_edit:
  assumes "\<And>s. R s s"
  shows "job_edit R jid w (record_job_result qp e jid aid attempt started n r w)"
proof -
  obtain w0 where "w_jobs w0 = w_jobs w"
    "record_job_result qp e jid aid attempt started n r w = snd (ClearJobExecutionHandle e jid w0)"
    using record_job_result_jobs by blast
  then show ?thesis
    using job_edit_from job_edit_columns(2)[where R = R, OF assms] by simp
qed

text \<open>What \<open>finalizeJobResult\<close> writes last; \<open>None\<close> is the panic of \<open>calculateBackoff\<close>.\<close>

definition job_outcome ::
  "env \<Rightarrow> string \<Rightarrow> int \<Rightarrow> job_state \<Rightarrow> instant \<Rightarrow> int \<Rightarrow> string \<Rightarrow> result \<Rightarrow> bool \<Rightarrow>
   update_job_state_params option" where
  "job_outcome e jid attempt current started max_attempts retry_backoff r killed =
     (let ms = milliseconds (go_Sub (e_now e) started);
          finish = \<lambda>s. (job_upd jid s)\<lparr>uj_duration_ms := Some ms\<rparr>
      in if killed \<and> current = JobKillRequested then Some (finish JobKilled)
         else if IsSuccess r then Some (finish JobCompleted)
         else if attempt < max_attempts then
           map_option (\<lambda>t. (job_upd jid JobRetrying)\<lparr>uj_attempt := Some attempt, uj_next_attempt_at := Some t\<rparr>)
             (queue_calculateBackoff (e_now e) attempt (getBackoffListFromString retry_backoff))
         else Some (finish JobFailed))"

lemma finalize_job_eq:
  "finalizeJobResult qp e jid aid attempt current started max_attempts retry_backoff n r killed w =
     (let w = record_job_result qp e jid aid attempt started n r w
      in case job_outcome e jid attempt current started max_attempts retry_backoff r killed of
           None \<Rightarrow> w\<lparr>w_panicked := True\<rparr>
         | Some a \<Rightarrow> snd (UpdateJobState e a w))"
  by (simp add: finalizeJobResult_def job_outcome_def failJob_def Let_def split: option.split)

lemma job_outcome_simps:
  assumes "job_outcome e jid attempt current started m b r killed = Some a"
  shows "uj_id a = jid" "uj_worker_id a = None" "uj_state a \<noteq> JobRunning"
  using assms by (auto simp: job_outcome_def Let_def split: if_splits)

lemma finalize_job_edit:
  "job_edit no_start jid w
     (finalizeJobResult qp e jid aid attempt current started m b n r killed w)"
proof -
  let ?w = "record_job_result qp e jid aid attempt started n r w"
  have "job_edit no_start jid w ?w" by (rule record_job_result_edit) simp
  moreover have "job_edit no_start jid ?w (snd (UpdateJobState e a ?w))"
    if "job_outcome e jid attempt current started m b r killed = Some a" for a
    using job_edit_UpdateJobState[of no_start a ?w e] job_outcome_simps[OF that]
    by (auto simp: no_start_def)
  moreover have "job_edit no_start jid ?w (?w\<lparr>w_panicked := True\<rparr>)"
    by (rule job_edit_same) simp_all
  ultimately show ?thesis
    unfolding finalize_job_eq Let_def
    by (auto split: option.split intro: job_edit_trans[OF transp_no_start])
qed

text \<open>
  C7: what a result does to its job, when the writes succeed: killed only when a kill was asked
  for and confirmed, else completed on success, else retrying after one of the delays of its
  backoff list while the attempt is below the maximum, else failed. The persisted handle is
  cleared, no other job changes.
\<close>

theorem finalizeJobResult_classifies:
  assumes "e_fault e ''UpdateJobState'' = None" "e_fault e ''ClearJobExecutionHandle'' = None"
    and "job_at w jid = Some j" "1 \<le> attempt"
  shows "\<exists>j'. job_at (finalizeJobResult qp e jid aid attempt current started m b n r killed w) jid = Some j' \<and>
    j_execution_handle j' = None \<and>
    (if killed \<and> current = JobKillRequested then j_state j' = JobKilled
     else if IsSuccess r then j_state j' = JobCompleted
     else if attempt < m then j_state j' = JobRetrying \<and> j_attempt j' = attempt \<and>
       (\<exists>d\<in>insert minute (set (getBackoffListFromString b)). j_next_attempt_at j' = Some (e_now e + d))
     else j_state j' = JobFailed) \<and>
    (\<forall>k. k \<noteq> jid \<longrightarrow>
       job_at (finalizeJobResult qp e jid aid attempt current started m b n r killed w) k = job_at w k)"
proof -
  have "queue_calculateBackoff (e_now e) attempt bs \<noteq> None" for bs
    using assms(4) by (simp add: queue_backoff.panics_iff)
  then obtain t where t: "queue_calculateBackoff (e_now e) attempt (getBackoffListFromString b) = Some t"
    by blast
  have d: "t - e_now e \<in> insert minute (set (getBackoffListFromString b))"
    using queue_backoff.delay_from_list[OF assms(4) t] .
  have "\<exists>a. job_outcome e jid attempt current started m b r killed = Some a"
    using t by (simp add: job_outcome_def Let_def)
  then obtain a where a: "job_outcome e jid attempt current started m b r killed = Some a" by blast
  let ?w = "record_job_result qp e jid aid attempt started n r w"
  have "\<exists>j0. job_at ?w jid = Some j0 \<and> j_execution_handle j0 = None \<and> j_attempt j0 = j_attempt j"
    using record_job_result_jobs[of w qp e jid aid attempt started n r] assms(2,3)
    by (auto simp: ClearJobExecutionHandle_def db_exec_def job_at_on_job) (auto simp: job_at_def)
  then obtain j0 where j0: "job_at ?w jid = Some j0" "j_execution_handle j0 = None" by blast
  have "job_at (snd (UpdateJobState e a ?w)) jid = Some (set_job_state (e_db_now e, a) j0)"
    using assms(1) j0 job_outcome_simps[OF a] by (simp add: UpdateJobState_ok job_at_on_job)
  then have at: "job_at (finalizeJobResult qp e jid aid attempt current started m b n r killed w) jid =
      Some (set_job_state (e_db_now e, a) j0)"
    by (simp add: finalize_job_eq a)
  have "t = e_now e + (t - e_now e)" by simp
  with at j0 a t d show ?thesis
    by (auto simp: job_edit_other[OF finalize_job_edit] job_outcome_def Let_def set_job_state_def
        simp del: insert_iff split: if_splits intro!: bexI[of _ "t - e_now e"])
qed

section \<open>A round of dispatches\<close>

definition running_in :: "string \<Rightarrow> world \<Rightarrow> nat" where
  "running_in qid w = length (filter (\<lambda>j. j_queue_id j = qid \<and> j_state j = JobRunning) (w_jobs w))"

lemma CountRunningByQueue_ok:
  "e_fault e ''CountRunningByQueue'' = None \<Longrightarrow>
   CountRunningByQueue e qid w = Inr (int (running_in qid w))"
  by (simp add: CountRunningByQueue_def db_read_def running_in_def)

lemma no_start_keeps_running:
  assumes "job_edit no_start jid w w'"
  shows "running_in qid w' \<le> running_in qid w"
proof -
  obtain f where f: "\<And>j. j_id (f j) = j_id j \<and> j_queue_id (f j) = j_queue_id j \<and>
      no_start (j_state j) (j_state (f j))" "w_jobs w' = update_key j_id jid f (w_jobs w)"
    using assms unfolding job_edit_def by blast
  have "length (filter (\<lambda>j. j_queue_id j = qid \<and> j_state j = JobRunning) (update_key j_id jid f js))
      \<le> length (filter (\<lambda>j. j_queue_id j = qid \<and> j_state j = JobRunning) js)" for js
    using f(1) by (induction js) (auto simp: no_start_def le_SucI)
  then show ?thesis by (simp add: running_in_def f(2))
qed

lemma edit_adds_one:
  assumes "job_edit any_state (j_id j) w w'" "jobs_ok w" "job_at w (j_id j) = Some j0"
    "j_queue_id j0 = qid"
  shows "running_in qid' w' \<le> running_in qid' w + (if qid' = qid then 1 else 0)"
proof -
  obtain f where f: "\<And>j. j_id (f j) = j_id j \<and> j_queue_id (f j) = j_queue_id j"
    "w_jobs w' = update_key j_id (j_id j) f (w_jobs w)"
    using assms(1) unfolding job_edit_def by blast
  let ?P = "\<lambda>j. j_queue_id j = qid' \<and> j_state j = JobRunning"
  have same: "update_key j_id k f js = js" if "k \<notin> j_id ` set js" for js k
    using that by (induction js) auto
  have "length (filter ?P (update_key j_id k f js)) \<le> length (filter ?P js) + (if qid' = qid then 1 else 0)"
    if "distinct (map j_id js)" "lookup_key j_id k js = Some j0" for js k
    using that
  proof (induction js)
    case Nil
    then show ?case by simp
  next
    case (Cons x xs)
    show ?case
    proof (cases "j_id x = k")
      case True
      then have "x = j0" "update_key j_id k f xs = xs" using Cons.prems same by auto
      then show ?thesis using True f(1)[of x] assms(4) by auto
    next
      case False
      then show ?thesis using Cons by auto
    qed
  qed
  then show ?thesis
    using assms(2,3) by (simp add: running_in_def f(2) jobs_ok_def job_at_def)
qed

lemma CreateJobAttempt_jobs [simp]:
  "w_jobs (snd (CreateJobAttempt e xid jid n t req wk w)) = w_jobs w"
  by (simp add: job_frames)

lemma id_New_jobs [simp]: "id_New e prefix w = (x, w') \<Longrightarrow> w_jobs w' = w_jobs w"
  using job_frames(2)[of e prefix w] by simp

lemma begin_job_edit: "job_edit any_state (j_id j) w (snd (begin_job e j q m w))"
proof -
  let ?a = "(job_upd (j_id j) JobRunning)\<lparr>uj_attempt := Some (wrap32 (j_attempt j + 1))\<rparr>"
  have upd: "job_edit any_state (j_id j) w (snd (UpdateJobState e ?a w))"
    using job_edit_UpdateJobState[of any_state ?a w e] by simp
  have "\<exists>w0. job_edit any_state (j_id j) w w0 \<and> w_jobs (snd (begin_job e j q m w)) = w_jobs w0"
  proof (cases "UpdateJobState e ?a w")
    case (Pair err w1)
    have "job_edit any_state (j_id j) w w1" using upd Pair by simp
    moreover have "job_edit any_state (j_id j) w1 (snd (SnapshotJobConfig e (j_id j) cfg w1))" for cfg
      by (rule job_edit_columns) simp
    ultimately have snap: "job_edit any_state (j_id j) w (snd (SnapshotJobConfig e (j_id j) cfg w1))" for cfg
      by (metis job_edit_trans transpI)
    show ?thesis
    proof (cases err)
      case None
      then show ?thesis
        using Pair snap[of "job_snapshot j q"] \<open>job_edit any_state (j_id j) w w1\<close>
        by (intro exI[of _ "if wrap32 (j_attempt j + 1) = 1
              then snd (SnapshotJobConfig e (j_id j) (job_snapshot j q) w1) else w1"])
          (auto simp: begin_job_def Let_def job_frames split: prod.split)
    next
      case (Some x)
      then show ?thesis using Pair \<open>job_edit any_state (j_id j) w w1\<close>
        by (auto simp: begin_job_def Let_def)
    qed
  qed
  then show ?thesis unfolding job_edit_def by auto
qed

lemma begin_job_call: "fst (begin_job e j q m w) = Some c \<Longrightarrow> jc_job c = j"
  by (auto simp: begin_job_def Let_def split: prod.splits option.splits)

lemma failJob_edit: "job_edit no_start jid w (failJob e jid ms w)"
  unfolding failJob_def
  using job_edit_UpdateJobState[of no_start "(job_upd jid JobFailed)\<lparr>uj_duration_ms := Some ms\<rparr>" w e]
  by (simp add: no_start_def)

lemma job_dispatch_finish_edit: "job_edit no_start (j_id (jc_job c)) w (job_dispatch_finish qp e c answer w)"
proof (cases "sr_result (fst answer)")
  case None
  let ?h = "if h_method_name (sr_handle (fst answer)) = []
    then \<lparr>h_method_name = q_execution_method (jc_queue c), h_run_id = j_id (jc_job c), h_data = Some []\<rparr>
    else sr_handle (fst answer)"
  obtain err w1 where s: "saveJobExecutionHandle e (j_id (jc_job c)) ?h w = (err, w1)" by fastforce
  have "job_edit no_start (j_id (jc_job c)) w w1"
    using job_edit_columns(1)[of no_start "j_id (jc_job c)" w e "marshal_handle ?h"] s
    by (simp add: saveJobExecutionHandle_def)
  then show ?thesis
    using None s failJob_edit[of "j_id (jc_job c)" w1 e 0]
    by (auto simp: job_dispatch_finish_def Let_def split: option.split intro: job_edit_trans[OF transp_no_start])
next
  case (Some r)
  then show ?thesis by (simp add: job_dispatch_finish_def Let_def finalize_job_edit)
qed

text \<open>A job that this process executes itself.\<close>

definition direct_job :: "processor \<Rightarrow> job \<times> queue \<Rightarrow> bool" where
  "direct_job qp jq \<longleftrightarrow> job_runtime (fst jq) (snd jq) \<noteq> ''worker'' \<or> qp_workerDispatch qp = None"

lemma job_dispatch_begin_cases:
  assumes "direct_job qp (j, q)"
  obtains
    (idle) w' where "job_dispatch_begin qp e (j, q) w = (None, w')" "job_edit no_start (j_id j) w w'"
  | (start) m where "job_dispatch_begin qp e (j, q) w = begin_job e j q m w"
      "int (running_in (j_queue_id j) w) < q_concurrency q" "e_fault e ''CountRunningByQueue'' = None"
      "registry_Get (qp_registry qp) (q_execution_method q) = Some m"
proof -
  have route: "(if job_runtime j q = ''worker'' then qp_workerDispatch qp else None) = None"
    using assms by (auto simp: direct_job_def)
  have same: "job_edit no_start (j_id j) w w" by (rule job_edit_same) simp_all
  show thesis
  proof (cases "e_fault e ''CountRunningByQueue'' = None")
    case False
    then show thesis using idle[of w] same route
      by (auto simp: job_dispatch_begin_def CountRunningByQueue_def db_read_def split: option.splits)
  next
    case True
    show thesis
    proof (cases "int (running_in (j_queue_id j) w) < q_concurrency q")
      case False
      then show thesis using True idle[of w] same route
        by (simp add: job_dispatch_begin_def CountRunningByQueue_ok)
    next
      case lt: True
      show thesis
      proof (cases "registry_Get (qp_registry qp) (q_execution_method q)")
        case None
        then show thesis using True lt route idle[of "failJob e (j_id j) 0 w"]
          by (simp add: job_dispatch_begin_def CountRunningByQueue_ok failJob_edit)
      next
        case (Some m)
        then show thesis using True lt route start[of m]
          by (simp add: job_dispatch_begin_def CountRunningByQueue_ok)
      qed
    qed
  qed
qed

lemma transp_any: "transp any_state"
  by (simp add: transp_def)

lemma job_dispatch_bound:
  assumes "direct_job qp (j, q)" "jobs_ok w" "job_at w (j_id j) = Some j0" "j_queue_id j0 = j_queue_id j"
  shows "job_edit any_state (j_id j) w (job_dispatch qp e e' (j, q) w)"
    and "int (running_in qid (job_dispatch qp e e' (j, q) w)) \<le>
      max (int (running_in qid w)) (if qid = j_queue_id j then q_concurrency q else 0)"
proof -
  have "job_edit any_state (j_id j) w (job_dispatch qp e e' (j, q) w) \<and>
    int (running_in qid (job_dispatch qp e e' (j, q) w)) \<le>
      max (int (running_in qid w)) (if qid = j_queue_id j then q_concurrency q else 0)"
    using assms(1)
  proof (cases rule: job_dispatch_begin_cases[where e = e and w = w])
    case (idle w')
    then show ?thesis
      using no_start_keeps_running[OF idle(2), of qid]
      by (auto simp: job_dispatch_def intro: job_edit_weaken)
  next
    case (start m)
    obtain c w1 where b: "begin_job e j q m w = (c, w1)" by fastforce
    have e1: "job_edit any_state (j_id j) w w1" using begin_job_edit[of j w e q m] b by simp
    have r1: "running_in qid w1 \<le> running_in qid w + (if qid = j_queue_id j then 1 else 0)"
      using edit_adds_one[OF e1 assms(2-4)] .
    show ?thesis
    proof (cases c)
      case None
      then show ?thesis using start b e1 r1 by (auto simp: job_dispatch_def)
    next
      case (Some call)
      then have jc: "jc_job call = j" using begin_job_call[of e j q m w] b by simp
      let ?w2 = "job_dispatch_finish qp e' call (m_Start (jc_method call) (jc_params call)) w1"
      have e2: "job_edit no_start (j_id j) w1 ?w2"
        using job_dispatch_finish_edit[of call w1 qp e'] jc by simp
      have "job_edit any_state (j_id j) w ?w2"
        by (rule job_edit_trans[OF transp_any e1], rule job_edit_weaken[OF e2], rule TrueI)
      moreover have "running_in qid ?w2 \<le> running_in qid w1"
        by (rule no_start_keeps_running[OF e2])
      ultimately show ?thesis using start b Some r1 by (auto simp: job_dispatch_def)
    qed
  qed
  then show "job_edit any_state (j_id j) w (job_dispatch qp e e' (j, q) w)"
    "int (running_in qid (job_dispatch qp e e' (j, q) w)) \<le>
      max (int (running_in qid w)) (if qid = j_queue_id j then q_concurrency q else 0)" by simp_all
qed

text \<open>The keys of the jobs with their queues; no edit changes them.\<close>

definition slots :: "world \<Rightarrow> (string \<times> string) list" where
  "slots w = map (\<lambda>j. (j_id j, j_queue_id j)) (w_jobs w)"

lemma job_edit_slots: "job_edit R jid w w' \<Longrightarrow> slots w' = slots w"
  unfolding job_edit_def slots_def by (auto simp: map_update_key)

lemma slot_row: "jobs_ok w \<Longrightarrow> (k, qid) \<in> set (slots w) \<Longrightarrow> \<exists>j0. job_at w k = Some j0 \<and> j_queue_id j0 = qid"
  using job_at_mem by (auto simp: slots_def)

lemma fold_dispatch_bound:
  assumes "\<And>j q. (j, q) \<in> set rows \<Longrightarrow> direct_job qp (j, q) \<and> (j_id j, j_queue_id j) \<in> set (slots w)"
    and "\<And>j q. (j, q) \<in> set rows \<Longrightarrow> j_queue_id j = qid \<Longrightarrow> q_concurrency q = n"
    and "jobs_ok w"
  shows "int (running_in qid (fold (job_dispatch qp e e') rows w)) \<le> max (int (running_in qid w)) n"
  using assms
proof (induction rows arbitrary: w)
  case Nil
  then show ?case by simp
next
  case (Cons jq rows)
  obtain j q where jq: "jq = (j, q)" by fastforce
  have d: "direct_job qp (j, q)" "(j_id j, j_queue_id j) \<in> set (slots w)"
    using Cons.prems(1)[of j q] jq by auto
  obtain j0 where j0: "job_at w (j_id j) = Some j0" "j_queue_id j0 = j_queue_id j"
    using slot_row[OF Cons.prems(3) d(2)] by blast
  let ?w = "job_dispatch qp e e' (j, q) w"
  have ed: "job_edit any_state (j_id j) w ?w"
    by (rule job_dispatch_bound(1)[OF d(1) Cons.prems(3) j0])
  have "int (running_in qid (fold (job_dispatch qp e e') rows ?w)) \<le> max (int (running_in qid ?w)) n"
  proof (rule Cons.IH)
    show "direct_job qp (j', q') \<and> (j_id j', j_queue_id j') \<in> set (slots ?w)"
      if "(j', q') \<in> set rows" for j' q'
      using Cons.prems(1)[of j' q'] that job_edit_slots[OF ed] by auto
  qed (use Cons.prems(2,3) job_edit_ok[OF ed] in auto)
  moreover have "int (running_in qid ?w) \<le> max (int (running_in qid w)) n"
    using job_dispatch_bound(2)[OF d(1) Cons.prems(3) j0, of qid e e'] Cons.prems(2)[of j q] jq
    by (auto split: if_splits)
  ultimately show ?case by (simp add: jq)
qed

section \<open>Claims\<close>

lemma join_jobs_mem:
  "(j, q) \<in> set (join_jobs P w) \<longleftrightarrow>
     j \<in> set (w_jobs w) \<and> P j \<and> q \<in> set (w_queues w) \<and> q_id q = j_queue_id j"
  by (auto simp: join_jobs_def List.maps_eq)

text \<open>What \<open>ClaimPendingJobs\<close> chooses from.\<close>

definition claimable_jobs :: "env \<Rightarrow> world \<Rightarrow> (job \<times> queue) list" where
  "claimable_jobs e w = filter (\<lambda>(j, q). claimable e w j q) (join_jobs (\<lambda>_. True) w)"

lemma processor_tick_eq:
  "no_faults e \<Longrightarrow> processor_tick e w = take 10 (claim_order (claimable_jobs e w))"
  by (simp add: processor_tick_def ClaimPendingJobs_def db_read_def claimable_jobs_def)

lemma processor_tick_sub: "set (processor_tick e w) \<subseteq> set (claimable_jobs e w)"
  by (auto simp: processor_tick_def ClaimPendingJobs_def db_read_def claimable_jobs_def claim_order_def
      split: option.splits dest!: in_set_takeD)

lemma tick_row:
  assumes "(j, q) \<in> set (processor_tick e w)"
  shows "j \<in> set (w_jobs w)" "q \<in> set (w_queues w)" "q_id q = j_queue_id j" "claimable e w j q"
  using assms processor_tick_sub[of e w] by (auto simp: claimable_jobs_def join_jobs_mem)



section \<open>Two dispatches at once\<close>

lemma begin_job_running:
  assumes "no_faults e" "job_at w (j_id j) = Some j0" "j_state j0 \<noteq> JobRunning" "jobs_ok w"
    "j_queue_id j0 = qid"
  shows "fst (begin_job e j q m w) \<noteq> None"
    "running_in qid (snd (begin_job e j q m w)) = Suc (running_in qid w)"
proof -
  let ?a = "(job_upd (j_id j) JobRunning)\<lparr>uj_attempt := Some (wrap32 (j_attempt j + 1))\<rparr>"
  let ?g = "\<lambda>x. let x = set_job_state (e_db_now e, ?a) x
    in if wrap32 (j_attempt j + 1) = 1
       then x\<lparr>j_effective_config := Some (job_snapshot j q), j_updated_at := e_db_now e\<rparr> else x"
  have u: "UpdateJobState e ?a w = (None, on_job (j_id j) (set_job_state (e_db_now e, ?a)) w)"
    using assms(1) by (simp add: UpdateJobState_ok)
  show "fst (begin_job e j q m w) \<noteq> None"
    by (simp add: begin_job_def Let_def u split: prod.split)
  have jobs: "w_jobs (snd (begin_job e j q m w)) = update_key j_id (j_id j) ?g (w_jobs w)"
    using assms(1)
    by (auto simp: begin_job_def Let_def u job_frames SnapshotJobConfig_def db_exec_ok on_job_def
        update_key_def update_where_def split: prod.split)
  have g: "j_id (?g x) = j_id x" "j_queue_id (?g x) = j_queue_id x" "j_state (?g x) = JobRunning" for x
    by (simp_all add: Let_def set_job_state_def)
  let ?P = "\<lambda>j. j_queue_id j = qid \<and> j_state j = JobRunning"
  have same: "update_key j_id k ?g js = js" if "k \<notin> j_id ` set js" for js k
    using that by (induction js) auto
  have "length (filter ?P (update_key j_id k ?g js)) = Suc (length (filter ?P js))"
    if "distinct (map j_id js)" "lookup_key j_id k js = Some j0" for js k
    using that
  proof (induction js)
    case Nil
    then show ?case by simp
  next
    case (Cons x xs)
    show ?case
    proof (cases "j_id x = k")
      case True
      then have "x = j0" "update_key j_id k ?g xs = xs" using Cons.prems same by auto
      then show ?thesis using True g[of x] assms(3,5) by (simp del: if_cancel)
    next
      case False
      then show ?thesis using Cons by auto
    qed
  qed
  then show "running_in qid (snd (begin_job e j q m w)) = Suc (running_in qid w)"
    using assms(2,4) by (simp add: running_in_def jobs jobs_ok_def job_at_def)
qed

text \<open>
  The check of a queue's concurrency and the write that starts a job are separate queries:
  two goroutines that both check before either writes start one job more than the queue allows.
\<close>

theorem concurrency_check_races:
  assumes "no_faults e" "jobs_ok w" "j_id j1 \<noteq> j_id j2"
    and "job_at w (j_id j1) = Some j1" "job_at w (j_id j2) = Some j2"
    and "j_state j1 \<noteq> JobRunning" "j_state j2 \<noteq> JobRunning"
    and "j_queue_id j1 = q_id q" "j_queue_id j2 = q_id q"
    and "int (running_in (q_id q) w) + 1 = q_concurrency q"
    and "direct_job qp (j1, q)" "direct_job qp (j2, q)"
    and "registry_Get (qp_registry qp) (q_execution_method q) = Some m"
  shows "job_dispatch_begin qp e (j1, q) w = begin_job e j1 q m w \<and>
    job_dispatch_begin qp e (j2, q) w = begin_job e j2 q m w \<and>
    int (running_in (q_id q) (snd (begin_job e j2 q m (snd (begin_job e j1 q m w))))) =
      q_concurrency q + 1"
proof (intro conjI)
  show "job_dispatch_begin qp e (j1, q) w = begin_job e j1 q m w"
    and "job_dispatch_begin qp e (j2, q) w = begin_job e j2 q m w"
    using assms by (auto simp: job_dispatch_begin_def direct_job_def CountRunningByQueue_ok)
  let ?w = "snd (begin_job e j1 q m w)"
  have ed: "job_edit any_state (j_id j1) w ?w" by (rule begin_job_edit)
  have "running_in (q_id q) ?w = Suc (running_in (q_id q) w)"
    by (rule begin_job_running(2)[OF assms(1,4,6,2,8)])
  moreover have "job_at ?w (j_id j2) = Some j2"
    using job_edit_other[OF ed] assms(3,5) by metis
  ultimately show "int (running_in (q_id q) (snd (begin_job e j2 q m ?w))) = q_concurrency q + 1"
    using begin_job_running(2)[OF assms(1) _ assms(7) job_edit_ok[OF ed assms(2)] assms(9)] assms(10)
    by simp
qed

section \<open>Submission\<close>

lemma job_at_Save:
  "e_fault e ''SaveJobExecutionHandle'' = None \<Longrightarrow>
   SaveJobExecutionHandle e jid h w = (None, on_job jid (\<lambda>j. j\<lparr>j_execution_handle := Some h,
       j_stdout_offset := 0, j_stderr_offset := 0, j_updated_at := e_db_now e\<rparr>) w)"
  by (simp add: SaveJobExecutionHandle_def db_exec_ok)

text \<open>
  The error of \<open>Start\<close> is not looked at: when an asynchronous method refuses a job with an
  error and an empty answer, the job keeps its state (running), with a handle that holds only the
  name of the method, and is neither failed nor retried.
\<close>

theorem refused_submission_stays_running:
  assumes "e_fault e ''SaveJobExecutionHandle'' = None" "job_at w (j_id (jc_job c)) = Some j"
    and "sr_result sr = None" "h_method_name (sr_handle sr) = []"
  shows "\<exists>j'. job_at (job_dispatch_finish qp e c (sr, Some err) w) (j_id (jc_job c)) = Some j' \<and>
    j_state j' = j_state j \<and> j_next_attempt_at j' = j_next_attempt_at j \<and>
    j_execution_handle j' = Some (marshal_handle
      \<lparr>h_method_name = q_execution_method (jc_queue c), h_run_id = j_id (jc_job c), h_data = Some []\<rparr>)"
  using assms
  by (simp add: job_dispatch_finish_def Let_def saveJobExecutionHandle_def job_at_Save job_at_on_job)

section \<open>Polling and expiration\<close>

lemma job_poll_edit: "job_edit any_state (pj_id row) w (pollAsyncJob qp e row w)"
proof -
  have same: "job_edit any_state (pj_id row) w w" by (rule job_edit_same) simp_all
  have store: "job_edit any_state (pj_id row) w (store_job_poll e row poll w)" for poll
    using job_edit_columns(3)[of any_state "pj_id row" w e] same
    by (auto simp: store_job_poll_def Let_def appendJobAttemptResponseChunk_def job_edit_def job_frames)
  have "job_edit any_state (pj_id row) w (conclude_job_poll qp e row poll (store_job_poll e row poll w))"
    for poll
    unfolding conclude_job_poll_def Let_def
    by (rule job_edit_trans[OF transp_any store], rule job_edit_weaken[OF finalize_job_edit], rule TrueI)
  then show ?thesis
    using same store by (auto simp: pollAsyncJob_def Let_def split: option.split prod.split)
qed

lemma job_poll_rows_mem: "x \<in> set (job_poll_rows rows) \<Longrightarrow> \<exists>a\<in>set rows. pj_id x = aj_id a"
  by (induction rows rule: job_poll_rows.induct) (auto split: option.splits)

text \<open>
  A round of polls only writes jobs that are running or asked to stop and have a persisted
  handle; every other job keeps its row whatever the methods answer and whatever fails.
\<close>

theorem processAsyncJobs_active_only:
  assumes "jobs_ok w" "job_at w k = Some j"
    and "j_state j \<notin> {JobRunning, JobKillRequested} \<or> j_execution_handle j = None"
  shows "job_at (processAsyncJobs qp e w) k = Some j"
proof (cases "listAsyncJobs e w")
  case (Inl err)
  then show ?thesis using assms(2) by (simp add: processAsyncJobs_def)
next
  case (Inr rows)
  have "k \<notin> pj_id ` set rows"
  proof
    assume "k \<in> pj_id ` set rows"
    then obtain x where x: "x \<in> set rows" "k = pj_id x" by blast
    from Inr obtain as where as: "ListActiveAsyncJobs e w = Inr as" "rows = job_poll_rows as"
      by (auto simp: listAsyncJobs_def split: sum.splits)
    obtain a where a: "a \<in> set as" "k = aj_id a" using job_poll_rows_mem x as(2) by metis
    obtain j' q where "(j', q) \<in> set (join_jobs (\<lambda>j. j_state j \<in> {JobRunning, JobKillRequested} \<and>
        j_execution_handle j \<noteq> None) w)" "a = async_job_row_of w (j', q)"
      using as(1) a(1) by (auto simp: ListActiveAsyncJobs_def db_read_def split: option.splits)
    then have j': "j' \<in> set (w_jobs w)" "j_state j' \<in> {JobRunning, JobKillRequested}"
      "j_execution_handle j' \<noteq> None" "k = j_id j'"
      using a(2) by (auto simp: join_jobs_mem async_job_row_of_def Let_def)
    then show False using job_at_mem[OF assms(1) j'(1)] assms(2,3) by auto
  qed
  then show ?thesis
    using assms(2) Inr fold_job_edits[of pj_id "pollAsyncJob qp e" k rows w, OF job_poll_edit]
    by (simp add: processAsyncJobs_def)
qed

text \<open>The jobs that a round of the expiration loop cancels.\<close>

definition expired_now :: "env \<Rightarrow> job \<Rightarrow> bool" where
  "expired_now e j \<longleftrightarrow> j_state j = JobPending \<and> due (e_db_now e) (j_expires_at j) \<and> \<not> e_locked e (j_id j)"

lemma fold_cancel_at:
  assumes "no_faults e"
  shows "job_at (fold (\<lambda>j w. snd (db_CancelJob e (j_id j) (Some r) w)) js w) k =
    (if k \<in> j_id ` set js
     then map_option (\<lambda>j. j\<lparr>j_state := JobCancelled, j_cancel_reason := Some r, j_updated_at := e_db_now e\<rparr>)
       (job_at w k)
     else job_at w k)"
  using assms
proof (induction js arbitrary: w)
  case Nil
  then show ?case by simp
next
  case (Cons j js)
  have "job_at (snd (db_CancelJob e (j_id j) (Some r) w)) k =
      (if k = j_id j then map_option (\<lambda>j. j\<lparr>j_state := JobCancelled, j_cancel_reason := Some r,
         j_updated_at := e_db_now e\<rparr>) (job_at w k) else job_at w k)"
    using Cons.prems by (simp add: db_CancelJob_def db_exec_ok job_at_on_job)
  then show ?case using Cons by (cases "job_at w k") auto
qed

text \<open>
  A round of the expiration loop cancels, with the reason \<open>expired\<close>, only pending jobs whose
  expiry has passed; all of them when there are at most a hundred. Jobs that run, retry, have
  ended or have no expiry keep their rows.
\<close>

theorem expire_jobs_cancels:
  assumes "no_faults e" "jobs_ok w" "job_at w k = Some j"
    and "length (filter (expired_now e) (w_jobs w)) \<le> 100"
  shows "job_at (expire_jobs e w) k = Some (if expired_now e j
    then j\<lparr>j_state := JobCancelled, j_cancel_reason := Some ''expired'', j_updated_at := e_db_now e\<rparr>
    else j)"
proof -
  have "expire_jobs e w = fold (\<lambda>j w. snd (db_CancelJob e (j_id j) (Some ''expired'') w))
      (filter (expired_now e) (w_jobs w)) w"
    using assms(1,4)
    by (simp add: expire_jobs_def ListExpiredPendingJobs_def db_read_def expired_now_def[abs_def])
  moreover have "k \<in> j_id ` set (filter (expired_now e) (w_jobs w)) \<longleftrightarrow> expired_now e j"
  proof -
    have "j \<in> set (w_jobs w) \<and> j_id j = k"
      using assms(3) by (auto simp: job_at_def dest: lookup_key_SomeD)
    moreover have "j' = j" if "j' \<in> set (w_jobs w)" "j_id j' = k" for j'
      using job_at_mem[OF assms(2) that(1)] that(2) assms(3) by simp
    ultimately show ?thesis by (auto simp: image_iff)
  qed
  ultimately show ?thesis
    using assms(3) by (simp add: fold_cancel_at[OF assms(1)])
qed

section \<open>Instances\<close>

definition sample_queue :: queue where
  "sample_queue =
     \<lparr>q_id = ''que_1'', q_workspace_id = ''wsp_1'', q_name = ''q'', q_execution_method = ''http'',
      q_runtime = ''direct'', q_method_config = JObj [], q_concurrency = 1, q_max_attempts = 3,
      q_retry_backoff = ''30s,2m'', q_job_timeout = \<lparr>iv_microseconds = 0, iv_days = 0, iv_months = 0\<rparr>,
      q_max_response_size = 0, q_ssh_credential_id = None, q_ssm_profile_id = None,
      q_k8s_cluster_id = None, q_worker_id = None, q_worker_labels = None, q_tags = [],
      q_enabled = True, q_created_at = 0, q_updated_at = 0\<rparr>"

definition sample_job :: "string \<Rightarrow> int \<Rightarrow> job_state \<Rightarrow> job" where
  "sample_job jid prio st =
     (new_job (calm 0)
       \<lparr>cj_id = jid, cj_workspace_id = ''wsp_1'', cj_queue_id = ''que_1'', cj_payload = Some JNull,
        cj_priority = prio, cj_max_attempts = None, cj_retry_backoff = None, cj_scheduled_at = Some 0,
        cj_expires_at = Some 5, cj_reference = None, cj_idempotency_key = None,
        cj_runtime_override = None, cj_worker_id_override = None, cj_worker_labels_override = None,
        cj_actor_type = None, cj_actor_id = None, cj_tags = []\<rparr>)\<lparr>j_state := st\<rparr>"

definition job_world :: "job list \<Rightarrow> world" where
  "job_world js = (sample_world [] [])\<lparr>w_queues := [sample_queue], w_jobs := js\<rparr>"

definition sample_processor :: "method_impl \<Rightarrow> processor" where
  "sample_processor m =
     \<lparr>qp_registry = Register ''http'' m NewRegistry, qp_workerDispatch = None, qp_logBackend = False\<rparr>"

lemmas job_samples = sample_queue_def sample_job_def new_job_def job_world_def jobs_ok_def
  sample_processor_def sample_world_def empty_world_def

lemma sample_job_at [simp]: "job_at (job_world (j # js)) k =
    (if j_id j = k then Some j else lookup_key j_id k js)"
  by (simp add: job_at_def job_world_def)

lemma sample_job_simps [simp]:
  "j_id (sample_job jid prio st) = jid" "j_state (sample_job jid prio st) = st"
  "j_queue_id (sample_job jid prio st) = ''que_1''" "j_execution_handle (sample_job jid prio st) = None"
  by (simp_all add: job_samples)

lemma sample_jobs:
  "w_jobs (job_world js) = js" "jobs_ok (job_world [j])"
  by (simp_all add: job_world_def jobs_ok_def)

theorem finalizeJobResult_classifies_witness:
  "\<exists>j'. job_at (finalizeJobResult (sample_processor (sample_blocking 1)) (calm 100) ''job_1'' '''' 1 JobRunning 0
       3 ''30s'' 0 (sample_result 1) False (job_world [sample_job ''job_1'' 0 JobRunning])) ''job_1'' = Some j' \<and>
     j_state j' = JobRetrying"
  using finalizeJobResult_classifies[of "calm 100" "job_world [sample_job ''job_1'' 0 JobRunning]" "''job_1''"
      "sample_job ''job_1'' 0 JobRunning" 1 "sample_processor (sample_blocking 1)" "''''" JobRunning 0 3 "''30s''" 0
      "sample_result 1" False]
  by (auto simp: IsSuccess_def sample_result_def)



theorem concurrency_check_races_witness:
  "int (running_in ''que_1'' (snd (begin_job (calm 3) (sample_job ''job_2'' 0 JobPending) sample_queue (sample_blocking 0)
     (snd (begin_job (calm 3) (sample_job ''job_1'' 0 JobPending) sample_queue (sample_blocking 0)
       (job_world [sample_job ''job_1'' 0 JobPending, sample_job ''job_2'' 0 JobPending])))))) = 2"
proof -
  let ?m = "sample_blocking 0"
  let ?j1 = "sample_job ''job_1'' 0 JobPending" and ?j2 = "sample_job ''job_2'' 0 JobPending"
  have w: "jobs_ok (job_world [?j1, ?j2])" "running_in ''que_1'' (job_world [?j1, ?j2]) = 0"
    by (simp_all add: jobs_ok_def running_in_def job_world_def)
  have q: "q_id sample_queue = ''que_1''" "q_concurrency sample_queue = 1"
    "registry_Get (qp_registry (sample_processor ?m)) (q_execution_method sample_queue) = Some ?m"
    "direct_job (sample_processor ?m) (j, sample_queue)" for j
    by (simp_all add: sample_queue_def sample_processor_def registry_Get_def Register_def direct_job_def)
  show ?thesis
    using concurrency_check_races[OF no_faults_calm w(1), of ?j1 ?j2 sample_queue "sample_processor ?m" ?m] w(2) q
    by simp
qed

theorem refused_submission_stays_running_witness:
  "\<exists>j'. job_at (job_dispatch_finish (sample_processor (sample_blocking 0)) (calm 3)
       \<lparr>jc_job = sample_job ''job_1'' 0 JobPending, jc_queue = sample_queue, jc_method = sample_blocking 0,
        jc_params = job_start_params (sample_job ''job_1'' 0 JobPending) sample_queue,
        jc_attempt_id = ''jat_'', jc_attempt = 1, jc_start = 3\<rparr>
       (\<lparr>sr_handle = \<lparr>h_method_name = [], h_run_id = [], h_data = None\<rparr>, sr_accepted_at = 0, sr_result = None\<rparr>,
        Some (ErrText ''forbidden''))
       (job_world [sample_job ''job_1'' 0 JobRunning])) ''job_1'' = Some j' \<and> j_state j' = JobRunning"
  using refused_submission_stays_running[of "calm 3" "job_world [sample_job ''job_1'' 0 JobRunning]"
      "\<lparr>jc_job = sample_job ''job_1'' 0 JobPending, jc_queue = sample_queue, jc_method = sample_blocking 0,
        jc_params = job_start_params (sample_job ''job_1'' 0 JobPending) sample_queue,
        jc_attempt_id = ''jat_'', jc_attempt = 1, jc_start = 3\<rparr>" "sample_job ''job_1'' 0 JobRunning"
      "\<lparr>sr_handle = \<lparr>h_method_name = [], h_run_id = [], h_data = None\<rparr>, sr_accepted_at = 0, sr_result = None\<rparr>"
      "sample_processor (sample_blocking 0)" "ErrText ''forbidden''"]
  by auto

theorem processAsyncJobs_active_only_witness:
  "job_at (processAsyncJobs (sample_processor (sample_async (sample_poll RemoteFailed None))) (calm 5)
     (job_world [sample_job ''job_1'' 0 JobCompleted])) ''job_1'' = Some (sample_job ''job_1'' 0 JobCompleted)"
  by (rule processAsyncJobs_active_only) (simp_all add: sample_jobs)

theorem expire_jobs_cancels_witness:
  "\<exists>j'. job_at (expire_jobs (calm 9) (job_world [sample_job ''job_1'' 0 JobPending])) ''job_1'' = Some j' \<and>
     j_state j' = JobCancelled \<and> j_cancel_reason j' = Some ''expired''"
proof -
  have due: "expired_now (calm 9) (sample_job ''job_1'' 0 JobPending)"
    by (simp add: expired_now_def due_def job_samples)
  have "length (filter (expired_now (calm 9)) (w_jobs (job_world [sample_job ''job_1'' 0 JobPending]))) \<le> 100"
    by (simp add: sample_jobs)
  from expire_jobs_cancels[OF no_faults_calm _ _ this, of "''job_1''" "sample_job ''job_1'' 0 JobPending"] due
  show ?thesis by (simp add: sample_jobs)
qed

end
