(* ===== verification/Worker_Queries.thy ===== *)
theory Worker_Queries
  imports Job_Queries
begin

text \<open>
  The queries on workers, \<open>internal/db/workers.sql.go\<close>, and the reads of credentials that
  \<open>main.go\<close> issues itself.
\<close>

section \<open>Reading\<close>

definition CountRunningByWorker :: "env \<Rightarrow> string option \<Rightarrow> world \<Rightarrow> int answer" where
  "CountRunningByWorker e wid w =
     db_read e ''CountRunningByWorker'' (Inr (int (length (filter
       (\<lambda>r. wid \<noteq> None \<and> r_worker_id r = wid \<and> r_state r = Running) (w_runs w)))))"

definition GetWorker :: "env \<Rightarrow> string \<Rightarrow> string \<Rightarrow> world \<Rightarrow> worker answer" where
  "GetWorker e wid ws w =
     db_read e ''GetWorker''
       (one_row (List.find (\<lambda>x. wk_id x = wid \<and> wk_workspace_id x = ws) (w_workers w)))"

definition GetWorkerByEnrollmentToken :: "env \<Rightarrow> string option \<Rightarrow> world \<Rightarrow> worker answer" where
  "GetWorkerByEnrollmentToken e h w =
     db_read e ''GetWorkerByEnrollmentToken'' (one_row (List.find
       (\<lambda>x. h \<noteq> None \<and> wk_enrollment_token_hash x = h \<and>
          (case wk_enrollment_token_expires_at x of None \<Rightarrow> False | Some t \<Rightarrow> t > e_db_now e))
       (w_workers w)))"

definition running_runs_of :: "world \<Rightarrow> worker \<Rightarrow> int" where
  "running_runs_of w x =
     int (length (filter (\<lambda>r. r_worker_id r = Some (wk_id x) \<and> r_state r = Running) (w_runs w)))"

definition ListOnlineWorkers :: "env \<Rightarrow> string \<Rightarrow> int \<Rightarrow> world \<Rightarrow> worker list answer" where
  "ListOnlineWorkers e ws lmt w =
     db_read e ''ListOnlineWorkers'' (Inr (take (nat lmt) (sort_key (running_runs_of w)
       (filter (\<lambda>x. wk_workspace_id x = ws \<and> wk_enabled x \<and> wk_status x = ''online'') (w_workers w)))))"

definition ListStaleWorkers :: "env \<Rightarrow> world \<Rightarrow> worker list answer" where
  "ListStaleWorkers e w =
     db_read e ''ListStaleWorkers'' (Inr (filter
       (\<lambda>x. wk_enabled x \<and> wk_status x = ''online'' \<and>
          (case wk_last_heartbeat_at x of None \<Rightarrow> False | Some t \<Rightarrow> t < e_db_now e - 60 * second))
       (w_workers w)))"

section \<open>Writing\<close>

record create_worker_params =
  cw_id :: string
  cw_workspace_id :: string
  cw_name :: string
  cw_credential_hash :: string
  cw_labels :: "json option"
  cw_max_concurrency :: int

definition create_worker_violation :: "create_worker_params \<Rightarrow> world \<Rightarrow> go_error option" where
  "create_worker_violation a w = first_violation
     [(cw_labels a = None, not_null_violation ''labels''),
      (has_key wk_id (cw_id a) (w_workers w), unique_violation ''workers_pkey''),
      (has_key wk_credential_hash (cw_credential_hash a) (w_workers w),
       unique_violation ''workers_credential_hash_key''),
      (\<exists>x\<in>set (w_workers w). wk_workspace_id x = cw_workspace_id a \<and> wk_name x = cw_name a,
       unique_violation ''workers_workspace_id_name_key''),
      (\<not> has_key wsp_id (cw_workspace_id a) (w_workspaces w),
       foreign_key_violation ''workers_workspace_id_fkey'')]"

definition new_worker :: "env \<Rightarrow> create_worker_params \<Rightarrow> worker" where
  "new_worker e a =
     \<lparr>wk_id = cw_id a, wk_workspace_id = cw_workspace_id a, wk_name = cw_name a,
      wk_credential_hash = cw_credential_hash a, wk_labels = the (cw_labels a),
      wk_capabilities = JObj [], wk_max_concurrency = cw_max_concurrency a, wk_version = None,
      wk_enabled = True, wk_status = ''offline'', wk_last_heartbeat_at = None,
      wk_consecutive_failures = 0, wk_consecutive_healthy = 0, wk_created_at = e_db_now e,
      wk_updated_at = e_db_now e, wk_enrollment_token_hash = None,
      wk_enrollment_token_expires_at = None\<rparr>"

definition db_CreateWorker :: "env \<Rightarrow> create_worker_params \<Rightarrow> world \<Rightarrow> worker answer \<times> world" where
  "db_CreateWorker e a w =
     (let (err, w') = db_exec e ''CreateWorker'' (create_worker_violation a w)
            (\<lambda>w. w\<lparr>w_workers := w_workers w @ [new_worker e a]\<rparr>) w
      in (case err of Some x \<Rightarrow> Inl x | None \<Rightarrow> Inr (new_worker e a), w'))"

text \<open>\<open>DELETE FROM workers\<close>; the references to the worker are set to NULL.\<close>

definition unassign :: "string \<Rightarrow> string option \<Rightarrow> string option" where
  "unassign wid x = (if x = Some wid then None else x)"

definition drop_worker :: "string \<Rightarrow> world \<Rightarrow> world" where
  "drop_worker wid w = w\<lparr>
     w_workers := filter (\<lambda>x. wk_id x \<noteq> wid) (w_workers w),
     w_processes := map (\<lambda>p. p\<lparr>p_worker_id := unassign wid (p_worker_id p)\<rparr>) (w_processes w),
     w_runs := map (\<lambda>r. r\<lparr>r_worker_id := unassign wid (r_worker_id r)\<rparr>) (w_runs w),
     w_run_attempts := map (\<lambda>a. a\<lparr>ra_worker_id := unassign wid (ra_worker_id a)\<rparr>) (w_run_attempts w),
     w_queues := map (\<lambda>q. q\<lparr>q_worker_id := unassign wid (q_worker_id q)\<rparr>) (w_queues w),
     w_jobs := map (\<lambda>j. j\<lparr>j_worker_id_override := unassign wid (j_worker_id_override j),
        j_worker_id := unassign wid (j_worker_id j)\<rparr>) (w_jobs w),
     w_job_attempts := map (\<lambda>a. a\<lparr>ja_worker_id := unassign wid (ja_worker_id a)\<rparr>) (w_job_attempts w)\<rparr>"

definition DeleteWorker :: "env \<Rightarrow> string \<Rightarrow> string \<Rightarrow> world \<Rightarrow> int answer \<times> world" where
  "DeleteWorker e wid ws w =
     (let hit = (\<exists>x\<in>set (w_workers w). wk_id x = wid \<and> wk_workspace_id x = ws);
          (err, w') = db_exec e ''DeleteWorker'' None (\<lambda>w. if hit then drop_worker wid w else w) w
      in (case err of Some x \<Rightarrow> Inl x | None \<Rightarrow> Inr (if hit then 1 else 0), w'))"

definition on_worker :: "string \<Rightarrow> (worker \<Rightarrow> worker) \<Rightarrow> world \<Rightarrow> world" where
  "on_worker wid f w = w\<lparr>w_workers := update_key wk_id wid f (w_workers w)\<rparr>"

definition IncrementWorkerFailures :: "env \<Rightarrow> string \<Rightarrow> world \<Rightarrow> go_error option \<times> world" where
  "IncrementWorkerFailures e wid w =
     db_exec e ''IncrementWorkerFailures'' None (on_worker wid (\<lambda>x. x\<lparr>
       wk_consecutive_failures := wk_consecutive_failures x + 1, wk_consecutive_healthy := 0,
       wk_updated_at := e_db_now e\<rparr>)) w"

definition SetWorkerStatus :: "env \<Rightarrow> string \<Rightarrow> string \<Rightarrow> world \<Rightarrow> go_error option \<times> world" where
  "SetWorkerStatus e wid status w =
     db_exec e ''SetWorkerStatus''
       (if has_key wk_id wid (w_workers w) \<and> status \<notin> {''online'', ''offline'', ''unhealthy''}
        then Some (check_violation ''workers_status_check'') else None)
       (on_worker wid (\<lambda>x. x\<lparr>wk_status := status, wk_updated_at := e_db_now e\<rparr>)) w"

definition SetWorkerEnabled :: "env \<Rightarrow> string \<Rightarrow> string \<Rightarrow> bool \<Rightarrow> world \<Rightarrow> go_error option \<times> world" where
  "SetWorkerEnabled e wid ws enabled w =
     db_exec e ''SetWorkerEnabled'' None
       (\<lambda>w. w\<lparr>w_workers := update_where (\<lambda>x. wk_id x = wid \<and> wk_workspace_id x = ws)
          (\<lambda>x. x\<lparr>wk_enabled := enabled, wk_updated_at := e_db_now e\<rparr>) (w_workers w)\<rparr>) w"

definition SetWorkerEnrollmentToken ::
  "env \<Rightarrow> string \<Rightarrow> string option \<Rightarrow> instant option \<Rightarrow> world \<Rightarrow> go_error option \<times> world" where
  "SetWorkerEnrollmentToken e wid h expires w =
     db_exec e ''SetWorkerEnrollmentToken'' None (on_worker wid (\<lambda>x. x\<lparr>
       wk_enrollment_token_hash := h, wk_enrollment_token_expires_at := expires,
       wk_updated_at := e_db_now e\<rparr>)) w"

definition UpdateWorkerCredentialHash ::
  "env \<Rightarrow> string \<Rightarrow> string \<Rightarrow> world \<Rightarrow> go_error option \<times> world" where
  "UpdateWorkerCredentialHash e wid h w =
     db_exec e ''UpdateWorkerCredentialHash''
       (if has_key wk_id wid (w_workers w) \<and>
           (\<exists>x\<in>set (w_workers w). wk_id x \<noteq> wid \<and> wk_credential_hash x = h)
        then Some (unique_violation ''workers_credential_hash_key'') else None)
       (on_worker wid (\<lambda>x. x\<lparr>wk_credential_hash := h, wk_enrollment_token_hash := None,
          wk_enrollment_token_expires_at := None, wk_updated_at := e_db_now e\<rparr>)) w"

definition UpdateWorkerHeartbeat ::
  "env \<Rightarrow> string \<Rightarrow> json option \<Rightarrow> string option \<Rightarrow> world \<Rightarrow> go_error option \<times> world" where
  "UpdateWorkerHeartbeat e wid capabilities version w =
     db_exec e ''UpdateWorkerHeartbeat'' None (on_worker wid (\<lambda>x. x\<lparr>
       wk_last_heartbeat_at := Some (e_db_now e), wk_status := ''online'',
       wk_capabilities := (case capabilities of Some c \<Rightarrow> c | None \<Rightarrow> wk_capabilities x),
       wk_version := coalesce version (wk_version x), wk_consecutive_failures := 0,
       wk_consecutive_healthy := wk_consecutive_healthy x + 1, wk_updated_at := e_db_now e\<rparr>)) w"

definition UpdateWorkerLabels ::
  "env \<Rightarrow> string \<Rightarrow> string \<Rightarrow> json option \<Rightarrow> world \<Rightarrow> go_error option \<times> world" where
  "UpdateWorkerLabels e wid ws labels w =
     db_exec e ''UpdateWorkerLabels''
       (if labels = None \<and> (\<exists>x\<in>set (w_workers w). wk_id x = wid \<and> wk_workspace_id x = ws)
        then Some (not_null_violation ''labels'') else None)
       (\<lambda>w. w\<lparr>w_workers := update_where (\<lambda>x. wk_id x = wid \<and> wk_workspace_id x = ws)
          (\<lambda>x. x\<lparr>wk_labels := the labels, wk_updated_at := e_db_now e\<rparr>) (w_workers w)\<rparr>) w"

section \<open>Facts\<close>

definition worker_at :: "world \<Rightarrow> string \<Rightarrow> worker option" where
  "worker_at w k = lookup_key wk_id k (w_workers w)"

lemma worker_at_on_worker:
  "(\<And>x. wk_id (f x) = wk_id x) \<Longrightarrow>
   worker_at (on_worker wid f w) k = (if k = wid then map_option f (worker_at w k) else worker_at w k)"
  unfolding worker_at_def on_worker_def update_key_def
  by (cases "lookup_key wk_id k (w_workers w)")
    (auto simp: lookup_key_update_where dest: lookup_key_SomeD)

lemma GetWorker_SomeD:
  "GetWorker e wid ws w = Inr x \<Longrightarrow> x \<in> set (w_workers w) \<and> wk_id x = wid \<and> wk_workspace_id x = ws"
  by (auto simp: GetWorker_def db_read_def one_row_def find_Some_iff in_set_conv_nth
      split: option.splits)

lemma ListOnlineWorkers_mem:
  "ListOnlineWorkers e ws lmt w = Inr xs \<Longrightarrow> x \<in> set xs \<Longrightarrow>
   x \<in> set (w_workers w) \<and> wk_workspace_id x = ws \<and> wk_enabled x \<and> wk_status x = ''online''"
  by (auto simp: ListOnlineWorkers_def db_read_def split: option.splits dest!: in_set_takeD)

lemma GetWorkerByEnrollmentToken_SomeD:
  "GetWorkerByEnrollmentToken e h w = Inr x \<Longrightarrow>
   x \<in> set (w_workers w) \<and> h \<noteq> None \<and> wk_enrollment_token_hash x = h \<and>
   (\<exists>t. wk_enrollment_token_expires_at x = Some t \<and> t > e_db_now e)"
  by (auto simp: GetWorkerByEnrollmentToken_def db_read_def one_row_def find_Some_iff
      in_set_conv_nth split: option.splits)

lemma GetWorkerByEnrollmentToken_none:
  assumes "\<forall>x\<in>set (w_workers w). wk_enrollment_token_hash x \<noteq> h"
  shows "\<exists>err. GetWorkerByEnrollmentToken e h w = Inl err"
  using assms GetWorkerByEnrollmentToken_SomeD[of e h w]
  by (cases "GetWorkerByEnrollmentToken e h w") auto

end
