(* ===== verification/Worker_Dispatch.thy ===== *)
theory Worker_Dispatch
  imports Worker_Queries Backoff "HOL-Library.List_Lexorder" "HOL-Library.Char_ord"
begin

text \<open>
  The control-plane side of the worker runtime, \<open>internal/worker/dispatcher.go\<close>: routing of tasks
  to workers, the task channels the long polls read, heartbeats, results and stale workers. A
  channel is the list of its tasks, of at most ten; \<open>PollTask\<close> answers \<open>None\<close> where the Go code
  waits until its context ends.
\<close>

section \<open>Channels\<close>

text \<open>
  The contract of a bounded first-in first-out channel between senders that do not wait and
  receivers, and what any sequence of sends and receipts does under it.
\<close>

text \<open>
  \<open>exchange send recv ops s\<close> performs sends (\<open>Some x\<close>) and receipts (\<open>None\<close>): the values that were
  accepted, the values that came out, and the state at the end.
\<close>

primrec exchange ::
  "('x \<Rightarrow> 's \<Rightarrow> bool \<times> 's) \<Rightarrow> ('s \<Rightarrow> 'x option \<times> 's) \<Rightarrow> 'x option list \<Rightarrow> 's \<Rightarrow>
   'x list \<times> 'x list \<times> 's" where
  "exchange send recv [] s = ([], [], s)"
| "exchange send recv (op # ops) s =
     (case op of
        Some x \<Rightarrow>
          (let (ok, s1) = send x s; (acc, out, s2) = exchange send recv ops s1
           in (if ok then x # acc else acc, out, s2))
      | None \<Rightarrow>
          (let (r, s1) = recv s; (acc, out, s2) = exchange send recv ops s1
           in (acc, (case r of None \<Rightarrow> out | Some x \<Rightarrow> x # out), s2)))"

locale fifo =
  fixes contents :: "'s \<Rightarrow> 'x list" and send :: "'x \<Rightarrow> 's \<Rightarrow> bool \<times> 's"
    and recv :: "'s \<Rightarrow> 'x option \<times> 's" and cap :: nat
  assumes send_ok: "fst (send x s) \<longleftrightarrow> length (contents s) < cap"
    and send_contents:
      "contents (snd (send x s)) = (if fst (send x s) then contents s @ [x] else contents s)"
    and recv_head: "fst (recv s) = (case contents s of [] \<Rightarrow> None | x # _ \<Rightarrow> Some x)"
    and recv_contents: "contents (snd (recv s)) = tl (contents s)"
begin

lemma bounded_send: "length (contents s) \<le> cap \<Longrightarrow> length (contents (snd (send x s))) \<le> cap"
  using send_ok[of x s] by (simp add: send_contents)

lemma bounded_recv: "length (contents s) \<le> cap \<Longrightarrow> length (contents (snd (recv s))) \<le> cap"
  by (simp add: recv_contents)

lemma bounded:
  "length (contents s) \<le> cap \<Longrightarrow> exchange send recv ops s = (acc, out, s') \<Longrightarrow>
   length (contents s') \<le> cap"
proof (induction ops arbitrary: s acc out s')
  case Nil
  then show ?case by simp
next
  case (Cons op ops)
  show ?case
  proof (cases op)
    case None
    then show ?thesis
      using Cons.prems Cons.IH[OF bounded_recv[OF Cons.prems(1)]]
      by (cases "recv s"; cases "exchange send recv ops (snd (recv s))") auto
  next
    case (Some x)
    then show ?thesis
      using Cons.prems Cons.IH[OF bounded_send[OF Cons.prems(1), of x]]
      by (cases "send x s"; cases "exchange send recv ops (snd (send x s))") auto
  qed
qed

text \<open>Nothing is lost, invented or reordered.\<close>

lemma in_order:
  "exchange send recv ops s = (acc, out, s') \<Longrightarrow> contents s @ acc = out @ contents s'"
proof (induction ops arbitrary: s acc out s')
  case Nil
  then show ?case by simp
next
  case (Cons op ops)
  show ?case
  proof (cases op)
    case None
    obtain acc1 out1 s1 where ex: "exchange send recv ops (snd (recv s)) = (acc1, out1, s1)"
      using prod_cases3 by blast
    have "tl (contents s) @ acc1 = out1 @ contents s1"
      using Cons.IH[OF ex] by (simp add: recv_contents)
    then show ?thesis
      using Cons.prems None ex recv_head[of s] by (cases "contents s") (auto split: prod.splits)
  next
    case (Some x)
    obtain acc1 out1 s1 where ex: "exchange send recv ops (snd (send x s)) = (acc1, out1, s1)"
      using prod_cases3 by blast
    have "contents (snd (send x s)) @ acc1 = out1 @ contents s1"
      using Cons.IH[OF ex] .
    then show ?thesis
      using Cons.prems Some ex send_contents[of x s] by (auto split: prod.splits if_splits)
  qed
qed

end

section \<open>Labels\<close>

text \<open>
  \<open>equalJSONValue\<close> compares the texts \<open>json.Marshal\<close> prints, in which the keys of an object are
  sorted; so it compares the values with their keys sorted.
\<close>

primrec json_canon :: "json \<Rightarrow> json" where
  "json_canon JNull = JNull"
| "json_canon (JBool b) = JBool b"
| "json_canon (JNum n) = JNum n"
| "json_canon (JStr s) = JStr s"
| "json_canon (JArr xs) = JArr (map json_canon xs)"
| "json_canon (JObj kvs) = JObj (sort_key fst (map (map_prod id json_canon) kvs))"

definition equalJSONValue :: "json \<Rightarrow> json \<Rightarrow> bool" where
  "equalJSONValue left right \<longleftrightarrow> json_canon left = json_canon right"

definition matchesWorkerLabels :: "json \<Rightarrow> json option \<Rightarrow> bool" where
  "matchesWorkerLabels worker_labels required =
     (case required of
        None \<Rightarrow> True
      | Some JNull \<Rightarrow> True
      | Some req \<Rightarrow>
          (case unmarshal_strings req of
             Some wanted \<Rightarrow>
               (case unmarshal_strings worker_labels of
                  None \<Rightarrow> False
                | Some available \<Rightarrow> list_all (\<lambda>l. List.member available l) wanted)
           | None \<Rightarrow>
               (case unmarshal_map req of
                  None \<Rightarrow> False
                | Some wanted \<Rightarrow>
                    (case unmarshal_map worker_labels of
                       None \<Rightarrow> False
                     | Some available \<Rightarrow>
                         list_all (\<lambda>(k, v). case map_of (case available of None \<Rightarrow> [] | Some m \<Rightarrow> m) k of
                             None \<Rightarrow> False | Some v' \<Rightarrow> equalJSONValue v' v)
                           (case wanted of None \<Rightarrow> [] | Some m \<Rightarrow> m)))))"

section \<open>Selection\<close>

definition active_load :: "world \<Rightarrow> string \<Rightarrow> int" where
  "active_load w wid =
     int (length (filter (\<lambda>r. r_worker_id r = Some wid \<and> r_state r \<in> {Running, KillRequested}) (w_runs w))) +
     int (length (filter (\<lambda>j. j_worker_id j = Some wid \<and> j_state j \<in> {JobRunning, JobKillRequested}) (w_jobs w)))"

definition countActiveByWorker :: "env \<Rightarrow> string \<Rightarrow> world \<Rightarrow> int answer" where
  "countActiveByWorker e wid w = db_read e ''countActiveByWorker'' (Inr (active_load w wid))"

text \<open>One turn of the loop: the worker chosen so far and its load.\<close>

definition select_step ::
  "env \<Rightarrow> json option \<Rightarrow> world \<Rightarrow> worker \<Rightarrow> worker option \<times> int \<Rightarrow> worker option \<times> int" where
  "select_step e labels w x acc = (let (selected, best) = acc in
     if \<not> matchesWorkerLabels (wk_labels x) labels then acc
     else (case countActiveByWorker e (wk_id x) w of
             Inl _ \<Rightarrow> acc
           | Inr load \<Rightarrow>
               if load \<ge> wk_max_concurrency x then acc
               else if selected = None \<or> load < best then (Some x, load) else acc))"

definition selectWorker :: "env \<Rightarrow> worker list \<Rightarrow> json option \<Rightarrow> world \<Rightarrow> worker option" where
  "selectWorker e workers labels w =
     fst (fold (select_step e labels w) workers (None, 4611686018427387903))"

section \<open>Task channels\<close>

definition channel :: "string \<Rightarrow> world \<Rightarrow> task list" where
  "channel wid w = (case w_task_queues w wid of None \<Rightarrow> [] | Some ts \<Rightarrow> ts)"

definition getOrCreateChannel :: "string \<Rightarrow> world \<Rightarrow> world" where
  "getOrCreateChannel wid w = w\<lparr>w_task_queues := (w_task_queues w)(wid \<mapsto> channel wid w)\<rparr>"

text \<open>The \<open>select\<close> with a send and a default: false when the channel is full.\<close>

definition try_send :: "string \<Rightarrow> task \<Rightarrow> world \<Rightarrow> bool \<times> world" where
  "try_send wid t w =
     (let w = getOrCreateChannel wid w
      in if length (channel wid w) < 10
         then (True, w\<lparr>w_task_queues := (w_task_queues w)(wid \<mapsto> channel wid w @ [t])\<rparr>)
         else (False, w))"

definition PollTask :: "string \<Rightarrow> world \<Rightarrow> task option \<times> world" where
  "PollTask wid w =
     (let w = getOrCreateChannel wid w
      in case channel wid w of
           [] \<Rightarrow> (None, w)
         | t # ts \<Rightarrow> (Some t, w\<lparr>w_task_queues := (w_task_queues w)(wid \<mapsto> ts)\<rparr>))"

lemma channel_create [simp]: "channel k (getOrCreateChannel wid w) = channel k w"
  by (simp add: channel_def getOrCreateChannel_def)

lemma try_send_eq:
  "fst (try_send wid t w) \<longleftrightarrow> length (channel wid w) < 10"
  "channel k (snd (try_send wid t w)) =
     (if k = wid \<and> length (channel wid w) < 10 then channel k w @ [t] else channel k w)"
  by (simp_all add: try_send_def Let_def) (auto simp: channel_def getOrCreateChannel_def)

lemma PollTask_eq:
  "fst (PollTask wid w) = (case channel wid w of [] \<Rightarrow> None | t # _ \<Rightarrow> Some t)"
  "channel k (snd (PollTask wid w)) = (if k = wid then tl (channel k w) else channel k w)"
  by (simp_all add: PollTask_def Let_def split: list.split)
    (auto simp: channel_def getOrCreateChannel_def)

interpretation task_channel: fifo "channel wid" "try_send wid" "PollTask wid" 10 for wid
  by unfold_locales (auto simp: try_send_eq PollTask_eq)

text \<open>The worker a task goes to, before its capacity is checked.\<close>

definition route_task ::
  "env \<Rightarrow> string \<Rightarrow> string option \<Rightarrow> json option \<Rightarrow> world \<Rightarrow> worker option answer" where
  "route_task e ws pinned labels w =
     (if pinned \<noteq> None \<and> pinned \<noteq> Some [] then
        (case GetWorker e (the pinned) ws w of
           Inl err \<Rightarrow> Inl err
         | Inr x \<Rightarrow> if \<not> wk_enabled x \<or> wk_status x \<noteq> ''online'' then Inr None else Inr (Some x))
      else
        (case ListOnlineWorkers e ws 100 w of
           Inl _ \<Rightarrow> Inr None
         | Inr workers \<Rightarrow> if workers = [] then Inr None else Inr (selectWorker e workers labels w)))"

text \<open>\<open>Dispatch\<close>: the id of the worker, or the empty string when none takes the task.\<close>

definition Dispatch ::
  "env \<Rightarrow> string \<Rightarrow> task \<Rightarrow> string option \<Rightarrow> json option \<Rightarrow> world \<Rightarrow> string answer \<times> world" where
  "Dispatch e ws t pinned labels w =
     (case route_task e ws pinned labels w of
        Inl err \<Rightarrow> (Inl err, w)
      | Inr None \<Rightarrow> (Inr [], w)
      | Inr (Some x) \<Rightarrow>
          (case countActiveByWorker e (wk_id x) w of
             Inl _ \<Rightarrow> (Inr [], w)
           | Inr running \<Rightarrow>
               if running \<ge> wk_max_concurrency x then (Inr [], w)
               else (let (sent, w) = try_send (wk_id x) t w
                     in (Inr (if sent then wk_id x else []), w))))"

section \<open>Heartbeats and stale workers\<close>

definition ProcessHeartbeat ::
  "env \<Rightarrow> string \<Rightarrow> json option \<Rightarrow> string \<Rightarrow> world \<Rightarrow> go_error option \<times> world" where
  "ProcessHeartbeat e wid capabilities version w =
     UpdateWorkerHeartbeat e wid capabilities (Some version) w"

definition reassignWorkerRuns :: "env \<Rightarrow> string \<Rightarrow> world \<Rightarrow> world" where
  "reassignWorkerRuns e wid w =
     snd (db_exec e ''reassignWorkerRuns'' None
       (\<lambda>w. w\<lparr>w_runs := update_where (\<lambda>r. r_worker_id r = Some wid \<and> r_state r = WaitingForWorker)
          (\<lambda>r. r\<lparr>r_state := Pending, r_worker_id := None, r_waiting_reason := None,
             r_updated_at := e_db_now e\<rparr>) (w_runs w)\<rparr>) w)"

definition mark_stale :: "env \<Rightarrow> worker \<Rightarrow> world \<Rightarrow> world" where
  "mark_stale e x w =
     (let w = snd (IncrementWorkerFailures e (wk_id x) w);
          status = (if wrap32 (wk_consecutive_failures x + 1) \<ge> 5 then ''unhealthy'' else ''offline'');
          w = snd (SetWorkerStatus e (wk_id x) status w)
      in reassignWorkerRuns e (wk_id x) w)"

definition checkStaleWorkers :: "env \<Rightarrow> world \<Rightarrow> world" where
  "checkStaleWorkers e w =
     (case ListStaleWorkers e w of
        Inl _ \<Rightarrow> w
      | Inr stale \<Rightarrow> fold (mark_stale e) stale w)"

section \<open>Results\<close>

record task_result =
  tr_task_id :: string
  tr_attempt_id :: string
  tr_exit_code :: "int option"
  tr_response_code :: "int option"
  tr_stdout :: string
  tr_stderr :: string
  tr_response_body :: string
  tr_duration_ms :: int
  tr_error :: string

definition task_success :: "task_result \<Rightarrow> bool" where
  "task_success r \<longleftrightarrow>
     (case tr_exit_code r of
        Some c \<Rightarrow> c = 0
      | None \<Rightarrow>
          (case tr_response_code r of
             Some c \<Rightarrow> 200 \<le> c \<and> c < 300
           | None \<Rightarrow> False)) \<and> tr_error r = []"

definition finishJobAttempt :: "env \<Rightarrow> queue \<Rightarrow> task_result \<Rightarrow> world \<Rightarrow> go_error option \<times> world" where
  "finishJobAttempt e q r w =
     (let body = tr_response_body r;
          cut = q_max_response_size q > 0 \<and> int (length body) > q_max_response_size q
      in FinishJobAttempt e
           \<lparr>fj_id = tr_attempt_id r, fj_finished_at = Some (e_now e),
            fj_duration_ms = Some (tr_duration_ms r),
            fj_response_code = map_option wrap32 (tr_response_code r), fj_truncated = cut,
            fj_response_headers = None,
            fj_response_body = Some (if cut then take (nat (q_max_response_size q)) body else body),
            fj_original_size = Some (int (length body)),
            fj_error_message = (if tr_error r \<noteq> [] then Some (tr_error r) else None)\<rparr> w)"

definition run_result :: "env \<Rightarrow> task_result \<Rightarrow> world \<Rightarrow> go_error option \<times> world" where
  "run_result e r w =
     (let asked = (e_fault e ''SelectRunState'' = None \<and>
            (case lookup_key r_id (tr_task_id r) (w_runs w) of
               None \<Rightarrow> False | Some run \<Rightarrow> r_state run = KillRequested));
          state = (if asked \<and> \<not> task_success r then Killed
                   else if task_success r then Completed else Failed)
      in UpdateRunState e ((run_upd (tr_task_id r) state)
           \<lparr>us_finished_at := Some (e_now e), us_duration_ms := Some (tr_duration_ms r),
            us_exit_code := map_option wrap32 (tr_exit_code r)\<rparr>) w)"

definition classify_job ::
  "env \<Rightarrow> task_result \<Rightarrow> job_state \<Rightarrow> job \<Rightarrow> queue \<Rightarrow> world \<Rightarrow> go_error option \<times> world" where
  "classify_job e r current j q w =
     (let end_in = \<lambda>s. UpdateJobState e ((job_upd (tr_task_id r) s)
            \<lparr>uj_duration_ms := Some (tr_duration_ms r)\<rparr>) w
      in if current = JobKillRequested \<and> \<not> task_success r then end_in JobKilled
         else if task_success r then end_in JobCompleted
         else if j_attempt j < (case j_max_attempts j of Some n \<Rightarrow> n | None \<Rightarrow> q_max_attempts q) then
           (let next_attempt = wrap32 (j_attempt j + 1)
            in case worker_calculateBackoff (e_now e) next_attempt
                      (worker_parseBackoffList (q_retry_backoff q) (j_retry_backoff j)) of
                 None \<Rightarrow> (None, w\<lparr>w_panicked := True\<rparr>)
               | Some next_at \<Rightarrow>
                   UpdateJobState e ((job_upd (tr_task_id r) JobRetrying)
                     \<lparr>uj_attempt := Some next_attempt, uj_next_attempt_at := Some next_at,
                      uj_duration_ms := Some (tr_duration_ms r)\<rparr>) w)
         else end_in JobFailed)"

definition job_result :: "env \<Rightarrow> task_result \<Rightarrow> world \<Rightarrow> go_error option \<times> world" where
  "job_result e r w =
     (case db_read e ''SelectJobState'' (one_row (lookup_key j_id (tr_task_id r) (w_jobs w))) of
        Inl err \<Rightarrow> (Some err, w)
      | Inr row \<Rightarrow>
          (case GetJobWithQueue e (tr_task_id r) (j_workspace_id row) w of
             Inl err \<Rightarrow> (Some err, w)
           | Inr (j, q) \<Rightarrow>
               (case (if tr_attempt_id r \<noteq> [] then finishJobAttempt e q r w else (None, w)) of
                  (Some err, w) \<Rightarrow> (Some err, w)
                | (None, w) \<Rightarrow> classify_job e r (j_state row) j q w)))"

definition ProcessResult :: "env \<Rightarrow> task_result \<Rightarrow> world \<Rightarrow> go_error option \<times> world" where
  "ProcessResult e r w =
     (if length (tr_task_id r) > 4 \<and> take 4 (tr_task_id r) = ''run_'' then run_result e r w
      else if length (tr_task_id r) > 4 \<and> take 4 (tr_task_id r) = ''job_'' then job_result e r w
      else (None, w))"

end
