(* ===== verification/Wiring.thy ===== *)
theory Wiring
  imports Worker_Dispatch Queue_Processor Async_Runs Dependency
begin

text \<open>
  What \<open>main.go\<close> installs: the dependency resolver as the orchestrator's terminal callback, and
  the dispatch of runs and jobs to workers, with the credentials resolved into the method
  config.
\<close>

section \<open>Credentials\<close>

text \<open>\<open>firstNonEmptyPtr\<close>\<close>

fun firstNonEmptyPtr :: "string option list \<Rightarrow> string option" where
  "firstNonEmptyPtr [] = None"
| "firstNonEmptyPtr (v # vs) = (if v \<noteq> None \<and> v \<noteq> Some [] then v else firstNonEmptyPtr vs)"

definition scan_null :: go_error where
  "scan_null = ErrText ''cannot scan NULL''"

definition resolve_error :: "string \<Rightarrow> string \<Rightarrow> go_error \<Rightarrow> go_error" where
  "resolve_error kind cid err = ErrText (''resolve '' @ kind @ '' '' @ cid @ '': '' @ Error err)"

text \<open>\<open>Scan\<close> into a \<open>string\<close> and an \<open>int32\<close> refuses NULL.\<close>

definition scan_ssh :: "env \<Rightarrow> string \<Rightarrow> world \<Rightarrow> (string \<times> string \<times> int \<times> bool) answer" where
  "scan_ssh e cid w =
     db_read e ''SelectSshCredential''
       (case lookup_key sc_id cid (w_ssh_credentials w) of
          None \<Rightarrow> Inl ErrNoRows
        | Some c \<Rightarrow>
            (case (sc_username c, sc_port c) of
               (Some u, Some p) \<Rightarrow> Inr (sc_private_key_enc c, u, p, sc_strict_host_key c)
             | _ \<Rightarrow> Inl scan_null))"

definition resolve_ssh :: "env \<Rightarrow> go_map \<Rightarrow> world \<Rightarrow> go_error + go_map" where
  "resolve_ssh e cfg w =
     (let cid = map_string cfg ''ssh_credential_id''
      in if cid = [] then Inr cfg
         else (case scan_ssh e cid w of
                 Inl err \<Rightarrow> Inl (resolve_error ''ssh credential'' cid err)
               | Inr (key, user, port, strict) \<Rightarrow>
                   Inr (map_delete ''ssh_credential_id''
                     (map_put ''strict_host_key'' (JBool strict)
                       (map_put ''port'' (JNum (of_int port))
                         (map_put ''username'' (JStr user)
                           (map_put ''private_key'' (JStr key) cfg)))))))"

definition resolve_ssm :: "env \<Rightarrow> go_map \<Rightarrow> world \<Rightarrow> go_error + go_map" where
  "resolve_ssm e cfg w =
     (let pid = map_string cfg ''ssm_profile_id''
      in if pid = [] then Inr cfg
         else (case db_read e ''SelectSsmProfile'' (one_row (lookup_key sm_id pid (w_ssm_profiles w))) of
                 Inl err \<Rightarrow> Inl (resolve_error ''ssm profile'' pid err)
               | Inr p \<Rightarrow>
                   (let cfg = map_put ''region'' (JStr (sm_region p)) cfg;
                        cfg = (case sm_role_arn p of
                                 Some arn \<Rightarrow> map_put ''role_arn'' (JStr arn) cfg
                               | None \<Rightarrow> cfg)
                    in Inr (map_delete ''ssm_profile_id'' cfg))))"

definition resolve_k8s :: "env \<Rightarrow> go_map \<Rightarrow> world \<Rightarrow> go_error + go_map" where
  "resolve_k8s e cfg w =
     (let cid = map_string cfg ''k8s_cluster_id''
      in if cid = [] then Inr cfg
         else (case db_read e ''SelectK8sCluster'' (one_row (lookup_key kc_id cid (w_k8s_clusters w))) of
                 Inl err \<Rightarrow> Inl (resolve_error ''k8s cluster'' cid err)
               | Inr c \<Rightarrow>
                   (let cfg = map_put ''kubeconfig'' (JStr (kc_kubeconfig_enc c)) cfg;
                        cfg = (case kc_default_namespace c of
                                 Some ns \<Rightarrow>
                                   if map_of cfg ''namespace'' \<in> {None, Some JNull}
                                   then map_put ''namespace'' (JStr ns) cfg else cfg
                               | None \<Rightarrow> cfg)
                    in Inr (map_delete ''k8s_cluster_id'' cfg))))"

definition resolveCredentialsForWorker :: "env \<Rightarrow> string \<Rightarrow> go_map \<Rightarrow> world \<Rightarrow> go_error + go_map" where
  "resolveCredentialsForWorker e meth cfg w =
     (if meth = ''ssh'' then resolve_ssh e cfg w
      else if meth = ''ssm'' then resolve_ssm e cfg w
      else if meth = ''k8s'' then resolve_k8s e cfg w
      else Inr cfg)"

section \<open>Callbacks\<close>

text \<open>A JSON column as a \<open>map[string]any\<close>; NULL and what is not an object leave the map nil.\<close>

definition column_map :: "json option \<Rightarrow> go_map option" where
  "column_map c = (case c of None \<Rightarrow> None
     | Some j \<Rightarrow> (case unmarshal_map j of None \<Rightarrow> None | Some m \<Rightarrow> m))"

definition worker_run_dispatch ::
  "string \<Rightarrow> env \<Rightarrow> run \<Rightarrow> process \<Rightarrow> world \<Rightarrow> go_error option \<times> world" where
  "worker_run_dispatch baseURL e run p w =
     (let cfg = (case column_map (Some (p_method_config p)) of None \<Rightarrow> [] | Some m \<Rightarrow> m)
      in case resolveCredentialsForWorker e (p_execution_method p) cfg w of
           Inl err \<Rightarrow> (Some err, w)
         | Inr cfg \<Rightarrow>
             (case Dispatch e (p_workspace_id p)
                \<lparr>t_id = r_id run, t_type = ''run'', t_attempt_id = [], t_workspace_id = p_workspace_id p,
                 t_execution_method = p_execution_method p, t_method_config = Some cfg,
                 t_environment = column_map (p_environment p), t_api_base_url = baseURL\<rparr>
                (p_worker_id p) (p_worker_labels p) w of
                (Inl err, w) \<Rightarrow> (Some err, w)
              | (Inr wid, w) \<Rightarrow>
                  if wid = [] then
                    UpdateRunState e ((run_upd (r_id run) WaitingForWorker)
                      \<lparr>us_waiting_reason := Some ''Waiting for available worker''\<rparr>) w
                  else
                    UpdateRunState e ((run_upd (r_id run) WaitingForWorker)
                      \<lparr>us_waiting_reason := Some (''Assigned to worker '' @ wid),
                       us_worker_id := Some wid\<rparr>) w))"

definition worker_job_task :: "string \<Rightarrow> job \<Rightarrow> queue \<Rightarrow> go_map \<Rightarrow> task" where
  "worker_job_task baseURL j q cfg =
     \<lparr>t_id = j_id j, t_type = ''job'', t_attempt_id = [], t_workspace_id = j_workspace_id j,
      t_execution_method = q_execution_method q, t_method_config = Some cfg, t_environment = None,
      t_api_base_url = baseURL\<rparr>"

text \<open>The task of the job is in the channel of a worker.\<close>

definition assign_job ::
  "env \<Rightarrow> job \<Rightarrow> queue \<Rightarrow> go_map \<Rightarrow> string \<Rightarrow> world \<Rightarrow> go_error option \<times> world" where
  "assign_job e j q cfg wid w =
     (let attempt = wrap32 (j_attempt j + 1);
          w = (if attempt = 1
               then snd (SnapshotJobConfig e (j_id j)
                 (JObj [(''method_config'', JObj cfg), (''execution_method'', JStr (q_execution_method q))]) w)
               else w)
      in UpdateJobState e ((job_upd (j_id j) JobWaitingForWorker)
           \<lparr>uj_attempt := Some attempt, uj_waiting_reason := Some (''Assigned to worker '' @ wid),
            uj_worker_id := Some wid\<rparr>) w)"

definition worker_job_dispatch ::
  "string \<Rightarrow> env \<Rightarrow> job \<Rightarrow> queue \<Rightarrow> world \<Rightarrow> go_error option \<times> world" where
  "worker_job_dispatch baseURL e j q w =
     (case resolveCredentialsForWorker e (q_execution_method q)
              (BuildJobMethodConfig (q_method_config q) (j_payload j)) w of
        Inl err \<Rightarrow> (Some err, w)
      | Inr cfg \<Rightarrow>
          (case Dispatch e (j_workspace_id j) (worker_job_task baseURL j q cfg)
                  (firstNonEmptyPtr [j_worker_id_override j, q_worker_id q])
                  (j_worker_labels_override j) w of
             (Inl err, w) \<Rightarrow> (Some err, w)
           | (Inr wid, w) \<Rightarrow>
               if wid = [] then
                 UpdateJobState e ((job_upd (j_id j) JobWaitingForWorker)
                   \<lparr>uj_waiting_reason := Some ''Waiting for available worker''\<rparr>) w
               else assign_job e j q cfg wid w))"

text \<open>The orchestrator and the processor as \<open>main.go\<close> wires them.\<close>

definition wired_orchestrator :: "registry \<Rightarrow> bool \<Rightarrow> string \<Rightarrow> orchestrator" where
  "wired_orchestrator reg log_backend baseURL =
     \<lparr>o_registry = reg,
      o_onRunTerminal = Some (\<lambda>e run p w. snd (Evaluate e run w)),
      o_workerDispatch = Some (worker_run_dispatch baseURL),
      o_logBackend = log_backend\<rparr>"

definition wired_processor :: "registry \<Rightarrow> bool \<Rightarrow> string \<Rightarrow> processor" where
  "wired_processor reg log_backend baseURL =
     \<lparr>qp_registry = reg, qp_workerDispatch = Some (worker_job_dispatch baseURL),
      qp_logBackend = log_backend\<rparr>"

end
