(* ===== verification/Worker_Properties.thy ===== *)
theory Worker_Properties
  imports Wiring Queue_Properties
begin

text \<open>
  The properties of the worker dispatcher and of the way \<open>main.go\<close> connects it to the executor
  and to the queue processor.
\<close>

section \<open>Selection\<close>

text \<open>A worker that may take a task with these labels.\<close>

definition fits :: "world \<Rightarrow> json option \<Rightarrow> worker \<Rightarrow> bool" where
  "fits w labels x \<longleftrightarrow>
     matchesWorkerLabels (wk_labels x) labels \<and> active_load w (wk_id x) < wk_max_concurrency x"

definition best_of :: "world \<Rightarrow> json option \<Rightarrow> worker list \<Rightarrow> worker option \<times> int \<Rightarrow> bool" where
  "best_of w labels xs acc \<longleftrightarrow>
     (case fst acc of
        None \<Rightarrow> \<forall>y\<in>set xs. \<not> fits w labels y
      | Some x \<Rightarrow> x \<in> set xs \<and> fits w labels x \<and> snd acc = active_load w (wk_id x) \<and>
          (\<forall>y\<in>set xs. fits w labels y \<longrightarrow> snd acc \<le> active_load w (wk_id y)))"

lemma countActive_ok [simp]: "no_faults e \<Longrightarrow> countActiveByWorker e wid w = Inr (active_load w wid)"
  by (simp add: countActiveByWorker_def db_read_def)

lemma select_step_best:
  "no_faults e \<Longrightarrow> best_of w labels xs acc \<Longrightarrow> best_of w labels (xs @ [x]) (select_step e labels w x acc)"
  unfolding best_of_def select_step_def fits_def
  by (cases acc) (fastforce split: option.splits)

lemma selectWorker_best:
  assumes "no_faults e"
  shows "\<exists>best. best_of w labels xs (selectWorker e xs labels w, best)"
proof -
  have "best_of w labels xs (fold (select_step e labels w) xs (None, n))" for n
  proof (induction xs rule: rev_induct)
    case Nil
    then show ?case by (simp add: best_of_def)
  next
    case (snoc x xs)
    then show ?case using select_step_best[OF assms] by simp
  qed
  from this[of 4611686018427387903] show ?thesis
    unfolding selectWorker_def by (metis prod.collapse)
qed

text \<open>
  C9: a task that \<open>Dispatch\<close> places goes to an enabled online worker of its workspace that runs
  fewer tasks than its maximum: the pinned worker when one is given, else a worker with the
  required labels that no listed worker with those labels and spare capacity undercuts in load.
  The task is the last of that worker's channel, which holds at most ten.
\<close>

theorem Dispatch_places_task:
  assumes "no_faults e" "Dispatch e ws t pinned labels w = (Inr wid, w')" "wid \<noteq> []"
  shows "\<exists>x\<in>set (w_workers w). wk_id x = wid \<and> wk_workspace_id x = ws \<and> wk_enabled x \<and>
    wk_status x = ''online'' \<and> active_load w wid < wk_max_concurrency x \<and>
    (if pinned \<noteq> None \<and> pinned \<noteq> Some [] then pinned = Some wid
     else matchesWorkerLabels (wk_labels x) labels \<and>
       (\<forall>ys y. ListOnlineWorkers e ws 100 w = Inr ys \<and> y \<in> set ys \<and> fits w labels y \<longrightarrow>
          active_load w wid \<le> active_load w (wk_id y))) \<and>
    channel wid w' = channel wid w @ [t] \<and> length (channel wid w') \<le> 10"
proof -
  obtain x where x: "route_task e ws pinned labels w = Inr (Some x)"
    using assms(2,3) by (auto simp: Dispatch_def split: sum.splits option.splits)
  then have "\<not> active_load w (wk_id x) \<ge> wk_max_concurrency x"
    and "(Inr wid, w') = (Inr (if fst (try_send (wk_id x) t w) then wk_id x else []),
      snd (try_send (wk_id x) t w))"
    using assms by (auto simp: Dispatch_def split: if_splits prod.splits)
  then have sent: "active_load w (wk_id x) < wk_max_concurrency x" "wk_id x = wid"
      "fst (try_send wid t w)" "w' = snd (try_send wid t w)"
    using assms(3) by (auto split: if_splits)
  have ch: "channel wid w' = channel wid w @ [t]" "length (channel wid w') \<le> 10"
    using sent(3,4) by (simp_all add: try_send_eq)
  show ?thesis
  proof (cases "pinned \<noteq> None \<and> pinned \<noteq> Some []")
    case True
    then have "GetWorker e (the pinned) ws w = Inr x" "wk_enabled x" "wk_status x = ''online''"
      using x by (auto simp: route_task_def split: sum.splits if_splits)
    then show ?thesis
      using GetWorker_SomeD[of e "the pinned" ws w x] sent ch True by (intro bexI[of _ x]) auto
  next
    case False
    then obtain xs where xs: "ListOnlineWorkers e ws 100 w = Inr xs"
      and sel: "selectWorker e xs labels w = Some x"
      using x by (auto simp: route_task_def split: sum.splits if_splits)
    obtain best where "best_of w labels xs (Some x, best)"
      using selectWorker_best[OF assms(1), of w labels xs] sel by auto
    then show ?thesis
      using ListOnlineWorkers_mem[OF xs, of x] xs sent ch False
      by (intro bexI[of _ x]) (auto simp: best_of_def fits_def)
  qed
qed
section \<open>Task channels\<close>

text \<open>
  C11: under any sequence of dispatches to a worker and polls of that worker, the tasks come out
  in the order in which they were accepted, none is lost in the channel or delivered twice, and
  the channel never holds more than ten.
\<close>

theorem tasks_come_out_in_order:
  assumes "exchange (try_send wid) (PollTask wid) ops w = (accepted, polled, w')"
    and "length (channel wid w) \<le> 10"
  shows "channel wid w @ accepted = polled @ channel wid w' \<and> length (channel wid w') \<le> 10"
  using task_channel.in_order[OF assms(1)] task_channel.bounded[OF assms(2,1)] by simp

section \<open>Results\<close>

lemma task_prefix:
  "s \<noteq> [] \<Longrightarrow> length (''run_'' @ s) > 4 \<and> take 4 (''run_'' @ s) = ''run_''"
  "s \<noteq> [] \<Longrightarrow> length (''job_'' @ s) > 4 \<and> take 4 (''job_'' @ s) = ''job_'' \<and>
     take 4 (''job_'' @ s) \<noteq> ''run_''"
  by simp_all

lemma ProcessResult_run: "tr_task_id r = ''run_'' @ s \<Longrightarrow> s \<noteq> [] \<Longrightarrow> ProcessResult e r w = run_result e r w"
  using task_prefix(1)[of s] by (simp add: ProcessResult_def)

lemma ProcessResult_job: "tr_task_id r = ''job_'' @ s \<Longrightarrow> s \<noteq> [] \<Longrightarrow> ProcessResult e r w = job_result e r w"
  using task_prefix(2)[of s] by (simp add: ProcessResult_def)

text \<open>
  The result a worker reports decides its run whatever the run's state was: completed on
  success, else killed when a kill was asked for, else failed. A failed run is not retried
  whatever the process allows, a run that has ended before is overwritten, and nothing else
  happens: no other run changes and no dependent or following run is created.
\<close>

theorem worker_result_decides_run:
  assumes "e_fault e ''UpdateRunState'' = None" "e_fault e ''SelectRunState'' = None"
    and "tr_task_id r = ''run_'' @ s" "s \<noteq> []" "run_at w (tr_task_id r) = Some run"
  shows "\<exists>run'. run_at (snd (ProcessResult e r w)) (tr_task_id r) = Some run' \<and>
    r_state run' = (if task_success r then Completed
      else if r_state run = KillRequested then Killed else Failed) \<and>
    r_finished_at run' = Some (e_now e) \<and> r_next_attempt_at run' = None \<and>
    map r_id (w_runs (snd (ProcessResult e r w))) = map r_id (w_runs w) \<and>
    (\<forall>k. k \<noteq> tr_task_id r \<longrightarrow> run_at (snd (ProcessResult e r w)) k = run_at w k)"
proof -
  let ?s = "if (r_state run = KillRequested) \<and> \<not> task_success r then Killed
      else if task_success r then Completed else Failed"
  let ?a = "(run_upd (tr_task_id r) ?s)\<lparr>us_finished_at := Some (e_now e),
      us_duration_ms := Some (tr_duration_ms r), us_exit_code := map_option wrap32 (tr_exit_code r)\<rparr>"
  have row: "lookup_key r_id (tr_task_id r) (w_runs w) = Some run"
    using assms(5) by (simp add: run_at_def)
  have "ProcessResult e r w = UpdateRunState e ?a w"
    unfolding ProcessResult_run[OF assms(3,4)]
    by (simp add: run_result_def assms(2) row Let_def)
  then have "snd (ProcessResult e r w) = on_run (tr_task_id r) (set_run_state (e_db_now e, ?a)) w"
    using assms(1) by (simp add: UpdateRunState_ok)
  moreover have "map r_id (w_runs (on_run rid (set_run_state na) w)) = map r_id (w_runs w)" for rid na
    by (simp add: on_run_def map_update_key)
  ultimately show ?thesis
    using assms(5) by (auto simp: run_at_on_run set_run_state_def)
qed

lemma job_filter_unique:
  assumes "jobs_ok w" "job_at w k = Some j"
  shows "filter (\<lambda>x. j_id x = k \<and> P x) (w_jobs w) = (if P j then [j] else [])"
proof -
  have none: "filter (\<lambda>x. j_id x = k \<and> P x) js = []" if "k \<notin> j_id ` set js" for js
    using that by (induction js) auto
  have "filter (\<lambda>x. j_id x = k \<and> P x) js = (if P j then [j] else [])"
    if "distinct (map j_id js)" "lookup_key j_id k js = Some j" for js
    using that
  proof (induction js)
    case Nil
    then show ?case by simp
  next
    case (Cons x xs)
    then show ?case using none[of xs] by (cases "j_id x = k") auto
  qed
  then show ?thesis using assms by (simp add: jobs_ok_def job_at_def)
qed

lemma assign_job_attempt:
  assumes "no_faults e" "job_at w (j_id j) = Some j" "has_key wk_id wid (w_workers w)"
  shows "map_option j_attempt (job_at (snd (assign_job e j q cfg wid w)) (j_id j)) =
    Some (wrap32 (j_attempt j + 1))"
proof -
  let ?a = "(job_upd (j_id j) JobWaitingForWorker)
      \<lparr>uj_attempt := Some (wrap32 (j_attempt j + 1)), uj_waiting_reason := Some (''Assigned to worker '' @ wid),
       uj_worker_id := Some wid\<rparr>"
  let ?w = "if wrap32 (j_attempt j + 1) = 1
      then snd (SnapshotJobConfig e (j_id j)
        (JObj [(''method_config'', JObj cfg), (''execution_method'', JStr (q_execution_method q))]) w)
      else w"
  have "\<exists>j0. job_at ?w (j_id j) = Some j0" "w_workers ?w = w_workers w"
    using assms(1,2) by (auto simp: SnapshotJobConfig_def db_exec_ok job_at_on_job) (simp_all add: on_job_def)
  then have "map_option j_attempt (job_at (snd (UpdateJobState e ?a ?w)) (j_id j)) =
      Some (wrap32 (j_attempt j + 1))"
    using assms(1,3)
    by (auto simp: UpdateJobState_def db_exec_ok dangling_def job_at_on_job set_job_state_def
        simp del: if_split)
  then show ?thesis by (simp only: assign_job_def Let_def)
qed

lemma finishJobAttempt_ok:
  assumes "no_faults e"
  shows "fst (finishJobAttempt e q r w) = None" "w_jobs (snd (finishJobAttempt e q r w)) = w_jobs w"
  using assms by (simp_all add: finishJobAttempt_def Let_def FinishJobAttempt_def db_exec_ok)

lemma job_result_classifies:
  assumes "no_faults e" "jobs_ok w" "job_at w (tr_task_id r) = Some j"
    and "filter (\<lambda>q. q_id q = j_queue_id j) (w_queues w) = [q]"
  shows "\<exists>w'. job_result e r w = classify_job e r (j_state j) j q w' \<and> w_jobs w' = w_jobs w"
proof -
  have "join_jobs (\<lambda>x. j_id x = tr_task_id r \<and> j_workspace_id x = j_workspace_id j) w = [(j, q)]"
    using job_filter_unique[OF assms(2,3), of "\<lambda>x. j_workspace_id x = j_workspace_id j"] assms(4)
    by (simp add: join_jobs_def List.maps_eq)
  moreover have "lookup_key j_id (tr_task_id r) (w_jobs w) = Some j"
    using assms(3) by (simp add: job_at_def)
  ultimately have "job_result e r w =
      (case (if tr_attempt_id r \<noteq> [] then finishJobAttempt e q r w else (None, w)) of
         (Some err, w) \<Rightarrow> (Some err, w)
       | (None, w) \<Rightarrow> classify_job e r (j_state j) j q w)"
    using assms(1) by (simp add: job_result_def db_read_def one_row_def GetJobWithQueue_def)
  then show ?thesis
    using finishJobAttempt_ok[OF assms(1), of q r w]
    by (cases "finishJobAttempt e q r w") auto
qed

text \<open>
  One execution of a job on a worker counts twice: the dispatch raises its attempt and so
  does the failed result, so a job is given up after half the attempts its queue allows.
\<close>

theorem worker_job_counts_twice:
  assumes "no_faults e" "no_faults e'" "job_at w (j_id j) = Some j" "has_key wk_id wid (w_workers w)"
    and "job_at (snd (assign_job e j q cfg wid w)) (j_id j) = Some j1"
    and "job_at w2 (j_id j) = Some j2" "j_attempt j2 = j_attempt j1" "j_state j2 = JobRunning"
    and "j_workspace_id j2 = j_workspace_id j" "jobs_ok w2"
    and "filter (\<lambda>q. q_id q = j_queue_id j2) (w_queues w2) = [q2]"
    and "tr_task_id r = j_id j" "j_id j = ''job_'' @ s" "s \<noteq> []" "\<not> task_success r"
    and "0 \<le> j_attempt j" "j_attempt j + 1 < (case j_max_attempts j2 of Some n \<Rightarrow> n | None \<Rightarrow> q_max_attempts q2)"
    and "j_attempt j + 2 < 2147483648"
  shows "\<exists>j3. job_at (snd (ProcessResult e' r w2)) (j_id j) = Some j3 \<and>
    j_state j3 = JobRetrying \<and> j_attempt j3 = j_attempt j + 2"
proof -
  have n: "j_attempt j1 = j_attempt j + 1"
    using assms(5) assign_job_attempt[OF assms(1,3,4), of q cfg] assms(16,18)
    by (simp add: wrap32_id in_int32_def)
  have "worker_calculateBackoff (e_now e') (j_attempt j + 2) bs \<noteq> None" for bs
    using assms(16) by (simp add: worker_backoff.panics_iff)
  then obtain t where t: "worker_calculateBackoff (e_now e') (j_attempt j + 2)
      (worker_parseBackoffList (q_retry_backoff q2) (j_retry_backoff j2)) = Some t" by blast
  have w: "wrap32 (j_attempt j + 1 + 1) = j_attempt j + 2"
    using assms(16,18) by (simp add: wrap32_id in_int32_def)
  obtain w3 where w3: "job_result e' r w2 = classify_job e' r (j_state j2) j2 q2 w3" "w_jobs w3 = w_jobs w2"
    using job_result_classifies[OF assms(2,10) _ assms(11), of r] assms(6,12) by auto
  have "job_at w3 (j_id j) = Some j2" using w3(2) assms(6) by (simp add: job_at_def)
  then show ?thesis
    using w3(1) assms(2,8,12,13,14,15,17) n t w assms(7)
    by (simp add: ProcessResult_job classify_job_def Let_def UpdateJobState_ok job_at_on_job
        set_job_state_def)
qed

section \<open>Stale workers\<close>

lemma on_worker_runs [simp]: "w_runs (on_worker wid f w) = w_runs w"
  by (simp add: on_worker_def)

lemma mark_stale_runs:
  "w_runs (mark_stale e x w) = (if e_fault e ''reassignWorkerRuns'' = None
     then update_where (\<lambda>r. r_worker_id r = Some (wk_id x) \<and> r_state r = WaitingForWorker)
       (\<lambda>r. r\<lparr>r_state := Pending, r_worker_id := None, r_waiting_reason := None,
          r_updated_at := e_db_now e\<rparr>) (w_runs w)
     else w_runs w)"
  by (auto simp: mark_stale_def Let_def reassignWorkerRuns_def IncrementWorkerFailures_def
      SetWorkerStatus_def db_exec_def split: option.split)

lemma mark_stale_keeps:
  assumes "run_at w k = Some r" "r_worker_id r = None"
  shows "run_at (mark_stale e x w) k = Some r"
  using assms by (simp add: run_at_def mark_stale_runs lookup_key_update_where)

lemma checkStaleWorkers_keeps:
  assumes "run_at w k = Some r" "r_worker_id r = None"
  shows "run_at (checkStaleWorkers e w) k = Some r"
proof -
  have "run_at (fold (mark_stale e) xs w) k = Some r" for xs
    using assms(1) by (induction xs arbitrary: w) (simp_all add: mark_stale_keeps assms(2))
  then show ?thesis using assms(1) by (simp add: checkStaleWorkers_def split: sum.split)
qed

lemma orchestrator_tick_states:
  "run \<in> set (orchestrator_tick e w) \<Longrightarrow> run \<in> set (w_runs w) \<and> r_state run \<in> {Pending, Queued, Retrying}"
  by (auto simp: orchestrator_tick_def ClaimPendingRuns_def ClaimRetryingRuns_def db_read_def
      split: option.splits sum.splits dest!: in_set_takeD)

lemma spawning_wired [simp]: "spawning (wired_orchestrator reg lb url)"
  by (rule spawning_Evaluate) (simp add: wired_orchestrator_def)


section \<open>The status of workers\<close>

text \<open>The operations on the table of workers, in any order and from any state of the other tables.\<close>

inductive worker_step :: "world \<Rightarrow> world \<Rightarrow> bool" where
  created: "worker_step w (snd (db_CreateWorker e a w))"
| heartbeat: "worker_step w (snd (ProcessHeartbeat e wid capabilities version w))"
| stale: "no_faults e \<Longrightarrow> worker_step w (checkStaleWorkers e w)"
| enabled: "worker_step w (snd (SetWorkerEnabled e wid ws b w))"
| labelled: "worker_step w (snd (UpdateWorkerLabels e wid ws labels w))"
| token: "worker_step w (snd (SetWorkerEnrollmentToken e wid h expires w))"
| credential: "worker_step w (snd (UpdateWorkerCredentialHash e wid h w))"
| deleted: "worker_step w (snd (DeleteWorker e wid ws w))"
| elsewhere: "w_workers w' = w_workers w \<Longrightarrow> worker_step w w'"

definition counted :: "worker \<Rightarrow> bool" where
  "counted x \<longleftrightarrow> wk_status x \<in> {''online'', ''offline''} \<and>
     (wk_status x = ''online'' \<longrightarrow> wk_consecutive_failures x = 0)"

definition all_counted :: "world \<Rightarrow> bool" where
  "all_counted w \<longleftrightarrow> (\<forall>x\<in>set (w_workers w). counted x)"

lemma all_counted_exec:
  "all_counted w \<Longrightarrow> (all_counted w \<Longrightarrow> all_counted (f w)) \<Longrightarrow> all_counted (snd (db_exec e q v f w))"
  by (rule db_exec_preserves)

lemma all_counted_where:
  "all_counted w \<Longrightarrow> (\<And>x. counted x \<Longrightarrow> counted (f x)) \<Longrightarrow>
   all_counted (w\<lparr>w_workers := update_where P f (w_workers w)\<rparr>)"
  by (auto simp: all_counted_def set_update_where)

lemma all_counted_on:
  "all_counted w \<Longrightarrow> (\<And>x. counted x \<Longrightarrow> counted (f x)) \<Longrightarrow> all_counted (on_worker wid f w)"
  unfolding on_worker_def update_key_def by (rule all_counted_where)

lemma mark_stale_workers:
  assumes "no_faults e" "wk_consecutive_failures x = 0"
  shows "w_workers (mark_stale e x w) = update_key wk_id (wk_id x)
    (\<lambda>y. y\<lparr>wk_consecutive_failures := wk_consecutive_failures y + 1, wk_consecutive_healthy := 0,
       wk_status := ''offline'', wk_updated_at := e_db_now e\<rparr>) (w_workers w)"
  using assms
  by (simp add: mark_stale_def Let_def reassignWorkerRuns_def IncrementWorkerFailures_def
      SetWorkerStatus_def db_exec_ok on_worker_def update_key_def update_where_def comp_def wrap32_def
      cong: if_cong)

lemma all_counted_stale:
  assumes "no_faults e" "all_counted w"
  shows "all_counted (checkStaleWorkers e w)"
proof -
  have step: "all_counted (mark_stale e x w)" if "all_counted w" "wk_consecutive_failures x = 0" for x w
    using that by (auto simp: all_counted_def mark_stale_workers[OF assms(1)] update_key_def
        set_update_where counted_def)
  have "all_counted (fold (mark_stale e) xs w)" if "\<forall>x\<in>set xs. wk_consecutive_failures x = 0" for xs
    using that assms(2) by (induction xs arbitrary: w) (auto simp: step)
  moreover have "\<forall>x\<in>set xs. wk_consecutive_failures x = 0" if "ListStaleWorkers e w = Inr xs" for xs
    using that assms(2)
    by (auto simp: ListStaleWorkers_def db_read_def all_counted_def counted_def split: option.splits)
  ultimately show ?thesis
    using assms(2) by (simp add: checkStaleWorkers_def split: sum.split)
qed

lemma worker_step_counted: "worker_step w w' \<Longrightarrow> all_counted w \<Longrightarrow> all_counted w'"
proof (induction rule: worker_step.induct)
  case (created w e a)
  have "all_counted (snd (db_exec e ''CreateWorker'' (create_worker_violation a w)
      (\<lambda>w. w\<lparr>w_workers := w_workers w @ [new_worker e a]\<rparr>) w))"
    using created by (rule all_counted_exec) (auto simp: all_counted_def counted_def new_worker_def)
  then show ?case by (auto simp: db_CreateWorker_def split: prod.split)
next
  case (heartbeat w e wid capabilities version)
  then show ?case unfolding ProcessHeartbeat_def UpdateWorkerHeartbeat_def
    by (rule all_counted_exec) (auto intro!: all_counted_on simp: counted_def)
next
  case (stale e w)
  then show ?case by (simp add: all_counted_stale)
next
  case (enabled w e wid ws b)
  then show ?case unfolding SetWorkerEnabled_def
    by (rule all_counted_exec) (auto intro!: all_counted_where simp: counted_def)
next
  case (labelled w e wid ws labels)
  then show ?case unfolding UpdateWorkerLabels_def
    by (rule all_counted_exec) (auto intro!: all_counted_where simp: counted_def)
next
  case (token w e wid h expires)
  then show ?case unfolding SetWorkerEnrollmentToken_def
    by (rule all_counted_exec) (auto intro!: all_counted_on simp: counted_def)
next
  case (credential w e wid h)
  then show ?case unfolding UpdateWorkerCredentialHash_def
    by (rule all_counted_exec) (auto intro!: all_counted_on simp: counted_def)
next
  case (deleted w e wid ws)
  let ?f = "\<lambda>v. if \<exists>x\<in>set (w_workers w). wk_id x = wid \<and> wk_workspace_id x = ws
      then drop_worker wid v else v"
  have "all_counted (snd (db_exec e ''DeleteWorker'' None ?f w))"
    using deleted by (rule all_counted_exec) (auto simp: all_counted_def drop_worker_def)
  moreover have "snd (DeleteWorker e wid ws w) = snd (db_exec e ''DeleteWorker'' None ?f w)"
    unfolding DeleteWorker_def Let_def by (simp only: split_beta snd_conv)
  ultimately show ?case by simp
next
  case (elsewhere w' w)
  then show ?case by (simp add: all_counted_def)
qed

text \<open>
  No worker ever becomes unhealthy: starting without workers, whatever heartbeats, checks
  and administration follow, a worker is online or offline. A worker is only found stale while
  it is online, and every heartbeat that puts it online resets the count of failures, so the
  count a check reads is zero; the fifth failure in a row that the comment promises never comes.
\<close>

theorem worker_never_unhealthy:
  assumes "w_workers w0 = []" "worker_step\<^sup>*\<^sup>* w0 w" "x \<in> set (w_workers w)"
  shows "wk_status x \<in> {''online'', ''offline''} \<and>
    (wk_status x = ''online'' \<longrightarrow> wk_consecutive_failures x = 0)"
proof -
  have "all_counted w0" using assms(1) by (simp add: all_counted_def)
  with assms(2) have "all_counted w"
    by (induction rule: rtranclp_induct) (auto intro: worker_step_counted)
  then show ?thesis using assms(3) by (simp add: all_counted_def counted_def)
qed

section \<open>Credentials\<close>

text \<open>
  Resolving the credentials of a task leaves no reference the worker could not follow, keeps
  every setting that is not about credentials, and never replaces a namespace that was given.
\<close>

theorem credentials_resolved:
  assumes "resolveCredentialsForWorker e meth cfg w = Inr cfg'"
  shows "(meth = ''ssh'' \<longrightarrow> map_string cfg' ''ssh_credential_id'' = []) \<and>
    (meth = ''ssm'' \<longrightarrow> map_string cfg' ''ssm_profile_id'' = []) \<and>
    (meth = ''k8s'' \<longrightarrow> map_string cfg' ''k8s_cluster_id'' = []) \<and>
    (\<forall>k. k \<notin> {''ssh_credential_id'', ''private_key'', ''username'', ''port'', ''strict_host_key'',
        ''ssm_profile_id'', ''region'', ''role_arn'', ''k8s_cluster_id'', ''kubeconfig'', ''namespace''} \<longrightarrow>
      map_of cfg' k = map_of cfg k) \<and>
    (\<forall>v. map_of cfg ''namespace'' = Some v \<and> v \<noteq> JNull \<longrightarrow> map_of cfg' ''namespace'' = Some v)"
proof -
  have ssh: "resolve_ssh e cfg w = Inr cfg'" if "meth = ''ssh''"
    using assms that by (simp add: resolveCredentialsForWorker_def)
  have ssm: "resolve_ssm e cfg w = Inr cfg'" if "meth = ''ssm''"
    using assms that by (simp add: resolveCredentialsForWorker_def)
  have k8s: "resolve_k8s e cfg w = Inr cfg'" if "meth = ''k8s''"
    using assms that by (simp add: resolveCredentialsForWorker_def)
  have none: "cfg' = cfg" if "meth \<notin> {''ssh'', ''ssm'', ''k8s''}"
    using assms that by (simp add: resolveCredentialsForWorker_def)
  have "map_string cfg' ''ssh_credential_id'' = []" if "meth = ''ssh''"
    using ssh[OF that] by (auto simp: resolve_ssh_def Let_def map_string_def split: if_splits sum.splits prod.splits)
  moreover have "map_string cfg' ''ssm_profile_id'' = []" if "meth = ''ssm''"
    using ssm[OF that] by (auto simp: resolve_ssm_def Let_def map_string_def split: if_splits sum.splits)
  moreover have "map_string cfg' ''k8s_cluster_id'' = []" if "meth = ''k8s''"
    using k8s[OF that] by (auto simp: resolve_k8s_def Let_def map_string_def split: if_splits sum.splits)
  moreover have "map_of cfg' k = map_of cfg k"
    if "k \<notin> {''ssh_credential_id'', ''private_key'', ''username'', ''port'', ''strict_host_key'',
        ''ssm_profile_id'', ''region'', ''role_arn'', ''k8s_cluster_id'', ''kubeconfig'', ''namespace''}" for k
  proof (cases "meth \<in> {''ssh'', ''ssm'', ''k8s''}")
    case False
    then show ?thesis using none by simp
  next
    case True
    then show ?thesis
      using ssh ssm k8s that
      by (auto simp: resolve_ssh_def resolve_ssm_def resolve_k8s_def Let_def
          split: if_splits sum.splits option.splits)
  qed
  moreover have "map_of cfg' ''namespace'' = Some v" if "map_of cfg ''namespace'' = Some v" "v \<noteq> JNull" for v
  proof (cases "meth \<in> {''ssh'', ''ssm'', ''k8s''}")
    case False
    then show ?thesis using none that by simp
  next
    case True
    then show ?thesis
      using ssh ssm k8s that
      by (auto simp: resolve_ssh_def resolve_ssm_def resolve_k8s_def Let_def
          split: if_splits sum.splits option.splits)
  qed
  ultimately show ?thesis by blast
qed

text \<open>
  An SSH credential without a user name, which its table and its API allow, cannot be used by
  a worker: the job goes to waiting without a worker instead of to a worker or to failed.
\<close>

theorem ssh_without_username_waits:
  assumes "no_faults e" "job_at w (j_id j) = Some j0" "job_runtime j q = ''worker''"
    and "q_execution_method q = ''ssh''"
    and "map_string (BuildJobMethodConfig (q_method_config q) (j_payload j)) ''ssh_credential_id'' = cid"
    and "cid \<noteq> []" "lookup_key sc_id cid (w_ssh_credentials w) = Some c" "sc_username c = None"
  shows "\<exists>j'. job_at (job_dispatch (wired_processor reg lb url) e e' (j, q) w) (j_id j) = Some j' \<and>
    j_state j' = JobWaitingForWorker \<and> j_worker_id j' = None"
proof -
  have "resolve_ssh e (BuildJobMethodConfig (q_method_config q) (j_payload j)) w =
      Inl (resolve_error ''ssh credential'' cid scan_null)"
    using assms(1,5-8) by (simp add: resolve_ssh_def Let_def scan_ssh_def db_read_def)
  then have "worker_job_dispatch url e j q w = (Some (resolve_error ''ssh credential'' cid scan_null), w)"
    using assms(4) by (simp add: worker_job_dispatch_def resolveCredentialsForWorker_def)
  then show ?thesis
    using assms(1,2,3)
    by (simp add: job_dispatch_def job_dispatch_begin_def wired_processor_def UpdateJobState_ok
        job_at_on_job set_job_state_def)
qed

section \<open>Instances\<close>

definition sample_worker :: worker where
  "sample_worker =
     \<lparr>wk_id = ''wrk_1'', wk_workspace_id = ''wsp_1'', wk_name = ''w'', wk_credential_hash = ''h'',
      wk_labels = JArr [JStr ''gpu''], wk_capabilities = JObj [], wk_max_concurrency = 2,
      wk_version = None, wk_enabled = True, wk_status = ''online'', wk_last_heartbeat_at = Some 0,
      wk_consecutive_failures = 0, wk_consecutive_healthy = 1, wk_created_at = 0, wk_updated_at = 0,
      wk_enrollment_token_hash = None, wk_enrollment_token_expires_at = None\<rparr>"

definition sample_task :: "string \<Rightarrow> task" where
  "sample_task k =
     \<lparr>t_id = k, t_type = ''run'', t_attempt_id = [], t_workspace_id = ''wsp_1'',
      t_execution_method = ''http'', t_method_config = None, t_environment = None, t_api_base_url = []\<rparr>"

definition worker_world :: "run list \<Rightarrow> world" where
  "worker_world rs = (sample_world [] rs)\<lparr>w_workers := [sample_worker]\<rparr>"

lemma worker_world_simps [simp]:
  "w_workers (worker_world rs) = [sample_worker]" "w_runs (worker_world rs) = rs"
  "w_jobs (worker_world rs) = []" "w_task_queues (worker_world rs) = (\<lambda>_. None)"
  by (simp_all add: worker_world_def sample_world_def empty_world_def)

lemma sample_worker_simps [simp]:
  "wk_id sample_worker = ''wrk_1''" "wk_workspace_id sample_worker = ''wsp_1''"
  "wk_enabled sample_worker" "wk_status sample_worker = ''online''" "wk_max_concurrency sample_worker = 2"
  "wk_labels sample_worker = JArr [JStr ''gpu'']"
  by (simp_all add: sample_worker_def)

theorem Dispatch_places_task_witness:
  "channel ''wrk_1'' (snd (Dispatch (calm 0) ''wsp_1'' (sample_task ''run_1'') None (Some (JArr [JStr ''gpu'']))
     (worker_world []))) = [sample_task ''run_1'']"
proof -
  let ?w = "worker_world []"
  have d: "Dispatch (calm 0) ''wsp_1'' (sample_task ''run_1'') None (Some (JArr [JStr ''gpu''])) ?w =
      (Inr ''wrk_1'', snd (Dispatch (calm 0) ''wsp_1'' (sample_task ''run_1'') None
         (Some (JArr [JStr ''gpu''])) ?w))"
    by (simp add: Dispatch_def route_task_def ListOnlineWorkers_def db_read_def selectWorker_def
        select_step_def matchesWorkerLabels_def active_load_def try_send_def channel_def
        getOrCreateChannel_def)
  from Dispatch_places_task[OF no_faults_calm d]
  show ?thesis by (simp add: channel_def)
qed

theorem tasks_come_out_in_order_witness:
  "fst (snd (exchange (try_send ''wrk_1'') (PollTask ''wrk_1'')
     [Some (sample_task ''run_1''), Some (sample_task ''run_2''), None] (worker_world []))) =
   [sample_task ''run_1'']"
proof -
  let ?ops = "[Some (sample_task ''run_1''), Some (sample_task ''run_2''), None]"
  obtain accepted polled w' where ex: "exchange (try_send ''wrk_1'') (PollTask ''wrk_1'') ?ops (worker_world []) =
      (accepted, polled, w')" using prod_cases3 by blast
  have "accepted = [sample_task ''run_1'', sample_task ''run_2'']" "length polled = 1"
    using ex by (auto simp: try_send_def PollTask_def channel_def getOrCreateChannel_def)
  moreover have "channel ''wrk_1'' (worker_world []) @ accepted = polled @ channel ''wrk_1'' w'"
    using tasks_come_out_in_order[OF ex] by (simp add: channel_def)
  ultimately show ?thesis
    using ex by (cases polled) (simp_all add: channel_def)
qed

definition sample_task_result :: "string \<Rightarrow> int \<Rightarrow> task_result" where
  "sample_task_result k code =
     \<lparr>tr_task_id = k, tr_attempt_id = [], tr_exit_code = Some code, tr_response_code = None,
      tr_stdout = [], tr_stderr = [], tr_response_body = [], tr_duration_ms = 5, tr_error = []\<rparr>"

text \<open>A failed first attempt of a run whose process allows three is not retried.\<close>

theorem worker_result_decides_run_witness:
  "\<exists>run'. run_at (snd (ProcessResult (calm 9) (sample_task_result ''run_1'' 1)
       (worker_world [sample_run ''run_1'' Running]))) ''run_1'' = Some run' \<and> r_state run' = Failed"
proof -
  have "run_at (worker_world [sample_run ''run_1'' Running]) ''run_1'' = Some (sample_run ''run_1'' Running)"
    by (simp add: run_at_def sample_run_def new_run_def sample_params_def)
  then show ?thesis
    using worker_result_decides_run[of "calm 9" "sample_task_result ''run_1'' 1" "''1''"
        "worker_world [sample_run ''run_1'' Running]" "sample_run ''run_1'' Running"]
    by (auto simp: sample_task_result_def task_success_def sample_run_def new_run_def sample_params_def)
qed

theorem worker_job_counts_twice_witness:
  "\<exists>j3. job_at (snd (ProcessResult (calm 9) (sample_task_result ''job_1'' 1)
       (job_world [(sample_job ''job_1'' 0 JobRunning)\<lparr>j_attempt := 1\<rparr>]))) ''job_1'' = Some j3 \<and>
     j_state j3 = JobRetrying \<and> j_attempt j3 = 2"
proof -
  let ?j = "sample_job ''job_1'' 0 JobPending"
  let ?j2 = "(sample_job ''job_1'' 0 JobRunning)\<lparr>j_attempt := 1\<rparr>"
  let ?w = "(job_world [?j])\<lparr>w_workers := [sample_worker]\<rparr>"
  have at: "job_at ?w (j_id ?j) = Some ?j" "job_at (job_world [?j2]) (j_id ?j) = Some ?j2"
    "jobs_ok (job_world [?j2])" by (simp_all add: job_at_def job_world_def jobs_ok_def)
  have wk: "has_key wk_id ''wrk_1'' (w_workers ?w)" by (simp add: has_key_def)
  obtain j1 where j1: "job_at (snd (assign_job (calm 3) ?j sample_queue [] ''wrk_1'' ?w)) (j_id ?j) = Some j1"
    "j_attempt j1 = 1"
    using assign_job_attempt[OF no_faults_calm at(1) wk, of 3 sample_queue "[]"]
    by (auto simp: wrap32_def job_samples)
  have q: "filter (\<lambda>q. q_id q = j_queue_id ?j2) (w_queues (job_world [?j2])) = [sample_queue]"
    by (simp add: job_samples)
  have r: "tr_task_id (sample_task_result ''job_1'' 1) = j_id ?j" "j_id ?j = ''job_'' @ ''1''"
    "\<not> task_success (sample_task_result ''job_1'' 1)"
    by (simp_all add: sample_task_result_def task_success_def)
  show ?thesis
    using worker_job_counts_twice[OF no_faults_calm no_faults_calm at(1) wk j1(1) at(2) _ _ _ at(3) q r(1,2) _ r(3),
        of 9] j1(2)
    by (simp add: sample_job_def new_job_def sample_queue_def)
qed


definition sample_new_worker :: create_worker_params where
  "sample_new_worker =
     \<lparr>cw_id = ''wrk_1'', cw_workspace_id = ''wsp_1'', cw_name = ''w'', cw_credential_hash = ''h'',
      cw_labels = Some (JArr []), cw_max_concurrency = 2\<rparr>"

theorem worker_never_unhealthy_witness:
  "wk_status (hd (w_workers (snd (ProcessHeartbeat (calm 5) ''wrk_1'' None ''v1''
     (snd (db_CreateWorker (calm 0) sample_new_worker (sample_world [] []))))))) \<noteq> ''unhealthy''"
proof -
  let ?w0 = "sample_world [] []"
  let ?w1 = "snd (db_CreateWorker (calm 0) sample_new_worker ?w0)"
  let ?w2 = "snd (ProcessHeartbeat (calm 5) ''wrk_1'' None ''v1'' ?w1)"
  have "worker_step\<^sup>*\<^sup>* ?w0 ?w2"
    by (rule rtranclp_trans[of _ _ ?w1]; rule r_into_rtranclp) (rule worker_step.intros)+
  moreover have "w_workers ?w2 \<noteq> []"
    by (simp add: db_CreateWorker_def db_exec_def create_worker_violation_def sample_new_worker_def
        sample_world_def empty_world_def has_key_def sample_workspace_def ProcessHeartbeat_def
        UpdateWorkerHeartbeat_def on_worker_def)
  ultimately show ?thesis
    using worker_never_unhealthy[of ?w0 ?w2 "hd (w_workers ?w2)"]
    by (auto simp: sample_world_def empty_world_def)
qed

theorem credentials_resolved_witness:
  "\<exists>cfg'. resolveCredentialsForWorker (calm 0) ''ssm'' [(''ssm_profile_id'', JStr ''ssp_1''), (''command'', JStr ''ls'')]
      ((sample_world [] [])\<lparr>w_ssm_profiles := [\<lparr>sm_id = ''ssp_1'', sm_workspace_id = ''wsp_1'', sm_name = ''p'',
         sm_region = ''eu'', sm_role_arn = None, sm_created_at = 0, sm_updated_at = 0\<rparr>]\<rparr>) = Inr cfg' \<and>
     map_string cfg' ''ssm_profile_id'' = [] \<and> map_of cfg' ''command'' = Some (JStr ''ls'')"
proof -
  let ?cfg = "[(''ssm_profile_id'', JStr ''ssp_1''), (''command'', JStr ''ls'')]"
  let ?w = "(sample_world [] [])\<lparr>w_ssm_profiles := [\<lparr>sm_id = ''ssp_1'', sm_workspace_id = ''wsp_1'', sm_name = ''p'',
         sm_region = ''eu'', sm_role_arn = None, sm_created_at = 0, sm_updated_at = 0\<rparr>]\<rparr>"
  obtain cfg' where "resolveCredentialsForWorker (calm 0) ''ssm'' ?cfg ?w = Inr cfg'"
    by (simp add: resolveCredentialsForWorker_def resolve_ssm_def map_string_def db_read_def one_row_def Let_def)
  then show ?thesis using credentials_resolved[of "calm 0" "''ssm''" ?cfg ?w cfg'] by auto
qed

theorem ssh_without_username_waits_witness:
  "\<exists>j'. job_at (job_dispatch (wired_processor NewRegistry False []) (calm 3) (calm 4)
       (sample_job ''job_1'' 0 JobPending, sample_queue\<lparr>q_runtime := ''worker'', q_execution_method := ''ssh'',
          q_method_config := JObj [(''ssh_credential_id'', JStr ''ssh_1'')]\<rparr>)
       ((job_world [sample_job ''job_1'' 0 JobPending])\<lparr>w_ssh_credentials := [\<lparr>sc_id = ''ssh_1'',
          sc_workspace_id = ''wsp_1'', sc_name = ''k'', sc_private_key_enc = ''k'', sc_fingerprint = ''f'',
          sc_username = None, sc_port = Some 22, sc_strict_host_key = True, sc_created_at = 0,
          sc_updated_at = 0\<rparr>]\<rparr>)) ''job_1'' = Some j' \<and> j_state j' = JobWaitingForWorker"
proof -
  let ?j = "sample_job ''job_1'' 0 JobPending"
  let ?q = "sample_queue\<lparr>q_runtime := ''worker'', q_execution_method := ''ssh'',
          q_method_config := JObj [(''ssh_credential_id'', JStr ''ssh_1'')]\<rparr>"
  let ?w = "(job_world [?j])\<lparr>w_ssh_credentials := [\<lparr>sc_id = ''ssh_1'',
          sc_workspace_id = ''wsp_1'', sc_name = ''k'', sc_private_key_enc = ''k'', sc_fingerprint = ''f'',
          sc_username = None, sc_port = Some 22, sc_strict_host_key = True, sc_created_at = 0,
          sc_updated_at = 0\<rparr>]\<rparr>"
  have "job_at ?w (j_id ?j) = Some ?j" "job_runtime ?j ?q = ''worker''"
    "map_string (BuildJobMethodConfig (q_method_config ?q) (j_payload ?j)) ''ssh_credential_id'' = ''ssh_1''"
    by (simp_all add: job_at_def job_world_def job_runtime_def BuildJobMethodConfig_def map_string_def
        sample_job_def new_job_def)
  from ssh_without_username_waits[OF no_faults_calm[of 3] this(1,2) _ this(3),
      where reg = NewRegistry and lb = False and url = "[]" and e' = "calm 4"]
  show ?thesis by auto
qed

end
