(* ===== verification/Cleanup.thy ===== *)
theory Cleanup
  imports Run_Store Job_Queries Process_Queries
begin

text \<open>
  The periodic deletion of old records, \<open>internal/cleanup/cleanup.go\<close> and
  \<open>internal/db/cleanup.sql.go\<close>. A sub-select with \<open>LIMIT\<close> and no order takes the first rows of the
  table; what the theorems state does not depend on which rows it takes. Deleting a run or a job
  cascades to its attempts, outputs and heartbeats, and clears the references to it.
\<close>

section \<open>Queries\<close>

record audit_entry =
  au_id :: string
  au_workspace_id :: string
  au_actor_type :: string
  au_actor_id :: "string option"
  au_entity_type :: string
  au_entity_id :: string
  au_action :: string
  au_details :: "json option"
  au_created_at :: instant

definition drop_runs :: "string set \<Rightarrow> world \<Rightarrow> world" where
  "drop_runs ids w = w\<lparr>
     w_runs := map (\<lambda>r. r\<lparr>r_triggered_by_run_id := forget ids (r_triggered_by_run_id r),
                          r_replayed_from_run_id := forget ids (r_replayed_from_run_id r)\<rparr>)
                 (filter (\<lambda>r. r_id r \<notin> ids) (w_runs w)),
     w_run_attempts := filter (\<lambda>a. ra_run_id a \<notin> ids) (w_run_attempts w),
     w_run_output := filter (\<lambda>x. ro_run_id x \<notin> ids) (w_run_output w),
     w_heartbeats := filter (\<lambda>h. hb_run_id h \<notin> ids) (w_heartbeats w)\<rparr>"

definition drop_jobs :: "string set \<Rightarrow> world \<Rightarrow> world" where
  "drop_jobs ids w = w\<lparr>
     w_jobs := map (\<lambda>j. j\<lparr>j_replayed_from_job_id := forget ids (j_replayed_from_job_id j)\<rparr>)
                 (filter (\<lambda>j. j_id j \<notin> ids) (w_jobs w)),
     w_job_attempts := filter (\<lambda>a. ja_job_id a \<notin> ids) (w_job_attempts w)\<rparr>"

definition old_run :: "instant \<Rightarrow> run \<Rightarrow> bool" where
  "old_run cutoff r \<longleftrightarrow>
     r_state r \<in> {Completed, Failed, Hung, Killed, Skipped, Cancelled} \<and>
     (case r_finished_at r of None \<Rightarrow> False | Some t \<Rightarrow> t < cutoff)"

definition old_job :: "instant \<Rightarrow> job \<Rightarrow> bool" where
  "old_job cutoff j \<longleftrightarrow>
     j_state j \<in> {JobCompleted, JobFailed, JobKilled, JobCancelled} \<and> j_updated_at j < cutoff"

definition DeleteOldRuns :: "env \<Rightarrow> instant \<Rightarrow> int \<Rightarrow> world \<Rightarrow> int answer \<times> world" where
  "DeleteOldRuns e cutoff n w =
     (let ids = map r_id (take (nat n) (filter (old_run cutoff) (w_runs w)));
          (err, w') = db_exec e ''DeleteOldRuns'' None (drop_runs (set ids)) w
      in (case err of Some x \<Rightarrow> Inl x | None \<Rightarrow> Inr (int (length ids)), w'))"

definition DeleteOldJobs :: "env \<Rightarrow> instant \<Rightarrow> int \<Rightarrow> world \<Rightarrow> int answer \<times> world" where
  "DeleteOldJobs e cutoff n w =
     (let ids = map j_id (take (nat n) (filter (old_job cutoff) (w_jobs w)));
          (err, w') = db_exec e ''DeleteOldJobs'' None (drop_jobs (set ids)) w
      in (case err of Some x \<Rightarrow> Inl x | None \<Rightarrow> Inr (int (length ids)), w'))"

definition DeleteOldAudit ::
  "env \<Rightarrow> instant \<Rightarrow> int \<Rightarrow> audit_entry list \<Rightarrow> int answer \<times> audit_entry list" where
  "DeleteOldAudit e cutoff n entries =
     (let ids = map au_id (take (nat n) (filter (\<lambda>a. au_created_at a < cutoff) entries))
      in case e_fault e ''DeleteOldAudit'' of
           Some x \<Rightarrow> (Inl x, entries)
         | None \<Rightarrow> (Inr (int (length ids)), filter (\<lambda>a. au_id a \<notin> set ids) entries))"

section \<open>The scheduler\<close>

record cleanup_config =
  cc_RunRetention :: duration
  cc_JobRetention :: duration
  cc_AuditRetention :: duration
  cc_BatchSize :: int
  cc_Interval :: duration

definition cleanup_New :: "cleanup_config \<Rightarrow> cleanup_config" where
  "cleanup_New cfg =
     (let cfg1 = (if cc_BatchSize cfg \<le> 0 then cfg\<lparr>cc_BatchSize := 1000\<rparr> else cfg)
      in if cc_Interval cfg1 \<le> 0 then cfg1\<lparr>cc_Interval := 24 * hour\<rparr> else cfg1)"

text \<open>What a failed deletion adds to \<open>totalDeleted\<close>: nothing, its error is logged.\<close>

definition deleted :: "int answer \<Rightarrow> int" where
  "deleted a = (case a of Inl _ \<Rightarrow> 0 | Inr n \<Rightarrow> n)"

definition clean_runs :: "env \<Rightarrow> cleanup_config \<Rightarrow> world \<Rightarrow> int \<times> world" where
  "clean_runs e c w =
     (if cc_RunRetention c > 0 then
        let (a, w') = DeleteOldRuns e (e_now e - cc_RunRetention c) (cc_BatchSize c) w
        in (deleted a, w')
      else (0, w))"

definition clean_jobs :: "env \<Rightarrow> cleanup_config \<Rightarrow> world \<Rightarrow> int \<times> world" where
  "clean_jobs e c w =
     (if cc_JobRetention c > 0 then
        let (a, w') = DeleteOldJobs e (e_now e - cc_JobRetention c) (cc_BatchSize c) w
        in (deleted a, w')
      else (0, w))"

definition clean_audit ::
  "env \<Rightarrow> cleanup_config \<Rightarrow> audit_entry list \<Rightarrow> int \<times> audit_entry list" where
  "clean_audit e c entries =
     (if cc_AuditRetention c > 0 then
        let (a, l) = DeleteOldAudit e (e_now e - cc_AuditRetention c) (cc_BatchSize c) entries
        in (deleted a, l)
      else (0, entries))"

definition clean ::
  "env \<Rightarrow> cleanup_config \<Rightarrow> world \<times> audit_entry list \<Rightarrow> int \<times> world \<times> audit_entry list" where
  "clean e c s =
     (let (n1, w1) = clean_runs e c (fst s);
          (n2, w2) = clean_jobs e c w1;
          (n3, entries) = clean_audit e c (snd s)
      in (n1 + n2 + n3, w2, entries))"

section \<open>What survives\<close>

definition run_survives :: "run \<Rightarrow> world \<Rightarrow> bool" where
  "run_survives r w \<longleftrightarrow> (\<exists>r'\<in>set (w_runs w).
     r_id r' = r_id r \<and> r_state r' = r_state r \<and> r_finished_at r' = r_finished_at r)"

definition job_survives :: "job \<Rightarrow> world \<Rightarrow> bool" where
  "job_survives j w \<longleftrightarrow> (\<exists>j'\<in>set (w_jobs w).
     j_id j' = j_id j \<and> j_state j' = j_state j \<and> j_updated_at j' = j_updated_at j)"

lemma drop_runs_frame [frame_simps]:
  "w_jobs (drop_runs ids w) = w_jobs w" "w_processes (drop_runs ids w) = w_processes w"
  "w_job_attempts (drop_runs ids w) = w_job_attempts w"
  by (simp_all add: drop_runs_def)

lemma drop_jobs_frame [frame_simps]:
  "w_runs (drop_jobs ids w) = w_runs w" "w_processes (drop_jobs ids w) = w_processes w"
  "w_run_attempts (drop_jobs ids w) = w_run_attempts w"
  by (simp_all add: drop_jobs_def)

lemma DeleteOldRuns_cases:
  obtains "snd (DeleteOldRuns e cutoff n w) = w" "deleted (fst (DeleteOldRuns e cutoff n w)) = 0"
  | "snd (DeleteOldRuns e cutoff n w) =
       drop_runs (r_id ` set (take (nat n) (filter (old_run cutoff) (w_runs w)))) w"
    "deleted (fst (DeleteOldRuns e cutoff n w)) =
       int (length (take (nat n) (filter (old_run cutoff) (w_runs w))))"
  by (cases "e_fault e ''DeleteOldRuns''")
    (auto simp: DeleteOldRuns_def db_exec_def Let_def deleted_def)

lemma DeleteOldJobs_cases:
  obtains "snd (DeleteOldJobs e cutoff n w) = w" "deleted (fst (DeleteOldJobs e cutoff n w)) = 0"
  | "snd (DeleteOldJobs e cutoff n w) =
       drop_jobs (j_id ` set (take (nat n) (filter (old_job cutoff) (w_jobs w)))) w"
    "deleted (fst (DeleteOldJobs e cutoff n w)) =
       int (length (take (nat n) (filter (old_job cutoff) (w_jobs w))))"
  by (cases "e_fault e ''DeleteOldJobs''")
    (auto simp: DeleteOldJobs_def db_exec_def Let_def deleted_def)

text \<open>With a primary key, the rows whose key was selected are the rows that were selected.\<close>

lemma key_of_selected:
  assumes "distinct (map key xs)" "x \<in> set xs" "key x \<in> key ` set (take n (filter P xs))"
  shows "P x"
proof -
  obtain y where y: "y \<in> set (take n (filter P xs))" "key y = key x"
    using assms(3) by auto
  then have "y \<in> set (filter P xs)" by (blast dest: in_set_takeD)
  then show ?thesis
    using y(2) assms(1,2) by (auto simp: distinct_map dest: inj_onD)
qed

lemma length_minus_selected:
  "distinct (map key xs) \<Longrightarrow>
   length (filter (\<lambda>x. key x \<notin> key ` set (take n (filter P xs))) xs) + length (take n (filter P xs))
     = length xs"
proof -
  let ?t = "take n (filter P xs)"
  assume d: "distinct (map key xs)"
  then have "distinct (map key ?t)"
    by (metis distinct_map_filter distinct_take take_map)
  moreover have sub: "set ?t \<subseteq> set xs" by (auto dest: in_set_takeD)
  moreover have sel: "set (filter (\<lambda>x. key x \<in> key ` set ?t) xs) = set ?t"
  proof (intro equalityI subsetI)
    fix x assume "x \<in> set (filter (\<lambda>x. key x \<in> key ` set ?t) xs)"
    then obtain y where y: "x \<in> set xs" "y \<in> set ?t" "key x = key y" by auto
    have "inj_on key (set xs)" using d by (simp add: distinct_map)
    then have "x = y" using y sub by (metis inj_onD subsetD)
    then show "x \<in> set ?t" using y(2) by simp
  next
    fix x assume "x \<in> set ?t"
    then show "x \<in> set (filter (\<lambda>x. key x \<in> key ` set ?t) xs)" using sub by auto
  qed
  ultimately have "length (filter (\<lambda>x. key x \<in> key ` set ?t) xs) = length ?t"
    using d by (metis (no_types, lifting) distinct_card distinct_filter distinct_map)
  then show ?thesis
    using sum_length_filter_compl[of "\<lambda>x. key x \<in> key ` set ?t" xs] by simp
qed

lemma distinct_drop_runs:
  "distinct (map r_id (w_runs w)) \<Longrightarrow> distinct (map r_id (w_runs (drop_runs ids w)))"
  by (simp add: drop_runs_def comp_def distinct_map_filter)

lemma DeleteOldRuns_distinct:
  "distinct (map r_id (w_runs w)) \<Longrightarrow>
   distinct (map r_id (w_runs (snd (DeleteOldRuns e cutoff n w))))"
  by (cases rule: DeleteOldRuns_cases[of e cutoff n w]) (auto intro: distinct_drop_runs)

lemma DeleteOldRuns_survives:
  assumes "distinct (map r_id (w_runs w))" "r \<in> set (w_runs w)"
  shows "run_survives r (snd (DeleteOldRuns e cutoff n w)) \<or> old_run cutoff r"
proof (cases rule: DeleteOldRuns_cases[of e cutoff n w])
  case 1
  then show ?thesis using assms(2) by (auto simp: run_survives_def)
next
  case 2
  then show ?thesis
    using assms(2) key_of_selected[OF assms, of "nat n" "old_run cutoff"]
    by (auto simp: run_survives_def drop_runs_def)
qed

lemma DeleteOldRuns_batch:
  assumes "distinct (map r_id (w_runs w))"
  shows "int (length (w_runs w)) =
    int (length (w_runs (snd (DeleteOldRuns e cutoff n w)))) + deleted (fst (DeleteOldRuns e cutoff n w))
    \<and> deleted (fst (DeleteOldRuns e cutoff n w)) \<le> max 0 n"
proof (cases rule: DeleteOldRuns_cases[of e cutoff n w])
  case 2
  then show ?thesis
    using length_minus_selected[OF assms, of "nat n" "old_run cutoff"]
    by (simp add: drop_runs_def)
qed auto

lemma DeleteOldJobs_survives:
  assumes "distinct (map j_id (w_jobs w))" "j \<in> set (w_jobs w)"
  shows "job_survives j (snd (DeleteOldJobs e cutoff n w)) \<or> old_job cutoff j"
proof (cases rule: DeleteOldJobs_cases[of e cutoff n w])
  case 1
  then show ?thesis using assms(2) by (auto simp: job_survives_def)
next
  case 2
  then show ?thesis
    using assms(2) key_of_selected[OF assms, of "nat n" "old_job cutoff"]
    by (auto simp: job_survives_def drop_jobs_def)
qed

lemma DeleteOldJobs_runs [frame_simps]: "w_runs (snd (DeleteOldJobs e cutoff n w)) = w_runs w"
  by (cases rule: DeleteOldJobs_cases[of e cutoff n w]) (auto simp: frame_simps)

lemma DeleteOldRuns_jobs [frame_simps]: "w_jobs (snd (DeleteOldRuns e cutoff n w)) = w_jobs w"
  by (cases rule: DeleteOldRuns_cases[of e cutoff n w]) (auto simp: frame_simps)

text \<open>One cycle, stage by stage.\<close>

lemma clean_runs_survives:
  assumes "distinct (map r_id (w_runs w))" "r \<in> set (w_runs w)"
  shows "run_survives r (snd (clean_runs e c w)) \<or>
    0 < cc_RunRetention c \<and> old_run (e_now e - cc_RunRetention c) r"
  using DeleteOldRuns_survives[OF assms, of e "e_now e - cc_RunRetention c" "cc_BatchSize c"] assms(2)
  by (auto simp: clean_runs_def split_beta run_survives_def Let_def)

lemma clean_runs_distinct:
  "distinct (map r_id (w_runs w)) \<Longrightarrow> distinct (map r_id (w_runs (snd (clean_runs e c w))))"
  by (simp add: clean_runs_def split_beta Let_def DeleteOldRuns_distinct)

lemma clean_runs_batch:
  assumes "distinct (map r_id (w_runs w))"
  shows "int (length (w_runs w)) = int (length (w_runs (snd (clean_runs e c w)))) + fst (clean_runs e c w)
    \<and> fst (clean_runs e c w) \<le> max 0 (cc_BatchSize c)"
  using DeleteOldRuns_batch[OF assms, of e "e_now e - cc_RunRetention c" "cc_BatchSize c"]
  by (auto simp: clean_runs_def split_beta Let_def)

lemma clean_jobs_survives:
  assumes "distinct (map j_id (w_jobs w))" "j \<in> set (w_jobs w)"
  shows "job_survives j (snd (clean_jobs e c w)) \<or>
    0 < cc_JobRetention c \<and> old_job (e_now e - cc_JobRetention c) j"
  using DeleteOldJobs_survives[OF assms, of e "e_now e - cc_JobRetention c" "cc_BatchSize c"] assms(2)
  by (auto simp: clean_jobs_def split_beta job_survives_def Let_def)

lemma clean_stage_frame [frame_simps]:
  "w_jobs (snd (clean_runs e c w)) = w_jobs w" "w_runs (snd (clean_jobs e c w)) = w_runs w"
  by (simp_all add: clean_runs_def clean_jobs_def split_beta Let_def frame_simps)

lemma clean_world: "fst (snd (clean e c s)) = snd (clean_jobs e c (snd (clean_runs e c (fst s))))"
  by (simp add: clean_def split_beta Let_def)

lemma run_survives_trans:
  "run_survives r w \<Longrightarrow> (\<And>r'. r' \<in> set (w_runs w) \<Longrightarrow> r_finished_at r' = r_finished_at r \<Longrightarrow>
     run_survives r' w') \<Longrightarrow> run_survives r w'"
  unfolding run_survives_def by metis

end
