(* ===== verification/Notifier.thy ===== *)
theory Notifier
  imports World
begin

text \<open>
  Webhooks, \<open>internal/notifier\<close> and \<open>internal/db/webhooks.sql.go\<close>: the filter of a subscription,
  the delivery of an event with its three attempts, and the counter of failures that disables a
  subscription. Outside the program are \<open>marshal\<close> (\<open>json.Marshal\<close> of the event), \<open>sign\<close> (HMAC),
  \<open>request_ok\<close> (whether a request can be built for a URL) and \<open>post\<close>, which gives the status code a
  subscriber answers an attempt with, \<open>None\<close> on a transport error. The goroutines of one \<open>Emit\<close>
  run one after the other in the model.
\<close>

section \<open>Rows and queries\<close>

record webhook_subscription =
  ws_id :: string
  ws_workspace_id :: string
  ws_url :: string
  ws_secret :: string
  ws_event_types :: "string list"
  ws_enabled :: bool
  ws_consecutive_failures :: int
  ws_auto_disabled :: bool
  ws_last_delivery_at :: "instant option"
  ws_last_failure_at :: "instant option"
  ws_created_at :: instant
  ws_updated_at :: instant

text \<open>\<open>notifier.Event\<close>\<close>

record webhook_event =
  we_ID :: string
  we_Type :: string
  we_Timestamp :: instant
  we_WorkspaceID :: string
  we_Data :: json

text \<open>A request that left the process.\<close>

record webhook_request =
  wr_url :: string
  wr_body :: string
  wr_signature :: string
  wr_timestamp :: instant
  wr_delivery_id :: string

record notifier_state =
  ns_subs :: "webhook_subscription list"
  ns_world :: world
  ns_sent :: "webhook_request list"

definition on_sub ::
  "string \<Rightarrow> (webhook_subscription \<Rightarrow> webhook_subscription) \<Rightarrow> notifier_state \<Rightarrow> notifier_state" where
  "on_sub sid f s = s\<lparr>ns_subs := update_key ws_id sid f (ns_subs s)\<rparr>"

definition IncrementWebhookFailures :: "env \<Rightarrow> string \<Rightarrow> notifier_state \<Rightarrow> notifier_state" where
  "IncrementWebhookFailures e sid s =
     (case e_fault e ''IncrementWebhookFailures'' of Some _ \<Rightarrow> s
      | None \<Rightarrow> on_sub sid (\<lambda>x. x\<lparr>
          ws_consecutive_failures := ws_consecutive_failures x + 1,
          ws_last_failure_at := Some (e_db_now e),
          ws_auto_disabled := (if ws_consecutive_failures x + 1 \<ge> 20 then True else False),
          ws_enabled := (if ws_consecutive_failures x + 1 \<ge> 20 then False else ws_enabled x),
          ws_updated_at := e_db_now e\<rparr>) s)"

definition ResetWebhookFailures :: "env \<Rightarrow> string \<Rightarrow> notifier_state \<Rightarrow> notifier_state" where
  "ResetWebhookFailures e sid s =
     (case e_fault e ''ResetWebhookFailures'' of Some _ \<Rightarrow> s
      | None \<Rightarrow> on_sub sid (\<lambda>x. x\<lparr>ws_consecutive_failures := 0,
          ws_last_delivery_at := Some (e_db_now e), ws_updated_at := e_db_now e\<rparr>) s)"

definition ListActiveWebhooksForEvent ::
  "env \<Rightarrow> string \<Rightarrow> notifier_state \<Rightarrow> webhook_subscription list answer" where
  "ListActiveWebhooksForEvent e wsid s = db_read e ''ListActiveWebhooksForEvent''
     (Inr (filter (\<lambda>x. ws_workspace_id x = wsid \<and> ws_enabled x \<and> \<not> ws_auto_disabled x) (ns_subs s)))"

definition SetWebhookEnabled ::
  "env \<Rightarrow> string \<Rightarrow> string \<Rightarrow> bool \<Rightarrow> notifier_state \<Rightarrow> go_error option \<times> notifier_state" where
  "SetWebhookEnabled e sid wsid enabled s =
     (case e_fault e ''SetWebhookEnabled'' of
        Some err \<Rightarrow> (Some err, s)
      | None \<Rightarrow> (None, s\<lparr>ns_subs := update_where (\<lambda>x. ws_id x = sid \<and> ws_workspace_id x = wsid)
          (\<lambda>x. x\<lparr>ws_enabled := enabled, ws_updated_at := e_db_now e\<rparr>) (ns_subs s)\<rparr>))"

definition UpdateWebhookSubscription ::
  "env \<Rightarrow> string \<Rightarrow> string \<Rightarrow> string \<Rightarrow> string list option \<Rightarrow> notifier_state
   \<Rightarrow> go_error option \<times> notifier_state" where
  "UpdateWebhookSubscription e sid wsid url event_types s =
     (let hit = (\<lambda>x. ws_id x = sid \<and> ws_workspace_id x = wsid)
      in case e_fault e ''UpdateWebhookSubscription'' of
           Some err \<Rightarrow> (Some err, s)
         | None \<Rightarrow>
             if \<not> list_ex hit (ns_subs s) then (Some ErrNoRows, s)
             else if event_types = None then (Some (not_null_violation ''event_types''), s)
             else (None, s\<lparr>ns_subs := update_where hit
               (\<lambda>x. x\<lparr>ws_url := url, ws_event_types := the event_types,
                      ws_updated_at := e_db_now e\<rparr>) (ns_subs s)\<rparr>))"

section \<open>Filters\<close>

fun matchesFilter_loop :: "string \<Rightarrow> string list \<Rightarrow> bool" where
  "matchesFilter_loop eventType [] = False"
| "matchesFilter_loop eventType (f # filters) =
     (if f = eventType then True
      else if HasSuffix f ''.*'' \<and> HasPrefix eventType (TrimSuffix f ''.*'' @ ''.'') then True
      else matchesFilter_loop eventType filters)"

definition matchesFilter :: "string \<Rightarrow> string list \<Rightarrow> bool" where
  "matchesFilter eventType filters =
     (if length filters = 0 then True else matchesFilter_loop eventType filters)"

section \<open>Delivery\<close>

text \<open>
  What lies outside the notifier; \<open>x_post sub n\<close> answers the n-th attempt for a subscription.
\<close>

record outside =
  x_marshal :: "webhook_event \<Rightarrow> string option"
  x_sign :: "string \<Rightarrow> string \<Rightarrow> string"
  x_request_ok :: "string \<Rightarrow> bool"
  x_post :: "webhook_subscription \<Rightarrow> nat \<Rightarrow> int option"

definition answered_2xx :: "int option \<Rightarrow> bool" where
  "answered_2xx r = (case r of None \<Rightarrow> False | Some c \<Rightarrow> 200 \<le> c \<and> c < 300)"

function deliver_loop ::
  "outside \<Rightarrow> env \<Rightarrow> webhook_subscription \<Rightarrow> webhook_request \<Rightarrow> nat \<Rightarrow> notifier_state \<Rightarrow> notifier_state" where
  "deliver_loop x e sub req attempt s =
     (if attempt \<le> 3 then
        if \<not> x_request_ok x (ws_url sub) then s
        else
          let s1 = s\<lparr>ns_sent := ns_sent s @ [req]\<rparr>
          in if answered_2xx (x_post x sub attempt) then ResetWebhookFailures e (ws_id sub) s1
             else deliver_loop x e sub req (attempt + 1) s1
      else IncrementWebhookFailures e (ws_id sub) s)"
  by pat_completeness auto
termination
  by (relation "measure (\<lambda>(x, e, sub, req, attempt, s). 4 - attempt)") auto

declare deliver_loop.simps [simp del]

definition deliver ::
  "outside \<Rightarrow> env \<Rightarrow> webhook_subscription \<Rightarrow> webhook_event \<Rightarrow> notifier_state \<Rightarrow> notifier_state" where
  "deliver x e sub ev s =
     (case x_marshal x ev of
        None \<Rightarrow> s
      | Some body \<Rightarrow>
          let (deliveryID, w) = id_New e ''dlv_'' (ns_world s);
              req = \<lparr>wr_url = ws_url sub, wr_body = body, wr_signature = x_sign x body (ws_secret sub),
                     wr_timestamp = we_Timestamp ev, wr_delivery_id = deliveryID\<rparr>
          in deliver_loop x e sub req 1 (s\<lparr>ns_world := w\<rparr>))"

definition Emit ::
  "outside \<Rightarrow> env \<Rightarrow> string \<Rightarrow> webhook_event \<Rightarrow> notifier_state \<Rightarrow> notifier_state" where
  "Emit x e workspaceID ev0 s =
     (let (eid, w) = id_New e ''evt_'' (ns_world s);
          s1 = s\<lparr>ns_world := w\<rparr>;
          ev = ev0\<lparr>we_ID := eid, we_Timestamp := e_now e, we_WorkspaceID := workspaceID\<rparr>
      in case ListActiveWebhooksForEvent e workspaceID s1 of
           Inl _ \<Rightarrow> s1
         | Inr subs \<Rightarrow>
             fold (\<lambda>sub s. if \<not> matchesFilter (we_Type ev) (ws_event_types sub) then s
                           else deliver x e sub ev s) subs s1)"

section \<open>Facts\<close>

definition sub_at :: "notifier_state \<Rightarrow> string \<Rightarrow> webhook_subscription option" where
  "sub_at s k = lookup_key ws_id k (ns_subs s)"

lemma sub_at_on_sub:
  "(\<And>x. ws_id (f x) = ws_id x) \<Longrightarrow>
   sub_at (on_sub sid f s) k = (if k = sid then map_option f (sub_at s k) else sub_at s k)"
  unfolding sub_at_def on_sub_def update_key_def
  by (cases "lookup_key ws_id k (ns_subs s)")
    (auto simp: lookup_key_update_where dest: lookup_key_SomeD)

lemma sub_at_sent [simp]: "sub_at (s\<lparr>ns_sent := l\<rparr>) k = sub_at s k" "sub_at (s\<lparr>ns_world := w\<rparr>) k = sub_at s k"
  by (simp_all add: sub_at_def)

lemma on_sub_sent [simp]: "ns_sent (on_sub sid f s) = ns_sent s"
  by (simp add: on_sub_def)

text \<open>The increment, on a row.\<close>

definition count_failure :: "env \<Rightarrow> webhook_subscription \<Rightarrow> webhook_subscription" where
  "count_failure e x = x\<lparr>ws_consecutive_failures := ws_consecutive_failures x + 1,
     ws_last_failure_at := Some (e_db_now e),
     ws_auto_disabled := (if ws_consecutive_failures x + 1 \<ge> 20 then True else False),
     ws_enabled := (if ws_consecutive_failures x + 1 \<ge> 20 then False else ws_enabled x),
     ws_updated_at := e_db_now e\<rparr>"

lemma Increment_count_failure:
  "e_fault e ''IncrementWebhookFailures'' = None \<Longrightarrow>
   IncrementWebhookFailures e sid s = on_sub sid (count_failure e) s"
  by (simp add: IncrementWebhookFailures_def count_failure_def[abs_def])

lemma count_failure_id [simp]: "ws_id (count_failure e x) = ws_id x"
  by (simp add: count_failure_def)

text \<open>Three attempts that nobody answers.\<close>

lemma deliver_loop_step:
  assumes "x_request_ok x (ws_url sub)" "\<not> answered_2xx (x_post x sub n)" "n \<le> 3"
  shows "deliver_loop x e sub req n s = deliver_loop x e sub req (Suc n) (s\<lparr>ns_sent := ns_sent s @ [req]\<rparr>)"
  using assms by (simp add: deliver_loop.simps[of x e sub req n])

lemma deliver_loop_fails:
  assumes "x_request_ok x (ws_url sub)" "\<And>n. \<not> answered_2xx (x_post x sub n)"
    "e_fault e ''IncrementWebhookFailures'' = None"
  shows "deliver_loop x e sub req (Suc 0) s =
    on_sub (ws_id sub) (count_failure e) (s\<lparr>ns_sent := ns_sent s @ [req, req, req]\<rparr>)"
proof -
  have "deliver_loop x e sub req (Suc 0) s =
      deliver_loop x e sub req 4 (s\<lparr>ns_sent := ns_sent s @ [req, req, req]\<rparr>)"
    using assms(1,2) by (simp add: deliver_loop_step eval_nat_numeral)
  then show ?thesis
    using assms(3) by (simp add: deliver_loop.simps[of x e sub req 4] Increment_count_failure)
qed

lemma deliver_fails:
  assumes "x_marshal x ev = Some body" "x_request_ok x (ws_url sub)"
    "\<And>n. \<not> answered_2xx (x_post x sub n)" "e_fault e ''IncrementWebhookFailures'' = None"
  shows "sub_at (deliver x e sub ev s) (ws_id sub) = map_option (count_failure e) (sub_at s (ws_id sub))"
    and "length (ns_sent (deliver x e sub ev s)) = length (ns_sent s) + 3"
  using assms
  by (simp_all add: deliver_def deliver_loop_fails sub_at_on_sub Let_def split: prod.split)

lemma matchesFilter_loop_iff:
  "matchesFilter_loop t fs \<longleftrightarrow>
     t \<in> set fs \<or> (\<exists>f\<in>set fs. HasSuffix f ''.*'' \<and> HasPrefix t (TrimSuffix f ''.*'' @ ''.''))"
  by (induction fs) auto

lemma TrimSuffix_append [simp]: "TrimSuffix (p @ q) q = p"
proof -
  have "HasSuffix (p @ q) q" unfolding HasSuffix_iff by blast
  then show ?thesis by (simp add: TrimSuffix_def)
qed

end
