(* ===== verification/Upkeep_Properties.thy ===== *)
theory Upkeep_Properties
  imports Cleanup Notifier Samples
begin

text \<open>
  Retention and webhooks: what a cleanup may delete and what it never will, which events a
  subscription receives, and when failures disable it.
\<close>

section \<open>Cleanup\<close>


definition sample_cleanup :: cleanup_config where
  "sample_cleanup = cleanup_New \<lparr>cc_RunRetention = hour, cc_JobRetention = hour,
     cc_AuditRetention = 0, cc_BatchSize = 0, cc_Interval = 0\<rparr>"

definition old_world :: world where
  "old_world = sample_world [] [(sample_run ''run_1'' Completed)\<lparr>r_finished_at := Some 0\<rparr>,
     (sample_run ''run_2'' Skipped)\<lparr>r_scheduled_at := 1\<rparr>]"

lemma old_world_distinct: "distinct (map r_id (w_runs old_world))" "w_jobs old_world = []"
  by (simp_all add: old_world_def sample_world_def sample_run_def new_run_def sample_params_def
      empty_world_def)


text \<open>
  A run without a finishing time is never deleted, however many cleanups follow at whatever
  times: skipped and cancelled runs, whose finishing time is not recorded, stay for ever, although
  the retention is meant for them too.
\<close>

theorem unfinished_runs_kept_for_ever:
  assumes "distinct (map r_id (w_runs w))" "r \<in> set (w_runs w)" "r_finished_at r = None"
  shows "run_survives r (fst (fold (\<lambda>(e, c) s. snd (clean e c s)) rounds (w, entries)))"
  using assms
proof (induction rounds arbitrary: w entries r)
  case Nil
  then show ?case by (auto simp: run_survives_def)
next
  case (Cons ec rounds)
  obtain e c where ec: "ec = (e, c)" by (cases ec)
  obtain w1 l1 where s1: "snd (clean e c (w, entries)) = (w1, l1)" by (cases "snd (clean e c (w, entries))")
  then have w1: "w1 = snd (clean_jobs e c (snd (clean_runs e c w)))"
    using clean_world[of e c "(w, entries)"] by simp
  have "run_survives r w1"
    using clean_runs_survives[OF Cons.prems(1,2), of e c] Cons.prems(3)
    by (simp add: w1 run_survives_def frame_simps old_run_def)
  moreover have "distinct (map r_id (w_runs w1))"
    using clean_runs_distinct[OF Cons.prems(1), of e c] by (simp add: w1 frame_simps)
  ultimately have "run_survives r (fst (fold (\<lambda>(e, c) s. snd (clean e c s)) rounds (w1, l1)))"
    using run_survives_trans[of r w1] Cons.IH[of w1 _ l1] Cons.prems(3) by simp
  then show ?case by (simp add: ec s1)
qed

theorem unfinished_runs_kept_for_ever_witness:
  "run_survives ((sample_run ''run_2'' Skipped)\<lparr>r_scheduled_at := 1\<rparr>)
     (fst (fold (\<lambda>(e, c) s. snd (clean e c s))
        (replicate 3 (calm (1000000 * hour), sample_cleanup)) (old_world, [])))"
  by (rule unfinished_runs_kept_for_ever[OF old_world_distinct(1)])
    (simp_all add: old_world_def sample_world_def sample_run_def new_run_def)

section \<open>Webhooks\<close>

text \<open>
  A subscription receives an event when it has no filter, when a filter is the type of the
  event, or when a filter \<open>p.*\<close> has \<open>p.\<close> as a prefix of it; in no other case.
\<close>

theorem matchesFilter_decides:
  "matchesFilter t fs \<longleftrightarrow>
     fs = [] \<or> t \<in> set fs \<or> (\<exists>p rest. p @ ''.*'' \<in> set fs \<and> t = p @ ''.'' @ rest)"
proof -
  have "(\<exists>f\<in>set fs. HasSuffix f ''.*'' \<and> HasPrefix t (TrimSuffix f ''.*'' @ ''.'')) \<longleftrightarrow>
      (\<exists>p rest. p @ ''.*'' \<in> set fs \<and> t = p @ ''.'' @ rest)"
    by (auto simp: HasSuffix_iff HasPrefix_iff) (metis HasPrefix_iff TrimSuffix_append append.assoc
        append_Cons append_Nil)
  then show ?thesis
    by (simp add: matchesFilter_def matchesFilter_loop_iff)
qed

text \<open>
  Every delivery that no attempt gets through makes three requests and counts one failure, so
  after n of them in a row a fresh subscription has n failures, has been sent 3 n requests, and is
  still listed for events exactly when n is below twenty: the twentieth failure disables it.
\<close>

theorem twenty_failures_disable:
  assumes "x_marshal x ev = Some body" "x_request_ok x (ws_url sub)"
    "\<And>n. \<not> answered_2xx (x_post x sub n)" "e_fault e ''IncrementWebhookFailures'' = None"
    "sub_at s (ws_id sub) = Some sub" "ws_enabled sub" "\<not> ws_auto_disabled sub"
    "ws_consecutive_failures sub = 0"
  shows "\<exists>sub'. sub_at ((deliver x e sub ev ^^ n) s) (ws_id sub) = Some sub' \<and>
     ws_consecutive_failures sub' = int n \<and> ws_enabled sub' = (n < 20) \<and>
     ws_auto_disabled sub' = (20 \<le> n) \<and> ws_workspace_id sub' = ws_workspace_id sub \<and>
     length (ns_sent ((deliver x e sub ev ^^ n) s)) = length (ns_sent s) + 3 * n"
proof (induction n)
  case 0
  then show ?case using assms(5-8) by simp
next
  case (Suc n)
  then obtain y where y: "sub_at ((deliver x e sub ev ^^ n) s) (ws_id sub) = Some y"
    "ws_consecutive_failures y = int n" "ws_enabled y = (n < 20)"
    "ws_workspace_id y = ws_workspace_id sub"
    "length (ns_sent ((deliver x e sub ev ^^ n) s)) = length (ns_sent s) + 3 * n" by blast
  show ?case
    using deliver_fails[OF assms(1-4), of "(deliver x e sub ev ^^ n) s"] y
    by (intro exI[of _ "count_failure e y"]) (auto simp: count_failure_def)
qed

definition sample_sub :: webhook_subscription where
  "sample_sub = \<lparr>ws_id = ''whs_1'', ws_workspace_id = ''wsp_1'', ws_url = ''https://a.example'',
     ws_secret = ''s'', ws_event_types = [''run.*''], ws_enabled = True,
     ws_consecutive_failures = 0, ws_auto_disabled = False, ws_last_delivery_at = None,
     ws_last_failure_at = None, ws_created_at = 0, ws_updated_at = 0\<rparr>"

definition sample_outside :: "int option \<Rightarrow> outside" where
  "sample_outside answer = \<lparr>x_marshal = (\<lambda>_. Some ''{}''), x_sign = (\<lambda>b k. b @ k),
     x_request_ok = (\<lambda>_. True), x_post = (\<lambda>_ _. answer)\<rparr>"

definition sample_event :: webhook_event where
  "sample_event = \<lparr>we_ID = [], we_Type = ''run.hung'', we_Timestamp = 0, we_WorkspaceID = [],
     we_Data = JNull\<rparr>"

definition sample_notifier :: "webhook_subscription list \<Rightarrow> notifier_state" where
  "sample_notifier subs = \<lparr>ns_subs = subs, ns_world = empty_world, ns_sent = []\<rparr>"

theorem twenty_failures_disable_witness:
  "\<exists>sub'. sub_at ((deliver (sample_outside (Some 500)) (calm 0) sample_sub sample_event ^^ 20)
       (sample_notifier [sample_sub])) ''whs_1'' = Some sub' \<and> \<not> ws_enabled sub' \<and>
     ws_consecutive_failures sub' = 20"
  using twenty_failures_disable[of "sample_outside (Some 500)" sample_event "''{}''" sample_sub
      "calm 0" "sample_notifier [sample_sub]" 20]
  by (auto simp: sample_outside_def sample_sub_def answered_2xx_def sub_at_def sample_notifier_def)

text \<open>
  Enabling a subscription again does not bring it back: whatever \<open>SetWebhookEnabled\<close> writes,
  a subscription that failures disabled is not among the ones an event goes to.
\<close>

theorem reactivation_has_no_effect:
  assumes "x \<in> set (ns_subs s)" "ws_auto_disabled x" "distinct (map ws_id (ns_subs s))"
    "ListActiveWebhooksForEvent e wsid (snd (SetWebhookEnabled e sid wsid' b s)) = Inr subs"
  shows "ws_id x \<notin> ws_id ` set subs"
proof
  assume "ws_id x \<in> ws_id ` set subs"
  then obtain y where y: "y \<in> set subs" "ws_id y = ws_id x" by auto
  let ?f = "\<lambda>x. x\<lparr>ws_enabled := b, ws_updated_at := e_db_now e\<rparr>"
  have "\<not> ws_auto_disabled y" "y \<in> set (ns_subs (snd (SetWebhookEnabled e sid wsid' b s)))"
    using assms(4) y(1) by (auto simp: ListActiveWebhooksForEvent_def db_read_def split: option.splits)
  then obtain z where z: "z \<in> set (ns_subs s)" "ws_id z = ws_id y" "\<not> ws_auto_disabled z"
    by (auto simp: SetWebhookEnabled_def set_update_where split: option.splits if_splits)
  then have "z = x" using assms(1,3) y(2) by (metis distinct_map inj_onD)
  then show False using z(3) assms(2) by simp
qed

theorem reactivation_has_no_effect_witness:
  "ListActiveWebhooksForEvent (calm 0) ''wsp_1'' (snd (SetWebhookEnabled (calm 0) ''whs_1'' ''wsp_1''
      True (sample_notifier [sample_sub\<lparr>ws_auto_disabled := True, ws_enabled := False\<rparr>]))) = Inr [] \<and>
   ''whs_1'' \<notin> ws_id ` set ([] :: webhook_subscription list)"
proof -
  let ?x = "sample_sub\<lparr>ws_auto_disabled := True, ws_enabled := False\<rparr>"
  have l: "ListActiveWebhooksForEvent (calm 0) ''wsp_1'' (snd (SetWebhookEnabled (calm 0) ''whs_1''
      ''wsp_1'' True (sample_notifier [?x]))) = Inr []"
    by (simp add: ListActiveWebhooksForEvent_def SetWebhookEnabled_def db_read_def
        sample_notifier_def sample_sub_def)
  then show ?thesis
    using reactivation_has_no_effect[OF _ _ _ l, of ?x]
    by (simp add: sample_notifier_def sample_sub_def)
qed

end
