(* ===== verification/Access.thy ===== *)
theory Access
  imports World
begin

text \<open>
  Authentication and authorisation, \<open>internal/auth\<close>: API keys, the actor a request carries in its
  context, roles, and the middleware in front of the handlers. SHA-256 is the parameter \<open>hash\<close>;
  the goroutine that records the use of a key is the second component of \<open>Authenticate\<close>.
\<close>

section \<open>Actors and the request context, \<open>context.go\<close>\<close>

record actor =
  a_Type :: string
  a_ID :: string
  a_WorkspaceID :: string
  a_Role :: string
  a_IsPlatformAdmin :: bool

text \<open>The values a request context holds: all six keys are set by \<open>WithActor\<close>, or none.\<close>

type_synonym request_ctx = "actor option"

definition WithActor :: "request_ctx \<Rightarrow> actor \<Rightarrow> request_ctx" where
  "WithActor ctx a = Some a"

definition GetActor :: "request_ctx \<Rightarrow> actor option" where
  "GetActor ctx =
     (case ctx of None \<Rightarrow> None
      | Some a \<Rightarrow> if a_WorkspaceID a = [] \<and> \<not> a_IsPlatformAdmin a then None else Some a)"

definition ctx_WorkspaceID :: "request_ctx \<Rightarrow> string" where
  "ctx_WorkspaceID ctx = (case ctx of None \<Rightarrow> [] | Some a \<Rightarrow> a_WorkspaceID a)"

definition ctx_Role :: "request_ctx \<Rightarrow> string" where
  "ctx_Role ctx = (case ctx of None \<Rightarrow> [] | Some a \<Rightarrow> a_Role a)"

definition ctx_IsPlatformAdmin :: "request_ctx \<Rightarrow> bool" where
  "ctx_IsPlatformAdmin ctx = (case ctx of None \<Rightarrow> False | Some a \<Rightarrow> a_IsPlatformAdmin a)"

section \<open>Queries\<close>

text \<open>\<open>GetAPIKeyByHash\<close>: the row of the key and the state of its workspace.\<close>

definition workspace_of_key :: "world \<Rightarrow> api_key \<Rightarrow> workspace option" where
  "workspace_of_key w k = lookup_key wsp_id (ak_workspace_id k) (w_workspaces w)"

definition GetAPIKeyByHash :: "env \<Rightarrow> string \<Rightarrow> world \<Rightarrow> (api_key \<times> string) answer" where
  "GetAPIKeyByHash e h w = db_read e ''GetAPIKeyByHash''
     (case List.find (\<lambda>k. ak_key_hash k = h \<and> ak_enabled k \<and> workspace_of_key w k \<noteq> None)
             (w_api_keys w) of
        None \<Rightarrow> Inl ErrNoRows
      | Some k \<Rightarrow> Inr (k, wsp_state (the (workspace_of_key w k))))"

lemma GetAPIKeyByHash_SomeD:
  assumes "GetAPIKeyByHash e h w = Inr (k, st)"
  shows "k \<in> set (w_api_keys w) \<and> ak_key_hash k = h \<and> ak_enabled k \<and>
    (\<exists>ws\<in>set (w_workspaces w). wsp_id ws = ak_workspace_id k \<and> wsp_state ws = st)"
proof -
  have "List.find (\<lambda>k. ak_key_hash k = h \<and> ak_enabled k \<and> workspace_of_key w k \<noteq> None)
      (w_api_keys w) = Some k" "st = wsp_state (the (workspace_of_key w k))"
    using assms by (auto simp: GetAPIKeyByHash_def db_read_def split: option.splits)
  then show ?thesis
    by (auto simp: find_Some_iff workspace_of_key_def dest: lookup_key_SomeD)
qed

definition GetUserByID :: "env \<Rightarrow> string \<Rightarrow> world \<Rightarrow> user answer" where
  "GetUserByID e uid w = db_read e ''GetUserByID'' (one_row (lookup_key u_id uid (w_users w)))"

definition UpdateAPIKeyUsage ::
  "env \<Rightarrow> string \<Rightarrow> string option \<Rightarrow> string option \<Rightarrow> world \<Rightarrow> world" where
  "UpdateAPIKeyUsage e kid ip ua w =
     (case e_fault e ''UpdateAPIKeyUsage'' of Some _ \<Rightarrow> w
      | None \<Rightarrow> w\<lparr>w_api_keys := update_key ak_id kid
          (\<lambda>k. k\<lparr>ak_last_used_at := Some (e_db_now e), ak_last_ip := ip, ak_last_user_agent := ua\<rparr>)
          (w_api_keys w)\<rparr>)"

section \<open>API keys, \<open>apikey.go\<close>\<close>

definition GenerateAPIKeyPrefix :: "string \<Rightarrow> string" where
  "GenerateAPIKeyPrefix key = (if length key < 8 then key else take 8 key)"

text \<open>What \<open>Authenticate\<close> reads of the HTTP request; an absent header is the empty string.\<close>

record http_request =
  h_X_API_Key :: string
  h_X_Workspace_ID :: string
  h_X_Forwarded_For :: string
  h_RemoteAddr :: string
  h_UserAgent :: string
  h_Path :: string

datatype auth_error = MissingKey | InvalidKey | WorkspaceIs string

definition Authenticate ::
  "(string \<Rightarrow> string) \<Rightarrow> env \<Rightarrow> http_request \<Rightarrow> world \<Rightarrow> (auth_error + actor) \<times> world" where
  "Authenticate hash e r w =
     (let key = h_X_API_Key r
      in if key = [] then (Inl MissingKey, w)
         else case GetAPIKeyByHash e (hash key) w of
           Inl _ \<Rightarrow> (Inl InvalidKey, w)
         | Inr (row, ws_state) \<Rightarrow>
             if take (min (length key) 8) key \<noteq> ak_key_prefix row then (Inl InvalidKey, w)
             else
               let admin = (case ak_created_by row of None \<Rightarrow> False
                            | Some uid \<Rightarrow> (case GetUserByID e uid w of
                                             Inl _ \<Rightarrow> False | Inr u \<Rightarrow> u_is_platform_admin u));
                   wsID = (if admin \<and> h_X_Workspace_ID r \<noteq> [] then h_X_Workspace_ID r
                           else ak_workspace_id row)
               in if \<not> admin \<and> (ws_state = ''suspended'' \<or> ws_state = ''archived'')
                  then (Inl (WorkspaceIs ws_state), w)
                  else
                    let ip = (if h_X_Forwarded_For r \<noteq> []
                              then hd (strings_Split CHR '','' (h_X_Forwarded_For r))
                              else h_RemoteAddr r);
                        w' = UpdateAPIKeyUsage e (ak_id row) (Some ip) (Some (h_UserAgent r)) w
                    in (Inr \<lparr>a_Type = ''api_key'', a_ID = ak_id row, a_WorkspaceID = wsID,
                             a_Role = (if admin then ''admin'' else ak_role row),
                             a_IsPlatformAdmin = admin\<rparr>, w'))"

section \<open>Roles and middleware, \<open>middleware.go\<close>\<close>

definition role_level :: "string \<Rightarrow> int" where
  "role_level r =
     (if r = ''viewer'' then 1 else if r = ''operator'' then 2 else if r = ''admin'' then 3 else 0)"

definition hasMinRole :: "string \<Rightarrow> string \<Rightarrow> bool" where
  "hasMinRole actual required \<longleftrightarrow> role_level required \<le> role_level actual"

datatype gate = Unauthorized string | Forbidden string | Passed request_ctx

fun auth_error_text :: "auth_error \<Rightarrow> string" where
  "auth_error_text MissingKey = ''missing X-API-Key header''"
| "auth_error_text InvalidKey = ''invalid API key''"
| "auth_error_text (WorkspaceIs s) = ''workspace is '' @ s"

definition Middleware ::
  "(string \<Rightarrow> string) \<Rightarrow> string list \<Rightarrow> env \<Rightarrow> http_request \<Rightarrow> request_ctx \<Rightarrow> world
   \<Rightarrow> gate \<times> world" where
  "Middleware hash skipPaths e r ctx w =
     (if h_Path r \<in> set skipPaths then (Passed ctx, w)
      else case Authenticate hash e r w of
        (Inl err, w') \<Rightarrow> (Unauthorized (auth_error_text err), w')
      | (Inr a, w') \<Rightarrow> (Passed (WithActor ctx a), w'))"

definition RequireRole :: "string \<Rightarrow> request_ctx \<Rightarrow> gate" where
  "RequireRole minRole ctx =
     (let role = ctx_Role ctx
      in if role = [] then Unauthorized ''not authenticated''
         else if \<not> hasMinRole role minRole
         then Forbidden (''insufficient permissions: requires '' @ minRole)
         else Passed ctx)"

definition RequirePlatformAdmin :: "request_ctx \<Rightarrow> gate" where
  "RequirePlatformAdmin ctx =
     (if \<not> ctx_IsPlatformAdmin ctx then Forbidden ''platform admin access required''
      else Passed ctx)"

section \<open>Disposable addresses, \<open>disposable.go\<close>\<close>

definition disposableDomains :: "string list" where
  "disposableDomains =
     [''mailinator.com'', ''guerrillamail.com'', ''tempmail.com'', ''throwaway.email'',
      ''yopmail.com'', ''10minutemail.com'', ''trashmail.com'', ''mailnesia.com'',
      ''temp-mail.org'', ''fakeinbox.com'', ''sharklasers.com'', ''guerrillamailblock.com'',
      ''grr.la'', ''guerrillamail.info'', ''guerrillamail.net'', ''guerrillamail.de'',
      ''getnada.com'', ''dispostable.com'', ''maildrop.cc'', ''mailsac.com'',
      ''harakirimail.com'', ''jetable.org'', ''discard.email'', ''tmpmail.net'', ''tmpmail.org'',
      ''boun.cr'', ''mt2015.com'', ''tmail.ws'', ''mohmal.com'', ''tempail.com'',
      ''burnermail.io'', ''mailcatch.com'', ''emailondeck.com'']"

text \<open>\<open>strings.SplitN(email, "@", 2)\<close> has two parts when there is an \<open>@\<close>.\<close>

definition IsDisposableEmail :: "string \<Rightarrow> bool" where
  "IsDisposableEmail email =
     (CHR ''@'' \<in> set email \<and>
      ToLower (TrimSpace (tl (dropWhile (\<lambda>c. c \<noteq> CHR ''@'') email))) \<in> set disposableDomains)"

end
