(* ===== verification/Ssrf.thy ===== *)
theory Ssrf
  imports Go_Std "HOL-Library.Word"
begin

text \<open>
  The check of HTTP targets, \<open>internal/ssrf/validator.go\<close>, with what it uses of Go's package \<open>net\<close>:
  \<open>ParseIP\<close> and the predicates of \<open>net.IP\<close>. An address is its list of bytes. \<open>url.Parse\<close> and the
  resolver are parameters: \<open>url_parse\<close> gives the scheme and the host name of a URL, or nothing on
  a syntax error, and \<open>lookup\<close> the addresses of a host as text, or nothing when the resolution
  fails.
\<close>

unbundle bit_operations_syntax

section \<open>Addresses, package \<open>net\<close>\<close>

type_synonym ip = "8 word list"

definition v4InV6Prefix :: ip where
  "v4InV6Prefix = replicate 10 0 @ [0xff, 0xff]"

definition To4 :: "ip \<Rightarrow> ip option" where
  "To4 a =
     (if length a = 4 then Some a
      else if length a = 16 \<and> take 12 a = v4InV6Prefix then Some (drop 12 a)
      else None)"

definition ip_Equal :: "ip \<Rightarrow> ip \<Rightarrow> bool" where
  "ip_Equal a b =
     (if length a = length b then a = b
      else if length a = 4 \<and> length b = 16 then take 12 b = v4InV6Prefix \<and> a = drop 12 b
      else if length a = 16 \<and> length b = 4 then take 12 a = v4InV6Prefix \<and> drop 12 a = b
      else False)"

definition IsLoopback :: "ip \<Rightarrow> bool" where
  "IsLoopback a =
     (case To4 a of Some v \<Rightarrow> v ! 0 = 127 | None \<Rightarrow> ip_Equal a (replicate 15 0 @ [1]))"

definition IsPrivate :: "ip \<Rightarrow> bool" where
  "IsPrivate a =
     (case To4 a of
        Some v \<Rightarrow> v ! 0 = 10 \<or> v ! 0 = 172 \<and> v ! 1 AND 0xf0 = 16 \<or> v ! 0 = 192 \<and> v ! 1 = 168
      | None \<Rightarrow> length a = 16 \<and> a ! 0 AND 0xfe = 0xfc)"

definition IsLinkLocalUnicast :: "ip \<Rightarrow> bool" where
  "IsLinkLocalUnicast a =
     (case To4 a of
        Some v \<Rightarrow> v ! 0 = 169 \<and> v ! 1 = 254
      | None \<Rightarrow> length a = 16 \<and> a ! 0 = 0xfe \<and> a ! 1 AND 0xc0 = 0x80)"

definition IsLinkLocalMulticast :: "ip \<Rightarrow> bool" where
  "IsLinkLocalMulticast a =
     (case To4 a of
        Some v \<Rightarrow> v ! 0 = 224 \<and> v ! 1 = 0 \<and> v ! 2 = 0
      | None \<Rightarrow> length a = 16 \<and> a ! 0 = 0xff \<and> a ! 1 AND 0x0f = 0x02)"

definition IsUnspecified :: "ip \<Rightarrow> bool" where
  "IsUnspecified a =
     (ip_Equal a (v4InV6Prefix @ [0, 0, 0, 0]) \<or> ip_Equal a (replicate 16 0))"

section \<open>\<open>net.ParseIP\<close>\<close>

text \<open>
  The fields of a dotted address: at most three digits that make a number up to 255, without a
  leading zero, four of them.
\<close>

definition ipv4_field :: "string \<Rightarrow> 8 word option" where
  "ipv4_field f =
     (if f = [] \<or> \<not> list_all is_digit f \<or> 1 < length f \<and> hd f = CHR ''0'' \<or> 3 < length f then None
      else let n = fold (\<lambda>c n. n * 10 + digit_val c) f 0
           in if 255 < n then None else Some (word_of_nat n))"

definition parseIPv4Fields :: "string \<Rightarrow> ip option" where
  "parseIPv4Fields s =
     (let fs = strings_Split CHR ''.'' s
      in if length fs \<noteq> 4 then None else those (map ipv4_field fs))"

definition hex_val :: "char \<Rightarrow> nat option" where
  "hex_val c =
     (let n = (of_char c :: nat)
      in if 48 \<le> n \<and> n \<le> 57 then Some (n - 48)
         else if 97 \<le> n \<and> n \<le> 102 then Some (n - 87)
         else if 65 \<le> n \<and> n \<le> 70 then Some (n - 55)
         else None)"

text \<open>The hexadecimal digits at the front of a group; \<open>None\<close> at the fifth one.\<close>

fun hex_group :: "nat \<Rightarrow> nat \<Rightarrow> string \<Rightarrow> (nat \<times> nat \<times> string) option" where
  "hex_group off acc [] = Some (off, acc, [])"
| "hex_group off acc (c # cs) =
     (case hex_val c of
        None \<Rightarrow> Some (off, acc, c # cs)
      | Some h \<Rightarrow> if 3 < off then None else hex_group (Suc off) (acc * 16 + h) cs)"

text \<open>
  The loop of \<open>netip.parseIPv6\<close>: the bytes read so far, the position of the ellipsis and the rest
  of the text. At most eight groups are read, hence the fuel of eight.
\<close>

fun parseIPv6_loop :: "nat \<Rightarrow> ip \<Rightarrow> nat option \<Rightarrow> string \<Rightarrow> (ip \<times> nat option \<times> string) option" where
  "parseIPv6_loop 0 bs ell s = Some (bs, ell, s)"
| "parseIPv6_loop (Suc n) bs ell s =
     (if 16 \<le> length bs then Some (bs, ell, s)
      else case hex_group 0 0 s of
        None \<Rightarrow> None
      | Some (off, acc, r) \<Rightarrow>
          if off = 0 then None
          else if r \<noteq> [] \<and> hd r = CHR ''.'' then
            (if ell = None \<and> length bs \<noteq> 12 \<or> 16 < length bs + 4 then None
             else map_option (\<lambda>v. (bs @ v, ell, [])) (parseIPv4Fields s))
          else
            let bs' = bs @ [word_of_nat (acc div 256), word_of_nat (acc mod 256)]
            in if r = [] then Some (bs', ell, [])
               else if hd r \<noteq> CHR '':'' \<or> length r = 1 then None
               else let s' = tl r
                    in if hd s' = CHR '':'' then
                         (if ell \<noteq> None then None
                          else if tl s' = [] then Some (bs', Some (length bs'), [])
                          else parseIPv6_loop n bs' (Some (length bs')) (tl s'))
                       else parseIPv6_loop n bs' ell s')"

definition parseIPv6 :: "string \<Rightarrow> ip option" where
  "parseIPv6 s =
     (if take 2 s = ''::'' \<and> length s = 2 then Some (replicate 16 0)
      else
        let lead = (take 2 s = ''::'')
        in case parseIPv6_loop 8 [] (if lead then Some 0 else None) (if lead then drop 2 s else s) of
             None \<Rightarrow> None
           | Some (bs, ell, r) \<Rightarrow>
               if r \<noteq> [] then None
               else if length bs < 16 then
                 (case ell of
                    None \<Rightarrow> None
                  | Some k \<Rightarrow> Some (take k bs @ replicate (16 - length bs) 0 @ drop k bs))
               else if ell \<noteq> None then None
               else Some bs)"

text \<open>
  The first of \<open>'.'\<close>, \<open>':'\<close> and \<open>'%'\<close> decides; an address with a zone is not an address for
  \<open>ParseIP\<close>. The result has sixteen bytes.
\<close>

definition ParseIP :: "string \<Rightarrow> ip option" where
  "ParseIP s =
     (case List.find (\<lambda>c. c = CHR ''.'' \<or> c = CHR '':'' \<or> c = CHR ''%'') s of
        None \<Rightarrow> None
      | Some c \<Rightarrow>
          if c = CHR ''.'' then map_option (\<lambda>v. v4InV6Prefix @ v) (parseIPv4Fields s)
          else if c = CHR '':'' then (if CHR ''%'' \<in> set s then None else parseIPv6 s)
          else None)"

section \<open>The validator\<close>

datatype ip_reason = Loopback | PrivateAddress | LinkLocal | CloudMetadata | Unspecified

datatype ssrf_error =
    InvalidURL
  | UnsupportedScheme string
  | MustHaveHostname
  | BlockedHostname string
  | BlockedHostnameSuffix string
  | ResolutionFailed string
  | BlockedIP string string ip_reason
  | NotInAllowedDomains string

definition blockedHostnames :: "string list" where
  "blockedHostnames = [''localhost'', ''metadata.google.internal'']"

definition blockedHostSuffixes :: "string list" where
  "blockedHostSuffixes = [''.internal'', ''.local'', ''.localhost'']"

definition metadata_ip :: ip where
  "metadata_ip = v4InV6Prefix @ [169, 254, 169, 254]"

definition checkIP :: "ip \<Rightarrow> ip_reason option" where
  "checkIP a =
     (if IsLoopback a then Some Loopback
      else if IsPrivate a then Some PrivateAddress
      else if IsLinkLocalUnicast a \<or> IsLinkLocalMulticast a then Some LinkLocal
      else if ip_Equal a metadata_ip then Some CloudMetadata
      else if IsUnspecified a then Some Unspecified
      else None)"

fun matchesAllowlist :: "string \<Rightarrow> string list \<Rightarrow> bool" where
  "matchesAllowlist host [] = False"
| "matchesAllowlist host (domain # allowed) =
     (let lower = ToLower host; d = ToLower (TrimSpace domain)
      in if d = [] then matchesAllowlist host allowed
         else if lower = d \<or> HasSuffix lower (CHR ''.'' # d) then True
         else matchesAllowlist host allowed)"

text \<open>What both entry points check of the URL; the host name when it passes.\<close>

definition check_url ::
  "(string \<Rightarrow> (string \<times> string) option) \<Rightarrow> string \<Rightarrow> ssrf_error + string" where
  "check_url url_parse rawURL =
     (case url_parse rawURL of
        None \<Rightarrow> Inl InvalidURL
      | Some (scheme, host) \<Rightarrow>
          if scheme \<noteq> ''http'' \<and> scheme \<noteq> ''https'' then Inl (UnsupportedScheme scheme)
          else if host = [] then Inl MustHaveHostname
          else let lower = ToLower host
               in if lower \<in> set blockedHostnames then Inl (BlockedHostname host)
                  else if list_ex (HasSuffix lower) blockedHostSuffixes
                  then Inl (BlockedHostnameSuffix host)
                  else Inr host)"

definition check_allowed :: "string \<Rightarrow> string list \<Rightarrow> ssrf_error option" where
  "check_allowed host allowedDomains =
     (if allowedDomains \<noteq> [] \<and> \<not> matchesAllowlist host allowedDomains
      then Some (NotInAllowedDomains host) else None)"

fun check_resolved :: "string \<Rightarrow> string list \<Rightarrow> ssrf_error option" where
  "check_resolved host [] = None"
| "check_resolved host (ipStr # ips) =
     (case ParseIP ipStr of
        None \<Rightarrow> check_resolved host ips
      | Some a \<Rightarrow> (case checkIP a of
                    Some why \<Rightarrow> Some (BlockedIP ipStr host why)
                  | None \<Rightarrow> check_resolved host ips))"

definition ValidateFormat ::
  "(string \<Rightarrow> (string \<times> string) option) \<Rightarrow> string \<Rightarrow> string list \<Rightarrow> ssrf_error option" where
  "ValidateFormat url_parse rawURL allowedDomains =
     (case check_url url_parse rawURL of
        Inl err \<Rightarrow> Some err
      | Inr host \<Rightarrow>
          (case (case ParseIP host of None \<Rightarrow> None | Some a \<Rightarrow> checkIP a) of
             Some why \<Rightarrow> Some (BlockedIP host host why)
           | None \<Rightarrow> check_allowed host allowedDomains))"

definition Validate ::
  "(string \<Rightarrow> (string \<times> string) option) \<Rightarrow> (string \<Rightarrow> string list option) \<Rightarrow>
   string \<Rightarrow> string list \<Rightarrow> ssrf_error option" where
  "Validate url_parse lookup rawURL allowedDomains =
     (case check_url url_parse rawURL of
        Inl err \<Rightarrow> Some err
      | Inr host \<Rightarrow>
          (case lookup host of
             None \<Rightarrow> Some (ResolutionFailed host)
           | Some ips \<Rightarrow>
               (case check_resolved host ips of
                  Some err \<Rightarrow> Some err
                | None \<Rightarrow> check_allowed host allowedDomains)))"

section \<open>IPv4 addresses as numbers\<close>

definition v4_ip :: "32 word \<Rightarrow> ip" where
  "v4_ip x = v4InV6Prefix @ [ucast (drop_bit 24 x), ucast (drop_bit 16 x), ucast (drop_bit 8 x), ucast x]"

lemma To4_v4_ip [simp]:
  "To4 (v4_ip x) = Some [ucast (drop_bit 24 x), ucast (drop_bit 16 x), ucast (drop_bit 8 x), ucast x]"
  by (simp add: To4_def v4_ip_def v4InV6Prefix_def)

lemma unat_drop: "unat (drop_bit k (x :: 32 word)) = unat x div 2 ^ k"
  using unsigned_less[of x, where 'a = nat]
  by (simp add: unsigned_drop_bit_eq drop_bit_eq_div[where 'a = nat] take_bit_nat_eq_self)

lemma byte_0: "unat (ucast (x :: 32 word) :: 8 word) = unat x mod 256"
  by (simp add: unsigned_ucast_eq unsigned_take_bit_eq take_bit_eq_mod)

lemma high_nibble: "unat ((b :: 8 word) AND 0xf0) = 16 \<longleftrightarrow> unat b div 16 = 1"
proof -
  have "\<forall>n\<in>set [0..<256]. unat ((word_of_nat n :: 8 word) AND 0xf0) = 16 \<longleftrightarrow> n div 16 = 1"
    by code_simp
  moreover have "unat b \<in> set [0..<256]" using unsigned_less[of b, where 'a = nat] by simp
  ultimately have "unat ((word_of_nat (unat b) :: 8 word) AND 0xf0) = 16 \<longleftrightarrow>
      unat b div 16 = 1" by blast
  then show ?thesis by simp
qed

text \<open>The address ranges that \<open>checkIP\<close> refuses, as prefixes of the number.\<close>

definition forbidden_v4 :: "32 word \<Rightarrow> bool" where
  "forbidden_v4 x \<longleftrightarrow>
     drop_bit 24 x = 127 \<or> drop_bit 24 x = 10 \<or> drop_bit 20 x = 0xAC1 \<or> drop_bit 16 x = 0xC0A8 \<or>
     drop_bit 16 x = 0xA9FE \<or> drop_bit 8 x = 0xE00000 \<or> x = 0"

lemma word_eq_unat: "(a :: 'a :: len word) = b \<longleftrightarrow> unat a = unat b"
  by (simp add: word_eq_iff_unsigned)

lemma unat_v4: "unat (x :: 32 word) < 4294967296"
  using unsigned_less[of x, where 'a = nat] by simp

lemmas v4_bytes = word_eq_unat[where 'a = 8] byte_0 unat_drop high_nibble

text \<open>Arithmetic of the leading bytes.\<close>

lemma two_bytes: "(m :: nat) div 256 = a \<and> m mod 256 = b \<longleftrightarrow> m = 256 * a + b \<and> b < 256"
  by auto

lemma byte_nibble: "(m :: nat) div 256 = 172 \<and> m mod 256 div 16 = 1 \<longleftrightarrow> m div 16 = 0xAC1"
proof -
  define q r where "q = m div 256" and "r = m mod 256"
  then have m: "m = r + (16 * q) * 16" using div_mult_mod_eq[of m 256] by linarith
  have "m div 16 = 16 * q + r div 16" unfolding m by simp
  moreover have "r < 256" by (simp add: r_def)
  then have "r div 16 < 16" by simp
  moreover have "q = 172 \<and> d = 1 \<longleftrightarrow> 16 * q + d = 2753" if "d < 16" for d
  proof
    assume eq: "16 * q + d = 2753"
    then have "q \<le> 172" using that by linarith
    moreover have "172 \<le> q" using eq that by linarith
    ultimately have "q = 172" by (rule le_antisym)
    then show "q = 172 \<and> d = 1" using eq by simp
  qed simp
  ultimately show ?thesis unfolding q_def[symmetric] r_def[symmetric] by simp
qed

lemma zero_bytes: "(m :: nat) = 0 \<longleftrightarrow> m div 256 = 0 \<and> m mod 256 = 0"
  using two_bytes[of m 0 0] by auto

lemma bytes_div:
  "(n :: nat) div 16777216 = n div 65536 div 256" "(n :: nat) div 65536 = n div 256 div 256"
  "(n :: nat) div 1048576 = n div 65536 div 16"
  by (simp_all add: div_mult2_eq[symmetric])

lemma v4_predicates:
  fixes x :: "32 word"
  defines "n \<equiv> unat x"
  shows "IsLoopback (v4_ip x) \<longleftrightarrow> n div 16777216 = 127"
    and "IsPrivate (v4_ip x) \<longleftrightarrow>
      n div 16777216 = 10 \<or> n div 1048576 = 0xAC1 \<or> n div 65536 = 0xC0A8"
    and "IsLinkLocalUnicast (v4_ip x) \<longleftrightarrow> n div 65536 = 0xA9FE"
    and "IsLinkLocalMulticast (v4_ip x) \<longleftrightarrow> n div 256 = 0xE00000"
    and "IsUnspecified (v4_ip x) \<longleftrightarrow> n = 0"
    and "ip_Equal (v4_ip x) metadata_ip \<Longrightarrow> n div 65536 = 0xA9FE"
proof -
  have n: "n div 16777216 < 256" using unat_v4[of x] n_def by simp
  have h: "n div 65536 div 256 < 256" using n by (simp add: bytes_div(1))
  show "IsLoopback (v4_ip x) \<longleftrightarrow> n div 16777216 = 127"
    using n by (simp add: IsLoopback_def v4_bytes n_def[symmetric])
  show "IsPrivate (v4_ip x) \<longleftrightarrow>
      n div 16777216 = 10 \<or> n div 1048576 = 0xAC1 \<or> n div 65536 = 0xC0A8"
    using n byte_nibble[of "n div 65536"] two_bytes[of "n div 65536" 192 168]
    by (simp add: IsPrivate_def v4_bytes n_def[symmetric]) (simp add: bytes_div(1,3))
  show "IsLinkLocalUnicast (v4_ip x) \<longleftrightarrow> n div 65536 = 0xA9FE"
    using n two_bytes[of "n div 65536" 169 254]
    by (simp add: IsLinkLocalUnicast_def v4_bytes n_def[symmetric]) (simp add: bytes_div(1))
  have "n div 256 = 0xE00000 \<longleftrightarrow> n div 65536 = 0xE000 \<and> n div 256 mod 256 = 0"
    using two_bytes[of "n div 256" "0xE000" 0] by (simp add: bytes_div(2)[of n])
  moreover have "n div 65536 = 0xE000 \<longleftrightarrow> n div 16777216 = 224 \<and> n div 65536 mod 256 = 0"
    using two_bytes[of "n div 65536" 224 0] by (simp add: bytes_div(1)[of n])
  ultimately show "IsLinkLocalMulticast (v4_ip x) \<longleftrightarrow> n div 256 = 0xE00000"
    using n by (simp add: IsLinkLocalMulticast_def v4_bytes n_def[symmetric])
  show "ip_Equal (v4_ip x) metadata_ip \<Longrightarrow> n div 65536 = 0xA9FE"
    using n two_bytes[of "n div 65536" 169 254]
    by (simp add: ip_Equal_def metadata_ip_def v4_ip_def v4_bytes n_def[symmetric])
      (simp add: bytes_div(1))
  have "n div 65536 = 0 \<longleftrightarrow> n div 16777216 = 0 \<and> n div 65536 mod 256 = 0"
    unfolding bytes_div(1)[of n] by (rule zero_bytes)
  moreover have "n div 256 = 0 \<longleftrightarrow> n div 65536 = 0 \<and> n div 256 mod 256 = 0"
    unfolding bytes_div(2)[of n] by (rule zero_bytes)
  moreover have "n = 0 \<longleftrightarrow> n div 256 = 0 \<and> n mod 256 = 0" by (rule zero_bytes)
  moreover have "IsUnspecified (v4_ip x) \<longleftrightarrow> n div 16777216 mod 256 = 0 \<and>
      n div 65536 mod 256 = 0 \<and> n div 256 mod 256 = 0 \<and> n mod 256 = 0"
  proof -
    have r: "replicate 16 (0 :: 8 word) = replicate 10 0 @ 0 # replicate 5 0"
      by (simp add: eval_nat_numeral)
    have "IsUnspecified (v4_ip x) \<longleftrightarrow> (ucast (drop_bit 24 x) :: 8 word) = 0 \<and>
        (ucast (drop_bit 16 x) :: 8 word) = 0 \<and> (ucast (drop_bit 8 x) :: 8 word) = 0 \<and>
        (ucast x :: 8 word) = 0"
      by (simp add: IsUnspecified_def ip_Equal_def v4_ip_def v4InV6Prefix_def r)
    then show ?thesis by (simp only: v4_bytes n_def[symmetric] unsigned_0) simp
  qed
  moreover have "n div 16777216 mod 256 = n div 16777216" using n by simp
  ultimately show "IsUnspecified (v4_ip x) \<longleftrightarrow> n = 0" by argo
qed

lemma checkIP_v4: "checkIP (v4_ip x) = None \<longleftrightarrow> \<not> forbidden_v4 x"
  using v4_predicates[of x] unat_drop[of _ x]
  unfolding checkIP_def forbidden_v4_def word_eq_unat[where 'a = 32]
  by auto

section \<open>Printing and parsing an address\<close>

text \<open>The dotted form of an IPv4 address.\<close>

definition dotted :: "32 word \<Rightarrow> string" where
  "dotted x = strings_Join CHR ''.''
     (map (\<lambda>k. nat_digits (unat x div 2 ^ k mod 256)) [24, 16, 8, 0])"

definition digit_char :: "nat \<Rightarrow> char" where
  "digit_char a = char_of (48 + a)"

lemma digit_char:
  assumes "a < 10"
  shows "is_digit (digit_char a)" "digit_val (digit_char a) = a" "digit_char a = CHR ''0'' \<longleftrightarrow> a = 0"
proof -
  have c: "of_char (digit_char a) = 48 + a" using assms by (simp add: digit_char_def)
  then show "is_digit (digit_char a)" "digit_val (digit_char a) = a"
    using assms by (auto simp: is_digit_def digit_val_def)
  have "digit_char a = CHR ''0'' \<longleftrightarrow> (of_char (digit_char a) :: nat) = of_char CHR ''0''"
    by (simp only: of_char_eq_iff)
  then show "digit_char a = CHR ''0'' \<longleftrightarrow> a = 0" using c by simp
qed

lemma nat_digits_less: "n < 10 \<Longrightarrow> nat_digits n = [digit_char n]"
  by (simp add: digit_char_def nat_digits.simps[of n])

lemma nat_digits_more: "10 \<le> n \<Longrightarrow> nat_digits n = nat_digits (n div 10) @ [digit_char (n mod 10)]"
  by (simp add: digit_char_def nat_digits.simps[of n])

lemma nat_digits_byte:
  "n < 10 \<Longrightarrow> nat_digits n = [digit_char n]"
  "10 \<le> n \<Longrightarrow> n < 100 \<Longrightarrow> nat_digits n = [digit_char (n div 10), digit_char (n mod 10)]"
  "100 \<le> n \<Longrightarrow> n < 256 \<Longrightarrow>
     nat_digits n = [digit_char (n div 100), digit_char (n div 10 mod 10), digit_char (n mod 10)]"
  by (simp_all add: nat_digits_less nat_digits_more div_mult2_eq[symmetric])

lemma byte_digits:
  assumes "n < 256"
  shows "ipv4_field (nat_digits n) = Some (word_of_nat n) \<and>
    list_all is_digit (nat_digits n) \<and> nat_digits n \<noteq> []"
proof -
  consider "n < 10" | "10 \<le> n" "n < 100" | "100 \<le> n" by linarith
  then show ?thesis
  proof cases
    case 1
    then show ?thesis using digit_char[of n] by (simp add: nat_digits_byte ipv4_field_def)
  next
    case 2
    then have "n div 10 < 10" "n div 10 \<noteq> 0" "n div 10 * 10 + n mod 10 = n" by auto
    then show ?thesis
      using 2 digit_char[of "n div 10"] digit_char[of "n mod 10"]
      by (simp add: nat_digits_byte ipv4_field_def)
  next
    case 3
    then have h: "n div 100 < 10" "n div 100 \<noteq> 0" using assms by auto
    have "n div 10 = n div 100 * 10 + n div 10 mod 10"
      using div_mult_mod_eq[of "n div 10" 10] by (simp add: div_mult2_eq[symmetric])
    then have "(n div 100 * 10 + n div 10 mod 10) * 10 + n mod 10 = n"
      using div_mult_mod_eq[of n 10] by simp
    then show ?thesis
      using h 3 assms digit_char[of "n div 100"] digit_char[of "n div 10 mod 10"]
        digit_char[of "n mod 10"]
      by (simp add: nat_digits_byte ipv4_field_def)
  qed
qed

lemma strings_Split_sep: "c \<notin> set p \<Longrightarrow> strings_Split c (p @ c # q) = p # strings_Split c q"
  by (induction p) auto

lemma strings_Split_none: "c \<notin> set p \<Longrightarrow> strings_Split c p = [p]"
  by (induction p) auto

lemma no_dot: "list_all is_digit p \<Longrightarrow> CHR ''.'' \<notin> set p"
  by (auto simp: list_all_iff is_digit_def)

lemma find_skip: "\<forall>c\<in>set p. \<not> P c \<Longrightarrow> List.find P (p @ q) = List.find P q"
  by (induction p) auto

lemma ParseIP_dotted: "ParseIP (dotted x) = Some (v4_ip x)"
proof -
  define b where "b k = unat x div 2 ^ k mod 256" for k
  have b: "b k < 256" for k by (simp add: b_def)
  have d: "CHR ''.'' \<notin> set (nat_digits (b k))" for k using byte_digits[OF b, of k] no_dot by blast
  have x: "dotted x = nat_digits (b 24) @ CHR ''.'' # nat_digits (b 16) @ CHR ''.'' #
      nat_digits (b 8) @ CHR ''.'' # nat_digits (b 0)"
    by (simp add: dotted_def b_def)
  have s: "strings_Split CHR ''.'' (dotted x) = map (\<lambda>k. nat_digits (b k)) [24, 16, 8, 0]"
    unfolding x by (simp add: strings_Split_sep strings_Split_none d)
  have "word_of_nat (b k) = (ucast (drop_bit k x) :: 8 word)" for k
    by (simp add: word_eq_unat v4_bytes b_def unsigned_of_nat take_bit_eq_mod)
  then have p: "parseIPv4Fields (dotted x) = Some (drop 12 (v4_ip x))"
    using byte_digits[OF b] unfolding parseIPv4Fields_def s
    by (simp add: v4_ip_def v4InV6Prefix_def)
  have "\<forall>c\<in>set (nat_digits (b 24)). \<not> (c = CHR ''.'' \<or> c = CHR '':'' \<or> c = CHR ''%'')"
    using byte_digits[OF b[of 24]] by (auto simp: list_all_iff is_digit_def)
  then have "List.find (\<lambda>c. c = CHR ''.'' \<or> c = CHR '':'' \<or> c = CHR ''%'') (dotted x) = Some CHR ''.''"
    unfolding x by (simp add: find_skip)
  then show ?thesis
    using p by (simp add: ParseIP_def v4_ip_def v4InV6Prefix_def)
qed

section \<open>What the validator lets through\<close>

lemma matchesAllowlist_iff:
  "matchesAllowlist host allowed \<longleftrightarrow>
     (\<exists>domain\<in>set allowed. let d = ToLower (TrimSpace domain) in
        d \<noteq> [] \<and> (ToLower host = d \<or> HasSuffix (ToLower host) (CHR ''.'' # d)))"
  by (induction allowed) (auto simp: Let_def)

lemma check_resolved_None:
  "check_resolved host ips = None \<longleftrightarrow>
     (\<forall>t\<in>set ips. \<forall>a. ParseIP t = Some a \<longrightarrow> checkIP a = None)"
  by (induction ips) (auto split: option.split)

end
