(* ===== verification/Resource_Ids.thy ===== *)
theory Resource_Ids
  imports World
begin

text \<open>
  The ids of resources, \<open>internal/id/id.go\<close>: a prefix, a separator and a ULID. The parser of ULIDs
  is the third-party \<open>ulid.Parse\<close>, of which \<open>Parse\<close> only uses whether it succeeds: the parameter
  \<open>ulid_ok\<close>. \<open>id_New\<close>, in the theory World, is the generator.
\<close>

section \<open>Prefixes\<close>

definition PrefixWorkspace :: string where "PrefixWorkspace = ''wsp_''"
definition PrefixUser :: string where "PrefixUser = ''usr_''"
definition PrefixMembership :: string where "PrefixMembership = ''wmb_''"
definition PrefixWorker :: string where "PrefixWorker = ''wrk_''"
definition PrefixProcess :: string where "PrefixProcess = ''prc_''"
definition PrefixRun :: string where "PrefixRun = ''run_''"
definition PrefixRunAttempt :: string where "PrefixRunAttempt = ''rat_''"
definition PrefixQueue :: string where "PrefixQueue = ''que_''"
definition PrefixJob :: string where "PrefixJob = ''job_''"
definition PrefixJobAttempt :: string where "PrefixJobAttempt = ''jat_''"
definition PrefixWebhookSub :: string where "PrefixWebhookSub = ''whs_''"
definition PrefixAPIKey :: string where "PrefixAPIKey = ''key_''"
definition PrefixSSHCred :: string where "PrefixSSHCred = ''ssh_''"
definition PrefixSSMProfile :: string where "PrefixSSMProfile = ''ssp_''"
definition PrefixK8sCluster :: string where "PrefixK8sCluster = ''k8c_''"

lemmas prefix_defs = PrefixWorkspace_def PrefixUser_def PrefixMembership_def PrefixWorker_def
  PrefixProcess_def PrefixRun_def PrefixRunAttempt_def PrefixQueue_def PrefixJob_def
  PrefixJobAttempt_def PrefixWebhookSub_def PrefixAPIKey_def PrefixSSHCred_def
  PrefixSSMProfile_def PrefixK8sCluster_def

definition validPrefixes :: "string list" where
  "validPrefixes =
     [PrefixWorkspace, PrefixUser, PrefixMembership, PrefixWorker, PrefixProcess, PrefixRun,
      PrefixRunAttempt, PrefixQueue, PrefixJob, PrefixJobAttempt, PrefixWebhookSub, PrefixAPIKey,
      PrefixSSHCred, PrefixSSMProfile, PrefixK8sCluster]"

section \<open>Parsing\<close>

text \<open>\<open>strings.Index\<close> for a separator of one byte.\<close>

fun strings_Index :: "string \<Rightarrow> char \<Rightarrow> int" where
  "strings_Index [] c = -1"
| "strings_Index (x # xs) c =
     (if x = c then 0 else let i = strings_Index xs c in if i = -1 then -1 else i + 1)"

datatype id_error = MissingSeparator string | UnknownPrefix string string | InvalidULID string

definition id_Parse :: "(string \<Rightarrow> bool) \<Rightarrow> string \<Rightarrow> id_error + (string \<times> string)" where
  "id_Parse ulid_ok s =
     (let idx = strings_Index s CHR ''_''
      in if idx = -1 \<or> idx = int (length s) - 1 then Inl (MissingSeparator s)
         else let prefix = take (nat (idx + 1)) s; raw = drop (nat (idx + 1)) s
              in if prefix \<notin> set validPrefixes then Inl (UnknownPrefix prefix s)
                 else if \<not> ulid_ok raw then Inl (InvalidULID s)
                 else Inr (prefix, raw))"

definition id_IsValid :: "(string \<Rightarrow> bool) \<Rightarrow> string \<Rightarrow> bool" where
  "id_IsValid ulid_ok s = (case id_Parse ulid_ok s of Inl _ \<Rightarrow> False | Inr _ \<Rightarrow> True)"

definition id_HasPrefix :: "string \<Rightarrow> string \<Rightarrow> bool" where
  "id_HasPrefix s expectedPrefix = HasPrefix s expectedPrefix"

section \<open>Facts\<close>

lemma strings_Index_ge: "-1 \<le> strings_Index s c"
  by (induction s) (auto simp: Let_def)

lemma strings_Index_found:
  "strings_Index s c \<noteq> -1 \<Longrightarrow>
   \<exists>a b. s = a @ c # b \<and> c \<notin> set a \<and> strings_Index s c = int (length a)"
proof (induction s)
  case Nil
  then show ?case by simp
next
  case (Cons x xs)
  show ?case
  proof (cases "x = c")
    case True
    then have "x # xs = [] @ c # xs \<and> c \<notin> set [] \<and> strings_Index (x # xs) c = int (length [])"
      by simp
    then show ?thesis by blast
  next
    case False
    then have "strings_Index xs c \<noteq> -1" using Cons.prems by (auto simp: Let_def)
    from Cons.IH[OF this] obtain a b where
      "xs = a @ c # b" "c \<notin> set a" "strings_Index xs c = int (length a)" by blast
    then have "x # xs = (x # a) @ c # b \<and> c \<notin> set (x # a)
        \<and> strings_Index (x # xs) c = int (length (x # a))"
      using False by (simp add: Let_def)
    then show ?thesis by blast
  qed
qed

lemma strings_Index_first: "c \<notin> set a \<Longrightarrow> strings_Index (a @ c # b) c = int (length a)"
  by (induction a) (auto simp: Let_def)

text \<open>Every canonical prefix is a name without separator, and the separator.\<close>

lemma validPrefixes_shape: "p \<in> set validPrefixes \<Longrightarrow> \<exists>a. p = a @ ''_'' \<and> CHR ''_'' \<notin> set a"
  unfolding validPrefixes_def prefix_defs
  by (elim list.set_cases[of p "_ # _", simplified] | auto intro!: exI[of _ "butlast p"])+

lemma id_Parse_SomeD:
  assumes "id_Parse ok s = Inr (p, raw)"
  shows "p \<in> set validPrefixes \<and> ok raw \<and> raw \<noteq> [] \<and> s = p @ raw"
proof -
  have i: "strings_Index s CHR ''_'' \<noteq> -1" "strings_Index s CHR ''_'' \<noteq> int (length s) - 1"
    and p: "p = take (nat (strings_Index s CHR ''_'' + 1)) s"
    and r: "raw = drop (nat (strings_Index s CHR ''_'' + 1)) s"
    and ok: "p \<in> set validPrefixes" "ok raw"
    using assms by (auto simp: id_Parse_def Let_def split: if_splits)
  from strings_Index_found[OF i(1)] obtain a b where
    ab: "s = a @ CHR ''_'' # b" "strings_Index s CHR ''_'' = int (length a)" by blast
  have n: "nat (int (length a) + 1) = Suc (length a)" by simp
  have "raw \<noteq> []" using i(2) ab unfolding r ab(2) n by auto
  then show ?thesis using ok unfolding p r by simp
qed

lemma id_Parse_prefix:
  assumes "p \<in> set validPrefixes" "ok raw" "raw \<noteq> []"
  shows "id_Parse ok (p @ raw) = Inr (p, raw)"
proof -
  from validPrefixes_shape[OF assms(1)] obtain a where
    a: "p = a @ ''_''" "CHR ''_'' \<notin> set a" by blast
  have "strings_Index (p @ raw) CHR ''_'' = int (length a)"
    using strings_Index_first[OF a(2), of raw] a(1) by simp
  moreover have "nat (int (length a) + 1) = length p" using a(1) by simp
  ultimately show ?thesis
    using assms a(1) by (simp add: id_Parse_def)
qed

end
