(* ===== verification/Api.thy ===== *)
theory Api
  imports Worker_Queries Resource_Ids Access
begin

text \<open>
  What the HTTP handlers of \<open>internal/handler/service.go\<close> share: replies, the helpers that read a
  decoded JSON object, and the redaction of ids. The body of a request is \<open>None\<close> when the decoder
  fails; a body decoded into a map is the JSON value, one decoded into a struct is the struct.
\<close>

section \<open>Replies\<close>

text \<open>
  \<open>writeJSON\<close> with its data, \<open>writeError\<close> with status, code, message and hint, and a status alone.
\<close>

datatype 'd reply = Data int 'd | Failure int string string string | Status int

fun reply_status :: "'d reply \<Rightarrow> int" where
  "reply_status (Data n _) = n"
| "reply_status (Failure n _ _ _) = n"
| "reply_status (Status n) = n"

definition writeError :: "int \<Rightarrow> string \<Rightarrow> string \<Rightarrow> string \<Rightarrow> 'd reply" where
  "writeError status code message hint = Failure status code message hint"

definition writeJSON :: "int \<Rightarrow> 'd \<Rightarrow> 'd reply" where
  "writeJSON status data = Data status data"

text \<open>\<open>actor, _ := auth.GetActor(ctx)\<close>: the zero actor when there is none.\<close>

definition actor_of :: "request_ctx \<Rightarrow> actor" where
  "actor_of ctx = (case GetActor ctx of
     Some a \<Rightarrow> a
   | None \<Rightarrow> \<lparr>a_Type = [], a_ID = [], a_WorkspaceID = [], a_Role = [], a_IsPlatformAdmin = False\<rparr>)"

text \<open>The environment of a second call of the same query in one handler.\<close>

definition again :: "env \<Rightarrow> env" where
  "again e = e\<lparr>e_fault := (\<lambda>q. e_fault e (q @ ''.again''))\<rparr>"

section \<open>Reading a JSON object\<close>

text \<open>
  \<open>json.Decode(&req)\<close> into a \<open>map[string]any\<close>: \<open>None\<close> is the error. A nil map reads like an empty
  one.
\<close>

definition decode_map :: "json option \<Rightarrow> go_map option" where
  "decode_map body = (case body of
     None \<Rightarrow> None
   | Some j \<Rightarrow> (case unmarshal_map j of None \<Rightarrow> None | Some None \<Rightarrow> Some [] | Some (Some m) \<Rightarrow> Some m))"

definition getStr :: "go_map \<Rightarrow> string \<Rightarrow> string \<Rightarrow> string" where
  "getStr m key def = (case map_of m key of Some (JStr v) \<Rightarrow> v | _ \<Rightarrow> def)"

definition getStrPtr :: "go_map \<Rightarrow> string \<Rightarrow> string option \<Rightarrow> string option" where
  "getStrPtr m key def = (case map_of m key of Some (JStr v) \<Rightarrow> Some v | _ \<Rightarrow> def)"

definition getNullableString :: "go_map \<Rightarrow> string \<Rightarrow> string option \<Rightarrow> string option" where
  "getNullableString m key def =
     (case map_of m key of None \<Rightarrow> def | Some JNull \<Rightarrow> None | Some (JStr s) \<Rightarrow> Some s | Some _ \<Rightarrow> def)"

text \<open>A decoded value can always be encoded again.\<close>

definition getJSONBytes :: "go_map \<Rightarrow> string \<Rightarrow> json option \<Rightarrow> json option" where
  "getJSONBytes m key def =
     (case map_of m key of None \<Rightarrow> def | Some JNull \<Rightarrow> None | Some v \<Rightarrow> Some v)"

fun json_strings :: "json list \<Rightarrow> string list option" where
  "json_strings [] = Some []"
| "json_strings (JStr s # items) = map_option (\<lambda>out. s # out) (json_strings items)"
| "json_strings (_ # items) = None"

text \<open>A nil and an empty array of tags are not told apart.\<close>

definition getStringArray :: "go_map \<Rightarrow> string \<Rightarrow> string list \<Rightarrow> string list" where
  "getStringArray m key def =
     (case map_of m key of
        None \<Rightarrow> def
      | Some JNull \<Rightarrow> []
      | Some (JArr items) \<Rightarrow> (case json_strings items of None \<Rightarrow> def | Some out \<Rightarrow> out)
      | Some _ \<Rightarrow> def)"

text \<open>
  \<open>int32(v)\<close> of a \<open>float64\<close> truncates; Go leaves the result open for a value that does not fit, the
  parameter \<open>oor\<close>.
\<close>

definition go_int32 :: "(rat \<Rightarrow> int) \<Rightarrow> rat \<Rightarrow> int" where
  "go_int32 oor x =
     (let n = (if 0 \<le> x then \<lfloor>x\<rfloor> else \<lceil>x\<rceil>) in if in_int32 n then n else wrap32 (oor x))"

definition getInt32 :: "(rat \<Rightarrow> int) \<Rightarrow> go_map \<Rightarrow> string \<Rightarrow> int \<Rightarrow> int" where
  "getInt32 oor m key def = (case map_of m key of Some (JNum v) \<Rightarrow> go_int32 oor v | _ \<Rightarrow> def)"

definition getBool :: "go_map \<Rightarrow> string \<Rightarrow> bool \<Rightarrow> bool" where
  "getBool m key def = (case map_of m key of Some (JBool v) \<Rightarrow> v | _ \<Rightarrow> def)"

text \<open>The intervals a handler makes of a duration: \<open>d.Microseconds()\<close>.\<close>

definition interval_of :: "duration \<Rightarrow> interval" where
  "interval_of d = \<lparr>iv_microseconds = go_div d 1000, iv_days = 0, iv_months = 0\<rparr>"

definition getInterval :: "go_map \<Rightarrow> string \<Rightarrow> interval \<Rightarrow> interval" where
  "getInterval m key def =
     (case map_of m key of
        Some (JStr v) \<Rightarrow> (case ParseDuration v of Some d \<Rightarrow> interval_of d | None \<Rightarrow> def)
      | _ \<Rightarrow> def)"

section \<open>Names, keys and ids\<close>

definition slug_char :: "char \<Rightarrow> string" where
  "slug_char c =
     (let n = (of_char c :: nat)
      in if 97 \<le> n \<and> n \<le> 122 \<or> 48 \<le> n \<and> n \<le> 57 \<or> c = CHR ''-'' then [c]
         else if 65 \<le> n \<and> n \<le> 90 then [char_of (n + 32)]
         else if c = CHR '' '' then ''-''
         else [])"

definition slugify :: "string \<Rightarrow> string" where
  "slugify name = concat (map slug_char name)"

text \<open>\<open>rnd\<close> stands for the hexadecimal digits of 24 random bytes.\<close>

definition generateRawAPIKey :: "string \<Rightarrow> string" where
  "generateRawAPIKey rnd = ''cc_live_'' @ rnd"

text \<open>Four middle dots, as UTF-8.\<close>

definition redacted :: string where
  "redacted = concat (replicate 4 [CHR 0xC2, CHR 0xB7])"

definition redactID :: "string \<Rightarrow> string" where
  "redactID s =
     (if length s \<le> 8 then s
      else let i = strings_Index s CHR ''_''
           in if 0 \<le> i \<and> i < 5 then
                let remaining = drop (nat i + 1) s
                in if length remaining > 4
                   then take (nat i + 1) s @ take 4 remaining @ redacted
                   else s
              else take 4 s @ redacted)"

section \<open>Facts\<close>

lemma go_int32_range [simp, intro]: "in_int32 (go_int32 oor x)"
  by (simp add: go_int32_def Let_def)

lemma getInt32_range: "in_int32 def \<Longrightarrow> in_int32 (getInt32 oor m key def)"
  by (simp add: getInt32_def split: option.split json.split)

lemma slugify_chars:
  "c \<in> set (slugify name) \<Longrightarrow>
   (let n = (of_char c :: nat) in 97 \<le> n \<and> n \<le> 122 \<or> 48 \<le> n \<and> n \<le> 57 \<or> n = 45)"
  by (auto simp: slugify_def slug_char_def Let_def split: if_splits)

end
