(* ===== verification/Worker_Handlers.thy ===== *)
theory Worker_Handlers
  imports Api Worker_Dispatch Resource_Ids
begin

text \<open>
  The handlers of workers and the ones the worker binary calls, \<open>internal/handler/service.go\<close>.
  SHA-256 is the parameter \<open>hash\<close>; \<open>rnd\<close> stands for the random digits a handler draws. A dispatcher
  that is not configured answers 503 before anything else; the model is of the configured one.
  The enrolment of workers, \<open>internal/worker/enrollment.go\<close>, comes first: a call of
  \<open>generateToken\<close> gives the parameter \<open>tok\<close>, \<open>None\<close> when the random source fails.
  A poll that finds no task answers after its time limit; the model answers at once.
\<close>

section \<open>Enrolment\<close>

datatype enroll_error =
    GenerateToken
  | CreateWorkerFailed go_error
  | StoreToken go_error
  | InvalidToken
  | GenerateCredential
  | UpdateCredential go_error

record enrollment_result =
  er_WorkerID :: string
  er_Credential :: string

definition Enrollment_CreateWorker ::
  "(string \<Rightarrow> string) \<Rightarrow> string option \<Rightarrow> env \<Rightarrow> string \<Rightarrow> string \<Rightarrow> int \<Rightarrow> world
   \<Rightarrow> (enroll_error + worker \<times> string) \<times> world" where
  "Enrollment_CreateWorker hash tok e workspaceID name maxConcurrency w =
     (case tok of
        None \<Rightarrow> (Inl GenerateToken, w)
      | Some token \<Rightarrow>
          let (workerID, w1) = id_New e PrefixWorker w;
              (ans, w2) = db_CreateWorker e
                \<lparr>cw_id = workerID, cw_workspace_id = workspaceID, cw_name = name,
                 cw_credential_hash = hash (''placeholder_'' @ workerID), cw_labels = None,
                 cw_max_concurrency = maxConcurrency\<rparr> w1
          in case ans of
               Inl err \<Rightarrow> (Inl (CreateWorkerFailed err), w2)
             | Inr wk \<Rightarrow>
                 (case SetWorkerEnrollmentToken e workerID (Some (hash token))
                         (Some (e_now e + hour)) w2 of
                    (Some err, w3) \<Rightarrow> (Inl (StoreToken err), w3)
                  | (None, w3) \<Rightarrow> (Inr (wk, token), w3)))"

definition Enroll ::
  "(string \<Rightarrow> string) \<Rightarrow> string option \<Rightarrow> env \<Rightarrow> string \<Rightarrow> world
   \<Rightarrow> (enroll_error + enrollment_result) \<times> world" where
  "Enroll hash tok e token w =
     (case GetWorkerByEnrollmentToken e (Some (hash token)) w of
        Inl _ \<Rightarrow> (Inl InvalidToken, w)
      | Inr wk \<Rightarrow>
          (case tok of
             None \<Rightarrow> (Inl GenerateCredential, w)
           | Some credential \<Rightarrow>
               let credentialFull = ''wrk_cred_'' @ credential
               in case UpdateWorkerCredentialHash e (wk_id wk) (hash credentialFull) w of
                    (Some err, w') \<Rightarrow> (Inl (UpdateCredential err), w')
                  | (None, w') \<Rightarrow>
                      (Inr \<lparr>er_WorkerID = wk_id wk, er_Credential = credentialFull\<rparr>, w')))"

section \<open>Administration\<close>

record create_worker_request =
  cwr_name :: string
  cwr_max_concurrency :: int
  cwr_labels :: json

text \<open>The worker and its enrolment token.\<close>

definition Service_CreateWorker ::
  "(string \<Rightarrow> string) \<Rightarrow> string \<Rightarrow> env \<Rightarrow> request_ctx \<Rightarrow> create_worker_request option \<Rightarrow> world
   \<Rightarrow> (worker \<times> string) reply \<times> world" where
  "Service_CreateWorker hash rnd e ctx body w =
     (case body of
        None \<Rightarrow> (writeError 400 ''VALIDATION_ERROR'' ''Invalid request'' [], w)
      | Some q \<Rightarrow>
          if cwr_name q = [] then (writeError 400 ''VALIDATION_ERROR'' ''name is required'' [], w)
          else
            let maxConcurrency = (if cwr_max_concurrency q \<le> 0 then 5 else cwr_max_concurrency q);
                enrollToken = ''enroll_'' @ generateRawAPIKey rnd;
                (placeholder, w1) = id_New e PrefixWorker w;
                (workerID, w2) = id_New e PrefixWorker w1;
                labels = (if cwr_labels q = JNull then None else Some (cwr_labels q))
            in case db_CreateWorker e
                      \<lparr>cw_id = workerID, cw_workspace_id = ctx_WorkspaceID ctx, cw_name = cwr_name q,
                       cw_credential_hash = hash (''placeholder_'' @ placeholder),
                       cw_labels = labels, cw_max_concurrency = maxConcurrency\<rparr> w2 of
                 (Inl err, w3) \<Rightarrow>
                   (writeError 409 ''CONFLICT'' ''Worker could not be created'' (Error err), w3)
               | (Inr worker, w3) \<Rightarrow>
                   (writeJSON 201 (worker, enrollToken),
                    snd (SetWorkerEnrollmentToken e workerID (Some (hash enrollToken))
                           (Some (e_now e + hour)) w3)))"

definition Service_GetWorker :: "env \<Rightarrow> request_ctx \<Rightarrow> string \<Rightarrow> world \<Rightarrow> worker reply" where
  "Service_GetWorker e ctx workerID w =
     (case GetWorker e workerID (ctx_WorkspaceID ctx) w of
        Inl _ \<Rightarrow> writeError 404 ''NOT_FOUND'' ''Worker not found'' []
      | Inr worker \<Rightarrow> writeJSON 200 worker)"

record update_worker_request =
  uwr_name :: "string option"
  uwr_max_concurrency :: "int option"
  uwr_enabled :: "bool option"
  uwr_labels :: json

text \<open>The columns the statement of the handler writes.\<close>

definition updated_worker :: "env \<Rightarrow> update_worker_request \<Rightarrow> worker \<Rightarrow> worker \<Rightarrow> worker" where
  "updated_worker e q existing x = x\<lparr>
     wk_name := (case uwr_name q of Some n \<Rightarrow> if n \<noteq> [] then n else wk_name existing
                 | None \<Rightarrow> wk_name existing),
     wk_max_concurrency := (case uwr_max_concurrency q of
         Some n \<Rightarrow> if n > 0 then n else wk_max_concurrency existing
       | None \<Rightarrow> wk_max_concurrency existing),
     wk_enabled := (case uwr_enabled q of Some b \<Rightarrow> b | None \<Rightarrow> wk_enabled existing),
     wk_labels := (if uwr_labels q = JNull then wk_labels existing else uwr_labels q),
     wk_updated_at := e_db_now e\<rparr>"

definition Service_UpdateWorker ::
  "env \<Rightarrow> request_ctx \<Rightarrow> string \<Rightarrow> update_worker_request option \<Rightarrow> world \<Rightarrow> worker reply \<times> world" where
  "Service_UpdateWorker e ctx workerID body w =
     (let wsID = ctx_WorkspaceID ctx
      in case GetWorker e workerID wsID w of
           Inl _ \<Rightarrow> (writeError 404 ''NOT_FOUND'' ''Worker not found'' [], w)
         | Inr existing \<Rightarrow>
             (case body of
                None \<Rightarrow> (writeError 400 ''VALIDATION_ERROR'' ''Invalid request'' [], w)
              | Some q \<Rightarrow>
                  (case db_exec e ''UpdateWorker''
                          (if \<exists>x\<in>set (w_workers w). wk_id x \<noteq> workerID \<and> wk_workspace_id x = wsID \<and>
                                wk_name x = wk_name (updated_worker e q existing existing)
                           then Some (unique_violation ''workers_workspace_id_name_key'') else None)
                          (\<lambda>w. w\<lparr>w_workers := update_where
                             (\<lambda>x. wk_id x = workerID \<and> wk_workspace_id x = wsID)
                             (updated_worker e q existing) (w_workers w)\<rparr>) w of
                     (Some err, w') \<Rightarrow>
                       (writeError 500 ''INTERNAL_ERROR'' ''Failed to update worker'' (Error err), w')
                   | (None, w') \<Rightarrow>
                       (case GetWorker (again e) workerID wsID w' of
                          Inl err \<Rightarrow> (writeError 500 ''INTERNAL_ERROR'' ''Failed to load updated worker''
                                       (Error err), w')
                        | Inr worker \<Rightarrow> (writeJSON 200 worker, w')))))"

definition Service_DeleteWorker ::
  "env \<Rightarrow> request_ctx \<Rightarrow> string \<Rightarrow> world \<Rightarrow> unit reply \<times> world" where
  "Service_DeleteWorker e ctx workerID w =
     (case DeleteWorker e workerID (ctx_WorkspaceID ctx) w of
        (Inl _, w') \<Rightarrow> (writeError 404 ''NOT_FOUND'' ''Worker not found'' [], w')
      | (Inr n, w') \<Rightarrow>
          (if n = 0 then writeError 404 ''NOT_FOUND'' ''Worker not found'' [] else Status 204, w'))"

section \<open>Enrolment and credentials\<close>

text \<open>The id of the worker and its credential.\<close>

definition Service_EnrollWorker ::
  "(string \<Rightarrow> string) \<Rightarrow> string \<Rightarrow> env \<Rightarrow> string option \<Rightarrow> world \<Rightarrow> (string \<times> string) reply \<times> world" where
  "Service_EnrollWorker hash rnd e body w =
     (case body of
        None \<Rightarrow> (writeError 400 ''VALIDATION_ERROR'' ''Invalid request'' [], w)
      | Some token \<Rightarrow>
          if token = [] then (writeError 400 ''VALIDATION_ERROR'' ''token is required'' [], w)
          else
            case GetWorkerByEnrollmentToken e (Some (hash token)) w of
              Inl _ \<Rightarrow>
                (writeError 401 ''UNAUTHORIZED'' ''Invalid or expired enrollment token'' [], w)
            | Inr worker \<Rightarrow>
                let credentialFull = ''wrk_cred_'' @ generateRawAPIKey rnd
                in case UpdateWorkerCredentialHash e (wk_id worker) (hash credentialFull) w of
                     (Some _, w') \<Rightarrow>
                       (writeError 500 ''INTERNAL_ERROR'' ''Failed to enroll worker'' [], w')
                   | (None, w') \<Rightarrow> (writeJSON 200 (wk_id worker, credentialFull), w'))"

definition bearer :: string where
  "bearer = ''Bearer ''"

definition authenticateWorkerRequest ::
  "(string \<Rightarrow> string) \<Rightarrow> env \<Rightarrow> string \<Rightarrow> world \<Rightarrow> worker answer" where
  "authenticateWorkerRequest hash e authz w =
     (if \<not> HasPrefix authz bearer then Inl ErrNoRows
      else let credential = TrimSpace (drop (length bearer) authz)
           in if credential = [] then Inl ErrNoRows
              else db_read e ''AuthenticateWorker'' (one_row (List.find
                     (\<lambda>x. wk_credential_hash x = hash credential \<and> wk_enabled x) (w_workers w))))"

section \<open>The interface of the worker binary\<close>

definition unauthorized_worker :: "'d reply" where
  "unauthorized_worker = writeError 401 ''UNAUTHORIZED'' ''Invalid worker credential'' []"

definition marshal_config :: "go_map option \<Rightarrow> json" where
  "marshal_config m = (case m of None \<Rightarrow> JNull | Some kvs \<Rightarrow> JObj kvs)"

definition start_worker_run :: "env \<Rightarrow> worker \<Rightarrow> task \<Rightarrow> world \<Rightarrow> world" where
  "start_worker_run e wrk t w =
     snd (UpdateRunState e ((run_upd (t_id t) Running)
       \<lparr>us_started_at := Some (e_now e), us_worker_id := Some (wk_id wrk)\<rparr>) w)"

definition start_worker_job :: "env \<Rightarrow> worker \<Rightarrow> task \<Rightarrow> world \<Rightarrow> task reply \<times> world" where
  "start_worker_job e wrk t w =
     (case GetJob e (t_id t) (wk_workspace_id wrk) w of
        Inl err \<Rightarrow> (writeError 500 ''INTERNAL_ERROR'' ''Failed to load job for worker execution''
                     (Error err), w)
      | Inr job \<Rightarrow>
          let (attemptID, w1) = id_New e PrefixJobAttempt w
          in case CreateJobAttempt e attemptID (t_id t) (j_attempt job) (e_now e)
                    (marshal_config (t_method_config t)) (Some (wk_id wrk)) w1 of
               (Some err, w2) \<Rightarrow>
                 (writeError 500 ''INTERNAL_ERROR'' ''Failed to create job attempt'' (Error err), w2)
             | (None, w2) \<Rightarrow>
                 (writeJSON 200 (t\<lparr>t_attempt_id := attemptID\<rparr>),
                  snd (UpdateJobState e ((job_upd (t_id t) JobRunning)
                    \<lparr>uj_worker_id := Some (wk_id wrk)\<rparr>) w2)))"

definition Service_WorkerPoll ::
  "(string \<Rightarrow> string) \<Rightarrow> env \<Rightarrow> string \<Rightarrow> world \<Rightarrow> task reply \<times> world" where
  "Service_WorkerPoll hash e authz w =
     (case authenticateWorkerRequest hash e authz w of
        Inl _ \<Rightarrow> (unauthorized_worker, w)
      | Inr wrk \<Rightarrow>
          (case PollTask (wk_id wrk) w of
             (None, w1) \<Rightarrow> (Status 204, w1)
           | (Some t, w1) \<Rightarrow>
               if t_type t = ''run'' then (writeJSON 200 t, start_worker_run e wrk t w1)
               else if t_type t = ''job'' then start_worker_job e wrk t w1
               else (writeJSON 200 t, w1)))"

text \<open>Version and capabilities; \<open>null\<close> capabilities are left out.\<close>

definition Service_WorkerHeartbeat ::
  "(string \<Rightarrow> string) \<Rightarrow> env \<Rightarrow> string \<Rightarrow> (string \<times> json) option \<Rightarrow> world \<Rightarrow> string reply \<times> world" where
  "Service_WorkerHeartbeat hash e authz body w =
     (case authenticateWorkerRequest hash e authz w of
        Inl _ \<Rightarrow> (unauthorized_worker, w)
      | Inr wrk \<Rightarrow>
          (case body of
             None \<Rightarrow> (writeError 400 ''VALIDATION_ERROR'' ''Invalid request'' [], w)
           | Some (version, capabilities) \<Rightarrow>
               (case ProcessHeartbeat e (wk_id wrk)
                       (if capabilities = JNull then None else Some capabilities) version w of
                  (Some err, w') \<Rightarrow>
                    (writeError 500 ''INTERNAL_ERROR'' ''Failed to record worker heartbeat'' (Error err), w')
                | (None, w') \<Rightarrow> (writeJSON 200 ''ok'', w'))))"

definition Service_WorkerResult ::
  "(string \<Rightarrow> string) \<Rightarrow> env \<Rightarrow> string \<Rightarrow> task_result option \<Rightarrow> world \<Rightarrow> string reply \<times> world" where
  "Service_WorkerResult hash e authz body w =
     (case authenticateWorkerRequest hash e authz w of
        Inl _ \<Rightarrow> (unauthorized_worker, w)
      | Inr _ \<Rightarrow>
          (case body of
             None \<Rightarrow> (writeError 400 ''VALIDATION_ERROR'' ''Invalid request'' [], w)
           | Some result \<Rightarrow>
               if tr_task_id result = [] then
                 (writeError 400 ''VALIDATION_ERROR'' ''task_id is required'' [], w)
               else
                 (case ProcessResult e result w of
                    (Some err, w') \<Rightarrow>
                      (writeError 500 ''INTERNAL_ERROR'' ''Failed to process worker result'' (Error err), w')
                  | (None, w') \<Rightarrow> (writeJSON 200 ''ok'', w'))))"

text \<open>The tasks a worker is told to kill: its runs, then its jobs, that are asked to stop.\<close>

definition control_commands :: "worker \<Rightarrow> string list \<Rightarrow> world \<Rightarrow> string list" where
  "control_commands wrk active w =
     map r_id (filter (\<lambda>r. r_worker_id r = Some (wk_id wrk) \<and> r_state r = KillRequested \<and>
                  r_id r \<in> set active) (w_runs w)) @
     map j_id (filter (\<lambda>j. j_worker_id j = Some (wk_id wrk) \<and> j_state j = JobKillRequested \<and>
                  j_id j \<in> set active) (w_jobs w))"

definition Service_WorkerControlPoll ::
  "(string \<Rightarrow> string) \<Rightarrow> env \<Rightarrow> string \<Rightarrow> string list option \<Rightarrow> world \<Rightarrow> string list reply" where
  "Service_WorkerControlPoll hash e authz body w =
     (case authenticateWorkerRequest hash e authz w of
        Inl _ \<Rightarrow> unauthorized_worker
      | Inr wrk \<Rightarrow>
          (case body of
             None \<Rightarrow> writeError 400 ''VALIDATION_ERROR'' ''Invalid request'' []
           | Some active \<Rightarrow>
               if length active > 0 then
                 (case e_fault e ''ControlRuns'' of
                    Some err \<Rightarrow> writeError 500 ''INTERNAL_ERROR'' ''Failed to load control commands''
                                  (Error err)
                  | None \<Rightarrow>
                      (case e_fault e ''ControlJobs'' of
                         Some err \<Rightarrow> writeError 500 ''INTERNAL_ERROR''
                                       ''Failed to load control commands'' (Error err)
                       | None \<Rightarrow> writeJSON 200 (control_commands wrk active w)))
               else writeJSON 200 []))"

section \<open>Facts\<close>

lemma authenticateWorkerRequest_SomeD:
  "authenticateWorkerRequest hash e authz w = Inr x \<Longrightarrow>
   x \<in> set (w_workers w) \<and> wk_enabled x \<and>
   (\<exists>c. c \<noteq> [] \<and> c = TrimSpace (drop (length bearer) authz) \<and> wk_credential_hash x = hash c)"
  by (auto simp: authenticateWorkerRequest_def Let_def db_read_def one_row_def find_Some_iff
      in_set_conv_nth split: if_splits option.splits)

end
