(* ===== verification/Security_Properties.thy ===== *)
theory Security_Properties
  imports Access Ssrf Worker_Handlers Samples
begin

text \<open>
  Ids, API keys, roles, the check of HTTP targets and the enrolment of workers.
\<close>

section \<open>Ids\<close>

text \<open>
  Parsing an id gives back the prefix and the ULID it was made of: an id parses to a pair
  exactly when the prefix is canonical, the rest is a ULID, and the id is the one after the other.
\<close>

theorem id_parse_roundtrip:
  "id_Parse ulid_ok s = Inr (prefix, raw) \<longleftrightarrow>
     prefix \<in> set validPrefixes \<and> ulid_ok raw \<and> raw \<noteq> [] \<and> s = prefix @ raw"
  using id_Parse_SomeD id_Parse_prefix by metis

text \<open>
  Ids of outputs, heartbeats, events, deliveries, orchestras, messages, servers, secrets,
  artifacts and tokens are generated with prefixes the parser does not know, so none of them is
  valid.
\<close>

theorem generated_ids_refused:
  "list_all (\<lambda>p. \<not> id_IsValid ulid_ok (fst (id_New e p w)))
     [''out_'', ''hb_'', ''evt_'', ''dlv_'', ''orc_'', ''msg_'', ''srv_'', ''sec_'', ''art_'', ''tok_'']"
  unfolding list_all_iff
proof
  fix p assume p: "p \<in> set [''out_'', ''hb_'', ''evt_'', ''dlv_'', ''orc_'', ''msg_'', ''srv_'',
    ''sec_'', ''art_'', ''tok_'']"
  show "\<not> id_IsValid ulid_ok (fst (id_New e p w))"
  proof
    assume "id_IsValid ulid_ok (fst (id_New e p w))"
    then obtain q raw where "id_Parse ulid_ok (p @ e_ulid e (w_ids w)) = Inr (q, raw)"
      by (auto simp: id_IsValid_def id_New_def split: sum.splits)
    then have "q \<in> set validPrefixes" "p @ e_ulid e (w_ids w) = q @ raw"
      by (auto dest: id_Parse_SomeD)
    then show False using p by (auto simp: validPrefixes_def prefix_defs)
  qed
qed

section \<open>API keys and roles\<close>

text \<open>
  Whoever is authenticated presented the secret of an enabled key: its hash and the first
  eight bytes are the stored ones. The actor is a platform administrator only when the user who
  created the key is one; anyone else acts in the workspace of the key, with the role of the key,
  and that workspace is neither suspended nor archived.
\<close>

theorem authenticate_sound:
  assumes "fst (Authenticate hash e r w) = Inr a"
  shows "\<exists>k\<in>set (w_api_keys w). \<exists>ws\<in>set (w_workspaces w).
     ak_enabled k \<and> ak_key_hash k = hash (h_X_API_Key r) \<and>
     ak_key_prefix k = GenerateAPIKeyPrefix (h_X_API_Key r) \<and> h_X_API_Key r \<noteq> [] \<and>
     a_ID a = ak_id k \<and> wsp_id ws = ak_workspace_id k \<and>
     (if a_IsPlatformAdmin a
      then a_Role a = ''admin'' \<and>
        (\<exists>u\<in>set (w_users w). ak_created_by k = Some (u_id u) \<and> u_is_platform_admin u)
      else a_WorkspaceID a = ak_workspace_id k \<and> a_Role a = ak_role k \<and>
        wsp_state ws \<notin> {''suspended'', ''archived''})"
proof -
  obtain k st where g: "GetAPIKeyByHash e (hash (h_X_API_Key r)) w = Inr (k, st)"
    using assms by (auto simp: Authenticate_def Let_def split: if_splits sum.splits)
  obtain ws where k: "k \<in> set (w_api_keys w)" "ws \<in> set (w_workspaces w)" "ak_enabled k"
    "ak_key_hash k = hash (h_X_API_Key r)" "wsp_id ws = ak_workspace_id k" "wsp_state ws = st"
    using GetAPIKeyByHash_SomeD[OF g] by blast
  let ?admin = "case ak_created_by k of None \<Rightarrow> False
     | Some uid \<Rightarrow> (case GetUserByID e uid w of Inl _ \<Rightarrow> False | Inr u \<Rightarrow> u_is_platform_admin u)"
  have u: "\<exists>u\<in>set (w_users w). ak_created_by k = Some (u_id u) \<and> u_is_platform_admin u" if ?admin
    using that by (auto simp: GetUserByID_def db_read_def one_row_def
        split: option.splits sum.splits dest!: lookup_key_SomeD)
  have "h_X_API_Key r \<noteq> []" "ak_key_prefix k = GenerateAPIKeyPrefix (h_X_API_Key r)"
    "a_ID a = ak_id k" "a_IsPlatformAdmin a = ?admin"
    "?admin \<Longrightarrow> a_Role a = ''admin''"
    "\<not> ?admin \<Longrightarrow> a_WorkspaceID a = ak_workspace_id k \<and> a_Role a = ak_role k \<and>
       st \<notin> {''suspended'', ''archived''}"
    using assms g unfolding Authenticate_def GenerateAPIKeyPrefix_def
    by (auto simp: Let_def min_def split: if_splits)
  then show ?thesis using k u by metis
qed

definition sample_key :: api_key where
  "sample_key = \<lparr>ak_id = ''key_1'', ak_workspace_id = ''wsp_1'', ak_name = ''ci'',
     ak_key_hash = ''#cc_live_0123'', ak_key_prefix = ''cc_live_'', ak_role = ''operator'',
     ak_expires_at = Some 0, ak_created_by = None, ak_last_used_at = None, ak_last_ip = None,
     ak_last_user_agent = None, ak_enabled = True, ak_created_at = 0\<rparr>"

definition sample_accounts :: world where
  "sample_accounts = empty_world\<lparr>w_api_keys := [sample_key], w_workspaces := [sample_workspace]\<rparr>"

definition sample_request :: http_request where
  "sample_request = \<lparr>h_X_API_Key = ''cc_live_0123'', h_X_Workspace_ID = ''wsp_2'',
     h_X_Forwarded_For = [], h_RemoteAddr = ''10.0.0.1'', h_UserAgent = ''curl'', h_Path = ''/runs''\<rparr>"

theorem authenticate_sound_witness:
  "\<exists>k\<in>set (w_api_keys sample_accounts).
     fst (Authenticate (\<lambda>s. CHR ''#'' # s) (calm hour) sample_request sample_accounts) =
       Inr \<lparr>a_Type = ''api_key'', a_ID = ak_id k, a_WorkspaceID = ''wsp_1'', a_Role = ''operator'',
            a_IsPlatformAdmin = False\<rparr>"
proof -
  have ok: "fst (Authenticate (\<lambda>s. CHR ''#'' # s) (calm hour) sample_request sample_accounts) =
      Inr \<lparr>a_Type = ''api_key'', a_ID = ''key_1'', a_WorkspaceID = ''wsp_1'', a_Role = ''operator'',
           a_IsPlatformAdmin = False\<rparr>"
    by (simp add: Authenticate_def sample_request_def sample_accounts_def sample_key_def
        GetAPIKeyByHash_def db_read_def workspace_of_key_def sample_workspace_def)
  then show ?thesis using authenticate_sound[OF ok] by auto
qed

lemma GetAPIKeyByHash_expiry:
  "GetAPIKeyByHash e h (w\<lparr>w_api_keys := map (\<lambda>k. k\<lparr>ak_expires_at := f k\<rparr>) (w_api_keys w)\<rparr>) =
     (case GetAPIKeyByHash e h w of Inl err \<Rightarrow> Inl err
      | Inr (k, st) \<Rightarrow> Inr (k\<lparr>ak_expires_at := f k\<rparr>, st))"
proof -
  have "List.find P (map g xs) = map_option g (List.find (\<lambda>x. P (g x)) xs)"
    for P and g :: "api_key \<Rightarrow> api_key" and xs by (induction xs) auto
  then show ?thesis
    by (simp add: GetAPIKeyByHash_def db_read_def workspace_of_key_def split: option.split)
qed

text \<open>
  The expiry of a key plays no part: whatever expiries are stored, the answer is the same.
\<close>

theorem expiry_ignored:
  "fst (Authenticate hash e r (w\<lparr>w_api_keys := map (\<lambda>k. k\<lparr>ak_expires_at := f k\<rparr>) (w_api_keys w)\<rparr>))
   = fst (Authenticate hash e r w)"
  unfolding Authenticate_def GetAPIKeyByHash_expiry
  by (auto simp: Let_def GetUserByID_def split: sum.split option.split)

text \<open>
  The middleware of a role lets exactly the authenticated actors through whose role is at
  least the required one, in the order viewer, operator, admin.
\<close>

theorem role_gate:
  assumes "role \<in> {''viewer'', ''operator'', ''admin''}"
  shows "(\<exists>ctx'. RequireRole role ctx = Passed ctx') \<longleftrightarrow>
     (\<exists>a. ctx = Some a \<and> a_Role a \<in> set (dropWhile (\<lambda>x. x \<noteq> role) [''viewer'', ''operator'', ''admin'']))"
  using assms
  by (cases ctx) (auto simp: RequireRole_def ctx_Role_def hasMinRole_def role_level_def Let_def)

theorem role_gate_witness:
  "\<not> (\<exists>ctx'. RequireRole ''admin'' (Some \<lparr>a_Type = ''api_key'', a_ID = ''key_1'',
      a_WorkspaceID = ''wsp_1'', a_Role = ''operator'', a_IsPlatformAdmin = False\<rparr>) = Passed ctx')"
  using role_gate[of "''admin''"] by simp

section \<open>HTTP targets\<close>

text \<open>
  The dotted form of an IPv4 address parses to that address, and the check refuses it exactly
  when it is loopback (127/8), private (10/8, 172.16/12, 192.168/16), link-local (169.254/16,
  224.0.0/24) or unspecified; the metadata address 169.254.169.254 is one of them.
\<close>

theorem dotted_address_checked:
  "\<exists>a. ParseIP (dotted x) = Some a \<and> (checkIP a \<noteq> None \<longleftrightarrow> forbidden_v4 x)"
  by (intro exI[of _ "v4_ip x"]) (simp add: ParseIP_dotted checkIP_v4)


definition example_parse :: "string \<Rightarrow> (string \<times> string) option" where
  "example_parse u = (if u = ''https://api.example/x'' then Some (''https'', ''api.example'') else None)"

lemma checkIP_8: "checkIP (v4_ip 0x08080808) = None"
  by (simp add: checkIP_v4 forbidden_v4_def word_eq_unat unat_drop)


text \<open>
  The check that does not resolve names, the only one the HTTP method runs, lets a name through
  whose address the full check refuses.
\<close>

theorem format_check_trusts_names:
  "ValidateFormat (\<lambda>_. Some (''http'', ''rebind.example'')) ''http://rebind.example/'' [] = None \<and>
   (\<exists>err. Validate (\<lambda>_. Some (''http'', ''rebind.example'')) (\<lambda>_. Some [dotted 0xA9FEA9FE])
      ''http://rebind.example/'' [] = Some err)"
proof
  have f: "forbidden_v4 0xA9FEA9FE" by (simp add: forbidden_v4_def word_eq_unat unat_drop)
  then show "\<exists>err. Validate (\<lambda>_. Some (''http'', ''rebind.example'')) (\<lambda>_. Some [dotted 0xA9FEA9FE])
      ''http://rebind.example/'' [] = Some err"
    using checkIP_v4[of "0xA9FEA9FE"]
    by (auto simp: Validate_def ParseIP_dotted split: sum.split option.split)
  show "ValidateFormat (\<lambda>_. Some (''http'', ''rebind.example'')) ''http://rebind.example/'' [] = None"
    by (simp add: ValidateFormat_def check_url_def ToLower_def ToLower_char_def
        blockedHostnames_def blockedHostSuffixes_def HasSuffix_def check_allowed_def ParseIP_def
        parseIPv4Fields_def)
qed

section \<open>Enrolment\<close>

text \<open>
  An enrolment token is good for one enrolment: it belonged to a worker and had not expired,
  the credential handed out is the one whose hash the worker now has, and presenting the token
  again fails.
\<close>

theorem enrolment_is_single_use:
  assumes "Enroll hash tok e token w = (Inr res, w')"
    "\<forall>x\<in>set (w_workers w). wk_enrollment_token_hash x = Some (hash token) \<longrightarrow> wk_id x = er_WorkerID res"
  shows "(\<exists>x\<in>set (w_workers w). wk_id x = er_WorkerID res \<and>
       (\<exists>t. wk_enrollment_token_expires_at x = Some t \<and> e_db_now e < t)) \<and>
     (\<exists>y. worker_at w' (er_WorkerID res) = Some y \<and> wk_credential_hash y = hash (er_Credential res)) \<and>
     (\<exists>err. fst (Enroll hash tok' e' token w') = Inl err)"
proof -
  obtain x where g: "GetWorkerByEnrollmentToken e (Some (hash token)) w = Inr x"
    using assms(1) by (auto simp: Enroll_def split: sum.splits)
  obtain t where x: "x \<in> set (w_workers w)" "wk_enrollment_token_expires_at x = Some t"
    "e_db_now e < t" "wk_enrollment_token_hash x = Some (hash token)"
    using GetWorkerByEnrollmentToken_SomeD[OF g] by auto
  obtain c where c: "tok = Some c" using assms(1) g by (auto simp: Enroll_def split: option.splits)
  let ?f = "\<lambda>x. x\<lparr>wk_credential_hash := hash (''wrk_cred_'' @ c), wk_enrollment_token_hash := None,
     wk_enrollment_token_expires_at := None, wk_updated_at := e_db_now e\<rparr>"
  have w': "w' = on_worker (wk_id x) ?f w"
    and res: "res = \<lparr>er_WorkerID = wk_id x, er_Credential = ''wrk_cred_'' @ c\<rparr>"
    using assms(1) g c
    by (auto simp: Enroll_def UpdateWorkerCredentialHash_def db_exec_def Let_def
        split: option.splits if_splits prod.splits)
  obtain z where z: "worker_at w (wk_id x) = Some z"
    using x(1) by (cases "worker_at w (wk_id x)") (auto simp: worker_at_def lookup_key_None_iff)
  have "worker_at w' (wk_id x) = Some (?f z)"
    unfolding w' using z by (subst worker_at_on_worker) simp_all
  moreover have "\<forall>y\<in>set (w_workers w'). wk_enrollment_token_hash y \<noteq> Some (hash token)"
    using assms(2) by (auto simp: w' res on_worker_def update_key_def set_update_where)
  then have "\<exists>err. fst (Enroll hash tok' e' token w') = Inl err"
    using GetWorkerByEnrollmentToken_none[of w' "Some (hash token)" e']
    by (auto simp: Enroll_def)
  ultimately show ?thesis using x res by auto
qed

definition new_sample_worker :: worker where
  "new_sample_worker = (new_worker (calm 0) \<lparr>cw_id = ''wrk_1'', cw_workspace_id = ''wsp_1'',
     cw_name = ''one'', cw_credential_hash = ''h'', cw_labels = Some (JObj []),
     cw_max_concurrency = 1\<rparr>)\<lparr>wk_enrollment_token_hash := Some ''#tok'',
     wk_enrollment_token_expires_at := Some hour\<rparr>"

theorem enrolment_is_single_use_witness:
  "\<exists>err. fst (Enroll (\<lambda>s. CHR ''#'' # s) (Some ''y'') (calm 0) ''tok''
     (snd (Enroll (\<lambda>s. CHR ''#'' # s) (Some ''x'') (calm 0) ''tok''
        (empty_world\<lparr>w_workers := [new_sample_worker]\<rparr>)))) = Inl err"
proof -
  let ?w = "empty_world\<lparr>w_workers := [new_sample_worker]\<rparr>"
  have "Enroll (\<lambda>s. CHR ''#'' # s) (Some ''x'') (calm 0) ''tok'' ?w =
      (Inr \<lparr>er_WorkerID = ''wrk_1'', er_Credential = ''wrk_cred_x''\<rparr>,
       snd (Enroll (\<lambda>s. CHR ''#'' # s) (Some ''x'') (calm 0) ''tok'' ?w))"
    by (simp add: Enroll_def GetWorkerByEnrollmentToken_def db_read_def one_row_def
        new_sample_worker_def new_worker_def UpdateWorkerCredentialHash_def db_exec_def Let_def)
  from enrolment_is_single_use[OF this, of "Some ''y''" "calm 0"]
  show ?thesis by (simp add: new_sample_worker_def new_worker_def)
qed

text \<open>
  The manager's way of creating a worker never succeeds: it leaves the labels out, the column
  does not admit that, and neither a worker nor a token comes of it.
\<close>

theorem enrolment_create_always_fails:
  "(\<exists>err. fst (Enrollment_CreateWorker hash tok e ws name n w) = Inl err) \<and>
   w_workers (snd (Enrollment_CreateWorker hash tok e ws name n w)) = w_workers w"
proof -
  have c: "\<exists>err. db_CreateWorker e a v = (Inl err, v)" if "cw_labels a = None" for a v
    using that
    by (auto simp: db_CreateWorker_def db_exec_def create_worker_violation_def split: option.split)
  show ?thesis
  proof (cases tok)
    case (Some t)
    define a where "a = \<lparr>cw_id = fst (id_New e PrefixWorker w), cw_workspace_id = ws, cw_name = name,
      cw_credential_hash = hash (''placeholder_'' @ fst (id_New e PrefixWorker w)),
      cw_labels = None, cw_max_concurrency = n\<rparr>"
    obtain err where "db_CreateWorker e a (snd (id_New e PrefixWorker w)) =
        (Inl err, snd (id_New e PrefixWorker w))"
      using c[of a] by (auto simp: a_def)
    then show ?thesis
      using Some by (simp add: Enrollment_CreateWorker_def a_def split_beta Let_def) (simp add: id_New_def)
  qed (simp add: Enrollment_CreateWorker_def)
qed

end
