(* ===== verification/Run_Handlers.thy ===== *)
theory Run_Handlers
  imports Api Run_Store
begin

text \<open>
  The handlers of runs and the heartbeat, \<open>internal/handler/service.go\<close>: list, read, cancel, kill,
  replay, output, progress.
\<close>

definition redact_actor :: "run \<Rightarrow> run" where
  "redact_actor r = r\<lparr>r_actor_id := map_option redactID (r_actor_id r)\<rparr>"

definition Service_ListRuns ::
  "env \<Rightarrow> request_ctx \<Rightarrow> string \<Rightarrow> string \<Rightarrow> string \<Rightarrow> world \<Rightarrow> (run \<times> string) list reply" where
  "Service_ListRuns e ctx processID state origin w =
     (case ListRuns e (ctx_WorkspaceID ctx) processID state origin 50 0 w of
        Inl _ \<Rightarrow> writeError 500 ''INTERNAL_ERROR'' ''Failed to list runs'' []
      | Inr runs \<Rightarrow> writeJSON 200 (map (\<lambda>(r, p). (redact_actor r, p)) runs))"

definition Service_GetRun ::
  "env \<Rightarrow> request_ctx \<Rightarrow> string \<Rightarrow> world \<Rightarrow> (run \<times> run_attempt list) reply" where
  "Service_GetRun e ctx runID w =
     (case GetRun e runID (ctx_WorkspaceID ctx) w of
        Inl _ \<Rightarrow> writeError 404 ''NOT_FOUND'' ''Run not found'' []
      | Inr run \<Rightarrow>
          writeJSON 200 (redact_actor run,
            case ListRunAttemptsByRun e runID w of Inl _ \<Rightarrow> [] | Inr attempts \<Rightarrow> attempts))"

definition Service_CancelRun ::
  "env \<Rightarrow> request_ctx \<Rightarrow> string \<Rightarrow> world \<Rightarrow> string reply \<times> world" where
  "Service_CancelRun e ctx runID w =
     (case GetRun e runID (ctx_WorkspaceID ctx) w of
        Inl _ \<Rightarrow> (writeError 404 ''NOT_FOUND'' ''Run not found'' [], w)
      | Inr run \<Rightarrow>
          if r_state run \<in> {Pending, Queued, WaitingForWorker, Paused, Retrying} then
            (writeJSON 200 ''cancelled'', snd (UpdateRunState e (run_upd runID Cancelled) w))
          else if r_state run = Running then
            (writeJSON 200 ''kill_requested'',
             snd (UpdateRunState e ((run_upd runID KillRequested)
               \<lparr>us_killed_by_actor_type := Some (a_Type (actor_of ctx)),
                us_killed_by_actor_id := Some (a_ID (actor_of ctx))\<rparr>) w))
          else (writeJSON 200 (state_name (r_state run)), w))"

definition Service_KillRun ::
  "env \<Rightarrow> request_ctx \<Rightarrow> string \<Rightarrow> world \<Rightarrow> string reply \<times> world" where
  "Service_KillRun e ctx runID w =
     (case GetRun e runID (ctx_WorkspaceID ctx) w of
        Inl _ \<Rightarrow> (writeError 404 ''NOT_FOUND'' ''Run not found'' [], w)
      | Inr _ \<Rightarrow>
          (writeJSON 200 ''kill_requested'',
           snd (UpdateRunState e ((run_upd runID KillRequested)
             \<lparr>us_killed_by_actor_type := Some (a_Type (actor_of ctx)),
              us_killed_by_actor_id := Some (a_ID (actor_of ctx))\<rparr>) w)))"

definition Service_ReplayRun ::
  "env \<Rightarrow> request_ctx \<Rightarrow> string \<Rightarrow> world \<Rightarrow> run reply \<times> world" where
  "Service_ReplayRun e ctx runID w =
     (let wsID = ctx_WorkspaceID ctx; actor = actor_of ctx
      in case GetRun e runID wsID w of
           Inl _ \<Rightarrow> (writeError 404 ''NOT_FOUND'' ''Run not found'' [], w)
         | Inr orig \<Rightarrow>
             if \<not> IsTerminal (r_state orig) then
               (writeError 400 ''VALIDATION_ERROR'' ''Can only replay terminal runs''
                  (''Run is still '' @ state_name (r_state orig)), w)
             else
               let (rid, w1) = id_New e PrefixRun w;
                   a = \<lparr>cr_id = rid, cr_workspace_id = wsID, cr_process_id = r_process_id orig,
                        cr_scheduled_at = Some (e_now e), cr_state = Pending, cr_origin = ''replay'',
                        cr_max_attempts = r_max_attempts orig, cr_actor_type = Some (a_Type actor),
                        cr_actor_id = Some (a_ID actor), cr_triggered_by_run_id = None,
                        cr_replayed_from_run_id = Some runID, cr_runtime = None,
                        cr_worker_id = None, cr_tags = r_tags orig\<rparr>
               in case CreateRun e a w1 of
                    (Some err, w2) \<Rightarrow>
                      (writeError 500 ''INTERNAL_ERROR'' ''Failed to create replay run'' (Error err), w2)
                  | (None, w2) \<Rightarrow> (writeJSON 201 (new_run e a), w2))"

text \<open>The stream of the URL, the empty string without one, goes to the query as it is.\<close>

definition Service_GetRunOutput ::
  "env \<Rightarrow> request_ctx \<Rightarrow> string \<Rightarrow> string \<Rightarrow> world \<Rightarrow> run_output list reply" where
  "Service_GetRunOutput e ctx runID streamVal w =
     (case GetRun e runID (ctx_WorkspaceID ctx) w of
        Inl _ \<Rightarrow> writeError 404 ''NOT_FOUND'' ''Run not found'' []
      | Inr _ \<Rightarrow>
          (case GetRunOutput e runID (Some streamVal) w of
             Inl _ \<Rightarrow> writeError 500 ''INTERNAL_ERROR'' ''Failed to get output'' []
           | Inr out \<Rightarrow> writeJSON 200 out))"

section \<open>Heartbeats\<close>

record heartbeat_request =
  hr_run_id :: string
  hr_total :: "int option"
  hr_current :: int
  hr_message :: "string option"

definition heartbeat_progress :: "heartbeat_request \<Rightarrow> int" where
  "heartbeat_progress q =
     (case hr_total q of
        None \<Rightarrow> 0
      | Some n \<Rightarrow> if n > 0 then wrap32 (go_div (wrap32 (hr_current q * 100)) n) else 0)"

definition Service_Heartbeat ::
  "env \<Rightarrow> heartbeat_request option \<Rightarrow> world \<Rightarrow> unit reply \<times> world" where
  "Service_Heartbeat e body w =
     (case body of
        None \<Rightarrow> (writeError 400 ''VALIDATION_ERROR'' ''Invalid request'' [], w)
      | Some q \<Rightarrow>
          let progress = heartbeat_progress q;
              w1 = snd (UpdateRunProgress e (hr_run_id q) (hr_total q) (Some (hr_current q))
                          (Some progress) (hr_message q) w);
              (hid, w2) = id_New e ''hb_'' w1;
              w3 = snd (CreateHeartbeat e hid (hr_run_id q) (hr_total q) (Some (hr_current q))
                          (Some progress) (hr_message q) w2)
          in (Status 200, emit (EvCounter ''heartbeats_received'') w3))"

end
