(* ===== verification/Process_Handlers.thy ===== *)
theory Process_Handlers
  imports Api Process_Queries
begin

text \<open>
  The handlers of processes, \<open>internal/handler/service.go\<close>: create, read, update, delete, trigger,
  pause and resume. The id of a path is an argument; a handler gives its reply and the world.
\<close>

definition created_tags :: "go_map \<Rightarrow> string list" where
  "created_tags m =
     (case map_of m ''tags'' of
        Some (JArr v) \<Rightarrow> concat (map (\<lambda>t. case t of JStr s \<Rightarrow> [s] | _ \<Rightarrow> []) v)
      | _ \<Rightarrow> [])"

text \<open>\<open>v, ok := req[key].(string); ok && v != ""\<close>\<close>

definition nonempty_or :: "go_map \<Rightarrow> string \<Rightarrow> string \<Rightarrow> string" where
  "nonempty_or m key def = (let v = map_string m key in if v \<noteq> [] then v else def)"

definition object_or_empty :: "go_map \<Rightarrow> string \<Rightarrow> json" where
  "object_or_empty m key =
     (case map_of m key of None \<Rightarrow> JObj [] | Some JNull \<Rightarrow> JObj [] | Some j \<Rightarrow> j)"

definition requested_process :: "(rat \<Rightarrow> int) \<Rightarrow> go_map \<Rightarrow> string \<Rightarrow> string \<Rightarrow> process" where
  "requested_process oor m pid wsID =
     \<lparr>p_id = pid, p_workspace_id = wsID, p_name = map_string m ''name'',
      p_schedule_type = map_string m ''schedule_type'', p_schedule = getStrPtr m ''schedule'' None,
      p_delay_duration = getStrPtr m ''delay_duration'' None,
      p_timezone = getStrPtr m ''timezone'' None, p_miss_policy = getStrPtr m ''miss_policy'' None,
      p_max_recovery_slots = 10, p_allow_parallel = False,
      p_max_parallel = getInt32 oor m ''max_parallel'' 1,
      p_on_overlap = nonempty_or m ''on_overlap'' ''skip'',
      p_execution_method = map_string m ''execution_method'',
      p_runtime = nonempty_or m ''runtime'' ''direct'',
      p_method_config = object_or_empty m ''method_config'',
      p_max_attempts = getInt32 oor m ''max_attempts'' 1,
      p_retry_backoff = getStrPtr m ''retry_backoff'' None,
      p_execution_timeout = getInterval m ''execution_timeout''
        \<lparr>iv_microseconds = 3600 * 1000000, iv_days = 0, iv_months = 0\<rparr>,
      p_heartbeat_timeout = None, p_timeout_action = nonempty_or m ''timeout_action'' ''both'',
      p_ssh_credential_id = None, p_ssm_profile_id = None, p_k8s_cluster_id = None,
      p_worker_id = getNullableString m ''worker_id'' None,
      p_worker_labels = getJSONBytes m ''worker_labels'' None,
      p_depends_on_process_id = None, p_dependency_type = None,
      p_environment = Some (object_or_empty m ''environment''), p_tags = created_tags m,
      p_enabled = True, p_created_at = 0, p_updated_at = 0\<rparr>"

definition Service_CreateProcess ::
  "(rat \<Rightarrow> int) \<Rightarrow> env \<Rightarrow> request_ctx \<Rightarrow> json option \<Rightarrow> world \<Rightarrow> process reply \<times> world" where
  "Service_CreateProcess oor e ctx body w =
     (case decode_map body of
        None \<Rightarrow> (writeError 400 ''VALIDATION_ERROR'' ''Invalid request body'' [], w)
      | Some m \<Rightarrow>
          if map_string m ''name'' = [] \<or> map_string m ''schedule_type'' = [] \<or>
             map_string m ''execution_method'' = []
          then (writeError 400 ''VALIDATION_ERROR''
                 ''name, schedule_type, and execution_method are required'' [], w)
          else
            let (pid, w1) = id_New e PrefixProcess w
            in case CreateProcess e (requested_process oor m pid (ctx_WorkspaceID ctx)) w1 of
                 (Inl err, w2) \<Rightarrow> (writeError 409 ''CONFLICT'' ''Process could not be created''
                    (''Name may already exist: '' @ Error err), w2)
               | (Inr proc, w2) \<Rightarrow> (writeJSON 201 proc, w2))"

definition Service_GetProcess :: "env \<Rightarrow> request_ctx \<Rightarrow> string \<Rightarrow> world \<Rightarrow> process reply" where
  "Service_GetProcess e ctx procID w =
     (case GetProcess e procID (ctx_WorkspaceID ctx) w of
        Inl _ \<Rightarrow> writeError 404 ''NOT_FOUND'' ''Process not found'' []
      | Inr proc \<Rightarrow> writeJSON 200 proc)"

text \<open>The row an update asks for: what the request does not mention stays.\<close>

definition updated_process :: "go_map \<Rightarrow> process \<Rightarrow> process" where
  "updated_process m p = p\<lparr>
     p_name := getStr m ''name'' (p_name p),
     p_schedule_type := getStr m ''schedule_type'' (p_schedule_type p),
     p_schedule := getStrPtr m ''schedule'' (p_schedule p),
     p_delay_duration := getStrPtr m ''delay_duration'' (p_delay_duration p),
     p_timezone := getStrPtr m ''timezone'' (p_timezone p),
     p_miss_policy := getStrPtr m ''miss_policy'' (p_miss_policy p),
     p_on_overlap := getStr m ''on_overlap'' (p_on_overlap p),
     p_execution_method := getStr m ''execution_method'' (p_execution_method p),
     p_runtime := getStr m ''runtime'' (p_runtime p),
     p_method_config := (case map_of m ''method_config'' of Some j \<Rightarrow> j | None \<Rightarrow> p_method_config p),
     p_timeout_action := getStr m ''timeout_action'' (p_timeout_action p),
     p_worker_id := getNullableString m ''worker_id'' (p_worker_id p),
     p_worker_labels := getJSONBytes m ''worker_labels'' (p_worker_labels p),
     p_environment := (case map_of m ''environment'' of Some j \<Rightarrow> Some j | None \<Rightarrow> p_environment p),
     p_tags := getStringArray m ''tags'' (p_tags p),
     p_enabled := getBool m ''enabled'' (p_enabled p)\<rparr>"

definition Service_UpdateProcess ::
  "env \<Rightarrow> request_ctx \<Rightarrow> string \<Rightarrow> json option \<Rightarrow> world \<Rightarrow> process reply \<times> world" where
  "Service_UpdateProcess e ctx procID body w =
     (case GetProcess e procID (ctx_WorkspaceID ctx) w of
        Inl _ \<Rightarrow> (writeError 404 ''NOT_FOUND'' ''Process not found'' [], w)
      | Inr existing \<Rightarrow>
          (case decode_map body of
             None \<Rightarrow> (writeError 400 ''VALIDATION_ERROR'' ''Invalid request body'' [], w)
           | Some m \<Rightarrow>
               (case UpdateProcess e (updated_process m existing) w of
                  (Inl err, w') \<Rightarrow> (writeError 500 ''INTERNAL_ERROR'' ''Failed to update process'' (Error err), w')
                | (Inr proc, w') \<Rightarrow> (writeJSON 200 proc, w'))))"

definition Service_DeleteProcess ::
  "env \<Rightarrow> request_ctx \<Rightarrow> string \<Rightarrow> world \<Rightarrow> unit reply \<times> world" where
  "Service_DeleteProcess e ctx procID w =
     (case DeleteProcess e procID (ctx_WorkspaceID ctx) w of
        (Inl _, w') \<Rightarrow> (writeError 404 ''NOT_FOUND'' ''Process not found'' [], w')
      | (Inr n, w') \<Rightarrow>
          (if n = 0 then writeError 404 ''NOT_FOUND'' ''Process not found'' [] else Status 204, w'))"

definition Service_TriggerProcess ::
  "env \<Rightarrow> request_ctx \<Rightarrow> string \<Rightarrow> world \<Rightarrow> run reply \<times> world" where
  "Service_TriggerProcess e ctx procID w =
     (let wsID = ctx_WorkspaceID ctx
      in case GetProcess e procID wsID w of
           Inl _ \<Rightarrow> (writeError 404 ''NOT_FOUND'' ''Process not found'' [], w)
         | Inr proc \<Rightarrow>
             let actor = actor_of ctx;
                 (rid, w1) = id_New e PrefixRun w;
                 a = \<lparr>cr_id = rid, cr_workspace_id = wsID, cr_process_id = p_id proc,
                      cr_scheduled_at = Some (e_now e), cr_state = Pending, cr_origin = ''manual'',
                      cr_max_attempts = p_max_attempts proc, cr_actor_type = Some (a_Type actor),
                      cr_actor_id = Some (a_ID actor), cr_triggered_by_run_id = None,
                      cr_replayed_from_run_id = None, cr_runtime = None, cr_worker_id = None,
                      cr_tags = p_tags proc\<rparr>
             in case CreateRun e a w1 of
                  (Some _, w2) \<Rightarrow> (writeError 500 ''INTERNAL_ERROR'' ''Failed to create run'' [], w2)
                | (None, w2) \<Rightarrow> (writeJSON 201 (new_run e a), w2))"

text \<open>The errors of the statements of pause and resume are dropped.\<close>

definition Service_PauseProcess ::
  "env \<Rightarrow> request_ctx \<Rightarrow> string \<Rightarrow> bool \<Rightarrow> world \<Rightarrow> string reply \<times> world" where
  "Service_PauseProcess e ctx procID cancelPending w =
     (let wsID = ctx_WorkspaceID ctx;
          w1 = snd (SetProcessEnabled e procID wsID False w);
          w2 = snd (if cancelPending then BulkCancelRuns e procID wsID w1
                    else BulkPauseRuns e procID wsID w1)
      in (writeJSON 200 ''paused'', w2))"

definition Service_ResumeProcess ::
  "env \<Rightarrow> request_ctx \<Rightarrow> string \<Rightarrow> world \<Rightarrow> string reply \<times> world" where
  "Service_ResumeProcess e ctx procID w =
     (let wsID = ctx_WorkspaceID ctx;
          w1 = snd (SetProcessEnabled e procID wsID True w)
      in (writeJSON 200 ''resumed'', snd (BulkResumeRuns e procID wsID w1)))"

end
