(* ===== verification/Run_Api_Properties.thy ===== *)
theory Run_Api_Properties
  imports Run_Handlers Process_Handlers Executor_Properties
begin

text \<open>
  What the handlers of runs and processes do to the runs: an abstract specification of the
  commands a client can give, which the handlers implement, the isolation of workspaces, and the
  replies that depend on the state of a run.
\<close>

section \<open>Look-ups\<close>

lemma GetRun_eq:
  assumes "runs_ok w" "e_fault e ''GetRun'' = None"
  shows "GetRun e k ws w = (case run_at w k of
     None \<Rightarrow> Inl ErrNoRows
   | Some r \<Rightarrow> if r_workspace_id r = ws then Inr r else Inl ErrNoRows)"
proof -
  have find: "distinct (map r_id rs) \<Longrightarrow> List.find (\<lambda>r. r_id r = k \<and> r_workspace_id r = ws) rs =
      (case lookup_key r_id k rs of None \<Rightarrow> None | Some r \<Rightarrow> if r_workspace_id r = ws then Some r else None)"
    for rs
  proof (induction rs)
    case (Cons r rs)
    have "List.find (\<lambda>x. r_id x = r_id r \<and> r_workspace_id x = ws) rs = None"
      using Cons.prems by (auto simp: find_None_iff) (metis image_eqI)
    then show ?case using Cons by (auto split: option.split)
  qed simp
  have "distinct (map r_id (w_runs w))" using assms(1) by (simp add: runs_ok_def)
  from find[OF this] show ?thesis
    using assms(2) by (simp add: GetRun_def db_read_def one_row_def run_at_def split: option.split)
qed

lemma run_at_update_where:
  "(\<And>r. r_id (f r) = r_id r) \<Longrightarrow>
   run_at (w\<lparr>w_runs := update_where P f (w_runs w)\<rparr>) k = map_option (\<lambda>r. if P r then f r else r) (run_at w k)"
  by (simp add: run_at_def lookup_key_update_where)

lemma GetRun_SomeD:
  "GetRun e k ws w = Inr r \<Longrightarrow> r \<in> set (w_runs w) \<and> r_id r = k \<and> r_workspace_id r = ws"
  by (auto simp: GetRun_def db_read_def one_row_def find_Some_iff in_set_conv_nth
      split: option.splits)

section \<open>The commands of a client\<close>

datatype run_command =
    Cancel string
  | Kill string
  | Pause string bool
  | Resume string
  | Beat heartbeat_request
  | Look string

definition exec_command :: "env \<Rightarrow> request_ctx \<Rightarrow> run_command \<Rightarrow> world \<Rightarrow> world" where
  "exec_command e ctx c w = (case c of
     Cancel k \<Rightarrow> snd (Service_CancelRun e ctx k w)
   | Kill k \<Rightarrow> snd (Service_KillRun e ctx k w)
   | Pause p b \<Rightarrow> snd (Service_PauseProcess e ctx p b w)
   | Resume p \<Rightarrow> snd (Service_ResumeProcess e ctx p w)
   | Beat h \<Rightarrow> snd (Service_Heartbeat e (Some h) w)
   | Look k \<Rightarrow> (let _ = Service_GetRun e ctx k w in w))"

text \<open>
  The specification knows of a run its workspace, its process and its state.
\<close>

record run_view =
  rv_workspace :: string
  rv_process :: string
  rv_state :: run_state

definition view :: "run \<Rightarrow> run_view" where
  "view r = \<lparr>rv_workspace = r_workspace_id r, rv_process = r_process_id r, rv_state = r_state r\<rparr>"

definition abs_runs :: "world \<Rightarrow> string \<Rightarrow> run_view option" where
  "abs_runs w k = map_option view (run_at w k)"

definition after_cancel :: "run_state \<Rightarrow> run_state" where
  "after_cancel s =
     (if s \<in> {Pending, Queued, WaitingForWorker, Paused, Retrying} then Cancelled
      else if s = Running then KillRequested else s)"

definition change_own ::
  "string \<Rightarrow> string \<Rightarrow> (run_state \<Rightarrow> run_state) \<Rightarrow> (string \<Rightarrow> run_view option) \<Rightarrow> string \<Rightarrow> run_view option" where
  "change_own ws k f S = (\<lambda>x. map_option
     (\<lambda>v. if x = k \<and> rv_workspace v = ws then v\<lparr>rv_state := f (rv_state v)\<rparr> else v) (S x))"

definition change_process ::
  "string \<Rightarrow> string \<Rightarrow> run_state \<Rightarrow> run_state \<Rightarrow> (string \<Rightarrow> run_view option) \<Rightarrow> string \<Rightarrow> run_view option" where
  "change_process ws p from to S = (\<lambda>x. map_option
     (\<lambda>v. if rv_process v = p \<and> rv_workspace v = ws \<and> rv_state v = from then v\<lparr>rv_state := to\<rparr> else v)
     (S x))"

definition spec_command ::
  "string \<Rightarrow> run_command \<Rightarrow> (string \<Rightarrow> run_view option) \<Rightarrow> string \<Rightarrow> run_view option" where
  "spec_command ws c S = (case c of
     Cancel k \<Rightarrow> change_own ws k after_cancel S
   | Kill k \<Rightarrow> change_own ws k (\<lambda>_. KillRequested) S
   | Pause p b \<Rightarrow> change_process ws p Pending (if b then Cancelled else Paused) S
   | Resume p \<Rightarrow> change_process ws p Paused Pending S
   | Beat h \<Rightarrow> S
   | Look k \<Rightarrow> S)"

lemma set_run_state_owner [simp]:
  "r_workspace_id (set_run_state na r) = r_workspace_id r"
  "r_process_id (set_run_state na r) = r_process_id r"
  by (simp_all add: set_run_state_def Let_def split: prod.split)

lemma abs_same_runs: "w_runs w' = w_runs w \<Longrightarrow> abs_runs w' = abs_runs w"
  by (simp add: abs_runs_def[abs_def] run_at_def)

lemma abs_SetProcessEnabled [simp]: "abs_runs (snd (SetProcessEnabled e p ws b w)) = abs_runs w"
  by (rule abs_same_runs) (simp add: SetProcessEnabled_def db_exec_def split: option.split)

lemma abs_bulk_update:
  "e_fault e q = None \<Longrightarrow>
   abs_runs (snd (bulk_update q e p ws from to w)) = change_process ws p from to (abs_runs w)"
proof (rule ext)
  fix x assume "e_fault e q = None"
  then show "abs_runs (snd (bulk_update q e p ws from to w)) x =
      change_process ws p from to (abs_runs w) x"
    by (cases "run_at w x")
      (auto simp: abs_runs_def bulk_update_def Let_def run_at_update_where change_process_def view_def)
qed

lemma runs_ok_same_runs: "w_runs w' = w_runs w \<Longrightarrow> runs_ok w' = runs_ok w"
  by (simp add: runs_ok_def)

lemma runs_ok_bulk_update: "runs_ok w \<Longrightarrow> runs_ok (snd (bulk_update q e p ws from to w))"
  by (simp add: bulk_update_def Let_def runs_ok_def map_update_where run_slot_def split: option.split)

lemma Heartbeat_view:
  "abs_runs (snd (Service_Heartbeat e body w)) = abs_runs w"
  "runs_ok w \<Longrightarrow> runs_ok (snd (Service_Heartbeat e body w))"
proof -
  have "abs_runs (snd (UpdateRunProgress e k a b c d v)) x = abs_runs v x" for k a b c d v x
    by (cases "run_at v x")
      (auto simp: UpdateRunProgress_def db_exec_def abs_runs_def run_at_on_run view_def
        split: option.split)
  then have p: "abs_runs (snd (UpdateRunProgress e k a b c d v)) = abs_runs v"
    "runs_ok v \<Longrightarrow> runs_ok (snd (UpdateRunProgress e k a b c d v))" for k a b c d v
    by (auto simp: UpdateRunProgress_def db_exec_def keeps_slot_def run_slot_def
        intro!: runs_ok_on_run split: option.split)
  have "w_runs (snd (Service_Heartbeat e (Some q) w)) = w_runs (snd (UpdateRunProgress e (hr_run_id q)
      (hr_total q) (Some (hr_current q)) (Some (heartbeat_progress q)) (hr_message q) w))" for q
    by (simp add: Service_Heartbeat_def split_beta Let_def frame_simps)
  from abs_same_runs[OF this] runs_ok_same_runs[OF this]
  show "abs_runs (snd (Service_Heartbeat e body w)) = abs_runs w"
    "runs_ok w \<Longrightarrow> runs_ok (snd (Service_Heartbeat e body w))"
    using p by (cases body; simp add: Service_Heartbeat_def)+
qed

section \<open>The handlers implement the specification\<close>

lemma exec_refines:
  assumes "no_faults e" "runs_ok w"
  shows "abs_runs (exec_command e ctx c w) = spec_command (ctx_WorkspaceID ctx) c (abs_runs w) \<and>
    runs_ok (exec_command e ctx c w)"
proof -
  have f: "e_fault e q = None" for q using assms(1) by (simp add: no_faults_def)
  note g = GetRun_eq[OF assms(2) f]
  have own: "change_own ws k h (abs_runs w) = (\<lambda>x. if x = k then
      map_option (\<lambda>v. if rv_workspace v = ws then v\<lparr>rv_state := h (rv_state v)\<rparr> else v) (abs_runs w x)
      else abs_runs w x)" for ws k h
  proof (rule ext)
    fix x show "change_own ws k h (abs_runs w) x = (if x = k then
      map_option (\<lambda>v. if rv_workspace v = ws then v\<lparr>rv_state := h (rv_state v)\<rparr> else v) (abs_runs w x)
      else abs_runs w x)"
      by (cases "x = k"; cases "abs_runs w x") (simp_all add: change_own_def)
  qed
  show ?thesis
  proof (cases c)
    case (Cancel k)
    show ?thesis
      unfolding Cancel exec_command_def spec_command_def run_command.case own
      using assms(2)
      by (cases "run_at w k")
        (auto simp: Service_CancelRun_def g UpdateRunState_ok[OF f] run_at_on_run fun_eq_iff
          abs_runs_def view_def after_cancel_def run_upd_def intro: runs_ok_on_run)
  next
    case (Kill k)
    show ?thesis
      unfolding Kill exec_command_def spec_command_def run_command.case own
      using assms(2)
      by (cases "run_at w k")
        (auto simp: Service_KillRun_def g UpdateRunState_ok[OF f] run_at_on_run fun_eq_iff
          abs_runs_def view_def run_upd_def intro: runs_ok_on_run)
  next
    case (Pause p b)
    have "runs_ok (snd (SetProcessEnabled e p (ctx_WorkspaceID ctx) False w))"
      using assms(2) by (simp add: SetProcessEnabled_def db_exec_def f runs_ok_def)
    then show ?thesis
      unfolding Pause exec_command_def spec_command_def run_command.case
      by (simp add: Service_PauseProcess_def Let_def BulkCancelRuns_def BulkPauseRuns_def
          abs_bulk_update[OF f] runs_ok_bulk_update)
  next
    case (Resume p)
    have "runs_ok (snd (SetProcessEnabled e p (ctx_WorkspaceID ctx) True w))"
      using assms(2) by (simp add: SetProcessEnabled_def db_exec_def f runs_ok_def)
    then show ?thesis
      unfolding Resume exec_command_def spec_command_def run_command.case
      by (simp add: Service_ResumeProcess_def Let_def BulkResumeRuns_def
          abs_bulk_update[OF f] runs_ok_bulk_update)
  next
    case (Beat h)
    then show ?thesis using assms(2) by (simp add: exec_command_def spec_command_def Heartbeat_view)
  next
    case (Look k)
    then show ?thesis using assms(2) by (simp add: exec_command_def spec_command_def)
  qed
qed

text \<open>
  C2: the handlers of runs and processes refine the specification: on the view of the runs, any
  sequence of commands of a client has exactly the effect the specification gives it, which
  touches runs of the client's workspace only.
\<close>

theorem run_api_refines:
  assumes "no_faults e" "runs_ok w"
  shows "abs_runs (fold (exec_command e ctx) cs w) =
    fold (spec_command (ctx_WorkspaceID ctx)) cs (abs_runs w)"
  using assms(2)
  by (induction cs arbitrary: w) (simp_all add: exec_refines[OF assms(1)])

definition sample_actor :: "string \<Rightarrow> request_ctx" where
  "sample_actor ws = Some \<lparr>a_Type = ''user'', a_ID = ''usr_1'', a_WorkspaceID = ws,
     a_Role = ''operator'', a_IsPlatformAdmin = False\<rparr>"

theorem run_api_refines_witness:
  "map_option rv_state (abs_runs (fold (exec_command (calm 0) (sample_actor ''wsp_1''))
     [Pause ''prc_1'' False, Cancel ''run_1'', Kill ''run_2''] (sample_world [] [sample_run ''run_1'' Pending]))
     ''run_1'') = Some Cancelled"
proof -
  have ok: "runs_ok (sample_world [] [sample_run ''run_1'' Pending])"
    by (simp add: runs_ok_def sample_world_def)
  show ?thesis
    unfolding run_api_refines[OF no_faults_calm ok]
    by (simp add: spec_command_def change_own_def change_process_def after_cancel_def abs_runs_def
        view_def run_at_def sample_world_def sample_run_def new_run_def sample_params_def
        sample_actor_def ctx_WorkspaceID_def)
qed

text \<open>
  Resuming a process after pausing it gives every run its state back, when no run of the
  process was paused before.
\<close>

theorem pause_then_resume:
  assumes "no_faults e" "runs_ok w"
    "\<forall>r\<in>set (w_runs w). r_process_id r = p \<and> r_workspace_id r = ctx_WorkspaceID ctx \<longrightarrow> r_state r \<noteq> Paused"
  shows "abs_runs (snd (Service_ResumeProcess e ctx p (snd (Service_PauseProcess e ctx p False w)))) =
    abs_runs w"
proof -
  let ?w = "snd (Service_PauseProcess e ctx p False w)"
  have "abs_runs ?w = spec_command (ctx_WorkspaceID ctx) (Pause p False) (abs_runs w)" "runs_ok ?w"
    using exec_refines[OF assms(1,2), of ctx "Pause p False"] by (simp_all add: exec_command_def)
  moreover have "abs_runs (snd (Service_ResumeProcess e ctx p ?w)) =
      spec_command (ctx_WorkspaceID ctx) (Resume p) (abs_runs ?w)"
    using exec_refines[OF assms(1) \<open>runs_ok ?w\<close>, of ctx "Resume p"] by (simp add: exec_command_def)
  moreover have "rv_state v \<noteq> Paused"
    if v: "abs_runs w x = Some v" "rv_process v = p" "rv_workspace v = ctx_WorkspaceID ctx" for x v
  proof -
    obtain r where "run_at w x = Some r" "view r = v" using v(1) by (auto simp: abs_runs_def)
    then show ?thesis
      using assms(3) v(2,3) lookup_key_SomeD[of r_id x "w_runs w" r]
      by (auto simp: run_at_def view_def)
  qed
  ultimately show ?thesis
    by (auto simp: spec_command_def change_process_def option.map_comp comp_def fun_eq_iff
        split: option.split intro!: map_option_idI)
qed

theorem pause_then_resume_witness:
  "abs_runs (snd (Service_ResumeProcess (calm 0) (sample_actor ''wsp_1'') ''prc_1''
     (snd (Service_PauseProcess (calm 0) (sample_actor ''wsp_1'') ''prc_1'' False
        (sample_world [] [sample_run ''run_1'' Pending]))))) =
   abs_runs (sample_world [] [sample_run ''run_1'' Pending])"
  by (rule pause_then_resume)
    (simp_all add: runs_ok_def sample_world_def sample_run_def new_run_def)

text \<open>
  A kill request is accepted in every state: whatever the state of the run, also after it has
  ended, the handler answers 200 and the run is in \<open>kill_requested\<close>, from where it can end a second
  time; for an ended run this is not a transition of the table.
\<close>

theorem kill_revives_ended_runs:
  assumes "no_faults e" "runs_ok w" "run_at w k = Some r" "r_workspace_id r = ctx_WorkspaceID ctx"
  shows "fst (Service_KillRun e ctx k w) = Data 200 ''kill_requested'' \<and>
    state_at (snd (Service_KillRun e ctx k w)) k = Some KillRequested \<and>
    (IsTerminal (r_state r) \<longrightarrow> KillRequested \<notin> set (validTransitions (r_state r)))"
proof -
  have f: "e_fault e q = None" for q using assms(1) by (simp add: no_faults_def)
  have "IsTerminal (r_state r) \<longrightarrow> KillRequested \<notin> set (validTransitions (r_state r))"
    by (cases "r_state r") simp_all
  then show ?thesis
    using assms(3,4)
    by (simp add: Service_KillRun_def GetRun_eq[OF assms(2) f] UpdateRunState_ok[OF f] run_upd_def
        writeJSON_def state_at_def run_at_on_run)
qed

theorem kill_revives_ended_runs_witness:
  "state_at (snd (Service_KillRun (calm 0) (sample_actor ''wsp_1'') ''run_1''
     (sample_world [] [sample_run ''run_1'' Completed]))) ''run_1'' = Some KillRequested"
  using kill_revives_ended_runs[of "calm 0" "sample_world [] [sample_run ''run_1'' Completed]" "''run_1''"
      "sample_run ''run_1'' Completed" "sample_actor ''wsp_1''"]
  by (simp add: runs_ok_def sample_world_def run_at_def sample_run_def new_run_def sample_params_def
      sample_actor_def ctx_WorkspaceID_def)

text \<open>
  The output of a run cannot be read without naming a stream: the empty stream of the URL
  reaches the query as a stream name, and the reply holds nothing, whatever was written.
\<close>

theorem output_needs_a_stream:
  assumes "no_faults e" "runs_ok w" "run_at w k = Some r" "r_workspace_id r = ctx_WorkspaceID ctx"
    "\<forall>x\<in>set (w_run_output w). ro_stream x \<in> {''stdout'', ''stderr''}"
  shows "Service_GetRunOutput e ctx k [] w = Data 200 []"
proof -
  have f: "e_fault e q = None" for q using assms(1) by (simp add: no_faults_def)
  have "filter (\<lambda>x. ro_run_id x = k \<and> ro_stream x = []) (w_run_output w) = []"
    using assms(5) by (auto simp: filter_empty_conv)
  then show ?thesis
    using assms(3,4)
    by (simp add: Service_GetRunOutput_def GetRun_eq[OF assms(2) f] GetRunOutput_def db_read_def f
        writeJSON_def)
qed

theorem output_needs_a_stream_witness:
  "Service_GetRunOutput (calm 0) (sample_actor ''wsp_1'') ''run_1'' []
     ((sample_world [] [sample_run ''run_1'' Completed])\<lparr>w_run_output :=
        [\<lparr>ro_id = ''out_1'', ro_run_id = ''run_1'', ro_stream = ''stdout'', ro_content = ''hello'',
          ro_truncated = False, ro_created_at = 0\<rparr>]\<rparr>) = Data 200 []"
  by (rule output_needs_a_stream[where r = "sample_run ''run_1'' Completed"])
    (simp_all add: runs_ok_def sample_world_def run_at_def sample_run_def new_run_def
      sample_params_def sample_actor_def ctx_WorkspaceID_def)

section \<open>Progress\<close>

text \<open>
  The progress of a heartbeat is the rounded-down percentage, between 0 and 100, as long as
  the count stays below 21474837; beyond that the multiplication by 100 wraps around, and a
  complete run reports a negative progress.
\<close>

theorem heartbeat_progress_bounds:
  "(\<forall>c n. hr_total q = Some n \<and> hr_current q = c \<and> 0 \<le> c \<and> c \<le> n \<and> 0 < n \<and> c \<le> 21474836 \<longrightarrow>
      heartbeat_progress q = c * 100 div n \<and> 0 \<le> heartbeat_progress q \<and> heartbeat_progress q \<le> 100) \<and>
   (hr_total q = Some 21474837 \<and> hr_current q = 21474837 \<longrightarrow> heartbeat_progress q = -99)"
proof (intro conjI allI impI; elim conjE)
  fix c n assume a: "hr_total q = Some n" "hr_current q = c" "0 \<le> c" "c \<le> n" "0 < n" "c \<le> 21474836"
  have w: "wrap32 (c * 100) = c * 100" using a by (intro wrap32_id) (simp add: in_int32_def)
  have "c * 100 div n \<le> n * 100 div n" using a by (intro zdiv_mono1) simp_all
  then have b: "c * 100 div n \<le> 100" "0 \<le> c * 100 div n" using a by (simp_all add: pos_imp_zdiv_nonneg_iff)
  then have "wrap32 (c * 100 div n) = c * 100 div n" by (intro wrap32_id) (simp add: in_int32_def)
  then have p: "heartbeat_progress q = c * 100 div n"
    using a w by (simp add: heartbeat_progress_def go_div_nonneg)
  show "heartbeat_progress q = c * 100 div n" "0 \<le> heartbeat_progress q" "heartbeat_progress q \<le> 100"
    using p b by simp_all
qed (simp add: heartbeat_progress_def wrap32_def go_div_def)

theorem heartbeat_progress_bounds_witness:
  "heartbeat_progress \<lparr>hr_run_id = ''run_1'', hr_total = Some 21474837, hr_current = 21474837, hr_message = None\<rparr> = -99"
  using heartbeat_progress_bounds[of "\<lparr>hr_run_id = ''run_1'', hr_total = Some 21474837,
    hr_current = 21474837, hr_message = None\<rparr>"] by simp

end
