(* ===== verification/Job_Handlers.thy ===== *)
theory Job_Handlers
  imports Api
begin

text \<open>
  The handlers of queues and jobs, \<open>internal/handler/service.go\<close>, and the two queries on queues
  they need, \<open>internal/db/queues.sql.go\<close>.
\<close>

section \<open>Queries on queues\<close>

definition queue_violation :: "queue \<Rightarrow> world \<Rightarrow> go_error option" where
  "queue_violation a w = first_violation
     [(q_execution_method a \<notin> {''http'', ''ssh'', ''ssm'', ''k8s''},
       check_violation ''queues_execution_method_check''),
      (q_runtime a \<notin> {''direct'', ''worker''}, check_violation ''queues_runtime_check''),
      (\<exists>q\<in>set (w_queues w). q_id q \<noteq> q_id a \<and> q_workspace_id q = q_workspace_id a \<and>
         q_name q = q_name a, unique_violation ''queues_workspace_id_name_key''),
      (dangling sc_id (q_ssh_credential_id a) (w_ssh_credentials w),
       foreign_key_violation ''queues_ssh_credential_id_fkey''),
      (dangling sm_id (q_ssm_profile_id a) (w_ssm_profiles w),
       foreign_key_violation ''queues_ssm_profile_id_fkey''),
      (dangling kc_id (q_k8s_cluster_id a) (w_k8s_clusters w),
       foreign_key_violation ''queues_k8s_cluster_id_fkey''),
      (dangling wk_id (q_worker_id a) (w_workers w), foreign_key_violation ''queues_worker_id_fkey'')]"

definition CreateQueue :: "env \<Rightarrow> queue \<Rightarrow> world \<Rightarrow> queue answer \<times> world" where
  "CreateQueue e a w =
     (let row = a\<lparr>q_created_at := e_db_now e, q_updated_at := e_db_now e\<rparr>;
          bad = (if has_key q_id (q_id a) (w_queues w) then Some (unique_violation ''queues_pkey'')
                 else if \<not> has_key wsp_id (q_workspace_id a) (w_workspaces w)
                 then Some (foreign_key_violation ''queues_workspace_id_fkey'')
                 else queue_violation a w);
          (err, w') = db_exec e ''CreateQueue'' bad (\<lambda>w. w\<lparr>w_queues := w_queues w @ [row]\<rparr>) w
      in (case err of Some x \<Rightarrow> Inl x | None \<Rightarrow> Inr row, w'))"

definition set_queue_columns :: "instant \<times> queue \<Rightarrow> queue \<Rightarrow> queue" where
  "set_queue_columns na q = (let (now, a) = na in
     a\<lparr>q_id := q_id q, q_workspace_id := q_workspace_id q, q_created_at := q_created_at q,
       q_updated_at := now\<rparr>)"

definition UpdateQueue :: "env \<Rightarrow> queue \<Rightarrow> world \<Rightarrow> queue answer \<times> world" where
  "UpdateQueue e a w =
     (case List.find (\<lambda>q. q_id q = q_id a \<and> q_workspace_id q = q_workspace_id a) (w_queues w) of
        None \<Rightarrow> (db_read e ''UpdateQueue'' (Inl ErrNoRows), w)
      | Some q \<Rightarrow>
          (let row = set_queue_columns (e_db_now e, a) q;
               (err, w') = db_exec e ''UpdateQueue'' (queue_violation a w)
                 (\<lambda>w. w\<lparr>w_queues := update_key q_id (q_id a) (set_queue_columns (e_db_now e, a))
                    (w_queues w)\<rparr>) w
           in (case err of Some x \<Rightarrow> Inl x | None \<Rightarrow> Inr row, w')))"

interpretation queue_update: row_update q_id set_queue_columns
  by unfold_locales (simp add: set_queue_columns_def Let_def split: prod.split)

section \<open>Handlers of queues\<close>

definition requested_queue :: "(rat \<Rightarrow> int) \<Rightarrow> go_map \<Rightarrow> string \<Rightarrow> string \<Rightarrow> queue" where
  "requested_queue oor m qid wsID =
     \<lparr>q_id = qid, q_workspace_id = wsID, q_name = map_string m ''name'',
      q_execution_method = map_string m ''execution_method'',
      q_runtime = (let v = map_string m ''runtime'' in if v \<noteq> [] then v else ''direct''),
      q_method_config = (case map_of m ''method_config'' of
         None \<Rightarrow> JObj [] | Some JNull \<Rightarrow> JObj [] | Some j \<Rightarrow> j),
      q_concurrency = getInt32 oor m ''concurrency'' 1,
      q_max_attempts = getInt32 oor m ''max_attempts'' 3,
      q_retry_backoff = getStr m ''retry_backoff'' ''1m,5m,15m,1h'',
      q_job_timeout = \<lparr>iv_microseconds = 300 * 1000000, iv_days = 0, iv_months = 0\<rparr>,
      q_max_response_size = 5 * 1024 * 1024, q_ssh_credential_id = None, q_ssm_profile_id = None,
      q_k8s_cluster_id = None, q_worker_id = getNullableString m ''worker_id'' None,
      q_worker_labels = getJSONBytes m ''worker_labels'' None,
      q_tags = getStringArray m ''tags'' [], q_enabled = True, q_created_at = 0, q_updated_at = 0\<rparr>"

definition Service_CreateQueue ::
  "(rat \<Rightarrow> int) \<Rightarrow> env \<Rightarrow> request_ctx \<Rightarrow> json option \<Rightarrow> world \<Rightarrow> queue reply \<times> world" where
  "Service_CreateQueue oor e ctx body w =
     (case decode_map body of
        None \<Rightarrow> (writeError 400 ''VALIDATION_ERROR'' ''Invalid request body'' [], w)
      | Some m \<Rightarrow>
          if map_string m ''name'' = [] \<or> map_string m ''execution_method'' = [] then
            (writeError 400 ''VALIDATION_ERROR'' ''name and execution_method are required'' [], w)
          else
            let (qid, w1) = id_New e PrefixQueue w
            in case CreateQueue e (requested_queue oor m qid (ctx_WorkspaceID ctx)) w1 of
                 (Inl err, w2) \<Rightarrow>
                   (writeError 409 ''CONFLICT'' ''Queue could not be created'' (Error err), w2)
               | (Inr q, w2) \<Rightarrow> (writeJSON 201 q, w2))"

definition updated_queue :: "(rat \<Rightarrow> int) \<Rightarrow> go_map \<Rightarrow> queue \<Rightarrow> queue" where
  "updated_queue oor m q = q\<lparr>
     q_name := getStr m ''name'' (q_name q),
     q_execution_method := getStr m ''execution_method'' (q_execution_method q),
     q_runtime := getStr m ''runtime'' (q_runtime q),
     q_method_config := (case map_of m ''method_config'' of Some j \<Rightarrow> j | None \<Rightarrow> q_method_config q),
     q_concurrency := getInt32 oor m ''concurrency'' (q_concurrency q),
     q_max_attempts := getInt32 oor m ''max_attempts'' (q_max_attempts q),
     q_retry_backoff := getStr m ''retry_backoff'' (q_retry_backoff q),
     q_job_timeout := getInterval m ''job_timeout'' (q_job_timeout q),
     q_max_response_size := getInt32 oor m ''max_response_size'' (q_max_response_size q),
     q_ssh_credential_id := getNullableString m ''ssh_credential_id'' (q_ssh_credential_id q),
     q_ssm_profile_id := getNullableString m ''ssm_profile_id'' (q_ssm_profile_id q),
     q_k8s_cluster_id := getNullableString m ''k8s_cluster_id'' (q_k8s_cluster_id q),
     q_worker_id := getNullableString m ''worker_id'' (q_worker_id q),
     q_worker_labels := getJSONBytes m ''worker_labels'' (q_worker_labels q),
     q_tags := getStringArray m ''tags'' (q_tags q),
     q_enabled := getBool m ''enabled'' (q_enabled q)\<rparr>"

definition Service_UpdateQueue ::
  "(rat \<Rightarrow> int) \<Rightarrow> env \<Rightarrow> request_ctx \<Rightarrow> string \<Rightarrow> json option \<Rightarrow> world \<Rightarrow> queue reply \<times> world" where
  "Service_UpdateQueue oor e ctx queueID body w =
     (case GetQueue e queueID (ctx_WorkspaceID ctx) w of
        Inl _ \<Rightarrow> (writeError 404 ''NOT_FOUND'' ''Queue not found'' [], w)
      | Inr existing \<Rightarrow>
          (case decode_map body of
             None \<Rightarrow> (writeError 400 ''VALIDATION_ERROR'' ''Invalid request body'' [], w)
           | Some m \<Rightarrow>
               (case UpdateQueue e (updated_queue oor m existing) w of
                  (Inl err, w') \<Rightarrow> (writeError 500 ''INTERNAL_ERROR'' ''Failed to update queue'' (Error err), w')
                | (Inr q, w') \<Rightarrow> (writeJSON 200 q, w'))))"

definition Service_GetQueue :: "env \<Rightarrow> request_ctx \<Rightarrow> string \<Rightarrow> world \<Rightarrow> queue reply" where
  "Service_GetQueue e ctx queueID w =
     (case GetQueue e queueID (ctx_WorkspaceID ctx) w of
        Inl _ \<Rightarrow> writeError 404 ''NOT_FOUND'' ''Queue not found'' []
      | Inr q \<Rightarrow> writeJSON 200 q)"

section \<open>Handlers of jobs\<close>

text \<open>A job as it is asked for; an absent payload is \<open>null\<close>.\<close>

record enqueue_request =
  eq_queue_id :: string
  eq_payload :: json
  eq_priority :: int
  eq_reference :: "string option"
  eq_idempotency_key :: "string option"

definition enqueue_params :: "string \<Rightarrow> request_ctx \<Rightarrow> enqueue_request \<Rightarrow> create_job_params" where
  "enqueue_params jid ctx q =
     \<lparr>cj_id = jid, cj_workspace_id = ctx_WorkspaceID ctx, cj_queue_id = eq_queue_id q,
      cj_payload = Some (eq_payload q), cj_priority = eq_priority q, cj_max_attempts = None,
      cj_retry_backoff = None, cj_scheduled_at = None, cj_expires_at = None,
      cj_reference = eq_reference q, cj_idempotency_key = eq_idempotency_key q,
      cj_runtime_override = None, cj_worker_id_override = None, cj_worker_labels_override = None,
      cj_actor_type = Some (a_Type (actor_of ctx)), cj_actor_id = Some (a_ID (actor_of ctx)),
      cj_tags = []\<rparr>"

text \<open>The job that already has the key, \<open>err == nil && existing != ""\<close>.\<close>

definition existing_job :: "env \<Rightarrow> string \<Rightarrow> string option \<Rightarrow> world \<Rightarrow> string option" where
  "existing_job e wsID key w =
     (if key = None then None
      else case CheckIdempotencyKey e wsID key w of
             Inl _ \<Rightarrow> None
           | Inr existing \<Rightarrow> if existing = [] then None else Some existing)"

definition Service_EnqueueJob ::
  "env \<Rightarrow> request_ctx \<Rightarrow> enqueue_request option \<Rightarrow> world \<Rightarrow> job reply \<times> world" where
  "Service_EnqueueJob e ctx body w =
     (case body of
        None \<Rightarrow> (writeError 400 ''VALIDATION_ERROR'' ''Invalid request'' [], w)
      | Some q \<Rightarrow>
          (case existing_job e (ctx_WorkspaceID ctx) (eq_idempotency_key q) w of
             Some existing \<Rightarrow> (writeError 409 ''IDEMPOTENCY_CONFLICT''
               ''Job with this key already exists'' (''existing_job_id: '' @ existing), w)
           | None \<Rightarrow>
               let (jid, w1) = id_New e PrefixJob w
               in case CreateJob e (enqueue_params jid ctx q) w1 of
                    (Inl err, w2) \<Rightarrow>
                      (writeError 500 ''INTERNAL_ERROR'' ''Failed to enqueue job'' (Error err), w2)
                  | (Inr job, w2) \<Rightarrow> (writeJSON 201 job, w2)))"

text \<open>
  The loop over a batch inside its transaction: the reply that ends it early, or the jobs it
  made. After a statement that failed, PostgreSQL refuses the following ones.
\<close>

definition batch_check :: "env \<Rightarrow> request_ctx \<Rightarrow> enqueue_request \<Rightarrow> world \<Rightarrow> go_error option" where
  "batch_check e ctx q w =
     (if eq_idempotency_key q = None then None
      else case CheckIdempotencyKey e (ctx_WorkspaceID ctx) (eq_idempotency_key q) w of
             Inl ErrNoRows \<Rightarrow> None | Inl err \<Rightarrow> Some err | Inr _ \<Rightarrow> None)"

fun batch_loop ::
  "env \<Rightarrow> request_ctx \<Rightarrow> int \<Rightarrow> enqueue_request list \<Rightarrow> job list \<Rightarrow> world
   \<Rightarrow> (job list reply + job list) \<times> world" where
  "batch_loop e ctx i [] created w = (Inr created, w)"
| "batch_loop e ctx i (q # jobs) created w =
     (case existing_job e (ctx_WorkspaceID ctx) (eq_idempotency_key q) w of
        Some existing \<Rightarrow>
          (Inl (writeError 409 ''IDEMPOTENCY_CONFLICT''
             (''Job at index '' @ Itoa i @ '' has duplicate idempotency key'')
             (''existing_job_id: '' @ existing)), w)
      | None \<Rightarrow>
          let (jid, w1) = id_New e PrefixJob w
          in case (case batch_check e ctx q w of
                     Some _ \<Rightarrow> (Inl (PgError ''25P02'' ''current transaction is aborted''), w1)
                   | None \<Rightarrow> CreateJob e (enqueue_params jid ctx q) w1) of
               (Inl err, w2) \<Rightarrow>
                 (Inl (writeError 400 ''VALIDATION_ERROR''
                    (''Job at index '' @ Itoa i @ '' failed: '' @ Error err) []), w2)
             | (Inr job, w2) \<Rightarrow> batch_loop e ctx (i + 1) jobs (created @ [job]) w2)"

text \<open>\<open>tx.Rollback\<close>: the rows as they were; the ids that were drawn are gone.\<close>

definition rollback :: "world \<Rightarrow> world \<Rightarrow> world" where
  "rollback w w' = w\<lparr>w_ids := w_ids w'\<rparr>"

definition Service_BatchEnqueueJobs ::
  "env \<Rightarrow> request_ctx \<Rightarrow> enqueue_request list option \<Rightarrow> world \<Rightarrow> job list reply \<times> world" where
  "Service_BatchEnqueueJobs e ctx body w =
     (case body of
        None \<Rightarrow> (writeError 400 ''VALIDATION_ERROR'' ''jobs array is required'' [], w)
      | Some jobs \<Rightarrow>
          if length jobs = 0 then (writeError 400 ''VALIDATION_ERROR'' ''jobs array is required'' [], w)
          else if e_fault e ''Begin'' \<noteq> None then
            (writeError 500 ''INTERNAL_ERROR'' ''Failed to start transaction'' [], w)
          else
            case batch_loop e ctx 0 jobs [] w of
              (Inl failure, w') \<Rightarrow> (failure, rollback w w')
            | (Inr created, w') \<Rightarrow>
                if e_fault e ''Commit'' \<noteq> None then
                  (writeError 500 ''INTERNAL_ERROR'' ''Failed to commit batch'' [], rollback w w')
                else (writeJSON 201 created, w'))"

definition Service_ListJobs ::
  "env \<Rightarrow> request_ctx \<Rightarrow> string \<Rightarrow> string \<Rightarrow> string \<Rightarrow> world \<Rightarrow> (job \<times> string) list reply" where
  "Service_ListJobs e ctx queueID state reference w =
     (case ListJobs e (ctx_WorkspaceID ctx) queueID state reference 50 0 w of
        Inl _ \<Rightarrow> writeError 500 ''INTERNAL_ERROR'' ''Failed to list jobs'' []
      | Inr jobs \<Rightarrow> writeJSON 200 jobs)"

definition Service_GetJob ::
  "env \<Rightarrow> request_ctx \<Rightarrow> string \<Rightarrow> world \<Rightarrow> (job \<times> job_attempt list) reply" where
  "Service_GetJob e ctx jobID w =
     (case GetJob e jobID (ctx_WorkspaceID ctx) w of
        Inl _ \<Rightarrow> writeError 404 ''NOT_FOUND'' ''Job not found'' []
      | Inr job \<Rightarrow>
          writeJSON 200 (job,
            case ListJobAttemptsByJob e jobID w of Inl _ \<Rightarrow> [] | Inr attempts \<Rightarrow> attempts))"

definition Service_CancelJob ::
  "env \<Rightarrow> request_ctx \<Rightarrow> string \<Rightarrow> world \<Rightarrow> string reply \<times> world" where
  "Service_CancelJob e ctx jobID w =
     (case GetJob e jobID (ctx_WorkspaceID ctx) w of
        Inl _ \<Rightarrow> (writeError 404 ''NOT_FOUND'' ''Job not found'' [], w)
      | Inr job \<Rightarrow>
          if j_state job \<in> {JobPending, JobWaitingForWorker, JobRetrying} then
            (writeJSON 200 ''cancelled'', snd (db_CancelJob e jobID (Some ''manual'') w))
          else if j_state job = JobRunning then
            (writeJSON 200 ''kill_requested'',
             snd (UpdateJobState e ((job_upd jobID JobKillRequested)
               \<lparr>uj_cancel_reason := Some ''manual''\<rparr>) w))
          else (writeJSON 200 (job_state_name (j_state job)), w))"

text \<open>The overrides as the decoder left them; its error is dropped.\<close>

definition Service_ReplayJob ::
  "env \<Rightarrow> request_ctx \<Rightarrow> string \<Rightarrow> json option \<times> int option \<Rightarrow> world \<Rightarrow> job reply \<times> world" where
  "Service_ReplayJob e ctx jobID overrides w =
     (let actor = actor_of ctx;
          (payload, prio) = overrides;
          priority = (case prio of Some n \<Rightarrow> n | None \<Rightarrow> 0);
          (jid, w1) = id_New e PrefixJob w
      in case CreateReplayJob e jobID jid (Some (a_Type actor)) (Some (a_ID actor)) payload
                (Some priority) w1 of
           (Inl err, w2) \<Rightarrow>
             (writeError 500 ''INTERNAL_ERROR'' ''Failed to replay job'' (Error err), w2)
         | (Inr job, w2) \<Rightarrow> (writeJSON 201 job, w2))"

end
