(* ===== verification/Api_Properties.thy ===== *)
theory Api_Properties
  imports Job_Handlers Worker_Handlers Run_Api_Properties Queue_Properties Worker_Properties
    Security_Properties
begin

text \<open>
  What the handlers of jobs, queues, processes and workers do: which requests can succeed, what
  they write, and whom they let act on what.
\<close>

section \<open>Jobs\<close>

lemma CreateJob_without_schedule:
  "cj_scheduled_at a = None \<Longrightarrow> \<exists>err. CreateJob e a w = (Inl err, w)"
  by (auto simp: CreateJob_def db_exec_def create_job_violation_def split: option.split)

lemma enqueue_create: "\<exists>err. CreateJob e (enqueue_params jid ctx q) w = (Inl err, w)"
  by (rule CreateJob_without_schedule) (simp add: enqueue_params_def)

lemma batch_loop_fails:
  assumes "jobs \<noteq> []"
  shows "\<exists>status code msg hint w'. batch_loop e ctx i jobs created w =
    (Inl (Failure status code msg hint), w') \<and> 400 \<le> status"
proof -
  obtain q js where jobs: "jobs = q # js" using assms by (cases jobs) auto
  obtain err where err: "CreateJob e (enqueue_params (fst (id_New e PrefixJob w)) ctx q)
      (snd (id_New e PrefixJob w)) = (Inl err, snd (id_New e PrefixJob w))"
    using enqueue_create by blast
  show ?thesis
    unfolding jobs
    by (cases "existing_job e (ctx_WorkspaceID ctx) (eq_idempotency_key q) w";
        cases "batch_check e ctx q w")
      (simp_all add: writeError_def split_beta Let_def err)
qed

text \<open>
  No job can be enqueued: neither of the two handlers fills in the time of the job, whose
  column does not admit that, so every request gets an error and the table of jobs stays as it is.
\<close>

theorem enqueue_always_fails:
  "400 \<le> reply_status (fst (Service_EnqueueJob e ctx body w)) \<and>
   w_jobs (snd (Service_EnqueueJob e ctx body w)) = w_jobs w \<and>
   400 \<le> reply_status (fst (Service_BatchEnqueueJobs e ctx jobs w)) \<and>
   w_jobs (snd (Service_BatchEnqueueJobs e ctx jobs w)) = w_jobs w"
proof (intro conjI)
  have one: "400 \<le> reply_status (fst (Service_EnqueueJob e ctx body w)) \<and>
      w_jobs (snd (Service_EnqueueJob e ctx body w)) = w_jobs w"
  proof (cases body)
    case (Some q)
    obtain err where err: "CreateJob e (enqueue_params (fst (id_New e PrefixJob w)) ctx q)
        (snd (id_New e PrefixJob w)) = (Inl err, snd (id_New e PrefixJob w))"
      using enqueue_create by blast
    then show ?thesis
      unfolding Some
      by (cases "existing_job e (ctx_WorkspaceID ctx) (eq_idempotency_key q) w")
        (simp_all add: Service_EnqueueJob_def writeError_def split_beta Let_def err frame_simps)
  qed (simp add: Service_EnqueueJob_def writeError_def)
  then show "400 \<le> reply_status (fst (Service_EnqueueJob e ctx body w))"
    "w_jobs (snd (Service_EnqueueJob e ctx body w)) = w_jobs w" by simp_all
  have batch: "400 \<le> reply_status (fst (Service_BatchEnqueueJobs e ctx jobs w)) \<and>
      w_jobs (snd (Service_BatchEnqueueJobs e ctx jobs w)) = w_jobs w"
  proof (cases jobs)
    case (Some js)
    show ?thesis
    proof (cases "js = []")
      case False
      then obtain st code msg hint w' where "batch_loop e ctx 0 js [] w =
          (Inl (Failure st code msg hint), w')" "400 \<le> st"
        using batch_loop_fails by blast
      then show ?thesis
        by (simp add: Some Service_BatchEnqueueJobs_def writeError_def rollback_def)
    qed (simp add: Some Service_BatchEnqueueJobs_def writeError_def)
  qed (simp add: Service_BatchEnqueueJobs_def writeError_def)
  then show "400 \<le> reply_status (fst (Service_BatchEnqueueJobs e ctx jobs w))"
    "w_jobs (snd (Service_BatchEnqueueJobs e ctx jobs w)) = w_jobs w" by simp_all
qed

text \<open>
  A job is replayed for whoever names it: the handler does not ask whose job it is nor whether
  it has ended, and the new job, in the workspace of the old one, starts with priority 0 unless the
  request gives one.
\<close>

theorem replay_ignores_workspaces:
  assumes "no_faults e" "job_at w k = Some j" "a_Type (actor_of ctx) \<in> set actor_types"
    "\<not> has_key j_id (''job_'' @ e_ulid e (w_ids w)) (w_jobs w)"
  shows "\<exists>j'. fst (Service_ReplayJob e ctx k (None, None) w) = Data 201 j' \<and>
     w_jobs (snd (Service_ReplayJob e ctx k (None, None) w)) = w_jobs w @ [j'] \<and>
     j_workspace_id j' = j_workspace_id j \<and> j_payload j' = j_payload j \<and> j_priority j' = 0 \<and>
     j_state j' = JobPending"
proof -
  let ?row = "replay_job e (''job_'' @ e_ulid e (w_ids w)) (Some (a_Type (actor_of ctx)))
     (Some (a_ID (actor_of ctx))) None (Some 0) j"
  have f: "e_fault e q = None" for q using assms(1) by (simp add: no_faults_def)
  have l: "lookup_key j_id k (w_jobs w) = Some j" using assms(2) by (simp add: job_at_def)
  let ?w1 = "w\<lparr>w_ids := Suc (w_ids w)\<rparr>"
  have n: "id_New e PrefixJob w = (''job_'' @ e_ulid e (w_ids w), ?w1)"
    by (simp add: id_New_def PrefixJob_def)
  have j: "w_jobs ?w1 = w_jobs w" by simp
  have v: "first_violation [(\<not> one_of actor_types (Some (a_Type (actor_of ctx))),
       check_violation ''jobs_actor_type_check''),
      (has_key j_id (''job_'' @ e_ulid e (w_ids w)) (w_jobs w), unique_violation ''jobs_pkey'')] = None"
    unfolding first_violation_None_iff using assms(3,4) by (simp add: one_of_def)
  have "CreateReplayJob e k (''job_'' @ e_ulid e (w_ids w)) (Some (a_Type (actor_of ctx)))
      (Some (a_ID (actor_of ctx))) None (Some 0) ?w1 =
      (Inr ?row, ?w1\<lparr>w_jobs := w_jobs w @ [?row]\<rparr>)"
    unfolding CreateReplayJob_def db_exec_def f by (simp only: j l v option.case Let_def split)
  then have "Service_ReplayJob e ctx k (None, None) w =
      (Data 201 ?row, ?w1\<lparr>w_jobs := w_jobs w @ [?row]\<rparr>)"
    by (simp only: Service_ReplayJob_def n Let_def split option.case sum.case writeJSON_def)
  then show ?thesis by (simp add: replay_job_def)
qed

lemma in_on_job: "i \<in> set (w_jobs (on_job k f w)) \<Longrightarrow> \<exists>i0. i = (if j_id i0 = k then f i0 else i0)"
  by (auto simp: on_job_def update_key_def set_update_where)

lemma control_commands_free:
  assumes "\<And>i. i \<in> set (w_jobs w) \<Longrightarrow> j_id i = k \<Longrightarrow> j_worker_id i = None"
    and "\<And>r. r \<in> set (w_runs w) \<Longrightarrow> r_id r \<noteq> k"
  shows "k \<notin> set (control_commands wrk active w)"
  using assms by (force simp: control_commands_def)

text \<open>
  A stop request for a job that runs on a worker never reaches that worker: the handler's
  update also takes the worker out of the row, and a worker is only told of rows that name it.
\<close>

theorem cancel_loses_the_worker:
  assumes "no_faults e" "GetJob e k (ctx_WorkspaceID ctx) w = Inr j" "j_state j = JobRunning"
    "\<not> has_key r_id k (w_runs w)"
  shows "job_state_at (snd (Service_CancelJob e ctx k w)) k = Some JobKillRequested \<and>
    k \<notin> set (control_commands wrk active (snd (Service_CancelJob e ctx k w)))"
proof -
  have f: "e_fault e q = None" for q using assms(1) by (simp add: no_faults_def)
  let ?a = "(job_upd k JobKillRequested)\<lparr>uj_cancel_reason := Some ''manual''\<rparr>"
  have w': "snd (Service_CancelJob e ctx k w) = on_job k (set_job_state (e_db_now e, ?a)) w"
    using assms(2,3) by (simp add: Service_CancelJob_def UpdateJobState_ok[OF f])
  have j: "j \<in> set (w_jobs w)" "j_id j = k"
    using assms(2)
    by (auto simp: GetJob_def db_read_def one_row_def find_Some_iff in_set_conv_nth
        split: option.splits)
  then obtain j0 where "job_at w k = Some j0"
    by (cases "job_at w k") (auto simp: job_at_def lookup_key_None_iff)
  then have "job_state_at (snd (Service_CancelJob e ctx k w)) k = Some JobKillRequested"
    by (simp add: w' job_state_at_def job_at_on_job)
  moreover have "k \<notin> set (control_commands wrk active (on_job k (set_job_state (e_db_now e, ?a)) w))"
  proof -
    have "j_worker_id i = None" if "i \<in> set (w_jobs (on_job k (set_job_state (e_db_now e, ?a)) w))"
      "j_id i = k" for i
    proof -
      from in_on_job[OF that(1)]
      obtain i0 where "i = (if j_id i0 = k then set_job_state (e_db_now e, ?a) i0 else i0)" by blast
      moreover from this have "j_id i0 = k" using that(2) by (cases "j_id i0 = k") simp_all
      ultimately show ?thesis by (simp add: set_job_state_def)
    qed
    moreover have "r_id r \<noteq> k" if "r \<in> set (w_runs (on_job k (set_job_state (e_db_now e, ?a)) w))" for r
      using that assms(4) by (simp add: on_job_def has_key_def)
    ultimately show ?thesis by (rule control_commands_free)
  qed
  ultimately show ?thesis by (simp add: w')
qed

section \<open>Workers\<close>

lemma TrimSpace_id:
  assumes "\<forall>c\<in>set s. \<not> is_space c"
  shows "TrimSpace s = s"
proof -
  have "dropWhile is_space t = t" if "\<forall>c\<in>set t. \<not> is_space c" for t
    using that by (cases t) auto
  from this[of s] this[of "rev s"] show ?thesis using assms by (simp add: TrimSpace_def)
qed

text \<open>
  A worker that polls runs whatever it finds in its channel: the run becomes \<open>running\<close> and the
  worker's own, whatever its state, also when it has been cancelled or has ended since it was put
  there.
\<close>

theorem poll_starts_in_any_state:
  assumes "no_faults e" "authenticateWorkerRequest hash e authz w = Inr wrk"
    "channel (wk_id wrk) w = t # ts" "t_type t = ''run''" "run_at w (t_id t) = Some r"
  shows "fst (Service_WorkerPoll hash e authz w) = Data 200 t \<and>
    (\<exists>r'. run_at (snd (Service_WorkerPoll hash e authz w)) (t_id t) = Some r' \<and>
       r_state r' = Running \<and> r_worker_id r' = Some (wk_id wrk))"
proof -
  have f: "e_fault e q = None" for q using assms(1) by (simp add: no_faults_def)
  define v where "v = snd (PollTask (wk_id wrk) w)"
  let ?a = "(run_upd (t_id t) Running)\<lparr>us_started_at := Some (e_now e), us_worker_id := Some (wk_id wrk)\<rparr>"
  have same: "w_workers v = w_workers w" "w_runs v = w_runs w"
    by (simp_all add: v_def PollTask_def getOrCreateChannel_def Let_def split: list.split)
  have p: "PollTask (wk_id wrk) w = (Some t, v)"
    using PollTask_eq(1)[of "wk_id wrk" w] assms(3) by (simp add: v_def prod_eq_iff)
  have "wrk \<in> set (w_workers v)"
    using authenticateWorkerRequest_SomeD[OF assms(2)] by (simp add: same)
  then have "\<not> dangling wk_id (us_worker_id ?a) (w_workers v)"
    by (auto simp: dangling_def has_key_def)
  then have "UpdateRunState e ?a v = (None, on_run (t_id t) (set_run_state (e_db_now e, ?a)) v)"
    by (simp add: UpdateRunState_def db_exec_def f run_upd_def)
  then have "Service_WorkerPoll hash e authz w =
      (Data 200 t, on_run (t_id t) (set_run_state (e_db_now e, ?a)) v)"
    using assms(2,4) p by (simp add: Service_WorkerPoll_def start_worker_run_def writeJSON_def)
  moreover have "run_at v (t_id t) = Some r" using assms(5) by (simp add: run_at_def same)
  ultimately show ?thesis by (simp add: run_at_on_run set_run_state_def run_upd_def)
qed

text \<open>
  Any worker can conclude any task: the effect of a result does not depend on which worker
  sends it, of whatever workspace, nor on the task having been given to it.
\<close>

theorem result_from_any_worker:
  assumes "authenticateWorkerRequest hash e authz w = Inr wrk"
    "authenticateWorkerRequest hash e authz' w = Inr wrk'"
  shows "Service_WorkerResult hash e authz body w = Service_WorkerResult hash e authz' body w"
  using assms by (simp add: Service_WorkerResult_def)

text \<open>
  C19: the credential an enrolment hands out authenticates the worker it was handed to, as long as
  that worker is enabled.
\<close>

theorem enrolled_credential_authenticates:
  assumes "Service_EnrollWorker hash rnd e (Some token) w = (Data 200 (wid, cred), w')"
    "no_faults e'" "distinct (map wk_id (w_workers w))"
    "\<forall>x\<in>set (w_workers w). wk_id x = wid \<longrightarrow> wk_enabled x"
    "list_all (\<lambda>c. \<not> is_space c) rnd"
  shows "\<exists>x. authenticateWorkerRequest hash e' (bearer @ cred) w' = Inr x \<and> wk_id x = wid"
proof -
  obtain x where g: "GetWorkerByEnrollmentToken e (Some (hash token)) w = Inr x"
    using assms(1) by (auto simp: Service_EnrollWorker_def writeError_def split: sum.splits if_splits)
  define f :: "worker \<Rightarrow> worker" where "f = (\<lambda>x. x\<lparr>wk_credential_hash := hash cred, wk_enrollment_token_hash := None,
     wk_enrollment_token_expires_at := None, wk_updated_at := e_db_now e\<rparr>)"
  have cred: "cred = ''wrk_cred_'' @ generateRawAPIKey rnd" and wid: "wid = wk_id x"
    and w': "w' = on_worker wid f w"
    and unique: "\<not> (\<exists>y\<in>set (w_workers w). wk_id y \<noteq> wid \<and> wk_credential_hash y = hash cred)"
    using assms(1) g GetWorkerByEnrollmentToken_SomeD[OF g]
    by (auto simp: Service_EnrollWorker_def writeError_def writeJSON_def f_def has_key_def
        UpdateWorkerCredentialHash_def db_exec_def Let_def split: if_splits option.splits prod.splits)
  have x: "x \<in> set (w_workers w)" using GetWorkerByEnrollmentToken_SomeD[OF g] by simp
  have trim: "TrimSpace cred = cred" "cred \<noteq> []"
    using assms(5) unfolding cred generateRawAPIKey_def
    by (auto intro!: TrimSpace_id simp: list_all_iff is_space_def)
  let ?P = "\<lambda>y. wk_credential_hash y = hash cred \<and> wk_enabled y"
  have rows: "w_workers w' = map (\<lambda>y. if wk_id y = wid then f y else y) (w_workers w)"
    by (simp add: w' on_worker_def update_key_def update_where_def)
  have "\<exists>y\<in>set (w_workers w'). ?P y"
    using x assms(4) by (intro bexI[of _ "f x"]) (auto simp: rows wid f_def intro!: image_eqI)
  then obtain y where y: "List.find ?P (w_workers w') = Some y"
    by (cases "List.find ?P (w_workers w')") (auto simp: find_None_iff)
  then have "y \<in> set (w_workers w')" "?P y" by (auto simp: find_Some_iff)
  then have "wk_id y = wid" using unique by (auto simp: rows f_def split: if_splits)
  moreover have "HasPrefix (bearer @ cred) bearer" unfolding HasPrefix_iff by blast
  ultimately show ?thesis
    using assms(2) trim y
    by (simp add: authenticateWorkerRequest_def db_read_def no_faults_def one_row_def)
qed

section \<open>Instances\<close>

lemma sample_authenticated:
  assumes "List.find (\<lambda>x. wk_credential_hash x = [c] \<and> wk_enabled x) (w_workers w) = Some x"
    "\<not> is_space c"
  shows "authenticateWorkerRequest (\<lambda>s. s) (calm 5) (bearer @ [c]) w = Inr x"
proof -
  have "HasPrefix (bearer @ [c]) bearer" unfolding HasPrefix_iff by blast
  then show ?thesis
    using assms by (simp add: authenticateWorkerRequest_def db_read_def one_row_def TrimSpace_def)
qed

theorem replay_ignores_workspaces_witness:
  "\<exists>j'. fst (Service_ReplayJob (calm 0) (sample_actor ''wsp_2'') ''k1'' (None, None)
     (job_world [sample_job ''k1'' 7 JobRunning])) = Data 201 j' \<and>
   j_workspace_id j' = ''wsp_1'' \<and> j_priority j' = 0"
proof -
  let ?w = "job_world [sample_job ''k1'' 7 JobRunning]"
  have a: "a_Type (actor_of (sample_actor ''wsp_2'')) \<in> set actor_types"
    by (simp add: actor_of_def sample_actor_def actor_types_def GetActor_def)
  have n: "\<not> has_key j_id (''job_'' @ e_ulid (calm 0) (w_ids ?w)) (w_jobs ?w)"
    by (simp add: has_key_def sample_jobs)
  have j: "job_at ?w ''k1'' = Some (sample_job ''k1'' 7 JobRunning)" by simp
  from replay_ignores_workspaces[OF no_faults_calm j a n]
  show ?thesis by (auto simp: sample_job_def new_job_def)
qed

theorem cancel_loses_the_worker_witness:
  "''job_1'' \<notin> set (control_commands sample_worker [''job_1'']
     (snd (Service_CancelJob (calm 0) (sample_actor ''wsp_1'') ''job_1''
        ((job_world [(sample_job ''job_1'' 0 JobRunning)\<lparr>j_worker_id := Some ''wrk_1''\<rparr>])
           \<lparr>w_workers := [sample_worker]\<rparr>))))"
  by (rule conjunct2[OF cancel_loses_the_worker[OF no_faults_calm,
        where j = "(sample_job ''job_1'' 0 JobRunning)\<lparr>j_worker_id := Some ''wrk_1''\<rparr>"]])
    (simp_all add: GetJob_def db_read_def one_row_def ctx_WorkspaceID_def sample_actor_def
      job_samples has_key_def)

theorem poll_starts_in_any_state_witness:
  "\<exists>r'. run_at (snd (Service_WorkerPoll (\<lambda>s. s) (calm 5) (bearer @ ''h'')
     ((worker_world [sample_run ''run_1'' Cancelled])
        \<lparr>w_task_queues := [''wrk_1'' \<mapsto> [sample_task ''run_1'']]\<rparr>))) ''run_1'' = Some r' \<and>
   r_state r' = Running"
proof -
  let ?w = "(worker_world [sample_run ''run_1'' Cancelled])
    \<lparr>w_task_queues := [''wrk_1'' \<mapsto> [sample_task ''run_1'']]\<rparr>"
  have a: "authenticateWorkerRequest (\<lambda>s. s) (calm 5) (bearer @ ''h'') ?w = Inr sample_worker"
    by (rule sample_authenticated) (simp_all add: sample_worker_def is_space_def)
  have c: "channel (wk_id sample_worker) ?w = [sample_task ''run_1'']" by (simp add: channel_def)
  have t: "t_type (sample_task ''run_1'') = ''run''" "t_id (sample_task ''run_1'') = ''run_1''"
    by (simp_all add: sample_task_def)
  have r: "run_at ?w (t_id (sample_task ''run_1'')) = Some (sample_run ''run_1'' Cancelled)"
    by (simp add: t run_at_def sample_run_def new_run_def sample_params_def)
  from poll_starts_in_any_state[OF no_faults_calm a c t(1) r] show ?thesis by (auto simp: t)
qed

theorem result_from_any_worker_witness:
  "Service_WorkerResult (\<lambda>s. s) (calm 5) (bearer @ ''h'') (Some (sample_task_result ''run_1'' 0))
     ((worker_world [sample_run ''run_1'' Running])\<lparr>w_workers := [sample_worker, sample_worker
        \<lparr>wk_id := ''wrk_2'', wk_workspace_id := ''wsp_2'', wk_credential_hash := ''i''\<rparr>]\<rparr>) =
   Service_WorkerResult (\<lambda>s. s) (calm 5) (bearer @ ''i'') (Some (sample_task_result ''run_1'' 0))
     ((worker_world [sample_run ''run_1'' Running])\<lparr>w_workers := [sample_worker, sample_worker
        \<lparr>wk_id := ''wrk_2'', wk_workspace_id := ''wsp_2'', wk_credential_hash := ''i''\<rparr>]\<rparr>)"
  by (rule result_from_any_worker; rule sample_authenticated)
    (simp_all add: sample_worker_def is_space_def)

theorem enrolled_credential_authenticates_witness:
  "\<exists>x. authenticateWorkerRequest (\<lambda>s. CHR ''#'' # s) (calm 7) (bearer @ ''wrk_cred_cc_live_x'')
     (snd (Service_EnrollWorker (\<lambda>s. CHR ''#'' # s) ''x'' (calm 0) (Some ''tok'')
        (empty_world\<lparr>w_workers := [new_sample_worker]\<rparr>))) = Inr x \<and> wk_id x = ''wrk_1''"
proof -
  let ?w = "empty_world\<lparr>w_workers := [new_sample_worker]\<rparr>"
  have "Service_EnrollWorker (\<lambda>s. CHR ''#'' # s) ''x'' (calm 0) (Some ''tok'') ?w =
      (Data 200 (''wrk_1'', ''wrk_cred_cc_live_x''),
       snd (Service_EnrollWorker (\<lambda>s. CHR ''#'' # s) ''x'' (calm 0) (Some ''tok'') ?w))"
    by (simp add: Service_EnrollWorker_def GetWorkerByEnrollmentToken_def db_read_def one_row_def
        new_sample_worker_def new_worker_def UpdateWorkerCredentialHash_def db_exec_def Let_def
        generateRawAPIKey_def writeJSON_def)
  from enrolled_credential_authenticates[OF this no_faults_calm]
  show ?thesis by (simp add: new_sample_worker_def new_worker_def is_space_def)
qed

end
