(* ===== verification/Account_Queries.thy ===== *)
theory Account_Queries
  imports Access Process_Queries
begin

text \<open>
  The queries on users, memberships, API keys and tokens: \<open>internal/db/users.sql.go\<close>,
  \<open>memberships.sql.go\<close>, \<open>api_keys.sql.go\<close>, \<open>user_tokens.sql.go\<close> and \<open>admin.sql.go\<close>, with the
  constraints of the tables. Rows created at the same instant are listed in the order of the table,
  which PostgreSQL does not promise.
\<close>

text \<open>\<open>RETURNING\<close>: the row of a statement that went through.\<close>

definition returning :: "'r \<Rightarrow> go_error option \<times> world \<Rightarrow> 'r answer \<times> world" where
  "returning row ew = (case ew of (Some err, w) \<Rightarrow> (Inl err, w) | (None, w) \<Rightarrow> (Inr row, w))"

definition roles :: "string list" where
  "roles = [''admin'', ''operator'', ''viewer'']"

section \<open>Users\<close>

record create_user_params =
  cu_id :: string
  cu_email :: string
  cu_name :: string
  cu_auth_provider :: string
  cu_password_hash :: "string option"
  cu_email_verified :: bool
  cu_active_workspace_id :: "string option"

definition new_user :: "env \<Rightarrow> create_user_params \<Rightarrow> user" where
  "new_user e a =
     \<lparr>u_id = cu_id a, u_email = cu_email a, u_name = cu_name a,
      u_auth_provider = cu_auth_provider a, u_password_hash = cu_password_hash a,
      u_email_verified = cu_email_verified a, u_active_workspace_id = cu_active_workspace_id a,
      u_last_login_at = None, u_created_at = e_db_now e, u_updated_at = e_db_now e,
      u_is_platform_admin = False\<rparr>"

definition CreateUser :: "env \<Rightarrow> create_user_params \<Rightarrow> world \<Rightarrow> user answer \<times> world" where
  "CreateUser e a w = returning (new_user e a) (db_exec e ''CreateUser''
     (first_violation
        [(cu_auth_provider a \<notin> {''google'', ''email''}, check_violation ''users_auth_provider_check''),
         (has_key u_id (cu_id a) (w_users w), unique_violation ''users_pkey''),
         (has_key u_email (cu_email a) (w_users w), unique_violation ''users_email_key''),
         (dangling wsp_id (cu_active_workspace_id a) (w_workspaces w),
          foreign_key_violation ''users_active_workspace_id_fkey'')])
     (\<lambda>w. w\<lparr>w_users := w_users w @ [new_user e a]\<rparr>) w)"

definition GetUserByEmail :: "env \<Rightarrow> string \<Rightarrow> world \<Rightarrow> user answer" where
  "GetUserByEmail e email w =
     db_read e ''GetUserByEmail'' (one_row (lookup_key u_email email (w_users w)))"

definition on_user :: "string \<Rightarrow> (user \<Rightarrow> user) \<Rightarrow> world \<Rightarrow> world" where
  "on_user uid f w = w\<lparr>w_users := update_key u_id uid f (w_users w)\<rparr>"

definition SetActiveWorkspace ::
  "env \<Rightarrow> string \<Rightarrow> string option \<Rightarrow> world \<Rightarrow> go_error option \<times> world" where
  "SetActiveWorkspace e uid ws w =
     db_exec e ''SetActiveWorkspace''
       (if has_key u_id uid (w_users w) \<and> dangling wsp_id ws (w_workspaces w)
        then Some (foreign_key_violation ''users_active_workspace_id_fkey'') else None)
       (on_user uid (\<lambda>u. u\<lparr>u_active_workspace_id := ws, u_updated_at := e_db_now e\<rparr>)) w"

definition SetEmailVerified :: "env \<Rightarrow> string \<Rightarrow> world \<Rightarrow> go_error option \<times> world" where
  "SetEmailVerified e uid w = db_exec e ''SetEmailVerified'' None
     (on_user uid (\<lambda>u. u\<lparr>u_email_verified := True, u_updated_at := e_db_now e\<rparr>)) w"

definition UpdateLastLogin :: "env \<Rightarrow> string \<Rightarrow> world \<Rightarrow> go_error option \<times> world" where
  "UpdateLastLogin e uid w = db_exec e ''UpdateLastLogin'' None
     (on_user uid (\<lambda>u. u\<lparr>u_last_login_at := Some (e_db_now e), u_updated_at := e_db_now e\<rparr>)) w"

definition UpdateUserPassword ::
  "env \<Rightarrow> string \<Rightarrow> string option \<Rightarrow> world \<Rightarrow> go_error option \<times> world" where
  "UpdateUserPassword e uid h w = db_exec e ''UpdateUserPassword'' None
     (on_user uid (\<lambda>u. u\<lparr>u_password_hash := h, u_updated_at := e_db_now e\<rparr>)) w"

definition SetPlatformAdmin :: "env \<Rightarrow> string \<Rightarrow> bool \<Rightarrow> world \<Rightarrow> go_error option \<times> world" where
  "SetPlatformAdmin e uid b w = db_exec e ''SetPlatformAdmin'' None
     (on_user uid (\<lambda>u. u\<lparr>u_is_platform_admin := b, u_updated_at := e_db_now e\<rparr>)) w"

definition ListAllUsers :: "env \<Rightarrow> int \<Rightarrow> int \<Rightarrow> world \<Rightarrow> user list answer" where
  "ListAllUsers e lmt off w = db_read e ''ListAllUsers''
     (Inr (take (nat lmt) (drop (nat off) (sort_key (\<lambda>u. - u_created_at u) (w_users w)))))"

definition ListAllWorkspaces :: "env \<Rightarrow> int \<Rightarrow> int \<Rightarrow> world \<Rightarrow> workspace list answer" where
  "ListAllWorkspaces e lmt off w = db_read e ''ListAllWorkspaces''
     (Inr (take (nat lmt) (drop (nat off) (sort_key (\<lambda>x. - wsp_created_at x) (w_workspaces w)))))"

section \<open>Memberships\<close>

definition CreateMembership ::
  "env \<Rightarrow> string \<Rightarrow> string \<Rightarrow> string \<Rightarrow> string \<Rightarrow> world \<Rightarrow> workspace_membership answer \<times> world" where
  "CreateMembership e mid ws uid role w =
     (let row = \<lparr>mb_id = mid, mb_workspace_id = ws, mb_user_id = uid, mb_role = role,
                 mb_created_at = e_db_now e, mb_updated_at = e_db_now e\<rparr>
      in returning row (db_exec e ''CreateMembership''
        (first_violation
           [(role \<notin> set roles, check_violation ''workspace_memberships_role_check''),
            (has_key mb_id mid (w_memberships w), unique_violation ''workspace_memberships_pkey''),
            (\<exists>m\<in>set (w_memberships w). mb_workspace_id m = ws \<and> mb_user_id m = uid,
             unique_violation ''workspace_memberships_workspace_id_user_id_key''),
            (\<not> has_key wsp_id ws (w_workspaces w),
             foreign_key_violation ''workspace_memberships_workspace_id_fkey''),
            (\<not> has_key u_id uid (w_users w),
             foreign_key_violation ''workspace_memberships_user_id_fkey'')])
        (\<lambda>w. w\<lparr>w_memberships := w_memberships w @ [row]\<rparr>) w))"

definition member :: "string \<Rightarrow> string \<Rightarrow> workspace_membership \<Rightarrow> bool" where
  "member ws uid m \<longleftrightarrow> mb_workspace_id m = ws \<and> mb_user_id m = uid"

definition GetMembership ::
  "env \<Rightarrow> string \<Rightarrow> string \<Rightarrow> world \<Rightarrow> workspace_membership answer" where
  "GetMembership e ws uid w =
     db_read e ''GetMembership'' (one_row (List.find (member ws uid) (w_memberships w)))"

text \<open>The joins with workspaces and users drop a row without a partner.\<close>

definition ListMembershipsByUser ::
  "env \<Rightarrow> string \<Rightarrow> world \<Rightarrow> workspace_membership list answer" where
  "ListMembershipsByUser e uid w = db_read e ''ListMembershipsByUser''
     (Inr (sort_key mb_created_at (filter (\<lambda>m. mb_user_id m = uid \<and>
        has_key wsp_id (mb_workspace_id m) (w_workspaces w)) (w_memberships w))))"

definition ListMembershipsByWorkspace ::
  "env \<Rightarrow> string \<Rightarrow> world \<Rightarrow> workspace_membership list answer" where
  "ListMembershipsByWorkspace e ws w = db_read e ''ListMembershipsByWorkspace''
     (Inr (sort_key mb_created_at (filter (\<lambda>m. mb_workspace_id m = ws \<and>
        has_key u_id (mb_user_id m) (w_users w)) (w_memberships w))))"

definition CountAdmins :: "env \<Rightarrow> string \<Rightarrow> world \<Rightarrow> int answer" where
  "CountAdmins e ws w = db_read e ''CountAdmins'' (Inr (int (length
     (filter (\<lambda>m. mb_workspace_id m = ws \<and> mb_role m = ''admin'') (w_memberships w)))))"

definition DeleteMembership :: "env \<Rightarrow> string \<Rightarrow> string \<Rightarrow> world \<Rightarrow> int answer \<times> world" where
  "DeleteMembership e ws uid w =
     returning (int (length (filter (member ws uid) (w_memberships w))))
       (db_exec e ''DeleteMembership'' None
         (\<lambda>w. w\<lparr>w_memberships := filter (\<lambda>m. \<not> member ws uid m) (w_memberships w)\<rparr>) w)"

definition UpdateMembershipRole ::
  "env \<Rightarrow> string \<Rightarrow> string \<Rightarrow> string \<Rightarrow> world \<Rightarrow> workspace_membership answer \<times> world" where
  "UpdateMembershipRole e ws uid role w =
     (case List.find (member ws uid) (w_memberships w) of
        None \<Rightarrow> (db_read e ''UpdateMembershipRole'' (Inl ErrNoRows), w)
      | Some m \<Rightarrow>
          let f = (\<lambda>m. m\<lparr>mb_role := role, mb_updated_at := e_db_now e\<rparr>)
          in returning (f m) (db_exec e ''UpdateMembershipRole''
               (if role \<notin> set roles then Some (check_violation ''workspace_memberships_role_check'')
                else None)
               (\<lambda>w. w\<lparr>w_memberships := update_where (member ws uid) f (w_memberships w)\<rparr>) w))"

section \<open>API keys\<close>

record create_api_key_params =
  ca_id :: string
  ca_workspace_id :: string
  ca_name :: string
  ca_key_hash :: string
  ca_key_prefix :: string
  ca_role :: string
  ca_expires_at :: "instant option"
  ca_created_by :: "string option"

definition new_api_key :: "env \<Rightarrow> create_api_key_params \<Rightarrow> api_key" where
  "new_api_key e a =
     \<lparr>ak_id = ca_id a, ak_workspace_id = ca_workspace_id a, ak_name = ca_name a,
      ak_key_hash = ca_key_hash a, ak_key_prefix = ca_key_prefix a, ak_role = ca_role a,
      ak_expires_at = ca_expires_at a, ak_created_by = ca_created_by a, ak_last_used_at = None,
      ak_last_ip = None, ak_last_user_agent = None, ak_enabled = True,
      ak_created_at = e_db_now e\<rparr>"

definition api_key_violation :: "create_api_key_params \<Rightarrow> world \<Rightarrow> go_error option" where
  "api_key_violation a w = first_violation
     [(ca_role a \<notin> set roles, check_violation ''api_keys_role_check''),
      (has_key ak_id (ca_id a) (w_api_keys w), unique_violation ''api_keys_pkey''),
      (has_key ak_key_hash (ca_key_hash a) (w_api_keys w), unique_violation ''api_keys_key_hash_key''),
      (\<not> has_key wsp_id (ca_workspace_id a) (w_workspaces w),
       foreign_key_violation ''api_keys_workspace_id_fkey''),
      (dangling u_id (ca_created_by a) (w_users w), foreign_key_violation ''api_keys_created_by_fkey'')]"

definition CreateAPIKey :: "env \<Rightarrow> create_api_key_params \<Rightarrow> world \<Rightarrow> api_key answer \<times> world" where
  "CreateAPIKey e a w =
     returning (new_api_key e a) (db_exec e ''CreateAPIKey'' (api_key_violation a w)
       (\<lambda>w. w\<lparr>w_api_keys := w_api_keys w @ [new_api_key e a]\<rparr>) w)"

definition DeleteAPIKey :: "env \<Rightarrow> string \<Rightarrow> string \<Rightarrow> world \<Rightarrow> int answer \<times> world" where
  "DeleteAPIKey e kid ws w =
     (let hit = (\<lambda>k. ak_id k = kid \<and> ak_workspace_id k = ws)
      in returning (int (length (filter hit (w_api_keys w))))
           (db_exec e ''DeleteAPIKey'' None
             (\<lambda>w. w\<lparr>w_api_keys := filter (\<lambda>k. \<not> hit k) (w_api_keys w)\<rparr>) w))"

definition ListAPIKeysByWorkspace :: "env \<Rightarrow> string \<Rightarrow> world \<Rightarrow> api_key list answer" where
  "ListAPIKeysByWorkspace e ws w = db_read e ''ListAPIKeysByWorkspace''
     (Inr (sort_key (\<lambda>k. - ak_created_at k)
        (filter (\<lambda>k. ak_workspace_id k = ws) (w_api_keys w))))"

section \<open>Tokens\<close>

definition token_types :: "string list" where
  "token_types = [''email_verify'', ''password_reset'']"

definition CreateUserToken ::
  "env \<Rightarrow> string \<Rightarrow> string \<Rightarrow> string \<Rightarrow> string \<Rightarrow> instant \<Rightarrow> world \<Rightarrow> user_token answer \<times> world" where
  "CreateUserToken e tid uid h typ expires w =
     (let row = \<lparr>ut_id = tid, ut_user_id = uid, ut_token_hash = h, ut_token_type = typ,
                 ut_expires_at = expires, ut_used_at = None, ut_created_at = e_db_now e\<rparr>
      in returning row (db_exec e ''CreateUserToken''
        (first_violation
           [(typ \<notin> set token_types, check_violation ''user_tokens_token_type_check''),
            (has_key ut_id tid (w_user_tokens w), unique_violation ''user_tokens_pkey''),
            (\<not> has_key u_id uid (w_users w), foreign_key_violation ''user_tokens_user_id_fkey'')])
        (\<lambda>w. w\<lparr>w_user_tokens := w_user_tokens w @ [row]\<rparr>) w))"

definition valid_token :: "env \<Rightarrow> string \<Rightarrow> string \<Rightarrow> user_token \<Rightarrow> bool" where
  "valid_token e h typ t \<longleftrightarrow> ut_token_hash t = h \<and> ut_token_type t = typ \<and> ut_used_at t = None \<and>
     ut_expires_at t > e_db_now e"

definition GetValidToken :: "env \<Rightarrow> string \<Rightarrow> string \<Rightarrow> world \<Rightarrow> user_token answer" where
  "GetValidToken e h typ w = db_read e ''GetValidToken''
     (one_row (List.find (valid_token e h typ) (w_user_tokens w)))"

definition InvalidatePriorTokens ::
  "env \<Rightarrow> string \<Rightarrow> string \<Rightarrow> world \<Rightarrow> go_error option \<times> world" where
  "InvalidatePriorTokens e uid typ w = db_exec e ''InvalidatePriorTokens'' None
     (\<lambda>w. w\<lparr>w_user_tokens := update_where
        (\<lambda>t. ut_user_id t = uid \<and> ut_token_type t = typ \<and> ut_used_at t = None)
        (\<lambda>t. t\<lparr>ut_used_at := Some (e_db_now e)\<rparr>) (w_user_tokens w)\<rparr>) w"

definition MarkTokenUsed :: "env \<Rightarrow> string \<Rightarrow> world \<Rightarrow> go_error option \<times> world" where
  "MarkTokenUsed e tid w = db_exec e ''MarkTokenUsed'' None
     (\<lambda>w. w\<lparr>w_user_tokens := update_key ut_id tid
        (\<lambda>t. t\<lparr>ut_used_at := Some (e_db_now e)\<rparr>) (w_user_tokens w)\<rparr>) w"

section \<open>The platform\<close>

record platform_stats =
  ps_total_workspaces :: int
  ps_active_workspaces :: int
  ps_total_users :: int
  ps_platform_admins :: int
  ps_total_processes :: int
  ps_running_runs :: int
  ps_failed_runs_24h :: int
  ps_running_jobs :: int
  ps_online_workers :: int

definition count_where :: "('r \<Rightarrow> bool) \<Rightarrow> 'r list \<Rightarrow> int" where
  "count_where P rows = int (length (filter P rows))"

definition GetPlatformStats :: "env \<Rightarrow> world \<Rightarrow> platform_stats answer" where
  "GetPlatformStats e w = db_read e ''GetPlatformStats'' (Inr
     \<lparr>ps_total_workspaces = int (length (w_workspaces w)),
      ps_active_workspaces = count_where (\<lambda>x. wsp_state x = ''active'') (w_workspaces w),
      ps_total_users = int (length (w_users w)),
      ps_platform_admins = count_where u_is_platform_admin (w_users w),
      ps_total_processes = int (length (w_processes w)),
      ps_running_runs = count_where (\<lambda>r. r_state r = Running) (w_runs w),
      ps_failed_runs_24h =
        count_where (\<lambda>r. r_state r = Failed \<and> r_created_at r > e_db_now e - 24 * hour) (w_runs w),
      ps_running_jobs = count_where (\<lambda>j. j_state j = JobRunning) (w_jobs w),
      ps_online_workers = count_where (\<lambda>x. wk_status x = ''online'') (w_workers w)\<rparr>)"

end
