(* ===== verification/Account_Handlers.thy ===== *)
theory Account_Handlers
  imports Api Account_Queries Run_Queries
begin

text \<open>
  The handlers of accounts, \<open>internal/handler/service.go\<close>: registration and log-in, tokens sent by
  mail, API keys, memberships, the platform administration and the Google call-back. SHA-256,
  bcrypt and the random digits of a key are parameters; so is the exchange of an authorization
  code with Google.
\<close>

record crypto_lib =
  cl_hash :: "string \<Rightarrow> string"
  cl_bcrypt :: "string \<Rightarrow> string option"
  cl_compare :: "string \<Rightarrow> string \<Rightarrow> bool"

text \<open>The key a handler makes up: its row, for a workspace, a role and a creator.\<close>

definition fresh_key ::
  "crypto_lib \<Rightarrow> string \<Rightarrow> string \<Rightarrow> string \<Rightarrow> string \<Rightarrow> string \<Rightarrow> string \<Rightarrow> create_api_key_params" where
  "fresh_key lib rnd kid ws name role creator =
     (let rawKey = generateRawAPIKey rnd
      in \<lparr>ca_id = kid, ca_workspace_id = ws, ca_name = name, ca_key_hash = cl_hash lib rawKey,
          ca_key_prefix = GenerateAPIKeyPrefix rawKey, ca_role = role, ca_expires_at = None,
          ca_created_by = Some creator\<rparr>)"

section \<open>Registration and log-in\<close>

record register_request =
  rq_email :: string
  rq_name :: string
  rq_password :: string

text \<open>The workspace, its slug, the user, the address and the key.\<close>

record registration =
  rg_workspace_id :: string
  rg_slug :: string
  rg_user_id :: string
  rg_email :: string
  rg_api_key :: string

text \<open>\<open>Left\<close>: the reply that refuses the password; \<open>Right\<close>: its hash, if there is a password.\<close>

definition register_password ::
  "crypto_lib \<Rightarrow> string \<Rightarrow> registration reply + string option" where
  "register_password lib password =
     (if password = [] then Inr None
      else if length password < 12 then
        Inl (writeError 400 ''VALIDATION_ERROR'' ''Password must be at least 12 characters'' [])
      else case cl_bcrypt lib password of
        None \<Rightarrow> Inl (writeError 500 ''INTERNAL_ERROR'' ''Failed to hash password'' [])
      | Some h \<Rightarrow> Inr (Some h))"

definition register_rows ::
  "crypto_lib \<Rightarrow> string \<Rightarrow> env \<Rightarrow> register_request \<Rightarrow> string option \<Rightarrow> world
   \<Rightarrow> registration reply \<times> world" where
  "register_rows lib rnd e req passwordHash w =
     (let (wsID, w0) = id_New e PrefixWorkspace w
      in case CreateWorkspace e wsID (slugify (rq_name req)) (rq_name req) ''active'' w0 of
           (Inl _, w1) \<Rightarrow> (writeError 409 ''CONFLICT'' ''Workspace could not be created''
                            ''Slug may already exist'', w1)
         | (Inr workspace, w1) \<Rightarrow>
             let (userID, w2) = id_New e PrefixUser w1
             in case CreateUser e \<lparr>cu_id = userID, cu_email = rq_email req, cu_name = rq_name req,
                       cu_auth_provider = ''email'', cu_password_hash = passwordHash,
                       cu_email_verified = False, cu_active_workspace_id = Some (wsp_id workspace)\<rparr> w2 of
                  (Inl _, w3) \<Rightarrow> (writeError 409 ''CONFLICT'' ''User could not be created''
                                   ''Email may already exist'', w3)
                | (Inr user, w3) \<Rightarrow>
                    let (mid, w4) = id_New e PrefixMembership w3;
                        w5 = snd (CreateMembership e mid (wsp_id workspace) (u_id user) ''admin'' w4);
                        (kid, w6) = id_New e PrefixAPIKey w5;
                        w7 = snd (CreateAPIKey e (fresh_key lib rnd kid (wsp_id workspace)
                               ''Default API Key'' ''admin'' (u_id user)) w6)
                    in (writeJSON 201 \<lparr>rg_workspace_id = wsp_id workspace, rg_slug = wsp_slug workspace,
                          rg_user_id = u_id user, rg_email = u_email user,
                          rg_api_key = generateRawAPIKey rnd\<rparr>, w7))"

definition Service_Register ::
  "crypto_lib \<Rightarrow> string \<Rightarrow> env \<Rightarrow> register_request option \<Rightarrow> world \<Rightarrow> registration reply \<times> world" where
  "Service_Register lib rnd e body w =
     (case body of
        None \<Rightarrow> (writeError 400 ''VALIDATION_ERROR'' ''Invalid request body'' [], w)
      | Some req \<Rightarrow>
          if rq_email req = [] \<or> rq_name req = [] then
            (writeError 400 ''VALIDATION_ERROR'' ''Email and name are required'' [], w)
          else if IsDisposableEmail (rq_email req) then
            (writeError 400 ''VALIDATION_ERROR'' ''Disposable email addresses are not allowed''
               ''Use a permanent email address'', w)
          else case register_password lib (rq_password req) of
            Inl refusal \<Rightarrow> (refusal, w)
          | Inr passwordHash \<Rightarrow> register_rows lib rnd e req passwordHash w)"

text \<open>The role of a session key: that of the membership, \<open>viewer\<close> without one.\<close>

definition session_role :: "env \<Rightarrow> string \<Rightarrow> string \<Rightarrow> world \<Rightarrow> string" where
  "session_role e ws uid w =
     (case GetMembership e ws uid w of Inl _ \<Rightarrow> ''viewer'' | Inr m \<Rightarrow> mb_role m)"

definition no_workspace :: "user \<Rightarrow> string" where
  "no_workspace u = (case u_active_workspace_id u of None \<Rightarrow> [] | Some x \<Rightarrow> x)"

text \<open>The user, the workspace and the key.\<close>

definition Service_Login ::
  "crypto_lib \<Rightarrow> string \<Rightarrow> env \<Rightarrow> (string \<times> string) option \<Rightarrow> world
   \<Rightarrow> (string \<times> string \<times> string) reply \<times> world" where
  "Service_Login lib rnd e body w =
     (case body of
        None \<Rightarrow> (writeError 400 ''VALIDATION_ERROR'' ''Invalid request'' [], w)
      | Some (email, password) \<Rightarrow>
          (case GetUserByEmail e email w of
             Inl _ \<Rightarrow> (writeError 401 ''UNAUTHORIZED'' ''Invalid email or password'' [], w)
           | Inr user \<Rightarrow>
               (case u_password_hash user of
                  None \<Rightarrow> (writeError 401 ''UNAUTHORIZED'' ''This account uses Google OAuth''
                            ''Sign in with Google instead'', w)
                | Some h \<Rightarrow>
                    if \<not> cl_compare lib h password then
                      (writeError 401 ''UNAUTHORIZED'' ''Invalid email or password'' [], w)
                    else
                      let w1 = snd (UpdateLastLogin e (u_id user) w);
                          wsID = no_workspace user;
                          w3 = (if wsID = [] then w1
                                else let role = session_role e wsID (u_id user) w1;
                                         (kid, w2) = id_New e PrefixAPIKey w1
                                     in snd (CreateAPIKey e (fresh_key lib rnd kid wsID
                                          (''Session: '' @ u_email user) role (u_id user)) w2))
                      in (writeJSON 200 (u_id user, wsID, generateRawAPIKey rnd), w3))))"

section \<open>Tokens sent by mail\<close>

definition createToken ::
  "crypto_lib \<Rightarrow> string \<Rightarrow> env \<Rightarrow> string \<Rightarrow> string \<Rightarrow> duration \<Rightarrow> world
   \<Rightarrow> (string \<times> go_error option) \<times> world" where
  "createToken lib rnd e userID tokenType ttl w =
     (let w1 = snd (InvalidatePriorTokens e userID tokenType w);
          rawToken = generateRawAPIKey rnd;
          (tid, w2) = id_New e ''tok_'' w1;
          (r, w3) = CreateUserToken e tid userID (cl_hash lib rawToken) tokenType (e_now e + ttl) w2
      in ((rawToken, case r of Inl err \<Rightarrow> Some err | Inr _ \<Rightarrow> None), w3))"

definition Service_VerifyEmail ::
  "crypto_lib \<Rightarrow> env \<Rightarrow> string option \<Rightarrow> world \<Rightarrow> string reply \<times> world" where
  "Service_VerifyEmail lib e body w =
     (case body of
        None \<Rightarrow> (writeError 400 ''VALIDATION_ERROR'' ''token is required'' [], w)
      | Some token \<Rightarrow>
          if token = [] then (writeError 400 ''VALIDATION_ERROR'' ''token is required'' [], w)
          else case GetValidToken e (cl_hash lib token) ''email_verify'' w of
            Inl _ \<Rightarrow> (writeError 400 ''VALIDATION_ERROR'' ''Invalid or expired verification token''
                       ''Request a new verification email'', w)
          | Inr t \<Rightarrow>
              (writeJSON 200 ''verified'',
               snd (SetEmailVerified e (ut_user_id t) (snd (MarkTokenUsed e (ut_id t) w)))))"

text \<open>The reply of a request for a token does not tell whether the address is known.\<close>

definition Service_ResendVerification ::
  "crypto_lib \<Rightarrow> string \<Rightarrow> env \<Rightarrow> string option \<Rightarrow> world \<Rightarrow> string reply \<times> world" where
  "Service_ResendVerification lib rnd e body w =
     (case body of
        None \<Rightarrow> (writeError 400 ''VALIDATION_ERROR'' ''email is required'' [], w)
      | Some email \<Rightarrow>
          if email = [] then (writeError 400 ''VALIDATION_ERROR'' ''email is required'' [], w)
          else case GetUserByEmail e email w of
            Inl _ \<Rightarrow> (writeJSON 200 [], w)
          | Inr user \<Rightarrow>
              if u_email_verified user then (writeJSON 200 ''Email already verified'', w)
              else (writeJSON 200 [],
                    snd (createToken lib rnd e (u_id user) ''email_verify'' (24 * hour) w)))"

definition Service_ForgotPassword ::
  "crypto_lib \<Rightarrow> string \<Rightarrow> env \<Rightarrow> string option \<Rightarrow> world \<Rightarrow> string reply \<times> world" where
  "Service_ForgotPassword lib rnd e body w =
     (case body of
        None \<Rightarrow> (writeError 400 ''VALIDATION_ERROR'' ''email is required'' [], w)
      | Some email \<Rightarrow>
          if email = [] then (writeError 400 ''VALIDATION_ERROR'' ''email is required'' [], w)
          else case GetUserByEmail e email w of
            Inl _ \<Rightarrow> (writeJSON 200 [], w)
          | Inr user \<Rightarrow>
              if u_password_hash user = None then (writeJSON 200 [], w)
              else (writeJSON 200 [],
                    snd (createToken lib rnd e (u_id user) ''password_reset'' hour w)))"

text \<open>The token and the new password.\<close>

definition Service_ResetPassword ::
  "crypto_lib \<Rightarrow> env \<Rightarrow> (string \<times> string) option \<Rightarrow> world \<Rightarrow> string reply \<times> world" where
  "Service_ResetPassword lib e body w =
     (case body of
        None \<Rightarrow> (writeError 400 ''VALIDATION_ERROR'' ''Invalid request'' [], w)
      | Some (token, newPassword) \<Rightarrow>
          if token = [] \<or> newPassword = [] then
            (writeError 400 ''VALIDATION_ERROR'' ''token and new_password are required'' [], w)
          else if length newPassword < 12 then
            (writeError 400 ''VALIDATION_ERROR'' ''Password must be at least 12 characters'' [], w)
          else case GetValidToken e (cl_hash lib token) ''password_reset'' w of
            Inl _ \<Rightarrow> (writeError 400 ''VALIDATION_ERROR'' ''Invalid or expired reset token''
                       ''Request a new password reset'', w)
          | Inr t \<Rightarrow>
              (case cl_bcrypt lib newPassword of
                 None \<Rightarrow> (writeError 500 ''INTERNAL_ERROR'' ''Failed to hash password'' [], w)
               | Some h \<Rightarrow>
                   (writeJSON 200 ''reset'',
                    snd (MarkTokenUsed e (ut_id t)
                      (snd (UpdateUserPassword e (ut_user_id t) (Some h) w))))))"

section \<open>API keys\<close>

definition Service_ListAPIKeys :: "env \<Rightarrow> request_ctx \<Rightarrow> world \<Rightarrow> api_key list reply" where
  "Service_ListAPIKeys e ctx w =
     (case ListAPIKeysByWorkspace e (ctx_WorkspaceID ctx) w of
        Inl _ \<Rightarrow> writeError 500 ''INTERNAL_ERROR'' ''Failed to list API keys'' []
      | Inr keys \<Rightarrow> writeJSON 200 keys)"

text \<open>Name and role; the new row and the key.\<close>

definition Service_CreateAPIKey ::
  "crypto_lib \<Rightarrow> string \<Rightarrow> env \<Rightarrow> request_ctx \<Rightarrow> (string \<times> string) option \<Rightarrow> world
   \<Rightarrow> (api_key \<times> string) reply \<times> world" where
  "Service_CreateAPIKey lib rnd e ctx body w =
     (case body of
        None \<Rightarrow> (writeError 400 ''VALIDATION_ERROR'' ''Invalid request'' [], w)
      | Some (name, role) \<Rightarrow>
          let name' = (if name = [] then ''API Key'' else name);
              role' = (if role = [] then ''operator'' else role);
              (kid, w1) = id_New e PrefixAPIKey w
          in case CreateAPIKey e (fresh_key lib rnd kid (ctx_WorkspaceID ctx) name' role'
                    (a_ID (actor_of ctx))) w1 of
               (Inl _, w2) \<Rightarrow> (writeError 500 ''INTERNAL_ERROR'' ''Failed to create API key'' [], w2)
             | (Inr key, w2) \<Rightarrow> (writeJSON 201 (key, generateRawAPIKey rnd), w2))"

definition Service_DeleteAPIKey ::
  "env \<Rightarrow> request_ctx \<Rightarrow> string \<Rightarrow> world \<Rightarrow> string reply \<times> world" where
  "Service_DeleteAPIKey e ctx kid w =
     (case DeleteAPIKey e kid (ctx_WorkspaceID ctx) w of
        (Inl _, w1) \<Rightarrow> (writeError 404 ''NOT_FOUND'' ''API key not found'' [], w1)
      | (Inr n, w1) \<Rightarrow>
          (if n = 0 then writeError 404 ''NOT_FOUND'' ''API key not found'' [] else Status 204, w1))"

section \<open>Workspaces and members\<close>

definition Service_GetWorkspace :: "env \<Rightarrow> request_ctx \<Rightarrow> world \<Rightarrow> workspace reply" where
  "Service_GetWorkspace e ctx w =
     (case GetWorkspace e (ctx_WorkspaceID ctx) w of
        Inl _ \<Rightarrow> writeError 404 ''NOT_FOUND'' ''Workspace not found'' []
      | Inr ws \<Rightarrow> writeJSON 200 ws)"

definition Service_ListWorkspaces ::
  "env \<Rightarrow> request_ctx \<Rightarrow> world \<Rightarrow> workspace_membership list reply" where
  "Service_ListWorkspaces e ctx w =
     (case ListMembershipsByUser e (a_ID (actor_of ctx)) w of
        Inl _ \<Rightarrow> writeError 500 ''INTERNAL_ERROR'' ''Failed to list workspaces'' []
      | Inr ms \<Rightarrow> writeJSON 200 ms)"

definition Service_SwitchWorkspace ::
  "env \<Rightarrow> request_ctx \<Rightarrow> string \<Rightarrow> world \<Rightarrow> string reply \<times> world" where
  "Service_SwitchWorkspace e ctx target w =
     (let uid = a_ID (actor_of ctx)
      in case ListMembershipsByUser e uid w of
           Inl _ \<Rightarrow> (writeError 500 ''INTERNAL_ERROR'' ''Failed to verify membership'' [], w)
         | Inr ms \<Rightarrow>
             if target \<notin> mb_workspace_id ` set ms then
               (writeError 403 ''FORBIDDEN'' ''Not a member of this workspace'' [], w)
             else case SetActiveWorkspace e uid (Some target) w of
               (Some _, w1) \<Rightarrow> (writeError 500 ''INTERNAL_ERROR'' ''Failed to switch workspace'' [], w1)
             | (None, w1) \<Rightarrow> (writeJSON 200 target, w1))"

definition Service_ListMembers ::
  "env \<Rightarrow> request_ctx \<Rightarrow> world \<Rightarrow> workspace_membership list reply" where
  "Service_ListMembers e ctx w =
     (case ListMembershipsByWorkspace e (ctx_WorkspaceID ctx) w of
        Inl _ \<Rightarrow> writeError 500 ''INTERNAL_ERROR'' ''Failed to list members'' []
      | Inr ms \<Rightarrow> writeJSON 200 ms)"

text \<open>Address and role; the status of the invitation. Neither error of the token is looked at.\<close>

definition Service_InviteMember ::
  "crypto_lib \<Rightarrow> string \<Rightarrow> env \<Rightarrow> request_ctx \<Rightarrow> (string \<times> string) option \<Rightarrow> world
   \<Rightarrow> string reply \<times> world" where
  "Service_InviteMember lib rnd e ctx body w =
     (if ctx_Role ctx \<noteq> ''admin'' then
        (writeError 403 ''FORBIDDEN'' ''Admin role required to invite members'' [], w)
      else case body of
        None \<Rightarrow> (writeError 400 ''VALIDATION_ERROR'' ''Invalid request'' [], w)
      | Some (email, role) \<Rightarrow>
          if email = [] \<or> role = [] then
            (writeError 400 ''VALIDATION_ERROR'' ''email and role are required'' [], w)
          else if role \<notin> set roles then
            (writeError 400 ''VALIDATION_ERROR'' ''role must be admin, operator, or viewer'' [], w)
          else case GetUserByEmail e email w of
            Inr user \<Rightarrow>
              let (mid, w1) = id_New e PrefixMembership w
              in (case CreateMembership e mid (ctx_WorkspaceID ctx) (u_id user) role w1 of
                    (Inl _, w2) \<Rightarrow> (writeError 409 ''CONFLICT''
                                     ''User is already a member of this workspace'' [], w2)
                  | (Inr _, w2) \<Rightarrow> (writeJSON 201 ''member_added'', w2))
          | Inl _ \<Rightarrow>
              (writeJSON 201 ''invitation_sent'',
               snd (createToken lib rnd e (''invite_'' @ ctx_WorkspaceID ctx @ ''_'' @ email)
                      ''invitation'' (7 * 24 * hour) w)))"

section \<open>The platform\<close>

definition Service_AdminListWorkspaces :: "env \<Rightarrow> world \<Rightarrow> workspace list reply" where
  "Service_AdminListWorkspaces e w =
     (case ListAllWorkspaces e 100 0 w of
        Inl _ \<Rightarrow> writeError 500 ''INTERNAL_ERROR'' ''Failed to list workspaces'' []
      | Inr xs \<Rightarrow> writeJSON 200 xs)"

definition Service_AdminListUsers :: "env \<Rightarrow> world \<Rightarrow> user list reply" where
  "Service_AdminListUsers e w =
     (case ListAllUsers e 100 0 w of
        Inl _ \<Rightarrow> writeError 500 ''INTERNAL_ERROR'' ''Failed to list users'' []
      | Inr xs \<Rightarrow> writeJSON 200 xs)"

definition Service_AdminGetStats :: "env \<Rightarrow> world \<Rightarrow> platform_stats reply" where
  "Service_AdminGetStats e w =
     (case GetPlatformStats e w of
        Inl _ \<Rightarrow> writeError 500 ''INTERNAL_ERROR'' ''Failed to get platform stats'' []
      | Inr x \<Rightarrow> writeJSON 200 x)"

definition Service_AdminUpdateWorkspaceState ::
  "env \<Rightarrow> string \<Rightarrow> string option \<Rightarrow> world \<Rightarrow> (string \<times> string) reply \<times> world" where
  "Service_AdminUpdateWorkspaceState e wsID body w =
     (case body of
        None \<Rightarrow> (writeError 400 ''VALIDATION_ERROR'' ''Invalid request'' [], w)
      | Some st \<Rightarrow>
          if st \<noteq> ''active'' \<and> st \<noteq> ''suspended'' \<and> st \<noteq> ''archived'' then
            (writeError 400 ''VALIDATION_ERROR'' ''state must be active, suspended, or archived'' [], w)
          else case UpdateWorkspaceState e wsID st w of
            (Some _, w1) \<Rightarrow> (writeError 500 ''INTERNAL_ERROR'' ''Failed to update workspace state'' [], w1)
          | (None, w1) \<Rightarrow> (writeJSON 200 (wsID, st), w1))"

definition Service_AdminSetPlatformAdmin ::
  "env \<Rightarrow> string \<Rightarrow> bool option \<Rightarrow> world \<Rightarrow> (string \<times> bool) reply \<times> world" where
  "Service_AdminSetPlatformAdmin e uid body w =
     (case body of
        None \<Rightarrow> (writeError 400 ''VALIDATION_ERROR'' ''Invalid request'' [], w)
      | Some b \<Rightarrow>
          (case SetPlatformAdmin e uid b w of
             (Some _, w1) \<Rightarrow>
               (writeError 500 ''INTERNAL_ERROR'' ''Failed to update platform admin status'' [], w1)
           | (None, w1) \<Rightarrow> (writeJSON 200 (uid, b), w1)))"

text \<open>The workspace and the key; whether the row was written is not looked at.\<close>

definition Service_AdminImpersonate ::
  "crypto_lib \<Rightarrow> string \<Rightarrow> env \<Rightarrow> request_ctx \<Rightarrow> string \<Rightarrow> world \<Rightarrow> (string \<times> string) reply \<times> world" where
  "Service_AdminImpersonate lib rnd e ctx wsID w =
     (let (kid, w1) = id_New e PrefixAPIKey w
      in (writeJSON 200 (wsID, generateRawAPIKey rnd),
          snd (CreateAPIKey e (fresh_key lib rnd kid wsID ''Platform Admin Session'' ''admin''
                 (a_ID (actor_of ctx))) w1)))"

definition Service_TriggerCleanup :: "request_ctx \<Rightarrow> string reply" where
  "Service_TriggerCleanup ctx =
     (if ctx_Role ctx \<noteq> ''admin'' then
        writeError 403 ''FORBIDDEN'' ''Admin role required for manual cleanup'' []
      else writeJSON 501 ''Cleanup runs on schedule; manual trigger is not yet implemented'')"

section \<open>Google\<close>

definition createUserWithWorkspace ::
  "crypto_lib \<Rightarrow> string \<Rightarrow> env \<Rightarrow> string \<Rightarrow> string \<Rightarrow> string option \<Rightarrow> string \<Rightarrow> string \<Rightarrow> world
   \<Rightarrow> string answer \<times> world" where
  "createUserWithWorkspace lib rnd e email name passwordHash authProvider wsName w =
     (let (wsID, w1) = id_New e PrefixWorkspace w;
          (userID, w2) = id_New e PrefixUser w1;
          (membershipID, w3) = id_New e PrefixMembership w2;
          (keyID, w4) = id_New e PrefixAPIKey w3
      in case CreateWorkspace e wsID (slugify wsName) wsName [] w4 of
           (Inl err, w5) \<Rightarrow> (Inl err, w5)
         | (Inr _, w5) \<Rightarrow>
             (case CreateUser e \<lparr>cu_id = userID, cu_email = email, cu_name = name,
                      cu_auth_provider = authProvider, cu_password_hash = passwordHash,
                      cu_email_verified = (authProvider = ''google''),
                      cu_active_workspace_id = Some wsID\<rparr> w5 of
                (Inl err, w6) \<Rightarrow> (Inl err, w6)
              | (Inr _, w6) \<Rightarrow>
                  let w7 = snd (CreateMembership e membershipID wsID userID ''admin'' w6);
                      w8 = snd (CreateAPIKey e (fresh_key lib rnd keyID wsID ''Default'' ''admin'' userID) w7)
                  in (Inr (generateRawAPIKey rnd), w8)))"

text \<open>The workspace of a session: the active one, else that of the first membership.\<close>

definition session_workspace :: "env \<Rightarrow> user \<Rightarrow> world \<Rightarrow> string" where
  "session_workspace e user w =
     (if no_workspace user \<noteq> [] then no_workspace user
      else case ListMembershipsByUser e (u_id user) w of
        Inr (m # _) \<Rightarrow> mb_workspace_id m
      | _ \<Rightarrow> [])"

definition role_among :: "string \<Rightarrow> workspace_membership list answer \<Rightarrow> string" where
  "role_among ws r = (case r of
     Inl _ \<Rightarrow> ''viewer''
   | Inr ms \<Rightarrow> (case List.find (\<lambda>m. mb_workspace_id m = ws) ms of
                  None \<Rightarrow> ''viewer'' | Some m \<Rightarrow> mb_role m))"

text \<open>
  The call-back: \<open>google\<close> is \<open>None\<close> when it is not configured, else what an authorization code is
  exchanged for, the address and the name. The cookie of the state, the state and the code of the
  URL; the reply redirects with the key in a cookie, and tells whether the account is new.
\<close>

definition Service_GoogleCallback ::
  "crypto_lib \<Rightarrow> string \<Rightarrow> (string \<Rightarrow> (string \<times> string) option) option \<Rightarrow> env \<Rightarrow> string option \<Rightarrow>
   string \<Rightarrow> string \<Rightarrow> world \<Rightarrow> (string \<times> bool) reply \<times> world" where
  "Service_GoogleCallback lib rnd google e cookie st code w =
     (case google of
        None \<Rightarrow> (writeError 501 ''NOT_IMPLEMENTED'' ''Google OAuth is not configured'' [], w)
      | Some exchange \<Rightarrow>
          if cookie \<noteq> Some st then
            (writeError 400 ''VALIDATION_ERROR'' ''Invalid OAuth state'' ''Try signing in again'', w)
          else if code = [] then
            (writeError 400 ''VALIDATION_ERROR'' ''Missing authorization code'' [], w)
          else case exchange code of
            None \<Rightarrow> (writeError 500 ''INTERNAL_ERROR'' ''OAuth exchange failed'' ''Try signing in again'', w)
          | Some (email, name) \<Rightarrow>
              (case GetUserByEmail e email w of
                 Inl _ \<Rightarrow>
                   (case createUserWithWorkspace lib rnd e email name None ''google''
                           (name @ [char_of (39 :: nat)] @ ''s Workspace'') w of
                      (Inl _, w1) \<Rightarrow>
                        (writeError 500 ''INTERNAL_ERROR'' ''Failed to create account'' [], w1)
                    | (Inr key, w1) \<Rightarrow> (writeJSON 302 (key, True), w1))
               | Inr user \<Rightarrow>
                   let wsID = session_workspace e user w;
                       role = role_among wsID (ListMembershipsByUser (again e) (u_id user) w);
                       w2 = (if wsID = [] then w
                             else let (kid, w1) = id_New e PrefixAPIKey w
                                  in snd (CreateAPIKey e (fresh_key lib rnd kid wsID
                                       ''Google OAuth session'' role (u_id user)) w1))
                   in (writeJSON 302 (generateRawAPIKey rnd, False), w2)))"

end
