(* ===== verification/Account_Properties.thy ===== *)
theory Account_Properties
  imports Account_Handlers Samples
begin

text \<open>
  What holds of accounts: which requests can succeed, what a new account can do, and how long a
  token lasts.
\<close>

section \<open>Requests that cannot succeed\<close>

text \<open>
  No account can be made by signing in with Google: the workspace is created without a state,
  which the table does not admit, so a new address gets no user, no workspace and no key.
\<close>

theorem google_signup_always_fails:
  "(\<exists>err. fst (createUserWithWorkspace lib rnd e email name h provider wsName w) = Inl err) \<and>
   w_users (snd (createUserWithWorkspace lib rnd e email name h provider wsName w)) = w_users w \<and>
   w_workspaces (snd (createUserWithWorkspace lib rnd e email name h provider wsName w)) = w_workspaces w \<and>
   w_api_keys (snd (createUserWithWorkspace lib rnd e email name h provider wsName w)) = w_api_keys w"
  by (auto simp: createUserWithWorkspace_def id_New_def CreateWorkspace_def db_exec_def Let_def
      split: option.split)

lemma fresh_key_simps [simp]:
  "ca_id (fresh_key lib rnd kid ws name role creator) = kid"
  "ca_workspace_id (fresh_key lib rnd kid ws name role creator) = ws"
  "ca_key_hash (fresh_key lib rnd kid ws name role creator) = cl_hash lib (generateRawAPIKey rnd)"
  "ca_key_prefix (fresh_key lib rnd kid ws name role creator) = GenerateAPIKeyPrefix (generateRawAPIKey rnd)"
  "ca_role (fresh_key lib rnd kid ws name role creator) = role"
  "ca_created_by (fresh_key lib rnd kid ws name role creator) = Some creator"
  by (simp_all add: fresh_key_def Let_def)

lemma CreateAPIKey_foreign:
  assumes "\<not> has_key u_id creator (w_users w)"
  shows "\<exists>err. CreateAPIKey e (fresh_key lib rnd kid ws name role creator) w = (Inl err, w)"
proof -
  have "api_key_violation (fresh_key lib rnd kid ws name role creator) w \<noteq> None"
    using assms unfolding api_key_violation_def first_violation_None_iff by (simp add: dangling_def)
  then show ?thesis
    by (auto simp: CreateAPIKey_def db_exec_def returning_def split: option.split)
qed

lemma id_New_users [simp]:
  "w_users (snd (id_New e prefix w)) = w_users w" "w_api_keys (snd (id_New e prefix w)) = w_api_keys w"
  "w_workspaces (snd (id_New e prefix w)) = w_workspaces w"
  "w_memberships (snd (id_New e prefix w)) = w_memberships w"
  by (simp_all add: id_New_def)

text \<open>
  Who is authenticated by a key cannot make another: the key's own id is written as the user
  that created the new one, which the foreign key refuses. The handler of keys answers with an
  error; the one of impersonation answers 200 with a key that no table holds.
\<close>

theorem keys_cannot_make_keys:
  assumes "\<not> has_key u_id (a_ID (actor_of ctx)) (w_users w)"
  shows "400 \<le> reply_status (fst (Service_CreateAPIKey lib rnd e ctx body w)) \<and>
    w_api_keys (snd (Service_CreateAPIKey lib rnd e ctx body w)) = w_api_keys w \<and>
    fst (Service_AdminImpersonate lib rnd e ctx ws w) = Data 200 (ws, generateRawAPIKey rnd) \<and>
    w_api_keys (snd (Service_AdminImpersonate lib rnd e ctx ws w)) = w_api_keys w"
proof -
  have fails: "\<exists>err. CreateAPIKey e (fresh_key lib rnd kid ws' name role (a_ID (actor_of ctx)))
      (snd (id_New e prefix w)) = (Inl err, snd (id_New e prefix w))" for kid ws' name role prefix
    by (rule CreateAPIKey_foreign) (simp add: assms)
  have "400 \<le> reply_status (fst (Service_CreateAPIKey lib rnd e ctx body w)) \<and>
    w_api_keys (snd (Service_CreateAPIKey lib rnd e ctx body w)) = w_api_keys w"
  proof (cases body)
    case (Some nr)
    obtain name role where nr: "nr = (name, role)" by (cases nr)
    obtain err where "CreateAPIKey e (fresh_key lib rnd (fst (id_New e PrefixAPIKey w))
        (ctx_WorkspaceID ctx) (if name = [] then ''API Key'' else name)
        (if role = [] then ''operator'' else role) (a_ID (actor_of ctx))) (snd (id_New e PrefixAPIKey w)) =
        (Inl err, snd (id_New e PrefixAPIKey w))" using fails by blast
    then show ?thesis
      unfolding Some nr Service_CreateAPIKey_def option.case prod.case
      by (simp add: writeError_def Let_def split_beta split del: if_split)
  qed (simp add: Service_CreateAPIKey_def writeError_def)
  moreover obtain err where "CreateAPIKey e (fresh_key lib rnd (fst (id_New e PrefixAPIKey w)) ws
      ''Platform Admin Session'' ''admin'' (a_ID (actor_of ctx))) (snd (id_New e PrefixAPIKey w)) =
      (Inl err, snd (id_New e PrefixAPIKey w))" using fails by blast
  ultimately show ?thesis
    by (simp add: Service_AdminImpersonate_def writeJSON_def Let_def split_beta)
qed

text \<open>
  No invitation is ever stored: its type is not one of the two the table of tokens admits, so
  the token that the handler reports as sent does not exist.
\<close>

theorem invitations_are_lost:
  "snd (fst (createToken lib rnd e uid ''invitation'' ttl w)) \<noteq> None \<and>
   length (w_user_tokens (snd (createToken lib rnd e uid ''invitation'' ttl w))) =
     length (w_user_tokens w)"
  by (auto simp: createToken_def InvalidatePriorTokens_def CreateUserToken_def returning_def
      db_exec_def id_New_def token_types_def update_where_def Let_def split: option.split)

section \<open>Registration\<close>

lemma generated_prefix: "GenerateAPIKeyPrefix (generateRawAPIKey rnd) = ''cc_live_''"
  by (simp add: GenerateAPIKeyPrefix_def generateRawAPIKey_def)

text \<open>The ids a registration draws are not in use.\<close>

definition fresh_account_ids :: "env \<Rightarrow> world \<Rightarrow> bool" where
  "fresh_account_ids e w \<longleftrightarrow>
     \<not> has_key wsp_id (PrefixWorkspace @ e_ulid e (w_ids w)) (w_workspaces w) \<and>
     \<not> has_key u_id (PrefixUser @ e_ulid e (Suc (w_ids w))) (w_users w) \<and>
     \<not> has_key ak_id (PrefixAPIKey @ e_ulid e (Suc (Suc (Suc (w_ids w))))) (w_api_keys w)"

text \<open>What a registration that gets through leaves behind.\<close>

lemma register_rows_ok:
  assumes "no_faults e" "fresh_account_ids e w"
    and "\<not> has_key wsp_slug (slugify (rq_name req)) (w_workspaces w)"
    and "\<not> has_key u_email (rq_email req) (w_users w)"
    and "\<not> has_key ak_key_hash (cl_hash lib (generateRawAPIKey rnd)) (w_api_keys w)"
  obtains ws u k w' where "register_rows lib rnd e req h w =
      (Data 201 \<lparr>rg_workspace_id = wsp_id ws, rg_slug = wsp_slug ws, rg_user_id = u_id u,
         rg_email = u_email u, rg_api_key = generateRawAPIKey rnd\<rparr>, w')"
    "w_workspaces w' = w_workspaces w @ [ws]" "w_users w' = w_users w @ [u]"
    "w_api_keys w' = w_api_keys w @ [k]"
    "wsp_state ws = ''active''" "wsp_id ws = PrefixWorkspace @ e_ulid e (w_ids w)"
    "u_id u = PrefixUser @ e_ulid e (Suc (w_ids w))" "\<not> u_is_platform_admin u"
    "ak_workspace_id k = wsp_id ws" "ak_role k = ''admin''" "ak_enabled k"
    "ak_key_hash k = cl_hash lib (generateRawAPIKey rnd)" "ak_key_prefix k = ''cc_live_''"
    "ak_created_by k = Some (u_id u)"
proof -
  have f: "e_fault e q = None" for q using assms(1) by (simp add: no_faults_def)
  let ?wid = "PrefixWorkspace @ e_ulid e (w_ids w)" and ?uid = "PrefixUser @ e_ulid e (Suc (w_ids w))"
  let ?ws = "\<lparr>wsp_id = ?wid, wsp_slug = slugify (rq_name req), wsp_name = rq_name req,
     wsp_state = ''active'', wsp_default_timezone = ''UTC'', wsp_created_at = e_db_now e,
     wsp_updated_at = e_db_now e\<rparr>"
  let ?a = "\<lparr>cu_id = ?uid, cu_email = rq_email req, cu_name = rq_name req,
     cu_auth_provider = ''email'', cu_password_hash = h, cu_email_verified = False,
     cu_active_workspace_id = Some ?wid\<rparr>"
  let ?w1 = "w\<lparr>w_ids := Suc (w_ids w), w_workspaces := w_workspaces w @ [?ws]\<rparr>"
  let ?w2 = "?w1\<lparr>w_ids := Suc (Suc (w_ids w)), w_users := w_users w @ [new_user e ?a]\<rparr>"
  let ?w3 = "snd (CreateMembership e (PrefixMembership @ e_ulid e (Suc (Suc (w_ids w)))) ?wid ?uid ''admin''
     (?w2\<lparr>w_ids := Suc (Suc (Suc (w_ids w)))\<rparr>))"
  have 1: "CreateWorkspace e ?wid (slugify (rq_name req)) (rq_name req) ''active''
      (w\<lparr>w_ids := Suc (w_ids w)\<rparr>) = (Inr ?ws, ?w1)"
    using assms(2,3) by (simp add: CreateWorkspace_def db_exec_def f fresh_account_ids_def Let_def)
  have 2: "CreateUser e ?a (?w1\<lparr>w_ids := Suc (Suc (w_ids w))\<rparr>) = (Inr (new_user e ?a), ?w2)"
    using assms(2,4)
    by (simp add: CreateUser_def db_exec_def f fresh_account_ids_def dangling_def has_key_def
        returning_def)
  have frame: "w_users (snd (CreateMembership e m x y r v)) = w_users v"
    "w_workspaces (snd (CreateMembership e m x y r v)) = w_workspaces v"
    "w_api_keys (snd (CreateMembership e m x y r v)) = w_api_keys v"
    "w_ids (snd (CreateMembership e m x y r v)) = w_ids v" for m x y r v
    by (auto simp: CreateMembership_def db_exec_def returning_def Let_def split: option.split)
  let ?p = "fresh_key lib rnd (PrefixAPIKey @ e_ulid e (Suc (Suc (Suc (w_ids w))))) ?wid
     ''Default API Key'' ''admin'' ?uid"
  let ?w4 = "?w3\<lparr>w_ids := Suc (Suc (Suc (Suc (w_ids w))))\<rparr>"
  have "api_key_violation ?p ?w4 = None"
    using assms(2,5)
    by (simp add: api_key_violation_def frame fresh_account_ids_def roles_def dangling_def has_key_def
        new_user_def)
  then have 3: "snd (CreateAPIKey e ?p ?w4) = ?w4\<lparr>w_api_keys := w_api_keys w @ [new_api_key e ?p]\<rparr>"
    by (simp add: CreateAPIKey_def db_exec_def f returning_def frame)
  have "register_rows lib rnd e req h w =
      (Data 201 \<lparr>rg_workspace_id = wsp_id ?ws, rg_slug = wsp_slug ?ws, rg_user_id = u_id (new_user e ?a),
         rg_email = u_email (new_user e ?a), rg_api_key = generateRawAPIKey rnd\<rparr>,
       ?w4\<lparr>w_api_keys := w_api_keys w @ [new_api_key e ?p]\<rparr>)"
    using 1 2 3
    by (simp add: register_rows_def id_New_def Let_def new_user_def writeJSON_def frame)
  then show ?thesis
    by (rule that[of ?ws "new_user e ?a" _ "new_api_key e ?p"])
      (simp_all add: frame new_user_def new_api_key_def generated_prefix)
qed

text \<open>
  C22: a registration that answers 201 hands out a key that works: with it, the new user is
  authenticated as an administrator of the new workspace, and not of the platform.
\<close>

theorem registration_gives_a_working_key:
  assumes "Service_Register lib rnd e (Some req) w = (Data 201 rg, w')" "no_faults e" "no_faults e'"
    and "fresh_account_ids e w"
    and "\<not> has_key ak_key_hash (cl_hash lib (generateRawAPIKey rnd)) (w_api_keys w)"
    and "h_X_API_Key r = rg_api_key rg"
  shows "\<exists>a. fst (Authenticate (cl_hash lib) e' r w') = Inr a \<and> a_WorkspaceID a = rg_workspace_id rg \<and>
     a_Role a = ''admin'' \<and> \<not> a_IsPlatformAdmin a"
proof -
  have f: "e_fault e' q = None" for q using assms(3) by (simp add: no_faults_def)
  obtain h where rows: "register_rows lib rnd e req h w = (Data 201 rg, w')"
    using assms(1)
    by (auto simp: Service_Register_def writeError_def register_password_def split: if_splits option.splits)
  have free: "\<not> has_key wsp_slug (slugify (rq_name req)) (w_workspaces w)"
    "\<not> has_key u_email (rq_email req) (w_users w)"
    using rows assms(2,4)
    by (auto simp: register_rows_def id_New_def CreateWorkspace_def CreateUser_def db_exec_def
        writeError_def no_faults_def returning_def fresh_account_ids_def Let_def split: if_splits)
  obtain ws u k v where all: "register_rows lib rnd e req h w =
      (Data 201 \<lparr>rg_workspace_id = wsp_id ws, rg_slug = wsp_slug ws, rg_user_id = u_id u,
         rg_email = u_email u, rg_api_key = generateRawAPIKey rnd\<rparr>, v)"
    and tables: "w_workspaces v = w_workspaces w @ [ws]" "w_users v = w_users w @ [u]"
      "w_api_keys v = w_api_keys w @ [k]"
    and ids: "wsp_state ws = ''active''" "wsp_id ws = PrefixWorkspace @ e_ulid e (w_ids w)"
      "u_id u = PrefixUser @ e_ulid e (Suc (w_ids w))" "\<not> u_is_platform_admin u"
    and k: "ak_workspace_id k = wsp_id ws" "ak_role k = ''admin''" "ak_enabled k"
      "ak_key_hash k = cl_hash lib (generateRawAPIKey rnd)" "ak_key_prefix k = ''cc_live_''"
      "ak_created_by k = Some (u_id u)"
    by (rule register_rows_ok[OF assms(2,4) free assms(5)])
  have rg: "rg_workspace_id rg = wsp_id ws" "rg_api_key rg = generateRawAPIKey rnd" and v: "w' = v"
    using rows all by auto
  let ?P = "\<lambda>k. ak_key_hash k = cl_hash lib (h_X_API_Key r) \<and> ak_enabled k \<and> workspace_of_key w' k \<noteq> None"
  have key: "h_X_API_Key r = generateRawAPIKey rnd" using assms(6) rg by simp
  have ws: "workspace_of_key w' k = Some ws"
    using assms(4) tables ids k v
    by (simp add: workspace_of_key_def lookup_key_append fresh_account_ids_def has_key_iff)
  have "List.find ?P (w_api_keys w) = None"
    using assms(5) by (auto simp: find_None_iff key has_key_def)
  then have "List.find ?P (w_api_keys w') = Some k"
    using tables k ws v by (simp add: key find_append)
  then have "GetAPIKeyByHash e' (cl_hash lib (h_X_API_Key r)) w' = Inr (k, ''active'')"
    using ws ids by (simp add: GetAPIKeyByHash_def db_read_def f)
  moreover have "GetUserByID e' (u_id u) w' = Inr u"
    using assms(4) tables ids v
    by (simp add: GetUserByID_def db_read_def f one_row_def lookup_key_append fresh_account_ids_def
        has_key_iff)
  ultimately show ?thesis
    using rg ids k
    by (simp add: Authenticate_def key generateRawAPIKey_def Let_def)
qed

text \<open>
  A registration that fails on its address is not undone: the workspace it created first stays,
  without a member, and its name cannot be registered any more, not even with another address.
\<close>

theorem failed_registration_burns_the_name:
  assumes "no_faults e" "no_faults e'" "fresh_account_ids e w"
    and "\<not> has_key wsp_slug (slugify (rq_name req)) (w_workspaces w)"
    and "has_key u_email (rq_email req) (w_users w)"
    and "rq_name req' = rq_name req"
  shows "fst (register_rows lib rnd e req h w) =
      Failure 409 ''CONFLICT'' ''User could not be created'' ''Email may already exist'' \<and>
    w_users (snd (register_rows lib rnd e req h w)) = w_users w \<and>
    fst (register_rows lib rnd' e' req' h' (snd (register_rows lib rnd e req h w))) =
      Failure 409 ''CONFLICT'' ''Workspace could not be created'' ''Slug may already exist''"
proof -
  have f: "e_fault e q = None" "e_fault e' q = None" for q using assms(1,2) by (simp_all add: no_faults_def)
  let ?wid = "PrefixWorkspace @ e_ulid e (w_ids w)"
  let ?ws = "\<lparr>wsp_id = ?wid, wsp_slug = slugify (rq_name req), wsp_name = rq_name req,
     wsp_state = ''active'', wsp_default_timezone = ''UTC'', wsp_created_at = e_db_now e,
     wsp_updated_at = e_db_now e\<rparr>"
  have first: "register_rows lib rnd e req h w =
      (Failure 409 ''CONFLICT'' ''User could not be created'' ''Email may already exist'',
       w\<lparr>w_ids := Suc (Suc (w_ids w)), w_workspaces := w_workspaces w @ [?ws]\<rparr>)"
    using assms(3-5)
    by (simp add: register_rows_def id_New_def CreateWorkspace_def CreateUser_def db_exec_def f
        returning_def fresh_account_ids_def Let_def writeError_def)
  have taken: "has_key wsp_slug (slugify (rq_name req)) (w_workspaces w @ [?ws])"
    by (simp add: has_key_def)
  show ?thesis
    unfolding first
    using taken assms(6)
    by (simp add: register_rows_def id_New_def CreateWorkspace_def db_exec_def f Let_def writeError_def)
qed

section \<open>Tokens\<close>

text \<open>
  A password can be reset once with a token: afterwards the token is used up, at any later time,
  and the account has the new password.
\<close>

theorem reset_is_single_use:
  assumes "Service_ResetPassword lib e (Some (token, pw)) w = (Data 200 x, w')" "no_faults e"
    and "\<forall>s\<in>set (w_user_tokens w). \<forall>t\<in>set (w_user_tokens w).
       ut_token_hash s = ut_token_hash t \<longrightarrow> ut_id s = ut_id t"
  shows "\<exists>uid h. cl_bcrypt lib pw = Some h \<and>
     w_users w' = update_key u_id uid (\<lambda>u. u\<lparr>u_password_hash := Some h, u_updated_at := e_db_now e\<rparr>) (w_users w) \<and>
     400 \<le> reply_status (fst (Service_ResetPassword lib e' (Some (token, pw')) w'))"
proof -
  have f: "e_fault e q = None" for q using assms(2) by (simp add: no_faults_def)
  obtain t h where t: "GetValidToken e (cl_hash lib token) ''password_reset'' w = Inr t"
    "cl_bcrypt lib pw = Some h"
    "w' = snd (MarkTokenUsed e (ut_id t) (snd (UpdateUserPassword e (ut_user_id t) (Some h) w)))"
    using assms(1)
    by (auto simp: Service_ResetPassword_def writeError_def writeJSON_def
        split: if_splits sum.splits option.splits)
  have mem: "t \<in> set (w_user_tokens w)" "ut_token_hash t = cl_hash lib token"
    using t(1) by (auto simp: GetValidToken_def db_read_def f one_row_def valid_token_def find_Some_iff
        in_set_conv_nth split: option.splits)
  have users: "w_users w' = update_key u_id (ut_user_id t)
      (\<lambda>u. u\<lparr>u_password_hash := Some h, u_updated_at := e_db_now e\<rparr>) (w_users w)"
    and tokens: "w_user_tokens w' =
      update_key ut_id (ut_id t) (\<lambda>t. t\<lparr>ut_used_at := Some (e_db_now e)\<rparr>) (w_user_tokens w)"
    by (simp_all add: t(3) MarkTokenUsed_def UpdateUserPassword_def db_exec_def f on_user_def)
  have "\<not> valid_token e' (cl_hash lib token) kind s" if s: "s \<in> set (w_user_tokens w')" for s kind
  proof -
    obtain s0 where "s0 \<in> set (w_user_tokens w)"
      "s = (if ut_id s0 = ut_id t then s0\<lparr>ut_used_at := Some (e_db_now e)\<rparr> else s0)"
      using s unfolding tokens update_key_def by (rule in_update_where)
    moreover have "ut_id s0 = ut_id t" if "ut_token_hash s0 = cl_hash lib token"
      using bspec[OF bspec[OF assms(3) \<open>s0 \<in> set (w_user_tokens w)\<close>] mem(1)] that mem(2) by simp
    ultimately show ?thesis by (cases "ut_id s0 = ut_id t") (auto simp: valid_token_def)
  qed
  then have "List.find (valid_token e' (cl_hash lib token) ''password_reset'') (w_user_tokens w') = None"
    by (simp add: find_None_iff)
  then have "\<exists>err. GetValidToken e' (cl_hash lib token) ''password_reset'' w' = Inl err"
    by (auto simp: GetValidToken_def db_read_def one_row_def split: option.split)
  then have "400 \<le> reply_status (fst (Service_ResetPassword lib e' (Some (token, pw')) w'))"
    by (auto simp: Service_ResetPassword_def writeError_def)
  then show ?thesis using t(2) users by blast
qed

text \<open>
  A new token takes the place of the older ones: of a user's tokens of one kind only the newest
  can be valid.
\<close>

theorem newest_token_only:
  assumes "createToken lib rnd e uid typ ttl w = ((raw, None), w')" "no_faults e"
    and "s \<in> set (w_user_tokens w')" "ut_user_id s = uid" "valid_token e' h typ s"
  shows "ut_token_hash s = cl_hash lib raw \<and> ut_expires_at s = e_now e + ttl"
proof -
  have f: "e_fault e q = None" for q using assms(2) by (simp add: no_faults_def)
  let ?old = "update_where (\<lambda>t. ut_user_id t = uid \<and> ut_token_type t = typ \<and> ut_used_at t = None)
     (\<lambda>t. t\<lparr>ut_used_at := Some (e_db_now e)\<rparr>) (w_user_tokens w)"
  obtain tid where w': "w_user_tokens w' = ?old @ [\<lparr>ut_id = tid, ut_user_id = uid,
      ut_token_hash = cl_hash lib raw, ut_token_type = typ, ut_expires_at = e_now e + ttl,
      ut_used_at = None, ut_created_at = e_db_now e\<rparr>]"
    using assms(1)
    by (auto simp: createToken_def InvalidatePriorTokens_def CreateUserToken_def returning_def
        db_exec_def f id_New_def Let_def split: option.splits if_splits)
  have "s \<notin> set ?old"
  proof
    assume old: "s \<in> set ?old"
    obtain s0 where "s = (if ut_user_id s0 = uid \<and> ut_token_type s0 = typ \<and> ut_used_at s0 = None
        then s0\<lparr>ut_used_at := Some (e_db_now e)\<rparr> else s0)"
      using old by (rule in_update_where)
    then show False using assms(4,5)
      by (cases "ut_user_id s0 = uid \<and> ut_token_type s0 = typ \<and> ut_used_at s0 = None")
        (auto simp: valid_token_def)
  qed
  then show ?thesis using assms(3) w' by auto
qed

section \<open>Instances\<close>

definition sample_lib :: crypto_lib where
  "sample_lib = \<lparr>cl_hash = (\<lambda>s. CHR ''#'' # s), cl_bcrypt = Some, cl_compare = (=)\<rparr>"

definition sample_registration :: "string \<Rightarrow> register_request" where
  "sample_registration email = \<lparr>rq_email = email, rq_name = ''acme'', rq_password = []\<rparr>"

definition sample_user :: user where
  "sample_user = new_user (calm 0) \<lparr>cu_id = ''usr_1'', cu_email = ''a@b.c'', cu_name = ''a'',
     cu_auth_provider = ''email'', cu_password_hash = Some ''old'', cu_email_verified = False,
     cu_active_workspace_id = None\<rparr>"

definition key_request :: "string \<Rightarrow> http_request" where
  "key_request k = \<lparr>h_X_API_Key = k, h_X_Workspace_ID = [], h_X_Forwarded_For = [],
     h_RemoteAddr = ''10.0.0.1'', h_UserAgent = ''curl'', h_Path = ''/runs''\<rparr>"

lemma sample_not_disposable: "\<not> IsDisposableEmail ''a@b.c''"
  by (simp add: IsDisposableEmail_def TrimSpace_def is_space_def ToLower_def ToLower_char_def
      disposableDomains_def)

lemma fresh_ids_empty: "w_workspaces w = [] \<Longrightarrow> w_api_keys w = [] \<Longrightarrow>
    \<not> has_key u_id (PrefixUser @ e_ulid e (Suc (w_ids w))) (w_users w) \<Longrightarrow> fresh_account_ids e w"
  by (simp add: fresh_account_ids_def has_key_def)

theorem registration_gives_a_working_key_witness:
  "\<exists>a. fst (Authenticate (cl_hash sample_lib) (calm 9) (key_request ''cc_live_x'')
     (snd (Service_Register sample_lib ''x'' (calm 0) (Some (sample_registration ''a@b.c'')) empty_world))) =
     Inr a \<and> a_Role a = ''admin''"
proof -
  have "fst (Service_Register sample_lib ''x'' (calm 0) (Some (sample_registration ''a@b.c'')) empty_world) =
      Data 201 \<lparr>rg_workspace_id = ''wsp_'', rg_slug = slugify ''acme'', rg_user_id = ''usr_0'',
        rg_email = ''a@b.c'', rg_api_key = ''cc_live_x''\<rparr>"
    by (simp add: Service_Register_def sample_registration_def sample_not_disposable
        register_password_def register_rows_def id_New_def CreateWorkspace_def db_exec_def
        CreateUser_def returning_def dangling_def has_key_def new_user_def generateRawAPIKey_def
        writeJSON_def empty_world_def Let_def prefix_defs)
  then have reg: "Service_Register sample_lib ''x'' (calm 0) (Some (sample_registration ''a@b.c'')) empty_world =
      (Data 201 \<lparr>rg_workspace_id = ''wsp_'', rg_slug = slugify ''acme'', rg_user_id = ''usr_0'',
        rg_email = ''a@b.c'', rg_api_key = ''cc_live_x''\<rparr>,
       snd (Service_Register sample_lib ''x'' (calm 0) (Some (sample_registration ''a@b.c'')) empty_world))"
    by (simp add: prod_eq_iff)
  have fresh: "fresh_account_ids (calm 0) empty_world"
    by (rule fresh_ids_empty) (simp_all add: empty_world_def has_key_def)
  from registration_gives_a_working_key[OF reg no_faults_calm no_faults_calm fresh,
      of "key_request ''cc_live_x''" 9]
  show ?thesis by (auto simp: empty_world_def has_key_def key_request_def)
qed

theorem failed_registration_burns_the_name_witness:
  "fst (register_rows sample_lib ''y'' (calm 1) (sample_registration ''d@e.f'') None
     (snd (register_rows sample_lib ''x'' (calm 0) (sample_registration ''a@b.c'') None
        (empty_world\<lparr>w_users := [sample_user]\<rparr>)))) =
   Failure 409 ''CONFLICT'' ''Workspace could not be created'' ''Slug may already exist''"
proof -
  have "fresh_account_ids (calm 0) (empty_world\<lparr>w_users := [sample_user]\<rparr>)"
    by (rule fresh_ids_empty)
      (simp_all add: empty_world_def has_key_def sample_user_def new_user_def PrefixUser_def)
  from failed_registration_burns_the_name[OF no_faults_calm no_faults_calm this,
      of "sample_registration ''a@b.c''" "sample_registration ''d@e.f''"]
  show ?thesis
    by (simp add: sample_registration_def empty_world_def has_key_def sample_user_def new_user_def)
qed

theorem keys_cannot_make_keys_witness:
  "w_api_keys (snd (Service_CreateAPIKey sample_lib ''x'' (calm 0) (Some \<lparr>a_Type = ''api_key'',
     a_ID = ''key_1'', a_WorkspaceID = ''wsp_1'', a_Role = ''admin'', a_IsPlatformAdmin = False\<rparr>)
     (Some ([], [])) (sample_world [] []))) = []"
  using keys_cannot_make_keys[of "Some \<lparr>a_Type = ''api_key'', a_ID = ''key_1'', a_WorkspaceID = ''wsp_1'',
      a_Role = ''admin'', a_IsPlatformAdmin = False\<rparr>" "sample_world [] []" sample_lib "''x''" "calm 0"
      "Some ([], [])"]
  by (simp add: has_key_def sample_world_def empty_world_def)

definition sample_token :: user_token where
  "sample_token = \<lparr>ut_id = ''tok_1'', ut_user_id = ''usr_1'', ut_token_hash = ''#t'',
     ut_token_type = ''password_reset'', ut_expires_at = hour, ut_used_at = None, ut_created_at = 0\<rparr>"

theorem reset_is_single_use_witness:
  "400 \<le> reply_status (fst (Service_ResetPassword sample_lib (calm 1) (Some (''t'', ''another password''))
     (snd (Service_ResetPassword sample_lib (calm 0) (Some (''t'', ''a new password''))
        (empty_world\<lparr>w_users := [sample_user], w_user_tokens := [sample_token]\<rparr>)))))"
proof -
  let ?w = "empty_world\<lparr>w_users := [sample_user], w_user_tokens := [sample_token]\<rparr>"
  have "fst (Service_ResetPassword sample_lib (calm 0) (Some (''t'', ''a new password'')) ?w) = Data 200 ''reset''"
    by (simp add: Service_ResetPassword_def GetValidToken_def db_read_def one_row_def valid_token_def
        sample_token_def sample_lib_def writeJSON_def)
  then have "Service_ResetPassword sample_lib (calm 0) (Some (''t'', ''a new password'')) ?w =
      (Data 200 ''reset'', snd (Service_ResetPassword sample_lib (calm 0) (Some (''t'', ''a new password'')) ?w))"
    by (simp add: prod_eq_iff)
  from reset_is_single_use[OF this no_faults_calm, of "calm 1" "''another password''"]
  show ?thesis by auto
qed

theorem newest_token_only_witness:
  "sample_token \<notin> set (w_user_tokens (snd (createToken sample_lib ''x'' (calm 0) ''usr_1''
     ''password_reset'' (2 * hour)
     (empty_world\<lparr>w_users := [sample_user], w_user_tokens := [sample_token]\<rparr>))))"
proof
  let ?w = "empty_world\<lparr>w_users := [sample_user], w_user_tokens := [sample_token]\<rparr>"
  let ?r = "createToken sample_lib ''x'' (calm 0) ''usr_1'' ''password_reset'' (2 * hour) ?w"
  assume mem: "sample_token \<in> set (w_user_tokens (snd ?r))"
  have v: "valid_token (calm 0) ''#t'' ''password_reset'' sample_token"
    by (simp add: valid_token_def sample_token_def)
  have "fst ?r = (''cc_live_x'', None)"
    by (simp add: createToken_def InvalidatePriorTokens_def CreateUserToken_def returning_def db_exec_def
        id_New_def token_types_def update_where_def generateRawAPIKey_def has_key_def sample_user_def
        new_user_def sample_token_def Let_def empty_world_def)
  then have r: "?r = ((''cc_live_x'', None), snd ?r)" by (simp add: prod_eq_iff)
  from newest_token_only[OF r no_faults_calm mem _ v] show False
    by (simp add: sample_token_def)
qed

end
