(* ===== verification/Orchestra.thy ===== *)
theory Orchestra
  imports Orchestrator Account_Queries
begin

text \<open>
  Orchestras: their queries, \<open>internal/db/orchestras.sql.go\<close> and \<open>orchestra_chat.sql.go\<close>, and the
  monitor of timeouts and budgets, \<open>internal/orchestra/monitor.go\<close>. Amounts of a budget are exact;
  the entries of a budget, which Go visits in a random order, are visited in the order of the
  object; \<open>fmt0\<close> is what \<open>%.0f\<close> prints.
\<close>

section \<open>Queries on orchestras\<close>

definition orchestra_states :: "string list" where
  "orchestra_states =
     [''active'', ''waiting_for_choice'', ''paused'', ''completed'', ''cancelled'', ''failed'']"

record create_orchestra_params =
  co_id :: string
  co_workspace_id :: string
  co_name :: string
  co_director_type :: string
  co_director_process_id :: "string option"
  co_ai_config :: "json option"
  co_secrets :: "string list"
  co_budget :: "json option"
  co_timeout :: "interval option"
  co_timeout_at :: "instant option"

definition new_orchestra :: "env \<Rightarrow> create_orchestra_params \<Rightarrow> orchestra" where
  "new_orchestra e a =
     \<lparr>oc_id = co_id a, oc_workspace_id = co_workspace_id a, oc_name = co_name a,
      oc_director_type = co_director_type a, oc_director_process_id = co_director_process_id a,
      oc_ai_config = co_ai_config a, oc_state = ''active'', oc_movement_count = 0,
      oc_secrets = co_secrets a, oc_summary = None, oc_budget = co_budget a,
      oc_budget_used = Some (JObj []), oc_timeout = co_timeout a, oc_timeout_at = co_timeout_at a,
      oc_created_at = e_db_now e, oc_updated_at = e_db_now e\<rparr>"

definition CreateOrchestra ::
  "env \<Rightarrow> create_orchestra_params \<Rightarrow> world \<Rightarrow> orchestra answer \<times> world" where
  "CreateOrchestra e a w = returning (new_orchestra e a) (db_exec e ''CreateOrchestra''
     (first_violation
        [(co_director_type a \<notin> {''process'', ''ai'', ''none''},
          check_violation ''orchestras_director_type_check''),
         (has_key oc_id (co_id a) (w_orchestras w), unique_violation ''orchestras_pkey''),
         (\<not> has_key wsp_id (co_workspace_id a) (w_workspaces w),
          foreign_key_violation ''orchestras_workspace_id_fkey'')])
     (\<lambda>w. w\<lparr>w_orchestras := w_orchestras w @ [new_orchestra e a]\<rparr>) w)"

definition GetOrchestra :: "env \<Rightarrow> string \<Rightarrow> string \<Rightarrow> world \<Rightarrow> orchestra answer" where
  "GetOrchestra e ocid ws w = db_read e ''GetOrchestra'' (one_row
     (List.find (\<lambda>x. oc_id x = ocid \<and> oc_workspace_id x = ws) (w_orchestras w)))"

definition ListOrchestrasByWorkspace ::
  "env \<Rightarrow> string \<Rightarrow> int \<Rightarrow> int \<Rightarrow> world \<Rightarrow> orchestra list answer" where
  "ListOrchestrasByWorkspace e ws lmt off w = db_read e ''ListOrchestrasByWorkspace''
     (Inr (take (nat lmt) (drop (nat off) (sort_key (\<lambda>x. - oc_created_at x)
        (filter (\<lambda>x. oc_workspace_id x = ws) (w_orchestras w))))))"

definition on_orchestra :: "string \<Rightarrow> (orchestra \<Rightarrow> orchestra) \<Rightarrow> world \<Rightarrow> world" where
  "on_orchestra ocid f w = w\<lparr>w_orchestras := update_key oc_id ocid f (w_orchestras w)\<rparr>"

definition UpdateOrchestraState :: "env \<Rightarrow> string \<Rightarrow> string \<Rightarrow> world \<Rightarrow> go_error option \<times> world" where
  "UpdateOrchestraState e ocid st w =
     db_exec e ''UpdateOrchestraState''
       (if has_key oc_id ocid (w_orchestras w) \<and> st \<notin> set orchestra_states
        then Some (check_violation ''orchestras_state_check'') else None)
       (on_orchestra ocid (\<lambda>x. x\<lparr>oc_state := st, oc_updated_at := e_db_now e\<rparr>)) w"

definition FinishOrchestra ::
  "env \<Rightarrow> string \<Rightarrow> string option \<Rightarrow> world \<Rightarrow> go_error option \<times> world" where
  "FinishOrchestra e ocid summary w = db_exec e ''FinishOrchestra'' None
     (on_orchestra ocid (\<lambda>x. x\<lparr>oc_state := ''completed'', oc_summary := summary,
        oc_updated_at := e_db_now e\<rparr>)) w"

definition IncrementMovementCount :: "env \<Rightarrow> string \<Rightarrow> world \<Rightarrow> go_error option \<times> world" where
  "IncrementMovementCount e ocid w = db_exec e ''IncrementMovementCount'' None
     (on_orchestra ocid (\<lambda>x. x\<lparr>oc_movement_count := oc_movement_count x + 1,
        oc_updated_at := e_db_now e\<rparr>)) w"

definition UpdateOrchestraBudgetUsed ::
  "env \<Rightarrow> string \<Rightarrow> json option \<Rightarrow> world \<Rightarrow> go_error option \<times> world" where
  "UpdateOrchestraBudgetUsed e ocid used w = db_exec e ''UpdateOrchestraBudgetUsed'' None
     (on_orchestra ocid (\<lambda>x. x\<lparr>oc_budget_used := used, oc_updated_at := e_db_now e\<rparr>)) w"

text \<open>\<open>ORDER BY orchestra_step\<close>: a movement without a step comes last.\<close>

definition ListMovementsByOrchestra :: "env \<Rightarrow> string option \<Rightarrow> world \<Rightarrow> run list answer" where
  "ListMovementsByOrchestra e ocid w = db_read e ''ListMovementsByOrchestra''
     (Inr (let ms = filter (\<lambda>r. ocid \<noteq> None \<and> r_orchestra_id r = ocid) (w_runs w)
           in sort_key (\<lambda>r. the (r_orchestra_step r)) (filter (\<lambda>r. r_orchestra_step r \<noteq> None) ms) @
              filter (\<lambda>r. r_orchestra_step r = None) ms))"

section \<open>Queries on the chat\<close>

record create_message_params =
  cm_id :: string
  cm_orchestra_id :: string
  cm_sender_type :: string
  cm_sender_id :: "string option"
  cm_message_type :: string
  cm_content :: string
  cm_data :: "json option"

definition sender_types :: "string list" where
  "sender_types = [''system'', ''director'', ''musician'', ''human'']"

definition message_types :: "string list" where
  "message_types = [''text'', ''result'', ''request_help'', ''action'', ''choice'',
     ''choice_response'', ''file'', ''status'', ''warning'']"

definition new_message :: "env \<Rightarrow> create_message_params \<Rightarrow> orchestra_message" where
  "new_message e a =
     \<lparr>om_id = cm_id a, om_orchestra_id = cm_orchestra_id a, om_sender_type = cm_sender_type a,
      om_sender_id = cm_sender_id a, om_message_type = cm_message_type a,
      om_content = cm_content a, om_data = cm_data a, om_created_at = e_db_now e\<rparr>"

definition CreateChatMessage ::
  "env \<Rightarrow> create_message_params \<Rightarrow> world \<Rightarrow> orchestra_message answer \<times> world" where
  "CreateChatMessage e a w = returning (new_message e a) (db_exec e ''CreateChatMessage''
     (first_violation
        [(cm_sender_type a \<notin> set sender_types, check_violation ''orchestra_chat_sender_type_check''),
         (cm_message_type a \<notin> set message_types, check_violation ''orchestra_chat_message_type_check''),
         (has_key om_id (cm_id a) (w_orchestra_chat w), unique_violation ''orchestra_chat_pkey''),
         (\<not> has_key oc_id (cm_orchestra_id a) (w_orchestras w),
          foreign_key_violation ''orchestra_chat_orchestra_id_fkey'')])
     (\<lambda>w. w\<lparr>w_orchestra_chat := w_orchestra_chat w @ [new_message e a]\<rparr>) w)"

definition ListChatMessages ::
  "env \<Rightarrow> string \<Rightarrow> instant \<Rightarrow> int \<Rightarrow> world \<Rightarrow> orchestra_message list answer" where
  "ListChatMessages e ocid since lmt w = db_read e ''ListChatMessages''
     (Inr (take (nat lmt) (sort_key om_created_at
        (filter (\<lambda>m. om_orchestra_id m = ocid \<and> om_created_at m > since) (w_orchestra_chat w)))))"

definition ListChatMessagesAll ::
  "env \<Rightarrow> string \<Rightarrow> int \<Rightarrow> int \<Rightarrow> world \<Rightarrow> orchestra_message list answer" where
  "ListChatMessagesAll e ocid lmt off w = db_read e ''ListChatMessagesAll''
     (Inr (take (nat lmt) (drop (nat off) (sort_key om_created_at
        (filter (\<lambda>m. om_orchestra_id m = ocid) (w_orchestra_chat w))))))"

section \<open>The monitor\<close>

definition postSystemChat :: "env \<Rightarrow> string \<Rightarrow> string \<Rightarrow> string \<Rightarrow> world \<Rightarrow> world" where
  "postSystemChat e ocid content msgType w =
     (let (mid, w1) = id_New e ''msg_'' w
      in snd (CreateChatMessage e \<lparr>cm_id = mid, cm_orchestra_id = ocid, cm_sender_type = ''system'',
           cm_sender_id = None, cm_message_type = msgType, cm_content = content, cm_data = None\<rparr> w1))"

text \<open>The update that ends the movements of an orchestra.\<close>

definition doomed :: "string \<Rightarrow> run \<Rightarrow> bool" where
  "doomed ocid r \<longleftrightarrow> r_orchestra_id r = Some ocid \<and> r_state r \<in> {Running, Pending, Queued}"

definition kill_movements :: "env \<Rightarrow> string \<Rightarrow> world \<Rightarrow> world" where
  "kill_movements e ocid w = snd (db_exec e ''KillMovements'' None
     (\<lambda>w. w\<lparr>w_runs := update_where (doomed ocid)
        (\<lambda>r. r\<lparr>r_state := Killed, r_updated_at := e_db_now e\<rparr>) (w_runs w)\<rparr>) w)"

definition fail_orchestra :: "env \<Rightarrow> string \<Rightarrow> string \<Rightarrow> world \<Rightarrow> world" where
  "fail_orchestra e content ocid w =
     postSystemChat e ocid content ''warning''
       (kill_movements e ocid (snd (UpdateOrchestraState e ocid ''failed'' w)))"

definition monitored :: "orchestra \<Rightarrow> bool" where
  "monitored x \<longleftrightarrow> oc_state x \<in> {''active'', ''waiting_for_choice''}"

definition timed_out :: "env \<Rightarrow> orchestra \<Rightarrow> bool" where
  "timed_out e x \<longleftrightarrow> monitored x \<and>
     (case oc_timeout_at x of None \<Rightarrow> False | Some t \<Rightarrow> t < e_db_now e)"

definition checkTimeouts :: "env \<Rightarrow> world \<Rightarrow> world" where
  "checkTimeouts e w =
     (case db_read e ''checkTimeouts'' (Inr (filter (timed_out e) (w_orchestras w))) of
        Inl _ \<Rightarrow> w
      | Inr rows \<Rightarrow>
          fold (\<lambda>x. fail_orchestra e ''Orchestra timed out. All running movements have been killed.'' (oc_id x))
            rows w)"

text \<open>\<open>LIKE\<close>, with a backslash as the escape.\<close>

fun sql_like :: "string \<Rightarrow> string \<Rightarrow> bool" where
  "sql_like [] s = (s = [])"
| "sql_like (p # ps) [] = (p = CHR ''%'' \<and> sql_like ps [])"
| "sql_like (p # ps) (c # s) =
     (if p = CHR ''%'' then sql_like ps (c # s) \<or> sql_like (p # ps) s
      else if p = CHR ''_'' then sql_like ps s
      else if p = char_of (92 :: nat) then (case ps of [] \<Rightarrow> False | q # qs \<Rightarrow> q = c \<and> sql_like qs s)
      else p = c \<and> sql_like ps s)"

definition hasRecentWarning :: "env \<Rightarrow> string \<Rightarrow> string \<Rightarrow> world \<Rightarrow> bool" where
  "hasRecentWarning e ocid key w \<longleftrightarrow> e_fault e ''hasRecentWarning'' = None \<and>
     (\<exists>m\<in>set (w_orchestra_chat w). om_orchestra_id m = ocid \<and> om_message_type m = ''warning'' \<and>
        sql_like (''%'' @ key @ ''%'') (om_content m) \<and> om_created_at m > e_db_now e - 10 * minute)"

text \<open>
  \<open>json.Unmarshal\<close> into a \<open>map[string]float64\<close>, its error ignored: a value that is no number leaves
  zero.
\<close>

definition amounts :: "json option \<Rightarrow> (string \<times> rat) list" where
  "amounts j = (case j of
     Some (JObj kvs) \<Rightarrow> map (\<lambda>(k, v). (k, case v of JNum x \<Rightarrow> x | _ \<Rightarrow> 0)) kvs
   | _ \<Rightarrow> [])"

text \<open>\<open>current / limit >= x\<close>, for a positive \<open>x\<close>: a division by zero is infinite or not a number.\<close>

definition ratio_reaches :: "rat \<Rightarrow> rat \<Rightarrow> rat \<Rightarrow> bool" where
  "ratio_reaches current budget x \<longleftrightarrow> (if budget = 0 then 0 < current else x \<le> current / budget)"

definition amount :: "string \<Rightarrow> (string \<times> rat) list \<Rightarrow> rat" where
  "amount k m = (case map_of m k of None \<Rightarrow> 0 | Some x \<Rightarrow> x)"

definition budget_warning :: "(rat \<Rightarrow> string) \<Rightarrow> string \<Rightarrow> rat \<Rightarrow> rat \<Rightarrow> string" where
  "budget_warning fmt0 key current budget =
     ''Budget warning: '' @ key @ '' at '' @ fmt0 (current / budget * 100) @ ''% ('' @
     fmt0 current @ ''/'' @ fmt0 budget @ '')''"

definition check_amount ::
  "(rat \<Rightarrow> string) \<Rightarrow> env \<Rightarrow> string \<Rightarrow> (string \<times> rat) list \<Rightarrow> string \<times> rat \<Rightarrow> bool \<times> world \<Rightarrow> bool \<times> world" where
  "check_amount fmt0 e ocid used kl ew = (case (kl, ew) of ((key, budget), (exceeded, w)) \<Rightarrow>
     let current = amount key used
     in if ratio_reaches current budget 1 then (True, w)
        else if ratio_reaches current budget (8 / 10) \<and> \<not> hasRecentWarning e ocid key w
        then (exceeded, postSystemChat e ocid (budget_warning fmt0 key current budget) ''warning'' w)
        else (exceeded, w))"

definition check_budget :: "(rat \<Rightarrow> string) \<Rightarrow> env \<Rightarrow> orchestra \<Rightarrow> world \<Rightarrow> world" where
  "check_budget fmt0 e x w =
     (let (exceeded, w1) = fold (check_amount fmt0 e (oc_id x) (amounts (oc_budget_used x)))
            (amounts (oc_budget x)) (False, w)
      in if exceeded then fail_orchestra e ''Orchestra failed: budget exceeded.'' (oc_id x) w1
         else w1)"

definition budgeted :: "orchestra \<Rightarrow> bool" where
  "budgeted x \<longleftrightarrow> monitored x \<and> oc_budget x \<noteq> None \<and> oc_budget x \<noteq> Some (JObj [])"

definition checkBudgets :: "(rat \<Rightarrow> string) \<Rightarrow> env \<Rightarrow> world \<Rightarrow> world" where
  "checkBudgets fmt0 e w =
     (case db_read e ''checkBudgets'' (Inr (filter budgeted (w_orchestras w))) of
        Inl _ \<Rightarrow> w
      | Inr rows \<Rightarrow> fold (check_budget fmt0 e) rows w)"

end
