(* ===== verification/Orchestra_Handlers.thy ===== *)
theory Orchestra_Handlers
  imports Api Orchestra
begin

text \<open>
  The handlers of orchestras, of their chat and of the results of runs,
  \<open>internal/handler/service.go\<close>. The stream of server-sent events is a list of rounds, each with the
  clock after its flush.
\<close>

section \<open>Movements\<close>

text \<open>\<open>CreateRun\<close> with the parameters of a movement.\<close>

definition movement_params ::
  "env \<Rightarrow> request_ctx \<Rightarrow> string \<Rightarrow> string \<Rightarrow> string option \<Rightarrow> create_run_params" where
  "movement_params e ctx rid processID triggered_by =
     \<lparr>cr_id = rid, cr_workspace_id = ctx_WorkspaceID ctx, cr_process_id = processID,
      cr_scheduled_at = Some (e_now e), cr_state = Pending, cr_origin = ''orchestra'',
      cr_max_attempts = 1, cr_actor_type = Some (a_Type (actor_of ctx)),
      cr_actor_id = Some (a_ID (actor_of ctx)), cr_triggered_by_run_id = triggered_by,
      cr_replayed_from_run_id = None, cr_runtime = None, cr_worker_id = None, cr_tags = []\<rparr>"

text \<open>The id of the new run, empty when there is none.\<close>

definition create_movement ::
  "env \<Rightarrow> request_ctx \<Rightarrow> string \<Rightarrow> string option \<Rightarrow> world \<Rightarrow> go_error option \<times> string \<times> world" where
  "create_movement e ctx processID triggered_by w =
     (let (rid, w1) = id_New e PrefixRun w;
          (err, w2) = CreateRun e (movement_params e ctx rid processID triggered_by) w1
      in (err, if err = None then rid else [], w2))"

definition link_movement :: "env \<Rightarrow> string \<Rightarrow> int \<Rightarrow> string \<Rightarrow> world \<Rightarrow> world" where
  "link_movement e ocid step rid w = snd (db_exec e ''LinkMovement'' None
     (on_run rid (\<lambda>r. r\<lparr>r_orchestra_id := Some ocid, r_orchestra_step := Some step\<rparr>)) w)"

definition next_step :: "run \<Rightarrow> int" where
  "next_step run = (case r_orchestra_step run of None \<Rightarrow> 1 | Some n \<Rightarrow> wrap32 (n + 1))"

section \<open>Orchestras\<close>

record orchestra_request =
  or_name :: string
  or_director_type :: string
  or_director_process_id :: "string option"
  or_ai_config :: json
  or_first_musician :: string
  or_secrets :: "string list"

definition requested_orchestra :: "request_ctx \<Rightarrow> string \<Rightarrow> orchestra_request \<Rightarrow> create_orchestra_params" where
  "requested_orchestra ctx ocid q =
     \<lparr>co_id = ocid, co_workspace_id = ctx_WorkspaceID ctx, co_name = or_name q,
      co_director_type = (if or_director_type q = [] then ''none'' else or_director_type q),
      co_director_process_id = or_director_process_id q,
      co_ai_config = (if or_ai_config q = JNull then None else Some (or_ai_config q)),
      co_secrets = or_secrets q, co_budget = None, co_timeout = None, co_timeout_at = None\<rparr>"

definition first_movement ::
  "env \<Rightarrow> request_ctx \<Rightarrow> orchestra_request \<Rightarrow> orchestra \<Rightarrow> world \<Rightarrow> world" where
  "first_movement e ctx q orch w =
     (if or_first_musician q = [] then w
      else let w1 = snd (IncrementMovementCount e (oc_id orch) w);
               (err, rid, w2) = create_movement e ctx (or_first_musician q) None w1
           in link_movement e (oc_id orch) 1 rid w2)"

definition Service_CreateOrchestra ::
  "env \<Rightarrow> request_ctx \<Rightarrow> orchestra_request option \<Rightarrow> world \<Rightarrow> orchestra reply \<times> world" where
  "Service_CreateOrchestra e ctx body w =
     (case body of
        None \<Rightarrow> (writeError 400 ''VALIDATION_ERROR'' ''name is required'' [], w)
      | Some q \<Rightarrow>
          if or_name q = [] then (writeError 400 ''VALIDATION_ERROR'' ''name is required'' [], w)
          else
            let (ocid, w1) = id_New e ''orc_'' w
            in case CreateOrchestra e (requested_orchestra ctx ocid q) w1 of
                 (Inl err, w2) \<Rightarrow>
                   (writeError 500 ''INTERNAL_ERROR'' ''Failed to create orchestra'' (Error err), w2)
               | (Inr orch, w2) \<Rightarrow> (writeJSON 201 orch, first_movement e ctx q orch w2))"

definition Service_ListOrchestras :: "env \<Rightarrow> request_ctx \<Rightarrow> world \<Rightarrow> orchestra list reply" where
  "Service_ListOrchestras e ctx w =
     (case ListOrchestrasByWorkspace e (ctx_WorkspaceID ctx) 50 0 w of
        Inl _ \<Rightarrow> writeError 500 ''INTERNAL_ERROR'' ''Failed to list orchestras'' []
      | Inr xs \<Rightarrow> writeJSON 200 xs)"

definition Service_GetOrchestra :: "env \<Rightarrow> request_ctx \<Rightarrow> string \<Rightarrow> world \<Rightarrow> orchestra reply" where
  "Service_GetOrchestra e ctx ocid w =
     (case GetOrchestra e ocid (ctx_WorkspaceID ctx) w of
        Inl _ \<Rightarrow> writeError 404 ''NOT_FOUND'' ''Orchestra not found'' []
      | Inr x \<Rightarrow> writeJSON 200 x)"

definition Service_GetOrchestraScore ::
  "env \<Rightarrow> request_ctx \<Rightarrow> string \<Rightarrow> world \<Rightarrow> (orchestra \<times> run list) reply" where
  "Service_GetOrchestraScore e ctx ocid w =
     (case GetOrchestra e ocid (ctx_WorkspaceID ctx) w of
        Inl _ \<Rightarrow> writeError 404 ''NOT_FOUND'' ''Orchestra not found'' []
      | Inr x \<Rightarrow> writeJSON 200 (x,
          case ListMovementsByOrchestra e (Some ocid) w of Inl _ \<Rightarrow> [] | Inr ms \<Rightarrow> ms))"

definition Service_CancelOrchestra :: "env \<Rightarrow> string \<Rightarrow> world \<Rightarrow> string reply \<times> world" where
  "Service_CancelOrchestra e ocid w =
     (writeJSON 200 ''cancelled'', snd (UpdateOrchestraState e ocid ''cancelled'' w))"

definition Service_PauseOrchestra ::
  "env \<Rightarrow> request_ctx \<Rightarrow> string \<Rightarrow> world \<Rightarrow> string reply \<times> world" where
  "Service_PauseOrchestra e ctx ocid w =
     (writeJSON 200 ''paused'',
      postSystemChat e ocid (''Orchestra paused by '' @ a_ID (actor_of ctx)) ''status''
        (snd (UpdateOrchestraState e ocid ''paused'' w)))"

definition Service_ResumeOrchestra ::
  "env \<Rightarrow> request_ctx \<Rightarrow> string \<Rightarrow> world \<Rightarrow> string reply \<times> world" where
  "Service_ResumeOrchestra e ctx ocid w =
     (writeJSON 200 ''active'',
      postSystemChat e ocid (''Orchestra resumed by '' @ a_ID (actor_of ctx)) ''status''
        (snd (UpdateOrchestraState e ocid ''active'' w)))"

text \<open>The summary is empty when the body cannot be decoded.\<close>

definition Service_FinishOrchestra :: "env \<Rightarrow> string \<Rightarrow> string \<Rightarrow> world \<Rightarrow> string reply \<times> world" where
  "Service_FinishOrchestra e ocid summary w =
     (writeJSON 200 ''completed'', snd (FinishOrchestra e ocid (Some summary) w))"

section \<open>Steps and choices\<close>

text \<open>The process of the next movement; the payload is not used.\<close>

definition Service_NextMovement ::
  "env \<Rightarrow> request_ctx \<Rightarrow> string \<Rightarrow> string option \<Rightarrow> world \<Rightarrow> run reply \<times> world" where
  "Service_NextMovement e ctx runID body w =
     (case body of
        None \<Rightarrow> (writeError 400 ''VALIDATION_ERROR'' ''process_id is required'' [], w)
      | Some processID \<Rightarrow>
          if processID = [] then
            (writeError 400 ''VALIDATION_ERROR'' ''process_id is required'' [], w)
          else case GetRun e runID (ctx_WorkspaceID ctx) w of
            Inl _ \<Rightarrow> (writeError 404 ''NOT_FOUND'' ''Run not found'' [], w)
          | Inr run \<Rightarrow>
              let w1 = (case r_orchestra_id run of
                          None \<Rightarrow> w
                        | Some ocid \<Rightarrow> snd (IncrementMovementCount e ocid w));
                  (err, rid, w2) = create_movement e ctx processID (Some runID) w1
              in (case err of
                    Some x \<Rightarrow>
                      (writeError 500 ''INTERNAL_ERROR'' ''Failed to create movement'' (Error x), w2)
                  | None \<Rightarrow>
                      (writeJSON 201 (new_run e (movement_params e ctx rid processID (Some runID))),
                       case r_orchestra_id run of
                         None \<Rightarrow> w2
                       | Some ocid \<Rightarrow>
                           if ocid = [] then w2 else link_movement e ocid (next_step run) rid w2)))"

text \<open>\<open>None\<close> is a body that is no JSON; a run that cannot be read is the zero run.\<close>

definition Service_SetChoiceConfig ::
  "env \<Rightarrow> request_ctx \<Rightarrow> string \<Rightarrow> json option \<Rightarrow> world \<Rightarrow> string reply \<times> world" where
  "Service_SetChoiceConfig e ctx runID body w =
     (case body of
        None \<Rightarrow> (writeError 400 ''VALIDATION_ERROR'' ''Invalid JSON'' [], w)
      | Some cfg \<Rightarrow>
          let w1 = snd (SetRunChoiceConfig e runID (Some cfg) w)
          in (writeJSON 200 ''waiting_for_choice'',
              case GetRun e runID (ctx_WorkspaceID ctx) w1 of
                Inl _ \<Rightarrow> w1
              | Inr run \<Rightarrow> (case r_orchestra_id run of
                    None \<Rightarrow> w1
                  | Some ocid \<Rightarrow> snd (UpdateOrchestraState e ocid ''waiting_for_choice'' w1))))"

text \<open>
  The processes of the choices: \<open>json.Unmarshal\<close> into the handler's struct, its error ignored.
\<close>

definition choice_process :: "json \<Rightarrow> string option" where
  "choice_process j = (case j of
     JObj kvs \<Rightarrow> (case map_of kvs ''process_id'' of Some (JStr s) \<Rightarrow> Some s | _ \<Rightarrow> None)
   | _ \<Rightarrow> None)"

definition choices :: "json \<Rightarrow> string option list" where
  "choices j = (case j of
     JObj kvs \<Rightarrow> (case map_of kvs ''choices'' of Some (JArr xs) \<Rightarrow> map choice_process xs | _ \<Rightarrow> [])
   | _ \<Rightarrow> [])"

text \<open>A choice that names a process: the next movement starts, whether or not it could be created.\<close>

definition choose_process ::
  "env \<Rightarrow> request_ctx \<Rightarrow> string \<Rightarrow> run \<Rightarrow> string \<Rightarrow> world \<Rightarrow> (string \<times> string) reply \<times> world" where
  "choose_process e ctx runID run processID w =
     (let w1 = (case r_orchestra_id run of
                  None \<Rightarrow> w
                | Some ocid \<Rightarrow> snd (UpdateOrchestraState e ocid ''active''
                                 (snd (IncrementMovementCount e ocid w))));
          (err, rid, w2) = create_movement e ctx processID (Some runID) w1;
          w3 = (case r_orchestra_id run of
                  None \<Rightarrow> w2
                | Some ocid \<Rightarrow> if ocid = [] then w2 else link_movement e ocid (next_step run) rid w2)
      in (writeJSON 200 (''next_triggered'', rid), w3))"

definition complete_orchestra :: "env \<Rightarrow> run \<Rightarrow> world \<Rightarrow> world" where
  "complete_orchestra e run w =
     (case r_orchestra_id run of
        None \<Rightarrow> w
      | Some ocid \<Rightarrow> snd (UpdateOrchestraState e ocid ''completed'' w))"

text \<open>
  A negative index passes the check, is stored, and then panics; the recovery middleware answers
  500.
\<close>

definition Service_Choose ::
  "env \<Rightarrow> request_ctx \<Rightarrow> string \<Rightarrow> int option \<Rightarrow> world \<Rightarrow> (string \<times> string) reply \<times> world" where
  "Service_Choose e ctx runID body w =
     (case body of
        None \<Rightarrow> (writeError 400 ''VALIDATION_ERROR'' ''choice_index is required'' [], w)
      | Some i \<Rightarrow>
          (case GetRun e runID (ctx_WorkspaceID ctx) w of
             Inl _ \<Rightarrow> (writeError 400 ''VALIDATION_ERROR'' ''Run has no choice config'' [], w)
           | Inr run \<Rightarrow>
               (case r_choice_config run of
                  None \<Rightarrow> (writeError 400 ''VALIDATION_ERROR'' ''Run has no choice config'' [], w)
                | Some cfg \<Rightarrow>
                    if i \<ge> int (length (choices cfg)) then
                      (writeError 400 ''VALIDATION_ERROR'' ''Invalid choice index'' [], w)
                    else
                      let w1 = snd (SetRunChosenIndex e runID (Some i) w)
                      in if i < 0 then (Status 500, panic w1)
                         else case choices cfg ! nat i of
                           Some processID \<Rightarrow>
                             if processID \<noteq> [] then choose_process e ctx runID run processID w1
                             else (writeJSON 200 (''completed'', []), complete_orchestra e run w1)
                         | None \<Rightarrow> (writeJSON 200 (''completed'', []), complete_orchestra e run w1))))"

section \<open>Chat\<close>

record message_request =
  mq_content :: string
  mq_message_type :: string
  mq_sender_type :: string
  mq_data :: json

definition Service_PostChatMessage ::
  "env \<Rightarrow> request_ctx \<Rightarrow> string \<Rightarrow> message_request option \<Rightarrow> world \<Rightarrow> orchestra_message reply \<times> world" where
  "Service_PostChatMessage e ctx ocid body w =
     (case body of
        None \<Rightarrow> (writeError 400 ''VALIDATION_ERROR'' ''content is required'' [], w)
      | Some q \<Rightarrow>
          if mq_content q = [] then (writeError 400 ''VALIDATION_ERROR'' ''content is required'' [], w)
          else
            let (mid, w1) = id_New e ''msg_'' w
            in case CreateChatMessage e
                 \<lparr>cm_id = mid, cm_orchestra_id = ocid,
                  cm_sender_type = (if mq_sender_type q = [] then ''human'' else mq_sender_type q),
                  cm_sender_id = Some (a_ID (actor_of ctx)),
                  cm_message_type = (if mq_message_type q = [] then ''text'' else mq_message_type q),
                  cm_content = mq_content q,
                  cm_data = (if mq_data q = JNull then None else Some (mq_data q))\<rparr> w1 of
                 (Inl err, w2) \<Rightarrow>
                   (writeError 500 ''INTERNAL_ERROR'' ''Failed to post message'' (Error err), w2)
               | (Inr msg, w2) \<Rightarrow> (writeJSON 201 msg, w2))"

definition Service_ListChatMessages :: "env \<Rightarrow> string \<Rightarrow> world \<Rightarrow> orchestra_message list reply" where
  "Service_ListChatMessages e ocid w =
     (case ListChatMessagesAll e ocid 200 0 w of
        Inl _ \<Rightarrow> writeError 500 ''INTERNAL_ERROR'' ''Failed to list messages'' []
      | Inr xs \<Rightarrow> writeJSON 200 xs)"

section \<open>The stream\<close>

datatype stream_event = ChatEvent orchestra_message | StateEvent string int

text \<open>
  One tick: what is written, and the next \<open>lastCheck\<close>, the clock \<open>flushed\<close> after the round. A round
  whose query fails writes nothing and leaves \<open>lastCheck\<close>.
\<close>

definition stream_tick ::
  "env \<Rightarrow> request_ctx \<Rightarrow> string \<Rightarrow> instant \<Rightarrow> instant \<Rightarrow> world \<Rightarrow> stream_event list \<times> instant" where
  "stream_tick e ctx orchID flushed lastCheck w =
     (case ListChatMessages e orchID lastCheck 50 w of
        Inl _ \<Rightarrow> ([], lastCheck)
      | Inr messages \<Rightarrow>
          (map ChatEvent messages @
           (case GetOrchestra e orchID (ctx_WorkspaceID ctx) w of
              Inl _ \<Rightarrow> [] | Inr x \<Rightarrow> [StateEvent (oc_state x) (oc_movement_count x)]),
           flushed))"

primrec stream_rounds ::
  "request_ctx \<Rightarrow> string \<Rightarrow> instant \<Rightarrow> (env \<times> instant \<times> world) list \<Rightarrow> stream_event list" where
  "stream_rounds ctx orchID lastCheck [] = []"
| "stream_rounds ctx orchID lastCheck (r # rs) =
     (let (e, flushed, w) = r; (evs, next) = stream_tick e ctx orchID flushed lastCheck w
      in evs @ stream_rounds ctx orchID next rs)"

text \<open>\<open>flusher\<close> says whether the response writer of the request implements \<open>http.Flusher\<close>.\<close>

definition Service_StreamChat ::
  "bool \<Rightarrow> request_ctx \<Rightarrow> string \<Rightarrow> instant \<Rightarrow> (env \<times> instant \<times> world) list \<Rightarrow> stream_event list reply" where
  "Service_StreamChat flusher ctx orchID now ticks =
     (if \<not> flusher then writeError 500 ''INTERNAL_ERROR'' ''Streaming not supported'' []
      else Data 200 (stream_rounds ctx orchID (now - 5 * second) ticks))"

text \<open>A round writes what is new, up to fifty messages.\<close>

lemma stream_tick_delivers:
  assumes "e_fault e ''ListChatMessages'' = None" "m \<in> set (w_orchestra_chat w)" "om_orchestra_id m = orchID"
    and "lastCheck < om_created_at m"
    and "length (filter (\<lambda>m. om_orchestra_id m = orchID \<and> om_created_at m > lastCheck) (w_orchestra_chat w)) \<le> 50"
  shows "ChatEvent m \<in> set (fst (stream_tick e ctx orchID flushed lastCheck w))"
  using assms by (simp add: stream_tick_def ListChatMessages_def db_read_def)

text \<open>
  A message that is older than the last check is never written: one that is posted after the query
  of a round and before its flush is lost, and so are those beyond the first fifty.
\<close>

lemma stream_looks_forward:
  "\<forall>r\<in>set ticks. last_seen \<le> fst (snd r) \<Longrightarrow> last_seen \<le> lastCheck \<Longrightarrow>
   ChatEvent m \<in> set (stream_rounds ctx orchID lastCheck ticks) \<Longrightarrow> last_seen < om_created_at m"
proof (induction ticks arbitrary: lastCheck)
  case (Cons r ticks)
  obtain e flushed w where r: "r = (e, flushed, w)" by (cases r)
  obtain evs next_check where t: "stream_tick e ctx orchID flushed lastCheck w = (evs, next_check)" by fastforce
  have "next_check = lastCheck \<or> next_check = flushed"
    using t by (auto simp: stream_tick_def split: sum.splits)
  moreover have "lastCheck < om_created_at m" if "ChatEvent m \<in> set evs"
    using that t by (auto simp: stream_tick_def ListChatMessages_def db_read_def
        split: sum.splits option.splits dest!: in_set_takeD)
  ultimately show ?case
    using Cons.IH [of next_check] Cons.prems r t by auto
qed simp

text \<open>The messages of an orchestra are streamed to the members of any workspace.\<close>

lemma stream_ignores_workspace:
  "filter (\<lambda>v. \<exists>m. v = ChatEvent m) (fst (stream_tick e ctx orchID flushed lastCheck w)) =
   filter (\<lambda>v. \<exists>m. v = ChatEvent m) (fst (stream_tick e ctx' orchID flushed lastCheck w))"
  by (auto simp: stream_tick_def split: sum.splits)

section \<open>The simulated chat\<close>

text \<open>
  The model behind the chat is a parameter: what it answers to a list of messages and a bound on
  tokens.
\<close>

record chat_request =
  chr_Messages :: "(string \<times> string) list list"
  chr_MaxTokens :: int

definition Service_ChatSimulate ::
  "string \<Rightarrow> (string \<Rightarrow> (string \<times> string) list list \<Rightarrow> int \<Rightarrow> go_error + int \<times> string) \<Rightarrow> chat_request option \<Rightarrow> string reply" where
  "Service_ChatSimulate groqKey groq body =
     (if groqKey = [] then writeError 501 ''NOT_CONFIGURED'' ''Chat simulation not configured'' []
      else case body of
        None \<Rightarrow> writeError 400 ''VALIDATION_ERROR'' ''Invalid request body'' []
      | Some req \<Rightarrow>
          if chr_Messages req = [] then writeError 400 ''VALIDATION_ERROR'' ''messages is required'' []
          else
            let maxTokens = (if chr_MaxTokens req = 0 \<or> chr_MaxTokens req > 300 then 150 else chr_MaxTokens req)
            in case groq groqKey (chr_Messages req) maxTokens of
                 Inl _ \<Rightarrow> writeError 502 ''UPSTREAM_ERROR'' ''Failed to reach AI provider'' []
               | Inr (status, answer) \<Rightarrow> Data status answer)"

text \<open>No request asks for more than three hundred tokens.\<close>

lemma chat_tokens_bounded:
  "Service_ChatSimulate key groq body =
   Service_ChatSimulate key (\<lambda>k ms n. if n \<le> 300 then groq k ms n else Inl (ErrText [])) body"
  by (auto simp: Service_ChatSimulate_def Let_def split: option.splits)

section \<open>Results of runs\<close>

text \<open>\<open>None\<close>: a body that is no JSON.\<close>

definition Service_SetRunResult :: "env \<Rightarrow> string \<Rightarrow> json option \<Rightarrow> world \<Rightarrow> string reply \<times> world" where
  "Service_SetRunResult e runID body w =
     (case body of
        None \<Rightarrow> (writeError 400 ''VALIDATION_ERROR'' ''Body must be valid JSON'' [], w)
      | Some res \<Rightarrow>
          (case SetRunResult e runID (Some res) w of
             (Some _, w1) \<Rightarrow> (writeError 500 ''INTERNAL_ERROR'' ''Failed to set result'' [], w1)
           | (None, w1) \<Rightarrow> (writeJSON 200 ''ok'', w1)))"

definition Service_GetRunResult :: "env \<Rightarrow> string \<Rightarrow> world \<Rightarrow> json reply" where
  "Service_GetRunResult e runID w =
     (case GetRunResult e runID w of
        Inl _ \<Rightarrow> writeError 404 ''NOT_FOUND'' ''Run not found'' []
      | Inr (_, res) \<Rightarrow> writeJSON 200 (case res of None \<Rightarrow> JNull | Some j \<Rightarrow> j))"

end
