(* ===== verification/Orchestra_Properties.thy ===== *)
theory Orchestra_Properties
  imports Orchestra_Handlers Run_Api_Properties
begin

text \<open>
  What holds of orchestras: which movements are created, what the monitor ends, and when it warns.
\<close>

section \<open>Movements\<close>

lemma create_movement_fails:
  obtains err where "create_movement e ctx p t w = (Some err, [], snd (id_New e PrefixRun w))"
proof -
  obtain err where "CreateRun e (movement_params e ctx (fst (id_New e PrefixRun w)) p t)
      (snd (id_New e PrefixRun w)) = (Some err, snd (id_New e PrefixRun w))"
  proof -
    have "create_run_violation (movement_params e ctx (fst (id_New e PrefixRun w)) p t)
        (snd (id_New e PrefixRun w)) \<noteq> None"
      unfolding create_run_violation_def first_violation_None_iff
      by (simp add: movement_params_def run_origins_def)
    then obtain x where x: "create_run_violation (movement_params e ctx (fst (id_New e PrefixRun w)) p t)
        (snd (id_New e PrefixRun w)) = Some x" by blast
    show ?thesis
      by (cases "e_fault e ''CreateRun''") (use that in \<open>simp_all add: CreateRun_def db_exec_def x\<close>)
  qed
  then show ?thesis by (intro that) (simp add: create_movement_def Let_def split_beta)
qed

lemma id_New_tables [simp]:
  "w_runs (snd (id_New e prefix w)) = w_runs w" "w_orchestras (snd (id_New e prefix w)) = w_orchestras w"
  "w_orchestra_chat (snd (id_New e prefix w)) = w_orchestra_chat w"
  by (simp_all add: id_New_def)

text \<open>A statement on orchestras or on their chat leaves the runs alone.\<close>

lemma orchestra_frames [simp]:
  "w_runs (on_orchestra ocid f w) = w_runs w"
  "w_runs (snd (IncrementMovementCount e ocid w)) = w_runs w"
  "w_runs (snd (UpdateOrchestraState e ocid st w)) = w_runs w"
  "w_runs (snd (CreateOrchestra e a w)) = w_runs w"
  "w_runs (snd (CreateChatMessage e m w)) = w_runs w"
  "w_runs (postSystemChat e ocid content kind w) = w_runs w"
  by (auto simp: on_orchestra_def IncrementMovementCount_def UpdateOrchestraState_def CreateOrchestra_def
      CreateChatMessage_def postSystemChat_def returning_def db_exec_def id_New_def Let_def split: option.split)

definition run_ids :: "world \<Rightarrow> string list" where
  "run_ids w = map r_id (w_runs w)"

lemma run_ids_link [simp]: "run_ids (link_movement e ocid n rid w) = run_ids w"
  by (simp add: run_ids_def link_movement_def on_run_def db_exec_def map_update_key split: option.split)

lemma run_ids_chosen [simp]: "run_ids (snd (SetRunChosenIndex e rid i w)) = run_ids w"
  by (simp add: run_ids_def SetRunChosenIndex_def on_run_def db_exec_def map_update_key split: option.split)

lemma run_ids_movement [simp]: "run_ids (snd (snd (create_movement e ctx p t w))) = run_ids w"
proof -
  obtain err where "create_movement e ctx p t w = (Some err, [], snd (id_New e PrefixRun w))"
    by (rule create_movement_fails)
  then show ?thesis by (simp add: run_ids_def)
qed

lemma run_ids_frames [simp]:
  "run_ids (snd (id_New e prefix w)) = run_ids w"
  "run_ids (snd (IncrementMovementCount e ocid w)) = run_ids w"
  "run_ids (snd (UpdateOrchestraState e ocid st w)) = run_ids w"
  "run_ids (snd (CreateOrchestra e a w)) = run_ids w"
  by (simp_all add: run_ids_def)

lemma run_ids_choose: "run_ids (snd (choose_process e ctx rid r p w)) = run_ids w"
  by (cases "r_orchestra_id r") (simp_all add: choose_process_def Let_def split_beta)

lemma run_ids_complete: "run_ids (complete_orchestra e r w) = run_ids w"
  by (cases "r_orchestra_id r") (simp_all add: complete_orchestra_def)

lemma run_ids_first: "run_ids (first_movement e ctx q x w) = run_ids w"
  by (simp add: first_movement_def Let_def split_beta)

lemma run_ids_panic [simp]: "run_ids (panic w) = run_ids w"
  by (simp add: run_ids_def panic_def)

text \<open>
  No movement is ever created: its origin is not one the table of runs admits. Making an
  orchestra with a first musician, asking for the next movement and choosing add no run; the first
  and the third answer with success all the same, the choice with an empty run id.
\<close>

theorem movements_never_start:
  "run_ids (snd (Service_CreateOrchestra e ctx q w)) = run_ids w \<and>
   run_ids (snd (Service_NextMovement e ctx rid body w)) = run_ids w \<and>
   400 \<le> reply_status (fst (Service_NextMovement e ctx rid body w)) \<and>
   run_ids (snd (Service_Choose e ctx rid choice w)) = run_ids w \<and>
   fst (choose_process e ctx rid run p w) = Data 200 (''next_triggered'', [])"
proof (intro conjI)
  show "run_ids (snd (Service_CreateOrchestra e ctx q w)) = run_ids w"
  proof (cases q)
    case (Some v)
    show ?thesis
    proof (cases "CreateOrchestra e (requested_orchestra ctx (fst (id_New e ''orc_'' w)) v) (snd (id_New e ''orc_'' w))")
      case (Pair a w2)
      have "run_ids w2 = run_ids w"
        using arg_cong[OF Pair, of "\<lambda>p. run_ids (snd p)"] by simp
      then show ?thesis
        by (cases a) (simp_all add: Service_CreateOrchestra_def Some Pair split_beta run_ids_first)
    qed
  qed (simp add: Service_CreateOrchestra_def)
  show "run_ids (snd (Service_NextMovement e ctx rid body w)) = run_ids w"
  proof (cases body)
    case (Some p)
    show ?thesis
    proof (cases "GetRun e rid (ctx_WorkspaceID ctx) w")
      case (Inr run)
      define w1 where "w1 = (case r_orchestra_id run of None \<Rightarrow> w
        | Some ocid \<Rightarrow> snd (IncrementMovementCount e ocid w))"
      have "run_ids w1 = run_ids w" by (cases "r_orchestra_id run") (simp_all add: w1_def)
      moreover obtain err where "create_movement e ctx p (Some rid) w1 = (Some err, [], snd (id_New e PrefixRun w1))"
        by (rule create_movement_fails)
      ultimately show ?thesis
        by (simp add: Service_NextMovement_def Some Inr flip: w1_def)
    qed (simp add: Service_NextMovement_def Some)
  qed (simp add: Service_NextMovement_def)
  show "400 \<le> reply_status (fst (Service_NextMovement e ctx rid body w))"
  proof (cases body)
    case (Some p)
    show ?thesis
    proof (cases "GetRun e rid (ctx_WorkspaceID ctx) w")
      case (Inr run)
      define w1 where "w1 = (case r_orchestra_id run of None \<Rightarrow> w
        | Some ocid \<Rightarrow> snd (IncrementMovementCount e ocid w))"
      obtain err where "create_movement e ctx p (Some rid) w1 = (Some err, [], snd (id_New e PrefixRun w1))"
        by (rule create_movement_fails)
      then show ?thesis
        by (simp add: Service_NextMovement_def Some Inr writeError_def flip: w1_def)
    qed (simp add: Service_NextMovement_def Some writeError_def)
  qed (simp add: Service_NextMovement_def writeError_def)
  show "run_ids (snd (Service_Choose e ctx rid choice w)) = run_ids w"
    by (simp add: Service_Choose_def Let_def run_ids_choose run_ids_complete split: option.split sum.split)
  define w1 where "w1 = (case r_orchestra_id run of None \<Rightarrow> w
    | Some ocid \<Rightarrow> snd (UpdateOrchestraState e ocid ''active'' (snd (IncrementMovementCount e ocid w))))"
  obtain err where "create_movement e ctx p (Some rid) w1 = (Some err, [], snd (id_New e PrefixRun w1))"
    by (rule create_movement_fails)
  then show "fst (choose_process e ctx rid run p w) = Data 200 (''next_triggered'', [])"
    by (simp add: choose_process_def writeJSON_def flip: w1_def)
qed

text \<open>
  A negative choice passes the check of the index, is stored in the run, and then makes the
  handler panic.
\<close>

theorem negative_choice_panics:
  assumes "GetRun e rid (ctx_WorkspaceID ctx) w = Inr run" "r_choice_config run = Some cfg" "i < 0"
    and "no_faults e"
  shows "fst (Service_Choose e ctx rid (Some i) w) = Status 500 \<and>
    w_panicked (snd (Service_Choose e ctx rid (Some i) w)) \<and>
    w_runs (snd (Service_Choose e ctx rid (Some i) w)) =
      update_key r_id rid (\<lambda>r. r\<lparr>r_chosen_index := Some i, r_updated_at := e_db_now e\<rparr>) (w_runs w)"
proof -
  have "\<not> int (length (choices cfg)) \<le> i" using assms(3) by simp
  then show ?thesis
    using assms
    by (simp add: Service_Choose_def SetRunChosenIndex_def db_exec_def no_faults_def panic_def on_run_def)
qed


section \<open>What the monitor ends\<close>

lemma update_where_twice:
  "(\<And>r. Q r \<Longrightarrow> P (f r) \<Longrightarrow> f (f r) = f r) \<Longrightarrow>
   update_where P f (update_where Q f rows) = update_where (\<lambda>r. Q r \<or> P r) f rows"
  by (simp add: update_where_def)

lemma update_where_iff:
  "(\<And>r. P r = Q r) \<Longrightarrow> update_where P f rows = update_where Q f rows"
  by (simp add: update_where_def)

definition killed :: "env \<Rightarrow> run \<Rightarrow> run" where
  "killed e r = r\<lparr>r_state := Killed, r_updated_at := e_db_now e\<rparr>"

definition failed :: "env \<Rightarrow> orchestra \<Rightarrow> orchestra" where
  "failed e x = x\<lparr>oc_state := ''failed'', oc_updated_at := e_db_now e\<rparr>"

lemma failed_id [simp]: "oc_id (failed e x) = oc_id x" "failed e (failed e x) = failed e x"
  by (simp_all add: failed_def)

lemma chat_frames [simp]:
  "w_orchestras (snd (CreateChatMessage e m w)) = w_orchestras w"
  "w_orchestras (postSystemChat e ocid content kind w) = w_orchestras w"
  by (auto simp: CreateChatMessage_def postSystemChat_def returning_def db_exec_def Let_def split_beta
      split: option.split)

lemma fail_orchestra_runs:
  assumes "no_faults e"
  shows "w_runs (fail_orchestra e content ocid w) = update_where (doomed ocid) (killed e) (w_runs w)"
  using assms
  by (simp add: fail_orchestra_def kill_movements_def db_exec_def no_faults_def killed_def[abs_def])

lemma fail_orchestra_row:
  assumes "no_faults e"
  shows "w_orchestras (fail_orchestra e content ocid w) = update_key oc_id ocid (failed e) (w_orchestras w)"
  using assms
  by (simp add: fail_orchestra_def kill_movements_def UpdateOrchestraState_def db_exec_def
      no_faults_def orchestra_states_def on_orchestra_def failed_def[abs_def])

lemma fail_orchestras_runs:
  assumes "no_faults e"
  shows "w_runs (fold (\<lambda>x. fail_orchestra e content (oc_id x)) xs w) =
    update_where (\<lambda>r. \<exists>x\<in>set xs. doomed (oc_id x) r) (killed e) (w_runs w)"
proof (induction xs arbitrary: w)
  case Nil
  show ?case by (simp add: update_where_def)
next
  case (Cons x xs)
  show ?case
    unfolding fold.simps comp_apply Cons.IH fail_orchestra_runs[OF assms]
    by (subst update_where_twice) (auto simp: doomed_def killed_def intro!: update_where_iff)
qed

lemma fail_orchestras_rows:
  assumes "no_faults e"
  shows "w_orchestras (fold (\<lambda>x. fail_orchestra e content (oc_id x)) xs w) =
    update_where (\<lambda>y. \<exists>x\<in>set xs. oc_id x = oc_id y) (failed e) (w_orchestras w)"
proof (induction xs arbitrary: w)
  case Nil
  show ?case by (simp add: update_where_def)
next
  case (Cons x xs)
  show ?case
    unfolding fold.simps comp_apply Cons.IH fail_orchestra_row[OF assms] update_key_def
    by (subst update_where_twice) (auto intro!: update_where_iff)
qed


section \<open>Budgets\<close>

lemma check_amount_effect:
  "fst (check_amount fmt0 e ocid used kl (b, v)) = (b \<or> ratio_reaches (amount (fst kl) used) (snd kl) 1)"
  "w_runs (snd (check_amount fmt0 e ocid used kl (b, v))) = w_runs v"
  "w_orchestras (snd (check_amount fmt0 e ocid used kl (b, v))) = w_orchestras v"
  by (simp_all add: check_amount_def Let_def split_beta)

text \<open>
  An orchestra fails for its budget exactly if one of its amounts reaches its limit, whatever
  the order in which the amounts are visited; otherwise neither it nor its movements change.
\<close>

theorem check_budget_decides:
  assumes "no_faults e"
  shows "w_runs (check_budget fmt0 e x w) =
      (if \<exists>(key, limit) \<in> set (amounts (oc_budget x)). ratio_reaches (amount key (amounts (oc_budget_used x))) limit 1
       then update_where (doomed (oc_id x)) (killed e) (w_runs w) else w_runs w) \<and>
    w_orchestras (check_budget fmt0 e x w) =
      (if \<exists>(key, limit) \<in> set (amounts (oc_budget x)). ratio_reaches (amount key (amounts (oc_budget_used x))) limit 1
       then update_key oc_id (oc_id x) (failed e) (w_orchestras w) else w_orchestras w)"
proof -
  let ?used = "amounts (oc_budget_used x)"
  let ?over = "\<lambda>kl. ratio_reaches (amount (fst kl) ?used) (snd kl) 1"
  have visit: "fst (fold (check_amount fmt0 e (oc_id x) ?used) kls (b, v)) = (b \<or> (\<exists>kl\<in>set kls. ?over kl)) \<and>
      w_runs (snd (fold (check_amount fmt0 e (oc_id x) ?used) kls (b, v))) = w_runs v \<and>
      w_orchestras (snd (fold (check_amount fmt0 e (oc_id x) ?used) kls (b, v))) = w_orchestras v" for kls b v
  proof (induction kls arbitrary: b v)
    case (Cons kl kls)
    obtain b' v' where one: "check_amount fmt0 e (oc_id x) ?used kl (b, v) = (b', v')"
      by (cases "check_amount fmt0 e (oc_id x) ?used kl (b, v)")
    show ?case
      using check_amount_effect[of fmt0 e "oc_id x" ?used kl b v] unfolding one
      by (simp add: one Cons.IH)
  qed simp
  obtain over v where fv: "fold (check_amount fmt0 e (oc_id x) ?used) (amounts (oc_budget x)) (False, w) = (over, v)"
    by (cases "fold (check_amount fmt0 e (oc_id x) ?used) (amounts (oc_budget x)) (False, w)")
  have "over = (\<exists>kl\<in>set (amounts (oc_budget x)). ?over kl)" "w_runs v = w_runs w" "w_orchestras v = w_orchestras w"
    using visit[of "amounts (oc_budget x)" False w] unfolding fv by auto
  then show ?thesis
    by (simp add: check_budget_def fv fail_orchestra_runs[OF assms] fail_orchestra_row[OF assms] split_beta)
qed

text \<open>A pattern without a backslash matches itself.\<close>

lemma sql_like_any: "sql_like ps s \<Longrightarrow> sql_like (CHR ''%'' # ps) s"
  by (cases s) simp_all

lemma sql_like_prefix: "sql_like (CHR ''%'' # ps) s \<Longrightarrow> sql_like (CHR ''%'' # ps) (pre @ s)"
  by (induction pre) simp_all

lemma sql_like_self: "char_of (92 :: nat) \<notin> set key \<Longrightarrow> sql_like ps s \<Longrightarrow> sql_like (key @ ps) (key @ s)"
  by (induction key) (auto intro: sql_like_any)

lemma sql_like_contains:
  assumes "char_of (92 :: nat) \<notin> set key"
  shows "sql_like (''%'' @ key @ ''%'') (pre @ key @ post)"
proof -
  have tail: "sql_like ''%'' post" by (induction post) simp_all
  show ?thesis
    using sql_like_prefix[OF sql_like_any[OF sql_like_self[OF assms tail]]] by simp
qed

text \<open>A message that the table takes is found again within ten minutes.\<close>

lemma warning_is_recent:
  assumes "no_faults e" "no_faults e'" "has_key oc_id ocid (w_orchestras w)"
    and "\<not> has_key om_id (fst (id_New e ''msg_'' w)) (w_orchestra_chat w)"
    and "char_of (92 :: nat) \<notin> set key" "e_db_now e' - 10 * minute < e_db_now e"
  shows "hasRecentWarning e' ocid key (postSystemChat e ocid (pre @ key @ post) ''warning'' w)"
proof -
  let ?m = "\<lparr>cm_id = fst (id_New e ''msg_'' w), cm_orchestra_id = ocid, cm_sender_type = ''system'',
    cm_sender_id = None, cm_message_type = ''warning'', cm_content = pre @ key @ post, cm_data = None\<rparr>"
  have "new_message e ?m \<in> set (w_orchestra_chat (postSystemChat e ocid (pre @ key @ post) ''warning'' w))"
    using assms(1,3,4)
    by (simp add: postSystemChat_def CreateChatMessage_def returning_def db_exec_def no_faults_def
        split_beta sender_types_def message_types_def)
  then show ?thesis
    using assms(2,6) sql_like_contains[OF assms(5), of pre post]
    unfolding hasRecentWarning_def
    by (intro conjI bexI[of _ "new_message e ?m"]) (simp_all add: new_message_def no_faults_def)
qed

text \<open>
  A budget warns once: after an amount between four fifths of its limit and the limit has been
  visited, further visits in the next ten minutes change nothing. Without faults, and for a key
  without a backslash, which the pattern of the search takes for an escape.
\<close>

theorem budget_warns_once:
  assumes "no_faults e" "no_faults e'" "has_key oc_id ocid (w_orchestras w)"
    and "\<not> has_key om_id (fst (id_New e ''msg_'' w)) (w_orchestra_chat w)"
    and "char_of (92 :: nat) \<notin> set key" "e_db_now e' - 10 * minute < e_db_now e"
    and "\<not> hasRecentWarning e ocid key w"
    and "ratio_reaches (amount key used) limit (8 / 10)" "\<not> ratio_reaches (amount key used) limit 1"
  shows "\<exists>content. check_amount fmt0 e ocid used (key, limit) (exceeded, w) =
      (exceeded, postSystemChat e ocid content ''warning'' w) \<and>
    check_amount fmt0 e' ocid used (key, limit) (check_amount fmt0 e ocid used (key, limit) (exceeded, w)) =
      check_amount fmt0 e ocid used (key, limit) (exceeded, w)"
proof -
  let ?content = "budget_warning fmt0 key (amount key used) limit"
  have first: "check_amount fmt0 e ocid used (key, limit) (exceeded, w) =
      (exceeded, postSystemChat e ocid ?content ''warning'' w)"
    using assms(7-9) by (simp add: check_amount_def)
  have "hasRecentWarning e' ocid key (postSystemChat e ocid ?content ''warning'' w)"
    unfolding budget_warning_def by (rule warning_is_recent[OF assms(1-6)])
  then show ?thesis
    unfolding first using assms(9) by (intro exI[of _ ?content]) (simp add: check_amount_def)
qed

section \<open>Witnesses\<close>

definition sample_orchestra :: "string \<Rightarrow> instant option \<Rightarrow> orchestra" where
  "sample_orchestra ocid deadline = new_orchestra (calm 0)
     \<lparr>co_id = ocid, co_workspace_id = ''wsp_1'', co_name = ''o'', co_director_type = ''none'',
      co_director_process_id = None, co_ai_config = None, co_secrets = [],
      co_budget = Some (JObj [(''steps'', JNum 10)]), co_timeout = None, co_timeout_at = deadline\<rparr>"

definition sample_score :: "rat \<Rightarrow> world" where
  "sample_score used = (sample_world [] [(sample_run ''run_1'' Running)\<lparr>r_orchestra_id := Some ''orc_1''\<rparr>])
     \<lparr>w_orchestras := [(sample_orchestra ''orc_1'' (Some 5))\<lparr>oc_budget_used := Some (JObj [(''steps'', JNum used)])\<rparr>]\<rparr>"

lemma negative_choice_panics_witness:
  "w_panicked (snd (Service_Choose (calm 0) (sample_actor ''wsp_1'') ''run_1'' (Some (- 1))
     (sample_world [] [(sample_run ''run_1'' Running)\<lparr>r_choice_config := Some (JObj [])\<rparr>])))"
proof -
  let ?run = "(sample_run ''run_1'' Running)\<lparr>r_choice_config := Some (JObj [])\<rparr>"
  have "GetRun (calm 0) ''run_1'' (ctx_WorkspaceID (sample_actor ''wsp_1'')) (sample_world [] [?run]) = Inr ?run"
    by (simp add: GetRun_def db_read_def one_row_def sample_world_def sample_run_def new_run_def
        sample_params_def sample_actor_def calm_def ctx_WorkspaceID_def)
  from negative_choice_panics[OF this, of "JObj []" "- 1"] show ?thesis by (simp add: no_faults_calm)
qed


lemma check_budget_decides_witness:
  "map r_state (w_runs (check_budget (\<lambda>_. []) (calm 9) (hd (w_orchestras (sample_score 10))) (sample_score 10))) = [Killed] \<and>
   map r_state (w_runs (check_budget (\<lambda>_. []) (calm 9) (hd (w_orchestras (sample_score 9))) (sample_score 9))) = [Running]"
  using check_budget_decides[OF no_faults_calm, THEN conjunct1, of "\<lambda>_. []" 9 "hd (w_orchestras (sample_score 10))" "sample_score 10"]
    check_budget_decides[OF no_faults_calm, THEN conjunct1, of "\<lambda>_. []" 9 "hd (w_orchestras (sample_score 9))" "sample_score 9"]
  by (simp add: sample_score_def sample_orchestra_def new_orchestra_def amounts_def amount_def
      ratio_reaches_def doomed_def killed_def sample_world_def sample_run_def new_run_def sample_params_def)

lemma budget_warns_once_witness:
  "check_amount (\<lambda>_. []) (calm 60000) ''orc_1'' [(''steps'', 9)] (''steps'', 10)
     (check_amount (\<lambda>_. []) (calm 9) ''orc_1'' [(''steps'', 9)] (''steps'', 10) (False, sample_score 9)) =
   check_amount (\<lambda>_. []) (calm 9) ''orc_1'' [(''steps'', 9)] (''steps'', 10) (False, sample_score 9)"
proof -
  have row: "has_key oc_id ''orc_1'' (w_orchestras (sample_score 9))"
    by (simp add: sample_score_def sample_orchestra_def new_orchestra_def has_key_def)
  have chat: "w_orchestra_chat (sample_score 9) = []"
    by (simp add: sample_score_def sample_world_def empty_world_def)
  have "\<exists>content. check_amount (\<lambda>_. []) (calm 9) ''orc_1'' [(''steps'', 9)] (''steps'', 10) (False, sample_score 9) =
      (False, postSystemChat (calm 9) ''orc_1'' content ''warning'' (sample_score 9)) \<and>
    check_amount (\<lambda>_. []) (calm 60000) ''orc_1'' [(''steps'', 9)] (''steps'', 10)
      (check_amount (\<lambda>_. []) (calm 9) ''orc_1'' [(''steps'', 9)] (''steps'', 10) (False, sample_score 9)) =
    check_amount (\<lambda>_. []) (calm 9) ''orc_1'' [(''steps'', 9)] (''steps'', 10) (False, sample_score 9)"
    by (rule budget_warns_once[OF no_faults_calm no_faults_calm row])
      (simp_all add: chat has_key_def hasRecentWarning_def amount_def ratio_reaches_def calm_def char_of_def)
  then show ?thesis by blast
qed

end
