(* ===== verification/Exec_Http.thy ===== *)
theory Exec_Http
  imports Orchestrator Ssrf
begin

text \<open>
  The HTTP execution method, \<open>internal/executor/http/http.go\<close>, as an implementation of the contract
  of \<open>Exec_Method\<close>: one request that is waited for, one that is only accepted, and one whose outcome
  is polled later. What the remote side answers to a request is a parameter, and so is what Go's
  library does with texts of JSON and with the names of headers. The headers of a request, which Go
  visits in a random order, are visited in the order of the object.
\<close>

section \<open>Strings and settings\<close>

text \<open>\<open>strings.ReplaceAll\<close>, for a text to replace that is not empty.\<close>

function ReplaceAll :: "string \<Rightarrow> string \<Rightarrow> string \<Rightarrow> string" where
  "ReplaceAll old new [] = []"
| "ReplaceAll old new (c # cs) =
     (if old \<noteq> [] \<and> HasPrefix (c # cs) old
      then new @ ReplaceAll old new (drop (length old - 1) cs)
      else c # ReplaceAll old new cs)"
  by pat_completeness auto
termination
  by (relation "measure (\<lambda>(old, new, s). length s)") auto

definition ToUpper :: "string \<Rightarrow> string" where
  "ToUpper = map (\<lambda>c. let n = (of_char c :: nat) in if 97 \<le> n \<and> n \<le> 122 then char_of (n - 32) else c)"

text \<open>Reading from a nil map is reading from an empty one.\<close>

definition entries :: "go_map option \<Rightarrow> go_map" where
  "entries m = (case m of None \<Rightarrow> [] | Some kvs \<Rightarrow> kvs)"

definition getString :: "go_map option \<Rightarrow> string \<Rightarrow> string" where
  "getString cfg key = map_string (entries cfg) key"

definition getMap :: "go_map option \<Rightarrow> string \<Rightarrow> go_map option" where
  "getMap cfg key = (case map_of (entries cfg) key of Some (JObj kvs) \<Rightarrow> Some kvs | _ \<Rightarrow> None)"

text \<open>The conversion of a \<open>float64\<close> to an integer cuts the fraction off.\<close>

definition go_int :: "rat \<Rightarrow> int" where
  "go_int x = (if x < 0 then \<lceil>x\<rceil> else \<lfloor>x\<rfloor>)"

fun int_items :: "json list \<Rightarrow> int list" where
  "int_items [] = []"
| "int_items (JNum x # js) = go_int x # int_items js"
| "int_items (_ # js) = int_items js"

definition getIntSlice :: "go_map option \<Rightarrow> string \<Rightarrow> int list" where
  "getIntSlice cfg key = (case map_of (entries cfg) key of Some (JArr js) \<Rightarrow> int_items js | _ \<Rightarrow> [])"

fun string_items :: "json list \<Rightarrow> string list" where
  "string_items [] = []"
| "string_items (JStr s # js) = s # string_items js"
| "string_items (_ # js) = string_items js"

definition getStringSlice :: "go_map option \<Rightarrow> string \<Rightarrow> string list" where
  "getStringSlice cfg key =
     (case map_of (entries cfg) key of Some (JArr js) \<Rightarrow> string_items js | _ \<Rightarrow> [])"

definition defaultedStatusCodes :: "int list \<Rightarrow> int list \<Rightarrow> int list" where
  "defaultedStatusCodes values defaults = (if values \<noteq> [] then values else defaults)"

definition defaultAcceptedCodes :: "go_map option \<Rightarrow> int list" where
  "defaultAcceptedCodes cfg = defaultedStatusCodes (getIntSlice cfg ''accepted_status_codes'') [200, 201, 202]"

definition derefInt :: "int option \<Rightarrow> int" where
  "derefInt v = (case v of None \<Rightarrow> 0 | Some n \<Rightarrow> n)"

definition defaultString :: "string \<Rightarrow> string \<Rightarrow> string" where
  "defaultString v fallback = (if v = [] then fallback else v)"

text \<open>The loop of \<open>extractString\<close> along the parts of the path.\<close>

fun walk_path :: "json \<Rightarrow> string list \<Rightarrow> json option" where
  "walk_path j [] = Some j"
| "walk_path (JObj kvs) (p # ps) = (case map_of kvs p of None \<Rightarrow> None | Some j \<Rightarrow> walk_path j ps)"
| "walk_path _ (p # ps) = None"

definition extractString :: "go_map option \<Rightarrow> string \<Rightarrow> string option" where
  "extractString data path =
     (case data of
        None \<Rightarrow> None
      | Some kvs \<Rightarrow>
          if path = [] then None
          else case walk_path (JObj kvs) (strings_Split (CHR ''.'') path) of
                 Some (JStr s) \<Rightarrow> Some s
               | Some (JNum x) \<Rightarrow> Some (Itoa (go_int x))
               | _ \<Rightarrow> None)"

section \<open>Templates\<close>

definition substituteTemplates :: "string \<Rightarrow> string \<Rightarrow> execute_params \<Rightarrow> string" where
  "substituteTemplates now s params =
     ReplaceAll ''{{now}}'' now
       (ReplaceAll ''{{workspace.id}}'' (ep_workspace_id params)
         (ReplaceAll ''{{run.id}}'' (ep_run_id params) s))"

definition substituteTrackedTemplate :: "string \<Rightarrow> string \<Rightarrow> string \<Rightarrow> string \<Rightarrow> string" where
  "substituteTrackedTemplate s runID workspaceID jobID =
     ReplaceAll ''{{job.id}}'' jobID
       (ReplaceAll ''{{workspace.id}}'' workspaceID (ReplaceAll ''{{run.id}}'' runID s))"

section \<open>One request\<close>

record request_spec =
  qs_URL :: string
  qs_Method :: string
  qs_Headers :: "go_map option"
  qs_Body :: string
  qs_Payload :: "json option"

text \<open>The request that leaves the process.\<close>

record http_call =
  hq_method :: string
  hq_url :: string
  hq_headers :: "(string \<times> string) list"
  hq_body :: "string option"

text \<open>
  The world of one call of the method: \<open>url.Parse\<close>, the errors of \<open>http.NewRequest\<close>, the canonical
  names of headers, the texts of JSON values and their parser into a map, the answer to a request
  with its status and its whole body, the text of the time, the milliseconds that have passed, and
  the limit of the method.
\<close>

record http_client =
  hc_parse :: "string \<Rightarrow> (string \<times> string) option"
  hc_new_request :: "string \<Rightarrow> string \<Rightarrow> go_error option"
  hc_canonical :: "string \<Rightarrow> string"
  hc_json_text :: "json \<Rightarrow> string"
  hc_unmarshal :: "string \<Rightarrow> go_map option"
  hc_do :: "http_call \<Rightarrow> go_error + int \<times> string"
  hc_now_text :: string
  hc_now :: instant
  hc_elapsed :: int
  hc_maxResponseSize :: nat

definition no_result :: result where
  "no_result = \<lparr>res_exit_code = None, res_response_code = None, res_stdout = [], res_stderr = [],
     res_response_body = [], res_duration_ms = 0, res_error = None\<rparr>"

text \<open>The text of a refused URL; the parser's own error is cut off.\<close>

fun ip_reason_text :: "ip_reason \<Rightarrow> string" where
  "ip_reason_text Loopback = ''loopback address''"
| "ip_reason_text PrivateAddress = ''private address''"
| "ip_reason_text LinkLocal = ''link-local address''"
| "ip_reason_text CloudMetadata = ''cloud metadata endpoint''"
| "ip_reason_text Unspecified = ''unspecified address''"

fun ssrf_text :: "ssrf_error \<Rightarrow> string" where
  "ssrf_text InvalidURL = ''invalid URL''"
| "ssrf_text (UnsupportedScheme s) = ''unsupported scheme '' @ quoted s @ '': only http and https are allowed''"
| "ssrf_text MustHaveHostname = ''URL must have a hostname''"
| "ssrf_text (BlockedHostname h) = ''blocked hostname: '' @ h"
| "ssrf_text (BlockedHostnameSuffix h) = ''blocked hostname suffix: '' @ h"
| "ssrf_text (ResolutionFailed h) = ''DNS resolution failed for '' @ h"
| "ssrf_text (BlockedIP i h why) = ''blocked IP '' @ i @ '': '' @ ip_reason_text why"
| "ssrf_text (NotInAllowedDomains h) = ''host '' @ quoted h @ '' not in allowed domains''"

definition request_body :: "http_client \<Rightarrow> execute_params \<Rightarrow> request_spec \<Rightarrow> string option" where
  "request_body c params spec =
     (if qs_Method spec \<notin> {''POST'', ''PUT'', ''PATCH'', ''DELETE''} then None
      else if qs_Body spec \<noteq> [] then Some (substituteTemplates (hc_now_text c) (qs_Body spec) params)
      else case qs_Payload spec of
             None \<Rightarrow> None
           | Some p \<Rightarrow> if p = JNull then None else Some (hc_json_text c p))"

definition header_set :: "string \<Rightarrow> string \<Rightarrow> (string \<times> string) list \<Rightarrow> (string \<times> string) list" where
  "header_set k v hs = (k, v) # filter (\<lambda>kv. fst kv \<noteq> k) hs"

definition set_header ::
  "http_client \<Rightarrow> execute_params \<Rightarrow> string \<times> json \<Rightarrow> (string \<times> string) list \<Rightarrow> (string \<times> string) list" where
  "set_header c params kv hs =
     (case snd kv of
        JStr s \<Rightarrow> header_set (hc_canonical c (fst kv)) (substituteTemplates (hc_now_text c) s params) hs
      | _ \<Rightarrow> hs)"

definition request_headers ::
  "http_client \<Rightarrow> execute_params \<Rightarrow> request_spec \<Rightarrow> string option \<Rightarrow> (string \<times> string) list" where
  "request_headers c params spec body =
     (let hs = fold (set_header c params) (entries (qs_Headers spec)) [];
          content = (case map_of hs ''Content-Type'' of None \<Rightarrow> [] | Some v \<Rightarrow> v)
      in if content = [] \<and> body \<noteq> None then header_set ''Content-Type'' ''application/json'' hs else hs)"

definition doRequest ::
  "http_client \<Rightarrow> execute_params \<Rightarrow> request_spec \<Rightarrow> result \<times> go_map option \<times> go_error option" where
  "doRequest c params spec =
     (if qs_URL spec = [] then (no_result\<lparr>res_error := Some (ErrText ''http: url is required'')\<rparr>, None, None)
      else case ValidateFormat (hc_parse c) (qs_URL spec) [] of
        Some err \<Rightarrow>
          (no_result\<lparr>res_error := Some (ErrText (''SSRF validation failed: '' @ ssrf_text err)),
                     res_duration_ms := hc_elapsed c\<rparr>, None, None)
      | None \<Rightarrow>
          let body = request_body c params spec
          in case hc_new_request c (qs_Method spec) (qs_URL spec) of
               Some err \<Rightarrow>
                 (no_result\<lparr>res_error := Some (ErrText (''create request: '' @ Error err)),
                            res_duration_ms := hc_elapsed c\<rparr>, None, None)
             | None \<Rightarrow>
                 (case hc_do c \<lparr>hq_method = qs_Method spec, hq_url = qs_URL spec,
                                hq_headers = request_headers c params spec body, hq_body = body\<rparr> of
                    Inl err \<Rightarrow> (no_result\<lparr>res_error := Some err, res_duration_ms := hc_elapsed c\<rparr>, None, None)
                  | Inr (code, text) \<Rightarrow>
                      let read = take (hc_maxResponseSize c) text
                      in (no_result\<lparr>res_response_code := Some code, res_response_body := read,
                                    res_duration_ms := hc_elapsed c\<rparr>,
                          hc_unmarshal c read, None)))"

text \<open>The request a run is configured to make.\<close>

definition configured_request :: "http_client \<Rightarrow> execute_params \<Rightarrow> request_spec" where
  "configured_request c params =
     (let cfg = ep_method_config params
      in \<lparr>qs_URL = substituteTemplates (hc_now_text c) (getString cfg ''url'') params,
          qs_Method = ToUpper (defaultString (getString cfg ''method'') ''POST''),
          qs_Headers = getMap cfg ''headers'', qs_Body = getString cfg ''body'',
          qs_Payload = map_of (entries cfg) ''payload''\<rparr>)"

definition doSync :: "http_client \<Rightarrow> execute_params \<Rightarrow> result \<times> go_map option \<times> go_error option" where
  "doSync c params = doRequest c params (configured_request c params)"

definition http_Execute :: "http_client \<Rightarrow> execute_params \<Rightarrow> result \<times> go_error option" where
  "http_Execute c params = (case doSync c params of (r, _, err) \<Rightarrow> (r, err))"

definition execute_of :: "start_params \<Rightarrow> execute_params" where
  "execute_of params =
     \<lparr>ep_run_id = sp_run_id params, ep_workspace_id = sp_workspace_id params,
      ep_method_config = sp_method_config params, ep_environment = sp_environment params,
      ep_api_base_url = sp_api_base_url params\<rparr>"

definition dispatchAsync :: "http_client \<Rightarrow> start_params \<Rightarrow> result \<times> go_error option" where
  "dispatchAsync c params =
     (case doRequest c (execute_of params) (configured_request c (execute_of params)) of
        (r, _, Some err) \<Rightarrow> (r, Some err)
      | (r, _, None) \<Rightarrow>
          (if derefInt (res_response_code r) \<in> set (defaultAcceptedCodes (sp_method_config params)) then r
           else r\<lparr>res_error := Some (ErrText
                    (''http dispatch not accepted: '' @ Itoa (derefInt (res_response_code r))))\<rparr>, None))"

section \<open>Tracked requests\<close>

text \<open>The strings a tracked request is followed by: the id of the remote job, two URLs.\<close>

definition tracked_urls :: "start_params \<Rightarrow> go_map option \<Rightarrow> string \<times> string \<times> string" where
  "tracked_urls params body =
     (let cfg = sp_method_config params;
          field = (\<lambda>name. case extractString body (getString cfg name) of None \<Rightarrow> [] | Some s \<Rightarrow> s);
          jobID = field ''job_id_field'';
          from = (\<lambda>tpl url. if getString cfg tpl \<noteq> []
                            then substituteTrackedTemplate (getString cfg tpl) (sp_run_id params)
                                   (sp_workspace_id params) jobID
                            else url)
      in (jobID, from ''status_url_template'' (field ''status_url_field''),
          from ''cancel_url_template'' (field ''cancel_url_field'')))"

definition json_map :: "go_map option \<Rightarrow> json" where
  "json_map m = (case m of None \<Rightarrow> JNull | Some kvs \<Rightarrow> JObj kvs)"

definition json_ints :: "int list \<Rightarrow> json" where
  "json_ints ns = JArr (map (\<lambda>n. JNum (of_int n)) ns)"

definition json_texts :: "string list \<Rightarrow> json" where
  "json_texts ss = JArr (map JStr ss)"

definition tracked_handle :: "start_params \<Rightarrow> string \<times> string \<times> string \<Rightarrow> handle" where
  "tracked_handle params urls = (case urls of (jobID, statusURL, cancelURL) \<Rightarrow>
     let cfg = sp_method_config params
     in \<lparr>h_method_name = ''http'', h_run_id = sp_run_id params,
         h_data = Some
           [(''status_url'', JStr statusURL), (''cancel_url'', JStr cancelURL), (''job_id'', JStr jobID),
            (''headers'', json_map (getMap cfg ''headers'')),
            (''poll_headers'', json_map (getMap cfg ''poll_headers'')),
            (''cancel_headers'', json_map (getMap cfg ''cancel_headers'')),
            (''poll_method'', JStr (ToUpper (defaultString (getString cfg ''poll_method'') ''GET''))),
            (''cancel_method'', JStr (ToUpper (defaultString (getString cfg ''cancel_method'') ''POST''))),
            (''accepted_status_codes'', json_ints (defaultAcceptedCodes cfg)),
            (''running_status_codes'',
             json_ints (defaultedStatusCodes (getIntSlice cfg ''running_status_codes'') [202])),
            (''success_status_codes'',
             json_ints (defaultedStatusCodes (getIntSlice cfg ''success_status_codes'') [200, 201, 204])),
            (''status_field'', JStr (getString cfg ''status_field'')),
            (''running_values'', json_texts (getStringSlice cfg ''running_values'')),
            (''success_values'', json_texts (getStringSlice cfg ''success_values'')),
            (''failed_values'', json_texts (getStringSlice cfg ''failed_values''))]\<rparr>)"

text \<open>\<open>Inl\<close>: there is a result already, and nothing to follow.\<close>

definition dispatchTracked :: "http_client \<Rightarrow> start_params \<Rightarrow> (result + handle) \<times> go_error option" where
  "dispatchTracked c params =
     (case dispatchAsync c params of
        (r, Some err) \<Rightarrow> (Inl r, Some err)
      | (r, None) \<Rightarrow>
          if res_error r \<noteq> None then (Inl r, None)
          else
            let urls = tracked_urls params
                  (if res_response_body r = [] then None else hc_unmarshal c (res_response_body r))
            in if fst (snd urls) = [] then
                 (Inl (r\<lparr>res_error := Some (ErrText
                    ''http tracked dispatch requires status_url_field or status_url_template'')\<rparr>), None)
               else (Inr (tracked_handle params urls), None))"

section \<open>Start, Poll, Kill\<close>

definition plain_handle :: "start_params \<Rightarrow> handle" where
  "plain_handle params = \<lparr>h_method_name = ''http'', h_run_id = sp_run_id params, h_data = Some []\<rparr>"

text \<open>A result that is there at once; the time of acceptance, which nobody reads, is Go's zero time.\<close>

definition started :: "start_params \<Rightarrow> result \<times> go_error option \<Rightarrow> start_result \<times> go_error option" where
  "started params re =
     (\<lparr>sr_handle = plain_handle params, sr_accepted_at = 0, sr_result = Some (fst re)\<rparr>, snd re)"

definition http_Start :: "http_client \<Rightarrow> start_params \<Rightarrow> start_result \<times> go_error option" where
  "http_Start c params =
     (let mode = defaultString (getString (sp_method_config params) ''dispatch_mode'') ''sync''
      in if mode = ''sync'' then started params (http_Execute c (execute_of params))
         else if mode = ''async_blind'' then started params (dispatchAsync c params)
         else if mode = ''async_tracked'' then
           (case dispatchTracked c params of
              (Inl r, err) \<Rightarrow> started params (r, err)
            | (Inr h, err) \<Rightarrow> (\<lparr>sr_handle = h, sr_accepted_at = hc_now c, sr_result = None\<rparr>, err))
         else started params
           (no_result\<lparr>res_error := Some (ErrText (''http: unsupported dispatch_mode '' @ quoted mode))\<rparr>, None))"

record trackedHandle =
  th_StatusURL :: string
  th_Headers :: "go_map option"
  th_PollHeaders :: "go_map option"
  th_PollMethod :: string
  th_RunningStatusCode :: "int list"
  th_SuccessStatusCode :: "int list"
  th_StatusField :: string
  th_RunningValues :: "string list"
  th_SuccessValues :: "string list"
  th_FailedValues :: "string list"

definition tracked_data :: "handle \<Rightarrow> trackedHandle" where
  "tracked_data h =
     (let d = h_data h
      in \<lparr>th_StatusURL = getString d ''status_url'', th_Headers = getMap d ''headers'',
          th_PollHeaders = getMap d ''poll_headers'', th_PollMethod = getString d ''poll_method'',
          th_RunningStatusCode = getIntSlice d ''running_status_codes'',
          th_SuccessStatusCode = getIntSlice d ''success_status_codes'',
          th_StatusField = getString d ''status_field'',
          th_RunningValues = getStringSlice d ''running_values'',
          th_SuccessValues = getStringSlice d ''success_values'',
          th_FailedValues = getStringSlice d ''failed_values''\<rparr>)"

definition poll_request :: "trackedHandle \<Rightarrow> request_spec" where
  "poll_request d =
     \<lparr>qs_URL = th_StatusURL d, qs_Method = defaultString (th_PollMethod d) ''GET'',
      qs_Headers = (if entries (th_PollHeaders d) \<noteq> [] then th_PollHeaders d else th_Headers d),
      qs_Body = [], qs_Payload = None\<rparr>"

text \<open>The state a status field reports, when the answer has it.\<close>

definition reported_state :: "trackedHandle \<Rightarrow> go_map option \<Rightarrow> (string \<times> go_error option) option" where
  "reported_state d body =
     (if th_StatusField d = [] then None
      else case extractString body (th_StatusField d) of
        None \<Rightarrow> None
      | Some st \<Rightarrow>
          if st \<in> set (th_RunningValues d) then Some (RemoteRunning, None)
          else if st \<in> set (th_SuccessValues d) then Some (RemoteCompleted, None)
          else if st \<in> set (th_FailedValues d) then
            Some (RemoteFailed, Some (ErrText (''http remote status '' @ quoted st)))
          else None)"

definition status_state :: "trackedHandle \<Rightarrow> int \<Rightarrow> string \<times> go_error option" where
  "status_state d code =
     (if code \<in> set (defaultedStatusCodes (th_RunningStatusCode d) [202]) then (RemoteRunning, None)
      else if code \<in> set (defaultedStatusCodes (th_SuccessStatusCode d) [200, 201, 204])
      then (RemoteCompleted, None)
      else (RemoteFailed, Some (ErrText (''http poll returned '' @ Itoa code))))"

definition http_Poll :: "http_client \<Rightarrow> handle \<Rightarrow> poll_cursor \<Rightarrow> poll_result \<times> go_error option" where
  "http_Poll c h cursor =
     (let d = tracked_data h
      in if th_StatusURL d = [] then
           (zero_poll_result, Some (ErrText ''http: tracked handle missing status_url''))
         else case doRequest c \<lparr>ep_run_id = h_run_id h, ep_workspace_id = [], ep_method_config = None,
                                ep_environment = None, ep_api_base_url = []\<rparr> (poll_request d) of
           (_, _, Some err) \<Rightarrow> (zero_poll_result, Some err)
         | (r, body, None) \<Rightarrow>
             let (state, err) = (case reported_state d body of
                   Some se \<Rightarrow> se
                 | None \<Rightarrow> status_state d (derefInt (res_response_code r)))
             in (zero_poll_result\<lparr>pr_response_body_chunk := res_response_body r, pr_state := state,
                                  pr_error := err\<rparr>, None))"

definition http_Kill :: "http_client \<Rightarrow> handle \<Rightarrow> go_error option" where
  "http_Kill c h =
     (let d = h_data h; cancelURL = getString d ''cancel_url''
      in if cancelURL = [] then Some (ErrText ''http: tracked handle missing cancel_url'')
         else case doRequest c \<lparr>ep_run_id = h_run_id h, ep_workspace_id = [], ep_method_config = None,
                                ep_environment = None, ep_api_base_url = []\<rparr>
                \<lparr>qs_URL = cancelURL, qs_Method = defaultString (getString d ''cancel_method'') ''POST'',
                 qs_Headers = (if entries (getMap d ''cancel_headers'') \<noteq> []
                               then getMap d ''cancel_headers'' else getMap d ''headers''),
                 qs_Body = [], qs_Payload = None\<rparr> of
           (_, _, Some err) \<Rightarrow> Some err
         | (r, _, None) \<Rightarrow>
             (case res_response_code r of
                None \<Rightarrow> None
              | Some code \<Rightarrow>
                  if 200 \<le> code \<and> code < 300 then None
                  else Some (ErrText (''http cancel returned '' @ Itoa code))))"

definition http_method :: "http_client \<Rightarrow> method_impl" where
  "http_method c =
     \<lparr>m_Start = http_Start c, m_Poll = http_Poll c, m_Kill = http_Kill c,
      m_SupportsKill = True, m_SupportsHeartbeat = False, m_IsAsync = True\<rparr>"

end
