(* ===== verification/Http_Properties.thy ===== *)
theory Http_Properties
  imports Exec_Http Executor_Properties
begin

text \<open>
  What holds of the HTTP execution method: when a request counts as a success, how a tracked one is
  followed, and what an answer that is lost does to the run.
\<close>

section \<open>One request\<close>

text \<open>The request passes the checks that come before it is sent.\<close>

definition sendable :: "http_client \<Rightarrow> request_spec \<Rightarrow> bool" where
  "sendable c spec \<longleftrightarrow> qs_URL spec \<noteq> [] \<and> ValidateFormat (hc_parse c) (qs_URL spec) [] = None \<and>
     hc_new_request c (qs_Method spec) (qs_URL spec) = None"

definition sent :: "http_client \<Rightarrow> execute_params \<Rightarrow> request_spec \<Rightarrow> http_call" where
  "sent c params spec =
     \<lparr>hq_method = qs_Method spec, hq_url = qs_URL spec,
      hq_headers = request_headers c params spec (request_body c params spec),
      hq_body = request_body c params spec\<rparr>"

lemma doRequest_unsendable:
  "\<not> sendable c spec \<Longrightarrow>
   \<exists>err. doRequest c params spec = (no_result\<lparr>res_error := Some err, res_duration_ms := 0\<rparr>, None, None) \<or>
         doRequest c params spec = (no_result\<lparr>res_error := Some err, res_duration_ms := hc_elapsed c\<rparr>, None, None)"
  by (auto simp: sendable_def doRequest_def no_result_def Let_def split: option.split)

lemma doRequest_sendable:
  "sendable c spec \<Longrightarrow> doRequest c params spec =
   (case hc_do c (sent c params spec) of
      Inl err \<Rightarrow> (no_result\<lparr>res_error := Some err, res_duration_ms := hc_elapsed c\<rparr>, None, None)
    | Inr (code, text) \<Rightarrow>
        (no_result\<lparr>res_response_code := Some code, res_response_body := take (hc_maxResponseSize c) text,
                   res_duration_ms := hc_elapsed c\<rparr>,
         hc_unmarshal c (take (hc_maxResponseSize c) text), None))"
  by (simp add: sendable_def doRequest_def sent_def Let_def split: sum.split)

lemma doRequest_no_error: "snd (snd (doRequest c params spec)) = None"
proof (cases "sendable c spec")
  case True
  then show ?thesis by (simp add: doRequest_sendable split: sum.split)
next
  case False
  then show ?thesis using doRequest_unsendable[of c spec params] by auto
qed

text \<open>A result is a success exactly if the request was sent and answered with a status of 200 to 299.\<close>

lemma doRequest_success:
  "IsSuccess (fst (doRequest c params spec)) \<longleftrightarrow> sendable c spec \<and>
     (\<exists>code text. hc_do c (sent c params spec) = Inr (code, text) \<and> 200 \<le> code \<and> code < 300)"
proof (cases "sendable c spec")
  case True
  then show ?thesis
    by (simp add: doRequest_sendable IsSuccess_def no_result_def split: sum.split)
next
  case False
  then obtain err d where "fst (doRequest c params spec) = no_result\<lparr>res_error := Some err, res_duration_ms := d\<rparr>"
    using doRequest_unsendable[OF False, of params] by auto
  then show ?thesis using False by (simp add: IsSuccess_def no_result_def)
qed

text \<open>
  C24: A run that waits for its HTTP answer has its result at once and never leaves a handle; it
  succeeds exactly if its request passes the checks, is answered, and the status is 200 to 299. The
  substituted URL, the method in capitals and the substituted headers and body are what is sent.
\<close>

theorem sync_outcome:
  assumes "getString (sp_method_config params) ''dispatch_mode'' \<in> {[], ''sync''}"
  shows "\<exists>r. m_Start (http_method c) params =
      (\<lparr>sr_handle = plain_handle params, sr_accepted_at = 0, sr_result = Some r\<rparr>, None) \<and>
    (IsSuccess r \<longleftrightarrow> sendable c (configured_request c (execute_of params)) \<and>
       (\<exists>code text. hc_do c (sent c (execute_of params) (configured_request c (execute_of params))) = Inr (code, text) \<and>
          200 \<le> code \<and> code < 300))"
proof -
  let ?p = "execute_of params" and ?s = "configured_request c (execute_of params)"
  obtain r body where d: "doRequest c ?p ?s = (r, body, None)"
    using doRequest_no_error[of c ?p ?s] by (cases "doRequest c ?p ?s") auto
  have "m_Start (http_method c) params = started params (http_Execute c ?p)"
    using assms by (auto simp: http_method_def http_Start_def defaultString_def)
  then have "m_Start (http_method c) params =
      (\<lparr>sr_handle = plain_handle params, sr_accepted_at = 0, sr_result = Some r\<rparr>, None)"
    by (simp add: http_Execute_def doSync_def d started_def)
  then show ?thesis using doRequest_success[of c ?p ?s] by (simp add: d)
qed

text \<open>
  An answer that a configuration does not accept still makes the run succeed: a dispatch with a
  status of 200 to 299 outside the accepted ones, or a tracked one without an address to poll, yields a
  result with an error that counts as a success, because the status of the answer is looked at first.
\<close>

theorem refused_dispatch_counts_as_success:
  assumes "sendable c (configured_request c (execute_of params))"
    and "hc_do c (sent c (execute_of params) (configured_request c (execute_of params))) = Inr (code, answer)"
    and "200 \<le> code" "code < 300"
    and "getString (sp_method_config params) ''dispatch_mode'' = mode" "mode \<in> {''async_blind'', ''async_tracked''}"
    and "code \<notin> set (defaultAcceptedCodes (sp_method_config params)) \<or> mode = ''async_tracked'' \<and>
      (\<forall>body. fst (snd (tracked_urls params body)) = [])"
  shows "\<exists>r. sr_result (fst (m_Start (http_method c) params)) = Some r \<and> res_error r \<noteq> None \<and> IsSuccess r"
proof -
  let ?p = "execute_of params" and ?s = "configured_request c (execute_of params)"
  let ?ok = "code \<in> set (defaultAcceptedCodes (sp_method_config params))"
  define r where "r = no_result\<lparr>res_response_code := Some code,
    res_response_body := take (hc_maxResponseSize c) answer, res_duration_ms := hc_elapsed c\<rparr>"
  have req: "doRequest c ?p ?s = (r, hc_unmarshal c (take (hc_maxResponseSize c) answer), None)"
    using assms(1,2) by (simp add: doRequest_sendable r_def)
  have r: "res_response_code r = Some code" "res_exit_code r = None" "res_error r = None"
    by (simp_all add: r_def no_result_def)
  have ok: "IsSuccess (r\<lparr>res_error := x\<rparr>)" for x using assms(3,4) r by (simp add: IsSuccess_def)
  show ?thesis
  proof (cases ?ok)
    case False
    then have "dispatchAsync c params = (r\<lparr>res_error := Some (ErrText (''http dispatch not accepted: '' @ Itoa code))\<rparr>, None)"
      by (simp add: dispatchAsync_def req r derefInt_def)
    then show ?thesis
      using assms(5,6) ok
      by (auto simp: http_method_def http_Start_def defaultString_def dispatchTracked_def started_def)
  next
    case True
    then have "dispatchAsync c params = (r, None)" by (simp add: dispatchAsync_def req r derefInt_def)
    then show ?thesis
      using assms(5-7) True ok r
      by (auto simp: http_method_def http_Start_def defaultString_def dispatchTracked_def started_def Let_def)
  qed
qed

section \<open>Tracked requests\<close>

lemma int_items_json [simp]: "int_items (map (\<lambda>n. JNum (of_int n)) ns) = ns"
  by (induction ns) (auto simp: go_int_def)

lemma string_items_json [simp]: "string_items (map JStr ss) = ss"
  by (induction ss) auto

lemma getMap_json [simp]: "(case json_map m of JObj kvs \<Rightarrow> Some kvs | _ \<Rightarrow> None) = m"
  by (cases m) (simp_all add: json_map_def)

text \<open>
  What a tracked dispatch writes into its handle survives the column of the row: the handle read
  back polls the address the answer or the template gave, with the configured method, headers, codes
  and values, the defaults where nothing is configured.
\<close>

theorem tracked_handle_roundtrip:
  assumes "dispatchTracked c params = (Inr h, None)"
  shows "\<exists>statusURL h'. statusURL \<noteq> [] \<and> unmarshal_handle (marshal_handle h) = Some h' \<and>
    h_method_name h' = ''http'' \<and> h_run_id h' = sp_run_id params \<and>
    tracked_data h' =
      (let cfg = sp_method_config params
       in \<lparr>th_StatusURL = statusURL, th_Headers = getMap cfg ''headers'',
           th_PollHeaders = getMap cfg ''poll_headers'',
           th_PollMethod = ToUpper (defaultString (getString cfg ''poll_method'') ''GET''),
           th_RunningStatusCode = defaultedStatusCodes (getIntSlice cfg ''running_status_codes'') [202],
           th_SuccessStatusCode = defaultedStatusCodes (getIntSlice cfg ''success_status_codes'') [200, 201, 204],
           th_StatusField = getString cfg ''status_field'',
           th_RunningValues = getStringSlice cfg ''running_values'',
           th_SuccessValues = getStringSlice cfg ''success_values'',
           th_FailedValues = getStringSlice cfg ''failed_values''\<rparr>)"
proof -
  obtain r where r: "dispatchAsync c params = (r, None)" "res_error r = None"
    using assms by (auto simp: dispatchTracked_def split: prod.splits option.splits if_splits)
  define urls where "urls = tracked_urls params (if res_response_body r = [] then None else hc_unmarshal c (res_response_body r))"
  have h: "h = tracked_handle params urls" "fst (snd urls) \<noteq> []"
    using assms r by (auto simp: dispatchTracked_def Let_def urls_def split: if_splits)
  obtain jobID statusURL cancelURL where urls: "urls = (jobID, statusURL, cancelURL)" by (cases urls)
  show ?thesis
    using h
    by (intro exI[of _ statusURL] exI[of _ h])
      (simp add: urls tracked_handle_def tracked_data_def Let_def getString_def map_string_def entries_def
        getMap_def getIntSlice_def getStringSlice_def json_ints_def json_texts_def)
qed

text \<open>
  A poll that is answered decides by the status field when its value is one of the listed ones,
  else by the codes; only an address that is missing makes it an error.
\<close>

theorem poll_decides:
  assumes "th_StatusURL (tracked_data h) \<noteq> []"
    and "doRequest c \<lparr>ep_run_id = h_run_id h, ep_workspace_id = [], ep_method_config = None,
           ep_environment = None, ep_api_base_url = []\<rparr> (poll_request (tracked_data h)) = (r, body, None)"
  shows "\<exists>poll. m_Poll (http_method c) h cursor = (poll, None) \<and> pr_exit_code poll = None \<and>
    (pr_state poll, pr_error poll) =
      (case reported_state (tracked_data h) body of
         Some se \<Rightarrow> se | None \<Rightarrow> status_state (tracked_data h) (derefInt (res_response_code r))) \<and>
    pr_state poll \<in> {RemoteRunning, RemoteCompleted, RemoteFailed} \<and>
    (pr_error poll = None \<longleftrightarrow> pr_state poll \<noteq> RemoteFailed)"
proof -
  define se where "se = (case reported_state (tracked_data h) body of
    Some se \<Rightarrow> se | None \<Rightarrow> status_state (tracked_data h) (derefInt (res_response_code r)))"
  have names: "RemoteRunning \<noteq> RemoteFailed" "RemoteCompleted \<noteq> RemoteFailed"
    by (simp_all add: RemoteRunning_def RemoteCompleted_def RemoteFailed_def)
  have "fst se \<in> {RemoteRunning, RemoteCompleted, RemoteFailed} \<and> (snd se = None \<longleftrightarrow> fst se \<noteq> RemoteFailed)"
    by (auto simp: se_def reported_state_def status_state_def names split: option.split)
  moreover have "m_Poll (http_method c) h cursor =
      (zero_poll_result\<lparr>pr_response_body_chunk := res_response_body r, pr_state := fst se, pr_error := snd se\<rparr>, None)"
    using assms by (cases se) (simp add: http_method_def http_Poll_def flip: se_def)
  ultimately show ?thesis
    by (simp add: se_def[symmetric] zero_poll_result_def)
qed

lemma poll_unanswered:
  assumes "\<And>call. \<exists>err. hc_do c call = Inl err" "th_StatusURL (tracked_data h) \<noteq> []"
    and "0 \<notin> set (th_RunningStatusCode (tracked_data h))" "0 \<notin> set (th_SuccessStatusCode (tracked_data h))"
  shows "http_Poll c h cursor =
    (zero_poll_result\<lparr>pr_state := RemoteFailed, pr_error := Some (ErrText (''http poll returned '' @ Itoa 0))\<rparr>, None)"
proof -
  let ?p = "\<lparr>ep_run_id = h_run_id h, ep_workspace_id = [], ep_method_config = None,
    ep_environment = None, ep_api_base_url = []\<rparr>"
  obtain r where r: "doRequest c ?p (poll_request (tracked_data h)) = (r, None, None)"
    "res_response_code r = None" "res_response_body r = []"
  proof (cases "sendable c (poll_request (tracked_data h))")
    case True
    obtain err where "hc_do c (sent c ?p (poll_request (tracked_data h))) = Inl err" using assms(1) by blast
    then have "doRequest c ?p (poll_request (tracked_data h)) =
        (no_result\<lparr>res_error := Some err, res_duration_ms := hc_elapsed c\<rparr>, None, None)"
      by (simp add: doRequest_sendable[OF True])
    then show ?thesis by (rule that) (simp_all add: no_result_def)
  next
    case False
    then obtain err where "doRequest c ?p (poll_request (tracked_data h)) =
        (no_result\<lparr>res_error := Some err, res_duration_ms := 0\<rparr>, None, None) \<or>
      doRequest c ?p (poll_request (tracked_data h)) =
        (no_result\<lparr>res_error := Some err, res_duration_ms := hc_elapsed c\<rparr>, None, None)"
      using doRequest_unsendable[OF False] by blast
    then show ?thesis by (elim disjE) (rule that, auto simp: no_result_def)+
  qed
  have "status_state (tracked_data h) 0 =
      (RemoteFailed, Some (ErrText (''http poll returned '' @ Itoa 0)))"
    using assms(3,4) by (auto simp: status_state_def defaultedStatusCodes_def)
  moreover have "reported_state (tracked_data h) None = None"
    by (simp add: reported_state_def extractString_def)
  ultimately show ?thesis
    using assms(2) r by (simp add: http_Poll_def derefInt_def zero_poll_result_def)
qed

text \<open>
  One lost answer ends a tracked run: when a poll gets no answer at all, because of a time-out of
  the network say, the run is retried or, at its last attempt, failed, although the remote job may
  still be running.
\<close>

theorem lost_answer_ends_run:
  assumes "spawning o'" "registry_Get (o_registry o') ''http'' = Some (http_method c)"
    and "no_faults e" "\<And>call. \<exists>err. hc_do c call = Inl err"
    and "unmarshal_handle (ap_execution_handle row) = Some h" "h_method_name h = ''http''"
    and "th_StatusURL (tracked_data h) \<noteq> []"
    and "0 \<notin> set (th_RunningStatusCode (tracked_data h))" "0 \<notin> set (th_SuccessStatusCode (tracked_data h))"
    and "run_at w (ap_id row) = Some run" "1 \<le> ap_attempt row"
    and "GetProcess e (ap_process_id row) (ap_workspace_id row) w = Inr p"
    and "ap_stdout_offset row = 0" "ap_stderr_offset row = 0"
  shows "state_at (pollAsyncRun o' e row w) (ap_id row) =
    Some (if ap_attempt row < p_max_attempts p then Retrying else Failed)"
proof -
  let ?poll = "zero_poll_result\<lparr>pr_state := RemoteFailed, pr_error := Some (ErrText (''http poll returned '' @ Itoa 0))\<rparr>"
  have f: "e_fault e q = None" for q using assms(3) by (simp add: no_faults_def)
  have poll: "m_Poll (http_method c) h cur = (?poll, None)" for cur
    using poll_unanswered[OF assms(4,7-9)] by (simp add: http_method_def)
  have stored: "store_poll_output o' e row ?poll w = w"
    using assms(13,14) by (simp add: store_poll_output_def next_offset_def append_chunk_def zero_poll_result_def)
  have names: "RemoteFailed \<noteq> []" "RemoteFailed \<noteq> RemoteRunning" "RemoteFailed \<noteq> RemoteKilled" "RemoteFailed \<noteq> RemoteCompleted"
    by (simp_all add: RemoteRunning_def RemoteCompleted_def RemoteFailed_def RemoteKilled_def)
  let ?r = "poll_outcome ?poll"
  have "pollAsyncRun o' e row w = conclude_poll o' e row p ?poll w"
    using assms(2,5,6,12) poll stored names by (simp add: pollAsyncRun_def Let_def)
  then have concluded: "pollAsyncRun o' e row w = finalize_row o' e row p ?r w"
    using names by (simp add: conclude_poll_def poll_outcome_def Let_def)
  have failed: "\<not> IsSuccess ?r" by (simp add: IsSuccess_def poll_outcome_def zero_poll_result_def)
  have "executor_calculateBackoff (e_now e) (ap_attempt row) bs \<noteq> None" for bs
    using assms(11) by (simp add: executor_backoff.panics_iff)
  then obtain a where a: "result_update e (ap_id row) (ap_attempt row) (ap_started_at row) p ?r = Some a"
    by (fastforce simp: result_update_def Let_def)
  show ?thesis
    using finalize_row_at[OF assms(1) f f assms(10) a] us_state_result_update[OF a] failed
    by (simp add: concluded finalize_row_def state_at_def)
qed

section \<open>Witnesses\<close>

definition sample_client :: "(go_error + int \<times> string) \<Rightarrow> http_client" where
  "sample_client answer =
     \<lparr>hc_parse = (\<lambda>_. Some (''https'', ''x'')), hc_new_request = (\<lambda>_ _. None), hc_canonical = (\<lambda>k. k),
      hc_json_text = (\<lambda>_. ''{}''), hc_unmarshal = (\<lambda>_. Some [(''url'', JStr ''https://x/1'')]),
      hc_do = (\<lambda>_. answer), hc_now_text = [], hc_now = 0, hc_elapsed = 5, hc_maxResponseSize = 100\<rparr>"

definition sample_start :: "go_map \<Rightarrow> start_params" where
  "sample_start cfg =
     \<lparr>sp_run_id = ''run_1'', sp_workspace_id = ''wsp_1'', sp_method_config = Some cfg,
      sp_environment = None, sp_api_base_url = [], sp_timeout = 0\<rparr>"

lemma sample_sendable:
  "map_of cfg ''url'' = Some (JStr ''https://x'') \<Longrightarrow>
   sendable (sample_client a) (configured_request (sample_client a) (execute_of (sample_start cfg)))"
  by (simp add: sendable_def configured_request_def sample_start_def execute_of_def getString_def
      map_string_def entries_def substituteTemplates_def sample_client_def Let_def ValidateFormat_def
      check_url_def blockedHostnames_def blockedHostSuffixes_def HasSuffix_def ToLower_def ToLower_char_def
      ParseIP_def check_allowed_def)

lemma sync_outcome_witness:
  "\<exists>r. m_Start (http_method (sample_client (Inr (201, ''ok'')))) (sample_start [(''url'', JStr ''https://x'')]) =
     (\<lparr>sr_handle = plain_handle (sample_start [(''url'', JStr ''https://x'')]), sr_accepted_at = 0, sr_result = Some r\<rparr>, None) \<and>
     IsSuccess r"
proof -
  have "getString (sp_method_config (sample_start [(''url'', JStr ''https://x'')])) ''dispatch_mode'' \<in> {[], ''sync''}"
    by (simp add: sample_start_def getString_def map_string_def entries_def)
  from sync_outcome[OF this, of "sample_client (Inr (201, ''ok''))"] show ?thesis
    by (simp add: sample_sendable) (auto simp: sample_client_def)
qed

lemma refused_dispatch_counts_as_success_witness:
  "\<exists>r. sr_result (fst (m_Start (http_method (sample_client (Inr (204, []))))
       (sample_start [(''url'', JStr ''https://x''), (''dispatch_mode'', JStr ''async_blind'')]))) = Some r \<and>
     res_error r \<noteq> None \<and> IsSuccess r"
  by (rule refused_dispatch_counts_as_success[where code = 204 and answer = "[]" and mode = "''async_blind''"])
    (simp_all add: sample_sendable, simp_all add: sample_client_def sample_start_def getString_def map_string_def
      entries_def defaultAcceptedCodes_def defaultedStatusCodes_def getIntSlice_def)

definition sample_tracked :: go_map where
  "sample_tracked = [(''url'', JStr ''https://x''), (''dispatch_mode'', JStr ''async_tracked''),
     (''status_url_template'', JStr ''https://y'')]"

lemma sample_dispatch:
  "dispatchTracked (sample_client (Inr (202, []))) (sample_start sample_tracked) =
     (Inr (tracked_handle (sample_start sample_tracked) ([], ''https://y'', [])), None)"
proof -
  have "sendable (sample_client (Inr (202, [])))
      (configured_request (sample_client (Inr (202, []))) (execute_of (sample_start sample_tracked)))"
    by (rule sample_sendable) (simp add: sample_tracked_def)
  then show ?thesis
    unfolding dispatchTracked_def dispatchAsync_def
    by (simp add: doRequest_sendable)
      (simp add: sample_client_def sample_start_def sample_tracked_def no_result_def derefInt_def defaultAcceptedCodes_def
        defaultedStatusCodes_def getIntSlice_def entries_def tracked_urls_def Let_def getString_def map_string_def
        extractString_def substituteTrackedTemplate_def)
qed

lemma tracked_handle_roundtrip_witness:
  "\<exists>h'. unmarshal_handle (marshal_handle (tracked_handle (sample_start sample_tracked) ([], ''https://y'', []))) = Some h' \<and>
     th_StatusURL (tracked_data h') \<noteq> [] \<and> th_SuccessStatusCode (tracked_data h') = [200, 201, 204]"
  using tracked_handle_roundtrip[OF sample_dispatch]
  by (auto simp: Let_def sample_start_def sample_tracked_def getIntSlice_def entries_def defaultedStatusCodes_def)

definition sample_tracked_handle :: handle where
  "sample_tracked_handle = \<lparr>h_method_name = ''http'', h_run_id = ''run_1'',
     h_data = Some [(''status_url'', JStr ''https://y'')]\<rparr>"

lemma sample_tracked_data:
  "tracked_data sample_tracked_handle =
     \<lparr>th_StatusURL = ''https://y'', th_Headers = None, th_PollHeaders = None, th_PollMethod = [],
      th_RunningStatusCode = [], th_SuccessStatusCode = [], th_StatusField = [], th_RunningValues = [],
      th_SuccessValues = [], th_FailedValues = []\<rparr>"
  by (simp add: tracked_data_def sample_tracked_handle_def Let_def getString_def map_string_def entries_def
      getMap_def getIntSlice_def getStringSlice_def)

lemma poll_decides_witness:
  "\<exists>poll. m_Poll (http_method (sample_client (Inr (202, [])))) sample_tracked_handle
     \<lparr>pc_stdout_offset = 0, pc_stderr_offset = 0\<rparr> = (poll, None) \<and> pr_state poll = RemoteRunning"
proof -
  let ?c = "sample_client (Inr (202, []))" and ?s = "poll_request (tracked_data sample_tracked_handle)"
  have "sendable ?c ?s"
    by (simp add: sample_tracked_data poll_request_def sendable_def sample_client_def ValidateFormat_def
        check_url_def blockedHostnames_def blockedHostSuffixes_def HasSuffix_def ToLower_def ToLower_char_def
        ParseIP_def check_allowed_def)
  then have "doRequest ?c \<lparr>ep_run_id = h_run_id sample_tracked_handle, ep_workspace_id = [], ep_method_config = None,
      ep_environment = None, ep_api_base_url = []\<rparr> ?s =
    (no_result\<lparr>res_response_code := Some 202, res_response_body := [], res_duration_ms := 5\<rparr>,
     Some [(''url'', JStr ''https://x/1'')], None)"
    by (simp add: doRequest_sendable) (simp add: sample_client_def)
  from poll_decides[OF _ this, of "\<lparr>pc_stdout_offset = 0, pc_stderr_offset = 0\<rparr>"] show ?thesis
    by (auto simp: sample_tracked_data reported_state_def status_state_def defaultedStatusCodes_def derefInt_def)
qed

lemma lost_answer_ends_run_witness:
  "state_at (pollAsyncRun (sample_orchestrator (http_method (sample_client (Inl (ErrText ''timeout''))))) (calm 5)
     ((sample_row Running)\<lparr>ap_execution_handle := marshal_handle sample_tracked_handle\<rparr>)
     (sample_world [sample_process ''prc_1''] [sample_async_run Running])) ''run_1'' = Some Retrying"
proof -
  let ?row = "(sample_row Running)\<lparr>ap_execution_handle := marshal_handle sample_tracked_handle\<rparr>"
  let ?w = "sample_world [sample_process ''prc_1''] [sample_async_run Running]"
  let ?c = "sample_client (Inl (ErrText ''timeout''))"
  have row: "ap_id ?row = ''run_1''" "ap_process_id ?row = ''prc_1''" "ap_workspace_id ?row = ''wsp_1''"
    "ap_attempt ?row = 1" "ap_stdout_offset ?row = 0" "ap_stderr_offset ?row = 0"
    by (simp_all add: sample_row_def)
  have h: "unmarshal_handle (ap_execution_handle ?row) = Some sample_tracked_handle" by simp
  have run: "run_at ?w (ap_id ?row) = Some (sample_async_run Running)"
    by (simp add: row run_at_def sample_world_def sample_async_run_def sample_run_def new_run_def sample_params_def)
  have p: "GetProcess (calm 5) (ap_process_id ?row) (ap_workspace_id ?row) ?w = Inr (sample_process ''prc_1'')"
    by (simp add: row GetProcess_def db_read_def one_row_def sample_world_def sample_process_def calm_def)
  have reg: "registry_Get (o_registry (sample_orchestrator (http_method ?c))) ''http'' = Some (http_method ?c)"
    by (simp add: registry_Get_def sample_orchestrator_def Register_def)
  have lost: "\<exists>err. hc_do ?c call = Inl err" for call by (simp add: sample_client_def)
  show ?thesis
    using lost_answer_ends_run[OF spawning_sample reg no_faults_calm lost h _ _ _ _ run _ p]
    by (simp add: row sample_tracked_data) (simp add: sample_tracked_handle_def sample_process_def)
qed

end
