(* ===== verification/Exec_Shell.thy ===== *)
theory Exec_Shell
  imports Exec_Http
begin

text \<open>
  What the SSH and the SSM method share, each with its own copy of the code
  (\<open>internal/executor/ssh/ssh.go\<close>, \<open>internal/executor/ssm/ssm.go\<close>): the quoting of words for the remote
  shell, the settings of a detached execution, and the three scripts that start, poll and kill one.
  A script is represented by what it does to the directory of the execution.
\<close>

section \<open>Quoting\<close>

definition shellQuote :: "string \<Rightarrow> string" where
  "shellQuote s = CHR 0x27 # ReplaceAll [CHR 0x27] [CHR 0x27, CHR 0x5C, CHR 0x27, CHR 0x27] s @ [CHR 0x27]"

text \<open>
  The rules of a POSIX shell for one word: a text in single quotes is taken as it is, a backslash
  outside of them quotes the next character, and a blank, a separator or a redirection ends the word.
  The flag says whether the reader is between single quotes. The result is the word and the rest; a
  character with another meaning outside of quotes stops the reader.
\<close>

definition ends_word :: "char \<Rightarrow> bool" where
  "ends_word c \<longleftrightarrow> c \<in> set '' ;&|<>()'' \<or> c = CHR 0x0A \<or> c = CHR 0x09"

definition special :: "char \<Rightarrow> bool" where
  "special c \<longleftrightarrow> c \<in> set ''$*?[]{}~#!'' \<or> c = CHR 0x22 \<or> c = CHR 0x60"

fun shell_word :: "bool \<Rightarrow> string \<Rightarrow> (string \<times> string) option" where
  "shell_word True [] = None"
| "shell_word True (c # s) =
     (if c = CHR 0x27 then shell_word False s else map_option (map_prod (Cons c) id) (shell_word True s))"
| "shell_word False [] = Some ([], [])"
| "shell_word False (c # s) =
     (if c = CHR 0x27 then shell_word True s
      else if c = CHR 0x5C then
        (case s of [] \<Rightarrow> None | d # s' \<Rightarrow> map_option (map_prod (Cons d) id) (shell_word False s'))
      else if ends_word c then Some ([], c # s)
      else if special c then None
      else map_option (map_prod (Cons c) id) (shell_word False s))"

section \<open>Settings\<close>

definition isDetached :: "go_map option \<Rightarrow> bool" where
  "isDetached cfg =
     (case map_of (entries cfg) ''detach'' of
        Some (JBool b) \<Rightarrow> b
      | _ \<Rightarrow> (case map_of (entries cfg) ''wait'' of Some (JBool b) \<Rightarrow> \<not> b | _ \<Rightarrow> True))"

text \<open>\<open>strings.TrimRight(s, "/")\<close>\<close>

definition TrimRight :: "char \<Rightarrow> string \<Rightarrow> string" where
  "TrimRight c s = rev (dropWhile (\<lambda>x. x = c) (rev s))"

definition remoteBasePath :: "string \<Rightarrow> go_map option \<Rightarrow> string" where
  "remoteBasePath runID cfg =
     TrimRight (CHR ''/'') (defaultString (getString cfg ''remote_tmp_dir'') ''/var/tmp/croncontrol'') @ ''/'' @ runID"

text \<open>\<open>strconv.Atoi\<close>: 0 for what is no decimal number, the nearest bound for one out of range.\<close>

definition Atoi :: "string \<Rightarrow> int" where
  "Atoi s =
     (let neg = (s \<noteq> [] \<and> hd s = CHR ''-'');
          ds = (if s \<noteq> [] \<and> (hd s = CHR ''-'' \<or> hd s = CHR ''+'') then tl s else s);
          n = fold (\<lambda>c n. n * 10 + int (digit_val c)) ds 0
      in if ds = [] \<or> \<not> list_all is_digit ds then 0
         else max (- 9223372036854775808) (min 9223372036854775807 (if neg then - n else n)))"

definition getInt :: "go_map option \<Rightarrow> string \<Rightarrow> int" where
  "getInt cfg key =
     (case map_of (entries cfg) key of
        Some (JNum x) \<Rightarrow> go_int x
      | Some (JStr s) \<Rightarrow> Atoi s
      | _ \<Rightarrow> 0)"

definition ssh_getBool :: "go_map option \<Rightarrow> string \<Rightarrow> bool \<Rightarrow> bool" where
  "ssh_getBool cfg key fallback =
     (case map_of (entries cfg) key of
        Some (JBool b) \<Rightarrow> b
      | Some (JStr s) \<Rightarrow> ToLower s = ''true''
      | _ \<Rightarrow> fallback)"

section \<open>The scripts\<close>

text \<open>The directory of an execution: its logs, the id of its process, its exit code, the mark of a kill.\<close>

record remote_dir =
  rd_stdout :: "string option"
  rd_stderr :: "string option"
  rd_pid :: "int option"
  rd_exit_code :: "int option"
  rd_kill_requested :: bool

record startPayload =
  st_Pid :: int
  st_BasePath :: string

record pollPayload =
  pp_State :: string
  pp_ExitCode :: "int option"
  pp_StdoutB64 :: string
  pp_StderrB64 :: string
  pp_StdoutOffset :: int
  pp_StderrOffset :: int

datatype script =
    StartScript string string
  | PollScript string int int
  | KillScript string int

text \<open>The command that the start script leaves running: it records the exit code of the user's command.\<close>

definition buildDetachedRunnerCommand :: "string \<Rightarrow> string \<Rightarrow> string" where
  "buildDetachedRunnerCommand basePath command =
     command @ ''; code=$?; printf '' @ [CHR 0x22] @ ''%s'' @ [CHR 0x22] @ '' '' @ [CHR 0x22] @ ''$code'' @ [CHR 0x22] @ '' > '' @
     shellQuote (basePath @ ''/exit_code'') @ ''; date -u +'' @ [CHR 0x22] @ ''%Y-%m-%dT%H:%M:%SZ'' @ [CHR 0x22] @ '' > '' @
     shellQuote (basePath @ ''/finished_at'') @ ''; exit '' @ [CHR 0x22] @ ''$code'' @ [CHR 0x22]"

text \<open>The start script empties the logs and notes the process it leaves running; what it prints.\<close>

definition start_script :: "int \<Rightarrow> string \<Rightarrow> remote_dir \<Rightarrow> startPayload \<times> remote_dir" where
  "start_script pid basePath d =
     (\<lparr>st_Pid = pid, st_BasePath = basePath\<rparr>,
      d\<lparr>rd_stdout := Some [], rd_stderr := Some [], rd_pid := Some pid\<rparr>)"

text \<open>The state that the poll script finds; \<open>alive\<close> is \<open>kill -0\<close>.\<close>

definition script_state :: "(int \<Rightarrow> bool) \<Rightarrow> remote_dir \<Rightarrow> string" where
  "script_state alive d =
     (case rd_exit_code d of
        Some code \<Rightarrow>
          if code = 0 \<and> \<not> rd_kill_requested d then ''completed''
          else if rd_kill_requested d then ''killed'' else ''failed''
      | None \<Rightarrow>
          if (case rd_pid d of None \<Rightarrow> False | Some pid \<Rightarrow> alive pid) then ''running''
          else if rd_kill_requested d then ''killed'' else ''failed'')"

definition log_size :: "string option \<Rightarrow> int" where
  "log_size f = (case f of None \<Rightarrow> 0 | Some s \<Rightarrow> int (length s))"

text \<open>\<open>dd skip=offset\<close> reads to the end of the file as it is by then.\<close>

definition log_chunk :: "int \<Rightarrow> int \<Rightarrow> string option \<Rightarrow> string" where
  "log_chunk sz offset f =
     (if sz > offset then drop (nat offset) (case f of None \<Rightarrow> [] | Some s \<Rightarrow> s) else [])"

text \<open>
  The poll script: it first takes the sizes of the logs in \<open>d\<close>, then reads from the offsets, when the
  directory is \<open>d'\<close>, and prints the sizes as the next offsets.
\<close>

definition poll_script ::
  "(string \<Rightarrow> string) \<Rightarrow> (int \<Rightarrow> bool) \<Rightarrow> int \<Rightarrow> int \<Rightarrow> remote_dir \<Rightarrow> remote_dir \<Rightarrow> pollPayload" where
  "poll_script b64 alive so se d d' =
     \<lparr>pp_State = script_state alive d', pp_ExitCode = rd_exit_code d',
      pp_StdoutB64 = b64 (log_chunk (log_size (rd_stdout d)) so (rd_stdout d')),
      pp_StderrB64 = b64 (log_chunk (log_size (rd_stderr d)) se (rd_stderr d')),
      pp_StdoutOffset = log_size (rd_stdout d), pp_StderrOffset = log_size (rd_stderr d)\<rparr>"

text \<open>The kill script marks the directory and signals the noted process, else the one of the handle.\<close>

definition kill_script :: "int \<Rightarrow> remote_dir \<Rightarrow> int option \<times> remote_dir" where
  "kill_script fallbackPID d =
     (let pid = (case rd_pid d of None \<Rightarrow> fallbackPID | Some p \<Rightarrow> p)
      in (if pid > 0 then Some pid else None, d\<lparr>rd_kill_requested := True\<rparr>))"

section \<open>What a poll makes of the answer\<close>

definition decodeB64 :: "(string \<Rightarrow> go_error + string) \<Rightarrow> string \<Rightarrow> go_error + string" where
  "decodeB64 unb64 v = (if v = [] then Inr [] else unb64 v)"

definition remote_state :: "string \<Rightarrow> string \<Rightarrow> string \<times> go_error option" where
  "remote_state method st =
     (if st = ''running'' then (RemoteRunning, None)
      else if st = ''completed'' then (RemoteCompleted, None)
      else if st = ''failed'' then (RemoteFailed, None)
      else if st = ''killed'' then (RemoteKilled, None)
      else (RemoteFailed, Some (ErrText (method @ '': unknown poll state '' @ quoted st))))"

definition poll_answer ::
  "string \<Rightarrow> (string \<Rightarrow> go_error + string) \<Rightarrow> pollPayload \<Rightarrow> poll_result \<times> go_error option" where
  "poll_answer method unb64 payload =
     (case decodeB64 unb64 (pp_StdoutB64 payload) of
        Inl err \<Rightarrow> (zero_poll_result, Some err)
      | Inr so \<Rightarrow>
          (case decodeB64 unb64 (pp_StderrB64 payload) of
             Inl err \<Rightarrow> (zero_poll_result, Some err)
           | Inr se \<Rightarrow>
               let (st, err) = remote_state method (pp_State payload)
               in (zero_poll_result\<lparr>pr_state := st, pr_exit_code := pp_ExitCode payload,
                     pr_stdout_chunk := so, pr_stderr_chunk := se,
                     pr_cursor := \<lparr>pc_stdout_offset = pp_StdoutOffset payload,
                                   pc_stderr_offset = pp_StderrOffset payload\<rparr>, pr_error := err\<rparr>, None)))"

end
