(* ===== verification/Exec_Ssh.thy ===== *)
theory Exec_Ssh
  imports Exec_Shell
begin

text \<open>
  The SSH execution method, \<open>internal/executor/ssh/ssh.go\<close>: a command that is waited for, or a detached
  one that leaves a directory on the host to poll. The host, the credentials, the keys and the
  decoders of texts are parameters; what a connection is allowed to is the method's own code.
\<close>

section \<open>Connections\<close>

record connectionConfig =
  cc_host :: string
  cc_username :: string
  cc_port :: int
  cc_privateKey :: string
  cc_strictHostKey :: bool
  cc_hostKeyB64 :: string
  cc_credentialID :: string

datatype remote_command = Plain string | Script script

text \<open>How a command ends: with an exit status, or without one.\<close>

datatype run_end = RunExit int | RunFailed go_error

text \<open>
  The world of one call: the loader of credentials, the service of a discovery URL with its decoder
  and the look-up of names, the parsers of keys, the host key a host presents when it is dialled, the
  error of a new session, what a command prints and how it ends, the decoders of the payloads, the
  session of a run that is being waited for, with the errors of its signal and of its closing.
\<close>

record ssh_world =
  sw_load :: "string \<Rightarrow> go_error + string \<times> string \<times> int \<times> bool"
  sw_get :: "string \<Rightarrow> go_error + int \<times> string"
  sw_discovery :: "string \<Rightarrow> go_error + string \<times> int \<times> string"
  sw_lookup :: "string \<Rightarrow> go_error + string list"
  sw_parse_key :: "string \<Rightarrow> go_error option"
  sw_public_key :: "string \<Rightarrow> string option"
  sw_dial :: "string \<Rightarrow> int \<Rightarrow> go_error + string"
  sw_login :: "connectionConfig \<Rightarrow> go_error option"
  sw_session :: "connectionConfig \<Rightarrow> go_error option"
  sw_run :: "connectionConfig \<Rightarrow> (string \<times> string) list \<Rightarrow> remote_command \<Rightarrow> string \<times> string \<times> run_end"
  sw_start_payload :: "string \<Rightarrow> go_error + startPayload"
  sw_poll_payload :: "string \<Rightarrow> go_error + pollPayload"
  sw_unb64 :: "string \<Rightarrow> go_error + string"
  sw_active :: "string \<Rightarrow> (go_error option \<times> go_error option) option"
  sw_now :: instant
  sw_elapsed :: int

text \<open>The check of a resolved address: an address that cannot be parsed passes.\<close>

definition refused_address :: "string \<Rightarrow> bool" where
  "refused_address s \<longleftrightarrow> (case ParseIP s of
     None \<Rightarrow> False | Some a \<Rightarrow> IsLoopback a \<or> IsPrivate a \<or> IsLinkLocalUnicast a)"

definition discover :: "ssh_world \<Rightarrow> string \<Rightarrow> go_error + string \<times> int \<times> string" where
  "discover sw url =
     (case sw_get sw url of
        Inl err \<Rightarrow> Inl err
      | Inr (code, body) \<Rightarrow>
          if code \<noteq> 200 then
            Inl (ErrText (''discovery returned '' @ Itoa code @ '': '' @ take 1024 body))
          else case sw_discovery sw body of
            Inl err \<Rightarrow> Inl (ErrText (''decode discovery response: '' @ Error err))
          | Inr (host, port, user) \<Rightarrow>
              if host = [] then Inl (ErrText (''discovery response missing '' @ [CHR 0x27] @ ''host'' @ [CHR 0x27]))
              else case sw_lookup sw host of
                Inl err \<Rightarrow> Inl (ErrText (''discovery host DNS resolution failed: '' @ Error err))
              | Inr ips \<Rightarrow>
                  if ips = [] then Inl (ErrText (''discovery host resolved to no addresses: '' @ host))
                  else case List.find refused_address ips of
                    Some ip \<Rightarrow> Inl (ErrText (''discovery returned private/loopback host: '' @ host @
                                               '' ('' @ ip @ '')''))
                  | None \<Rightarrow> Inr (hd ips, port, user))"

text \<open>The settings after the answer of a discovery URL, if there is one, and the host.\<close>

definition discovered ::
  "ssh_world \<Rightarrow> go_map option \<Rightarrow> go_error + string \<times> go_map option" where
  "discovered sw cfg =
     (let url = getString cfg ''discovery_url''
      in if url = [] then Inr (getString cfg ''host'', cfg)
         else case discover sw url of
           Inl err \<Rightarrow> Inl (ErrText (''ssh discovery failed: '' @ Error err))
         | Inr (host, port, user) \<Rightarrow>
             let cfg = (if port > 0 then Some (map_put ''port'' (JNum (of_int port)) (entries cfg)) else cfg);
                 cfg = (if user \<noteq> [] then Some (map_put ''username'' (JStr user) (entries cfg)) else cfg)
             in Inr (if host \<noteq> [] then host else getString cfg ''host'', cfg))"

definition resolveConnectionConfig :: "ssh_world \<Rightarrow> go_map option \<Rightarrow> go_error + connectionConfig" where
  "resolveConnectionConfig sw cfg0 =
     (case discovered sw cfg0 of
        Inl err \<Rightarrow> Inl err
      | Inr (host, cfg) \<Rightarrow>
          if host = [] then Inl (ErrText ''ssh: host is required'')
          else
            let cc = \<lparr>cc_host = host, cc_username = getString cfg ''username'',
                  cc_port = (if getInt cfg ''port'' > 0 then getInt cfg ''port'' else 22), cc_privateKey = [],
                  cc_strictHostKey = False, cc_hostKeyB64 = getString cfg ''host_key'', cc_credentialID = []\<rparr>;
                cid = getString cfg ''ssh_credential_id'';
                named = (\<lambda>cc. if cc_username cc = [] then Inl (ErrText ''ssh: username is required'') else Inr cc)
            in if cid \<noteq> [] then
                 (case sw_load sw cid of
                    Inl err \<Rightarrow> Inl (ErrText (''ssh: load credential: '' @ Error err))
                  | Inr (key, user, port, strict) \<Rightarrow>
                      named (cc\<lparr>cc_privateKey := key, cc_credentialID := cid, cc_strictHostKey := strict,
                        cc_username := (if cc_username cc = [] then user else cc_username cc),
                        cc_port := (if getInt cfg ''port'' = 0 \<and> port > 0 then port else cc_port cc)\<rparr>))
               else if getString cfg ''private_key'' = [] then
                 Inl (ErrText ''ssh: ssh_credential_id or inline private_key is required'')
               else named (cc\<lparr>cc_privateKey := getString cfg ''private_key'',
                      cc_strictHostKey := ssh_getBool cfg ''strict_host_key'' False,
                      cc_username := (if cc_username cc = [] then getString cfg ''user'' else cc_username cc)\<rparr>))"

text \<open>The host keys a connection accepts.\<close>

datatype host_key_policy = AnyHostKey | FixedHostKey string | NoHostKey

definition buildHostKeyCallback ::
  "ssh_world \<Rightarrow> bool \<Rightarrow> go_map option \<Rightarrow> string \<Rightarrow> host_key_policy" where
  "buildHostKeyCallback sw strict cfg fallbackB64 =
     (if \<not> strict then AnyHostKey
      else let b64 = (if fallbackB64 = [] then getString cfg ''host_key'' else fallbackB64)
           in if b64 = [] then NoHostKey
              else case sw_public_key sw b64 of Some k \<Rightarrow> FixedHostKey k | None \<Rightarrow> NoHostKey)"

fun accepts_key :: "host_key_policy \<Rightarrow> string \<Rightarrow> bool" where
  "accepts_key AnyHostKey k = True"
| "accepts_key (FixedHostKey k') k = (k' = k)"
| "accepts_key NoHostKey k = False"

text \<open>The error of a refused host key; the type of the key is cut off.\<close>

fun key_refused :: "host_key_policy \<Rightarrow> go_error" where
  "key_refused NoHostKey = ErrText (''ssh: strict host key verification enabled but no host_key '' @
     ''configured in method_config'')"
| "key_refused _ = ErrText ''ssh: host key mismatch''"

definition connect_error :: "connectionConfig \<Rightarrow> go_error \<Rightarrow> go_error" where
  "connect_error cc err =
     ErrText (''ssh: connect to '' @ cc_host cc @ '':'' @ Itoa (cc_port cc) @ '': '' @ Error err)"

definition ssh_connect :: "ssh_world \<Rightarrow> connectionConfig \<Rightarrow> go_map option \<Rightarrow> go_error option" where
  "ssh_connect sw cc cfg =
     (case sw_parse_key sw (cc_privateKey cc) of
        Some err \<Rightarrow> Some (ErrText (''ssh: parse key: '' @ Error err))
      | None \<Rightarrow>
          (case sw_dial sw (cc_host cc) (cc_port cc) of
             Inl err \<Rightarrow> Some (connect_error cc err)
           | Inr key \<Rightarrow>
               let policy = buildHostKeyCallback sw (cc_strictHostKey cc) cfg (cc_hostKeyB64 cc)
               in if \<not> accepts_key policy key then Some (connect_error cc (key_refused policy))
                  else map_option (connect_error cc) (sw_login sw cc)))"

section \<open>Commands\<close>

definition api_variables :: "string \<Rightarrow> string \<Rightarrow> (string \<times> string) list" where
  "api_variables runID apiBaseURL =
     (if runID = [] then [] else [(''CRONCONTROL_RUN_ID'', runID)]) @
     (if apiBaseURL = [] then [] else [(''CRONCONTROL_API_URL'', apiBaseURL)])"

text \<open>Standard output, standard error and the error, which an exit status other than 0 is, too.\<close>

definition runRemoteCommand ::
  "ssh_world \<Rightarrow> connectionConfig \<Rightarrow> string \<Rightarrow> string \<Rightarrow> script \<Rightarrow> string \<times> string \<times> go_error option" where
  "runRemoteCommand sw cc runID apiBaseURL sc =
     (case sw_session sw cc of
        Some err \<Rightarrow> ([], [], Some (ErrText (''ssh: create session: '' @ Error err)))
      | None \<Rightarrow>
          (case sw_run sw cc (api_variables runID apiBaseURL) (Script sc) of
             (out, err, RunExit code) \<Rightarrow>
               (out, err, if code = 0 then None else Some (ErrText (''Process exited with status '' @ Itoa code)))
           | (out, err, RunFailed x) \<Rightarrow> (out, err, Some x)))"

definition ssh_Execute :: "ssh_world \<Rightarrow> execute_params \<Rightarrow> result \<times> go_error option" where
  "ssh_Execute sw params =
     (let cfg = ep_method_config params; command = getString cfg ''command''
      in case resolveConnectionConfig sw cfg of
           Inl err \<Rightarrow> (no_result\<lparr>res_error := Some err\<rparr>, None)
         | Inr cc \<Rightarrow>
             if command = [] then (no_result\<lparr>res_error := Some (ErrText ''ssh: command is required'')\<rparr>, None)
             else case ssh_connect sw cc cfg of
               Some err \<Rightarrow> (no_result\<lparr>res_error := Some err, res_duration_ms := sw_elapsed sw\<rparr>, None)
             | None \<Rightarrow>
                 (case sw_session sw cc of
                    Some err \<Rightarrow> (no_result\<lparr>res_error := Some (ErrText (''ssh: create session: '' @ Error err)),
                                   res_duration_ms := sw_elapsed sw\<rparr>, None)
                  | None \<Rightarrow>
                      let env = (case ep_environment params of None \<Rightarrow> [] | Some vs \<Rightarrow> vs) @
                            [(''CRONCONTROL_RUN_ID'', ep_run_id params)] @
                            (if ep_api_base_url params = [] then []
                             else [(''CRONCONTROL_API_URL'', ep_api_base_url params)])
                      in (case sw_run sw cc env (Plain command) of
                            (out, err, RunExit code) \<Rightarrow>
                              (no_result\<lparr>res_exit_code := Some code, res_stdout := out, res_stderr := err,
                                 res_duration_ms := sw_elapsed sw\<rparr>, None)
                          | (out, err, RunFailed x) \<Rightarrow>
                              (no_result\<lparr>res_error := Some (ErrText (''ssh: run command: '' @ Error x)),
                                 res_stdout := out, res_stderr := err, res_duration_ms := sw_elapsed sw\<rparr>, None))))"

section \<open>Detached executions\<close>

definition detached_handle :: "string \<Rightarrow> connectionConfig \<Rightarrow> startPayload \<Rightarrow> handle" where
  "detached_handle runID cc payload =
     \<lparr>h_method_name = ''ssh'', h_run_id = runID,
      h_data = Some
        [(''host'', JStr (cc_host cc)), (''username'', JStr (cc_username cc)),
         (''port'', JNum (of_int (cc_port cc))), (''credential_id'', JStr (cc_credentialID cc)),
         (''strict_host_key'', JBool (cc_strictHostKey cc)), (''host_key'', JStr (cc_hostKeyB64 cc)),
         (''base_path'', JStr (st_BasePath payload)), (''pid'', JNum (of_int (st_Pid payload)))]\<rparr>"

text \<open>\<open>Inl\<close>: a result, and nothing to poll. The variables of the process are not passed on.\<close>

definition start_detached :: "ssh_world \<Rightarrow> start_params \<Rightarrow> result + handle" where
  "start_detached sw params =
     (let cfg = sp_method_config params; command = getString cfg ''command''
      in case resolveConnectionConfig sw cfg of
           Inl err \<Rightarrow> Inl (no_result\<lparr>res_error := Some err\<rparr>)
         | Inr cc \<Rightarrow>
             if command = [] then Inl (no_result\<lparr>res_error := Some (ErrText ''ssh: command is required'')\<rparr>)
             else case ssh_connect sw cc cfg of
               Some err \<Rightarrow> Inl (no_result\<lparr>res_error := Some err\<rparr>)
             | None \<Rightarrow>
                 (case runRemoteCommand sw cc (sp_run_id params) (sp_api_base_url params)
                         (StartScript (remoteBasePath (sp_run_id params) cfg) command) of
                    (out, err, Some x) \<Rightarrow>
                      Inl (no_result\<lparr>res_error := Some (ErrText (''ssh: start detached command: '' @ Error x)),
                             res_stdout := out, res_stderr := err\<rparr>)
                  | (out, err, None) \<Rightarrow>
                      (case sw_start_payload sw (TrimSpace out) of
                         Inl x \<Rightarrow>
                           Inl (no_result\<lparr>res_error := Some (ErrText (''ssh: parse detached start payload: '' @ Error x)),
                                  res_stdout := out, res_stderr := err\<rparr>)
                       | Inr payload \<Rightarrow> Inr (detached_handle (sp_run_id params) cc payload))))"

definition ssh_Start :: "ssh_world \<Rightarrow> start_params \<Rightarrow> start_result \<times> go_error option" where
  "ssh_Start sw params =
     (let plain = \<lparr>h_method_name = ''ssh'', h_run_id = sp_run_id params, h_data = Some []\<rparr>
      in if \<not> isDetached (sp_method_config params) then
           (case ssh_Execute sw (execute_of params) of
              (r, err) \<Rightarrow> (\<lparr>sr_handle = plain, sr_accepted_at = sw_now sw, sr_result = Some r\<rparr>, err))
         else (case start_detached sw params of
              Inl r \<Rightarrow> (\<lparr>sr_handle = plain, sr_accepted_at = 0, sr_result = Some r\<rparr>, None)
            | Inr h \<Rightarrow> (\<lparr>sr_handle = h, sr_accepted_at = sw_now sw, sr_result = None\<rparr>, None)))"

text \<open>The connection, the directory and the process of a handle.\<close>

definition connectionConfigFromHandle ::
  "ssh_world \<Rightarrow> handle \<Rightarrow> go_error + connectionConfig \<times> string \<times> int" where
  "connectionConfigFromHandle sw h =
     (let d = h_data h; host = getString d ''host''; user = getString d ''username'';
          base = getString d ''base_path''; cid = getString d ''credential_id''
      in if host = [] \<or> user = [] \<or> base = [] then Inl (ErrText ''ssh: incomplete handle data'')
         else if cid = [] then
           Inl (ErrText ''ssh: detached handle without credential_id is not supported'')
         else case sw_load sw cid of
           Inl err \<Rightarrow> Inl (ErrText (''ssh: reload credential: '' @ Error err))
         | Inr (key, _, _, _) \<Rightarrow>
             Inr (\<lparr>cc_host = host, cc_username = user,
                   cc_port = (if getInt d ''port'' = 0 then 22 else getInt d ''port''), cc_privateKey = key,
                   cc_strictHostKey = ssh_getBool d ''strict_host_key'' False,
                   cc_hostKeyB64 = getString d ''host_key'', cc_credentialID = cid\<rparr>,
                  base, getInt d ''pid''))"

definition handle_settings :: "connectionConfig \<Rightarrow> go_map option" where
  "handle_settings cc = Some [(''host_key'', JStr (cc_hostKeyB64 cc))]"

definition ssh_Poll :: "ssh_world \<Rightarrow> handle \<Rightarrow> poll_cursor \<Rightarrow> poll_result \<times> go_error option" where
  "ssh_Poll sw h cursor =
     (case connectionConfigFromHandle sw h of
        Inl err \<Rightarrow> (zero_poll_result, Some err)
      | Inr (cc, base, pid) \<Rightarrow>
          (case ssh_connect sw cc (handle_settings cc) of
             Some err \<Rightarrow> (zero_poll_result, Some err)
           | None \<Rightarrow>
               (case runRemoteCommand sw cc (h_run_id h) []
                       (PollScript base (pc_stdout_offset cursor) (pc_stderr_offset cursor)) of
                  (out, err, Some x) \<Rightarrow>
                    (zero_poll_result, Some (ErrText (''ssh: poll command failed: '' @ Error x @
                       '' (stderr: '' @ err @ '')'')))
                | (out, err, None) \<Rightarrow>
                    (case sw_poll_payload sw (TrimSpace out) of
                       Inl x \<Rightarrow> (zero_poll_result, Some (ErrText (''ssh: parse poll payload: '' @ Error x)))
                     | Inr payload \<Rightarrow> poll_answer ''ssh'' (sw_unb64 sw) payload))))"

text \<open>A session that is being waited for is signalled, and closed when that fails.\<close>

definition ssh_Kill :: "ssh_world \<Rightarrow> handle \<Rightarrow> go_error option" where
  "ssh_Kill sw h =
     (case sw_active sw (h_run_id h) of
        Some (signal, close) \<Rightarrow> if signal = None then None else close
      | None \<Rightarrow>
          (case connectionConfigFromHandle sw h of
             Inl err \<Rightarrow> Some err
           | Inr (cc, base, pid) \<Rightarrow>
               (case ssh_connect sw cc (handle_settings cc) of
                  Some err \<Rightarrow> Some err
                | None \<Rightarrow>
                    (case runRemoteCommand sw cc (h_run_id h) [] (KillScript base pid) of
                       (out, err, Some x) \<Rightarrow>
                         Some (ErrText (''ssh: detached kill failed: '' @ Error x @ '' (stderr: '' @ err @ '')''))
                     | (out, err, None) \<Rightarrow> None))))"

definition ssh_method :: "ssh_world \<Rightarrow> method_impl" where
  "ssh_method sw =
     \<lparr>m_Start = ssh_Start sw, m_Poll = ssh_Poll sw, m_Kill = ssh_Kill sw,
      m_SupportsKill = True, m_SupportsHeartbeat = True, m_IsAsync = True\<rparr>"

end
