(* ===== verification/Exec_Ssm.thy ===== *)
theory Exec_Ssm
  imports Exec_Shell
begin

text \<open>
  The method of AWS Systems Manager, \<open>internal/executor/ssm/ssm.go\<close>: a command that is waited for, or a
  detached one with a directory to poll, by the scripts of \<open>Exec_Shell\<close>. The answers of AWS, the
  profiles and the decoders of texts are parameters. The variables of the environment, which Go visits
  in a random order, are visited in the order of the list.
\<close>

section \<open>The environment of a command\<close>

definition letter :: "char \<Rightarrow> bool" where
  "letter c \<longleftrightarrow> (let n = (of_char c :: nat) in 65 \<le> n \<and> n \<le> 90 \<or> 97 \<le> n \<and> n \<le> 122 \<or> n = 95)"

text \<open>\<open>validEnvKeyRe\<close>\<close>

definition validEnvKey :: "string \<Rightarrow> bool" where
  "validEnvKey k \<longleftrightarrow> k \<noteq> [] \<and> letter (hd k) \<and> list_all (\<lambda>c. letter c \<or> is_digit c) (tl k)"

definition export :: "string \<times> string \<Rightarrow> string" where
  "export kv = ''export '' @ fst kv @ ''='' @ shellQuote (snd kv) @ ''; ''"

definition env_vars ::
  "(string \<times> string) list option \<Rightarrow> string \<Rightarrow> string \<Rightarrow> (string \<times> string) list" where
  "env_vars env runID apiBaseURL =
     filter (\<lambda>kv. validEnvKey (fst kv)) (case env of None \<Rightarrow> [] | Some vs \<Rightarrow> vs) @
     (if runID = [] then [] else [(''CRONCONTROL_RUN_ID'', runID)]) @
     (if apiBaseURL = [] then [] else [(''CRONCONTROL_API_URL'', apiBaseURL)])"

definition buildEnvPrefix :: "(string \<times> string) list option \<Rightarrow> string \<Rightarrow> string \<Rightarrow> string" where
  "buildEnvPrefix env runID apiBaseURL = List.concat (map export (env_vars env runID apiBaseURL))"

section \<open>Profiles and targets\<close>

record profileConfig =
  pf_profileID :: string
  pf_region :: string
  pf_roleARN :: string

text \<open>One answer of \<open>GetCommandInvocation\<close>: an error, or status, response code, output, errors, details.\<close>

datatype invocation = InvocationError go_error | Invocation string int string string string

datatype sent_command = SendPlain string | SendScript script

text \<open>
  The world of one call: the loader of profiles, the errors of a client, the instances under a tag, the
  answer to a command that is sent, the answers of the following ticks until the caller gives up, the
  decoders, the error of cancelling the command that is waited for.
\<close>

record ssm_world =
  mw_load :: "string \<Rightarrow> go_error + string \<times> string"
  mw_client :: "profileConfig \<Rightarrow> go_error option"
  mw_describe :: "profileConfig \<Rightarrow> string \<Rightarrow> string \<Rightarrow> go_error + string list"
  mw_send :: "profileConfig \<Rightarrow> string \<Rightarrow> sent_command \<Rightarrow> go_error + string"
  mw_invocations :: "profileConfig \<Rightarrow> string \<Rightarrow> string \<Rightarrow> invocation list"
  mw_start_payload :: "string \<Rightarrow> go_error + startPayload"
  mw_poll_payload :: "string \<Rightarrow> go_error + pollPayload"
  mw_unb64 :: "string \<Rightarrow> go_error + string"
  mw_active :: "string \<Rightarrow> go_error option option"
  mw_now :: instant
  mw_elapsed :: int

definition resolveProfile :: "ssm_world \<Rightarrow> go_map option \<Rightarrow> go_error + profileConfig" where
  "resolveProfile mw cfg =
     (let pid = getString cfg ''ssm_profile_id'';
          overridden = (\<lambda>p.
            let p = (if getString cfg ''region'' \<noteq> [] then p\<lparr>pf_region := getString cfg ''region''\<rparr> else p)
            in if getString cfg ''role_arn'' \<noteq> [] then p\<lparr>pf_roleARN := getString cfg ''role_arn''\<rparr> else p);
          p0 = \<lparr>pf_profileID = pid, pf_region = ''us-east-1'', pf_roleARN = []\<rparr>
      in if pid = [] then Inr (overridden p0)
         else case mw_load mw pid of
           Inl err \<Rightarrow> Inl (ErrText (''ssm: load profile: '' @ Error err))
         | Inr (region, role) \<Rightarrow>
             Inr (overridden (p0\<lparr>pf_region := (if region \<noteq> [] then region else ''us-east-1''), pf_roleARN := role\<rparr>)))"

text \<open>The profile is loaded anew; when that fails, the stored region and role are used.\<close>

definition profileFromHandle ::
  "ssm_world \<Rightarrow> handle \<Rightarrow> go_error + (string \<times> string \<times> int) \<times> profileConfig" where
  "profileFromHandle mw h =
     (let d = h_data h; inst = getString d ''instance_id''; base = getString d ''base_path'';
          p = \<lparr>pf_profileID = getString d ''profile_id'',
               pf_region = defaultString (getString d ''region'') ''us-east-1'', pf_roleARN = getString d ''role_arn''\<rparr>
      in if inst = [] \<or> base = [] then Inl (ErrText ''ssm: incomplete handle data'')
         else Inr ((inst, base, getInt d ''pid''),
           if pf_profileID p = [] then p
           else case mw_load mw (pf_profileID p) of
             Inl _ \<Rightarrow> p
           | Inr (region, role) \<Rightarrow>
               p\<lparr>pf_region := (if region \<noteq> [] then region else pf_region p),
                 pf_roleARN := (if role \<noteq> [] then role else pf_roleARN p)\<rparr>))"

definition resolveTargetInstanceID ::
  "ssm_world \<Rightarrow> profileConfig \<Rightarrow> go_map option \<Rightarrow> go_error + string" where
  "resolveTargetInstanceID mw p cfg =
     (let inst = getString cfg ''instance_id''; key = getString cfg ''tag_key''; val = getString cfg ''tag_value''
      in if inst \<noteq> [] then Inr inst
         else if key = [] \<or> val = [] then Inl (ErrText ''ssm: instance_id or tag_key+tag_value is required'')
         else case mw_describe mw p key val of
           Inl err \<Rightarrow> Inl (ErrText (''ssm: describe instances: '' @ Error err))
         | Inr ids \<Rightarrow>
             if length ids \<noteq> 1 then
               Inl (ErrText (''ssm: target resolved to '' @ Itoa (int (length ids)) @
                             '' instances, expected exactly 1''))
             else Inr (hd ids))"

section \<open>Commands\<close>

fun Contains :: "string \<Rightarrow> string \<Rightarrow> bool" where
  "Contains [] t = (t = [])"
| "Contains (c # s) t = (HasPrefix (c # s) t \<or> Contains s t)"

text \<open>
  The loop of \<open>pollCommandResult\<close> over the answers; when they are used up, the context has ended.
\<close>

fun pollCommandResult :: "invocation list \<Rightarrow> result \<times> go_error option" where
  "pollCommandResult [] = (no_result, Some (ErrText ''context canceled''))"
| "pollCommandResult (InvocationError err # xs) =
     (if Contains (Error err) ''InvocationDoesNotExist'' then pollCommandResult xs else (no_result, Some err))"
| "pollCommandResult (Invocation status code out err details # xs) =
     (if status = ''Success'' then
        (no_result\<lparr>res_exit_code := Some 0, res_stdout := out, res_stderr := err\<rparr>, None)
      else if status = ''Failed'' \<or> status = ''TimedOut'' then
        (no_result\<lparr>res_exit_code := Some (if code = 0 then 1 else code), res_stdout := out, res_stderr := err,
           res_error := Some (ErrText (''ssm command '' @ status @ '': '' @ details))\<rparr>, None)
      else if status = ''Cancelled'' then
        (no_result\<lparr>res_exit_code := Some 137, res_stdout := out, res_stderr := err,
           res_error := Some (ErrText ''ssm command cancelled'')\<rparr>, None)
      else pollCommandResult xs)"

definition runSSMCommand ::
  "ssm_world \<Rightarrow> profileConfig \<Rightarrow> string \<Rightarrow> sent_command \<Rightarrow> result" where
  "runSSMCommand mw p inst cmd =
     (case mw_send mw p inst cmd of
        Inl err \<Rightarrow> no_result\<lparr>res_error := Some (ErrText (''ssm: send command: '' @ Error err)),
                      res_duration_ms := mw_elapsed mw\<rparr>
      | Inr cid \<Rightarrow>
          (case pollCommandResult (mw_invocations mw p cid inst) of
             (r, Some err) \<Rightarrow> no_result\<lparr>res_error := Some (ErrText (''ssm: poll result: '' @ Error err)),
                                res_duration_ms := mw_elapsed mw\<rparr>
           | (r, None) \<Rightarrow> r\<lparr>res_duration_ms := mw_elapsed mw\<rparr>))"

text \<open>Profile, client and target of a command; \<open>Inl\<close> is the error of the first step that fails.\<close>

definition ssm_target :: "ssm_world \<Rightarrow> go_map option \<Rightarrow> go_error + profileConfig \<times> string" where
  "ssm_target mw cfg =
     (if getString cfg ''command'' = [] then Inl (ErrText ''ssm: command is required'')
      else case resolveProfile mw cfg of
        Inl err \<Rightarrow> Inl err
      | Inr p \<Rightarrow>
          (case mw_client mw p of
             Some err \<Rightarrow> Inl (ErrText (''ssm: load aws config: '' @ Error err))
           | None \<Rightarrow>
               (case resolveTargetInstanceID mw p cfg of Inl err \<Rightarrow> Inl err | Inr inst \<Rightarrow> Inr (p, inst))))"

definition ssm_Execute :: "ssm_world \<Rightarrow> execute_params \<Rightarrow> result \<times> go_error option" where
  "ssm_Execute mw params =
     (let cfg = ep_method_config params
      in case ssm_target mw cfg of
           Inl err \<Rightarrow> (no_result\<lparr>res_error := Some err\<rparr>, None)
         | Inr (p, inst) \<Rightarrow>
             (runSSMCommand mw p inst (SendPlain
                (buildEnvPrefix (ep_environment params) (ep_run_id params) (ep_api_base_url params) @
                 getString cfg ''command'')), None))"

section \<open>Detached executions\<close>

definition ssm_handle :: "string \<Rightarrow> profileConfig \<Rightarrow> string \<Rightarrow> startPayload \<Rightarrow> handle" where
  "ssm_handle runID p inst payload =
     \<lparr>h_method_name = ''ssm'', h_run_id = runID,
      h_data = Some
        [(''instance_id'', JStr inst), (''profile_id'', JStr (pf_profileID p)), (''region'', JStr (pf_region p)),
         (''role_arn'', JStr (pf_roleARN p)), (''base_path'', JStr (st_BasePath payload)),
         (''pid'', JNum (of_int (st_Pid payload)))]\<rparr>"

definition ssm_start_detached :: "ssm_world \<Rightarrow> start_params \<Rightarrow> result + handle" where
  "ssm_start_detached mw params =
     (let cfg = sp_method_config params
      in case ssm_target mw cfg of
           Inl err \<Rightarrow> Inl (no_result\<lparr>res_error := Some err\<rparr>)
         | Inr (p, inst) \<Rightarrow>
             let r = runSSMCommand mw p inst (SendScript (StartScript (remoteBasePath (sp_run_id params) cfg)
                   (buildEnvPrefix (sp_environment params) (sp_run_id params) (sp_api_base_url params) @
                    getString cfg ''command'')))
             in if res_error r \<noteq> None \<or> \<not> IsSuccess r then Inl r
                else case mw_start_payload mw (TrimSpace (res_stdout r)) of
                  Inl err \<Rightarrow>
                    Inl (no_result\<lparr>res_error := Some (ErrText (''ssm: parse detached start payload: '' @ Error err)),
                           res_stdout := res_stdout r, res_stderr := res_stderr r\<rparr>)
                | Inr payload \<Rightarrow> Inr (ssm_handle (sp_run_id params) p inst payload))"

definition ssm_Start :: "ssm_world \<Rightarrow> start_params \<Rightarrow> start_result \<times> go_error option" where
  "ssm_Start mw params =
     (let plain = \<lparr>h_method_name = ''ssm'', h_run_id = sp_run_id params, h_data = Some []\<rparr>
      in if \<not> isDetached (sp_method_config params) then
           (case ssm_Execute mw (execute_of params) of
              (r, err) \<Rightarrow> (\<lparr>sr_handle = plain, sr_accepted_at = mw_now mw, sr_result = Some r\<rparr>, err))
         else (case ssm_start_detached mw params of
              Inl r \<Rightarrow> (\<lparr>sr_handle = plain, sr_accepted_at = 0, sr_result = Some r\<rparr>, None)
            | Inr h \<Rightarrow> (\<lparr>sr_handle = h, sr_accepted_at = mw_now mw, sr_result = None\<rparr>, None)))"

definition ssm_Poll :: "ssm_world \<Rightarrow> handle \<Rightarrow> poll_cursor \<Rightarrow> poll_result \<times> go_error option" where
  "ssm_Poll mw h cursor =
     (case profileFromHandle mw h of
        Inl err \<Rightarrow> (zero_poll_result, Some err)
      | Inr ((inst, base, pid), p) \<Rightarrow>
          (case mw_client mw p of
             Some err \<Rightarrow> (zero_poll_result, Some (ErrText (''ssm: load aws config: '' @ Error err)))
           | None \<Rightarrow>
               let r = runSSMCommand mw p inst
                     (SendScript (PollScript base (pc_stdout_offset cursor) (pc_stderr_offset cursor)))
               in (case res_error r of
                     Some err \<Rightarrow> (zero_poll_result, Some err)
                   | None \<Rightarrow>
                       (case mw_poll_payload mw (TrimSpace (res_stdout r)) of
                          Inl err \<Rightarrow> (zero_poll_result, Some (ErrText (''ssm: parse poll payload: '' @ Error err)))
                        | Inr payload \<Rightarrow> poll_answer ''ssm'' (mw_unb64 mw) payload))))"

definition ssm_Kill :: "ssm_world \<Rightarrow> handle \<Rightarrow> go_error option" where
  "ssm_Kill mw h =
     (case mw_active mw (h_run_id h) of
        Some cancelled \<Rightarrow> cancelled
      | None \<Rightarrow>
          (case profileFromHandle mw h of
             Inl err \<Rightarrow> Some err
           | Inr ((inst, base, pid), p) \<Rightarrow>
               (case mw_client mw p of
                  Some err \<Rightarrow> Some (ErrText (''ssm: load aws config: '' @ Error err))
                | None \<Rightarrow> res_error (runSSMCommand mw p inst (SendScript (KillScript base pid))))))"

definition ssm_method :: "ssm_world \<Rightarrow> method_impl" where
  "ssm_method mw =
     \<lparr>m_Start = ssm_Start mw, m_Poll = ssm_Poll mw, m_Kill = ssm_Kill mw,
      m_SupportsKill = True, m_SupportsHeartbeat = True, m_IsAsync = True\<rparr>"

end
