(* ===== verification/Remote_Properties.thy ===== *)
theory Remote_Properties
  imports Exec_Ssh Exec_Ssm Http_Properties "HOL-Library.Sublist"
begin

text \<open>
  What holds of the methods that run commands on other hosts: the quoting of words, the output that
  polls collect, the outcome of a command, and which detached executions can be followed.
\<close>

section \<open>Quoting\<close>

lemma ReplaceAll_char:
  "ReplaceAll [q] new s = List.concat (map (\<lambda>c. if c = q then new else [c]) s)"
  by (induction s) auto

lemma shell_word_quoted:
  "shell_word True (ReplaceAll [CHR 0x27] [CHR 0x27, CHR 0x5C, CHR 0x27, CHR 0x27] s @ CHR 0x27 # rest) =
   map_option (map_prod ((@) s) id) (shell_word False rest)"
proof (induction s)
  case Nil
  then show ?case by (cases "shell_word False rest") simp_all
next
  case (Cons c s)
  then show ?case
    by (cases "shell_word False rest") (auto simp: ReplaceAll_char map_prod_def split: prod.splits)
qed

text \<open>
  A quoted text is one word for the shell, the text itself, whatever characters it has: what
  follows is read as it would be read without it.
\<close>

theorem quoted_word_reads_back:
  "shell_word False (shellQuote s) = Some (s, []) \<and>
   shell_word False (shellQuote s @ ''; '' @ rest) = Some (s, ''; '' @ rest)"
  by (simp add: shellQuote_def shell_word_quoted ends_word_def)

text \<open>The reader of \<open>n\<close> assignments at the front of a command.\<close>

fun read_exports :: "nat \<Rightarrow> string \<Rightarrow> ((string \<times> string) list \<times> string) option" where
  "read_exports 0 s = Some ([], s)"
| "read_exports (Suc n) s =
     (if \<not> HasPrefix s ''export '' then None
      else let s1 = drop 7 s; k = takeWhile (\<lambda>c. c \<noteq> CHR ''='') s1
           in case shell_word False (drop (length k + 1) s1) of
                Some (v, r) \<Rightarrow>
                  if HasPrefix r ''; '' then map_option (map_prod (Cons (k, v)) id) (read_exports n (drop 2 r))
                  else None
              | None \<Rightarrow> None)"

lemma read_export:
  assumes "CHR ''='' \<notin> set (fst kv)"
  shows "read_exports (Suc n) (export kv @ s) = map_option (map_prod (Cons kv) id) (read_exports n s)"
proof -
  have key: "takeWhile (\<lambda>c. c \<noteq> CHR ''='') (fst kv @ CHR ''='' # t) = fst kv" for t
    using assms by (simp add: takeWhile_append2 takeWhile_tail) (metis takeWhile_eq_all_conv)
  have word: "shell_word False (shellQuote (snd kv) @ CHR '';'' # CHR '' '' # s) = Some (snd kv, CHR '';'' # CHR '' '' # s)"
    by (simp add: shellQuote_def shell_word_quoted ends_word_def)
  show ?thesis by (simp add: export_def key word)
qed

lemma valid_key: "validEnvKey k \<Longrightarrow> CHR ''='' \<notin> set k"
proof -
  assume k: "validEnvKey k"
  have "\<not> letter (CHR ''='')" "\<not> is_digit (CHR ''='')" by (simp_all add: letter_def is_digit_def)
  with k show ?thesis by (cases k) (auto simp: validEnvKey_def list_all_iff)
qed

lemma env_vars_key: "kv \<in> set (env_vars env runID url) \<Longrightarrow> CHR ''='' \<notin> set (fst kv)"
  by (auto simp: env_vars_def valid_key split: option.splits if_splits)


section \<open>Output of detached executions\<close>

text \<open>The polls of the standard output, each from the cursor of the one before.\<close>

definition look ::
  "(string \<Rightarrow> string) \<Rightarrow> (string \<Rightarrow> go_error + string) \<Rightarrow> (int \<Rightarrow> bool) \<Rightarrow> poll_cursor \<Rightarrow>
   remote_dir \<times> remote_dir \<Rightarrow> poll_result" where
  "look b64 unb64 alive cur dd = fst (poll_answer ''ssh'' unb64
     (poll_script b64 alive (pc_stdout_offset cur) (pc_stderr_offset cur) (fst dd) (snd dd)))"

fun stdout_chunks ::
  "(string \<Rightarrow> string) \<Rightarrow> (string \<Rightarrow> go_error + string) \<Rightarrow> (int \<Rightarrow> bool) \<Rightarrow> poll_cursor \<Rightarrow>
   (remote_dir \<times> remote_dir) list \<Rightarrow> string list" where
  "stdout_chunks b64 unb64 alive cur [] = []"
| "stdout_chunks b64 unb64 alive cur (dd # dds) =
     (let p = look b64 unb64 alive cur dd
      in pr_stdout_chunk p # stdout_chunks b64 unb64 alive (pr_cursor p) dds)"

text \<open>The decoder undoes the encoding of the remote host.\<close>

definition codec :: "(string \<Rightarrow> string) \<Rightarrow> (string \<Rightarrow> go_error + string) \<Rightarrow> bool" where
  "codec b64 unb64 \<longleftrightarrow> (\<forall>s. unb64 (b64 s) = Inr s) \<and> b64 [] = []"

lemma decode_encoded: "codec b64 unb64 \<Longrightarrow> decodeB64 unb64 (b64 s) = Inr s"
  by (metis codec_def decodeB64_def)

lemma look_stdout:
  assumes "codec b64 unb64"
  shows "pr_stdout_chunk (look b64 unb64 alive cur (d, d')) =
      log_chunk (log_size (rd_stdout d)) (pc_stdout_offset cur) (rd_stdout d')"
    "pc_stdout_offset (pr_cursor (look b64 unb64 alive cur (d, d'))) = log_size (rd_stdout d)"
  using decode_encoded[OF assms]
  by (simp_all add: look_def poll_answer_def poll_script_def Let_def split_beta)

lemma chunks_from:
  assumes "codec b64 unb64" "sorted_wrt prefix (map (\<lambda>d. the (rd_stdout d)) (d # ds))"
    and "\<forall>d\<in>set (d # ds). rd_stdout d \<noteq> None" "prefix s (the (rd_stdout d))" "pc_stdout_offset cur = int (length s)"
  shows "s @ List.concat (stdout_chunks b64 unb64 alive cur (map (\<lambda>d. (d, d)) (d # ds))) =
    the (rd_stdout (last (d # ds)))"
  using assms(2-5)
proof (induction ds arbitrary: d s cur)
  case Nil
  obtain t where t: "rd_stdout d = Some (s @ t)" using Nil.prems by (auto simp: prefix_def)
  then show ?case
    using Nil.prems(4) by (simp add: look_stdout[OF assms(1)] log_chunk_def log_size_def)
next
  case (Cons d1 ds)
  obtain t where t: "rd_stdout d = Some (s @ t)" using Cons.prems by (auto simp: prefix_def)
  let ?p = "look b64 unb64 alive cur (d, d)"
  have "(s @ t) @ List.concat (stdout_chunks b64 unb64 alive (pr_cursor ?p) (map (\<lambda>d. (d, d)) (d1 # ds))) =
      the (rd_stdout (last (d1 # ds)))"
  proof (rule Cons.IH)
    show "prefix (s @ t) (the (rd_stdout d1))" using Cons.prems(1) t by simp
    show "pc_stdout_offset (pr_cursor ?p) = int (length (s @ t))"
      by (simp add: look_stdout[OF assms(1)] log_size_def t)
  qed (use Cons.prems in auto)
  moreover have "pr_stdout_chunk ?p = t"
    using Cons.prems(4) by (simp add: look_stdout[OF assms(1)] log_chunk_def log_size_def t)
  ultimately show ?case by (simp del: stdout_chunks.simps add: stdout_chunks.simps(2))
qed


text \<open>
  What is written between the two looks of a poll, after the size is taken and before the log is
  read, is collected twice: the chunk holds it already, and the next poll starts at the old size.
\<close>

theorem growth_is_collected_twice:
  assumes "codec b64 unb64" "s \<noteq> []" "rd_stdout d = Some s" "rd_stdout d' = Some (s @ t)"
  shows "List.concat (stdout_chunks b64 unb64 alive \<lparr>pc_stdout_offset = 0, pc_stderr_offset = 0\<rparr> [(d, d'), (d', d')]) =
    s @ t @ t"
  using assms(2-4) by (simp add: look_stdout[OF assms(1)] log_chunk_def log_size_def Let_def)

section \<open>Detached executions over SSH\<close>

lemma discovered_credential:
  "discovered sw cfg = Inr (host, cfg') \<Longrightarrow> getString cfg' ''ssh_credential_id'' = getString cfg ''ssh_credential_id''"
  by (auto simp: discovered_def Let_def getString_def map_string_def entries_def
      split: if_splits sum.splits prod.splits option.splits)

lemma resolved_credential:
  assumes "resolveConnectionConfig sw cfg = Inr cc" "getString cfg ''ssh_credential_id'' = []"
  shows "cc_credentialID cc = []"
  using assms discovered_credential[of sw cfg]
  by (auto simp: resolveConnectionConfig_def Let_def split: sum.splits prod.splits if_splits)

lemma inline_handle_refused:
  assumes "h = detached_handle rid cc payload" "cc_credentialID cc = []"
  shows "\<exists>err. connectionConfigFromHandle sw h = Inl err"
  using assms
  by (simp add: connectionConfigFromHandle_def detached_handle_def Let_def getString_def map_string_def entries_def)

text \<open>
  A detached execution with a key in its settings starts, but nobody can follow or stop it: every
  poll and every kill of its handle is an error, and the polling of the executor never changes its run.
\<close>

theorem inline_key_is_never_polled:
  assumes "m_Start (ssh_method sw) params = (sr, err)" "sr_result sr = None"
    and "getString (sp_method_config params) ''ssh_credential_id'' = []"
    and "sw_active sw' (sp_run_id params) = None"
    and "registry_Get (o_registry o') ''ssh'' = Some (ssh_method sw')"
    and "ap_execution_handle row = marshal_handle (sr_handle sr)"
  shows "(\<exists>x. m_Poll (ssh_method sw') (sr_handle sr) cursor = (zero_poll_result, Some x)) \<and>
    m_Kill (ssh_method sw') (sr_handle sr) \<noteq> None \<and> pollAsyncRun o' e row w = w"
proof -
  obtain h where h: "start_detached sw params = Inr h" "sr_handle sr = h"
    using assms(1,2) by (auto simp: ssh_method_def ssh_Start_def Let_def split: if_splits prod.splits sum.splits)
  obtain cc payload where cc: "h = detached_handle (sp_run_id params) cc payload" "cc_credentialID cc = []"
    using h(1) resolved_credential[OF _ assms(3), of sw]
    by (auto simp: start_detached_def Let_def split: sum.splits if_splits option.splits prod.splits)
  obtain x where x: "connectionConfigFromHandle sw' h = Inl x" using inline_handle_refused[OF cc] by blast
  have poll: "m_Poll (ssh_method sw') h cur = (zero_poll_result, Some x)" for cur
    by (simp add: ssh_method_def ssh_Poll_def x)
  have names: "h_method_name h = ''ssh''" "h_run_id h = sp_run_id params"
    by (simp_all add: cc detached_handle_def)
  have "pollAsyncRun o' e row w = w"
    using assms(5,6) h(2) names by (simp add: pollAsyncRun_def poll)
  moreover have "m_Kill (ssh_method sw') h \<noteq> None"
    using assms(4) names by (simp add: ssh_method_def ssh_Kill_def x)
  ultimately show ?thesis using poll h(2) by blast
qed

section \<open>Outcome of a command of AWS\<close>

text \<open>The first status that ends the loop, \<open>None\<close> when an error or the end of the answers does.\<close>

fun concluded :: "invocation list \<Rightarrow> string option" where
  "concluded [] = None"
| "concluded (InvocationError err # xs) =
     (if Contains (Error err) ''InvocationDoesNotExist'' then concluded xs else None)"
| "concluded (Invocation status code out err details # xs) =
     (if status \<in> {''Success'', ''Failed'', ''TimedOut'', ''Cancelled''} then Some status else concluded xs)"

lemma pollCommandResult_concluded:
  "(snd (pollCommandResult xs) = None \<longleftrightarrow> concluded xs \<noteq> None) \<and>
   (snd (pollCommandResult xs) = None \<longrightarrow> (IsSuccess (fst (pollCommandResult xs)) \<longleftrightarrow> concluded xs = Some ''Success''))"
  by (induction xs rule: pollCommandResult.induct) (auto simp: IsSuccess_def no_result_def)

text \<open>
  A command of AWS succeeds exactly if it is sent and the first status that ends it is a success:
  answers that it does not exist yet, and statuses in between, are waited out, and a failure never
  comes with exit code 0.
\<close>

theorem ssm_outcome:
  "IsSuccess (runSSMCommand mw p inst cmd) \<longleftrightarrow>
     (\<exists>cid. mw_send mw p inst cmd = Inr cid \<and> concluded (mw_invocations mw p cid inst) = Some ''Success'')"
proof (cases "mw_send mw p inst cmd")
  case (Inl err)
  then show ?thesis by (simp add: runSSMCommand_def IsSuccess_def no_result_def)
next
  case (Inr cid)
  obtain r err where r: "pollCommandResult (mw_invocations mw p cid inst) = (r, err)"
    by (cases "pollCommandResult (mw_invocations mw p cid inst)")
  have "IsSuccess (r\<lparr>res_duration_ms := d\<rparr>) = IsSuccess r" for d by (simp add: IsSuccess_def split: option.split)
  then show ?thesis
    using pollCommandResult_concluded[of "mw_invocations mw p cid inst"]
    by (cases err) (auto simp: runSSMCommand_def Inr r, simp_all add: IsSuccess_def no_result_def)
qed

section \<open>Witnesses\<close>

definition sample_dir :: "string \<Rightarrow> remote_dir" where
  "sample_dir out = \<lparr>rd_stdout = Some out, rd_stderr = Some [], rd_pid = Some 7, rd_exit_code = None,
     rd_kill_requested = False\<rparr>"

lemma codec_id: "codec (\<lambda>s. s) Inr"
  by (simp add: codec_def)


lemma growth_is_collected_twice_witness:
  "List.concat (stdout_chunks (\<lambda>s. s) Inr (\<lambda>_. True) \<lparr>pc_stdout_offset = 0, pc_stderr_offset = 0\<rparr>
     [(sample_dir ''a'', sample_dir ''ab''), (sample_dir ''ab'', sample_dir ''ab'')]) = ''abb''"
  using growth_is_collected_twice[OF codec_id, of "''a''" "sample_dir ''a''" "sample_dir ''ab''" "''b''" "\<lambda>_. True"]
  by (simp add: sample_dir_def)

definition sample_ssh :: ssh_world where
  "sample_ssh =
     \<lparr>sw_load = (\<lambda>_. Inl ErrNoRows), sw_get = (\<lambda>_. Inl ErrNoRows), sw_discovery = (\<lambda>_. Inl ErrNoRows),
      sw_lookup = (\<lambda>_. Inr []), sw_parse_key = (\<lambda>_. None), sw_public_key = (\<lambda>_. None),
      sw_dial = (\<lambda>_ _. Inr ''k''), sw_login = (\<lambda>_. None), sw_session = (\<lambda>_. None),
      sw_run = (\<lambda>_ _ _. ([], [], RunExit 0)),
      sw_start_payload = (\<lambda>_. Inr \<lparr>st_Pid = 7, st_BasePath = ''/t''\<rparr>),
      sw_poll_payload = (\<lambda>_. Inl ErrNoRows), sw_unb64 = Inr, sw_active = (\<lambda>_. None), sw_now = 0, sw_elapsed = 1\<rparr>"

definition inline_start :: start_params where
  "inline_start = sample_start [(''host'', JStr ''h''), (''username'', JStr ''u''), (''private_key'', JStr ''k''),
     (''command'', JStr ''c'')]"

lemma inline_starts:
  "start_detached sample_ssh inline_start = Inr (detached_handle ''run_1''
     \<lparr>cc_host = ''h'', cc_username = ''u'', cc_port = 22, cc_privateKey = ''k'', cc_strictHostKey = False,
      cc_hostKeyB64 = [], cc_credentialID = []\<rparr> \<lparr>st_Pid = 7, st_BasePath = ''/t''\<rparr>)"
proof -
  let ?cc = "\<lparr>cc_host = ''h'', cc_username = ''u'', cc_port = 22, cc_privateKey = ''k'', cc_strictHostKey = False,
      cc_hostKeyB64 = [], cc_credentialID = []\<rparr>"
  have "resolveConnectionConfig sample_ssh (sp_method_config inline_start) = Inr ?cc"
    by (simp add: resolveConnectionConfig_def discovered_def inline_start_def sample_start_def getString_def
        map_string_def entries_def getInt_def ssh_getBool_def Let_def)
  moreover have "ssh_connect sample_ssh ?cc cfg = None" for cfg
    by (simp add: ssh_connect_def sample_ssh_def buildHostKeyCallback_def)
  moreover have "getString (sp_method_config inline_start) ''command'' = ''c''" "sp_run_id inline_start = ''run_1''"
    by (simp_all add: inline_start_def sample_start_def getString_def map_string_def entries_def)
  moreover have "runRemoteCommand sample_ssh ?cc rid url sc = ([], [], None)" for rid url sc
    by (simp add: runRemoteCommand_def sample_ssh_def)
  moreover have "sw_start_payload sample_ssh out = Inr \<lparr>st_Pid = 7, st_BasePath = ''/t''\<rparr>" for out
    by (simp add: sample_ssh_def)
  ultimately show ?thesis by (simp add: start_detached_def)
qed

lemma inline_key_is_never_polled_witness:
  "pollAsyncRun ((sample_orchestrator (ssh_method sample_ssh))\<lparr>o_registry := Register ''ssh'' (ssh_method sample_ssh) NewRegistry\<rparr>)
     (calm 0) ((sample_row Running)\<lparr>ap_execution_handle :=
       marshal_handle (sr_handle (fst (m_Start (ssh_method sample_ssh) inline_start)))\<rparr>) empty_world = empty_world"
proof -
  let ?o = "(sample_orchestrator (ssh_method sample_ssh))\<lparr>o_registry := Register ''ssh'' (ssh_method sample_ssh) NewRegistry\<rparr>"
  let ?sr = "fst (m_Start (ssh_method sample_ssh) inline_start)"
  let ?row = "(sample_row Running)\<lparr>ap_execution_handle := marshal_handle (sr_handle ?sr)\<rparr>"
  have detached: "isDetached (sp_method_config inline_start)"
    by (simp add: isDetached_def inline_start_def sample_start_def entries_def)
  have none: "sr_result ?sr = None"
    using detached by (simp add: ssh_method_def ssh_Start_def inline_starts)
  have start: "m_Start (ssh_method sample_ssh) inline_start = (?sr, snd (m_Start (ssh_method sample_ssh) inline_start))"
    by simp
  have cred: "getString (sp_method_config inline_start) ''ssh_credential_id'' = []"
    by (simp add: inline_start_def sample_start_def getString_def map_string_def entries_def)
  have active: "sw_active sample_ssh (sp_run_id inline_start) = None" by (simp add: sample_ssh_def)
  have reg: "registry_Get (o_registry ?o) ''ssh'' = Some (ssh_method sample_ssh)"
    by (simp add: registry_Get_def Register_def)
  have row: "ap_execution_handle ?row = marshal_handle (sr_handle ?sr)" by simp
  show ?thesis
    using inline_key_is_never_polled[OF start none cred active reg row] by blast
qed

end
