(* ===== verification/Servers.thy ===== *)
theory Servers
  imports Exec_Http Account_Queries
begin

text \<open>
  The table of workspace servers: the queries of \<open>internal/db/servers.sql.go\<close> and the constraints of
  \<open>migrations/00010_workspace_servers.sql\<close>.
\<close>

definition server_states :: "string list" where
  "server_states =
     [''provisioning'', ''ready'', ''active'', ''idle'', ''destroying'', ''destroyed'']"

abbreviation on_server :: "string \<Rightarrow> (workspace_server \<Rightarrow> workspace_server) \<Rightarrow> world \<Rightarrow> world" where
  "on_server sid f w \<equiv> w\<lparr>w_servers := update_key sv_id sid f (w_servers w)\<rparr>"

definition servers_of :: "string \<Rightarrow> world \<Rightarrow> workspace_server list" where
  "servers_of ws w = filter (\<lambda>s. sv_workspace_id s = ws) (w_servers w)"

text \<open>A server that takes one more container.\<close>

definition has_slot :: "workspace_server \<Rightarrow> bool" where
  "has_slot s \<longleftrightarrow>
     sv_state s \<in> {''ready'', ''active''} \<and> sv_containers_running s < sv_max_containers s"

section \<open>Queries\<close>

definition CountServersByWorkspace :: "env \<Rightarrow> string \<Rightarrow> world \<Rightarrow> int answer" where
  "CountServersByWorkspace e ws w = db_read e ''CountServersByWorkspace''
     (Inr (int (length (filter (\<lambda>s. sv_state s \<notin> {''destroyed'', ''destroying''}) (servers_of ws w)))))"

record create_server_params =
  csv_id :: string
  csv_workspace_id :: string
  csv_hetzner_id :: int
  csv_name :: string
  csv_ip_address :: "string option"
  csv_state :: string
  csv_server_type :: string
  csv_datacenter :: string
  csv_max_containers :: int
  csv_monthly_cost :: rat

definition new_server :: "env \<Rightarrow> create_server_params \<Rightarrow> workspace_server" where
  "new_server e a =
     \<lparr>sv_id = csv_id a, sv_workspace_id = csv_workspace_id a, sv_hetzner_id = csv_hetzner_id a,
      sv_name = csv_name a, sv_ip_address = csv_ip_address a, sv_state = csv_state a,
      sv_server_type = csv_server_type a, sv_datacenter = csv_datacenter a,
      sv_containers_running = 0, sv_max_containers = csv_max_containers a,
      sv_last_activity_at = None, sv_monthly_cost = csv_monthly_cost a,
      sv_created_at = e_db_now e, sv_destroyed_at = None, sv_updated_at = e_db_now e\<rparr>"

definition server_violation :: "create_server_params \<Rightarrow> world \<Rightarrow> go_error option" where
  "server_violation a w = first_violation
     [(csv_state a \<notin> set server_states, check_violation ''workspace_servers_state_check''),
      (has_key sv_id (csv_id a) (w_servers w), unique_violation ''workspace_servers_pkey''),
      (\<not> has_key wsp_id (csv_workspace_id a) (w_workspaces w),
       foreign_key_violation ''workspace_servers_workspace_id_fkey'')]"

definition CreateServer ::
  "env \<Rightarrow> create_server_params \<Rightarrow> world \<Rightarrow> workspace_server answer \<times> world" where
  "CreateServer e a w = returning (new_server e a) (db_exec e ''CreateServer'' (server_violation a w)
     (\<lambda>w. w\<lparr>w_servers := w_servers w @ [new_server e a]\<rparr>) w)"

definition release_slot :: "env \<Rightarrow> workspace_server \<Rightarrow> workspace_server" where
  "release_slot e s = s\<lparr>sv_containers_running := max (sv_containers_running s - 1) 0,
     sv_last_activity_at := Some (e_db_now e), sv_updated_at := e_db_now e\<rparr>"

definition take_slot :: "env \<Rightarrow> workspace_server \<Rightarrow> workspace_server" where
  "take_slot e s = s\<lparr>sv_containers_running := sv_containers_running s + 1, sv_state := ''active'',
     sv_last_activity_at := Some (e_db_now e), sv_updated_at := e_db_now e\<rparr>"

definition DecrementContainers :: "env \<Rightarrow> string \<Rightarrow> world \<Rightarrow> go_error option \<times> world" where
  "DecrementContainers e sid w =
     db_exec e ''DecrementContainers'' None (on_server sid (release_slot e)) w"

definition IncrementContainers :: "env \<Rightarrow> string \<Rightarrow> world \<Rightarrow> go_error option \<times> world" where
  "IncrementContainers e sid w =
     db_exec e ''IncrementContainers'' None (on_server sid (take_slot e)) w"

definition DestroyServersByWorkspace :: "env \<Rightarrow> string \<Rightarrow> world \<Rightarrow> go_error option \<times> world" where
  "DestroyServersByWorkspace e ws w = db_exec e ''DestroyServersByWorkspace'' None
     (\<lambda>w. w\<lparr>w_servers := update_where
        (\<lambda>s. sv_workspace_id s = ws \<and> sv_state s \<notin> {''destroyed'', ''destroying''})
        (\<lambda>s. s\<lparr>sv_state := ''destroying'', sv_updated_at := e_db_now e\<rparr>) (w_servers w)\<rparr>) w"

definition FindServerWithCapacity :: "env \<Rightarrow> string \<Rightarrow> world \<Rightarrow> workspace_server answer" where
  "FindServerWithCapacity e ws w = db_read e ''FindServerWithCapacity'' (one_row
     (List.find (\<lambda>_. True) (sort_key sv_containers_running (filter has_slot (servers_of ws w)))))"

definition GetServer :: "env \<Rightarrow> string \<Rightarrow> world \<Rightarrow> workspace_server answer" where
  "GetServer e sid w = db_read e ''GetServer'' (one_row (lookup_key sv_id sid (w_servers w)))"

definition ListActiveServersByWorkspace :: "env \<Rightarrow> string \<Rightarrow> world \<Rightarrow> workspace_server list answer" where
  "ListActiveServersByWorkspace e ws w = db_read e ''ListActiveServersByWorkspace''
     (Inr (sort_key (\<lambda>s. - sv_created_at s)
        (filter (\<lambda>s. sv_state s \<noteq> ''destroyed'') (servers_of ws w))))"

text \<open>A server without any activity is compared with NULL and left out; \<open>before\<close> is \<open>$1 - $2\<close> for an instant
  and an interval.\<close>

definition ListIdleServers ::
  "(instant \<Rightarrow> interval \<Rightarrow> instant) \<Rightarrow> env \<Rightarrow> interval \<Rightarrow> world \<Rightarrow> workspace_server list answer" where
  "ListIdleServers before e gracePeriod w = db_read e ''ListIdleServers''
     (Inr (sort_key (\<lambda>s. the (sv_last_activity_at s))
        (filter (\<lambda>s. sv_state s \<in> {''ready'', ''active''} \<and> sv_containers_running s = 0 \<and>
             (case sv_last_activity_at s of None \<Rightarrow> False | Some t \<Rightarrow> t < before (e_db_now e) gracePeriod))
           (w_servers w))))"

definition ListServersByWorkspace :: "env \<Rightarrow> string \<Rightarrow> world \<Rightarrow> workspace_server list answer" where
  "ListServersByWorkspace e ws w = db_read e ''ListServersByWorkspace''
     (Inr (sort_key (\<lambda>s. - sv_created_at s) (servers_of ws w)))"

definition MarkServerActive :: "env \<Rightarrow> string \<Rightarrow> world \<Rightarrow> go_error option \<times> world" where
  "MarkServerActive e sid w = db_exec e ''MarkServerActive'' None
     (on_server sid (\<lambda>s. s\<lparr>sv_state := ''active'', sv_last_activity_at := Some (e_db_now e),
        sv_updated_at := e_db_now e\<rparr>)) w"

definition destroyed :: "env \<Rightarrow> workspace_server \<Rightarrow> workspace_server" where
  "destroyed e s = s\<lparr>sv_state := ''destroyed'', sv_destroyed_at := Some (e_db_now e),
     sv_updated_at := e_db_now e\<rparr>"

definition MarkServerDestroyed :: "env \<Rightarrow> string \<Rightarrow> world \<Rightarrow> go_error option \<times> world" where
  "MarkServerDestroyed e sid w = db_exec e ''MarkServerDestroyed'' None (on_server sid (destroyed e)) w"

definition db_MarkServerReady ::
  "env \<Rightarrow> string \<Rightarrow> string option \<Rightarrow> world \<Rightarrow> go_error option \<times> world" where
  "db_MarkServerReady e sid ip w = db_exec e ''MarkServerReady'' None
     (on_server sid (\<lambda>s. s\<lparr>sv_state := ''ready'',
        sv_ip_address := (if ip = None then sv_ip_address s else ip), sv_updated_at := e_db_now e\<rparr>)) w"

definition UpdateServerState :: "env \<Rightarrow> string \<Rightarrow> string \<Rightarrow> world \<Rightarrow> go_error option \<times> world" where
  "UpdateServerState e sid st w = db_exec e ''UpdateServerState''
     (if has_key sv_id sid (w_servers w) \<and> st \<notin> set server_states
      then Some (check_violation ''workspace_servers_state_check'') else None)
     (on_server sid (\<lambda>s. s\<lparr>sv_state := st, sv_updated_at := e_db_now e\<rparr>)) w"

section \<open>Slots\<close>

text \<open>The counter of a server; a server that does not exist runs nothing.\<close>

definition containers_on :: "world \<Rightarrow> string \<Rightarrow> int" where
  "containers_on w sid =
     (case lookup_key sv_id sid (w_servers w) of None \<Rightarrow> 0 | Some s \<Rightarrow> sv_containers_running s)"

definition slot_ok :: "workspace_server \<Rightarrow> bool" where
  "slot_ok s \<longleftrightarrow> sv_id s \<noteq> [] \<and> 0 \<le> sv_containers_running s \<and> sv_containers_running s \<le> sv_max_containers s \<and>
     sv_state s \<in> set server_states"

definition servers_ok :: "world \<Rightarrow> bool" where
  "servers_ok w \<longleftrightarrow> distinct (map sv_id (w_servers w)) \<and> (\<forall>s\<in>set (w_servers w). slot_ok s)"

interpretation release: row_update sv_id release_slot
  by unfold_locales (simp add: release_slot_def)

interpretation take: row_update sv_id take_slot
  by unfold_locales (simp add: take_slot_def)

lemma in_update_key:
  assumes "r \<in> set (update_key key k f rows)"
  obtains r0 where "r0 \<in> set rows" "r = (if key r0 = k then f r0 else r0)"
  using assms unfolding update_key_def by (rule in_update_where)

text \<open>An update of one server keeps the table well-formed when it does so for that row.\<close>

lemma servers_ok_update:
  assumes "servers_ok w" "\<And>s. sv_id (f s) = sv_id s"
    and "\<And>s. s \<in> set (w_servers w) \<Longrightarrow> sv_id s = sid \<Longrightarrow> slot_ok (f s)"
  shows "servers_ok (on_server sid f w)"
  unfolding servers_ok_def
proof (intro conjI ballI)
  show "distinct (map sv_id (w_servers (on_server sid f w)))"
    using assms(1,2) by (simp add: servers_ok_def map_update_key)
  fix s assume "s \<in> set (w_servers (on_server sid f w))"
  then have "s \<in> set (update_key sv_id sid f (w_servers w))" by simp
  then obtain s0 where s0: "s0 \<in> set (w_servers w)" "s = (if sv_id s0 = sid then f s0 else s0)"
    by (rule in_update_key)
  then show "slot_ok s"
    using assms(1,3) by (auto simp: servers_ok_def)
qed

text \<open>What an update of one server does to the counters.\<close>

lemma containers_on_update:
  assumes "\<And>s. sv_id (f s) = sv_id s"
  shows "containers_on (on_server sid f w) =
     (case lookup_key sv_id sid (w_servers w) of
        None \<Rightarrow> containers_on w
      | Some s \<Rightarrow> (containers_on w)(sid := sv_containers_running (f s)))"
proof
  fix k
  have "lookup_key sv_id k (update_key sv_id sid f (w_servers w)) =
      map_option (\<lambda>s. if sv_id s = sid then f s else s) (lookup_key sv_id k (w_servers w))"
    unfolding update_key_def by (rule lookup_key_update_where) (rule assms)
  then show "containers_on (on_server sid f w) k = (case lookup_key sv_id sid (w_servers w) of
        None \<Rightarrow> containers_on w
      | Some s \<Rightarrow> (containers_on w)(sid := sv_containers_running (f s))) k"
    using lookup_key_SomeD [of sv_id k "w_servers w"]
    by (cases "k = sid"; cases "lookup_key sv_id k (w_servers w)")
      (simp_all add: containers_on_def split: option.split)
qed

corollary containers_on_kept:
  assumes "\<And>s. sv_id (f s) = sv_id s" "\<And>s. sv_containers_running (f s) = sv_containers_running s"
  shows "containers_on (on_server sid f w) = containers_on w"
  unfolding containers_on_update [of f, OF assms(1)]
  by (rule ext) (simp add: assms containers_on_def split: option.split)

lemma servers_ok_append:
  assumes "servers_ok w" "server_violation a w = None" "0 \<le> csv_max_containers a" "csv_id a \<noteq> []"
  shows "servers_ok (w\<lparr>w_servers := w_servers w @ [new_server e a]\<rparr>)"
    "containers_on (w\<lparr>w_servers := w_servers w @ [new_server e a]\<rparr>) = containers_on w"
proof -
  have st: "csv_state a \<in> set server_states" and new: "lookup_key sv_id (csv_id a) (w_servers w) = None"
    using assms(2) unfolding server_violation_def
    by (simp_all add: has_key_iff split: if_splits)
  show "servers_ok (w\<lparr>w_servers := w_servers w @ [new_server e a]\<rparr>)"
    using assms(1,3,4) st new
    by (auto simp: servers_ok_def slot_ok_def new_server_def lookup_key_None_iff)
  show "containers_on (w\<lparr>w_servers := w_servers w @ [new_server e a]\<rparr>) = containers_on w"
    using new by (intro ext) (auto simp: containers_on_def lookup_key_append new_server_def split: option.split)
qed

lemma containers_on_slots:
  assumes "servers_ok w"
  shows "0 \<le> containers_on w sid"
  using assms lookup_key_SomeD [of sv_id sid "w_servers w"]
  by (auto simp: containers_on_def servers_ok_def slot_ok_def split: option.split)

end
