(* ===== verification/Provisioner.thy ===== *)
theory Provisioner
  imports Servers
begin

text \<open>
  The life of the servers of a workspace: the client of the cloud, \<open>internal/infra/hetzner.go\<close>, and the
  provisioner, \<open>internal/infra/provisioner.go\<close>. What the cloud answers to its n-th request and the
  parser of JSON texts are parameters; keys of JSON objects are compared as they are written. The
  state is the database together with the requests sent so far. The texts of the errors of the JSON
  decoder and the waits between two attempts to
  delete a server are left out.
\<close>

section \<open>The client of the cloud\<close>

record cloud_request =
  cr_method :: string
  cr_url :: string
  cr_headers :: "(string \<times> string) list"
  cr_body :: "json option"

record cloud_response =
  cp_StatusCode :: int
  cp_retry_after :: string
  cp_body :: string

record hetzner_client =
  hz_apiToken :: string
  hz_baseURL :: string
  hz_do :: "nat \<Rightarrow> cloud_request \<Rightarrow> go_error + cloud_response"
  hz_json :: "string \<Rightarrow> json option"

text \<open>\<open>NewHetznerClient\<close>\<close>

definition NewHetznerClient ::
  "string \<Rightarrow> (nat \<Rightarrow> cloud_request \<Rightarrow> go_error + cloud_response) \<Rightarrow> (string \<Rightarrow> json option) \<Rightarrow>
   hetzner_client" where
  "NewHetznerClient apiToken transport parser =
     \<lparr>hz_apiToken = apiToken, hz_baseURL = ''https://api.hetzner.cloud/v1'', hz_do = transport,
      hz_json = parser\<rparr>"

record infra =
  inf_calls :: "cloud_request list"
  inf_world :: world

definition cloud_doRequest ::
  "hetzner_client \<Rightarrow> string \<Rightarrow> string \<Rightarrow> json option \<Rightarrow> infra \<Rightarrow> (go_error + string) \<times> infra" where
  "cloud_doRequest hz meth url body f =
     (let req = \<lparr>cr_method = meth, cr_url = url,
            cr_headers = [(''Authorization'', ''Bearer '' @ hz_apiToken hz), (''Content-Type'', ''application/json'')],
            cr_body = body\<rparr>
      in (case hz_do hz (length (inf_calls f)) req of
            Inl err \<Rightarrow> Inl (ErrText (''hetzner: '' @ Error err))
          | Inr resp \<Rightarrow>
              if cp_StatusCode resp = 429 then
                Inl (ErrText (''hetzner: rate limited (retry after '' @ cp_retry_after resp @ '')''))
              else if cp_StatusCode resp \<ge> 400 then
                Inl (ErrText (''hetzner: HTTP '' @ Itoa (cp_StatusCode resp) @ '': '' @ cp_body resp))
              else Inr (cp_body resp),
          f\<lparr>inf_calls := inf_calls f @ [req]\<rparr>))"

record server_info =
  si_ID :: int
  si_Name :: string
  si_Status :: string
  si_PublicIP :: string
  si_Created :: string

text \<open>
  \<open>json.Unmarshal\<close> into the fields of a struct: a missing key and \<open>null\<close> leave the zero value, a value
  of another type is an error.
\<close>

definition object_field :: "string \<Rightarrow> go_map \<Rightarrow> go_map option" where
  "object_field key kvs =
     (case map_of kvs key of
        None \<Rightarrow> Some [] | Some JNull \<Rightarrow> Some [] | Some (JObj inner) \<Rightarrow> Some inner | Some _ \<Rightarrow> None)"

definition string_field :: "string \<Rightarrow> go_map \<Rightarrow> string option" where
  "string_field key kvs =
     (case map_of kvs key of
        None \<Rightarrow> Some [] | Some JNull \<Rightarrow> Some [] | Some (JStr s) \<Rightarrow> Some s | Some _ \<Rightarrow> None)"

definition int64_field :: "string \<Rightarrow> go_map \<Rightarrow> int option" where
  "int64_field key kvs =
     (case map_of kvs key of
        None \<Rightarrow> Some 0
      | Some JNull \<Rightarrow> Some 0
      | Some (JNum x) \<Rightarrow> if of_int \<lfloor>x\<rfloor> = x \<and> in_int64 \<lfloor>x\<rfloor> then Some \<lfloor>x\<rfloor> else None
      | Some _ \<Rightarrow> None)"

text \<open>The two structs the answers are read into; only \<open>GetServer\<close> reads the time of creation.\<close>

definition decode_server :: "bool \<Rightarrow> json \<Rightarrow> server_info option" where
  "decode_server with_created j =
     (case unmarshal_map j of
        None \<Rightarrow> None
      | Some m \<Rightarrow>
          (case object_field ''server'' (entries m) of
             None \<Rightarrow> None
           | Some sv \<Rightarrow>
               (case (int64_field ''id'' sv, string_field ''name'' sv, string_field ''status'' sv,
                      Option.bind (Option.bind (object_field ''public_net'' sv) (object_field ''ipv4''))
                        (string_field ''ip''),
                      if with_created then string_field ''created'' sv else Some []) of
                  (Some i, Some n, Some st, Some ip, Some cr) \<Rightarrow>
                    Some \<lparr>si_ID = i, si_Name = n, si_Status = st, si_PublicIP = ip, si_Created = cr\<rparr>
                | _ \<Rightarrow> None)))"

definition read_server :: "hetzner_client \<Rightarrow> bool \<Rightarrow> string \<Rightarrow> server_info option" where
  "read_server hz with_created body = Option.bind (hz_json hz body) (decode_server with_created)"

definition cloud_CreateServer ::
  "hetzner_client \<Rightarrow> string \<Rightarrow> string \<Rightarrow> string \<Rightarrow> string \<Rightarrow> string \<Rightarrow> infra \<Rightarrow>
   (go_error + server_info) \<times> infra" where
  "cloud_CreateServer hz name serverType datacenter sshKeyName cloudInit f =
     (case cloud_doRequest hz ''POST'' (hz_baseURL hz @ ''/servers'')
             (Some (JObj [(''name'', JStr name), (''server_type'', JStr serverType),
                (''datacenter'', JStr datacenter), (''image'', JStr ''ubuntu-24.04''),
                (''ssh_keys'', JArr [JStr sshKeyName]), (''user_data'', JStr cloudInit),
                (''labels'', JObj [(''managed-by'', JStr ''croncontrol'')])])) f of
        (Inl err, f1) \<Rightarrow> (Inl err, f1)
      | (Inr resp, f1) \<Rightarrow>
          (case read_server hz False resp of
             None \<Rightarrow> (Inl (ErrText ''parse response''), f1)
           | Some si \<Rightarrow> (Inr si, f1)))"

definition server_url :: "hetzner_client \<Rightarrow> int \<Rightarrow> string" where
  "server_url hz serverID = hz_baseURL hz @ ''/servers/'' @ Itoa serverID"

definition cloud_DeleteServer :: "hetzner_client \<Rightarrow> int \<Rightarrow> infra \<Rightarrow> go_error option \<times> infra" where
  "cloud_DeleteServer hz serverID f =
     (case cloud_doRequest hz ''DELETE'' (server_url hz serverID) None f of
        (Inl err, f1) \<Rightarrow> (Some err, f1)
      | (Inr _, f1) \<Rightarrow> (None, f1))"

definition cloud_GetServer :: "hetzner_client \<Rightarrow> int \<Rightarrow> infra \<Rightarrow> (go_error + server_info) \<times> infra" where
  "cloud_GetServer hz serverID f =
     (case cloud_doRequest hz ''GET'' (server_url hz serverID) None f of
        (Inl err, f1) \<Rightarrow> (Inl err, f1)
      | (Inr resp, f1) \<Rightarrow>
          (case read_server hz True resp of
             None \<Rightarrow> (Inl (ErrText ''parse response''), f1)
           | Some si \<Rightarrow> (Inr si, f1)))"

section \<open>The provisioner\<close>

record provisioner =
  pv_hetzner :: hetzner_client
  pv_Datacenter :: string
  pv_ServerType :: string
  pv_SSHKeyName :: string
  pv_SwarmManagerIP :: string
  pv_SwarmJoinToken :: string
  pv_GracePeriod :: duration
  pv_MaxServers :: int
  pv_InfraSecret :: string
  pv_CronControlURL :: string

text \<open>A statement on the database.\<close>

definition in_db :: "(world \<Rightarrow> 'a \<times> world) \<Rightarrow> infra \<Rightarrow> 'a \<times> infra" where
  "in_db stmt f = (case stmt (inf_world f) of (x, w) \<Rightarrow> (x, f\<lparr>inf_world := w\<rparr>))"

text \<open>Free slots of a workspace and the address of the server with the fewest containers.\<close>

definition available_slots :: "env \<Rightarrow> string \<Rightarrow> world \<Rightarrow> int" where
  "available_slots e ws w =
     (case db_read e ''EnsureCapacity.available'' (Inr
             (\<Sum>s\<leftarrow>filter (\<lambda>s. sv_state s \<in> {''ready'', ''active''}) (servers_of ws w).
                 sv_max_containers s - sv_containers_running s)) of
        Inl _ \<Rightarrow> 0
      | Inr n \<Rightarrow> n)"

definition emptiest :: "string \<Rightarrow> world \<Rightarrow> workspace_server option" where
  "emptiest ws w = (case sort_key sv_containers_running (filter has_slot (servers_of ws w)) of
     [] \<Rightarrow> None | s # _ \<Rightarrow> Some s)"

definition free_address :: "env \<Rightarrow> string \<Rightarrow> world \<Rightarrow> string" where
  "free_address e ws w =
     (case db_read e ''EnsureCapacity.address'' (one_row (emptiest ws w)) of
        Inl _ \<Rightarrow> []
      | Inr s \<Rightarrow> (case sv_ip_address s of None \<Rightarrow> [] | Some ip \<Rightarrow> ip))"

text \<open>
  Taking an idle server back. The update has happened also when its address is NULL and cannot be
  read into a string.
\<close>

definition reactivate :: "env \<Rightarrow> string \<Rightarrow> world \<Rightarrow> string option \<times> world" where
  "reactivate e ws w =
     (case List.find (\<lambda>s. sv_state s = ''idle'') (servers_of ws w) of
        None \<Rightarrow> (None, w)
      | Some s \<Rightarrow>
          (case db_exec e ''EnsureCapacity.reactivate'' None
                  (on_server (sv_id s) (\<lambda>s. s\<lparr>sv_state := ''ready'', sv_updated_at := e_db_now e\<rparr>)) w of
             (Some _, w1) \<Rightarrow> (None, w1)
           | (None, w1) \<Rightarrow> (sv_ip_address s, w1)))"

definition server_count :: "env \<Rightarrow> string \<Rightarrow> world \<Rightarrow> int" where
  "server_count e ws w =
     (case db_read e ''EnsureCapacity.count'' (Inr (int (length
             (filter (\<lambda>s. sv_state s \<noteq> ''destroyed'') (servers_of ws w))))) of
        Inl _ \<Rightarrow> 0
      | Inr n \<Rightarrow> n)"

text \<open>The script a new server runs; \<open>report_error\<close> posts to the address that reports readiness, too.\<close>

abbreviation dq :: string where "dq \<equiv> [CHR 0x22]"

abbreviation esc :: "char \<Rightarrow> string" where "esc c \<equiv> [CHR 0x5C, c]"

definition cloud_init_lines :: "provisioner \<Rightarrow> string \<Rightarrow> string \<Rightarrow> string list" where
  "cloud_init_lines pv serverID ws =
     (let ready = pv_CronControlURL pv @ ''/api/v1/infra/servers/'' @ serverID @ ''/ready'';
          bearer = dq @ ''Authorization: Bearer '' @ pv_InfraSecret pv @ dq
      in [''#!/bin/bash'', ''set -eo pipefail'', [], ''report_error() {'',
          ''  curl -sf -X POST '' @ ready @ '' '' @ [CHR 0x5C],
          ''    -H '' @ bearer @ '' '' @ [CHR 0x5C],
          ''    -H '' @ dq @ ''Content-Type: application/json'' @ dq @ '' '' @ [CHR 0x5C],
          ''    -d '' @ dq @ ''{'' @ esc (CHR 0x22) @ ''error'' @ esc (CHR 0x22) @ '': '' @ esc (CHR 0x22) @
            ''$(cat /var/log/cloud-init-output.log | tail -20 | tr '' @ [CHR 0x27, CHR 0x5C, CHR 0x22, CHR 0x27] @
            '' '' @ dq @ [CHR 0x27] @ dq @ '' | tr '' @ [CHR 0x27, CHR 0x5C, CHR ''n'', CHR 0x27] @ '' '' @
            [CHR 0x27, CHR '' '', CHR 0x27] @ '')'' @ esc (CHR 0x22) @ ''}'' @ dq @ '' || true'',
          ''}'', ''trap report_error ERR'', [],
          ''apt-get update -qq'',
          ''curl -fsSL https://get.docker.com | sh'',
          ''docker swarm join --token '' @ pv_SwarmJoinToken pv @ '' '' @ pv_SwarmManagerIP pv @ '':2377'',
          ''docker node update --label-add workspace='' @ ws @ '' $(hostname)'',
          ''curl -sf -X POST '' @ ready @ '' -H '' @ bearer, []])"

definition cloudInit :: "provisioner \<Rightarrow> string \<Rightarrow> string \<Rightarrow> string" where
  "cloudInit pv serverID ws = strings_Join (CHR 0x0A) (cloud_init_lines pv serverID ws)"

definition fresh_server ::
  "provisioner \<Rightarrow> string \<Rightarrow> string \<Rightarrow> string \<Rightarrow> server_info \<Rightarrow> create_server_params" where
  "fresh_server pv serverID ws serverName si =
     \<lparr>csv_id = serverID, csv_workspace_id = ws, csv_hetzner_id = si_ID si, csv_name = serverName,
      csv_ip_address = Some (si_PublicIP si), csv_state = ''provisioning'',
      csv_server_type = pv_ServerType pv, csv_datacenter = pv_Datacenter pv,
      csv_max_containers = 4, csv_monthly_cost = 9 / 2\<rparr>"

text \<open>
  \<open>provisionServer\<close>; \<open>None\<close> is the panic of a slice out of range. The error of the \<open>INSERT\<close> is dropped.
\<close>

definition provisionServer ::
  "provisioner \<Rightarrow> env \<Rightarrow> string \<Rightarrow> infra \<Rightarrow> (go_error + string) option \<times> infra" where
  "provisionServer pv e ws f =
     (case in_db (id_New e ''srv_'') f of
        (serverID, f1) \<Rightarrow>
          if length ws < 8 \<or> length serverID < 12 then (None, f1)
          else let serverName = ''cc-'' @ take 8 ws @ ''-'' @ take 8 (drop 4 serverID)
               in (case cloud_CreateServer (pv_hetzner pv) serverName (pv_ServerType pv) (pv_Datacenter pv)
                          (pv_SSHKeyName pv) (cloudInit pv serverID ws) f1 of
                     (Inl err, f2) \<Rightarrow> (Some (Inl (ErrText (''provision server: '' @ Error err))), f2)
                   | (Inr si, f2) \<Rightarrow>
                       (Some (Inr (si_PublicIP si)),
                        snd (in_db (\<lambda>w. db_exec e ''provisionServer.insert''
                               (server_violation (fresh_server pv serverID ws serverName si) w)
                               (\<lambda>w. w\<lparr>w_servers := w_servers w @
                                    [new_server e (fresh_server pv serverID ws serverName si)]\<rparr>) w) f2))))"

definition EnsureCapacity ::
  "provisioner \<Rightarrow> env \<Rightarrow> string \<Rightarrow> int \<Rightarrow> infra \<Rightarrow> (go_error + string) option \<times> infra" where
  "EnsureCapacity pv e ws needed f =
     (if available_slots e ws (inf_world f) \<ge> needed then (Some (Inr (free_address e ws (inf_world f))), f)
      else case in_db (reactivate e ws) f of
        (Some ip, f1) \<Rightarrow> (Some (Inr ip), f1)
      | (None, f1) \<Rightarrow>
          let n = server_count e ws (inf_world f1)
          in if n \<ge> pv_MaxServers pv then
               (Some (Inl (ErrText (''max servers reached ('' @ Itoa (pv_MaxServers pv) @ '')''))), f1)
             else provisionServer pv e ws f1)"

definition MarkServerReady :: "env \<Rightarrow> string \<Rightarrow> infra \<Rightarrow> go_error option \<times> infra" where
  "MarkServerReady e serverID = in_db (\<lambda>w. db_exec e ''provisioner.MarkServerReady'' None
     (\<lambda>w. w\<lparr>w_servers := update_where (\<lambda>s. sv_id s = serverID \<and> sv_state s = ''provisioning'')
        (\<lambda>s. s\<lparr>sv_state := ''ready'', sv_updated_at := e_db_now e\<rparr>) (w_servers w)\<rparr>) w)"

section \<open>The end of a server\<close>

text \<open>The attempts to delete, at most \<open>n\<close>; the error of the last one when all fail.\<close>

fun delete_attempts :: "hetzner_client \<Rightarrow> int \<Rightarrow> nat \<Rightarrow> go_error option \<Rightarrow> infra \<Rightarrow> go_error option \<times> infra" where
  "delete_attempts hz hid 0 lastErr f = (lastErr, f)"
| "delete_attempts hz hid (Suc n) lastErr f =
     (case cloud_DeleteServer hz hid f of
        (Some err, f1) \<Rightarrow> delete_attempts hz hid n (Some err) f1
      | (None, f1) \<Rightarrow> (None, f1))"

definition set_server_state :: "env \<Rightarrow> string \<Rightarrow> string \<Rightarrow> string \<Rightarrow> world \<Rightarrow> world" where
  "set_server_state e q serverID st w =
     snd (db_exec e q None (on_server serverID (\<lambda>s. s\<lparr>sv_state := st, sv_updated_at := e_db_now e\<rparr>)) w)"

definition set_destroyed :: "env \<Rightarrow> string \<Rightarrow> string \<Rightarrow> world \<Rightarrow> world" where
  "set_destroyed e q serverID w = snd (db_exec e q None (on_server serverID (destroyed e)) w)"

text \<open>A statement whose error is dropped.\<close>

definition run_db :: "(world \<Rightarrow> world) \<Rightarrow> infra \<Rightarrow> infra" where
  "run_db g f = f\<lparr>inf_world := g (inf_world f)\<rparr>"

definition DestroyServer :: "provisioner \<Rightarrow> env \<Rightarrow> string \<Rightarrow> infra \<Rightarrow> go_error option \<times> infra" where
  "DestroyServer pv e serverID f =
     (case db_read e (''DestroyServer.find'' @ serverID)
             (one_row (lookup_key sv_id serverID (w_servers (inf_world f)))) of
        Inl err \<Rightarrow> (Some (ErrText (''server not found: '' @ Error err)), f)
      | Inr s \<Rightarrow>
          (case delete_attempts (pv_hetzner pv) (sv_hetzner_id s) 3 None
                  (run_db (set_server_state e (''DestroyServer.destroying'' @ serverID) serverID ''destroying'') f) of
             (Some err, f1) \<Rightarrow> (Some err, f1)
           | (None, f1) \<Rightarrow>
               (None, run_db (set_destroyed e (''DestroyServer.destroyed'' @ serverID) serverID) f1)))"

definition is_idle :: "instant \<Rightarrow> workspace_server \<Rightarrow> bool" where
  "is_idle cutoff s \<longleftrightarrow>
     sv_state s \<in> {''ready'', ''idle''} \<and> sv_containers_running s = 0 \<and>
     (case sv_last_activity_at s of None \<Rightarrow> True | Some t \<Rightarrow> t < cutoff) \<and> sv_created_at s < cutoff"

fun destroy_idle :: "provisioner \<Rightarrow> env \<Rightarrow> workspace_server list \<Rightarrow> infra \<Rightarrow> infra" where
  "destroy_idle pv e [] f = f"
| "destroy_idle pv e (s # ss) f =
     destroy_idle pv e ss (snd (DestroyServer pv e (sv_id s)
       (run_db (set_server_state e (''checkIdleServers.idle'' @ sv_id s) (sv_id s) ''idle'') f)))"

definition checkIdleServers :: "provisioner \<Rightarrow> env \<Rightarrow> infra \<Rightarrow> infra" where
  "checkIdleServers pv e f =
     (let cutoff = e_now e - pv_GracePeriod pv
      in case db_read e ''checkIdleServers'' (Inr (filter (is_idle cutoff) (w_servers (inf_world f)))) of
           Inl _ \<Rightarrow> f
         | Inr rows \<Rightarrow> destroy_idle pv e rows f)"

fun destroy_each :: "provisioner \<Rightarrow> env \<Rightarrow> workspace_server list \<Rightarrow> infra \<Rightarrow> infra" where
  "destroy_each pv e [] f = f"
| "destroy_each pv e (s # ss) f =
     destroy_each pv e ss
       (run_db (set_destroyed e (''DestroyWorkspaceServers'' @ sv_id s) (sv_id s))
         (snd (cloud_DeleteServer (pv_hetzner pv) (sv_hetzner_id s) f)))"

definition DestroyWorkspaceServers ::
  "provisioner \<Rightarrow> env \<Rightarrow> string \<Rightarrow> infra \<Rightarrow> go_error option \<times> infra" where
  "DestroyWorkspaceServers pv e ws f =
     (case db_read e ''DestroyWorkspaceServers.list'' (Inr
             (filter (\<lambda>s. sv_state s \<notin> {''destroyed'', ''destroying''}) (servers_of ws (inf_world f)))) of
        Inl err \<Rightarrow> (Some err, f)
      | Inr rows \<Rightarrow> (None, destroy_each pv e rows f))"

section \<open>Containers\<close>

definition IncrementContainer :: "env \<Rightarrow> string \<Rightarrow> infra \<Rightarrow> (go_error + string) \<times> infra" where
  "IncrementContainer e ws f =
     (case emptiest ws (inf_world f) of
        None \<Rightarrow> (Inl (ErrText (''no server with capacity: '' @ Error
                  (case e_fault e ''IncrementContainer'' of Some err \<Rightarrow> err | None \<Rightarrow> ErrNoRows))), f)
      | Some s \<Rightarrow>
          (case in_db (db_exec e ''IncrementContainer'' None (on_server (sv_id s) (take_slot e))) f of
             (Some err, f1) \<Rightarrow> (Inl (ErrText (''no server with capacity: '' @ Error err)), f1)
           | (None, f1) \<Rightarrow> (Inr (sv_id s), f1)))"

definition DecrementContainer :: "env \<Rightarrow> string \<Rightarrow> infra \<Rightarrow> go_error option \<times> infra" where
  "DecrementContainer e serverID =
     in_db (db_exec e ''DecrementContainer'' None (on_server serverID (release_slot e)))"

record listed_server =
  ls_id :: string
  ls_workspace_id :: string
  ls_name :: string
  ls_ip_address :: "string option"
  ls_state :: string
  ls_server_type :: string
  ls_containers_running :: int
  ls_max_containers :: int
  ls_monthly_cost :: rat
  ls_workspace_cost :: rat
  ls_created_at :: instant

definition list_server :: "workspace_server \<Rightarrow> listed_server" where
  "list_server s =
     \<lparr>ls_id = sv_id s, ls_workspace_id = sv_workspace_id s, ls_name = sv_name s,
      ls_ip_address = sv_ip_address s, ls_state = sv_state s, ls_server_type = sv_server_type s,
      ls_containers_running = sv_containers_running s, ls_max_containers = sv_max_containers s,
      ls_monthly_cost = sv_monthly_cost s, ls_workspace_cost = sv_monthly_cost s * 2,
      ls_created_at = sv_created_at s\<rparr>"

definition ListServers :: "env \<Rightarrow> string \<Rightarrow> world \<Rightarrow> listed_server list answer" where
  "ListServers e ws w = db_read e ''ListServers'' (Inr (map list_server (sort_key sv_created_at
     (filter (\<lambda>s. sv_state s \<noteq> ''destroyed'') (servers_of ws w)))))"

end
