(* ===== verification/Exec_Container.thy ===== *)
theory Exec_Container
  imports Provisioner
begin

text \<open>
  The container method, \<open>internal/executor/container/container.go\<close>: a service of Docker Swarm for each
  run, on a slot of the pool of servers. The pool is the interface \<open>ServerPool\<close>, a record of functions
  on a state; its contract is the locale \<open>slot_pool\<close>, which the provisioner meets. What Docker
  answers is a parameter, and so is how \<open>fmt.Sscanf\<close> reads a number. Environment variables, which
  Go visits in a random order, keep the order of the list.
\<close>

section \<open>The pool\<close>

record 's server_pool =
  sp_EnsureCapacity :: "string \<Rightarrow> int \<Rightarrow> 's \<Rightarrow> (go_error + string) option \<times> 's"
  sp_IncrementContainer :: "string \<Rightarrow> 's \<Rightarrow> (go_error + string) \<times> 's"
  sp_DecrementContainer :: "string \<Rightarrow> 's \<Rightarrow> go_error option \<times> 's"

text \<open>
  Asking for capacity changes no counter, taking a slot raises the counter of the server it names,
  and giving it back lowers that counter unless the call fails.
\<close>

locale slot_pool =
  fixes pool :: "'s server_pool" and count :: "'s \<Rightarrow> string \<Rightarrow> int" and inv :: "'s \<Rightarrow> bool"
    and failing :: bool
  assumes ensure_inv: "inv s \<Longrightarrow> inv (snd (sp_EnsureCapacity pool ws n s))"
    and ensure_count: "inv s \<Longrightarrow> count (snd (sp_EnsureCapacity pool ws n s)) = count s"
    and take_inv: "inv s \<Longrightarrow> inv (snd (sp_IncrementContainer pool ws s))"
    and take_count: "inv s \<Longrightarrow> sp_IncrementContainer pool ws s = (Inr sid, s') \<Longrightarrow>
      sid \<noteq> [] \<and> count s' = (count s)(sid := count s sid + 1)"
    and take_failed: "inv s \<Longrightarrow> sp_IncrementContainer pool ws s = (Inl err, s') \<Longrightarrow> count s' = count s"
    and give_inv: "inv s \<Longrightarrow> inv (snd (sp_DecrementContainer pool sid s))"
    and give_count: "inv s \<Longrightarrow> 0 < count s sid \<Longrightarrow> \<not> failing \<Longrightarrow>
      count (snd (sp_DecrementContainer pool sid s)) = (count s)(sid := count s sid - 1)"
    and count_nonneg: "inv s \<Longrightarrow> 0 \<le> count s sid"
begin

text \<open>A slot that is taken and given back leaves the counters as they were.\<close>

lemma take_give:
  assumes "inv s" "sp_IncrementContainer pool ws s = (Inr sid, s')" "\<not> failing"
  shows "count (snd (sp_DecrementContainer pool sid s')) = count s"
proof -
  have i: "inv s'" using take_inv [OF assms(1), of ws] assms(2) by simp
  have c: "count s' = (count s)(sid := count s sid + 1)" using take_count [OF assms(1,2)] by simp
  then have "0 < count s' sid" using count_nonneg [OF assms(1), of sid] by simp
  then show ?thesis using give_count [OF i _ assms(3)] c by simp
qed

end

section \<open>Configuration\<close>

record container_config =
  cc_DefaultCPU :: rat
  cc_DefaultMemory :: int
  cc_ExecTimeout :: duration

text \<open>The defaults \<open>New\<close> fills in.\<close>

definition with_defaults :: "container_config \<Rightarrow> container_config" where
  "with_defaults c =
     \<lparr>cc_DefaultCPU = (if cc_DefaultCPU c = 0 then 1 / 2 else cc_DefaultCPU c),
      cc_DefaultMemory = (if cc_DefaultMemory c = 0 then 536870912 else cc_DefaultMemory c),
      cc_ExecTimeout = (if cc_ExecTimeout c = 0 then 5 * minute else cc_ExecTimeout c)\<rparr>"

text \<open>
  \<open>fmt.Sscanf(s, "%f%s", ...)\<close>: \<open>scan\<close> reads the number and gives back the rest, the unit is the
  word that follows it.
\<close>

definition parseMemory :: "(string \<Rightarrow> (rat \<times> string) option) \<Rightarrow> string \<Rightarrow> int" where
  "parseMemory scan s =
     (case scan (TrimSpace (ToUpper s)) of
        None \<Rightarrow> 0
      | Some (val, rest) \<Rightarrow>
          let unit = takeWhile (\<lambda>c. \<not> is_space c) (dropWhile is_space rest)
          in if unit \<in> {''G'', ''GI'', ''GB''} then go_int (val * 1073741824)
             else if unit \<in> {''M'', ''MI'', ''MB''} then go_int (val * 1048576)
             else if unit \<in> {''K'', ''KI'', ''KB''} then go_int (val * 1024)
             else go_int val)"

definition container_command :: "go_map option \<Rightarrow> string list" where
  "container_command cfg =
     (case map_of (entries cfg) ''command'' of
        Some (JStr v) \<Rightarrow> [''/bin/sh'', ''-c'', v]
      | Some (JArr items) \<Rightarrow> string_items items
      | _ \<Rightarrow> [])"

definition cpu_limit :: "(string \<Rightarrow> (rat \<times> string) option) \<Rightarrow> container_config \<Rightarrow> go_map option \<Rightarrow> rat" where
  "cpu_limit scan c cfg =
     (case map_of (entries cfg) ''cpu'' of
        Some (JStr v) \<Rightarrow> (case scan v of None \<Rightarrow> cc_DefaultCPU c | Some (x, _) \<Rightarrow> x)
      | Some (JNum x) \<Rightarrow> x
      | _ \<Rightarrow> cc_DefaultCPU c)"

definition mem_limit :: "(string \<Rightarrow> (rat \<times> string) option) \<Rightarrow> container_config \<Rightarrow> go_map option \<Rightarrow> int" where
  "mem_limit scan c cfg =
     (case map_of (entries cfg) ''memory'' of
        Some (JStr v) \<Rightarrow> parseMemory scan v
      | _ \<Rightarrow> cc_DefaultMemory c)"

definition container_env :: "execute_params \<Rightarrow> string list" where
  "container_env params =
     (case ep_environment params of None \<Rightarrow> [] | Some kvs \<Rightarrow> map (\<lambda>(k, v). k @ ''='' @ v) kvs) @
     [''CRONCONTROL_RUN_ID='' @ ep_run_id params] @
     (if ep_api_base_url params \<noteq> [] then [''CRONCONTROL_API_URL='' @ ep_api_base_url params] else [])"

record service_spec =
  ss_Name :: string
  ss_Labels :: "(string \<times> string) list"
  ss_Image :: string
  ss_Command :: "string list"
  ss_Env :: "string list"
  ss_NanoCPUs :: int
  ss_MemoryBytes :: int
  ss_RestartCondition :: string
  ss_MaxAttempts :: nat
  ss_Replicas :: nat
  ss_Constraints :: "string list"

definition service_spec_of ::
  "(string \<Rightarrow> (rat \<times> string) option) \<Rightarrow> container_config \<Rightarrow> string \<Rightarrow> execute_params \<Rightarrow> service_spec" where
  "service_spec_of scan c img params =
     \<lparr>ss_Name = take 63 (''cc-'' @ ep_run_id params),
      ss_Labels = [(''croncontrol.dev/run-id'', ep_run_id params),
                   (''croncontrol.dev/workspace-id'', ep_workspace_id params), (''managed-by'', ''croncontrol'')],
      ss_Image = img, ss_Command = container_command (ep_method_config params),
      ss_Env = container_env params,
      ss_NanoCPUs = go_int (cpu_limit scan c (ep_method_config params) * 1000000000),
      ss_MemoryBytes = mem_limit scan c (ep_method_config params),
      ss_RestartCondition = ''none'', ss_MaxAttempts = 0, ss_Replicas = 1,
      ss_Constraints = (if ep_workspace_id params \<noteq> []
        then [''node.labels.workspace == '' @ ep_workspace_id params] else [])\<rparr>"

section \<open>Waiting\<close>

text \<open>The state of a task of the service, with its exit code when there is a container.\<close>

record swarm_task =
  tk_State :: string
  tk_Err :: string
  tk_ExitCode :: "int option"

text \<open>What the loop of \<open>waitForCompletion\<close> is woken by.\<close>

datatype wake = CtxDone go_error | Deadline | Tick "go_error + swarm_task list"

definition task_outcome :: "swarm_task \<Rightarrow> result option" where
  "task_outcome t =
     (if tk_State t = ''complete'' then
        Some (no_result\<lparr>res_exit_code := Some (case tk_ExitCode t of None \<Rightarrow> 0 | Some c \<Rightarrow> c)\<rparr>)
      else if tk_State t \<in> {''failed'', ''rejected''} then
        Some (no_result\<lparr>res_exit_code := Some (case tk_ExitCode t of None \<Rightarrow> 1 | Some c \<Rightarrow> c),
          res_error := Some (ErrText (''container: '' @ tk_State t @ '': '' @ tk_Err t))\<rparr>)
      else None)"

text \<open>The loop over what wakes it; \<open>None\<close> while it waits for more.\<close>

fun waitForCompletion :: "string \<Rightarrow> wake list \<Rightarrow> (go_error + result) option" where
  "waitForCompletion timeout [] = None"
| "waitForCompletion timeout (CtxDone err # ws) = Some (Inl err)"
| "waitForCompletion timeout (Deadline # ws) =
     Some (Inr (no_result\<lparr>res_error := Some (ErrText (''container: execution timeout after '' @ timeout))\<rparr>))"
| "waitForCompletion timeout (Tick (Inl err) # ws) = waitForCompletion timeout ws"
| "waitForCompletion timeout (Tick (Inr tasks) # ws) =
     (if tasks = [] then waitForCompletion timeout ws
      else case task_outcome (last tasks) of
        None \<Rightarrow> waitForCompletion timeout ws
      | Some r \<Rightarrow> Some (Inr r))"

section \<open>Execution\<close>

text \<open>
  What Docker does with one service: its creation, what wakes the wait, its logs, its removal; and
  the text of the limit, the milliseconds that have passed and the reader of numbers.
\<close>

record docker =
  dk_ServiceCreate :: "service_spec \<Rightarrow> go_error + string"
  dk_wakes :: "string \<Rightarrow> wake list"
  dk_ServiceLogs :: "string \<Rightarrow> go_error + string"
  dk_ServiceRemove :: "string \<Rightarrow> go_error option"
  dk_timeout :: string
  dk_elapsed :: int
  dk_scan :: "string \<Rightarrow> (rat \<times> string) option"

datatype docker_call = Created service_spec | Removed string

record 's container_state =
  cs_active :: "string \<Rightarrow> string option"
  cs_docker :: "docker_call list"
  cs_pool :: 's

text \<open>Where an execution stands: it panicked, it still waits, or it has its result.\<close>

datatype progress = Panicked | Waiting | Returned result

definition collectLogs :: "docker \<Rightarrow> string \<Rightarrow> string \<times> string" where
  "collectLogs dk serviceID =
     (case dk_ServiceLogs dk serviceID of Inl _ \<Rightarrow> ([], []) | Inr data \<Rightarrow> (take 5242880 data, []))"

definition failed_with :: "docker \<Rightarrow> string \<Rightarrow> go_error \<Rightarrow> result" where
  "failed_with dk what err =
     no_result\<lparr>res_error := Some (ErrText (what @ Error err)), res_duration_ms := dk_elapsed dk\<rparr>"

text \<open>
  The slot of a run: \<open>Inl\<close> ends the execution, \<open>Inr\<close> is the server, empty without a pool, without a
  workspace and when no server had a free slot.
\<close>

definition allocate ::
  "docker \<Rightarrow> 's server_pool option \<Rightarrow> string \<Rightarrow> 's \<Rightarrow> (progress + string) \<times> 's" where
  "allocate dk pool ws s =
     (case pool of
        None \<Rightarrow> (Inr [], s)
      | Some p \<Rightarrow>
          if ws = [] then (Inr [], s)
          else case sp_EnsureCapacity p ws 1 s of
            (None, s1) \<Rightarrow> (Inl Panicked, s1)
          | (Some (Inl err), s1) \<Rightarrow> (Inl (Returned (failed_with dk ''container: no capacity: '' err)), s1)
          | (Some (Inr _), s1) \<Rightarrow>
              (case sp_IncrementContainer p ws s1 of
                 (Inl _, s2) \<Rightarrow> (Inr [], s2)
               | (Inr sid, s2) \<Rightarrow> (Inr sid, s2)))"

text \<open>\<open>Execute\<close> up to the service: \<open>Inr\<close> is the service and the server it was counted on.\<close>

definition container_begin ::
  "docker \<Rightarrow> container_config \<Rightarrow> 's server_pool option \<Rightarrow> execute_params \<Rightarrow> 's container_state \<Rightarrow>
   (progress + string \<times> string) \<times> 's container_state" where
  "container_begin dk c pool params st =
     (let img = getString (ep_method_config params) ''image''
      in if img = [] then
           (Inl (Returned (no_result\<lparr>res_error := Some (ErrText ''container: image is required'')\<rparr>)), st)
         else case allocate dk pool (ep_workspace_id params) (cs_pool st) of
           (Inl p, s1) \<Rightarrow> (Inl p, st\<lparr>cs_pool := s1\<rparr>)
         | (Inr server, s1) \<Rightarrow>
             let spec = service_spec_of (dk_scan dk) c img params
             in (case dk_ServiceCreate dk spec of
                   Inl err \<Rightarrow> (Inl (Returned (failed_with dk ''container: create service: '' err)), st\<lparr>cs_pool := s1\<rparr>)
                 | Inr serviceID \<Rightarrow>
                     (Inr (serviceID, server),
                      st\<lparr>cs_pool := s1, cs_docker := cs_docker st @ [Created spec],
                         cs_active := (cs_active st)(ep_run_id params := Some serviceID)\<rparr>)))"

text \<open>The deferred function: it runs when the wait is over, whatever its outcome.\<close>

definition container_cleanup ::
  "'s server_pool option \<Rightarrow> string \<Rightarrow> string \<Rightarrow> string \<Rightarrow> 's container_state \<Rightarrow> 's container_state" where
  "container_cleanup pool runID serviceID server st =
     st\<lparr>cs_active := (cs_active st)(runID := None), cs_docker := cs_docker st @ [Removed serviceID],
        cs_pool := (case pool of
          None \<Rightarrow> cs_pool st
        | Some p \<Rightarrow> if server = [] then cs_pool st else snd (sp_DecrementContainer p server (cs_pool st)))\<rparr>"

definition container_finish ::
  "docker \<Rightarrow> 's server_pool option \<Rightarrow> string \<Rightarrow> string \<Rightarrow> string \<Rightarrow> 's container_state \<Rightarrow>
   progress \<times> 's container_state" where
  "container_finish dk pool runID serviceID server st =
     (case waitForCompletion (dk_timeout dk) (dk_wakes dk serviceID) of
        None \<Rightarrow> (Waiting, st)
      | Some (Inl err) \<Rightarrow>
          (Returned (failed_with dk ''container: wait: '' err), container_cleanup pool runID serviceID server st)
      | Some (Inr r) \<Rightarrow>
          (Returned (r\<lparr>res_stdout := fst (collectLogs dk serviceID), res_stderr := snd (collectLogs dk serviceID),
             res_duration_ms := dk_elapsed dk\<rparr>), container_cleanup pool runID serviceID server st))"

definition container_Execute ::
  "docker \<Rightarrow> container_config \<Rightarrow> 's server_pool option \<Rightarrow> execute_params \<Rightarrow> 's container_state \<Rightarrow>
   progress \<times> 's container_state" where
  "container_Execute dk c pool params st =
     (case container_begin dk c pool params st of
        (Inl p, st1) \<Rightarrow> (p, st1)
      | (Inr (serviceID, server), st1) \<Rightarrow> container_finish dk pool (ep_run_id params) serviceID server st1)"

definition container_Kill :: "docker \<Rightarrow> handle \<Rightarrow> 's container_state \<Rightarrow> go_error option \<times> 's container_state" where
  "container_Kill dk h st =
     (case cs_active st (h_run_id h) of
        None \<Rightarrow> (Some (ErrText (''container: no active service for run '' @ h_run_id h)), st)
      | Some serviceID \<Rightarrow> (dk_ServiceRemove dk serviceID, st\<lparr>cs_docker := cs_docker st @ [Removed serviceID]\<rparr>))"

text \<open>
  An execution that got as far as its service leaves the counters of any pool as they were, once it
  returns; one whose service could not be created keeps the slot it took.
\<close>

context slot_pool begin

lemma allocate_counts:
  assumes "inv s" "allocate dk (Some pool) ws s = (x, s')"
  shows "inv s'" "case x of Inl _ \<Rightarrow> count s' = count s
    | Inr server \<Rightarrow> if server = [] then count s' = count s
        else count s' = (count s)(server := count s server + 1)"
proof -
  obtain r s1 where en: "sp_EnsureCapacity pool ws 1 s = (r, s1)" by fastforce
  obtain q s2 where inc: "sp_IncrementContainer pool ws s1 = (q, s2)" by fastforce
  have s1: "inv s1" "count s1 = count s"
    using ensure_inv [OF assms(1), of ws 1] ensure_count [OF assms(1), of ws 1] by (simp_all add: en)
  have s2: "inv s2" using take_inv [OF s1(1), of ws] by (simp add: inc)
  have c2: "case q of Inl _ \<Rightarrow> count s2 = count s
    | Inr sid \<Rightarrow> sid \<noteq> [] \<and> count s2 = (count s)(sid := count s sid + 1)"
    using take_failed [OF s1(1)] take_count [OF s1(1)] inc s1(2) by (cases q) auto
  show "inv s'" "case x of Inl _ \<Rightarrow> count s' = count s
    | Inr server \<Rightarrow> if server = [] then count s' = count s
        else count s' = (count s)(server := count s server + 1)"
    using assms s1 s2 c2
    by (auto simp: allocate_def en inc split: if_splits option.splits sum.splits)
qed

lemma execution_balanced:
  assumes "inv (cs_pool st)" "\<not> failing"
    and "container_begin dk c (Some pool) params st = (Inr (serviceID, server), st1)"
    and "container_finish dk (Some pool) runID serviceID server st1 = (Returned r, st2)"
  shows "count (cs_pool st2) = count (cs_pool st)"
proof -
  obtain x s1 where al: "allocate dk (Some pool) (ep_workspace_id params) (cs_pool st) = (x, s1)" by fastforce
  have x: "x = Inr server" "cs_pool st1 = s1"
    using assms(3) by (auto simp: container_begin_def al Let_def split: if_splits sum.splits)
  have i: "inv s1" by (rule allocate_counts(1) [OF assms(1) al])
  have c: "if server = [] then count s1 = count (cs_pool st)
      else count s1 = (count (cs_pool st))(server := count (cs_pool st) server + 1)"
    using allocate_counts(2) [OF assms(1) al] by (simp add: x(1))
  have end': "cs_pool st2 = (if server = [] then s1 else snd (sp_DecrementContainer pool server s1))"
    using assms(4) x(2)
    by (auto simp: container_finish_def container_cleanup_def split: option.splits sum.splits)
  have "0 \<le> count (cs_pool st) server" by (rule count_nonneg [OF assms(1)])
  then have "server \<noteq> [] \<Longrightarrow> 0 < count s1 server" using c by simp
  then show ?thesis using give_count [OF i _ assms(2), of server] c by (auto simp: end')
qed

end

section \<open>The provisioner as a pool\<close>

definition provisioner_pool :: "provisioner \<Rightarrow> env \<Rightarrow> infra server_pool" where
  "provisioner_pool pv e =
     \<lparr>sp_EnsureCapacity = EnsureCapacity pv e, sp_IncrementContainer = IncrementContainer e,
      sp_DecrementContainer = DecrementContainer e\<rparr>"

text \<open>Asking for capacity adds servers without containers and wakes idle ones.\<close>

lemma in_db_simps [simp]:
  "inf_world (snd (in_db g f)) = snd (g (inf_world f))" "fst (in_db g f) = fst (g (inf_world f))"
  "inf_calls (snd (in_db g f)) = inf_calls f"
  by (simp_all add: in_db_def split: prod.split)

lemma id_New_servers [simp]: "w_servers (snd (id_New e p w)) = w_servers w"
  by (simp add: id_New_def)

lemma servers_ok_cong: "w_servers w = w_servers w' \<Longrightarrow> servers_ok w = servers_ok w'"
  by (simp add: servers_ok_def)

lemma containers_on_cong: "w_servers w = w_servers w' \<Longrightarrow> containers_on w = containers_on w'"
  by (rule ext) (simp add: containers_on_def)

lemma cloud_world [simp]:
  "inf_world (snd (cloud_doRequest hz m u b f)) = inf_world f"
  "inf_world (snd (cloud_CreateServer hz n t d k c f)) = inf_world f"
  "inf_world (snd (cloud_DeleteServer hz i f)) = inf_world f"
  by (simp_all add: cloud_doRequest_def cloud_CreateServer_def cloud_DeleteServer_def Let_def
        split: prod.split sum.split option.split)

lemma reactivate_keeps:
  assumes "servers_ok w"
  shows "servers_ok (snd (reactivate e ws w))" "containers_on (snd (reactivate e ws w)) = containers_on w"
proof -
  let ?g = "\<lambda>s. s\<lparr>sv_state := ''ready'', sv_updated_at := e_db_now e\<rparr>"
  have "servers_ok (on_server sid ?g w)" for sid
    using assms by (intro servers_ok_update) (auto simp: servers_ok_def slot_ok_def server_states_def)
  moreover have "containers_on (on_server sid ?g w) = containers_on w" for sid
    by (intro containers_on_kept) auto
  ultimately show "servers_ok (snd (reactivate e ws w))"
    "containers_on (snd (reactivate e ws w)) = containers_on w"
    using assms by (auto simp: reactivate_def db_exec_def split: option.split)
qed

lemma provisionServer_keeps:
  assumes "servers_ok (inf_world f)"
  shows "servers_ok (inf_world (snd (provisionServer pv e ws f)))"
    "containers_on (inf_world (snd (provisionServer pv e ws f))) = containers_on (inf_world f)"
proof -
  obtain sid f1 where f1: "in_db (id_New e ''srv_'') f = (sid, f1)" by (cases "in_db (id_New e ''srv_'') f")
  have w1: "w_servers (inf_world f1) = w_servers (inf_world f)"
    using in_db_simps(1) [of "id_New e ''srv_''" f] by (simp add: f1)
  have ok1: "servers_ok (inf_world f1)" using assms servers_ok_cong [OF w1] by simp
  have c1: "containers_on (inf_world f1) = containers_on (inf_world f)" by (rule containers_on_cong [OF w1])
  have ins: "servers_ok (snd (db_exec e q (server_violation a w) (\<lambda>w. w\<lparr>w_servers := w_servers w @ [new_server e a]\<rparr>) w))
      \<and> containers_on (snd (db_exec e q (server_violation a w) (\<lambda>w. w\<lparr>w_servers := w_servers w @ [new_server e a]\<rparr>) w))
        = containers_on w"
    if "servers_ok w" "csv_max_containers a = 4" "csv_id a \<noteq> []" for q a w
    using that servers_ok_append [of w a e]
    by (auto simp: db_exec_def split: option.split)
  obtain r f2 where f2: "cloud_CreateServer (pv_hetzner pv) (''cc-'' @ take 8 ws @ ''-'' @ take 8 (drop 4 sid))
      (pv_ServerType pv) (pv_Datacenter pv) (pv_SSHKeyName pv) (cloudInit pv sid ws) f1 = (r, f2)"
    by fastforce
  have w2: "inf_world f2 = inf_world f1"
    using cloud_world(2) [of "pv_hetzner pv" "''cc-'' @ take 8 ws @ ''-'' @ take 8 (drop 4 sid)" "pv_ServerType pv"
        "pv_Datacenter pv" "pv_SSHKeyName pv" "cloudInit pv sid ws" f1] by (simp only: f2 snd_conv)
  show "servers_ok (inf_world (snd (provisionServer pv e ws f)))"
    using ins [OF ok1] ok1 unfolding provisionServer_def f1 prod.case Let_def f2
    by (cases r; cases sid) (simp_all add: w2 fresh_server_def)
  show "containers_on (inf_world (snd (provisionServer pv e ws f))) = containers_on (inf_world f)"
    using ins [OF ok1] c1 unfolding provisionServer_def f1 prod.case Let_def f2
    by (cases r; cases sid) (simp_all add: w2 fresh_server_def)
qed

lemma EnsureCapacity_keeps:
  assumes "servers_ok (inf_world f)"
  shows "servers_ok (inf_world (snd (EnsureCapacity pv e ws n f)))"
    "containers_on (inf_world (snd (EnsureCapacity pv e ws n f))) = containers_on (inf_world f)"
proof -
  obtain ip f1 where f1: "in_db (reactivate e ws) f = (ip, f1)" by (cases "in_db (reactivate e ws) f")
  have "inf_world f1 = snd (reactivate e ws (inf_world f))"
    using in_db_simps(1) [of "reactivate e ws" f] by (simp add: f1)
  then have *: "servers_ok (inf_world f1)" "containers_on (inf_world f1) = containers_on (inf_world f)"
    using reactivate_keeps [OF assms] by simp_all
  show "servers_ok (inf_world (snd (EnsureCapacity pv e ws n f)))"
    "containers_on (inf_world (snd (EnsureCapacity pv e ws n f))) = containers_on (inf_world f)"
    using assms * provisionServer_keeps [OF *(1), of pv e ws] unfolding EnsureCapacity_def f1 prod.case Let_def
    by (cases ip; simp)+
qed

lemma emptiest_slot:
  assumes "emptiest ws w = Some s"
  shows "s \<in> set (w_servers w)" "sv_workspace_id s = ws" "has_slot s"
    "s' \<in> set (w_servers w) \<Longrightarrow> sv_workspace_id s' = ws \<Longrightarrow> has_slot s' \<Longrightarrow>
      sv_containers_running s \<le> sv_containers_running s'"
proof -
  obtain ss where sort: "sort_key sv_containers_running (filter has_slot (servers_of ws w)) = s # ss"
    using assms by (auto simp: emptiest_def split: list.splits)
  have set: "set (s # ss) = {x \<in> set (w_servers w). sv_workspace_id x = ws \<and> has_slot x}"
    unfolding sort [symmetric] by (auto simp: servers_of_def)
  then show "s \<in> set (w_servers w)" "sv_workspace_id s = ws" "has_slot s" by auto
  have "sorted (map sv_containers_running (s # ss))" unfolding sort [symmetric] by simp
  moreover assume "s' \<in> set (w_servers w)" "sv_workspace_id s' = ws" "has_slot s'"
  then have "s' \<in> set (s # ss)" unfolding set by simp
  ultimately show "sv_containers_running s \<le> sv_containers_running s'" by auto
qed

text \<open>Taking a slot: the result and the table.\<close>

lemma IncrementContainer_cases:
  obtains (failed) err where "IncrementContainer e ws f = (Inl err, f)"
  | (taken) s where "emptiest ws (inf_world f) = Some s"
      "IncrementContainer e ws f =
         (Inr (sv_id s), f\<lparr>inf_world := on_server (sv_id s) (take_slot e) (inf_world f)\<rparr>)"
proof (cases "emptiest ws (inf_world f)")
  case None
  then show ?thesis by (intro failed) (simp add: IncrementContainer_def)
next
  case (Some s)
  show ?thesis
  proof (cases "e_fault e ''IncrementContainer''")
    case None
    then show ?thesis using taken [OF Some] by (simp add: IncrementContainer_def Some in_db_def db_exec_def)
  next
    case (Some err)
    then show ?thesis
      using \<open>emptiest ws (inf_world f) = Some s\<close>
      by (intro failed) (simp add: IncrementContainer_def in_db_def db_exec_def)
  qed
qed

lemma lookup_server:
  "servers_ok w \<Longrightarrow> s \<in> set (w_servers w) \<Longrightarrow> lookup_key sv_id (sv_id s) (w_servers w) = Some s"
  by (simp add: servers_ok_def lookup_key_mem)

lemma take_slot_keeps:
  assumes "servers_ok w" "emptiest ws w = Some s"
  shows "servers_ok (on_server (sv_id s) (take_slot e) w)"
    "containers_on (on_server (sv_id s) (take_slot e) w) =
       (containers_on w)(sv_id s := containers_on w (sv_id s) + 1)"
proof -
  have s: "lookup_key sv_id (sv_id s) (w_servers w) = Some s" "has_slot s" "s \<in> set (w_servers w)"
    using emptiest_slot [OF assms(2)] lookup_server [OF assms(1)] by auto
  have "slot_ok s" using assms(1) s(3) by (simp add: servers_ok_def)
  then have "slot_ok (take_slot e s)"
    using s(2) by (auto simp: take_slot_def slot_ok_def has_slot_def server_states_def)
  moreover have "s' = s" if "s' \<in> set (w_servers w)" "sv_id s' = sv_id s" for s'
    using lookup_server [OF assms(1) that(1)] that(2) s(1) by simp
  ultimately show "servers_ok (on_server (sv_id s) (take_slot e) w)"
    using assms(1) by (intro servers_ok_update) (auto simp: take_slot_def)
  show "containers_on (on_server (sv_id s) (take_slot e) w) =
       (containers_on w)(sv_id s := containers_on w (sv_id s) + 1)"
    using s(1) by (subst containers_on_update) (simp_all add: take_slot_def containers_on_def)
qed

lemma release_slot_keeps:
  assumes "servers_ok w"
  shows "servers_ok (on_server sid (release_slot e) w)"
    "0 < containers_on w sid \<Longrightarrow>
     containers_on (on_server sid (release_slot e) w) = (containers_on w)(sid := containers_on w sid - 1)"
proof -
  show "servers_ok (on_server sid (release_slot e) w)"
    using assms by (intro servers_ok_update) (auto simp: release_slot_def slot_ok_def servers_ok_def)
  assume "0 < containers_on w sid"
  then obtain s where "lookup_key sv_id sid (w_servers w) = Some s" "0 < sv_containers_running s"
    by (auto simp: containers_on_def split: option.splits)
  then show "containers_on (on_server sid (release_slot e) w) = (containers_on w)(sid := containers_on w sid - 1)"
    by (subst containers_on_update) (simp_all add: release_slot_def containers_on_def)
qed

interpretation provisioner: slot_pool "provisioner_pool pv e" "\<lambda>f. containers_on (inf_world f)"
  "\<lambda>f. servers_ok (inf_world f)" "e_fault e ''DecrementContainer'' \<noteq> None"
proof (unfold_locales, goal_cases)
  case (1 s ws n)
  then show ?case by (simp add: provisioner_pool_def EnsureCapacity_keeps)
next
  case (2 s ws n)
  then show ?case by (simp add: provisioner_pool_def EnsureCapacity_keeps)
next
  case (3 s ws)
  then show ?case
    by (cases e ws s rule: IncrementContainer_cases) (simp_all add: provisioner_pool_def take_slot_keeps)
next
  case (4 s ws s' sid)
  then show ?case
    using emptiest_slot(1) [of ws "inf_world s"]
    by (cases e ws s rule: IncrementContainer_cases)
      (auto simp: provisioner_pool_def take_slot_keeps servers_ok_def slot_ok_def)
next
  case (5 s ws err s')
  then show ?case
    by (cases e ws s rule: IncrementContainer_cases) (auto simp: provisioner_pool_def)
next
  case (6 s sid)
  then show ?case
    by (simp add: provisioner_pool_def DecrementContainer_def db_exec_def release_slot_keeps split: option.split)
next
  case (7 s sid)
  then show ?case
    by (simp add: provisioner_pool_def DecrementContainer_def db_exec_def release_slot_keeps)
next
  case (8 s sid)
  then show ?case by (rule containers_on_slots)
qed

end
