(* ===== verification/Infra_Handlers.thy ===== *)
theory Infra_Handlers
  imports Exec_Container Api
begin

text \<open>
  The handlers for the servers of a workspace, \<open>internal/handler/service.go\<close>. The service has a
  provisioner or none; \<open>main.go\<close> never sets one. \<open>None\<close> as reply is a panic in the provisioner, which the
  recovery middleware turns into status 500.
\<close>

definition not_configured :: "string \<Rightarrow> 'd reply" where
  "not_configured what = writeError 501 ''NOT_IMPLEMENTED'' what []"

definition Service_ListInfraServers ::
  "provisioner option \<Rightarrow> env \<Rightarrow> request_ctx \<Rightarrow> infra \<Rightarrow> (listed_server list \<times> int) reply" where
  "Service_ListInfraServers prov e ctx f =
     (if prov = None then not_configured ''Infrastructure provisioning not configured''
      else case ListServers e (ctx_WorkspaceID ctx) (inf_world f) of
        Inl _ \<Rightarrow> writeError 500 ''INTERNAL_ERROR'' ''Failed to list servers'' []
      | Inr rows \<Rightarrow> writeJSON 200 (rows, int (length rows)))"

record pool_view =
  pl_servers :: int
  pl_containers_running :: int
  pl_total_capacity :: int
  pl_utilization_pct :: rat
  pl_hetzner_cost :: rat
  pl_workspace_cost :: rat

definition pool_sums :: "workspace_server list \<Rightarrow> int \<times> int \<times> int \<times> rat" where
  "pool_sums ss = (int (length ss), sum_list (map sv_containers_running ss),
     sum_list (map sv_max_containers ss), sum_list (map sv_monthly_cost ss))"

definition Service_GetInfraPool ::
  "provisioner option \<Rightarrow> env \<Rightarrow> request_ctx \<Rightarrow> infra \<Rightarrow> pool_view reply" where
  "Service_GetInfraPool prov e ctx f =
     (if prov = None then not_configured ''Infrastructure provisioning not configured''
      else let (n, running, cap, cost) =
                 (case db_read e ''GetInfraPool'' (Inr (pool_sums (filter (\<lambda>s. sv_state s \<noteq> ''destroyed'')
                        (servers_of (ctx_WorkspaceID ctx) (inf_world f))))) of
                    Inl _ \<Rightarrow> (0, 0, 0, 0)
                  | Inr x \<Rightarrow> x)
           in writeJSON 200
             \<lparr>pl_servers = n, pl_containers_running = running, pl_total_capacity = cap,
              pl_utilization_pct = (if cap > 0 then of_int running / of_int cap * 100 else 0),
              pl_hetzner_cost = cost, pl_workspace_cost = cost * 2\<rparr>)"

definition Service_ProvisionServer ::
  "provisioner option \<Rightarrow> env \<Rightarrow> request_ctx \<Rightarrow> infra \<Rightarrow> (string \<times> string) reply \<times> infra" where
  "Service_ProvisionServer prov e ctx f =
     (case prov of
        None \<Rightarrow> (not_configured ''Infrastructure provisioning not configured'', f)
      | Some pv \<Rightarrow>
          (case EnsureCapacity pv e (ctx_WorkspaceID ctx) 1 f of
             (None, f1) \<Rightarrow> (Status 500, f1)
           | (Some (Inl err), f1) \<Rightarrow> (writeError 500 ''INTERNAL_ERROR'' ''Failed to provision server'' (Error err), f1)
           | (Some (Inr ip), f1) \<Rightarrow> (writeJSON 201 (''provisioning'', ip), f1)))"

text \<open>The workspace of the server is not compared with the one of the request.\<close>

definition Service_DestroyInfraServer ::
  "provisioner option \<Rightarrow> env \<Rightarrow> request_ctx \<Rightarrow> string \<Rightarrow> infra \<Rightarrow> string reply \<times> infra" where
  "Service_DestroyInfraServer prov e ctx serverID f =
     (case prov of
        None \<Rightarrow> (not_configured ''Infrastructure provisioning not configured'', f)
      | Some pv \<Rightarrow>
          (case DestroyServer pv e serverID f of
             (Some err, f1) \<Rightarrow> (writeError 500 ''INTERNAL_ERROR'' ''Failed to destroy server'' (Error err), f1)
           | (None, f1) \<Rightarrow> (writeJSON 200 ''destroying'', f1)))"

text \<open>The call-back of a new server: neither its secret nor its body is looked at.\<close>

definition Service_ServerReadyCallback ::
  "provisioner option \<Rightarrow> env \<Rightarrow> string \<Rightarrow> infra \<Rightarrow> string reply \<times> infra" where
  "Service_ServerReadyCallback prov e serverID f =
     (case prov of
        None \<Rightarrow> (not_configured ''Not configured'', f)
      | Some pv \<Rightarrow> (writeJSON 200 ''ready'', snd (MarkServerReady e serverID f)))"

text \<open>\<open>ORDER BY workspace_id, created_at\<close>: \<open>rank\<close> is the place of an id in the order of the database.\<close>

definition Service_ListAllInfraServers ::
  "(string \<Rightarrow> int) \<Rightarrow> env \<Rightarrow> world \<Rightarrow> (listed_server list \<times> int) reply" where
  "Service_ListAllInfraServers rank e w =
     (case db_read e ''ListAllInfraServers'' (Inr (map list_server
             (sort_key (\<lambda>s. rank (sv_workspace_id s)) (sort_key sv_created_at
                (filter (\<lambda>s. sv_state s \<noteq> ''destroyed'') (w_servers w)))))) of
        Inl _ \<Rightarrow> writeError 500 ''INTERNAL_ERROR'' ''Failed to list servers'' []
      | Inr rows \<Rightarrow> writeJSON 200 (rows, int (length rows)))"

end
