(* ===== verification/Infra_Properties.thy ===== *)
theory Infra_Properties
  imports Infra_Handlers Samples
begin

text \<open>
  Properties of the servers of a workspace: the counters of slots under every operation of the
  provisioner, what an execution in a container does to them, how many servers there can be, and
  which servers are never given back.
\<close>

section \<open>Samples\<close>

definition sample_server :: "string \<Rightarrow> string \<Rightarrow> int \<Rightarrow> workspace_server" where
  "sample_server sid st running =
     \<lparr>sv_id = sid, sv_workspace_id = ''wsp_0001'', sv_hetzner_id = 17, sv_name = ''cc-1'',
      sv_ip_address = Some ''10.0.0.1'', sv_state = st, sv_server_type = ''cx22'', sv_datacenter = ''fsn1'',
      sv_containers_running = running, sv_max_containers = 4, sv_last_activity_at = None,
      sv_monthly_cost = 9 / 2, sv_created_at = 0, sv_destroyed_at = None, sv_updated_at = 0\<rparr>"

definition sample_infra :: "workspace_server list \<Rightarrow> infra" where
  "sample_infra ss = \<lparr>inf_calls = [], inf_world = empty_world\<lparr>
     w_workspaces := [sample_workspace\<lparr>wsp_id := ''wsp_0001''\<rparr>], w_servers := ss\<rparr>\<rparr>"

text \<open>A cloud that cannot be reached.\<close>

definition sample_provisioner :: provisioner where
  "sample_provisioner =
     \<lparr>pv_hetzner = NewHetznerClient ''key'' (\<lambda>_ _. Inl (ErrText ''timeout'')) (\<lambda>_. None), pv_Datacenter = ''fsn1'',
      pv_ServerType = ''cx22'', pv_SSHKeyName = ''k'', pv_SwarmManagerIP = ''10.0.0.2'', pv_SwarmJoinToken = ''t'',
      pv_GracePeriod = 10, pv_MaxServers = 2, pv_InfraSecret = ''s'', pv_CronControlURL = ''http://c''\<rparr>"

definition sample_docker :: "(service_spec \<Rightarrow> go_error + string) \<Rightarrow> docker" where
  "sample_docker create =
     \<lparr>dk_ServiceCreate = create, dk_wakes = (\<lambda>_. [Deadline]), dk_ServiceLogs = (\<lambda>_. Inr ''out''),
      dk_ServiceRemove = (\<lambda>_. None), dk_timeout = ''5m0s'', dk_elapsed = 7, dk_scan = (\<lambda>_. None)\<rparr>"

definition sample_container :: execute_params where
  "sample_container =
     \<lparr>ep_run_id = ''run_1'', ep_workspace_id = ''wsp_0001'', ep_method_config = Some [(''image'', JStr ''alpine'')],
      ep_environment = None, ep_api_base_url = []\<rparr>"

definition sample_pool_state :: "infra container_state" where
  "sample_pool_state = \<lparr>cs_active = (\<lambda>_. None), cs_docker = [], cs_pool = sample_infra [sample_server ''srv_1'' ''ready'' 0]\<rparr>"

lemmas infra_samples = sample_server_def sample_infra_def sample_provisioner_def sample_docker_def
  sample_container_def sample_pool_state_def empty_world_def

lemma sample_servers_ok: "st \<in> set server_states \<Longrightarrow> 0 \<le> n \<Longrightarrow> n \<le> 4 \<Longrightarrow>
    servers_ok (inf_world (sample_infra [sample_server ''srv_1'' st n]))"
  by (simp add: infra_samples servers_ok_def slot_ok_def)

lemma lookup_sample_server [simp]:
  "lookup_key sv_id ''srv_1'' (w_servers (inf_world (sample_infra [sample_server ''srv_1'' st n]))) =
     Some (sample_server ''srv_1'' st n)"
  by (simp add: infra_samples)

section \<open>The operations as steps\<close>

text \<open>
  One operation on the servers, each with its own environment: what happens between start-up and
  the request of an administrator to destroy a server.
\<close>

inductive infra_step :: "provisioner \<Rightarrow> infra \<Rightarrow> infra \<Rightarrow> bool" for pv where
  ensure: "infra_step pv f (snd (EnsureCapacity pv e ws n f))"
| ready: "infra_step pv f (snd (MarkServerReady e sid f))"
| increment: "infra_step pv f (snd (IncrementContainer e ws f))"
| decrement: "infra_step pv f (snd (DecrementContainer e sid f))"
| idle: "infra_step pv f (checkIdleServers pv e f)"

text \<open>The updates that make up the operations, on a table: every one is an update of rows or a new row.\<close>

lemma run_db_simps [simp]: "inf_world (run_db g f) = g (inf_world f)"
  by (simp add: run_db_def)

lemma update_where_servers_ok:
  assumes "servers_ok w" "\<And>s. sv_id (g s) = sv_id s" "\<And>s. slot_ok s \<Longrightarrow> slot_ok (g s)"
  shows "servers_ok (w\<lparr>w_servers := update_where P g (w_servers w)\<rparr>)"
  using assms by (auto simp: servers_ok_def map_update_where set_update_where)

lemma set_server_state_ok:
  "servers_ok w \<Longrightarrow> st \<in> set server_states \<Longrightarrow> servers_ok (set_server_state e q sid st w)"
  unfolding set_server_state_def
  by (rule db_exec_preserves, assumption) (rule servers_ok_update, auto simp: servers_ok_def slot_ok_def)

lemma set_destroyed_ok: "servers_ok w \<Longrightarrow> servers_ok (set_destroyed e q sid w)"
  unfolding set_destroyed_def
  by (rule db_exec_preserves, assumption)
    (rule servers_ok_update, auto simp: servers_ok_def slot_ok_def destroyed_def server_states_def)

lemma delete_attempts_world [simp]: "inf_world (snd (delete_attempts hz hid n err f)) = inf_world f"
proof (induction n arbitrary: err f)
  case (Suc n)
  show ?case
    using Suc [of _ "snd (cloud_DeleteServer hz hid f)"] cloud_world(3) [of hz hid f]
    by (cases "cloud_DeleteServer hz hid f") (auto split: option.split)
qed simp

lemma DestroyServer_world:
  "inf_world (snd (DestroyServer pv e sid f)) \<in>
     {inf_world f, set_server_state e (''DestroyServer.destroying'' @ sid) sid ''destroying'' (inf_world f),
      set_destroyed e (''DestroyServer.destroyed'' @ sid) sid
        (set_server_state e (''DestroyServer.destroying'' @ sid) sid ''destroying'' (inf_world f))}"
proof (cases "db_read e (''DestroyServer.find'' @ sid) (one_row (lookup_key sv_id sid (w_servers (inf_world f))))")
  case (Inr s)
  let ?f = "run_db (set_server_state e (''DestroyServer.destroying'' @ sid) sid ''destroying'') f"
  obtain r f1 where d: "delete_attempts (pv_hetzner pv) (sv_hetzner_id s) 3 None ?f = (r, f1)" by fastforce
  then have "inf_world f1 = inf_world ?f"
    using delete_attempts_world [of "pv_hetzner pv" "sv_hetzner_id s" 3 None ?f] by simp
  then show ?thesis unfolding DestroyServer_def Inr sum.case d by (cases r) simp_all
qed (simp add: DestroyServer_def)

lemma DestroyServer_ok:
  assumes "servers_ok (inf_world f)"
  shows "servers_ok (inf_world (snd (DestroyServer pv e sid f)))"
proof -
  have "servers_ok (set_server_state e (''DestroyServer.destroying'' @ sid) sid ''destroying'' (inf_world f))"
    by (rule set_server_state_ok [OF assms]) (simp add: server_states_def)
  then show ?thesis using DestroyServer_world [of pv e sid f] assms set_destroyed_ok by auto
qed

lemma destroy_idle_ok: "servers_ok (inf_world f) \<Longrightarrow> servers_ok (inf_world (destroy_idle pv e ss f))"
proof (induction ss arbitrary: f)
  case (Cons s ss)
  have "servers_ok (inf_world (run_db (set_server_state e (''checkIdleServers.idle'' @ sv_id s) (sv_id s) ''idle'') f))"
    using set_server_state_ok [OF Cons.prems] by (simp add: server_states_def)
  then show ?case by (simp add: Cons.IH DestroyServer_ok)
qed simp

lemma checkIdleServers_ok:
  "servers_ok (inf_world f) \<Longrightarrow> servers_ok (inf_world (checkIdleServers pv e f))"
  by (simp add: checkIdleServers_def Let_def destroy_idle_ok split: sum.split)

lemma MarkServerReady_ok:
  assumes "servers_ok (inf_world f)"
  shows "servers_ok (inf_world (snd (MarkServerReady e sid f)))"
  using update_where_servers_ok [OF assms, of "\<lambda>s. s\<lparr>sv_state := ''ready'', sv_updated_at := e_db_now e\<rparr>"]
  by (auto simp: MarkServerReady_def db_exec_def assms slot_ok_def server_states_def split: option.split)

lemma infra_step_ok:
  assumes "infra_step pv f f'" "servers_ok (inf_world f)"
  shows "servers_ok (inf_world f')"
  using assms(1)
  by cases (use assms(2) provisioner.ensure_inv [of f pv] provisioner.take_inv [of f]
      provisioner.give_inv [of f] in \<open>simp_all add: provisioner_pool_def MarkServerReady_ok checkIdleServers_ok\<close>)

text \<open>
  The counter of every server stays between zero and its number of slots, and its state in the six
  of the schema, whatever sequence of requests for capacity, call-backs, containers that start and end
  and checks for idle servers happens, and whatever fails on the way.
\<close>

theorem slots_stay_in_bounds:
  assumes "(infra_step pv)\<^sup>*\<^sup>* f f'" "servers_ok (inf_world f)" "s \<in> set (w_servers (inf_world f'))"
  shows "0 \<le> sv_containers_running s \<and> sv_containers_running s \<le> sv_max_containers s \<and>
    sv_state s \<in> set server_states"
proof -
  have "servers_ok (inf_world f')"
    using assms(1,2) by (induction rule: rtranclp_induct) (auto intro: infra_step_ok)
  with assms(3) show ?thesis by (simp add: servers_ok_def slot_ok_def)
qed

theorem slots_stay_in_bounds_witness:
  "sv_containers_running (take_slot (calm 5) (sample_server ''srv_1'' ''ready'' 3)) \<le> 4"
proof -
  let ?f = "sample_infra [sample_server ''srv_1'' ''ready'' 3]"
  have "take_slot (calm 5) (sample_server ''srv_1'' ''ready'' 3)
      \<in> set (w_servers (inf_world (snd (IncrementContainer (calm 5) ''wsp_0001'' ?f))))"
    by (simp add: IncrementContainer_def emptiest_def servers_of_def has_slot_def infra_samples in_db_def db_exec_def)
  moreover have "(infra_step sample_provisioner)\<^sup>*\<^sup>* ?f (snd (IncrementContainer (calm 5) ''wsp_0001'' ?f))"
    by (rule r_into_rtranclp, rule infra_step.increment)
  moreover have "servers_ok (inf_world ?f)" by (simp add: sample_servers_ok server_states_def)
  ultimately show ?thesis
    using slots_stay_in_bounds by (fastforce simp: sample_server_def take_slot_def)
qed

section \<open>Executions in containers\<close>

lemma wait_ends: "Deadline \<in> set ws \<Longrightarrow> waitForCompletion t ws \<noteq> None"
  by (induction t ws rule: waitForCompletion.induct) (auto split: option.split)

lemma finish_returns:
  assumes "Deadline \<in> set (dk_wakes dk serviceID)"
  obtains r st' where "container_finish dk pool runID serviceID server st = (Returned r, st')"
proof -
  obtain a where "waitForCompletion (dk_timeout dk) (dk_wakes dk serviceID) = Some a"
    using wait_ends [OF assms, of "dk_timeout dk"] by blast
  then show ?thesis using that by (cases a) (simp_all add: container_finish_def)
qed

text \<open>
  C27: An execution in a container whose service can be created returns at its deadline at the latest,
  and leaves the counters of all servers as they were: the slot it took is given back, whether the
  container ends well, fails or runs out of time.
\<close>

theorem container_gives_slot_back:
  assumes ok: "servers_ok (inf_world (cs_pool st))" and db: "e_fault e ''DecrementContainer'' = None"
    and created: "\<forall>spec. \<exists>serviceID. dk_ServiceCreate dk spec = Inr serviceID"
    and deadline: "\<forall>serviceID. Deadline \<in> set (dk_wakes dk serviceID)"
    and run: "container_Execute dk c (Some (provisioner_pool pv e)) params st = (p, st')"
  shows "p \<noteq> Waiting \<and>
    containers_on (inf_world (cs_pool st')) = containers_on (inf_world (cs_pool st))"
proof -
  let ?pool = "Some (provisioner_pool pv e)"
  obtain x st1 where b: "container_begin dk c ?pool params st = (x, st1)" by fastforce
  show ?thesis
  proof (cases x)
    case (Inr ss)
    obtain serviceID server where ss: "ss = (serviceID, server)" by (cases ss)
    obtain r st2 where f: "container_finish dk ?pool (ep_run_id params) serviceID server st1 = (Returned r, st2)"
      using finish_returns [of dk serviceID] deadline by blast
    have "p = Returned r" "st' = st2" using run by (simp_all add: container_Execute_def b Inr ss f)
    then show ?thesis
      using provisioner.execution_balanced [OF ok _ _ f] db b by (simp add: Inr ss)
  next
    case (Inl q)
    obtain y s1 where al: "allocate dk ?pool (ep_workspace_id params) (cs_pool st) = (y, s1)" by fastforce
    have st': "p = q" "st' = st1" using run by (simp_all add: container_Execute_def b Inl)
    show ?thesis
    proof (cases "getString (ep_method_config params) ''image'' = []")
      case True
      then show ?thesis using b st' by (auto simp: container_begin_def Inl)
    next
      case False
      obtain serviceID where "dk_ServiceCreate dk (service_spec_of (dk_scan dk) c
          (getString (ep_method_config params) ''image'') params) = Inr serviceID"
        using created by blast
      then have y: "y = Inl q" "st1 = st\<lparr>cs_pool := s1\<rparr>"
        using b False by (auto simp: container_begin_def Inl al Let_def split: sum.splits)
      have "q \<noteq> Waiting"
        using al y(1) by (auto simp: allocate_def split: option.splits if_splits prod.splits sum.splits)
      then show ?thesis
        using provisioner.allocate_counts(2) [OF ok al] y st' by simp
    qed
  qed
qed

theorem container_gives_slot_back_witness:
  "containers_on (inf_world (cs_pool (snd (container_Execute (sample_docker (\<lambda>_. Inr ''svc''))
       \<lparr>cc_DefaultCPU = 1, cc_DefaultMemory = 1, cc_ExecTimeout = 1\<rparr>
       (Some (provisioner_pool sample_provisioner (calm 5))) sample_container sample_pool_state)))) ''srv_1'' = 0"
proof -
  let ?c = "\<lparr>cc_DefaultCPU = 1, cc_DefaultMemory = 1, cc_ExecTimeout = 1\<rparr>"
  obtain p st' where run: "container_Execute (sample_docker (\<lambda>_. Inr ''svc'')) ?c
      (Some (provisioner_pool sample_provisioner (calm 5))) sample_container sample_pool_state = (p, st')"
    by fastforce
  have "servers_ok (inf_world (cs_pool sample_pool_state))"
    by (simp add: sample_pool_state_def sample_servers_ok server_states_def)
  from container_gives_slot_back [OF this _ _ _ run] show ?thesis
    unfolding run by (simp add: sample_docker_def) (simp add: sample_pool_state_def containers_on_def, simp add: sample_server_def)
qed

text \<open>
  When Docker refuses the service, the slot that was taken for it is never given back: the counter
  of its server stays one too high, and no service is recorded that would lower it later.
\<close>

theorem refused_service_keeps_slot:
  assumes "servers_ok (inf_world (cs_pool st))" "emptiest (ep_workspace_id params) (inf_world (cs_pool st)) = Some s"
    and "e_fault e ''EnsureCapacity.available'' = None" "e_fault e ''IncrementContainer'' = None"
    and "available_slots e (ep_workspace_id params) (inf_world (cs_pool st)) \<ge> 1"
    and "getString (ep_method_config params) ''image'' \<noteq> []" "ep_workspace_id params \<noteq> []"
    and "\<forall>spec. dk_ServiceCreate dk spec = Inl err"
    and "container_Execute dk c (Some (provisioner_pool pv e)) params st = (p, st')"
  shows "p = Returned (failed_with dk ''container: create service: '' err) \<and>
    containers_on (inf_world (cs_pool st')) =
      (containers_on (inf_world (cs_pool st)))
        (sv_id s := containers_on (inf_world (cs_pool st)) (sv_id s) + 1) \<and>
    cs_active st' = cs_active st \<and> cs_docker st' = cs_docker st"
proof -
  let ?w = "inf_world (cs_pool st)"
  have named: "sv_id s \<noteq> []"
    using emptiest_slot(1) [OF assms(2)] assms(1) by (auto simp: servers_ok_def slot_ok_def)
  have inc: "IncrementContainer e (ep_workspace_id params) (cs_pool st) =
      (Inr (sv_id s), (cs_pool st)\<lparr>inf_world := on_server (sv_id s) (take_slot e) ?w\<rparr>)"
    by (simp add: IncrementContainer_def assms(2,4) in_db_def db_exec_def)
  have al: "allocate dk (Some (provisioner_pool pv e)) (ep_workspace_id params) (cs_pool st) =
      (Inr (sv_id s), (cs_pool st)\<lparr>inf_world := on_server (sv_id s) (take_slot e) ?w\<rparr>)"
    using assms(5,7) by (simp add: allocate_def provisioner_pool_def EnsureCapacity_def inc)
  show ?thesis
    using assms(9) take_slot_keeps(2) [OF assms(1,2), of e]
    by (auto simp: container_Execute_def container_begin_def assms(6,8) al Let_def)
qed

theorem refused_service_keeps_slot_witness:
  "containers_on (inf_world (cs_pool (snd (container_Execute (sample_docker (\<lambda>_. Inl (ErrText ''no'')))
       \<lparr>cc_DefaultCPU = 1, cc_DefaultMemory = 1, cc_ExecTimeout = 1\<rparr>
       (Some (provisioner_pool sample_provisioner (calm 5))) sample_container sample_pool_state)))) ''srv_1'' = 1"
proof -
  let ?c = "\<lparr>cc_DefaultCPU = 1, cc_DefaultMemory = 1, cc_ExecTimeout = 1\<rparr>"
  let ?s = "sample_server ''srv_1'' ''ready'' 0"
  obtain p st' where run: "container_Execute (sample_docker (\<lambda>_. Inl (ErrText ''no''))) ?c
      (Some (provisioner_pool sample_provisioner (calm 5))) sample_container sample_pool_state = (p, st')"
    by fastforce
  have ok: "servers_ok (inf_world (cs_pool sample_pool_state))"
    by (simp add: sample_pool_state_def sample_servers_ok server_states_def)
  have e: "emptiest (ep_workspace_id sample_container) (inf_world (cs_pool sample_pool_state)) = Some ?s"
    and a: "available_slots (calm 5) (ep_workspace_id sample_container) (inf_world (cs_pool sample_pool_state)) \<ge> 1"
    by (simp_all add: emptiest_def available_slots_def db_read_def servers_of_def has_slot_def infra_samples)
  have c: "\<forall>spec. dk_ServiceCreate (sample_docker (\<lambda>_. Inl (ErrText ''no''))) spec = Inl (ErrText ''no'')"
    by (simp add: sample_docker_def)
  from refused_service_keeps_slot [OF ok e _ _ a _ _ c run] show ?thesis
    unfolding run by (simp add: sample_container_def getString_def map_string_def entries_def)
      (simp add: sample_pool_state_def containers_on_def, simp add: sample_server_def)
qed

section \<open>Servers that are never given back\<close>

lemma lookup_update_other:
  assumes "\<And>s. sv_id (g s) = sv_id s" "k \<noteq> sid"
  shows "lookup_key sv_id k (update_key sv_id sid g rows) = lookup_key sv_id k rows"
  using assms by (induction rows) auto

lemma lookup_set_server_state [simp]:
  "k \<noteq> sid \<Longrightarrow> lookup_key sv_id k (w_servers (set_server_state e q sid st w)) = lookup_key sv_id k (w_servers w)"
  "k \<noteq> sid \<Longrightarrow> lookup_key sv_id k (w_servers (set_destroyed e q sid w)) = lookup_key sv_id k (w_servers w)"
  by (simp_all add: set_server_state_def set_destroyed_def db_exec_def destroyed_def lookup_update_other
        split: option.split)

lemma DestroyServer_other:
  "k \<noteq> sid \<Longrightarrow> lookup_key sv_id k (w_servers (inf_world (snd (DestroyServer pv e sid f)))) =
     lookup_key sv_id k (w_servers (inf_world f))"
  using DestroyServer_world [of pv e sid f] by auto

lemma destroy_idle_other:
  "k \<notin> sv_id ` set ss \<Longrightarrow> lookup_key sv_id k (w_servers (inf_world (destroy_idle pv e ss f))) =
     lookup_key sv_id k (w_servers (inf_world f))"
  by (induction ss arbitrary: f) (simp_all add: DestroyServer_other)

definition in_use :: "infra \<Rightarrow> string \<Rightarrow> bool" where
  "in_use f sid \<longleftrightarrow> (\<exists>s. lookup_key sv_id sid (w_servers (inf_world f)) = Some s \<and> sv_state s = ''active'')"

text \<open>An update of another server, or one that keeps the state active, keeps a server in use.\<close>

lemma in_use_update_key:
  assumes "in_use f sid" "\<And>s. sv_id (g s) = sv_id s"
    and "sid = k \<Longrightarrow> (\<And>s. sv_state s = ''active'' \<Longrightarrow> sv_state (g s) = ''active'')"
  shows "in_use (f\<lparr>inf_world := on_server k g (inf_world f)\<rparr>) sid"
proof -
  obtain s where s: "lookup_key sv_id sid (w_servers (inf_world f)) = Some s" "sv_state s = ''active''"
    using assms(1) by (auto simp: in_use_def)
  then have "sv_id s = sid" by (auto dest: lookup_key_SomeD)
  then have "lookup_key sv_id sid (update_key sv_id k g (w_servers (inf_world f))) =
      Some (if sid = k then g s else s)"
    using s(1) assms(2) by (simp add: update_key_def lookup_key_update_where)
  then show ?thesis using s(2) assms(3) by (simp add: in_use_def)
qed

lemma in_use_id_New [simp]: "in_use (snd (in_db (id_New e p) f)) sid = in_use f sid"
  by (simp add: in_use_def)

lemma in_use_cong: "w_servers (inf_world f) = w_servers (inf_world f') \<Longrightarrow> in_use f sid = in_use f' sid"
  by (simp add: in_use_def)

lemma in_use_reactivate:
  assumes "in_use f sid" "servers_ok (inf_world f)"
  shows "in_use (snd (in_db (reactivate e ws) f)) sid"
proof (cases "List.find (\<lambda>s. sv_state s = ''idle'') (servers_of ws (inf_world f))")
  case None
  then show ?thesis using assms(1) by (simp add: in_db_def reactivate_def in_use_def)
next
  case (Some s)
  then have s: "s \<in> set (w_servers (inf_world f))" "sv_state s = ''idle''"
    by (auto simp: find_Some_iff servers_of_def dest: nth_mem)
  then have "sid \<noteq> sv_id s"
    using assms lookup_server [OF assms(2) s(1)] by (auto simp: in_use_def)
  then have "in_use (f\<lparr>inf_world := on_server (sv_id s)
      (\<lambda>s. s\<lparr>sv_state := ''ready'', sv_updated_at := e_db_now e\<rparr>) (inf_world f)\<rparr>) sid"
    by (intro in_use_update_key assms(1)) simp_all
  then show ?thesis using assms(1)
    by (auto simp: in_db_def reactivate_def Some db_exec_def split: option.split)
qed

lemma in_use_provision:
  assumes "in_use f sid"
  shows "in_use (snd (provisionServer pv e ws f)) sid"
proof -
  obtain i f1 where f1: "in_db (id_New e ''srv_'') f = (i, f1)" by (cases "in_db (id_New e ''srv_'') f")
  have u1: "in_use f1 sid" using in_use_id_New [of e "''srv_''" f sid] assms by (simp add: f1)
  obtain r f2 where f2: "cloud_CreateServer (pv_hetzner pv) (''cc-'' @ take 8 ws @ ''-'' @ take 8 (drop 4 i))
      (pv_ServerType pv) (pv_Datacenter pv) (pv_SSHKeyName pv) (cloudInit pv i ws) f1 = (r, f2)"
    by fastforce
  have "inf_world f2 = inf_world f1"
    using cloud_world(2) [of "pv_hetzner pv" "''cc-'' @ take 8 ws @ ''-'' @ take 8 (drop 4 i)" "pv_ServerType pv"
        "pv_Datacenter pv" "pv_SSHKeyName pv" "cloudInit pv i ws" f1] by (simp only: f2 snd_conv)
  then have u2: "in_use f2 sid" using u1 in_use_cong [of f1 f2 sid] by simp
  have app: "in_use (snd (in_db (\<lambda>w. db_exec e q v (\<lambda>w. w\<lparr>w_servers := w_servers w @ [x]\<rparr>) w) f2)) sid" for q v x
    using u2 by (auto simp: in_use_def db_exec_def lookup_key_append split: option.split)
  have app': "in_use (snd (in_db (\<lambda>w. db_exec e q (v w) (\<lambda>w. w\<lparr>w_servers := w_servers w @ [x]\<rparr>) w) f2)) sid" for q v x
    using app [of q "v (inf_world f2)" x] by (simp add: in_use_def)
  show ?thesis
    using u1 u2 app' unfolding provisionServer_def f1 prod.case Let_def f2 by (cases r) simp_all
qed

lemma in_use_checkIdle:
  assumes "in_use f sid" "servers_ok (inf_world f)"
  shows "in_use (checkIdleServers pv e f) sid"
proof -
  let ?rows = "filter (is_idle (e_now e - pv_GracePeriod pv)) (w_servers (inf_world f))"
  have "sid \<notin> sv_id ` set ?rows"
    using assms lookup_server [OF assms(2)] by (auto simp: in_use_def is_idle_def)
  then have "in_use (destroy_idle pv e ?rows f) sid"
    using assms(1) by (simp add: in_use_def destroy_idle_other)
  then show ?thesis
    using assms(1) by (auto simp: checkIdleServers_def db_read_def Let_def split: option.split)
qed

lemma in_use_step:
  assumes "infra_step pv f f'" "servers_ok (inf_world f)" "in_use f sid"
  shows "in_use f' sid"
  using assms(1)
proof cases
  case (ensure e ws n)
  obtain ip f1 where f1: "in_db (reactivate e ws) f = (ip, f1)" by (cases "in_db (reactivate e ws) f")
  have "in_use f1 sid" using in_use_reactivate [OF assms(3,2), of e ws] by (simp add: f1)
  then show ?thesis
    using assms(3) in_use_provision [of f1 sid pv e ws]
    unfolding ensure EnsureCapacity_def f1 prod.case Let_def by (cases ip) simp_all
next
  case (ready e k)
  have "in_use (f\<lparr>inf_world := (inf_world f)\<lparr>w_servers := update_where
      (\<lambda>s. sv_id s = k \<and> sv_state s = ''provisioning'')
      (\<lambda>s. s\<lparr>sv_state := ''ready'', sv_updated_at := e_db_now e\<rparr>) (w_servers (inf_world f))\<rparr>\<rparr>) sid"
    using assms(3) unfolding in_use_def
    by (elim exE conjE, intro exI conjI) (simp_all add: lookup_key_update_where)
  then show ?thesis
    using assms(3) by (auto simp: ready MarkServerReady_def in_db_def db_exec_def split: option.split)
next
  case (increment e ws)
  show ?thesis
    using assms(3) unfolding increment
    by (cases e ws f rule: IncrementContainer_cases) (simp_all add: in_use_update_key take_slot_def)
next
  case (decrement e k)
  have "in_use (f\<lparr>inf_world := on_server k (release_slot e) (inf_world f)\<rparr>) sid"
    by (rule in_use_update_key [OF assms(3)]) (simp_all add: release_slot_def)
  then show ?thesis
    using assms(3) by (auto simp: decrement DecrementContainer_def in_db_def db_exec_def split: option.split)
next
  case (idle e)
  then show ?thesis using in_use_checkIdle [OF assms(3,2)] by simp
qed

text \<open>
  A server that has once run a container is never given back: its state stays active through every
  sequence of requests, call-backs, containers and checks for idle servers, however long its grace
  period is over, because the check looks at ready and idle servers only.
\<close>

theorem used_server_is_never_reclaimed:
  assumes "(infra_step pv)\<^sup>*\<^sup>* f f'" "servers_ok (inf_world f)"
    and "lookup_key sv_id sid (w_servers (inf_world f)) = Some s" "sv_state s = ''active''"
  shows "\<exists>s'. lookup_key sv_id sid (w_servers (inf_world f')) = Some s' \<and> sv_state s' = ''active''"
proof -
  have "servers_ok (inf_world f') \<and> in_use f' sid"
    using assms(1) by (induction rule: rtranclp_induct) (use assms(2-4) in \<open>auto simp: in_use_def [of f]
      intro: infra_step_ok in_use_step\<close>)
  then show ?thesis by (simp add: in_use_def)
qed

theorem used_server_is_never_reclaimed_witness:
  "map_option sv_state (lookup_key sv_id ''srv_1'' (w_servers (inf_world
     (checkIdleServers sample_provisioner (calm 1000) (sample_infra [sample_server ''srv_1'' ''active'' 0]))))) =
   Some ''active''"
proof -
  let ?f = "sample_infra [sample_server ''srv_1'' ''active'' 0]"
  have "servers_ok (inf_world ?f)" by (simp add: sample_servers_ok server_states_def)
  moreover have "sv_state (sample_server ''srv_1'' ''active'' 0) = ''active''" by (simp add: sample_server_def)
  moreover have "(infra_step sample_provisioner)\<^sup>*\<^sup>* ?f (checkIdleServers sample_provisioner (calm 1000) ?f)"
    by (rule r_into_rtranclp, rule infra_step.idle)
  ultimately show ?thesis
    using used_server_is_never_reclaimed [OF _ _ lookup_sample_server] by fastforce
qed

section \<open>How many servers\<close>

definition live_servers :: "string \<Rightarrow> world \<Rightarrow> nat" where
  "live_servers ws w = length (filter (\<lambda>s. sv_state s \<noteq> ''destroyed'') (servers_of ws w))"

lemma length_filter_update_where:
  "(\<And>x. x \<in> set xs \<Longrightarrow> C x \<Longrightarrow> P (g x) = P x) \<Longrightarrow>
   length (filter P (update_where C g xs)) = length (filter P xs)"
  by (induction xs) auto

lemma live_servers_alt:
  "live_servers ws w = length (filter (\<lambda>s. sv_workspace_id s = ws \<and> sv_state s \<noteq> ''destroyed'') (w_servers w))"
  by (simp add: live_servers_def servers_of_def conj_commute)

lemma live_reactivate:
  assumes "servers_ok w"
  shows "live_servers ws' (snd (reactivate e ws w)) = live_servers ws' w"
proof (cases "List.find (\<lambda>s. sv_state s = ''idle'') (servers_of ws w)")
  case (Some s)
  then have s: "s \<in> set (w_servers w)" "sv_state s = ''idle''"
    by (auto simp: find_Some_iff servers_of_def dest: nth_mem)
  have "x = s" if "x \<in> set (w_servers w)" "sv_id x = sv_id s" for x
    using lookup_server [OF assms s(1)] lookup_server [OF assms that(1), unfolded that(2)] by simp
  then have "live_servers ws' (on_server (sv_id s)
      (\<lambda>s. s\<lparr>sv_state := ''ready'', sv_updated_at := e_db_now e\<rparr>) w) = live_servers ws' w"
    unfolding live_servers_alt update_key_def using s(2)
    by (simp, intro length_filter_update_where) fastforce
  then show ?thesis by (auto simp: reactivate_def Some db_exec_def split: option.split)
qed (simp add: reactivate_def)

lemma live_provision:
  "live_servers ws' (inf_world (snd (provisionServer pv e ws f))) \<le> Suc (live_servers ws' (inf_world f))"
proof -
  obtain i f1 where f1: "in_db (id_New e ''srv_'') f = (i, f1)" by (cases "in_db (id_New e ''srv_'') f")
  have w1: "w_servers (inf_world f1) = w_servers (inf_world f)"
    using in_db_simps(1) [of "id_New e ''srv_''" f] by (simp add: f1)
  obtain r f2 where f2: "cloud_CreateServer (pv_hetzner pv) (''cc-'' @ take 8 ws @ ''-'' @ take 8 (drop 4 i))
      (pv_ServerType pv) (pv_Datacenter pv) (pv_SSHKeyName pv) (cloudInit pv i ws) f1 = (r, f2)"
    by fastforce
  have w2: "inf_world f2 = inf_world f1"
    using cloud_world(2) [of "pv_hetzner pv" "''cc-'' @ take 8 ws @ ''-'' @ take 8 (drop 4 i)" "pv_ServerType pv"
        "pv_Datacenter pv" "pv_SSHKeyName pv" "cloudInit pv i ws" f1] by (simp only: f2 snd_conv)
  have "live_servers ws' (snd (db_exec e q v (\<lambda>w. w\<lparr>w_servers := w_servers w @ [x]\<rparr>) (inf_world f1)))
      \<le> Suc (live_servers ws' (inf_world f))" for q v x
    using w1 by (simp add: live_servers_alt db_exec_def split: option.split)
  then show ?thesis
    using w1 unfolding provisionServer_def f1 prod.case Let_def f2
    by (cases r) (simp_all add: w2 live_servers_alt)
qed

lemma provisionServer_calls:
  assumes "inf_calls (snd (provisionServer pv e ws f)) \<noteq> inf_calls f"
  obtains req where "inf_calls (snd (provisionServer pv e ws f)) = inf_calls f @ [req]" "cr_method req = ''POST''"
proof -
  obtain i f1 where f1: "in_db (id_New e ''srv_'') f = (i, f1)" by (cases "in_db (id_New e ''srv_'') f")
  have c1: "inf_calls f1 = inf_calls f" using in_db_simps(3) [of "id_New e ''srv_''" f] by (simp add: f1)
  obtain r f2 where f2: "cloud_CreateServer (pv_hetzner pv) (''cc-'' @ take 8 ws @ ''-'' @ take 8 (drop 4 i))
      (pv_ServerType pv) (pv_Datacenter pv) (pv_SSHKeyName pv) (cloudInit pv i ws) f1 = (r, f2)"
    by fastforce
  then have "\<exists>req. inf_calls f2 = inf_calls f1 @ [req] \<and> cr_method req = ''POST''"
    by (auto simp: cloud_CreateServer_def cloud_doRequest_def Let_def split: sum.splits option.splits)
  then obtain req where req: "inf_calls f2 = inf_calls f @ [req]" "cr_method req = ''POST''"
    unfolding c1 by blast
  have "inf_calls (snd (provisionServer pv e ws f)) \<in> {inf_calls f, inf_calls f2}"
    unfolding provisionServer_def f1 prod.case Let_def f2 by (cases r) (simp_all add: c1)
  then show ?thesis using assms req that by auto
qed

text \<open>
  C28: A request for capacity never leaves a workspace with more servers than the limit unless it had
  more before, and a server is ordered, with one request, only when too few slots are free, no idle
  server could be taken back and the limit is not reached.
\<close>

theorem server_limit_kept:
  assumes ok: "servers_ok (inf_world f)" and count: "e_fault e ''EnsureCapacity.count'' = None"
    and run: "EnsureCapacity pv e ws needed f = (r, f')"
  shows "int (live_servers ws (inf_world f')) \<le> max (int (live_servers ws (inf_world f))) (pv_MaxServers pv) \<and>
    (inf_calls f' = inf_calls f \<or>
     (\<exists>req. inf_calls f' = inf_calls f @ [req] \<and> cr_method req = ''POST'' \<and>
       available_slots e ws (inf_world f) < needed \<and> fst (reactivate e ws (inf_world f)) = None \<and>
       int (live_servers ws (inf_world f)) < pv_MaxServers pv))"
proof -
  obtain ip f1 where f1: "in_db (reactivate e ws) f = (ip, f1)" by (cases "in_db (reactivate e ws) f")
  have ip: "fst (reactivate e ws (inf_world f)) = ip" and c1: "inf_calls f1 = inf_calls f"
    and w1: "inf_world f1 = snd (reactivate e ws (inf_world f))"
    using in_db_simps [of "reactivate e ws" f] by (simp_all add: f1)
  have l1: "live_servers ws (inf_world f1) = live_servers ws (inf_world f)"
    using live_reactivate [OF ok] by (simp add: w1)
  have n: "server_count e ws (inf_world f1) = int (live_servers ws (inf_world f))"
    using count l1 by (simp add: server_count_def db_read_def live_servers_def)
  consider (unchanged) "inf_calls f' = inf_calls f" "live_servers ws (inf_world f') = live_servers ws (inf_world f)"
    | (ordered) "available_slots e ws (inf_world f) < needed" "ip = None"
        "int (live_servers ws (inf_world f)) < pv_MaxServers pv" "provisionServer pv e ws f1 = (r, f')"
    using run c1 l1 unfolding EnsureCapacity_def f1 prod.case Let_def n
    by (cases ip) (auto split: if_splits)
  then show ?thesis
  proof cases
    case ordered
    have "live_servers ws (inf_world f') \<le> Suc (live_servers ws (inf_world f))"
      using live_provision [of ws pv e ws f1] ordered(4) l1 by simp
    moreover have "inf_calls f' = inf_calls f \<or> (\<exists>req. inf_calls f' = inf_calls f @ [req] \<and> cr_method req = ''POST'')"
      using provisionServer_calls [of pv e ws f1] ordered(4) c1 by auto
    ultimately show ?thesis using ordered ip by auto
  qed simp
qed

theorem server_limit_kept_witness:
  "int (live_servers ''wsp_0001'' (inf_world (snd (EnsureCapacity sample_provisioner (calm 5) ''wsp_0001'' 1
     (sample_infra [sample_server ''srv_1'' ''active'' 4]))))) \<le> 2"
proof -
  let ?f = "sample_infra [sample_server ''srv_1'' ''active'' 4]"
  obtain r f' where run: "EnsureCapacity sample_provisioner (calm 5) ''wsp_0001'' 1 ?f = (r, f')" by fastforce
  have "servers_ok (inf_world ?f)" by (simp add: sample_servers_ok server_states_def)
  moreover have "live_servers ''wsp_0001'' (inf_world ?f) = 1"
    by (simp add: live_servers_def servers_of_def infra_samples)
  ultimately show ?thesis
    using server_limit_kept [OF _ _ run] by (simp add: run) (simp add: sample_provisioner_def)
qed

section \<open>Deletions that fail\<close>

lemma failing_deletes:
  assumes "\<And>n req. hz_do hz n req = Inl err"
  shows "delete_attempts hz hid k lastErr f =
    (if k = 0 then lastErr else Some (ErrText (''hetzner: '' @ Error err)),
     f\<lparr>inf_calls := inf_calls f @ replicate k
        \<lparr>cr_method = ''DELETE'', cr_url = server_url hz hid,
         cr_headers = [(''Authorization'', ''Bearer '' @ hz_apiToken hz), (''Content-Type'', ''application/json'')],
         cr_body = None\<rparr>\<rparr>)"
proof (induction k arbitrary: lastErr f)
  case (Suc k)
  show ?case
    by (simp add: Suc cloud_DeleteServer_def cloud_doRequest_def Let_def assms)
qed simp

text \<open>
  When the cloud cannot be reached, three requests are sent, the server stays in the state
  destroying, and no later check for idle servers looks at it again: it is paid for, counted against the
  limit and used by nobody.
\<close>

theorem failed_destroy_is_final:
  assumes ok: "servers_ok (inf_world f)"
    and found: "lookup_key sv_id sid (w_servers (inf_world f)) = Some s"
    and db: "\<forall>q. e_fault e q = None"
    and net: "\<forall>n req. hz_do (pv_hetzner pv) n req = Inl err"
    and run: "DestroyServer pv e sid f = (r, f')"
  shows "r = Some (ErrText (''hetzner: '' @ Error err)) \<and> length (inf_calls f') = length (inf_calls f) + 3 \<and>
    map_option sv_state (lookup_key sv_id sid (w_servers (inf_world f'))) = Some ''destroying'' \<and>
    lookup_key sv_id sid (w_servers (inf_world (checkIdleServers pv e' f'))) =
      lookup_key sv_id sid (w_servers (inf_world f'))"
proof -
  let ?st = "\<lambda>s. s\<lparr>sv_state := ''destroying'', sv_updated_at := e_db_now e\<rparr>"
  have w': "inf_world f' = on_server sid ?st (inf_world f)"
    and r: "r = Some (ErrText (''hetzner: '' @ Error err))" "length (inf_calls f') = length (inf_calls f) + 3"
    using run net db by (auto simp: DestroyServer_def found one_row_def db_read_def failing_deletes
        run_db_def set_server_state_def db_exec_def)
  have l': "lookup_key sv_id sid (w_servers (inf_world f')) = Some (?st s)"
    using found lookup_key_SomeD [OF found] by (simp add: w' update_key_def lookup_key_update_where)
  have "servers_ok (inf_world f')"
    using DestroyServer_ok [OF ok, of pv e sid] run by simp
  then have idle: "sid \<notin> sv_id ` set (filter (is_idle cutoff) (w_servers (inf_world f')))" for cutoff
    using lookup_server l' by (fastforce simp: is_idle_def)
  have "lookup_key sv_id sid (w_servers (inf_world (checkIdleServers pv e' f'))) =
      lookup_key sv_id sid (w_servers (inf_world f'))"
    using destroy_idle_other [OF idle]
    by (simp add: checkIdleServers_def Let_def db_read_def split: option.split)
  then show ?thesis using r l' by simp
qed

theorem failed_destroy_is_final_witness:
  "fst (DestroyServer sample_provisioner (calm 5) ''srv_1'' (sample_infra [sample_server ''srv_1'' ''idle'' 0])) =
   Some (ErrText ''hetzner: timeout'')"
proof -
  let ?f = "sample_infra [sample_server ''srv_1'' ''idle'' 0]"
  obtain r f' where run: "DestroyServer sample_provisioner (calm 5) ''srv_1'' ?f = (r, f')" by fastforce
  have "servers_ok (inf_world ?f)" by (simp add: sample_servers_ok server_states_def)
  moreover have "\<forall>n req. hz_do (pv_hetzner sample_provisioner) n req = Inl (ErrText ''timeout'')"
    by (simp add: sample_provisioner_def NewHetznerClient_def)
  ultimately show ?thesis
    using failed_destroy_is_final [OF _ lookup_sample_server _ _ run] by (simp add: run)
qed

end
