(* ===== verification/Exec_K8s.thy ===== *)
theory Exec_K8s
  imports Exec_Shell
begin

text \<open>
  The Kubernetes method, \<open>internal/executor/k8s/k8s.go\<close>: one job for each run. What a cluster answers is
  a parameter: the client a kubeconfig gives, the creation of a job, the state of a job each time it
  is asked for, pods and their logs. Environment variables and labels, which Go visits in a random
  order, keep the order of the object.
\<close>

section \<open>The cluster\<close>

datatype api_error = NotFound string | ApiError string

fun api_text :: "api_error \<Rightarrow> string" where
  "api_text (NotFound s) = s"
| "api_text (ApiError s) = s"

definition wrapped :: "string \<Rightarrow> api_error \<Rightarrow> go_error" where
  "wrapped what err = ErrText (what @ api_text err)"

record k8s_job =
  kj_Name :: string
  kj_Namespace :: string
  kj_Labels :: go_map
  kj_BackoffLimit :: int
  kj_TTLSecondsAfterFinished :: int
  kj_RestartPolicy :: string
  kj_Image :: string
  kj_Command :: "string list"
  kj_Env :: "(string \<times> string) list"
  kj_Limits :: "(string \<times> string) list"

record job_status =
  js_Succeeded :: int
  js_Failed :: int
  js_Conditions :: "string list"
  js_Selector :: "go_map option"

text \<open>
  \<open>kw_load\<close> is the loader of clusters, \<open>None\<close> when there is none; \<open>kw_client\<close> the client of a kubeconfig, the
  empty one standing for the cluster the program runs in; \<open>kw_job\<close> the state of a job when it is asked
  for once; \<open>kw_quantity\<close> which texts are quantities; \<open>kw_gets\<close> what a blocking wait is answered until its
  context ends with the error \<open>kw_ctx\<close>.
\<close>

record 'c k8s_world =
  kw_load :: "(string \<Rightarrow> go_error + string \<times> string) option"
  kw_client :: "string \<Rightarrow> go_error + 'c"
  kw_create :: "'c \<Rightarrow> k8s_job \<Rightarrow> api_error + string"
  kw_job :: "'c \<Rightarrow> string \<Rightarrow> string \<Rightarrow> api_error + job_status"
  kw_gets :: "'c \<Rightarrow> string \<Rightarrow> string \<Rightarrow> (api_error + job_status) list"
  kw_ctx :: go_error
  kw_delete :: "'c \<Rightarrow> string \<Rightarrow> string \<Rightarrow> api_error option"
  kw_pods :: "'c \<Rightarrow> string \<Rightarrow> go_map \<Rightarrow> api_error + (string \<times> string list) list"
  kw_logs :: "'c \<Rightarrow> string \<Rightarrow> string \<Rightarrow> string \<Rightarrow> string option"
  kw_quantity :: "string \<Rightarrow> bool"
  kw_active :: "string \<Rightarrow> ('c \<times> string \<times> string) option"
  kw_now :: instant
  kw_elapsed :: int

definition buildClientForConfig ::
  "'c k8s_world \<Rightarrow> string \<Rightarrow> string \<Rightarrow> go_error + 'c \<times> string" where
  "buildClientForConfig kw clusterID inlineKubeconfig =
     (let built = (\<lambda>kubeconfig ns. case kw_client kw kubeconfig of
            Inl err \<Rightarrow> Inl (ErrText (''k8s: build client: '' @ Error err))
          | Inr c \<Rightarrow> Inr (c, ns))
      in if inlineKubeconfig \<noteq> [] then built inlineKubeconfig ''default''
         else if clusterID = [] then built [] ''default''
         else case kw_load kw of
           None \<Rightarrow> built [] ''default''
         | Some load \<Rightarrow>
             (case load clusterID of
                Inl err \<Rightarrow> Inl (ErrText (''k8s: load cluster: '' @ Error err))
              | Inr (kc, defNs) \<Rightarrow> built kc (if defNs \<noteq> [] then defNs else ''default'')))"

definition buildClientForHandle :: "'c k8s_world \<Rightarrow> string \<Rightarrow> go_error + 'c \<times> string" where
  "buildClientForHandle kw clusterID = buildClientForConfig kw clusterID []"

section \<open>Logs\<close>

definition captureLogsBySelector :: "'c k8s_world \<Rightarrow> 'c \<Rightarrow> string \<Rightarrow> go_map \<Rightarrow> string" where
  "captureLogsBySelector kw c ns selector =
     (case kw_pods kw c ns selector of
        Inl _ \<Rightarrow> []
      | Inr pods \<Rightarrow>
          List.concat (map (\<lambda>(pod, containers). List.concat (map (\<lambda>ct. case kw_logs kw c ns pod ct of
             None \<Rightarrow> [] | Some text' \<Rightarrow> text') containers)) pods))"

definition captureLogsByLabels :: "'c k8s_world \<Rightarrow> 'c \<Rightarrow> string \<Rightarrow> go_map \<Rightarrow> string" where
  "captureLogsByLabels kw c ns labels = captureLogsBySelector kw c ns labels"

definition captureJobLogs :: "'c k8s_world \<Rightarrow> 'c \<Rightarrow> string \<Rightarrow> go_map option \<Rightarrow> string" where
  "captureJobLogs kw c ns selector =
     (case selector of None \<Rightarrow> [] | Some s \<Rightarrow> captureLogsBySelector kw c ns s)"

definition sliceFromOffset :: "string \<Rightarrow> int \<Rightarrow> string" where
  "sliceFromOffset s offset =
     (if offset \<le> 0 then s else if offset \<ge> int (length s) then [] else drop (nat offset) s)"

definition jobFinished :: "job_status \<Rightarrow> bool" where
  "jobFinished js \<longleftrightarrow> (\<exists>c\<in>set (js_Conditions js). c = ''Complete'' \<or> c = ''Failed'')"

section \<open>The job of a run\<close>

definition k8s_command :: "go_map option \<Rightarrow> string list" where
  "k8s_command cfg =
     (case map_of (entries cfg) ''command'' of
        Some (JStr v) \<Rightarrow> [''/bin/sh'', ''-c'', v]
      | Some (JArr items) \<Rightarrow> string_items items
      | _ \<Rightarrow> [])"

definition k8s_env :: "start_params \<Rightarrow> (string \<times> string) list" where
  "k8s_env params =
     (case sp_environment params of None \<Rightarrow> [] | Some kvs \<Rightarrow> kvs) @
     [(''CRONCONTROL_RUN_ID'', sp_run_id params)] @
     (if sp_api_base_url params \<noteq> [] then [(''CRONCONTROL_API_URL'', sp_api_base_url params)] else [])"

text \<open>The limits; the requests are the same.\<close>

definition k8s_limits :: "go_map option \<Rightarrow> (string \<times> string) list" where
  "k8s_limits cfg =
     (case map_of (entries cfg) ''resources'' of
        Some (JObj m) \<Rightarrow>
          (case map_of m ''cpu'' of Some (JStr s) \<Rightarrow> [(''cpu'', s)] | _ \<Rightarrow> []) @
          (case map_of m ''memory'' of Some (JStr s) \<Rightarrow> [(''memory'', s)] | _ \<Rightarrow> [])
      | _ \<Rightarrow> [])"

definition k8s_labels :: "start_params \<Rightarrow> go_map" where
  "k8s_labels params =
     (case map_of (entries (sp_method_config params)) ''labels'' of
        Some (JObj extra) \<Rightarrow> filter (\<lambda>(k, v). case v of JStr _ \<Rightarrow> True | _ \<Rightarrow> False) extra
      | _ \<Rightarrow> []) @
     [(''app.kubernetes.io/managed-by'', JStr ''croncontrol''), (''croncontrol.dev/run-id'', JStr (sp_run_id params)),
      (''croncontrol.dev/workspace-id'', JStr (sp_workspace_id params))]"

definition k8s_job_name :: "string \<Rightarrow> string" where
  "k8s_job_name runID = take 63 (''cc-'' @ runID)"

definition k8s_job_of :: "start_params \<Rightarrow> string \<Rightarrow> k8s_job" where
  "k8s_job_of params ns =
     \<lparr>kj_Name = k8s_job_name (sp_run_id params), kj_Namespace = ns, kj_Labels = k8s_labels params,
      kj_BackoffLimit = 0, kj_TTLSecondsAfterFinished = 600, kj_RestartPolicy = ''Never'',
      kj_Image = getString (sp_method_config params) ''image'',
      kj_Command = k8s_command (sp_method_config params), kj_Env = k8s_env params,
      kj_Limits = k8s_limits (sp_method_config params)\<rparr>"

text \<open>\<open>None\<close> is the panic of \<open>resource.MustParse\<close> on a limit that is not a quantity.\<close>

definition createJob ::
  "'c k8s_world \<Rightarrow> start_params \<Rightarrow> (go_error + 'c \<times> string \<times> string \<times> string) option" where
  "createJob kw params =
     (let cfg = sp_method_config params; clusterID = getString cfg ''k8s_cluster_id''
      in if getString cfg ''image'' = [] then Some (Inl (ErrText ''k8s: image is required''))
         else if k8s_command cfg = [] then Some (Inl (ErrText ''k8s: command is required''))
         else case buildClientForConfig kw clusterID (getString cfg ''kubeconfig'') of
           Inl err \<Rightarrow> Some (Inl err)
         | Inr (c, defaultNamespace) \<Rightarrow>
             let ns = defaultString (defaultString (getString cfg ''namespace'') defaultNamespace) ''default''
             in if \<not> (\<forall>(k, q)\<in>set (k8s_limits cfg). kw_quantity kw q) then None
                else case kw_create kw c (k8s_job_of params ns) of
                  Inl err \<Rightarrow> Some (Inl (wrapped ''k8s: create job: '' err))
                | Inr name \<Rightarrow> Some (Inr (c, ns, clusterID, name)))"

section \<open>The method\<close>

text \<open>The blocking wait over the answers of the cluster.\<close>

fun waitForBlockingResult ::
  "'c k8s_world \<Rightarrow> 'c \<Rightarrow> string \<Rightarrow> go_map \<Rightarrow> (api_error + job_status) list \<Rightarrow> result" where
  "waitForBlockingResult kw c ns labels [] =
     no_result\<lparr>res_error := Some (kw_ctx kw), res_duration_ms := kw_elapsed kw\<rparr>"
| "waitForBlockingResult kw c ns labels (Inl err # gs) =
     no_result\<lparr>res_error := Some (wrapped ''k8s: get job: '' err), res_duration_ms := kw_elapsed kw\<rparr>"
| "waitForBlockingResult kw c ns labels (Inr js # gs) =
     (if js_Succeeded js > 0 then
        no_result\<lparr>res_exit_code := Some 0, res_stdout := captureLogsByLabels kw c ns labels,
          res_duration_ms := kw_elapsed kw\<rparr>
      else if js_Failed js > 0 \<or> jobFinished js then
        no_result\<lparr>res_exit_code := Some 1, res_stdout := captureLogsByLabels kw c ns labels,
          res_duration_ms := kw_elapsed kw, res_error := Some (ErrText ''k8s job failed'')\<rparr>
      else waitForBlockingResult kw c ns labels gs)"

definition k8s_Start ::
  "'c k8s_world \<Rightarrow> start_params \<Rightarrow> (start_result \<times> go_error option) option" where
  "k8s_Start kw params =
     (case createJob kw params of
        None \<Rightarrow> None
      | Some (Inl err) \<Rightarrow>
          Some (\<lparr>sr_handle = \<lparr>h_method_name = ''k8s'', h_run_id = sp_run_id params, h_data = Some []\<rparr>,
             sr_accepted_at = 0, sr_result = Some (no_result\<lparr>res_error := Some err\<rparr>)\<rparr>, None)
      | Some (Inr (c, ns, clusterID, name)) \<Rightarrow>
          let h = \<lparr>h_method_name = ''k8s'', h_run_id = sp_run_id params,
                h_data = Some [(''cluster_id'', JStr clusterID), (''namespace'', JStr ns), (''job_name'', JStr name)]\<rparr>
          in if \<not> isDetached (sp_method_config params) then
               Some (\<lparr>sr_handle = h, sr_accepted_at = kw_now kw,
                  sr_result = Some (waitForBlockingResult kw c ns (k8s_labels params) (kw_gets kw c ns name))\<rparr>, None)
             else Some (\<lparr>sr_handle = h, sr_accepted_at = kw_now kw, sr_result = None\<rparr>, None))"

text \<open>What a poll makes of the state of the job.\<close>

definition k8s_state :: "job_status \<Rightarrow> string \<times> int option" where
  "k8s_state js =
     (if js_Succeeded js > 0 then (RemoteCompleted, Some 0)
      else if js_Failed js > 0 then (RemoteFailed, Some 1)
      else if jobFinished js then (RemoteFailed, Some 1)
      else (RemoteRunning, None))"

definition k8s_Poll :: "'c k8s_world \<Rightarrow> handle \<Rightarrow> poll_cursor \<Rightarrow> poll_result \<times> go_error option" where
  "k8s_Poll kw h cursor =
     (let ns = getString (h_data h) ''namespace''; name = getString (h_data h) ''job_name''
      in if ns = [] \<or> name = [] then (zero_poll_result, Some (ErrText ''k8s: incomplete handle data''))
         else case buildClientForHandle kw (getString (h_data h) ''cluster_id'') of
           Inl err \<Rightarrow> (zero_poll_result, Some err)
         | Inr (c, _) \<Rightarrow>
             (case kw_job kw c ns name of
                Inl (NotFound _) \<Rightarrow> (zero_poll_result\<lparr>pr_state := RemoteKilled\<rparr>, None)
              | Inl (ApiError s) \<Rightarrow> (zero_poll_result, Some (ErrText (''k8s: get job: '' @ s)))
              | Inr js \<Rightarrow>
                  let logs = captureJobLogs kw c ns (js_Selector js)
                  in (zero_poll_result
                        \<lparr>pr_state := fst (k8s_state js), pr_exit_code := snd (k8s_state js),
                         pr_stdout_chunk := sliceFromOffset logs (pc_stdout_offset cursor),
                         pr_cursor := \<lparr>pc_stdout_offset = int (length logs),
                                       pc_stderr_offset = pc_stderr_offset cursor\<rparr>\<rparr>, None)))"

definition deleteJob :: "'c k8s_world \<Rightarrow> 'c \<Rightarrow> string \<Rightarrow> string \<Rightarrow> go_error option" where
  "deleteJob kw c ns name =
     (case kw_delete kw c ns name of
        Some (ApiError s) \<Rightarrow> Some (ErrText (''k8s: delete job: '' @ s))
      | _ \<Rightarrow> None)"

definition k8s_Kill :: "'c k8s_world \<Rightarrow> handle \<Rightarrow> go_error option" where
  "k8s_Kill kw h =
     (case kw_active kw (h_run_id h) of
        Some (c, ns, name) \<Rightarrow> deleteJob kw c ns name
      | None \<Rightarrow>
          (case buildClientForHandle kw (getString (h_data h) ''cluster_id'') of
             Inl err \<Rightarrow> Some err
           | Inr (c, _) \<Rightarrow> deleteJob kw c (getString (h_data h) ''namespace'') (getString (h_data h) ''job_name'')))"

text \<open>
  The loop of \<open>Execute\<close> over the cluster as each poll finds it; \<open>None\<close> while the job still runs.
\<close>

fun poll_loop ::
  "'c k8s_world list \<Rightarrow> handle \<Rightarrow> poll_cursor \<Rightarrow> string \<Rightarrow> result option" where
  "poll_loop [] h cursor stdout = None"
| "poll_loop (kw # kws) h cursor stdout =
     (case k8s_Poll kw h cursor of
        (_, Some err) \<Rightarrow> Some (no_result\<lparr>res_error := Some err, res_duration_ms := kw_elapsed kw\<rparr>)
      | (p, None) \<Rightarrow>
          let out = stdout @ pr_stdout_chunk p;
              done' = no_result\<lparr>res_stdout := out, res_duration_ms := kw_elapsed kw\<rparr>
          in if pr_state p = RemoteRunning then poll_loop kws h (pr_cursor p) out
             else if pr_state p = RemoteCompleted then Some (done'\<lparr>res_exit_code := pr_exit_code p\<rparr>)
             else if pr_state p = RemoteKilled then
               Some (done'\<lparr>res_exit_code := Some 137, res_error := Some (ErrText ''k8s job killed'')\<rparr>)
             else Some (done'\<lparr>res_exit_code := Some (case pr_exit_code p of None \<Rightarrow> 1 | Some c \<Rightarrow> c),
               res_error := pr_error p\<rparr>))"

definition start_of :: "execute_params \<Rightarrow> start_params" where
  "start_of params =
     \<lparr>sp_run_id = ep_run_id params, sp_workspace_id = ep_workspace_id params,
      sp_method_config = ep_method_config params, sp_environment = ep_environment params,
      sp_api_base_url = ep_api_base_url params, sp_timeout = 0\<rparr>"

definition k8s_Execute ::
  "'c k8s_world \<Rightarrow> 'c k8s_world list \<Rightarrow> execute_params \<Rightarrow> (result \<times> go_error option) option" where
  "k8s_Execute kw kws params =
     (case k8s_Start kw (start_of params) of
        None \<Rightarrow> None
      | Some (sr, Some err) \<Rightarrow> Some (no_result, Some err)
      | Some (sr, None) \<Rightarrow>
          (case sr_result sr of
             Some r \<Rightarrow> Some (r, None)
           | None \<Rightarrow> map_option (\<lambda>r. (r, None))
               (poll_loop kws (sr_handle sr) \<lparr>pc_stdout_offset = 0, pc_stderr_offset = 0\<rparr> [])))"

end
