(* ===== verification/K8s_Properties.thy ===== *)
theory K8s_Properties
  imports Exec_K8s "HOL-Library.Sublist"
begin

text \<open>
  Properties of the Kubernetes method: which jobs a cluster accepts, what polls collect, and which
  cluster they ask.
\<close>

section \<open>Names of jobs\<close>

text \<open>
  Kubernetes takes names of lower case letters, digits, hyphens and dots that begin and end with a
  letter or a digit.
\<close>

definition name_char :: "char \<Rightarrow> bool" where
  "name_char c \<longleftrightarrow> (let n = (of_char c :: nat) in 97 \<le> n \<and> n \<le> 122 \<or> 48 \<le> n \<and> n \<le> 57)"

definition dns_name :: "string \<Rightarrow> bool" where
  "dns_name s \<longleftrightarrow> s \<noteq> [] \<and> name_char (hd s) \<and> name_char (last s) \<and>
     (\<forall>c\<in>set s. name_char c \<or> c = CHR ''-'' \<or> c = CHR ''.'')"

lemma run_job_name_refused: "\<not> dns_name (k8s_job_name (''run_'' @ ulid))"
proof -
  have "CHR ''_'' \<in> set (k8s_job_name (''run_'' @ ulid))"
    by (simp add: k8s_job_name_def)
  moreover have "\<not> name_char CHR ''_''" by (simp add: name_char_def)
  ultimately show ?thesis unfolding dns_name_def by fastforce
qed

text \<open>
  C29: No run of the Kubernetes method can start: the name of the job is made of the id of the run, every
  id of a run has an underscore, and a cluster refuses a name with one. Start panics on a limit that is
  no quantity; otherwise it reports an error, a failure that is not a success.
\<close>

theorem no_job_is_accepted:
  assumes refuses: "\<forall>c job. \<not> dns_name (kj_Name job) \<longrightarrow> (\<exists>err. kw_create kw c job = Inl err)"
    and run: "sp_run_id params = ''run_'' @ ulid"
    and start: "k8s_Start kw params = Some (sr, err)"
  shows "err = None \<and> (\<exists>r. sr_result sr = Some r \<and> res_error r \<noteq> None \<and> \<not> IsSuccess r)"
proof -
  have "\<exists>e. kw_create kw c (k8s_job_of params ns) = Inl e" for c ns
    using refuses run_job_name_refused [of ulid] run by (simp add: k8s_job_of_def)
  then have "createJob kw params \<noteq> Some (Inr x)" for x
    by (auto simp: createJob_def Let_def split: sum.splits if_splits) (metis Inl_Inr_False)+
  then have "\<exists>e. createJob kw params = Some (Inl e)"
    using start by (auto simp: k8s_Start_def split: option.splits sum.splits)
  then show ?thesis
    using start by (auto simp: k8s_Start_def no_result_def IsSuccess_def)
qed

text \<open>A cluster that takes every valid name, and one run.\<close>

definition sample_k8s :: "unit k8s_world" where
  "sample_k8s =
     \<lparr>kw_load = None, kw_client = (\<lambda>_. Inr ()),
      kw_create = (\<lambda>_ job. if dns_name (kj_Name job) then Inr (kj_Name job) else Inl (ApiError ''invalid name'')),
      kw_job = (\<lambda>_ _ _. Inl (NotFound ''gone'')), kw_gets = (\<lambda>_ _ _. []), kw_ctx = ErrText ''context canceled'',
      kw_delete = (\<lambda>_ _ _. None), kw_pods = (\<lambda>_ _ _. Inr []), kw_logs = (\<lambda>_ _ _ _. None),
      kw_quantity = (\<lambda>_. True), kw_active = (\<lambda>_. None), kw_now = 0, kw_elapsed = 0\<rparr>"

definition sample_k8s_start :: "string \<Rightarrow> start_params" where
  "sample_k8s_start runID =
     \<lparr>sp_run_id = runID, sp_workspace_id = ''wsp_1'',
      sp_method_config = Some [(''image'', JStr ''alpine''), (''command'', JStr ''true''), (''kubeconfig'', JStr ''kc'')],
      sp_environment = None, sp_api_base_url = [], sp_timeout = 0\<rparr>"

theorem no_job_is_accepted_witness:
  "map_option (\<lambda>(sr, err). map_option IsSuccess (sr_result sr)) (k8s_Start sample_k8s (sample_k8s_start ''run_1'')) =
   Some (Some False)"
proof -
  let ?p = "sample_k8s_start ''run_1''"
  have "k8s_Start sample_k8s ?p \<noteq> None"
    by (simp add: k8s_Start_def createJob_def Let_def sample_k8s_def sample_k8s_start_def getString_def
        map_string_def entries_def k8s_command_def buildClientForConfig_def k8s_limits_def split: sum.split)
  then obtain sr err where st: "k8s_Start sample_k8s ?p = Some (sr, err)" by (cases "k8s_Start sample_k8s ?p") auto
  have "\<forall>c job. \<not> dns_name (kj_Name job) \<longrightarrow> (\<exists>err. kw_create sample_k8s c job = Inl err)"
    by (simp add: sample_k8s_def)
  from no_job_is_accepted [OF this _ st, of "''1''"] show ?thesis
    unfolding st by (auto simp: sample_k8s_start_def)
qed

section \<open>Output\<close>

text \<open>What a poll of a job that is there reads, and the client it asks.\<close>

definition job_logs :: "'c k8s_world \<Rightarrow> handle \<Rightarrow> string option" where
  "job_logs kw h =
     (case buildClientForHandle kw (getString (h_data h) ''cluster_id'') of
        Inl _ \<Rightarrow> None
      | Inr (c, _) \<Rightarrow>
          (case kw_job kw c (getString (h_data h) ''namespace'') (getString (h_data h) ''job_name'') of
             Inl _ \<Rightarrow> None
           | Inr js \<Rightarrow> Some (captureJobLogs kw c (getString (h_data h) ''namespace'') (js_Selector js))))"

definition job_ended :: "'c k8s_world \<Rightarrow> handle \<Rightarrow> bool" where
  "job_ended kw h \<longleftrightarrow>
     (case buildClientForHandle kw (getString (h_data h) ''cluster_id'') of
        Inl _ \<Rightarrow> False
      | Inr (c, _) \<Rightarrow>
          (case kw_job kw c (getString (h_data h) ''namespace'') (getString (h_data h) ''job_name'') of
             Inl _ \<Rightarrow> False
           | Inr js \<Rightarrow> js_Succeeded js > 0 \<or> js_Failed js > 0 \<or> jobFinished js))"

lemma sliceFromOffset_prefix:
  "prefix s t \<Longrightarrow> s @ sliceFromOffset t (int (length s)) = t"
  by (auto simp: prefix_def sliceFromOffset_def)

lemma poll_job_logs:
  assumes "job_logs kw h = Some logs" "prefix sofar logs" "pc_stdout_offset cursor = int (length sofar)"
    and "k8s_Poll kw h cursor = (p, None)" "pr_state p \<noteq> RemoteKilled"
  shows "sofar @ pr_stdout_chunk p = logs" "pc_stdout_offset (pr_cursor p) = int (length logs)"
    "pr_state p \<noteq> RemoteRunning \<Longrightarrow> job_ended kw h \<and> pr_exit_code p \<noteq> None"
proof -
  obtain c dns js where c: "buildClientForHandle kw (getString (h_data h) ''cluster_id'') = Inr (c, dns)"
    "kw_job kw c (getString (h_data h) ''namespace'') (getString (h_data h) ''job_name'') = Inr js"
    "logs = captureJobLogs kw c (getString (h_data h) ''namespace'') (js_Selector js)"
    using assms(1) by (auto simp: job_logs_def split: sum.splits)
  then show "sofar @ pr_stdout_chunk p = logs" "pc_stdout_offset (pr_cursor p) = int (length logs)"
    "pr_state p \<noteq> RemoteRunning \<Longrightarrow> job_ended kw h \<and> pr_exit_code p \<noteq> None"
    using assms(2-4) sliceFromOffset_prefix [OF assms(2)]
    by (auto simp: k8s_Poll_def Let_def job_ended_def k8s_state_def split: if_splits)
qed

text \<open>A cluster whose one job has a count of successes and the logs of one container.\<close>

definition sample_cluster :: "int \<Rightarrow> string \<Rightarrow> unit k8s_world" where
  "sample_cluster n out = sample_k8s
     \<lparr>kw_job := (\<lambda>_ _ _. Inr \<lparr>js_Succeeded = n, js_Failed = 0, js_Conditions = [], js_Selector = Some []\<rparr>),
      kw_pods := (\<lambda>_ _ _. Inr [(''p'', [''run''])]), kw_logs := (\<lambda>_ _ _ _. Some out)\<rparr>"

definition sample_job_handle :: handle where
  "sample_job_handle = \<lparr>h_method_name = ''k8s'', h_run_id = ''run_1'',
     h_data = Some [(''cluster_id'', JStr []), (''namespace'', JStr ''default''), (''job_name'', JStr ''cc-1'')]\<rparr>"

lemmas cluster_samples = sample_cluster_def sample_k8s_def sample_job_handle_def k8s_Poll_def Let_def
  getString_def map_string_def entries_def buildClientForHandle_def buildClientForConfig_def
  captureJobLogs_def captureLogsBySelector_def sliceFromOffset_def k8s_state_def zero_poll_result_def
  RemoteRunning_def RemoteCompleted_def RemoteFailed_def RemoteKilled_def jobFinished_def

text \<open>
  \<open>Execute\<close> collects the output of a detached job once and completely: when the logs only grow from
  poll to poll, the output of the result is the whole logs at a poll that found the job ended.
\<close>

theorem k8s_output_collected_once:
  assumes "poll_loop kws h \<lparr>pc_stdout_offset = 0, pc_stderr_offset = 0\<rparr> [] = Some r" "res_error r = None"
    and "map (\<lambda>kw. job_logs kw h) kws = map Some logs" "successively prefix logs"
  shows "(\<exists>kw\<in>set kws. job_ended kw h \<and> job_logs kw h = Some (res_stdout r)) \<and> res_exit_code r \<noteq> None"
proof -
  have "(\<exists>kw\<in>set kws. job_ended kw h \<and> job_logs kw h = Some (res_stdout r)) \<and> res_exit_code r \<noteq> None"
    if "poll_loop kws h cursor sofar = Some r" "map (\<lambda>kw. job_logs kw h) kws = map Some logs"
      "successively prefix (sofar # logs)" "pc_stdout_offset cursor = int (length sofar)" for kws logs cursor sofar
    using that
  proof (induction kws arbitrary: logs cursor sofar)
    case (Cons kw kws)
    obtain l ls where logs: "logs = l # ls" "job_logs kw h = Some l" "map (\<lambda>kw. job_logs kw h) kws = map Some ls"
      using Cons.prems(2) by (cases logs) auto
    have pre: "prefix sofar l" "successively prefix (l # ls)" using Cons.prems(3) by (simp_all add: logs(1))
    obtain p e where p: "k8s_Poll kw h cursor = (p, e)" by fastforce
    show ?case
    proof (cases e)
      case (Some err)
      then show ?thesis using Cons.prems(1) assms(2) by (auto simp: p)
    next
      case None
      have k: "pr_state p \<noteq> RemoteKilled"
        using Cons.prems(1) assms(2)
        by (auto simp: p None Let_def RemoteKilled_def RemoteRunning_def RemoteCompleted_def)
      note pl = poll_job_logs [OF logs(2) pre(1) Cons.prems(4) p [unfolded None] k]
      show ?thesis
      proof (cases "pr_state p = RemoteRunning")
        case True
        then have "poll_loop kws h (pr_cursor p) l = Some r"
          using Cons.prems(1) pl(1) by (simp add: p None Let_def)
        from Cons.IH [OF this logs(3) pre(2) pl(2)] show ?thesis by (simp add: logs(1))
      next
        case False
        have "job_ended kw h \<and> pr_exit_code p \<noteq> None" by (rule pl(3) [OF False])
        then show ?thesis
          using Cons.prems(1) False k pl(1) by (auto simp: p None Let_def logs(1,2) split: if_splits)
      qed
    qed
  qed simp
  from this [OF assms(1,3)] show ?thesis using assms(4) by (cases logs) auto
qed

theorem k8s_output_collected_once_witness:
  "poll_loop [sample_cluster 0 ''ab'', sample_cluster 1 ''abc''] sample_job_handle
     \<lparr>pc_stdout_offset = 0, pc_stderr_offset = 0\<rparr> [] =
   Some (no_result\<lparr>res_exit_code := Some 0, res_stdout := ''abc''\<rparr>) \<and>
   job_logs (sample_cluster 1 ''abc'') sample_job_handle = Some ''abc''"
proof -
  let ?kws = "[sample_cluster 0 ''ab'', sample_cluster 1 ''abc'']"
  have run: "poll_loop ?kws sample_job_handle \<lparr>pc_stdout_offset = 0, pc_stderr_offset = 0\<rparr> [] =
      Some (no_result\<lparr>res_exit_code := Some 0, res_stdout := ''abc''\<rparr>)"
    by (simp add: cluster_samples no_result_def)
  have logs: "map (\<lambda>kw. job_logs kw sample_job_handle) ?kws = map Some [''ab'', ''abc'']"
    by (simp add: cluster_samples job_logs_def)
  from k8s_output_collected_once [OF run _ logs] show ?thesis
    using run by (auto simp: no_result_def cluster_samples job_logs_def job_ended_def)
qed

section \<open>Inline configurations\<close>

text \<open>
  The handle of a run that was started with an inline kubeconfig does not lead back to its cluster:
  whatever the kubeconfig, its polls ask the cluster the program itself runs in. Where there is none they
  fail for ever; where the job is unknown there, the run is reported as killed.
\<close>

theorem inline_kubeconfig_polls_elsewhere:
  assumes start: "k8s_Start kw params = Some (sr, None)" "sr_result sr = None"
    and inline: "getString (sp_method_config params) ''kubeconfig'' \<noteq> []"
      "getString (sp_method_config params) ''k8s_cluster_id'' = []"
    and named: "\<forall>c job name. kw_create kw c job = Inr name \<longrightarrow> name \<noteq> []"
  shows "(\<forall>err. kw_client kw' [] = Inl err \<longrightarrow>
      k8s_Poll kw' (sr_handle sr) cursor = (zero_poll_result, Some (ErrText (''k8s: build client: '' @ Error err)))) \<and>
    (\<forall>c0 msg. kw_client kw' [] = Inr c0 \<longrightarrow> (\<forall>ns name. kw_job kw' c0 ns name = Inl (NotFound msg)) \<longrightarrow>
      k8s_Poll kw' (sr_handle sr) cursor = (zero_poll_result\<lparr>pr_state := RemoteKilled\<rparr>, None))"
proof -
  obtain x where cj: "createJob kw params = Some (Inr x)"
    using start by (auto simp: k8s_Start_def split: option.splits sum.splits)
  obtain c ns cid name where x: "x = (c, ns, cid, name)" by (cases x)
  have *: "cid = []" "ns \<noteq> []" "\<exists>job. kw_create kw c job = Inr name"
    using cj inline(2) by (auto simp: createJob_def Let_def x defaultString_def split: sum.splits if_splits)
  then have "name \<noteq> []" using named by blast
  moreover have "h_data (sr_handle sr) =
      Some [(''cluster_id'', JStr []), (''namespace'', JStr ns), (''job_name'', JStr name)]"
    using start *(1) by (auto simp: k8s_Start_def cj x Let_def split: if_splits)
  ultimately show ?thesis
    using *(2) by (auto simp: k8s_Poll_def getString_def map_string_def entries_def buildClientForHandle_def
        buildClientForConfig_def)
qed

text \<open>A cluster outside, which accepts any name and knows the job, and one the program runs in.\<close>

theorem inline_kubeconfig_polls_elsewhere_witness:
  "pr_state (fst (k8s_Poll sample_k8s (sr_handle (fst (the (k8s_Start
     (sample_k8s\<lparr>kw_create := (\<lambda>_ job. Inr (kj_Name job @ ''x''))\<rparr>) (sample_k8s_start ''run_1'')))))
     \<lparr>pc_stdout_offset = 0, pc_stderr_offset = 0\<rparr>)) = RemoteKilled"
proof -
  let ?kw = "sample_k8s\<lparr>kw_create := (\<lambda>_ job. Inr (kj_Name job @ ''x''))\<rparr>"
  let ?p = "sample_k8s_start ''run_1''"
  obtain sr where st: "k8s_Start ?kw ?p = Some (sr, None)" "sr_result sr = None"
    by (simp add: k8s_Start_def createJob_def Let_def sample_k8s_def sample_k8s_start_def getString_def
        map_string_def entries_def k8s_command_def buildClientForConfig_def k8s_limits_def isDetached_def)
  have cfg: "getString (sp_method_config ?p) ''kubeconfig'' \<noteq> []" "getString (sp_method_config ?p) ''k8s_cluster_id'' = []"
    by (simp_all add: sample_k8s_start_def getString_def map_string_def entries_def)
  have named: "\<forall>c job name. kw_create ?kw c job = Inr name \<longrightarrow> name \<noteq> []" by auto
  have "kw_client sample_k8s [] = Inr ()" "\<forall>ns name. kw_job sample_k8s () ns name = Inl (NotFound ''gone'')"
    by (simp_all add: sample_k8s_def)
  then show ?thesis
    using inline_kubeconfig_polls_elsewhere [OF st cfg named, of sample_k8s] by (simp add: st)
qed

section \<open>Limits\<close>

text \<open>
  A limit that is not a quantity panics in the goroutine that dispatches the run, which nothing
  recovers: a process of any member ends the whole program.
\<close>

lemma bad_quantity_panics:
  assumes "getString (sp_method_config params) ''image'' \<noteq> []" "k8s_command (sp_method_config params) \<noteq> []"
    and "buildClientForConfig kw (getString (sp_method_config params) ''k8s_cluster_id'')
      (getString (sp_method_config params) ''kubeconfig'') = Inr (c, ns)"
    and "map_of (entries (sp_method_config params)) ''resources'' = Some (JObj m)"
    and "map_of m ''memory'' = Some (JStr q)" "\<not> kw_quantity kw q"
  shows "k8s_Start kw params = None"
  using assms by (simp add: k8s_Start_def createJob_def Let_def k8s_limits_def)

end
