(* ===== verification/Worker_Binary.thy ===== *)
theory Worker_Binary
  imports Worker_Handlers
begin

text \<open>
  The worker, \<open>cmd/croncontrol-worker/main.go\<close>: it polls the control plane for tasks, runs them with the
  execution methods it was built with, reports their results and asks which of its tasks it has to kill.
  A reply of the control plane is what its handlers answer, so that the two sides compose; the
  parsing of the JSON in between, the ticker loops and the waits are left out.
\<close>

section \<open>The methods of a worker\<close>

text \<open>
  The loaders of the worker refuse every reference: credentials have to be part of the configuration. The
  SSH method is registered as a blocking one.
\<close>

definition workerCredentialNotAvailable :: "string \<Rightarrow> go_error + string" where
  "workerCredentialNotAvailable _ =
     Inl (ErrText ''credentials must be provided in method_config for worker execution'')"

definition workerSSMProfileLoader :: "string \<Rightarrow> go_error + string \<times> string" where
  "workerSSMProfileLoader _ =
     Inl (ErrText ''ssm profile must be provided in method_config for worker execution'')"

definition workerK8sClusterLoader :: "string \<Rightarrow> go_error + string \<times> string" where
  "workerK8sClusterLoader _ =
     Inl (ErrText ''k8s cluster config must be provided in method_config for worker execution'')"

definition buildMethodRegistry ::
  "instant \<Rightarrow> method_impl \<Rightarrow> blocking_method \<Rightarrow> method_impl \<Rightarrow> method_impl \<Rightarrow> registry" where
  "buildMethodRegistry now http ssh ssm k8s =
     Register ''k8s'' k8s (Register ''ssm'' ssm
       (Register ''ssh'' (AdaptBlocking ''ssh'' now ssh) (Register ''http'' http NewRegistry)))"

section \<open>Tasks\<close>

text \<open>
  \<open>pollTask\<close>: the reply of the control plane is no task, a task or an error. \<open>None\<close> is a request that got no
  answer.
\<close>

definition pollTask :: "task reply option \<Rightarrow> go_error + task option" where
  "pollTask resp =
     (case resp of
        None \<Rightarrow> Inl (ErrText ''no answer'')
      | Some r \<Rightarrow>
          if reply_status r = 204 \<or> reply_status r = 408 then Inr None
          else if reply_status r \<noteq> 200 then Inl (ErrText (''poll returned '' @ Itoa (reply_status r)))
          else (case r of Data _ t \<Rightarrow> Inr (Some t) | _ \<Rightarrow> Inl (ErrText ''decode task'')))"

text \<open>Writing into a Go map.\<close>

definition put :: "string \<Rightarrow> string \<Rightarrow> (string \<times> string) list \<Rightarrow> (string \<times> string) list" where
  "put k v m = (k, v) # filter (\<lambda>kv. fst kv \<noteq> k) m"

fun string_entries :: "go_map \<Rightarrow> (string \<times> string) list" where
  "string_entries [] = []"
| "string_entries ((k, JStr s) # m) = (k, s) # string_entries m"
| "string_entries (_ # m) = string_entries m"

definition task_env :: "task \<Rightarrow> (string \<times> string) list" where
  "task_env t =
     (let env = put ''CRONCONTROL_RUN_ID'' (t_id t)
            (string_entries (case t_environment t of None \<Rightarrow> [] | Some m \<Rightarrow> m))
      in if t_api_base_url t \<noteq> [] then put ''CRONCONTROL_API_URL'' (t_api_base_url t) env else env)"

definition task_params :: "task \<Rightarrow> start_params" where
  "task_params t =
     \<lparr>sp_run_id = t_id t, sp_workspace_id = t_workspace_id t, sp_method_config = t_method_config t,
      sp_environment = Some (task_env t), sp_api_base_url = t_api_base_url t, sp_timeout = 0\<rparr>"

text \<open>The tasks a worker runs, with the method and the handle to kill them by.\<close>

type_synonym active_tasks = "string \<Rightarrow> (method_impl \<times> handle) option"

definition task_failure :: "string \<Rightarrow> string \<Rightarrow> int \<Rightarrow> string \<Rightarrow> task_result" where
  "task_failure tid aid ms err =
     \<lparr>tr_task_id = tid, tr_attempt_id = aid, tr_exit_code = None, tr_response_code = None, tr_stdout = [],
      tr_stderr = [], tr_response_body = [], tr_duration_ms = ms, tr_error = err\<rparr>"

definition reported :: "task \<Rightarrow> int \<Rightarrow> result \<Rightarrow> go_error option \<Rightarrow> task_result" where
  "reported t ms r err =
     \<lparr>tr_task_id = t_id t, tr_attempt_id = t_attempt_id t, tr_exit_code = res_exit_code r,
      tr_response_code = res_response_code r, tr_stdout = res_stdout r, tr_stderr = res_stderr r,
      tr_response_body = res_response_body r, tr_duration_ms = ms,
      tr_error = (case err of
        Some e \<Rightarrow> Error e
      | None \<Rightarrow> (case res_error r of Some e \<Rightarrow> Error e | None \<Rightarrow> []))\<rparr>"

text \<open>
  \<open>executeTask\<close> in two halves: until the method is called, and from its answer on. \<open>Inl\<close> is a method the
  worker does not have.
\<close>

definition begin_task :: "registry \<Rightarrow> int \<Rightarrow> task \<Rightarrow> active_tasks \<Rightarrow> (task_result + method_impl) \<times> active_tasks" where
  "begin_task reg ms t active =
     (case reg (t_execution_method t) of
        None \<Rightarrow>
          (Inl (task_failure (t_id t) [] ms (''unsupported execution method: '' @ t_execution_method t)), active)
      | Some m \<Rightarrow>
          (Inr m, active(t_id t \<mapsto>
             (m, \<lparr>h_method_name = t_execution_method t, h_run_id = t_id t, h_data = Some []\<rparr>))))"

definition async_unsupported :: string where
  "async_unsupported = ''async worker executions are not implemented yet''"

definition end_task ::
  "int \<Rightarrow> task \<Rightarrow> start_result \<times> go_error option \<Rightarrow> active_tasks \<Rightarrow> task_result \<times> active_tasks" where
  "end_task ms t answer active =
     (case answer of (sr, err) \<Rightarrow>
        ((case sr_result sr of
            None \<Rightarrow> task_failure (t_id t) (t_attempt_id t) ms async_unsupported
          | Some r \<Rightarrow> reported t ms r err),
         active(t_id t := None)))"

definition executeTask :: "registry \<Rightarrow> int \<Rightarrow> task \<Rightarrow> active_tasks \<Rightarrow> task_result \<times> active_tasks" where
  "executeTask reg ms t active =
     (case begin_task reg ms t active of
        (Inl failure, active1) \<Rightarrow> (failure, active1)
      | (Inr m, active1) \<Rightarrow> end_task ms t (m_Start m (task_params t)) active1)"

definition reportResult :: "string reply option \<Rightarrow> go_error option" where
  "reportResult resp =
     (case resp of
        None \<Rightarrow> Some (ErrText ''no answer'')
      | Some r \<Rightarrow> if reply_status r \<noteq> 200
                 then Some (ErrText (''report returned '' @ Itoa (reply_status r))) else None)"

section \<open>Kill commands\<close>

text \<open>
  \<open>sendControlPoll\<close>: what the worker does with the answer to the list of its tasks. Every named task that
  is still active is cancelled, and killed by its handle when its method can.
\<close>

datatype worker_action = Cancelled string | KilledBy string handle

fun control_actions :: "active_tasks \<Rightarrow> string list \<Rightarrow> worker_action list" where
  "control_actions active [] = []"
| "control_actions active (tid # tids) =
     (case active tid of
        None \<Rightarrow> []
      | Some (m, h) \<Rightarrow> Cancelled tid # (if m_SupportsKill m then [KilledBy tid h] else [])) @
     control_actions active tids"

definition sendControlPoll :: "active_tasks \<Rightarrow> string list reply option \<Rightarrow> worker_action list" where
  "sendControlPoll active resp =
     (case resp of
        Some (Data status commands) \<Rightarrow> if status = 200 then control_actions active commands else []
      | _ \<Rightarrow> [])"

section \<open>One round of a worker\<close>

text \<open>
  A poll, the execution of the task and the report of its result, between a worker and the control
  plane; each request has its own environment.
\<close>

definition worker_round ::
  "(string \<Rightarrow> string) \<Rightarrow> string \<Rightarrow> registry \<Rightarrow> int \<Rightarrow> env \<Rightarrow> env \<Rightarrow> world \<Rightarrow> go_error option \<times> world" where
  "worker_round hash authz reg ms e1 e2 w =
     (case Service_WorkerPoll hash e1 authz w of
        (reply, w1) \<Rightarrow>
          (case pollTask (Some reply) of
             Inl err \<Rightarrow> (Some err, w1)
           | Inr None \<Rightarrow> (None, w1)
           | Inr (Some t) \<Rightarrow>
               (case Service_WorkerResult hash e2 authz (Some (fst (executeTask reg ms t (\<lambda>_. None)))) w1 of
                  (reply2, w2) \<Rightarrow> (reportResult (Some reply2), w2))))"

section \<open>The start and the heartbeat\<close>

text \<open>The address and the credential a worker is started with: flags, or the environment.\<close>

definition worker_settings :: "string \<Rightarrow> string \<Rightarrow> go_error + string \<times> string" where
  "worker_settings url credential =
     (if url = [] then Inl (ErrText ''--url or CRONCONTROL_URL is required'')
      else if credential = [] then Inl (ErrText ''--credential or CRONCONTROL_CREDENTIAL is required'')
      else Inr (url, credential))"

text \<open>A heartbeat carries the version only; whatever is answered, the worker goes on.\<close>

definition sendHeartbeat ::
  "(string \<Rightarrow> string) \<Rightarrow> env \<Rightarrow> string \<Rightarrow> string \<Rightarrow> world \<Rightarrow> world" where
  "sendHeartbeat hash e credential version w =
     snd (Service_WorkerHeartbeat hash e (''Bearer '' @ credential) (Some (version, JNull)) w)"

text \<open>
  For a minute after its heartbeat a worker is not taken for stale.
\<close>

lemma heartbeat_keeps_worker:
  assumes "authenticateWorkerRequest hash e (''Bearer '' @ credential) w = Inr x"
    and "e_fault e ''UpdateWorkerHeartbeat'' = None"
    and "e_db_now e' \<le> e_db_now e + 60 * second"
    and "ListStaleWorkers e' (sendHeartbeat hash e credential version w) = Inr stale" "y \<in> set stale"
  shows "wk_id y \<noteq> wk_id x"
  using assms
  by (auto simp: sendHeartbeat_def Service_WorkerHeartbeat_def ProcessHeartbeat_def UpdateWorkerHeartbeat_def
      db_exec_def db_read_def on_worker_def update_key_def update_where_def ListStaleWorkers_def
      split: if_splits option.splits)

end
