(* ===== verification/Worker_Binary_Properties.thy ===== *)
theory Worker_Binary_Properties
  imports Worker_Binary Api_Properties Worker_Properties
begin

text \<open>
  The worker and the control plane together: what a round of a worker does to the run of its task, and
  where its verdict differs from the one of the control plane.
\<close>

section \<open>A round\<close>

text \<open>The state of the world after a poll that hands out a run.\<close>

lemma WorkerPoll_run:
  assumes "no_faults e" "authenticateWorkerRequest hash e authz w = Inr wrk"
    "channel (wk_id wrk) w = t # ts" "t_type t = ''run''" "run_at w (t_id t) = Some r"
  obtains w1 r' where "Service_WorkerPoll hash e authz w = (Data 200 t, w1)" "w_workers w1 = w_workers w"
    "map r_id (w_runs w1) = map r_id (w_runs w)" "channel (wk_id wrk) w1 = ts"
    "run_at w1 (t_id t) = Some r'" "r_state r' = Running" "\<And>k. k \<noteq> t_id t \<Longrightarrow> run_at w1 k = run_at w k"
proof -
  have f: "e_fault e q = None" for q using assms(1) by (simp add: no_faults_def)
  define v where "v = snd (PollTask (wk_id wrk) w)"
  let ?a = "(run_upd (t_id t) Running)\<lparr>us_started_at := Some (e_now e), us_worker_id := Some (wk_id wrk)\<rparr>"
  have same: "w_workers v = w_workers w" "w_runs v = w_runs w"
    by (simp_all add: v_def PollTask_def getOrCreateChannel_def Let_def split: list.split)
  have p: "PollTask (wk_id wrk) w = (Some t, v)"
    using PollTask_eq(1) [of "wk_id wrk" w] assms(3) by (simp add: v_def prod_eq_iff)
  have c: "channel (wk_id wrk) v = ts"
    using PollTask_eq(2) [of "wk_id wrk" "wk_id wrk" w] assms(3) by (simp add: v_def)
  have "wrk \<in> set (w_workers v)"
    using authenticateWorkerRequest_SomeD [OF assms(2)] by (simp add: same)
  then have "\<not> dangling wk_id (us_worker_id ?a) (w_workers v)"
    by (auto simp: dangling_def has_key_def)
  then have "UpdateRunState e ?a v = (None, on_run (t_id t) (set_run_state (e_db_now e, ?a)) v)"
    by (simp add: UpdateRunState_def db_exec_def f run_upd_def)
  then have poll: "Service_WorkerPoll hash e authz w =
      (Data 200 t, on_run (t_id t) (set_run_state (e_db_now e, ?a)) v)"
    using assms(2,4) p by (simp add: Service_WorkerPoll_def start_worker_run_def writeJSON_def)
  have at: "run_at v k = run_at w k" for k by (simp add: run_at_def same)
  let ?v = "on_run (t_id t) (set_run_state (e_db_now e, ?a)) v"
  have 1: "w_workers ?v = w_workers w" "map r_id (w_runs ?v) = map r_id (w_runs w)" "channel (wk_id wrk) ?v = ts"
    using same c by (simp_all add: on_run_def map_update_key channel_def)
  have 2: "run_at ?v (t_id t) = Some (set_run_state (e_db_now e, ?a) r)" "\<And>k. k \<noteq> t_id t \<Longrightarrow> run_at ?v k = run_at w k"
    using assms(5) by (simp_all add: run_at_on_run at)
  have 3: "r_state (set_run_state (e_db_now e, ?a) r) = Running"
    by (simp add: set_run_state_def run_upd_def)
  show ?thesis by (rule that [OF poll 1 2(1) 3 2(2)])
qed

text \<open>What the worker makes of the answer of the method.\<close>

definition verdict :: "task \<Rightarrow> int \<Rightarrow> start_result \<times> go_error option \<Rightarrow> bool" where
  "verdict t ms answer \<longleftrightarrow>
     (case sr_result (fst answer) of
        None \<Rightarrow> False
      | Some r \<Rightarrow> task_success (reported t ms r (snd answer)))"

lemma executeTask_eq:
  assumes "reg (t_execution_method t) = Some m"
  shows "tr_task_id (fst (executeTask reg ms t active)) = t_id t"
    "task_success (fst (executeTask reg ms t active)) = verdict t ms (m_Start m (task_params t))"
    "snd (executeTask reg ms t active) = active(t_id t := None)"
proof -
  obtain sr err where a: "m_Start m (task_params t) = (sr, err)" by fastforce
  have eq: "executeTask reg ms t active = ((case sr_result sr of
      None \<Rightarrow> task_failure (t_id t) (t_attempt_id t) ms async_unsupported
    | Some r \<Rightarrow> reported t ms r err), active(t_id t := None))"
    using assms by (simp add: executeTask_def begin_task_def end_task_def a)
  have f: "\<not> task_success (task_failure i j ms async_unsupported)" for i j
    by (simp add: task_success_def task_failure_def async_unsupported_def)
  show "tr_task_id (fst (executeTask reg ms t active)) = t_id t"
    unfolding eq by (cases "sr_result sr") (simp_all add: task_failure_def reported_def)
  show "task_success (fst (executeTask reg ms t active)) = verdict t ms (m_Start m (task_params t))"
    unfolding eq verdict_def a by (cases "sr_result sr") (simp_all add: f)
  show "snd (executeTask reg ms t active) = active(t_id t := None)" unfolding eq by simp
qed

text \<open>
  C30: One round of a worker takes the task at the head of its channel, runs it and concludes its run: the
  run is completed exactly when the method gave a result that the worker reports as a success, and failed
  otherwise, whatever state it was in before; every other run stays as it is and no run is created, so no
  retry and no dependent run follows.
\<close>

theorem worker_round_concludes_run:
  assumes nf: "no_faults e1" "no_faults e2"
    and auth: "authenticateWorkerRequest hash e1 authz w = Inr wrk"
    and queue: "channel (wk_id wrk) w = t # ts"
    and task: "t_type t = ''run''" "t_id t = ''run_'' @ s" "s \<noteq> []" "reg (t_execution_method t) = Some m"
    and run: "run_at w (t_id t) = Some r"
    and round: "worker_round hash authz reg ms e1 e2 w = (err, w2)"
  shows "err = None \<and> channel (wk_id wrk) w2 = ts \<and> map r_id (w_runs w2) = map r_id (w_runs w) \<and>
    (\<exists>r2. run_at w2 (t_id t) = Some r2 \<and>
      r_state r2 = (if verdict t ms (m_Start m (task_params t)) then Completed else Failed)) \<and>
    (\<forall>k. k \<noteq> t_id t \<longrightarrow> run_at w2 k = run_at w k)"
proof -
  obtain w1 r' where w1: "Service_WorkerPoll hash e1 authz w = (Data 200 t, w1)" "w_workers w1 = w_workers w"
    "map r_id (w_runs w1) = map r_id (w_runs w)" "channel (wk_id wrk) w1 = ts"
    "run_at w1 (t_id t) = Some r'" "r_state r' = Running" "\<And>k. k \<noteq> t_id t \<Longrightarrow> run_at w1 k = run_at w k"
    using WorkerPoll_run [OF nf(1) auth queue task(1) run] by metis
  let ?res = "fst (executeTask reg ms t (\<lambda>_. None))"
  have id': "tr_task_id ?res = t_id t" and ok: "task_success ?res = verdict t ms (m_Start m (task_params t))"
    using executeTask_eq [of reg t m ms, OF task(4)] by simp_all
  have f: "e_fault e1 q = None" "e_fault e2 q = None" for q using nf by (simp_all add: no_faults_def)
  have auth2: "authenticateWorkerRequest hash e2 authz w1 = Inr wrk"
    using auth unfolding authenticateWorkerRequest_def db_read_def f w1(2) by simp
  obtain err2 w2' where pr: "ProcessResult e2 ?res w1 = (err2, w2')" by fastforce
  have tid: "tr_task_id ?res = ''run_'' @ s" using id' task(2) by simp
  have at1: "run_at w1 (tr_task_id ?res) = Some r'" using w1(5) id' by simp
  from worker_result_decides_run [OF f(2) f(2) tid task(3) at1] obtain r2 where
    r2: "run_at w2' (t_id t) = Some r2" "r_state r2 = (if task_success ?res then Completed else Failed)"
      "map r_id (w_runs w2') = map r_id (w_runs w1)" "\<And>k. k \<noteq> t_id t \<Longrightarrow> run_at w2' k = run_at w1 k"
    by (auto simp: pr id' w1(6))
  have eq: "ProcessResult e2 ?res w1 = UpdateRunState e2 ((run_upd (tr_task_id ?res)
      (if task_success ?res then Completed else Failed))
       \<lparr>us_finished_at := Some (e_now e2), us_duration_ms := Some (tr_duration_ms ?res),
        us_exit_code := map_option wrap32 (tr_exit_code ?res)\<rparr>) w1"
    using at1 w1(6) by (simp add: ProcessResult_run [OF tid task(3)] run_result_def Let_def run_at_def f)
  then have "err2 = None" "w_task_queues w2' = w_task_queues w1"
    using pr by (auto simp: UpdateRunState_ok f run_upd_def on_run_def)
  then have done': "Service_WorkerResult hash e2 authz (Some ?res) w1 = (Data 200 ''ok'', w2')"
    using auth2 pr tid by (simp add: Service_WorkerResult_def writeJSON_def)
  have "worker_round hash authz reg ms e1 e2 w = (None, w2')"
    by (simp add: worker_round_def w1(1) pollTask_def done' reportResult_def)
  then have "err = None" "w2 = w2'" using round by simp_all
  then show ?thesis
    using r2 w1 ok \<open>w_task_queues w2' = w_task_queues w1\<close> by (simp add: channel_def)
qed

section \<open>Kills\<close>

lemma control_actions_iff:
  "KilledBy tid h \<in> set (control_actions active tids) \<longleftrightarrow>
     tid \<in> set tids \<and> (\<exists>m. active tid = Some (m, h) \<and> m_SupportsKill m)"
proof (induction active tids rule: control_actions.induct)
  case (2 active k tids)
  then show ?case by (cases "active k") (auto split: prod.split)
qed simp

text \<open>
  A worker that asks for commands kills exactly those of its tasks that the control plane has been
  asked to stop and has on record as this worker's, each by the handle of its execution.
\<close>

theorem worker_kills_what_is_asked:
  assumes "no_faults e" "authenticateWorkerRequest hash e authz w = Inr wrk" "set ids = dom active"
  shows "KilledBy tid h \<in> set (sendControlPoll active (Some (Service_WorkerControlPoll hash e authz (Some ids) w))) \<longleftrightarrow>
    (\<exists>m. active tid = Some (m, h) \<and> m_SupportsKill m) \<and>
    ((\<exists>r\<in>set (w_runs w). r_id r = tid \<and> r_worker_id r = Some (wk_id wrk) \<and> r_state r = KillRequested) \<or>
     (\<exists>j\<in>set (w_jobs w). j_id j = tid \<and> j_worker_id j = Some (wk_id wrk) \<and> j_state j = JobKillRequested))"
proof -
  have f: "e_fault e q = None" for q using assms(1) by (simp add: no_faults_def)
  have "Service_WorkerControlPoll hash e authz (Some ids) w =
      Data 200 (if ids = [] then [] else control_commands wrk ids w)"
    by (simp add: Service_WorkerControlPoll_def assms(2) f writeJSON_def)
  then have "KilledBy tid h \<in> set (sendControlPoll active (Some (Service_WorkerControlPoll hash e authz (Some ids) w)))
      \<longleftrightarrow> ids \<noteq> [] \<and> tid \<in> set (control_commands wrk ids w) \<and> (\<exists>m. active tid = Some (m, h) \<and> m_SupportsKill m)"
    by (simp add: sendControlPoll_def control_actions_iff)
  moreover have "tid \<in> set ids" if "active tid = Some x" for x
    using assms(3) that by auto
  ultimately show ?thesis
    by (auto simp: control_commands_def)
qed

section \<open>Samples\<close>

text \<open>A method that accepts and answers later, and one that ends at once with an exit code.\<close>

definition sample_detached :: method_impl where
  "sample_detached =
     \<lparr>m_Start = (\<lambda>_. (\<lparr>sr_handle = sample_handle, sr_accepted_at = 0, sr_result = None\<rparr>, None)),
      m_Poll = (\<lambda>_ _. (zero_poll_result, None)), m_Kill = (\<lambda>_. None), m_SupportsKill = True,
      m_SupportsHeartbeat = True, m_IsAsync = True\<rparr>"

text \<open>A task whose method starts something that goes on is reported as failed.\<close>

theorem worker_round_concludes_run_witness:
  "\<exists>r2. run_at (snd (worker_round (\<lambda>s. s) (bearer @ ''h'') (\<lambda>_. Some sample_detached) 3 (calm 5) (calm 9)
     ((worker_world [sample_run ''run_1'' Pending])\<lparr>w_task_queues := [''wrk_1'' \<mapsto> [sample_task ''run_1'']]\<rparr>)))
     ''run_1'' = Some r2 \<and> r_state r2 = Failed"
proof -
  let ?w = "(worker_world [sample_run ''run_1'' Pending])\<lparr>w_task_queues := [''wrk_1'' \<mapsto> [sample_task ''run_1'']]\<rparr>"
  let ?reg = "\<lambda>_. Some sample_detached"
  have a: "authenticateWorkerRequest (\<lambda>s. s) (calm 5) (bearer @ ''h'') ?w = Inr sample_worker"
    by (rule sample_authenticated) (simp_all add: sample_worker_def is_space_def)
  have c: "channel (wk_id sample_worker) ?w = [sample_task ''run_1'']" by (simp add: channel_def)
  have t: "t_type (sample_task ''run_1'') = ''run''" "t_id (sample_task ''run_1'') = ''run_'' @ ''1''"
    by (simp_all add: sample_task_def)
  have r: "run_at ?w (t_id (sample_task ''run_1'')) = Some (sample_run ''run_1'' Pending)"
    by (simp add: t run_at_def sample_run_def new_run_def sample_params_def)
  have v: "\<not> verdict (sample_task ''run_1'') 3 (m_Start sample_detached (task_params (sample_task ''run_1'')))"
    by (simp add: verdict_def sample_detached_def)
  obtain err w2 where rd: "worker_round (\<lambda>s. s) (bearer @ ''h'') ?reg 3 (calm 5) (calm 9) ?w = (err, w2)" by fastforce
  from worker_round_concludes_run [OF no_faults_calm no_faults_calm a c t _ _ r rd, of sample_detached]
  have "\<exists>r2. run_at w2 (t_id (sample_task ''run_1'')) = Some r2 \<and> r_state r2 = Failed" using v by simp
  then show ?thesis by (simp add: rd t(2))
qed

theorem worker_kills_what_is_asked_witness:
  "KilledBy ''run_1'' sample_handle \<in> set (sendControlPoll [''run_1'' \<mapsto> (sample_detached, sample_handle)]
     (Some (Service_WorkerControlPoll (\<lambda>s. s) (calm 5) (bearer @ ''h'') (Some [''run_1''])
        (worker_world [(sample_run ''run_1'' KillRequested)\<lparr>r_worker_id := Some ''wrk_1''\<rparr>]))))"
proof -
  let ?w = "worker_world [(sample_run ''run_1'' KillRequested)\<lparr>r_worker_id := Some ''wrk_1''\<rparr>]"
  have a: "authenticateWorkerRequest (\<lambda>s. s) (calm 5) (bearer @ ''h'') ?w = Inr sample_worker"
    by (rule sample_authenticated) (simp_all add: sample_worker_def is_space_def)
  have d: "set [''run_1''] = dom [''run_1'' \<mapsto> (sample_detached, sample_handle)]" by simp
  show ?thesis
    unfolding worker_kills_what_is_asked [OF no_faults_calm a d]
    by (simp add: sample_detached_def sample_run_def new_run_def sample_params_def)
qed

end
