(* ===== verification/Credentials.thy ===== *)
theory Credentials
  imports Account_Queries Api
begin

text \<open>
  Stored credentials for SSH, SSM and Kubernetes: the queries of \<open>internal/db/credentials.sql.go\<close> and the
  handlers of \<open>internal/handler/service.go\<close>. \<open>coll\<close> is the place of a name in the order of the database.
\<close>

section \<open>What the tables share\<close>

text \<open>The constraints of the three tables: primary key, workspace and one name for each workspace.\<close>

definition credential_violation ::
  "string \<Rightarrow> ('r \<Rightarrow> string) \<Rightarrow> ('r \<Rightarrow> string) \<Rightarrow> ('r \<Rightarrow> string) \<Rightarrow> 'r list \<Rightarrow> world \<Rightarrow> 'r \<Rightarrow> go_error option" where
  "credential_violation table key ws name rows w x = first_violation
     [(has_key key (key x) rows, unique_violation (table @ ''_pkey'')),
      (\<exists>y\<in>set rows. ws y = ws x \<and> name y = name x, unique_violation (table @ ''_workspace_id_name_key'')),
      (\<not> has_key wsp_id (ws x) (w_workspaces w), foreign_key_violation (table @ ''_workspace_id_fkey''))]"

text \<open>\<open>:execrows\<close> of a \<open>DELETE\<close>: the number of rows that were deleted.\<close>

definition deleting ::
  "env \<Rightarrow> string \<Rightarrow> ('r \<Rightarrow> bool) \<Rightarrow> 'r list \<Rightarrow> (world \<Rightarrow> world) \<Rightarrow> world \<Rightarrow> int answer \<times> world" where
  "deleting e q P rows f w =
     (case db_exec e q None f w of
        (Some err, w1) \<Rightarrow> (Inl err, w1)
      | (None, w1) \<Rightarrow> (Inr (int (length (filter P rows))), w1))"

text \<open>The reply of a \<open>DELETE\<close> handler.\<close>

definition deleted_reply :: "string \<Rightarrow> int answer \<times> world \<Rightarrow> 'd reply \<times> world" where
  "deleted_reply missing aw =
     (case aw of
        (Inl _, w) \<Rightarrow> (writeError 404 ''NOT_FOUND'' missing [], w)
      | (Inr n, w) \<Rightarrow> (if n = 0 then writeError 404 ''NOT_FOUND'' missing [] else Status 204, w))"

text \<open>A new row is found when no row before it is.\<close>

lemma find_new: "\<forall>y\<in>set xs. \<not> P y \<Longrightarrow> P a \<Longrightarrow> List.find P (xs @ [a]) = Some a"
  by (induction xs) simp_all

section \<open>SSH\<close>

record ssh_view =
  sv_cred_id :: string
  sv_cred_workspace_id :: string
  sv_cred_name :: string
  sv_fingerprint :: string
  sv_username :: "string option"
  sv_port :: "int option"
  sv_cred_created_at :: instant
  sv_cred_updated_at :: instant

definition view_ssh :: "ssh_credential \<Rightarrow> ssh_view" where
  "view_ssh c =
     \<lparr>sv_cred_id = sc_id c, sv_cred_workspace_id = sc_workspace_id c, sv_cred_name = sc_name c,
      sv_fingerprint = sc_fingerprint c, sv_username = sc_username c, sv_port = sc_port c,
      sv_cred_created_at = sc_created_at c, sv_cred_updated_at = sc_updated_at c\<rparr>"

definition CreateSSHCredential :: "env \<Rightarrow> ssh_credential \<Rightarrow> world \<Rightarrow> ssh_view answer \<times> world" where
  "CreateSSHCredential e c w = returning (view_ssh c) (db_exec e ''CreateSSHCredential''
     (credential_violation ''ssh_credentials'' sc_id sc_workspace_id sc_name (w_ssh_credentials w) w c)
     (\<lambda>w. w\<lparr>w_ssh_credentials := w_ssh_credentials w @ [c]\<rparr>) w)"

definition DeleteSSHCredential :: "env \<Rightarrow> string \<Rightarrow> string \<Rightarrow> world \<Rightarrow> int answer \<times> world" where
  "DeleteSSHCredential e cid ws w =
     (let P = \<lambda>c. sc_id c = cid \<and> sc_workspace_id c = ws
      in deleting e ''DeleteSSHCredential'' P (w_ssh_credentials w)
           (\<lambda>w. w\<lparr>w_ssh_credentials := filter (\<lambda>c. \<not> P c) (w_ssh_credentials w)\<rparr>) w)"

definition GetSSHCredential :: "env \<Rightarrow> string \<Rightarrow> string \<Rightarrow> world \<Rightarrow> ssh_credential answer" where
  "GetSSHCredential e cid ws w = db_read e ''GetSSHCredential'' (one_row
     (List.find (\<lambda>c. sc_id c = cid \<and> sc_workspace_id c = ws) (w_ssh_credentials w)))"

definition ListSSHCredentialsByWorkspace ::
  "(string \<Rightarrow> nat) \<Rightarrow> env \<Rightarrow> string \<Rightarrow> world \<Rightarrow> ssh_view list answer" where
  "ListSSHCredentialsByWorkspace coll e ws w = db_read e ''ListSSHCredentialsByWorkspace''
     (Inr (map view_ssh (sort_key (\<lambda>c. coll (sc_name c))
        (filter (\<lambda>c. sc_workspace_id c = ws) (w_ssh_credentials w)))))"

definition Service_ListSSHCredentials ::
  "(string \<Rightarrow> nat) \<Rightarrow> env \<Rightarrow> request_ctx \<Rightarrow> world \<Rightarrow> (ssh_view list \<times> int) reply" where
  "Service_ListSSHCredentials coll e ctx w =
     (case ListSSHCredentialsByWorkspace coll e (ctx_WorkspaceID ctx) w of
        Inl _ \<Rightarrow> writeError 500 ''INTERNAL_ERROR'' ''Failed to list SSH credentials'' []
      | Inr creds \<Rightarrow> writeJSON 200 (creds, int (length creds)))"

record create_ssh_request =
  rsh_name :: string
  rsh_private_key :: string
  rsh_username :: string
  rsh_port :: int

text \<open>The row of a request: the key is written as it came.\<close>

definition new_ssh_credential :: "env \<Rightarrow> string \<Rightarrow> string \<Rightarrow> create_ssh_request \<Rightarrow> ssh_credential" where
  "new_ssh_credential e cid ws q =
     \<lparr>sc_id = cid, sc_workspace_id = ws, sc_name = rsh_name q, sc_private_key_enc = rsh_private_key q,
      sc_fingerprint = ''sha256:'' @ rsh_name q, sc_username = Some (rsh_username q),
      sc_port = Some (if wrap32 (rsh_port q) = 0 then 22 else wrap32 (rsh_port q)), sc_strict_host_key = True,
      sc_created_at = e_db_now e, sc_updated_at = e_db_now e\<rparr>"

definition Service_CreateSSHCredential ::
  "env \<Rightarrow> request_ctx \<Rightarrow> create_ssh_request option \<Rightarrow> world \<Rightarrow> ssh_view reply \<times> world" where
  "Service_CreateSSHCredential e ctx body w =
     (case body of
        None \<Rightarrow> (writeError 400 ''VALIDATION_ERROR'' ''name is required'' [], w)
      | Some q \<Rightarrow>
          if rsh_name q = [] then (writeError 400 ''VALIDATION_ERROR'' ''name is required'' [], w)
          else case id_New e ''ssh_'' w of (cid, w1) \<Rightarrow>
            (case CreateSSHCredential e (new_ssh_credential e cid (ctx_WorkspaceID ctx) q) w1 of
               (Inl err, w2) \<Rightarrow> (writeError 500 ''INTERNAL_ERROR'' ''Failed to create SSH credential'' (Error err), w2)
             | (Inr cred, w2) \<Rightarrow> (writeJSON 201 cred, w2)))"

definition Service_DeleteSSHCredential ::
  "env \<Rightarrow> request_ctx \<Rightarrow> string \<Rightarrow> world \<Rightarrow> unit reply \<times> world" where
  "Service_DeleteSSHCredential e ctx credID w =
     deleted_reply ''SSH credential not found'' (DeleteSSHCredential e credID (ctx_WorkspaceID ctx) w)"

section \<open>SSM\<close>

definition CreateSSMProfile :: "env \<Rightarrow> ssm_profile \<Rightarrow> world \<Rightarrow> ssm_profile answer \<times> world" where
  "CreateSSMProfile e p w = returning p (db_exec e ''CreateSSMProfile''
     (credential_violation ''ssm_profiles'' sm_id sm_workspace_id sm_name (w_ssm_profiles w) w p)
     (\<lambda>w. w\<lparr>w_ssm_profiles := w_ssm_profiles w @ [p]\<rparr>) w)"

definition DeleteSSMProfile :: "env \<Rightarrow> string \<Rightarrow> string \<Rightarrow> world \<Rightarrow> int answer \<times> world" where
  "DeleteSSMProfile e pid ws w =
     (let P = \<lambda>p. sm_id p = pid \<and> sm_workspace_id p = ws
      in deleting e ''DeleteSSMProfile'' P (w_ssm_profiles w)
           (\<lambda>w. w\<lparr>w_ssm_profiles := filter (\<lambda>p. \<not> P p) (w_ssm_profiles w)\<rparr>) w)"

definition GetSSMProfile :: "env \<Rightarrow> string \<Rightarrow> string \<Rightarrow> world \<Rightarrow> ssm_profile answer" where
  "GetSSMProfile e pid ws w = db_read e ''GetSSMProfile'' (one_row
     (List.find (\<lambda>p. sm_id p = pid \<and> sm_workspace_id p = ws) (w_ssm_profiles w)))"

definition ListSSMProfilesByWorkspace ::
  "(string \<Rightarrow> nat) \<Rightarrow> env \<Rightarrow> string \<Rightarrow> world \<Rightarrow> ssm_profile list answer" where
  "ListSSMProfilesByWorkspace coll e ws w = db_read e ''ListSSMProfilesByWorkspace''
     (Inr (sort_key (\<lambda>p. coll (sm_name p)) (filter (\<lambda>p. sm_workspace_id p = ws) (w_ssm_profiles w))))"

definition Service_ListSSMProfiles ::
  "(string \<Rightarrow> nat) \<Rightarrow> env \<Rightarrow> request_ctx \<Rightarrow> world \<Rightarrow> (ssm_profile list \<times> int) reply" where
  "Service_ListSSMProfiles coll e ctx w =
     (case ListSSMProfilesByWorkspace coll e (ctx_WorkspaceID ctx) w of
        Inl _ \<Rightarrow> writeError 500 ''INTERNAL_ERROR'' ''Failed to list SSM profiles'' []
      | Inr profiles \<Rightarrow> writeJSON 200 (profiles, int (length profiles)))"

record create_ssm_request =
  rsm_name :: string
  rsm_region :: string
  rsm_role_arn :: "string option"

definition Service_CreateSSMProfile ::
  "env \<Rightarrow> request_ctx \<Rightarrow> create_ssm_request option \<Rightarrow> world \<Rightarrow> ssm_profile reply \<times> world" where
  "Service_CreateSSMProfile e ctx body w =
     (case body of
        None \<Rightarrow> (writeError 400 ''VALIDATION_ERROR'' ''name and region are required'' [], w)
      | Some q \<Rightarrow>
          if rsm_name q = [] \<or> rsm_region q = [] then
            (writeError 400 ''VALIDATION_ERROR'' ''name and region are required'' [], w)
          else case id_New e ''ssp_'' w of (pid, w1) \<Rightarrow>
            (case CreateSSMProfile e
                    \<lparr>sm_id = pid, sm_workspace_id = ctx_WorkspaceID ctx, sm_name = rsm_name q,
                     sm_region = rsm_region q, sm_role_arn = rsm_role_arn q,
                     sm_created_at = e_db_now e, sm_updated_at = e_db_now e\<rparr> w1 of
               (Inl err, w2) \<Rightarrow> (writeError 500 ''INTERNAL_ERROR'' ''Failed to create SSM profile'' (Error err), w2)
             | (Inr profile, w2) \<Rightarrow> (writeJSON 201 profile, w2)))"

definition Service_DeleteSSMProfile ::
  "env \<Rightarrow> request_ctx \<Rightarrow> string \<Rightarrow> world \<Rightarrow> unit reply \<times> world" where
  "Service_DeleteSSMProfile e ctx profID w =
     deleted_reply ''SSM profile not found'' (DeleteSSMProfile e profID (ctx_WorkspaceID ctx) w)"

section \<open>Kubernetes\<close>

record k8s_view =
  kv_id :: string
  kv_workspace_id :: string
  kv_name :: string
  kv_default_namespace :: "string option"
  kv_created_at :: instant
  kv_updated_at :: instant

definition view_k8s :: "k8s_cluster \<Rightarrow> k8s_view" where
  "view_k8s c =
     \<lparr>kv_id = kc_id c, kv_workspace_id = kc_workspace_id c, kv_name = kc_name c,
      kv_default_namespace = kc_default_namespace c, kv_created_at = kc_created_at c,
      kv_updated_at = kc_updated_at c\<rparr>"

definition CreateK8sCluster :: "env \<Rightarrow> k8s_cluster \<Rightarrow> world \<Rightarrow> k8s_view answer \<times> world" where
  "CreateK8sCluster e c w = returning (view_k8s c) (db_exec e ''CreateK8sCluster''
     (credential_violation ''k8s_clusters'' kc_id kc_workspace_id kc_name (w_k8s_clusters w) w c)
     (\<lambda>w. w\<lparr>w_k8s_clusters := w_k8s_clusters w @ [c]\<rparr>) w)"

definition DeleteK8sCluster :: "env \<Rightarrow> string \<Rightarrow> string \<Rightarrow> world \<Rightarrow> int answer \<times> world" where
  "DeleteK8sCluster e cid ws w =
     (let P = \<lambda>c. kc_id c = cid \<and> kc_workspace_id c = ws
      in deleting e ''DeleteK8sCluster'' P (w_k8s_clusters w)
           (\<lambda>w. w\<lparr>w_k8s_clusters := filter (\<lambda>c. \<not> P c) (w_k8s_clusters w)\<rparr>) w)"

definition GetK8sCluster :: "env \<Rightarrow> string \<Rightarrow> string \<Rightarrow> world \<Rightarrow> k8s_cluster answer" where
  "GetK8sCluster e cid ws w = db_read e ''GetK8sCluster'' (one_row
     (List.find (\<lambda>c. kc_id c = cid \<and> kc_workspace_id c = ws) (w_k8s_clusters w)))"

definition ListK8sClustersByWorkspace ::
  "(string \<Rightarrow> nat) \<Rightarrow> env \<Rightarrow> string \<Rightarrow> world \<Rightarrow> k8s_view list answer" where
  "ListK8sClustersByWorkspace coll e ws w = db_read e ''ListK8sClustersByWorkspace''
     (Inr (map view_k8s (sort_key (\<lambda>c. coll (kc_name c))
        (filter (\<lambda>c. kc_workspace_id c = ws) (w_k8s_clusters w)))))"

definition Service_ListK8sClusters ::
  "(string \<Rightarrow> nat) \<Rightarrow> env \<Rightarrow> request_ctx \<Rightarrow> world \<Rightarrow> (k8s_view list \<times> int) reply" where
  "Service_ListK8sClusters coll e ctx w =
     (case ListK8sClustersByWorkspace coll e (ctx_WorkspaceID ctx) w of
        Inl _ \<Rightarrow> writeError 500 ''INTERNAL_ERROR'' ''Failed to list K8s clusters'' []
      | Inr clusters \<Rightarrow> writeJSON 200 (clusters, int (length clusters)))"

record create_k8s_request =
  rk_name :: string
  rk_default_namespace :: string

text \<open>The kubeconfig of a new cluster is always empty.\<close>

definition Service_CreateK8sCluster ::
  "env \<Rightarrow> request_ctx \<Rightarrow> create_k8s_request option \<Rightarrow> world \<Rightarrow> k8s_view reply \<times> world" where
  "Service_CreateK8sCluster e ctx body w =
     (case body of
        None \<Rightarrow> (writeError 400 ''VALIDATION_ERROR'' ''name is required'' [], w)
      | Some q \<Rightarrow>
          if rk_name q = [] then (writeError 400 ''VALIDATION_ERROR'' ''name is required'' [], w)
          else case id_New e ''k8c_'' w of (cid, w1) \<Rightarrow>
            (case CreateK8sCluster e
                    \<lparr>kc_id = cid, kc_workspace_id = ctx_WorkspaceID ctx, kc_name = rk_name q,
                     kc_kubeconfig_enc = [],
                     kc_default_namespace =
                       Some (if rk_default_namespace q = [] then ''default'' else rk_default_namespace q),
                     kc_created_at = e_db_now e, kc_updated_at = e_db_now e\<rparr> w1 of
               (Inl err, w2) \<Rightarrow> (writeError 500 ''INTERNAL_ERROR'' ''Failed to create K8s cluster'' (Error err), w2)
             | (Inr cluster, w2) \<Rightarrow> (writeJSON 201 cluster, w2)))"

definition Service_DeleteK8sCluster ::
  "env \<Rightarrow> request_ctx \<Rightarrow> string \<Rightarrow> world \<Rightarrow> unit reply \<times> world" where
  "Service_DeleteK8sCluster e ctx clusterID w =
     deleted_reply ''K8s cluster not found'' (DeleteK8sCluster e clusterID (ctx_WorkspaceID ctx) w)"

end
