(* ===== verification/Vault.thy ===== *)
theory Vault
  imports Credentials
begin

text \<open>
  Secrets of a workspace: the encryption of \<open>internal/crypto/crypto.go\<close>, the key of \<open>config/config.go\<close>, the
  queries of \<open>internal/db/secrets.sql.go\<close> and the handlers. AES-GCM is a parameter: \<open>seal\<close> and \<open>open'\<close> with a
  key and a nonce; nonces have twelve bytes.
\<close>

section \<open>Encryption\<close>

record gcm =
  g_seal :: "string \<Rightarrow> string \<Rightarrow> string \<Rightarrow> string"
  g_open :: "string \<Rightarrow> string \<Rightarrow> string \<Rightarrow> string option"

definition nonce_size :: nat where "nonce_size = 12"

definition bad_key :: "string \<Rightarrow> go_error" where
  "bad_key key = ErrText (''encryption key must be 32 bytes, got '' @ Itoa (int (length key)))"

text \<open>\<open>nonce\<close> stands for the random bytes; the cipher text follows it.\<close>

definition Encrypt :: "gcm \<Rightarrow> string \<Rightarrow> string \<Rightarrow> string \<Rightarrow> go_error + string" where
  "Encrypt g nonce plaintext key =
     (if length key \<noteq> 32 then Inl (bad_key key) else Inr (nonce @ g_seal g key nonce plaintext))"

definition Decrypt :: "gcm \<Rightarrow> string \<Rightarrow> string \<Rightarrow> go_error + string" where
  "Decrypt g ciphertext key =
     (if length key \<noteq> 32 then Inl (bad_key key)
      else if length ciphertext < nonce_size then Inl (ErrText ''ciphertext too short'')
      else case g_open g key (take nonce_size ciphertext) (drop nonce_size ciphertext) of
        None \<Rightarrow> Inl (ErrText ''decrypt: cipher: message authentication failed'')
      | Some plaintext \<Rightarrow> Inr plaintext)"

definition EncryptionKeyBytes :: "string \<Rightarrow> go_error + string" where
  "EncryptionKeyBytes key =
     (if length key \<noteq> 32
      then Inl (ErrText (''encryption key must be exactly 32 bytes, got '' @ Itoa (int (length key))))
      else Inr key)"

section \<open>Queries\<close>

record secret_view =
  sy_id :: string
  sy_workspace_id :: string
  sy_name :: string
  sy_created_at :: instant
  sy_updated_at :: instant

definition view_secret :: "workspace_secret \<Rightarrow> secret_view" where
  "view_secret x =
     \<lparr>sy_id = sx_id x, sy_workspace_id = sx_workspace_id x, sy_name = sx_name x,
      sy_created_at = sx_created_at x, sy_updated_at = sx_updated_at x\<rparr>"

definition CreateSecret :: "env \<Rightarrow> workspace_secret \<Rightarrow> world \<Rightarrow> secret_view answer \<times> world" where
  "CreateSecret e x w = returning (view_secret x) (db_exec e ''CreateSecret''
     (credential_violation ''workspace_secrets'' sx_id sx_workspace_id sx_name (w_secrets w) w x)
     (\<lambda>w. w\<lparr>w_secrets := w_secrets w @ [x]\<rparr>) w)"

definition DeleteSecret :: "env \<Rightarrow> string \<Rightarrow> string \<Rightarrow> world \<Rightarrow> int answer \<times> world" where
  "DeleteSecret e ws name w =
     (let P = \<lambda>x. sx_workspace_id x = ws \<and> sx_name x = name
      in deleting e ''DeleteSecret'' P (w_secrets w)
           (\<lambda>w. w\<lparr>w_secrets := filter (\<lambda>x. \<not> P x) (w_secrets w)\<rparr>) w)"

definition GetSecret :: "env \<Rightarrow> string \<Rightarrow> string \<Rightarrow> world \<Rightarrow> workspace_secret answer" where
  "GetSecret e ws name w = db_read e ''GetSecret'' (one_row
     (List.find (\<lambda>x. sx_workspace_id x = ws \<and> sx_name x = name) (w_secrets w)))"

definition ListSecretsByWorkspace ::
  "(string \<Rightarrow> nat) \<Rightarrow> env \<Rightarrow> string \<Rightarrow> world \<Rightarrow> secret_view list answer" where
  "ListSecretsByWorkspace coll e ws w = db_read e ''ListSecretsByWorkspace''
     (Inr (map view_secret (sort_key (\<lambda>x. coll (sx_name x))
        (filter (\<lambda>x. sx_workspace_id x = ws) (w_secrets w)))))"

definition UpdateSecret :: "env \<Rightarrow> string \<Rightarrow> string \<Rightarrow> string \<Rightarrow> world \<Rightarrow> go_error option \<times> world" where
  "UpdateSecret e ws name enc = db_exec e ''UpdateSecret'' None
     (\<lambda>w. w\<lparr>w_secrets := update_where (\<lambda>x. sx_workspace_id x = ws \<and> sx_name x = name)
        (\<lambda>x. x\<lparr>sx_value_enc := enc, sx_updated_at := e_db_now e\<rparr>) (w_secrets w)\<rparr>)"

section \<open>Handlers\<close>

definition Service_ListSecrets ::
  "(string \<Rightarrow> nat) \<Rightarrow> env \<Rightarrow> request_ctx \<Rightarrow> world \<Rightarrow> (secret_view list \<times> int) reply" where
  "Service_ListSecrets coll e ctx w =
     (case ListSecretsByWorkspace coll e (ctx_WorkspaceID ctx) w of
        Inl _ \<Rightarrow> writeError 500 ''INTERNAL_ERROR'' ''Failed to list secrets'' []
      | Inr secrets \<Rightarrow> writeJSON 200 (secrets, int (length secrets)))"

text \<open>\<open>key\<close> is the key the service was given, \<open>nonce\<close> the random bytes of this request.\<close>

definition Service_CreateSecret ::
  "gcm \<Rightarrow> string \<Rightarrow> string \<Rightarrow> env \<Rightarrow> request_ctx \<Rightarrow> (string \<times> string) option \<Rightarrow> world \<Rightarrow>
   secret_view reply \<times> world" where
  "Service_CreateSecret g key nonce e ctx body w =
     (case body of
        None \<Rightarrow> (writeError 400 ''VALIDATION_ERROR'' ''name and value are required'' [], w)
      | Some (name, val) \<Rightarrow>
          if name = [] \<or> val = [] then
            (writeError 400 ''VALIDATION_ERROR'' ''name and value are required'' [], w)
          else case Encrypt g nonce val key of
            Inl _ \<Rightarrow> (writeError 500 ''INTERNAL_ERROR'' ''Failed to encrypt secret'' [], w)
          | Inr encrypted \<Rightarrow>
              (case id_New e ''sec_'' w of (sid, w1) \<Rightarrow>
                 (case CreateSecret e
                         \<lparr>sx_id = sid, sx_workspace_id = ctx_WorkspaceID ctx, sx_name = name,
                          sx_value_enc = encrypted, sx_created_at = e_db_now e, sx_updated_at = e_db_now e\<rparr> w1 of
                    (Inl _, w2) \<Rightarrow> (writeError 409 ''CONFLICT'' ''Secret with this name already exists'' [], w2)
                  | (Inr secret, w2) \<Rightarrow> (writeJSON 201 secret, w2))))"

definition Service_UpdateSecret ::
  "gcm \<Rightarrow> string \<Rightarrow> string \<Rightarrow> env \<Rightarrow> request_ctx \<Rightarrow> string \<Rightarrow> string option \<Rightarrow> world \<Rightarrow>
   string reply \<times> world" where
  "Service_UpdateSecret g key nonce e ctx name body w =
     (case body of
        None \<Rightarrow> (writeError 400 ''VALIDATION_ERROR'' ''value is required'' [], w)
      | Some val \<Rightarrow>
          if val = [] then (writeError 400 ''VALIDATION_ERROR'' ''value is required'' [], w)
          else case Encrypt g nonce val key of
            Inl _ \<Rightarrow> (writeError 500 ''INTERNAL_ERROR'' ''Failed to encrypt secret'' [], w)
          | Inr encrypted \<Rightarrow>
              (case UpdateSecret e (ctx_WorkspaceID ctx) name encrypted w of
                 (Some _, w1) \<Rightarrow> (writeError 404 ''NOT_FOUND'' ''Secret not found'' [], w1)
               | (None, w1) \<Rightarrow> (writeJSON 200 ''updated'', w1)))"

definition Service_DeleteSecret ::
  "env \<Rightarrow> request_ctx \<Rightarrow> string \<Rightarrow> world \<Rightarrow> unit reply \<times> world" where
  "Service_DeleteSecret e ctx name w =
     deleted_reply ''Secret not found'' (DeleteSecret e (ctx_WorkspaceID ctx) name w)"

end
