(* ===== verification/Artifacts.thy ===== *)
theory Artifacts
  imports Run_Queries Vault
begin

text \<open>
  Files attached to runs: the storage of \<open>internal/storage/storage.go\<close>, the queries of
  \<open>internal/db/artifacts.sql.go\<close> and the handlers. The contract of a storage is the locale \<open>artifact_store\<close>;
  the local one, which \<open>main.go\<close> installs, keeps files by their cleaned path. The state is the database, the
  table of artifacts and the files.
\<close>

section \<open>Paths\<close>

text \<open>\<open>filepath.Clean\<close> on the components of a path; the components kept so far come last first.\<close>

fun clean_walk :: "bool \<Rightarrow> string list \<Rightarrow> string list \<Rightarrow> string list" where
  "clean_walk rooted out [] = rev out"
| "clean_walk rooted out (c # cs) =
     (if c = [] \<or> c = ''.'' then clean_walk rooted out cs
      else if c = ''..'' then
        (case out of
           [] \<Rightarrow> clean_walk rooted (if rooted then [] else [''..'']) cs
         | d # ds \<Rightarrow> clean_walk rooted (if d = ''..'' then ''..'' # out else ds) cs)
      else clean_walk rooted (c # out) cs)"

definition filepath_Clean :: "string \<Rightarrow> string" where
  "filepath_Clean path =
     (if path = [] then ''.''
      else let rooted = (hd path = CHR ''/'');
               cs = clean_walk rooted [] (strings_Split (CHR ''/'') path)
           in if rooted then CHR ''/'' # strings_Join (CHR ''/'') cs
              else if cs = [] then ''.'' else strings_Join (CHR ''/'') cs)"

text \<open>\<open>filepath.Join(base, key)\<close>\<close>

definition filepath_Join :: "string \<Rightarrow> string \<Rightarrow> string" where
  "filepath_Join base key =
     (if base \<noteq> [] then filepath_Clean (base @ CHR ''/'' # key)
      else if key \<noteq> [] then filepath_Clean key else [])"

section \<open>Storage\<close>

text \<open>The operations of \<open>Backend\<close> on a state of files.\<close>

record 'f backend =
  bk_Upload :: "string \<Rightarrow> string \<Rightarrow> 'f \<Rightarrow> go_error option \<times> 'f"
  bk_Download :: "string \<Rightarrow> 'f \<Rightarrow> go_error + string"
  bk_Delete :: "string \<Rightarrow> 'f \<Rightarrow> go_error option \<times> 'f"
  bk_GetURL :: "string \<Rightarrow> string"

type_synonym files = "string \<Rightarrow> string option"

text \<open>
  \<open>os\<close> is the error of the operating system for an operation on a path; when copying fails, \<open>written\<close> bytes
  are in the file.
\<close>

definition NewLocalBackend ::
  "(string \<Rightarrow> string \<Rightarrow> go_error option) \<Rightarrow> (string \<Rightarrow> nat) \<Rightarrow> string \<Rightarrow> files backend" where
  "NewLocalBackend os written base =
     \<lparr>bk_Upload = (\<lambda>key data fs.
        let path = filepath_Join base key
        in case os ''mkdir'' path of
             Some err \<Rightarrow> (Some err, fs)
           | None \<Rightarrow>
               (case os ''create'' path of
                  Some err \<Rightarrow> (Some err, fs)
                | None \<Rightarrow>
                    (case os ''copy'' path of
                       Some err \<Rightarrow> (Some err, fs(path \<mapsto> take (written path) data))
                     | None \<Rightarrow> (None, fs(path \<mapsto> data))))),
      bk_Download = (\<lambda>key fs.
        let path = filepath_Join base key
        in case os ''open'' path of
             Some err \<Rightarrow> Inl err
           | None \<Rightarrow> (case fs path of
               None \<Rightarrow> Inl (ErrText (''open '' @ path @ '': no such file or directory'')) | Some data \<Rightarrow> Inr data)),
      bk_Delete = (\<lambda>key fs.
        let path = filepath_Join base key
        in case os ''remove'' path of
             Some err \<Rightarrow> (Some err, fs)
           | None \<Rightarrow> (case fs path of
               None \<Rightarrow> (Some (ErrText (''remove '' @ path @ '': no such file or directory'')), fs)
             | Some _ \<Rightarrow> (None, fs(path := None)))),
      bk_GetURL = (\<lambda>key. ''/artifacts/'' @ key)\<rparr>"

text \<open>The client of the object store is a parameter: what it answers to the three requests on a bucket.\<close>

record 'f s3_client =
  s3_PutObject :: "string \<Rightarrow> string \<Rightarrow> string \<Rightarrow> 'f \<Rightarrow> go_error option \<times> 'f"
  s3_GetObject :: "string \<Rightarrow> string \<Rightarrow> 'f \<Rightarrow> go_error + string"
  s3_DeleteObject :: "string \<Rightarrow> string \<Rightarrow> 'f \<Rightarrow> go_error option \<times> 'f"

definition NewS3Backend :: "'f s3_client \<Rightarrow> string \<Rightarrow> string \<Rightarrow> 'f backend" where
  "NewS3Backend client bucket endpoint =
     \<lparr>bk_Upload = s3_PutObject client bucket, bk_Download = s3_GetObject client bucket,
      bk_Delete = s3_DeleteObject client bucket,
      bk_GetURL = (\<lambda>key. endpoint @ ''/'' @ bucket @ ''/'' @ key)\<rparr>"

section \<open>Queries\<close>

record run_artifact =
  ra_art_id :: string
  ra_art_run_id :: string
  ra_art_workspace_id :: string
  ra_art_name :: string
  ra_art_content_type :: "string option"
  ra_art_size_bytes :: "int option"
  ra_art_storage_key :: string
  ra_art_created_at :: instant

record 'f artifact_state =
  ar_world :: world
  ar_artifacts :: "run_artifact list"
  ar_files :: 'f

definition artifact_violation :: "run_artifact \<Rightarrow> 'f artifact_state \<Rightarrow> go_error option" where
  "artifact_violation a st = first_violation
     [(has_key ra_art_id (ra_art_id a) (ar_artifacts st), unique_violation ''run_artifacts_pkey''),
      (\<exists>b\<in>set (ar_artifacts st). ra_art_run_id b = ra_art_run_id a \<and> ra_art_name b = ra_art_name a,
       unique_violation ''run_artifacts_run_id_name_key''),
      (\<not> has_key r_id (ra_art_run_id a) (w_runs (ar_world st)),
       foreign_key_violation ''run_artifacts_run_id_fkey'')]"

definition CreateArtifact ::
  "env \<Rightarrow> run_artifact \<Rightarrow> 'f artifact_state \<Rightarrow> run_artifact answer \<times> 'f artifact_state" where
  "CreateArtifact e a st =
     (case e_fault e ''CreateArtifact'' of
        Some err \<Rightarrow> (Inl err, st)
      | None \<Rightarrow>
          (case artifact_violation a st of
             Some err \<Rightarrow> (Inl err, st)
           | None \<Rightarrow> (Inr a, st\<lparr>ar_artifacts := ar_artifacts st @ [a]\<rparr>)))"

definition DeleteArtifact ::
  "env \<Rightarrow> string \<Rightarrow> string \<Rightarrow> 'f artifact_state \<Rightarrow> int answer \<times> 'f artifact_state" where
  "DeleteArtifact e runID name st =
     (let P = \<lambda>a. ra_art_run_id a = runID \<and> ra_art_name a = name
      in case e_fault e ''DeleteArtifact'' of
           Some err \<Rightarrow> (Inl err, st)
         | None \<Rightarrow> (Inr (int (length (filter P (ar_artifacts st)))),
             st\<lparr>ar_artifacts := filter (\<lambda>a. \<not> P a) (ar_artifacts st)\<rparr>))"

definition GetArtifact :: "env \<Rightarrow> string \<Rightarrow> string \<Rightarrow> 'f artifact_state \<Rightarrow> run_artifact answer" where
  "GetArtifact e runID name st = db_read e ''GetArtifact'' (one_row
     (List.find (\<lambda>a. ra_art_run_id a = runID \<and> ra_art_name a = name) (ar_artifacts st)))"

record artifact_view =
  av_id :: string
  av_run_id :: string
  av_name :: string
  av_content_type :: "string option"
  av_size_bytes :: "int option"
  av_created_at :: instant

definition view_artifact :: "run_artifact \<Rightarrow> artifact_view" where
  "view_artifact a =
     \<lparr>av_id = ra_art_id a, av_run_id = ra_art_run_id a, av_name = ra_art_name a,
      av_content_type = ra_art_content_type a, av_size_bytes = ra_art_size_bytes a,
      av_created_at = ra_art_created_at a\<rparr>"

definition ListArtifactsByRun :: "env \<Rightarrow> string \<Rightarrow> 'f artifact_state \<Rightarrow> artifact_view list answer" where
  "ListArtifactsByRun e runID st = db_read e ''ListArtifactsByRun'' (Inr (map view_artifact
     (sort_key ra_art_created_at (filter (\<lambda>a. ra_art_run_id a = runID) (ar_artifacts st)))))"

section \<open>Handlers\<close>

record uploaded_file =
  uf_Filename :: string
  uf_Content_Type :: string
  uf_Size :: int
  uf_data :: string

definition storage_key :: "string \<Rightarrow> string \<Rightarrow> string \<Rightarrow> bool \<Rightarrow> run answer \<Rightarrow> string" where
  "storage_key ws runID name shared run =
     (let plain = ws @ ''/'' @ runID @ ''/'' @ name
      in case run of
           Inl _ \<Rightarrow> plain
         | Inr r \<Rightarrow>
             (case r_orchestra_id r of
                None \<Rightarrow> plain
              | Some oid \<Rightarrow>
                  if oid = [] then plain
                  else if shared then ws @ ''/'' @ oid @ ''/shared/'' @ name
                  else ws @ ''/'' @ oid @ ''/'' @ runID @ ''/'' @ name))"

text \<open>\<open>form_name\<close> is the field of the form that replaces the name of the file.\<close>

definition Service_UploadArtifact ::
  "'f backend option \<Rightarrow> env \<Rightarrow> request_ctx \<Rightarrow> string \<Rightarrow> uploaded_file option \<Rightarrow> string \<Rightarrow> bool \<Rightarrow>
   'f artifact_state \<Rightarrow> run_artifact reply \<times> 'f artifact_state" where
  "Service_UploadArtifact store e ctx runID file form_name shared st =
     (case file of
        None \<Rightarrow> (writeError 400 ''VALIDATION_ERROR'' ''file is required (multipart form)'' [], st)
      | Some h \<Rightarrow>
          let ws = ctx_WorkspaceID ctx; name = (if form_name \<noteq> [] then form_name else uf_Filename h);
              key = storage_key ws runID name shared (GetRun e runID ws (ar_world st));
              ct = (if uf_Content_Type h = [] then ''application/octet-stream'' else uf_Content_Type h)
          in (case store of
                None \<Rightarrow> (writeError 501 ''NOT_IMPLEMENTED'' ''Artifact storage not configured''
                          ''Set CC_ARTIFACTS_BACKEND'', st)
              | Some b \<Rightarrow>
                  (case bk_Upload b key (uf_data h) (ar_files st) of
                     (Some err, fs) \<Rightarrow>
                       (writeError 500 ''INTERNAL_ERROR'' ''Failed to upload artifact'' (Error err), st\<lparr>ar_files := fs\<rparr>)
                   | (None, fs) \<Rightarrow>
                       (case id_New e ''art_'' (ar_world st) of (aid, w1) \<Rightarrow>
                          (case CreateArtifact e
                                  \<lparr>ra_art_id = aid, ra_art_run_id = runID, ra_art_workspace_id = ws, ra_art_name = name,
                                   ra_art_content_type = Some ct, ra_art_size_bytes = Some (uf_Size h),
                                   ra_art_storage_key = key, ra_art_created_at = e_db_now e\<rparr>
                                  (st\<lparr>ar_world := w1, ar_files := fs\<rparr>) of
                             (Inl err, st1) \<Rightarrow>
                               (writeError 500 ''INTERNAL_ERROR'' ''Failed to save artifact metadata'' (Error err), st1)
                           | (Inr a, st1) \<Rightarrow> (writeJSON 201 a, st1))))))"

definition Service_ListArtifacts ::
  "env \<Rightarrow> string \<Rightarrow> 'f artifact_state \<Rightarrow> (artifact_view list \<times> int) reply" where
  "Service_ListArtifacts e runID st =
     (case ListArtifactsByRun e runID st of
        Inl _ \<Rightarrow> writeError 500 ''INTERNAL_ERROR'' ''Failed to list artifacts'' []
      | Inr artifacts \<Rightarrow> writeJSON 200 (artifacts, int (length artifacts)))"

text \<open>Content type, name of the attachment and data.\<close>

definition Service_DownloadArtifact ::
  "'f backend option \<Rightarrow> env \<Rightarrow> string \<Rightarrow> string \<Rightarrow> 'f artifact_state \<Rightarrow>
   (string option \<times> string \<times> string) reply" where
  "Service_DownloadArtifact store e runID name st =
     (case GetArtifact e runID name st of
        Inl _ \<Rightarrow> writeError 404 ''NOT_FOUND'' ''Artifact not found'' []
      | Inr a \<Rightarrow>
          (case store of
             None \<Rightarrow> writeError 501 ''NOT_IMPLEMENTED'' ''Artifact storage not configured'' []
           | Some b \<Rightarrow>
               (case bk_Download b (ra_art_storage_key a) (ar_files st) of
                  Inl err \<Rightarrow> writeError 500 ''INTERNAL_ERROR'' ''Failed to download artifact'' (Error err)
                | Inr data \<Rightarrow> Data 200 (ra_art_content_type a, name, data))))"


section \<open>The contract of a storage\<close>

text \<open>
  What was uploaded under a key is downloaded under it; \<open>readable\<close> are the keys whose files can be
  opened.
\<close>

locale artifact_store =
  fixes store :: "'f backend"
    and readable :: "string \<Rightarrow> bool"
  assumes upload_download:
    "bk_Upload store key data fs = (None, fs1) \<Longrightarrow> readable key \<Longrightarrow> bk_Download store key fs1 = Inr data"

lemma upload_answers:
  assumes "Service_UploadArtifact (Some b) e ctx runID (Some h) form_name shared st = (Data 201 a, st1)"
  obtains fs where
    "bk_Upload b (ra_art_storage_key a) (uf_data h) (ar_files st) = (None, fs)"
    "ar_files st1 = fs" "ar_artifacts st1 = ar_artifacts st @ [a]"
    "\<not> (\<exists>c\<in>set (ar_artifacts st). ra_art_run_id c = ra_art_run_id a \<and> ra_art_name c = ra_art_name a)"
    "ra_art_run_id a = runID" "ra_art_name a = (if form_name \<noteq> [] then form_name else uf_Filename h)"
    "ra_art_content_type a =
       Some (if uf_Content_Type h = [] then ''application/octet-stream'' else uf_Content_Type h)"
proof -
  define key where "key = storage_key (ctx_WorkspaceID ctx) runID
    (if form_name \<noteq> [] then form_name else uf_Filename h) shared (GetRun e runID (ctx_WorkspaceID ctx) (ar_world st))"
  obtain r fs where up: "bk_Upload b key (uf_data h) (ar_files st) = (r, fs)" by fastforce
  obtain aid w1 where i: "id_New e ''art_'' (ar_world st) = (aid, w1)" by fastforce
  have "r = None"
    using assms up unfolding Service_UploadArtifact_def Let_def option.case key_def [symmetric]
    by (cases r) (simp_all add: writeError_def)
  then show thesis
    using assms up i that
    unfolding Service_UploadArtifact_def Let_def option.case key_def [symmetric]
    by (auto simp: CreateArtifact_def artifact_violation_def writeError_def writeJSON_def
          split: option.splits if_splits)
qed

context artifact_store
begin

lemma uploaded_is_downloaded:
  assumes up: "Service_UploadArtifact (Some store) e ctx runID (Some h) form_name shared st = (Data 201 a, st1)"
    and readable: "readable (ra_art_storage_key a)" and fine: "e_fault e' ''GetArtifact'' = None"
  shows "Service_DownloadArtifact (Some store) e' runID (ra_art_name a) st1 =
    Data 200 (ra_art_content_type a, ra_art_name a, uf_data h)"
  using up
proof (rule upload_answers)
  fix fs
  assume u: "bk_Upload store (ra_art_storage_key a) (uf_data h) (ar_files st) = (None, fs)"
    and f: "ar_files st1 = fs" and rows: "ar_artifacts st1 = ar_artifacts st @ [a]"
    and new: "\<not> (\<exists>c\<in>set (ar_artifacts st). ra_art_run_id c = ra_art_run_id a \<and> ra_art_name c = ra_art_name a)"
    and r: "ra_art_run_id a = runID"
  have "List.find (\<lambda>c. ra_art_run_id c = runID \<and> ra_art_name c = ra_art_name a) (ar_artifacts st1) = Some a"
    unfolding rows using new r by (intro find_new) auto
  then have "GetArtifact e' runID (ra_art_name a) st1 = Inr a"
    using fine by (simp add: GetArtifact_def db_read_def one_row_def)
  moreover have "bk_Download store (ra_art_storage_key a) fs = Inr (uf_data h)"
    using u readable by (rule upload_download)
  ultimately show ?thesis by (simp add: Service_DownloadArtifact_def f)
qed

end

interpretation local_store: artifact_store "NewLocalBackend os written base"
  "\<lambda>key. os ''open'' (filepath_Join base key) = None"
  for os written base
  by unfold_locales (auto simp: NewLocalBackend_def Let_def split: option.splits)

end
