(* ===== verification/Webhook_Handlers.thy ===== *)
theory Webhook_Handlers
  imports Notifier Vault
begin

text \<open>
  Webhook subscriptions: the queries of \<open>internal/db/webhooks.sql.go\<close> the notifier does not use, and the
  handlers. What the other side answers to a test delivery is a parameter.
\<close>

section \<open>Queries\<close>

definition CreateWebhookSubscription ::
  "env \<Rightarrow> string \<Rightarrow> string \<Rightarrow> string \<Rightarrow> string \<Rightarrow> string list option \<Rightarrow> notifier_state \<Rightarrow>
   webhook_subscription answer \<times> notifier_state" where
  "CreateWebhookSubscription e sid ws url secret event_types s =
     (let row = \<lparr>ws_id = sid, ws_workspace_id = ws, ws_url = url, ws_secret = secret,
            ws_event_types = (case event_types of None \<Rightarrow> [] | Some ts \<Rightarrow> ts), ws_enabled = True,
            ws_consecutive_failures = 0, ws_auto_disabled = False, ws_last_delivery_at = None,
            ws_last_failure_at = None, ws_created_at = e_db_now e, ws_updated_at = e_db_now e\<rparr>
      in case e_fault e ''CreateWebhookSubscription'' of
           Some err \<Rightarrow> (Inl err, s)
         | None \<Rightarrow>
             (case first_violation
                     [(event_types = None, not_null_violation ''event_types''),
                      (has_key ws_id sid (ns_subs s), unique_violation ''webhook_subscriptions_pkey''),
                      (\<not> has_key wsp_id ws (w_workspaces (ns_world s)),
                       foreign_key_violation ''webhook_subscriptions_workspace_id_fkey'')] of
                Some err \<Rightarrow> (Inl err, s)
              | None \<Rightarrow> (Inr row, s\<lparr>ns_subs := ns_subs s @ [row]\<rparr>)))"

definition DeleteWebhookSubscription ::
  "env \<Rightarrow> string \<Rightarrow> string \<Rightarrow> notifier_state \<Rightarrow> int answer \<times> notifier_state" where
  "DeleteWebhookSubscription e sid ws s =
     (let P = \<lambda>x. ws_id x = sid \<and> ws_workspace_id x = ws
      in case e_fault e ''DeleteWebhookSubscription'' of
           Some err \<Rightarrow> (Inl err, s)
         | None \<Rightarrow> (Inr (int (length (filter P (ns_subs s)))), s\<lparr>ns_subs := filter (\<lambda>x. \<not> P x) (ns_subs s)\<rparr>))"

definition GetWebhookSubscription ::
  "env \<Rightarrow> string \<Rightarrow> string \<Rightarrow> notifier_state \<Rightarrow> webhook_subscription answer" where
  "GetWebhookSubscription e sid ws s = db_read e ''GetWebhookSubscription'' (one_row
     (List.find (\<lambda>x. ws_id x = sid \<and> ws_workspace_id x = ws) (ns_subs s)))"

definition ListWebhookSubscriptionsByWorkspace ::
  "env \<Rightarrow> string \<Rightarrow> notifier_state \<Rightarrow> webhook_subscription list answer" where
  "ListWebhookSubscriptionsByWorkspace e ws s = db_read e ''ListWebhookSubscriptionsByWorkspace''
     (Inr (sort_key ws_created_at (filter (\<lambda>x. ws_workspace_id x = ws) (ns_subs s))))"

section \<open>Handlers\<close>

definition Service_ListWebhookSubscriptions ::
  "env \<Rightarrow> request_ctx \<Rightarrow> notifier_state \<Rightarrow> (webhook_subscription list \<times> int) reply" where
  "Service_ListWebhookSubscriptions e ctx s =
     (case ListWebhookSubscriptionsByWorkspace e (ctx_WorkspaceID ctx) s of
        Inl _ \<Rightarrow> writeError 500 ''INTERNAL_ERROR'' ''Failed to list webhooks'' []
      | Inr subs \<Rightarrow> writeJSON 200 (subs, int (length subs)))"

record create_webhook_request =
  cwh_url :: string
  cwh_secret :: string
  cwh_event_types :: "string list option"

text \<open>Event types that are missing or \<open>null\<close> are a nil slice, which is written as NULL.\<close>

definition Service_CreateWebhookSubscription ::
  "env \<Rightarrow> request_ctx \<Rightarrow> create_webhook_request option \<Rightarrow> notifier_state \<Rightarrow>
   webhook_subscription reply \<times> notifier_state" where
  "Service_CreateWebhookSubscription e ctx body s =
     (case body of
        None \<Rightarrow> (writeError 400 ''VALIDATION_ERROR'' ''url is required'' [], s)
      | Some q \<Rightarrow>
          if cwh_url q = [] then (writeError 400 ''VALIDATION_ERROR'' ''url is required'' [], s)
          else case id_New e ''whs_'' (ns_world s) of (sid, w1) \<Rightarrow>
            (case CreateWebhookSubscription e sid (ctx_WorkspaceID ctx) (cwh_url q) (cwh_secret q)
                    (cwh_event_types q) (s\<lparr>ns_world := w1\<rparr>) of
               (Inl err, s1) \<Rightarrow> (writeError 500 ''INTERNAL_ERROR'' ''Failed to create webhook'' (Error err), s1)
             | (Inr sub, s1) \<Rightarrow> (writeJSON 201 sub, s1)))"

definition Service_DeleteWebhookSubscription ::
  "env \<Rightarrow> request_ctx \<Rightarrow> string \<Rightarrow> notifier_state \<Rightarrow> unit reply \<times> notifier_state" where
  "Service_DeleteWebhookSubscription e ctx subID s =
     (case DeleteWebhookSubscription e subID (ctx_WorkspaceID ctx) s of
        (Inl _, s1) \<Rightarrow> (writeError 404 ''NOT_FOUND'' ''Webhook subscription not found'' [], s1)
      | (Inr n, s1) \<Rightarrow>
          (if n = 0 then writeError 404 ''NOT_FOUND'' ''Webhook subscription not found'' [] else Status 204, s1))"

text \<open>
  The test delivery: \<open>body_of\<close> is the text of the test event for a workspace and a subscription,
  \<open>sign\<close> the signature, \<open>post\<close> the answer. The address is not checked.
\<close>

datatype test_outcome = NotDelivered string | Answered bool int

definition Service_TestWebhookDelivery ::
  "(string \<Rightarrow> string \<Rightarrow> instant \<Rightarrow> string) \<Rightarrow> (string \<Rightarrow> string \<Rightarrow> string) \<Rightarrow> (string \<Rightarrow> bool) \<Rightarrow>
   (webhook_request \<Rightarrow> go_error + int) \<Rightarrow> env \<Rightarrow> request_ctx \<Rightarrow> string \<Rightarrow> notifier_state \<Rightarrow>
   test_outcome reply \<times> notifier_state" where
  "Service_TestWebhookDelivery body_of sign request_ok post e ctx subID s =
     (case GetWebhookSubscription e subID (ctx_WorkspaceID ctx) s of
        Inl _ \<Rightarrow> (writeError 404 ''NOT_FOUND'' ''Webhook subscription not found'' [], s)
      | Inr sub \<Rightarrow>
          let body = body_of (ctx_WorkspaceID ctx) (ws_id sub) (e_now e)
          in if \<not> request_ok (ws_url sub) then
               (writeError 500 ''INTERNAL_ERROR'' ''Failed to create request'' [], s)
             else case id_New e ''dlv_'' (ns_world s) of (did, w1) \<Rightarrow>
               let req = \<lparr>wr_url = ws_url sub, wr_body = body, wr_signature = sign (ws_secret sub) body,
                          wr_timestamp = e_now e, wr_delivery_id = did\<rparr>
               in (writeJSON 200 (case post req of
                     Inl err \<Rightarrow> NotDelivered (Error err)
                   | Inr code \<Rightarrow> Answered (200 \<le> code \<and> code < 300) code),
                   s\<lparr>ns_world := w1, ns_sent := ns_sent s @ [req]\<rparr>))"

end
