(* ===== verification/Vault_Properties.thy ===== *)
theory Vault_Properties
  imports Artifacts Webhook_Handlers Samples
begin

text \<open>
  What the credentials, the secrets, the files and the subscriptions of a workspace promise, with the
  parts of their handlers that do not keep it.
\<close>

section \<open>Paths\<close>

lemma Split_append_sep: "strings_Split c (a @ c # b) = strings_Split c a @ strings_Split c b"
  by (induction a) (auto split: list.splits)

lemma Split_plain: "c \<notin> set p \<Longrightarrow> strings_Split c p = [p]"
  by (induction p) auto

lemma Split_Join:
  assumes "ps \<noteq> []" "\<forall>p\<in>set ps. c \<notin> set p"
  shows "strings_Split c (strings_Join c ps) = ps"
  using assms
proof (induction ps rule: induct_list012)
  case (3 p q ps)
  then show ?case by (simp add: Split_append_sep Split_plain)
qed (simp_all add: Split_plain)

definition plain_part :: "string \<Rightarrow> bool" where
  "plain_part c \<longleftrightarrow> c \<noteq> [] \<and> c \<noteq> ''.'' \<and> c \<noteq> ''..'' \<and> CHR ''/'' \<notin> set c"

lemma walk_plain:
  "\<forall>c\<in>set ts. plain_part c \<Longrightarrow> clean_walk rooted out ts = rev out @ ts"
  by (induction ts arbitrary: out) (auto simp: plain_part_def)

text \<open>Without \<open>..\<close> the walk only collects parts.\<close>

lemma walk_collects:
  assumes "''..'' \<notin> set xs"
  shows "\<exists>out'. \<forall>ys. clean_walk rooted out (xs @ ys) = clean_walk rooted (out' @ out) ys \<and> ''..'' \<notin> set out'"
  using assms
proof (induction xs arbitrary: out)
  case (Cons x xs)
  show ?case
  proof (cases "x = [] \<or> x = ''.''")
    case True
    then show ?thesis using Cons by auto
  next
    case False
    obtain out' where "\<forall>ys. clean_walk rooted (x # out) (xs @ ys) = clean_walk rooted (out' @ x # out) ys \<and>
        ''..'' \<notin> set out'"
      using Cons by fastforce
    then show ?thesis using False Cons.prems by (intro exI[of _ "out' @ [x]"]) auto
  qed
qed (auto intro: exI[of _ "[]"])

text \<open>As many \<open>..\<close> as there are parts lead out of them.\<close>

lemma walk_leaves:
  "''..'' \<notin> set out \<Longrightarrow>
   clean_walk rooted out (replicate (length out) ''..'' @ ys) = clean_walk rooted [] ys"
  by (induction out) auto

lemma walk_up:
  "clean_walk False (replicate m ''..'') (replicate k ''..'' @ ys) = clean_walk False (replicate (k + m) ''..'') ys"
proof (induction k arbitrary: m)
  case (Suc k)
  show ?case
  proof (cases m)
    case 0
    then show ?thesis using Suc[of 1] by simp
  next
    case (Suc n)
    then show ?thesis using Suc.IH[of "Suc m"] by simp
  qed
qed simp

lemma climbing_path:
  assumes "''..'' \<notin> set xs" "\<forall>c\<in>set ts. plain_part c"
  obtains n where "clean_walk False [] (xs @ replicate n ''..'' @ ts) = replicate k ''..'' @ ts"
proof -
  obtain out where out: "\<And>ys. clean_walk False [] (xs @ ys) = clean_walk False out ys" "''..'' \<notin> set out"
    using walk_collects[OF assms(1), of False "[]"] by auto
  have "clean_walk False [] (xs @ replicate (length out + k) ''..'' @ ts) = replicate k ''..'' @ ts"
    using walk_leaves[OF out(2), of False "replicate k ''..'' @ ts"] walk_up[of 0 k ts]
    by (simp add: out(1) replicate_add walk_plain[OF assms(2)])
  then show thesis by (rule that)
qed

text \<open>The name of an artifact that leads from below a relative base to any path.\<close>

lemma climbing_name:
  assumes base: "base \<noteq> []" "hd base \<noteq> CHR ''/''" "''..'' \<notin> set (strings_Split (CHR ''/'') base)"
    and parts: "''..'' \<notin> set (strings_Split (CHR ''/'') ws)" "''..'' \<notin> set (strings_Split (CHR ''/'') runID)"
    and ts: "ts \<noteq> []" "\<forall>c\<in>set ts. plain_part c"
  obtains name where "name \<noteq> []"
    "filepath_Join base (ws @ ''/'' @ runID @ ''/'' @ name) = strings_Join (CHR ''/'') (replicate k ''..'' @ ts)"
proof -
  let ?s = "strings_Split (CHR ''/'')"
  obtain n where n: "clean_walk False [] ((?s base @ ?s ws @ ?s runID) @ replicate n ''..'' @ ts) =
      replicate k ''..'' @ ts"
    using climbing_path[of "?s base @ ?s ws @ ?s runID" ts k] base(3) parts ts(2) by auto
  define name where "name = strings_Join (CHR ''/'') (replicate n ''..'' @ ts)"
  have s: "?s name = replicate n ''..'' @ ts"
    unfolding name_def
  proof (rule Split_Join)
    show "replicate n ''..'' @ ts \<noteq> []" using ts(1) by simp
    have "CHR ''/'' \<notin> set ''..''" by simp
    moreover have "\<forall>p\<in>set ts. CHR ''/'' \<notin> set p" using ts(2) unfolding plain_part_def by blast
    ultimately show "\<forall>p\<in>set (replicate n ''..'' @ ts). CHR ''/'' \<notin> set p"
      by (metis Un_iff in_set_replicate set_append)
  qed
  have "?s (base @ CHR ''/'' # ws @ ''/'' @ runID @ ''/'' @ name) =
      (?s base @ ?s ws @ ?s runID) @ replicate n ''..'' @ ts"
    by (simp add: Split_append_sep s)
  then have "filepath_Join base (ws @ ''/'' @ runID @ ''/'' @ name) =
      strings_Join (CHR ''/'') (replicate k ''..'' @ ts)"
    using base(1,2) n ts(1) by (simp add: filepath_Join_def filepath_Clean_def)
  moreover have "name \<noteq> []"
  proof
    assume "name = []"
    then have "[] \<in> set (replicate n ''..'' @ ts)" using s by (metis list.set_intros(1) strings_Split.simps(1))
    then show False using ts(2) by (auto simp: plain_part_def)
  qed
  ultimately show thesis by (rule that[rotated])
qed


section \<open>Artifacts\<close>

definition uploaded_name :: "uploaded_file \<Rightarrow> string \<Rightarrow> string" where
  "uploaded_name h form_name = (if form_name \<noteq> [] then form_name else uf_Filename h)"

lemma CreateArtifact_files: "CreateArtifact e a st = (r, st1) \<Longrightarrow> ar_files st1 = ar_files st"
  by (auto simp: CreateArtifact_def split: option.splits)

text \<open>The files after an upload, whatever the answer is.\<close>

lemma upload_files:
  "ar_files (snd (Service_UploadArtifact (Some b) e ctx runID (Some h) form_name shared st)) =
     snd (bk_Upload b (storage_key (ctx_WorkspaceID ctx) runID (uploaded_name h form_name) shared
       (GetRun e runID (ctx_WorkspaceID ctx) (ar_world st))) (uf_data h) (ar_files st))"
  (is "_ = snd (bk_Upload b ?key _ _)")
proof -
  define key where "key = ?key"
  obtain r fs where up: "bk_Upload b key (uf_data h) (ar_files st) = (r, fs)" by fastforce
  obtain aid w1 where i: "id_New e ''art_'' (ar_world st) = (aid, w1)" by fastforce
  show ?thesis
    unfolding Service_UploadArtifact_def Let_def option.case uploaded_name_def [symmetric] key_def [symmetric] up i
      prod.case
    by (cases r) (auto split: prod.split sum.split dest: CreateArtifact_files)
qed

text \<open>
  The name of an artifact comes from the form and is put into the path as it is. For every path
  outside of the directory of the storage, any number of levels up and then down any parts, there is a
  name under which an upload writes its data to exactly that path, whatever the database then says.
\<close>

theorem artifact_name_reaches_any_file:
  assumes base: "base \<noteq> []" "hd base \<noteq> CHR ''/''" "''..'' \<notin> set (strings_Split (CHR ''/'') base)"
    and parts: "''..'' \<notin> set (strings_Split (CHR ''/'') (ctx_WorkspaceID ctx))"
      "''..'' \<notin> set (strings_Split (CHR ''/'') runID)"
    and alone: "\<And>r. GetRun e runID (ctx_WorkspaceID ctx) (ar_world st) = Inr r \<Longrightarrow> r_orchestra_id r = None"
    and os: "\<And>op path. os op path = None"
    and target: "ts \<noteq> []" "\<forall>c\<in>set ts. plain_part c"
  shows "\<exists>name. ar_files (snd (Service_UploadArtifact (Some (NewLocalBackend os written base)) e ctx runID
    (Some h) name shared st)) (strings_Join (CHR ''/'') (replicate k ''..'' @ ts)) = Some (uf_data h)"
proof -
  obtain name where name: "name \<noteq> []"
    "filepath_Join base (ctx_WorkspaceID ctx @ ''/'' @ runID @ ''/'' @ name) =
       strings_Join (CHR ''/'') (replicate k ''..'' @ ts)"
    by (rule climbing_name[OF base parts target])
  have key: "storage_key (ctx_WorkspaceID ctx) runID name shared
      (GetRun e runID (ctx_WorkspaceID ctx) (ar_world st)) = ctx_WorkspaceID ctx @ ''/'' @ runID @ ''/'' @ name"
    using alone by (auto simp: storage_key_def Let_def split: sum.split)
  show ?thesis
    using name(1) by (intro exI[of _ name])
      (simp add: upload_files uploaded_name_def key NewLocalBackend_def Let_def os name(2)[simplified])
qed

definition sample_member :: request_ctx where
  "sample_member = Some \<lparr>a_Type = ''user'', a_ID = ''usr_1'', a_WorkspaceID = ''wsp_1'', a_Role = ''operator'',
     a_IsPlatformAdmin = False\<rparr>"

definition sample_file :: uploaded_file where
  "sample_file = \<lparr>uf_Filename = ''a'', uf_Content_Type = [], uf_Size = 1, uf_data = ''x''\<rparr>"

definition sample_files :: "files artifact_state" where
  "sample_files = \<lparr>ar_world = sample_world [] [sample_run ''run_1'' Running], ar_artifacts = [],
     ar_files = (\<lambda>path. None)\<rparr>"

definition sample_disk :: "files backend" where
  "sample_disk = NewLocalBackend (\<lambda>op path. None) (\<lambda>path. 0) ''./data/artifacts''"

lemma sample_run_found [simp]:
  "GetRun (calm t) ''run_1'' (ctx_WorkspaceID sample_member) (ar_world sample_files) = Inr (sample_run ''run_1'' Running)"
  by (simp add: GetRun_def db_read_def one_row_def sample_files_def sample_member_def ctx_WorkspaceID_def sample_world_def
      sample_run_def new_run_def sample_params_def)

theorem artifact_name_reaches_any_file_witness:
  "\<exists>name. ar_files (snd (Service_UploadArtifact (Some sample_disk) (calm 0) sample_member ''run_1''
      (Some sample_file) name False sample_files))
    (strings_Join (CHR ''/'') (replicate 2 ''..'' @ [''etc'', ''crontab''])) = Some (uf_data sample_file)"
  unfolding sample_disk_def
proof (rule artifact_name_reaches_any_file)
  show "''..'' \<notin> set (strings_Split (CHR ''/'') (ctx_WorkspaceID sample_member))"
    by (simp add: sample_member_def ctx_WorkspaceID_def)
  show "r_orchestra_id r = None"
    if "GetRun (calm 0) ''run_1'' (ctx_WorkspaceID sample_member) (ar_world sample_files) = Inr r" for r
    using that by (auto simp: sample_run_def new_run_def sample_params_def)
qed (simp_all add: plain_part_def)

text \<open>
  C33: With the storage on local files, an accepted upload is downloaded again under its name, with the
  data, the name and the type it was uploaded with.
\<close>

theorem artifact_roundtrip:
  assumes "Service_UploadArtifact (Some (NewLocalBackend os written base)) e ctx runID (Some h) form_name shared st =
      (Data 201 a, st1)"
    and "os ''open'' (filepath_Join base (ra_art_storage_key a)) = None"
    and "e_fault e' ''GetArtifact'' = None"
  shows "ra_art_name a = uploaded_name h form_name \<and>
    Service_DownloadArtifact (Some (NewLocalBackend os written base)) e' runID (uploaded_name h form_name) st1 =
      Data 200 (Some (if uf_Content_Type h = [] then ''application/octet-stream'' else uf_Content_Type h),
        uploaded_name h form_name, uf_data h)"
  using assms(1)
proof (rule upload_answers)
  assume n: "ra_art_name a = (if form_name \<noteq> [] then form_name else uf_Filename h)"
    and t: "ra_art_content_type a =
      Some (if uf_Content_Type h = [] then ''application/octet-stream'' else uf_Content_Type h)"
  then show ?thesis
    using local_store.uploaded_is_downloaded[OF assms] by (simp only: uploaded_name_def)
qed


theorem artifact_roundtrip_witness:
  "\<exists>a st1. Service_UploadArtifact (Some sample_disk) (calm 0) sample_member ''run_1'' (Some sample_file) ''b'' False
      sample_files = (Data 201 a, st1) \<and>
    Service_DownloadArtifact (Some sample_disk) (calm 1) ''run_1'' ''b'' st1 =
      Data 200 (Some ''application/octet-stream'', ''b'', ''x'')"
proof -
  have "r_orchestra_id (sample_run ''run_1'' Running) = None"
    by (simp add: sample_run_def new_run_def sample_params_def)
  then have "\<exists>a st1. Service_UploadArtifact (Some sample_disk) (calm 0) sample_member ''run_1'' (Some sample_file)
      ''b'' False sample_files = (Data 201 a, st1)"
    by (simp add: Service_UploadArtifact_def Let_def storage_key_def sample_disk_def NewLocalBackend_def sample_file_def
        CreateArtifact_def artifact_violation_def id_New_def writeJSON_def has_key_def)
      (simp add: sample_files_def sample_world_def sample_run_def new_run_def sample_params_def)
  then obtain a st1 where up: "Service_UploadArtifact (Some sample_disk) (calm 0) sample_member ''run_1''
      (Some sample_file) ''b'' False sample_files = (Data 201 a, st1)" by blast
  show ?thesis
    using artifact_roundtrip[OF up[unfolded sample_disk_def], of "calm 1"] up
    by (simp add: uploaded_name_def sample_file_def sample_disk_def)
qed

text \<open>An upload under a name that is taken answers 500, but has replaced the data.\<close>

lemma refused_upload_overwrites:
  assumes "b \<in> set (ar_artifacts st)" "ra_art_run_id b = runID" "ra_art_name b = uploaded_name h form_name"
    and os: "\<And>op path. os op path = None"
  shows "\<exists>err st1. Service_UploadArtifact (Some (NewLocalBackend os written base)) e ctx runID (Some h) form_name
      shared st = (Failure 500 ''INTERNAL_ERROR'' ''Failed to save artifact metadata'' err, st1) \<and>
    ar_artifacts st1 = ar_artifacts st \<and>
    ar_files st1 (filepath_Join base (storage_key (ctx_WorkspaceID ctx) runID (uploaded_name h form_name) shared
      (GetRun e runID (ctx_WorkspaceID ctx) (ar_world st)))) = Some (uf_data h)"
proof -
  obtain aid w1 where i: "id_New e ''art_'' (ar_world st) = (aid, w1)" by fastforce
  define key where "key = storage_key (ctx_WorkspaceID ctx) runID (uploaded_name h form_name) shared
      (GetRun e runID (ctx_WorkspaceID ctx) (ar_world st))"
  have refused: "\<exists>err. CreateArtifact e a s = (Inl err, s)"
    if "ar_artifacts s = ar_artifacts st" "ra_art_run_id a = runID" "ra_art_name a = uploaded_name h form_name" for a s
    using that assms(1-3) by (auto simp: CreateArtifact_def artifact_violation_def split: option.split)
  define fs where "fs = (ar_files st)(filepath_Join base key \<mapsto> uf_data h)"
  have up: "bk_Upload (NewLocalBackend os written base) key (uf_data h) (ar_files st) = (None, fs)"
    by (simp add: NewLocalBackend_def Let_def os fs_def)
  define a where "a = \<lparr>ra_art_id = aid, ra_art_run_id = runID, ra_art_workspace_id = ctx_WorkspaceID ctx,
     ra_art_name = uploaded_name h form_name, ra_art_content_type =
       Some (if uf_Content_Type h = [] then ''application/octet-stream'' else uf_Content_Type h),
     ra_art_size_bytes = Some (uf_Size h), ra_art_storage_key = key, ra_art_created_at = e_db_now e\<rparr>"
  obtain err where no: "CreateArtifact e a (st\<lparr>ar_world := w1, ar_files := fs\<rparr>) =
      (Inl err, st\<lparr>ar_world := w1, ar_files := fs\<rparr>)"
    using refused[of "st\<lparr>ar_world := w1, ar_files := fs\<rparr>" a] unfolding a_def by auto
  show ?thesis
    unfolding Service_UploadArtifact_def Let_def option.case uploaded_name_def [symmetric] key_def [symmetric] up i
      prod.case a_def [symmetric] no sum.case
    by (simp add: writeError_def fs_def)
qed


section \<open>Secrets\<close>

lemma Encrypt_Inr:
  "Encrypt g nonce val key = Inr c \<Longrightarrow> length key = 32 \<and> c = nonce @ g_seal g key nonce val"
  by (auto simp: Encrypt_def split: if_splits)

lemma Decrypt_Encrypt:
  assumes "\<And>key nonce p. g_open g key nonce (g_seal g key nonce p) = Some p"
    and "Encrypt g nonce val key = Inr c" "length nonce = nonce_size"
  shows "Decrypt g c key = Inr val"
  using Encrypt_Inr[OF assms(2)] assms(1,3) by (simp add: Decrypt_def)

text \<open>What an accepted secret is stored as.\<close>

lemma secret_answers:
  assumes "Service_CreateSecret g key nonce e ctx (Some (name, val)) w = (Data 201 v, w1)"
  obtains c x where "Encrypt g nonce val key = Inr c" "w_secrets w1 = w_secrets w @ [x]" "sx_value_enc x = c"
    "sx_workspace_id x = ctx_WorkspaceID ctx" "sx_name x = name" "v = view_secret x"
    "\<forall>y\<in>set (w_secrets w). \<not> (sx_workspace_id y = ctx_WorkspaceID ctx \<and> sx_name y = name)"
proof -
  obtain sid w' where i: "id_New e ''sec_'' w = (sid, w')" by fastforce
  have s: "w_secrets w' = w_secrets w" using i by (auto simp: id_New_def)
  obtain c where c: "Encrypt g nonce val key = Inr c"
    using assms by (cases "Encrypt g nonce val key")
      (auto simp: Service_CreateSecret_def writeError_def split: if_splits)
  define x where "x = \<lparr>sx_id = sid, sx_workspace_id = ctx_WorkspaceID ctx, sx_name = name, sx_value_enc = c,
    sx_created_at = e_db_now e, sx_updated_at = e_db_now e\<rparr>"
  obtain r w2 where q: "CreateSecret e x w' = (r, w2)" by fastforce
  have "r = Inr v" "w2 = w1"
    using assms q unfolding Service_CreateSecret_def option.case prod.case c sum.case i x_def [symmetric] q
    by (auto simp: writeError_def writeJSON_def split: if_splits sum.splits)
  then have "CreateSecret e x w' = (Inr v, w1)" using q by simp
  then have "w_secrets w1 = w_secrets w' @ [x]" "v = view_secret x"
    "\<not> (\<exists>y\<in>set (w_secrets w'). sx_workspace_id y = sx_workspace_id x \<and> sx_name y = sx_name x)"
    by (auto simp: CreateSecret_def returning_def db_exec_def credential_violation_def split: option.splits if_splits)
  then show thesis using c s by (intro that[of c x]) (simp_all add: x_def)
qed

text \<open>
  C34: A secret that was accepted is found under its name, and decrypting its stored value with the key
  of the service gives the value back, when opening undoes sealing and nonces have twelve bytes.
\<close>

theorem secret_reads_back:
  assumes open_seal: "\<And>key nonce p. g_open g key nonce (g_seal g key nonce p) = Some p"
    and nonce: "length nonce = nonce_size"
    and made: "Service_CreateSecret g key nonce e ctx (Some (name, val)) w = (Data 201 v, w1)"
    and fine: "e_fault e' ''GetSecret'' = None"
  shows "\<exists>x. GetSecret e' (ctx_WorkspaceID ctx) name w1 = Inr x \<and> view_secret x = v \<and>
    Decrypt g (sx_value_enc x) key = Inr val"
  using made
proof (rule secret_answers)
  fix c x
  assume c: "Encrypt g nonce val key = Inr c" "sx_value_enc x = c" and rows: "w_secrets w1 = w_secrets w @ [x]"
    and x: "sx_workspace_id x = ctx_WorkspaceID ctx" "sx_name x = name" "v = view_secret x"
    and new: "\<forall>y\<in>set (w_secrets w). \<not> (sx_workspace_id y = ctx_WorkspaceID ctx \<and> sx_name y = name)"
  have "GetSecret e' (ctx_WorkspaceID ctx) name w1 = Inr x"
    using fine find_new[OF new, of x] x by (simp add: GetSecret_def db_read_def one_row_def rows)
  then show ?thesis using Decrypt_Encrypt[OF open_seal c(1) nonce] c(2) x(3) by simp
qed

text \<open>A reversible stand-in for the cipher.\<close>

definition sample_gcm :: gcm where
  "sample_gcm = \<lparr>g_seal = (\<lambda>key nonce p. rev p), g_open = (\<lambda>key nonce c. Some (rev c))\<rparr>"

theorem secret_reads_back_witness:
  "\<exists>v w1 x. Service_CreateSecret sample_gcm (replicate 32 CHR ''k'') (replicate 12 CHR ''n'') (calm 0) sample_member
      (Some (''token'', ''s3cret'')) (sample_world [] []) = (Data 201 v, w1) \<and>
    GetSecret (calm 1) ''wsp_1'' ''token'' w1 = Inr x \<and>
    Decrypt sample_gcm (sx_value_enc x) (replicate 32 CHR ''k'') = Inr ''s3cret''"
proof -
  obtain v w1 where made: "Service_CreateSecret sample_gcm (replicate 32 CHR ''k'') (replicate 12 CHR ''n'') (calm 0)
      sample_member (Some (''token'', ''s3cret'')) (sample_world [] []) = (Data 201 v, w1)"
    by (simp add: Service_CreateSecret_def Encrypt_def CreateSecret_def returning_def db_exec_def writeJSON_def
        credential_violation_def has_key_def sample_member_def ctx_WorkspaceID_def sample_world_def empty_world_def
        sample_workspace_def id_New_def)
  show ?thesis
    using secret_reads_back[OF _ _ made, of "calm 1"] made
    by (auto simp: sample_gcm_def nonce_size_def sample_member_def ctx_WorkspaceID_def)
qed

text \<open>
  The service is given the key of the configuration as it is; with a key of another length no secret can
  be stored and none is.
\<close>

lemma bad_key_stores_nothing:
  assumes "length key \<noteq> 32"
  shows "snd (Service_CreateSecret g key nonce e ctx body w) = w \<and>
     reply_status (fst (Service_CreateSecret g key nonce e ctx body w)) \<in> {400, 500}"
    and "snd (Service_UpdateSecret g key nonce e ctx name body' w) = w \<and>
     reply_status (fst (Service_UpdateSecret g key nonce e ctx name body' w)) \<in> {400, 500}"
  using assms
  by (auto simp: Service_CreateSecret_def Service_UpdateSecret_def Encrypt_def writeError_def split: option.split)

text \<open>An update of a secret that does not exist is answered like one that does.\<close>

lemma missing_secret_is_updated:
  assumes "val \<noteq> []" "length key = 32" "e_fault e ''UpdateSecret'' = None"
    and "\<forall>x\<in>set (w_secrets w). sx_name x \<noteq> name"
  shows "Service_UpdateSecret g key nonce e ctx name (Some val) w = (Data 200 ''updated'', w)"
proof -
  have "update_where (\<lambda>x. sx_workspace_id x = ctx_WorkspaceID ctx \<and> sx_name x = name) f (w_secrets w) = w_secrets w" for f
    using assms(4) by (auto simp: update_where_def intro: map_idI)
  then show ?thesis
    using assms(1-3)
    by (simp add: Service_UpdateSecret_def Encrypt_def UpdateSecret_def db_exec_def writeJSON_def)
qed


section \<open>Credentials\<close>

text \<open>The private key of a request is written as it came, though the column is for cipher text.\<close>

lemma private_key_kept_in_plain:
  assumes "Service_CreateSSHCredential e ctx (Some q) w = (Data 201 v, w1)"
  shows "\<exists>c. w_ssh_credentials w1 = w_ssh_credentials w @ [c] \<and> sc_private_key_enc c = rsh_private_key q"
proof -
  obtain cid w' where i: "id_New e ''ssh_'' w = (cid, w')" by fastforce
  have s: "w_ssh_credentials w' = w_ssh_credentials w" using i by (auto simp: id_New_def)
  obtain r w2 where q: "CreateSSHCredential e (new_ssh_credential e cid (ctx_WorkspaceID ctx) q) w' = (r, w2)"
    by fastforce
  have "r = Inr v" "w2 = w1"
    using assms unfolding Service_CreateSSHCredential_def option.case i prod.case q
    by (auto simp: writeError_def writeJSON_def split: if_splits sum.splits)
  then show ?thesis
    using q s by (auto simp: CreateSSHCredential_def returning_def db_exec_def new_ssh_credential_def
        split: option.splits)
qed

text \<open>The kubeconfig of a request is not read: that of every cluster is empty.\<close>

inductive cluster_step :: "world \<Rightarrow> world \<Rightarrow> bool" where
  created: "cluster_step w (snd (Service_CreateK8sCluster e ctx body w))"
| deleted: "cluster_step w (snd (Service_DeleteK8sCluster e ctx clusterID w))"

lemma cluster_step_empty:
  assumes "cluster_step w w1" "\<forall>c\<in>set (w_k8s_clusters w). kc_kubeconfig_enc c = []"
  shows "\<forall>c\<in>set (w_k8s_clusters w1). kc_kubeconfig_enc c = []"
  using assms
proof (induction rule: cluster_step.induct)
  case (created w e ctx body)
  then show ?case
    by (auto simp: Service_CreateK8sCluster_def CreateK8sCluster_def returning_def db_exec_def id_New_def
        split: option.splits sum.splits prod.splits if_splits)
next
  case (deleted w e ctx clusterID)
  then show ?case
    by (auto simp: Service_DeleteK8sCluster_def DeleteK8sCluster_def deleted_reply_def deleting_def Let_def
        db_exec_def split: option.splits sum.splits prod.splits)
qed

lemma no_cluster_has_a_kubeconfig:
  assumes "cluster_step\<^sup>*\<^sup>* w w1" "\<forall>c\<in>set (w_k8s_clusters w). kc_kubeconfig_enc c = []"
  shows "\<forall>c\<in>set (w_k8s_clusters w1). kc_kubeconfig_enc c = []"
  using assms by (induction rule: rtranclp_induct) (auto dest: cluster_step_empty)

section \<open>Subscriptions\<close>

text \<open>A subscription without event types is always refused.\<close>

lemma event_types_needed:
  assumes "cwh_event_types q = None"
  shows "\<exists>code tag msg hint. fst (Service_CreateWebhookSubscription e ctx (Some q) s) = Failure code tag msg hint \<and>
     ns_subs (snd (Service_CreateWebhookSubscription e ctx (Some q) s)) = ns_subs s"
  using assms
  by (auto simp: Service_CreateWebhookSubscription_def CreateWebhookSubscription_def Let_def writeError_def
      split: option.splits prod.splits)

end
