(* ===== verification/Run_Evolution.thy ===== *)
theory Run_Evolution
  imports Queue_Processor Wiring Monitor Recovery Worker_Handlers Run_Handlers Process_Handlers Cleanup Executor_Facts
    Orchestra_Handlers
begin

text \<open>
  What every component may do to the table of runs: rewrite rows without touching what identifies them,
  append rows the constraints admit and, in two places, delete rows. The locale \<open>run_evolution\<close> states
  this as closure conditions on a relation of worlds and shows once, for every operation of the control
  plane that writes runs, that it stays within the relation; the interpretations read off invariants.
\<close>

section \<open>The contract\<close>

text \<open>What identifies a run and is never rewritten.\<close>

definition run_core ::
  "run \<Rightarrow> (string \<times> string \<times> string) \<times> (instant \<times> string \<times> int) \<times> (string option \<times> string option \<times> instant)" where
  "run_core r = ((r_id r, r_workspace_id r, r_process_id r), (r_scheduled_at r, r_origin r, r_max_attempts r),
     (r_actor_type r, r_actor_id r, r_created_at r))"

definition keeps_core :: "(run \<Rightarrow> run) \<Rightarrow> bool" where
  "keeps_core f \<longleftrightarrow> (\<forall>r. run_core (f r) = run_core r)"

text \<open>No key of the parent tables is lost.\<close>

definition keys_kept :: "world \<Rightarrow> world \<Rightarrow> bool" where
  "keys_kept w w' \<longleftrightarrow> p_id ` set (w_processes w) \<subseteq> p_id ` set (w_processes w') \<and>
     wsp_id ` set (w_workspaces w) \<subseteq> wsp_id ` set (w_workspaces w')"

lemma keys_kept_same:
  "w_processes w' = w_processes w \<Longrightarrow> w_workspaces w' = w_workspaces w \<Longrightarrow> keys_kept w w'"
  by (simp add: keys_kept_def)

locale run_evolution =
  fixes R :: "world \<Rightarrow> world \<Rightarrow> bool"
  assumes step_frame: "w_runs w' = w_runs w \<Longrightarrow> keys_kept w w' \<Longrightarrow> R w w'"
    and step_trans: "R w w' \<Longrightarrow> R w' w'' \<Longrightarrow> R w w''"
    and step_write: "keeps_core f \<Longrightarrow> R w (w\<lparr>w_runs := update_where P f (w_runs w)\<rparr>)"
    and step_insert: "create_run_violation a w = None \<Longrightarrow> R w (w\<lparr>w_runs := w_runs w @ [new_run e a]\<rparr>)"

text \<open>Runs may also go, with everything that would point to them.\<close>

locale run_life = run_evolution +
  assumes step_remove: "w_runs w' = map f (filter P (w_runs w)) \<Longrightarrow> keeps_core f \<Longrightarrow>
    w_workspaces w' = w_workspaces w \<Longrightarrow>
    \<forall>r\<in>set (w_runs w'). r_process_id r \<in> p_id ` set (w_processes w) \<longrightarrow>
      r_process_id r \<in> p_id ` set (w_processes w') \<Longrightarrow> R w w'"

section \<open>Updates of a row\<close>

lemma keeps_core_set_run_state [intro, simp]: "keeps_core (set_run_state na)"
  by (simp add: keeps_core_def run_core_def set_run_state_def Let_def split: prod.split)

lemma keeps_core_id [intro, simp]: "keeps_core (\<lambda>r. r)"
  by (simp add: keeps_core_def)

context run_evolution
begin

lemma reach_frame: "R w0 w \<Longrightarrow> w_runs w' = w_runs w \<Longrightarrow> keys_kept w w' \<Longrightarrow> R w0 w'"
  using step_frame step_trans by blast

lemma reach_same:
  "R w0 w \<Longrightarrow> w_runs w' = w_runs w \<Longrightarrow> w_processes w' = w_processes w \<Longrightarrow> w_workspaces w' = w_workspaces w \<Longrightarrow>
   R w0 w'"
  using reach_frame keys_kept_same by blast

lemma step_refl [simp, intro]: "R w w"
  by (rule step_frame) (simp_all add: keys_kept_def)

lemma reach_exec: "R w0 w \<Longrightarrow> (v = None \<Longrightarrow> R w (f w)) \<Longrightarrow> R w0 (snd (db_exec e q v f w))"
  using step_trans by (auto simp: db_exec_def split: option.split)

lemma reach_exec_frame:
  "R w0 w \<Longrightarrow> w_runs (f w) = w_runs w \<Longrightarrow> keys_kept w (f w) \<Longrightarrow> R w0 (snd (db_exec e q v f w))"
  by (rule reach_exec) (auto intro: step_frame)

lemma reach_exec_same:
  "R w0 w \<Longrightarrow> w_runs (f w) = w_runs w \<Longrightarrow> w_processes (f w) = w_processes w \<Longrightarrow>
   w_workspaces (f w) = w_workspaces w \<Longrightarrow> R w0 (snd (db_exec e q v f w))"
  by (rule reach_exec) (auto intro: step_frame keys_kept_same)

lemma on_run: "keeps_core f \<Longrightarrow> R w (on_run rid f w)"
  unfolding on_run_def update_key_def by (rule step_write)

text \<open>The queries that write runs.\<close>

lemma CreateRun [intro!]: "R w0 w \<Longrightarrow> R w0 (snd (CreateRun e a w))"
  unfolding CreateRun_def by (erule reach_exec) (rule step_insert)

lemma UpdateRunState [intro!]: "R w0 w \<Longrightarrow> R w0 (snd (UpdateRunState e a w))"
  unfolding UpdateRunState_def by (erule reach_exec) (auto intro: on_run)

lemma row_queries [intro!]:
  assumes "R w0 w"
  shows "R w0 (snd (SaveRunExecutionHandle e rid h w))" "R w0 (snd (ClearRunExecutionHandle e rid w))"
    "R w0 (snd (UpdateRunOffsets e rid so se w))" "R w0 (snd (UpdateRunProgress e rid tot cur prog msg w))"
    "R w0 (snd (SnapshotRunConfig e rid cfg w))"
  unfolding SaveRunExecutionHandle_def ClearRunExecutionHandle_def UpdateRunOffsets_def UpdateRunProgress_def
    SnapshotRunConfig_def
  using assms by (auto intro!: reach_exec on_run simp: keeps_core_def run_core_def)

lemma reach_write: "R w0 w \<Longrightarrow> keeps_core f \<Longrightarrow> R w0 (w\<lparr>w_runs := update_where P f (w_runs w)\<rparr>)"
  using step_trans step_write by blast

lemma bulk_update [intro!]: "R w0 w \<Longrightarrow> R w0 (snd (bulk_update q e pid ws from to w))"
  by (auto simp: bulk_update_def Let_def keeps_core_def run_core_def intro!: reach_write split: option.split)

text \<open>The writes that leave runs alone.\<close>

lemma other_queries [intro!]:
  assumes "R w0 w"
  shows "R w0 (snd (CreateRunAttempt e xid rid n t wk w))" "R w0 (snd (FinishRunAttempt e xid fin ms ec msg w))"
    "R w0 (snd (AppendRunOutput e site xid rid stream content tr w))"
    "R w0 (snd (CreateHeartbeat e xid rid tot cur prog hmsg w))"
    "R w0 (emit ev w)" "R w0 (snd (id_New e prefix w))" "R w0 (panic w)"
    "R w0 (store_running rid h w)" "R w0 (delete_running rid w)"
  using assms
  by (auto elim!: reach_same simp: CreateRunAttempt_def FinishRunAttempt_def AppendRunOutput_def CreateHeartbeat_def
      db_exec_def emit_def id_New_def panic_def store_running_def delete_running_def split: option.split)

lemma fold_steps [intro!]:
  assumes "R w0 w" "\<And>x w. R w0 w \<Longrightarrow> R w0 (f x w)"
  shows "R w0 (fold f xs w)"
  using assms by (induction xs arbitrary: w) auto

section \<open>The executor\<close>

lemma evaluate_dependent [intro!]: "R w0 w \<Longrightarrow> R w0 (evaluate_dependent e run dep w)"
  by (auto simp: evaluate_dependent_def createDependentRun_def split_beta Let_def split: option.split)

lemma Evaluate [intro!]: "R w0 w \<Longrightarrow> R w0 (snd (Evaluate e run w))"
  by (auto simp: Evaluate_def split: sum.split)

lemma continue_chain [intro!]: "R w0 w \<Longrightarrow> R w0 (continue_chain e p st w)"
  by (auto simp: continue_chain_def split_beta Let_def split: option.split)

lemma handleTerminal [intro!]: "R w0 w \<Longrightarrow> R w0 (handleTerminal (wired_orchestrator reg lb url) e run p st w)"
  by (auto simp: handleTerminal_def wired_orchestrator_def Let_def)

lemma run_ended [intro!]: "R w0 w \<Longrightarrow> R w0 (run_ended (wired_orchestrator reg lb url) e rid ws p st w)"
  by (auto simp: run_ended_def split: sum.split)

lemma store_output [intro!]: "R w0 w \<Longrightarrow> R w0 (store_output o' e site rid stream content w)"
  by (auto simp: store_output_def split_beta Let_def)

lemma record_result [intro!]: "R w0 w \<Longrightarrow> R w0 (record_result o' e rid aid t r w)"
  unfolding record_result_def Let_def by (intro row_queries store_output) auto

lemma finalizeRunResult [intro!]:
  "R w0 w \<Longrightarrow> R w0 (finalizeRunResult (wired_orchestrator reg lb url) e rid ws aid n t p r w)"
  unfolding finalizeRunResult_def Let_def by (auto split: option.split)

lemma orchestrator_Kill [intro!]: "R w0 w \<Longrightarrow> R w0 (snd (orchestrator_Kill o' e rid w))"
  by (auto simp: orchestrator_Kill_def kill_handle_def split: option.split sum.split)

lemma processKillRequests [intro!]: "R w0 w \<Longrightarrow> R w0 (processKillRequests o' e w)"
  by (auto simp: processKillRequests_def split_beta split: sum.split)

lemma state_updates [intro!]:
  "R w0 w \<Longrightarrow> R w0 (updateState e rid st w)" "R w0 w \<Longrightarrow> R w0 (updateStateFailed e rid ec w)"
  by (auto simp: updateState_def updateStateFailed_def)

lemma Dispatch [intro!]: "R w0 w \<Longrightarrow> R w0 (snd (Dispatch e ws t pinned labels w))"
  by (auto simp: Dispatch_def split_beta Let_def try_send_def getOrCreateChannel_def elim!: reach_same
      split: sum.split option.split)

lemma worker_run_dispatch [intro!]: "R w0 w \<Longrightarrow> R w0 (snd (worker_run_dispatch url e run p w))"
  using Dispatch by (auto simp: worker_run_dispatch_def Let_def split_beta split: sum.split)

lemma dispatch_to_worker [intro!]:
  "R w0 w \<Longrightarrow> R w0 (dispatch_to_worker (wired_orchestrator reg lb url) e run p w)"
  by (auto simp: dispatch_to_worker_def wired_orchestrator_def split_beta split: option.split)

lemma begin_attempt [intro!]: "R w0 w \<Longrightarrow> R w0 (snd (begin_attempt e run p m w))"
  unfolding begin_attempt_def Let_def by (auto simp: split_beta)

lemma dispatch_route [intro!]:
  "R w0 w \<Longrightarrow> R w0 (snd (dispatch_route (wired_orchestrator reg lb url) e run p w))"
  by (auto simp: dispatch_route_def split_beta Let_def split: option.split)

lemma dispatch_begin [intro!]:
  "R w0 w \<Longrightarrow> R w0 (snd (dispatch_begin (wired_orchestrator reg lb url) e run w))"
  by (auto simp: dispatch_begin_def split: sum.split)

lemma finish_blocking [intro!]:
  "R w0 w \<Longrightarrow> R w0 (finish_blocking (wired_orchestrator reg lb url) e c r w)"
  unfolding finish_blocking_def Let_def by auto

lemma dispatch_finish [intro!]:
  "R w0 w \<Longrightarrow> R w0 (dispatch_finish (wired_orchestrator reg lb url) e c answer w)"
  unfolding dispatch_finish_def Let_def saveRunExecutionHandle_def
  by (auto simp: split_beta split: option.split)

section \<open>Polls\<close>

lemma append_chunk [intro!]: "R w0 w \<Longrightarrow> R w0 (snd (append_chunk o' e site rid stream c w))"
  by (auto simp: append_chunk_def split_beta Let_def split: option.split)

lemma store_poll_output [intro!]: "R w0 w \<Longrightarrow> R w0 (store_poll_output o' e row poll w)"
  by (auto simp: store_poll_output_def split_beta Let_def)

lemma finalize_row [intro!]: "R w0 w \<Longrightarrow> R w0 (finalize_row (wired_orchestrator reg lb url) e row p r w)"
  by (auto simp: finalize_row_def)

lemma finalizeRunKilled [intro!]:
  "R w0 w \<Longrightarrow> R w0 (finalizeRunKilled (wired_orchestrator reg lb url) e row p r w)"
  unfolding finalizeRunKilled_def Let_def by auto

lemma conclude_poll [intro!]:
  "R w0 w \<Longrightarrow> R w0 (conclude_poll (wired_orchestrator reg lb url) e row p poll w)"
  unfolding conclude_poll_def Let_def by auto

lemma pollAsyncRun [intro!]: "R w0 w \<Longrightarrow> R w0 (pollAsyncRun (wired_orchestrator reg lb url) e row w)"
  unfolding pollAsyncRun_def Let_def by (auto simp: split_beta split: option.split sum.split)

lemma processAsyncRuns [intro!]: "R w0 w \<Longrightarrow> R w0 (processAsyncRuns (wired_orchestrator reg lb url) e w)"
  unfolding processAsyncRuns_def by (auto split: sum.split)

section \<open>Planner, recovery, monitor\<close>

lemma create_scheduled [intro!]: "R w0 w \<Longrightarrow> R w0 (snd (create_scheduled origin e p t w))"
  by (auto simp: create_scheduled_def split_beta Let_def)

lemma detectOrphans [intro!]: "R w0 w \<Longrightarrow> R w0 (snd (detectOrphans e w))"
  by (auto simp: detectOrphans_def split_beta split: sum.split)

lemma recoverFixedDelayProcesses [intro!]: "R w0 w \<Longrightarrow> R w0 (snd (recoverFixedDelayProcesses e w))"
  by (auto simp: recoverFixedDelayProcesses_def recover_fixed_delay_process_def split: sum.split)

lemma monitor_check [intro!]: "R w0 w \<Longrightarrow> R w0 (monitor_check (wired_monitor o' e) e w)"
  by (auto simp: monitor_check_def check_run_def apply_timeout_action_def doKill_def doAlert_def wired_monitor_def
      split_beta Let_def split: sum.split option.split)

section \<open>Workers\<close>

lemma run_result [intro!]: "R w0 w \<Longrightarrow> R w0 (snd (run_result e r w))"
  by (auto simp: run_result_def Let_def)

lemma worker_queries [intro!]:
  assumes "R w0 w"
  shows "R w0 (snd (IncrementWorkerFailures e wid w))" "R w0 (snd (SetWorkerStatus e wid status w))"
    "R w0 (snd (UpdateWorkerHeartbeat e wid capabilities version w))"
    "R w0 (snd (UpdateWorkerCredentialHash e wid h w))" "R w0 (snd (db_CreateWorker e cw w))"
  using assms
  by (auto intro!: reach_exec_same simp: IncrementWorkerFailures_def SetWorkerStatus_def UpdateWorkerHeartbeat_def
      UpdateWorkerCredentialHash_def db_CreateWorker_def on_worker_def split_beta Let_def)

lemma PollTask [intro!]: "R w0 w \<Longrightarrow> R w0 (snd (PollTask wid w))"
  by (auto elim!: reach_same simp: PollTask_def getOrCreateChannel_def Let_def split: list.split)

lemma reassignWorkerRuns [intro!]: "R w0 w \<Longrightarrow> R w0 (reassignWorkerRuns e wid w)"
  unfolding reassignWorkerRuns_def
  by (auto intro!: reach_exec step_write simp: keeps_core_def run_core_def)

lemma mark_stale [intro!]: "R w0 w \<Longrightarrow> R w0 (mark_stale e x w)"
  by (auto simp: mark_stale_def Let_def)

lemma checkStaleWorkers [intro!]: "R w0 w \<Longrightarrow> R w0 (checkStaleWorkers e w)"
  by (auto simp: checkStaleWorkers_def split: sum.split)

section \<open>Handlers\<close>

lemma run_handlers [intro!]:
  assumes "R w0 w"
  shows "R w0 (snd (Service_CancelRun e ctx rid w))" "R w0 (snd (Service_KillRun e ctx rid w))"
    "R w0 (snd (Service_ReplayRun e ctx rid w))" "R w0 (snd (Service_Heartbeat e body w))"
  using assms
  by (auto simp: Service_CancelRun_def Service_KillRun_def Service_ReplayRun_def Service_Heartbeat_def
      split_beta Let_def split: sum.split option.split)

section \<open>Jobs\<close>

lemma job_queries [intro!]:
  assumes "R w0 w"
  shows "R w0 (snd (UpdateJobState e a w))" "R w0 (snd (db_CancelJob e jid reason w))"
    "R w0 (snd (SaveJobExecutionHandle e jid h w))" "R w0 (snd (ClearJobExecutionHandle e jid w))"
    "R w0 (snd (UpdateJobOffsets e jid so se w))" "R w0 (snd (SnapshotJobConfig e jid cfg w))"
    "R w0 (snd (CreateJobAttempt e xid jid n t req wk w))" "R w0 (snd (FinishJobAttempt e fa w))"
    "R w0 (snd (AppendJobAttemptResponseChunk e xid chunk w))"
  using assms
  by (auto intro!: reach_exec_same simp: UpdateJobState_def db_CancelJob_def
      SaveJobExecutionHandle_def ClearJobExecutionHandle_def UpdateJobOffsets_def SnapshotJobConfig_def
      CreateJobAttempt_def FinishJobAttempt_def AppendJobAttemptResponseChunk_def on_job_def)

lemma panicked [intro!]: "R w0 w \<Longrightarrow> R w0 (w\<lparr>w_panicked := b\<rparr>)"
  by (erule reach_same) simp_all

lemma failJob [intro!]: "R w0 w \<Longrightarrow> R w0 (failJob e jid ms w)"
  by (auto simp: failJob_def)

lemma record_job_result [intro!]: "R w0 w \<Longrightarrow> R w0 (record_job_result qp e jid aid n t m r w)"
  unfolding record_job_result_def Let_def by (auto simp: split_beta)

lemma finalizeJobResult [intro!]:
  "R w0 w \<Longrightarrow> R w0 (finalizeJobResult qp e jid aid n cur t ma rb ms r killed w)"
  unfolding finalizeJobResult_def Let_def by (auto split: option.split)

lemma worker_job_dispatch [intro!]: "R w0 w \<Longrightarrow> R w0 (snd (worker_job_dispatch url e j q w))"
  by (auto simp: worker_job_dispatch_def assign_job_def split_beta Let_def split: sum.split)

lemma begin_job [intro!]: "R w0 w \<Longrightarrow> R w0 (snd (begin_job e j q m w))"
  unfolding begin_job_def Let_def by (auto simp: split_beta split: option.split)

lemma job_dispatch_begin [intro!]:
  "R w0 w \<Longrightarrow> R w0 (snd (job_dispatch_begin (wired_processor reg lb url) e jq w))"
  unfolding job_dispatch_begin_def Let_def wired_processor_def
  by (auto simp: split_beta split: option.split sum.split)

lemma job_dispatch_finish [intro!]: "R w0 w \<Longrightarrow> R w0 (job_dispatch_finish qp e c answer w)"
  unfolding job_dispatch_finish_def Let_def saveJobExecutionHandle_def
  by (auto simp: split_beta split: option.split)

lemma store_job_poll [intro!]: "R w0 w \<Longrightarrow> R w0 (store_job_poll e row poll w)"
  by (auto simp: store_job_poll_def appendJobAttemptResponseChunk_def Let_def)

lemma conclude_job_poll [intro!]: "R w0 w \<Longrightarrow> R w0 (conclude_job_poll qp e row poll w)"
  unfolding conclude_job_poll_def Let_def by (rule finalizeJobResult)

lemma pollAsyncJob [intro!]: "R w0 w \<Longrightarrow> R w0 (pollAsyncJob qp e row w)"
  by (simp add: pollAsyncJob_def Let_def split_beta store_job_poll conclude_job_poll split: option.split)

lemma job_rounds [intro!]:
  assumes "R w0 w"
  shows "R w0 (processAsyncJobs qp e w)" "R w0 (job_processKillRequests qp e w)" "R w0 (expire_jobs e w)"
  using assms
  by (auto simp: processAsyncJobs_def job_processKillRequests_def kill_job_def expire_jobs_def
      split: sum.split option.split)

lemma job_result [intro!]: "R w0 w \<Longrightarrow> R w0 (snd (job_result e r w))"
  unfolding job_result_def classify_job_def finishJobAttempt_def Let_def
  by (auto simp: split_beta split: sum.split option.split)

section \<open>Worker handlers\<close>

lemma worker_handlers [intro!]:
  assumes "R w0 w"
  shows "R w0 (snd (Service_WorkerPoll hash e authz w))" "R w0 (snd (Service_WorkerResult hash e authz res w))"
    "R w0 (snd (Service_WorkerHeartbeat hash e authz hb w))"
  using assms
  by (auto simp: Service_WorkerPoll_def Service_WorkerResult_def Service_WorkerHeartbeat_def start_worker_run_def
      start_worker_job_def ProcessResult_def ProcessHeartbeat_def split_beta Let_def split: sum.split option.split)

section \<open>Processes\<close>

lemma process_handlers [intro!]:
  assumes "R w0 w"
  shows "R w0 (snd (Service_TriggerProcess e ctx pid w))" "R w0 (snd (Service_PauseProcess e ctx pid cancel w))"
    "R w0 (snd (Service_ResumeProcess e ctx pid w))"
proof -
  have enabled: "R w0 (snd (SetProcessEnabled e p ws b w))" for p ws b
  proof -
    have "p_id ` set (update_where P (\<lambda>p. p\<lparr>p_enabled := b, p_updated_at := t\<rparr>) ps) = p_id ` set ps" for P t and ps :: "process list"
      by (induction ps) (auto simp: update_where_def)
    then have keys: "keys_kept w (w\<lparr>w_processes := update_where P (\<lambda>p. p\<lparr>p_enabled := b, p_updated_at := t\<rparr>) (w_processes w)\<rparr>)"
      for P t
      by (simp add: keys_kept_def)
    show ?thesis
      unfolding SetProcessEnabled_def by (rule reach_exec_frame[OF assms]) (simp_all add: keys)
  qed
  show "R w0 (snd (Service_TriggerProcess e ctx pid w))" "R w0 (snd (Service_PauseProcess e ctx pid cancel w))"
    "R w0 (snd (Service_ResumeProcess e ctx pid w))"
    using assms enabled
    by (auto simp: Service_TriggerProcess_def Service_PauseProcess_def Service_ResumeProcess_def BulkCancelRuns_def
        BulkPauseRuns_def BulkResumeRuns_def split_beta Let_def split: sum.split option.split)
qed

section \<open>The planner and the recovery loops\<close>

lemma plan_loop_step:
  assumes "plan_loop Next e p now fin t w = Some w'"
  shows "R w w'"
  using assms
proof (induction rule: plan_loop.raw_induct[rotated 1, consumes 1])
  case (1 loop Next e p now fin t w w')
  obtain r w1 where c: "create_scheduled ''cron'' e p t w = (r, w1)" by fastforce
  have "R w w1" using create_scheduled[OF step_refl, of w "''cron''" e p t] c by simp
  then show ?case
    using 1 c by (auto split: if_splits sum.splits option.splits intro: step_trans)
qed

lemma recover_loop_step:
  assumes "recover_loop Next e p now t n w = Some w'"
  shows "R w w'"
  using assms
proof (induction rule: recover_loop.raw_induct[rotated 1, consumes 1])
  case (1 loop Next e p now t n w w')
  obtain r w1 where c: "create_scheduled ''recovery'' e p t w = (r, w1)" by fastforce
  have "R w w1" using create_scheduled[OF step_refl, of w "''recovery''" e p t] c by simp
  then show ?case
    using 1 c by (auto split: if_splits sum.splits option.splits intro: step_trans)
qed

lemma plan_step: "plan lib e horizon w = Some w' \<Longrightarrow> R w w'"
proof -
  have one: "R w w'" if "plan_process lib e horizon p w = Some w'" for p w w'
    using that plan_loop_step by (auto simp: plan_process_def Let_def split: option.splits)
  have "R w w'" if "plan_processes lib e horizon ps w = Some w'" for ps w w'
    using that by (induction ps arbitrary: w) (auto split: option.splits intro: step_trans one)
  then show "plan lib e horizon w = Some w' \<Longrightarrow> R w w'"
    by (auto simp: plan_def split: sum.splits)
qed

lemma recovery_step: "recovery_Run lib e w = Some (err, w') \<Longrightarrow> R w w'"
proof -
  have one: "R w w'" if "recover_cron_process lib e p w = Some w'" for p w w'
    using that recover_loop_step
    by (auto simp: recover_cron_process_def split: if_splits sum.splits option.splits)
  have cron: "R w w'" if "recover_cron_list lib e ps w = Some w'" for ps w w'
    using that by (induction ps arbitrary: w) (auto split: option.splits intro: step_trans one)
  obtain r w1 where d: "detectOrphans e w = (r, w1)" by fastforce
  then have w1: "R w w1" using detectOrphans[OF step_refl, of w e] by simp
  have cs: "R w1 w2" if "recoverCronProcesses lib e w1 = Some (r2, w2)" for r2 w2
    using that cron by (auto simp: recoverCronProcesses_def split: sum.splits)
  have fd: "R w2 w3" if "recoverFixedDelayProcesses e w2 = (r3, w3)" for w2 r3 w3
    using recoverFixedDelayProcesses[OF step_refl, of w2 e] that by simp
  show "recovery_Run lib e w = Some (err, w') \<Longrightarrow> R w w'"
    using w1 by (auto simp: recovery_Run_def d split: option.splits dest!: cs fd intro: step_trans)
qed

section \<open>Changes of the parent tables\<close>

lemma CreateProcess [intro!]: "R w0 w \<Longrightarrow> R w0 (snd (CreateProcess e a w))"
  by (auto simp: CreateProcess_def split_beta Let_def keys_kept_def intro!: reach_exec_frame)

lemma UpdateProcess [intro!]:
  assumes "R w0 w"
  shows "R w0 (snd (UpdateProcess e a w))"
proof -
  have "p_id ` set (update_key p_id k (set_process_columns (t, a)) ps) = p_id ` set ps" for k t and ps :: "process list"
    by (metis image_set process_update.keys_kept)
  then have "R w0 (snd (db_exec e q bad (\<lambda>w. w\<lparr>w_processes := update_key p_id k (set_process_columns (t, a))
      (w_processes w)\<rparr>) w))" for q bad k t
    by (intro reach_exec_frame[OF assms]) (simp_all add: keys_kept_def)
  then show ?thesis
    using assms by (auto simp: UpdateProcess_def split_beta Let_def split: option.split)
qed

lemma drop_worker: "R w (drop_worker wid w)"
proof -
  define f where "f = (\<lambda>r::run. r\<lparr>r_worker_id := unassign wid (r_worker_id r)\<rparr>)"
  have "R w (w\<lparr>w_runs := update_where (\<lambda>_. True) f (w_runs w)\<rparr>)"
    by (rule step_write) (simp add: f_def keeps_core_def run_core_def)
  moreover have "w_runs (drop_worker wid w) = update_where (\<lambda>_. True) f (w_runs w)"
    by (simp add: drop_worker_def f_def update_where_def)
  ultimately show ?thesis
    by (auto elim!: reach_frame simp: keys_kept_def drop_worker_def image_image)
qed

lemma DeleteWorker [intro!]: "R w0 w \<Longrightarrow> R w0 (snd (DeleteWorker e wid ws w))"
  by (auto simp: DeleteWorker_def split_beta Let_def intro!: reach_exec drop_worker)

lemma parent_handlers [intro!]:
  assumes "R w0 w"
  shows "R w0 (snd (Service_CreateProcess oor e ctx body w))" "R w0 (snd (Service_UpdateProcess e ctx pid body w))"
    "R w0 (snd (Service_DeleteWorker e ctx wid w))"
proof -
  note created = CreateProcess[OF assms(1)] and updated = UpdateProcess[OF assms(1)]
  show "R w0 (snd (Service_CreateProcess oor e ctx body w))"
    using assms by (auto simp: Service_CreateProcess_def split_beta Let_def split: sum.split option.split)
  show "R w0 (snd (Service_UpdateProcess e ctx pid body w))"
    using assms by (auto simp: Service_UpdateProcess_def split_beta Let_def split: sum.split option.split)
  show "R w0 (snd (Service_DeleteWorker e ctx wid w))"
    using assms by (auto simp: Service_DeleteWorker_def split_beta split: sum.split)
qed

section \<open>Orchestras\<close>

lemma snd_returning: "snd (returning row ew) = snd ew"
  by (simp add: returning_def split: prod.split option.split)

lemma orchestra_queries [intro!]:
  assumes "R w0 w"
  shows "R w0 (snd (CreateOrchestra e oa w))" "R w0 (snd (UpdateOrchestraState e ocid st w))"
    "R w0 (snd (FinishOrchestra e ocid summary w))" "R w0 (snd (IncrementMovementCount e ocid w))"
    "R w0 (snd (CreateChatMessage e ma w))"
  unfolding CreateOrchestra_def UpdateOrchestraState_def FinishOrchestra_def IncrementMovementCount_def
    CreateChatMessage_def snd_returning
  by (rule reach_exec_same[OF assms]; simp add: on_orchestra_def)+

lemma movement_queries [intro!]:
  assumes "R w0 w"
  shows "R w0 (snd (SetRunChoiceConfig e rid cfg w))" "R w0 (snd (SetRunChosenIndex e rid i w))"
    "R w0 (snd (SetRunResult e rid res w))" "R w0 (link_movement e ocid n rid w)" "R w0 (kill_movements e ocid w)"
  unfolding SetRunChoiceConfig_def SetRunChosenIndex_def SetRunResult_def link_movement_def kill_movements_def
  using assms by (auto intro!: reach_exec on_run step_write simp: keeps_core_def run_core_def)

lemma create_movement [intro!]: "R w0 w \<Longrightarrow> R w0 (snd (snd (create_movement e ctx pid parent w)))"
  by (auto simp: create_movement_def split_beta Let_def)

lemma postSystemChat [intro!]: "R w0 w \<Longrightarrow> R w0 (postSystemChat e ocid content mt w)"
  by (auto simp: postSystemChat_def split_beta Let_def)

lemma fail_orchestra [intro!]: "R w0 w \<Longrightarrow> R w0 (fail_orchestra e content ocid w)"
  by (auto simp: fail_orchestra_def)

lemma checkTimeouts [intro!]: "R w0 w \<Longrightarrow> R w0 (checkTimeouts e w)"
  by (auto simp: checkTimeouts_def split: sum.split)

lemma check_amounts [intro!]: "R w0 w \<Longrightarrow> R w0 (snd (fold (check_amount fmt0 e ocid used) kls (b, w)))"
proof (induction kls arbitrary: b w)
  case (Cons kl kls)
  have "R w0 (snd (check_amount fmt0 e ocid used kl (b, w)))"
    using Cons.prems by (auto simp: check_amount_def Let_def split: prod.split)
  then show ?case using Cons.IH[of "snd (check_amount fmt0 e ocid used kl (b, w))" "fst (check_amount fmt0 e ocid used kl (b, w))"]
    by simp
qed simp

lemma checkBudgets [intro!]: "R w0 w \<Longrightarrow> R w0 (checkBudgets fmt0 e w)"
  by (auto simp: checkBudgets_def check_budget_def split_beta Let_def split: sum.split)

lemma choose_process [intro!]: "R w0 w \<Longrightarrow> R w0 (snd (choose_process e ctx rid run pid w))"
  by (auto simp: choose_process_def split_beta Let_def split: option.split)

lemma first_movement [intro!]: "R w0 w \<Longrightarrow> R w0 (first_movement e ctx q orch w)"
  by (auto simp: first_movement_def split_beta Let_def)

lemma orchestra_handlers [intro!]:
  assumes "R w0 w"
  shows "R w0 (snd (Service_CreateOrchestra e ctx oq w))" "R w0 (snd (Service_NextMovement e ctx rid pid w))"
    "R w0 (snd (Service_SetChoiceConfig e ctx rid cfg w))" "R w0 (snd (Service_Choose e ctx rid i w))"
    "R w0 (snd (Service_SetRunResult e rid res w))"
proof -
  show "R w0 (snd (Service_CreateOrchestra e ctx oq w))"
    using assms by (auto simp: Service_CreateOrchestra_def split_beta Let_def split: option.split sum.split)
  show "R w0 (snd (Service_NextMovement e ctx rid pid w))"
    using assms by (auto simp: Service_NextMovement_def split_beta Let_def split: option.split sum.split)
  show "R w0 (snd (Service_SetChoiceConfig e ctx rid cfg w))"
    using assms by (auto simp: Service_SetChoiceConfig_def split_beta Let_def split: option.split sum.split)
  show "R w0 (snd (Service_Choose e ctx rid i w))"
    using assms by (auto simp: Service_Choose_def complete_orchestra_def split_beta Let_def split: option.split sum.split)
  show "R w0 (snd (Service_SetRunResult e rid res w))"
    using assms by (auto simp: Service_SetRunResult_def split_beta Let_def split: option.split)
qed

end

section \<open>Deletions\<close>

context run_life
begin

lemma drop_runs: "R w (drop_runs ids w)"
proof (rule step_remove)
  show "keeps_core (\<lambda>r. r\<lparr>r_triggered_by_run_id := forget ids (r_triggered_by_run_id r),
      r_replayed_from_run_id := forget ids (r_replayed_from_run_id r)\<rparr>)"
    by (simp add: keeps_core_def run_core_def)
qed (simp_all add: drop_runs_def)

lemma clean_step: "clean e c (w, entries) = (n, w', entries') \<Longrightarrow> R w w'"
proof -
  have runs: "R w (snd (clean_runs e c w))"
    by (auto simp: clean_runs_def DeleteOldRuns_def split_beta Let_def intro!: reach_exec drop_runs)
  have jobs: "R w0 w \<Longrightarrow> R w0 (snd (clean_jobs e c w))" for w0 w
    by (auto simp: clean_jobs_def DeleteOldJobs_def split_beta Let_def drop_jobs_def intro!: reach_exec_same)
  show "clean e c (w, entries) = (n, w', entries') \<Longrightarrow> R w w'"
    using jobs[OF runs] by (auto simp: clean_def split_beta Let_def)
qed

lemma delete_process_rows: "R w (delete_process_rows pid ws w)"
proof -
  define gone where "gone = p_id ` set (filter (\<lambda>p. p_id p = pid \<and> p_workspace_id p = ws) (w_processes w))"
  define runs where "runs = r_id ` set (filter (\<lambda>r. r_process_id r \<in> gone) (w_runs w))"
  let ?f = "\<lambda>r. r\<lparr>r_triggered_by_run_id := forget runs (r_triggered_by_run_id r),
      r_replayed_from_run_id := forget runs (r_replayed_from_run_id r)\<rparr>"
  have w': "w_runs (delete_process_rows pid ws w) = map ?f (filter (\<lambda>r. r_id r \<notin> runs) (w_runs w))"
    "w_processes (delete_process_rows pid ws w) =
       map (\<lambda>p. p\<lparr>p_depends_on_process_id := forget gone (p_depends_on_process_id p)\<rparr>)
         (filter (\<lambda>p. p_id p \<notin> gone) (w_processes w))"
    "w_workspaces (delete_process_rows pid ws w) = w_workspaces w"
    by (simp_all add: delete_process_rows_def Let_def gone_def runs_def)
  show ?thesis
  proof (rule step_remove)
    show "w_runs (delete_process_rows pid ws w) = map ?f (filter (\<lambda>r. r_id r \<notin> runs) (w_runs w))" by (rule w'(1))
    show "keeps_core ?f" by (simp add: keeps_core_def run_core_def)
    show "w_workspaces (delete_process_rows pid ws w) = w_workspaces w" by (rule w'(3))
    show "\<forall>r\<in>set (w_runs (delete_process_rows pid ws w)). r_process_id r \<in> p_id ` set (w_processes w) \<longrightarrow>
      r_process_id r \<in> p_id ` set (w_processes (delete_process_rows pid ws w))"
      unfolding w' by (auto simp: runs_def image_image)
  qed
qed

lemma DeleteProcess [intro!]: "R w (snd (Service_DeleteProcess e ctx pid w))"
  by (auto simp: Service_DeleteProcess_def DeleteProcess_def split_beta intro: delete_process_rows
      split: option.split sum.split)

end

end
