(* ===== verification/Control_Plane.thy ===== *)
theory Control_Plane
  imports Run_Evolution Dispatch_Properties
begin

text \<open>
  The control plane as a whole: the database with the goroutines of the executor and of the queue
  processor, and the steps all components take on it in any order. A dispatch is two steps, with the call
  of the method between them; the others are one step each. The theorems say what holds of the table of
  runs in every state that can be reached.
\<close>

section \<open>States\<close>

text \<open>How the program was configured.\<close>

record plane =
  pl_methods :: registry
  pl_log_backend :: bool
  pl_base_url :: string
  pl_cron :: cron_lib
  pl_horizon :: duration
  pl_cleanup :: cleanup_config
  pl_hash :: "string \<Rightarrow> string"

abbreviation executor :: "plane \<Rightarrow> orchestrator" where
  "executor pl \<equiv> wired_orchestrator (pl_methods pl) (pl_log_backend pl) (pl_base_url pl)"

abbreviation queues :: "plane \<Rightarrow> processor" where
  "queues pl \<equiv> wired_processor (pl_methods pl) (pl_log_backend pl) (pl_base_url pl)"

text \<open>The claimed runs and jobs whose goroutines have not begun, and the calls that have not returned.\<close>

record control =
  cs_world :: world
  cs_claimed :: "run list"
  cs_calls :: "start_call list"
  cs_jobs :: "(job \<times> queue) list"
  cs_job_calls :: "job_call list"

section \<open>Steps\<close>

text \<open>The rounds of the components that are one step.\<close>

inductive round_step :: "plane \<Rightarrow> world \<Rightarrow> world \<Rightarrow> bool" for pl where
  polled: "round_step pl w (processAsyncRuns (executor pl) e w)"
| killed: "round_step pl w (processKillRequests (executor pl) e w)"
| planned: "plan (pl_cron pl) e (pl_horizon pl) w = Some w' \<Longrightarrow> round_step pl w w'"
| recovered: "recovery_Run (pl_cron pl) e w = Some (err, w') \<Longrightarrow> round_step pl w w'"
| monitored: "round_step pl w (monitor_check (wired_monitor (executor pl) e) e w)"
| stale: "round_step pl w (checkStaleWorkers e w)"
| jobs_polled: "round_step pl w (processAsyncJobs (queues pl) e w)"
| jobs_killed: "round_step pl w (job_processKillRequests (queues pl) e w)"
| jobs_expired: "round_step pl w (expire_jobs e w)"
| timed_out: "round_step pl w (checkTimeouts e w)"
| budgeted: "round_step pl w (checkBudgets fmt0 e w)"

text \<open>The requests that write runs or their parents.\<close>

inductive request_step :: "plane \<Rightarrow> world \<Rightarrow> world \<Rightarrow> bool" for pl where
  cancel: "request_step pl w (snd (Service_CancelRun e ctx rid w))"
| kill: "request_step pl w (snd (Service_KillRun e ctx rid w))"
| replay: "request_step pl w (snd (Service_ReplayRun e ctx rid w))"
| heartbeat: "request_step pl w (snd (Service_Heartbeat e hb w))"
| trigger: "request_step pl w (snd (Service_TriggerProcess e ctx pid w))"
| pause: "request_step pl w (snd (Service_PauseProcess e ctx pid cancel_pending w))"
| resume: "request_step pl w (snd (Service_ResumeProcess e ctx pid w))"
| create: "request_step pl w (snd (Service_CreateProcess oor e ctx body w))"
| update: "request_step pl w (snd (Service_UpdateProcess e ctx pid body w))"
| worker_deleted: "request_step pl w (snd (Service_DeleteWorker e ctx wid w))"
| worker_poll: "request_step pl w (snd (Service_WorkerPoll (pl_hash pl) e authz w))"
| worker_result: "request_step pl w (snd (Service_WorkerResult (pl_hash pl) e authz res w))"
| orchestra: "request_step pl w (snd (Service_CreateOrchestra e ctx oq w))"
| movement: "request_step pl w (snd (Service_NextMovement e ctx rid next_pid w))"
| choice_config: "request_step pl w (snd (Service_SetChoiceConfig e ctx rid cfg w))"
| choose: "request_step pl w (snd (Service_Choose e ctx rid i w))"
| run_result: "request_step pl w (snd (Service_SetRunResult e rid result w))"
| worker_heartbeat: "request_step pl w (snd (Service_WorkerHeartbeat (pl_hash pl) e authz beat w))"

text \<open>The two steps that delete runs.\<close>

inductive delete_step :: "plane \<Rightarrow> world \<Rightarrow> world \<Rightarrow> bool" for pl where
  cleaned: "clean e (pl_cleanup pl) (w, entries) = (n, w', entries') \<Longrightarrow> delete_step pl w w'"
| process_deleted: "delete_step pl w (snd (Service_DeleteProcess e ctx pid w))"

inductive_cases delete_stepE: "delete_step pl w w'"

inductive control_step :: "plane \<Rightarrow> control \<Rightarrow> control \<Rightarrow> bool" for pl where
  round: "round_step pl (cs_world s) w \<Longrightarrow> control_step pl s (s\<lparr>cs_world := w\<rparr>)"
| request: "request_step pl (cs_world s) w \<Longrightarrow> control_step pl s (s\<lparr>cs_world := w\<rparr>)"
| tick: "control_step pl s (s\<lparr>cs_claimed := cs_claimed s @ orchestrator_tick e (cs_world s)\<rparr>)"
| begun: "run \<in> set (cs_claimed s) \<Longrightarrow> dispatch_begin (executor pl) e run (cs_world s) = (c, w) \<Longrightarrow>
    control_step pl s (s\<lparr>cs_world := w, cs_claimed := remove1 run (cs_claimed s),
      cs_calls := cs_calls s @ (case c of None \<Rightarrow> [] | Some call \<Rightarrow> [call])\<rparr>)"
| finished: "c \<in> set (cs_calls s) \<Longrightarrow> control_step pl s (s\<lparr>
    cs_world := dispatch_finish (executor pl) e c (m_Start (dc_method c) (dc_params c)) (cs_world s),
    cs_calls := remove1 c (cs_calls s)\<rparr>)"
| job_tick: "control_step pl s (s\<lparr>cs_jobs := cs_jobs s @ processor_tick e (cs_world s)\<rparr>)"
| job_begin: "jq \<in> set (cs_jobs s) \<Longrightarrow> job_dispatch_begin (queues pl) e jq (cs_world s) = (jc, w) \<Longrightarrow>
    control_step pl s (s\<lparr>cs_world := w, cs_jobs := remove1 jq (cs_jobs s),
      cs_job_calls := cs_job_calls s @ (case jc of None \<Rightarrow> [] | Some call \<Rightarrow> [call])\<rparr>)"
| job_finish: "jc \<in> set (cs_job_calls s) \<Longrightarrow> control_step pl s (s\<lparr>
    cs_world := job_dispatch_finish (queues pl) e jc (m_Start (jc_method jc) (jc_params jc)) (cs_world s),
    cs_job_calls := remove1 jc (cs_job_calls s)\<rparr>)"

inductive full_step :: "plane \<Rightarrow> control \<Rightarrow> control \<Rightarrow> bool" for pl where
  control: "control_step pl s s' \<Longrightarrow> full_step pl s s'"
| delete: "delete_step pl (cs_world s) w \<Longrightarrow> full_step pl s (s\<lparr>cs_world := w\<rparr>)"

section \<open>Every step evolves the runs\<close>

context run_evolution
begin

lemma round_evolves: "round_step pl w w' \<Longrightarrow> R w w'"
  by (induction rule: round_step.induct) (auto dest: plan_step recovery_step)

lemma request_evolves: "request_step pl w w' \<Longrightarrow> R w w'"
  by (induction rule: request_step.induct) auto

lemma control_evolves: "control_step pl s s' \<Longrightarrow> R (cs_world s) (cs_world s')"
proof (induction rule: control_step.induct)
  case (begun run s e c w)
  then show ?case using dispatch_begin[OF step_refl] by (metis control.select_convs(1) control.surjective
        control.update_convs(1,2,3) snd_conv)
next
  case (job_begin jq s e jc w)
  then show ?case using job_dispatch_begin[OF step_refl] by (metis control.select_convs(1) control.surjective
        control.update_convs(1,4,5) snd_conv)
qed (auto intro: round_evolves request_evolves)

end

context run_life
begin

lemma full_evolves: "full_step pl s s' \<Longrightarrow> R (cs_world s) (cs_world s')"
proof (induction rule: full_step.induct)
  case (delete s w)
  then show ?case by (auto elim!: delete_stepE dest: clean_step)
qed (auto intro: control_evolves)

lemma full_steps_evolve: "(full_step pl)\<^sup>*\<^sup>* s s' \<Longrightarrow> R (cs_world s) (cs_world s')"
  by (induction rule: rtranclp_induct) (auto dest: full_evolves intro: step_trans)

end

section \<open>Well-typed runs\<close>

text \<open>
  The constraints of the table: ids are unique, a process has one run for an instant and an origin, origins
  and actors are of the admitted kinds, and the process and the workspace exist.
\<close>

definition typed_run :: "world \<Rightarrow> run \<Rightarrow> bool" where
  "typed_run w r \<longleftrightarrow> r_origin r \<in> set run_origins \<and> one_of actor_types (r_actor_type r) \<and>
     r_process_id r \<in> p_id ` set (w_processes w) \<and> r_workspace_id r \<in> wsp_id ` set (w_workspaces w)"

definition runs_typed :: "world \<Rightarrow> bool" where
  "runs_typed w \<longleftrightarrow> runs_ok w \<and> (\<forall>r\<in>set (w_runs w). typed_run w r)"

lemma core_fields:
  assumes "run_core r = run_core r'"
  shows "r_id r = r_id r'" "run_slot r = run_slot r'" "r_origin r = r_origin r'" "r_actor_type r = r_actor_type r'"
    "r_process_id r = r_process_id r'" "r_workspace_id r = r_workspace_id r'"
  using assms by (auto simp: run_core_def run_slot_def)

lemma typed_keys_kept: "typed_run w r \<Longrightarrow> keys_kept w w' \<Longrightarrow> typed_run w' r"
  by (auto simp: typed_run_def keys_kept_def)

lemma has_key_image: "has_key key k rows \<longleftrightarrow> k \<in> key ` set rows"
  by (auto simp: has_key_def)

lemma new_run_typed: "create_run_violation a w = None \<Longrightarrow> typed_run w (new_run e a)"
  by (simp add: create_run_violation_def typed_run_def new_run_def has_key_image split: if_split_asm)

interpretation typed: run_life "\<lambda>w w'. runs_typed w \<longrightarrow> runs_typed w'"
proof
  fix w w' :: world
  assume "w_runs w' = w_runs w" "keys_kept w w'"
  then show "runs_typed w \<longrightarrow> runs_typed w'"
    by (auto simp: runs_typed_def runs_ok_def intro: typed_keys_kept)
next
  fix f :: "run \<Rightarrow> run" and w :: world and P
  assume f: "keeps_core f"
  then have "typed_run w (f r) = typed_run w r" for r w
    using core_fields[of "f r" r] by (simp add: keeps_core_def typed_run_def)
  moreover have "typed_run (w\<lparr>w_runs := rs\<rparr>) r = typed_run w r" for rs r
    by (simp add: typed_run_def)
  moreover have "keeps_slot f" using f core_fields by (metis keeps_core_def keeps_slot_def)
  ultimately show "runs_typed w \<longrightarrow> runs_typed (w\<lparr>w_runs := update_where P f (w_runs w)\<rparr>)"
    by (auto simp: runs_typed_def runs_ok_def set_update_where map_update_where keeps_slot_def)
next
  fix a e and w :: world
  assume v: "create_run_violation a w = None"
  then have "runs_ok w \<Longrightarrow> runs_ok (w\<lparr>w_runs := w_runs w @ [new_run e a]\<rparr>)"
    using runs_ok_CreateRun[of w "e\<lparr>e_fault := \<lambda>_. None\<rparr>" a]
    by (simp add: CreateRun_def db_exec_def new_run_def)
  then show "runs_typed w \<longrightarrow> runs_typed (w\<lparr>w_runs := w_runs w @ [new_run e a]\<rparr>)"
    using new_run_typed[OF v] by (auto simp: runs_typed_def typed_run_def)
next
  fix f :: "run \<Rightarrow> run" and P and w w' :: world
  assume rows: "w_runs w' = map f (filter P (w_runs w))" and f: "keeps_core f"
    and ws: "w_workspaces w' = w_workspaces w"
    and ps: "\<forall>r\<in>set (w_runs w'). r_process_id r \<in> p_id ` set (w_processes w) \<longrightarrow>
      r_process_id r \<in> p_id ` set (w_processes w')"
  have c: "r_id (f r) = r_id r" "run_slot (f r) = run_slot r" "typed_run w (f r) = typed_run w r" for r
    using f core_fields[of "f r" r] by (simp_all add: keeps_core_def typed_run_def)
  show "runs_typed w \<longrightarrow> runs_typed w'"
  proof
    assume t: "runs_typed w"
    then have "runs_ok w'"
      by (auto simp: runs_typed_def runs_ok_def rows comp_def c distinct_map_filter)
    moreover have "typed_run w' r" if "r \<in> set (w_runs w')" for r
    proof -
      have "typed_run w r" using t that c(3) by (auto simp: rows runs_typed_def)
      then show ?thesis using ps that ws by (auto simp: typed_run_def)
    qed
    ultimately show "runs_typed w'" by (simp add: runs_typed_def)
  qed
qed auto


text \<open>Without deletions every run stays, under its identity.\<close>

interpretation kept: run_evolution "\<lambda>w w'. \<forall>r\<in>set (w_runs w). \<exists>r'\<in>set (w_runs w'). run_core r' = run_core r"
proof
  fix f :: "run \<Rightarrow> run" and w :: world and P
  assume f: "keeps_core f"
  show "\<forall>r\<in>set (w_runs w). \<exists>r'\<in>set (w_runs (w\<lparr>w_runs := update_where P f (w_runs w)\<rparr>)). run_core r' = run_core r"
  proof
    fix r assume "r \<in> set (w_runs w)"
    then have "(if P r then f r else r) \<in> set (w_runs (w\<lparr>w_runs := update_where P f (w_runs w)\<rparr>))"
      by (auto simp: set_update_where)
    moreover have "run_core (if P r then f r else r) = run_core r" using f by (simp add: keeps_core_def)
    ultimately show "\<exists>r'\<in>set (w_runs (w\<lparr>w_runs := update_where P f (w_runs w)\<rparr>)). run_core r' = run_core r"
      by blast
  qed
qed (fastforce+)

section \<open>What goroutines hold\<close>

text \<open>The run of a goroutine is in the table, perhaps further on.\<close>

definition held_runs :: "control \<Rightarrow> run set" where
  "held_runs s = set (cs_claimed s) \<union> dc_run ` set (cs_calls s)"

definition holds_rows :: "control \<Rightarrow> bool" where
  "holds_rows s \<longleftrightarrow> (\<forall>run\<in>held_runs s. \<exists>r\<in>set (w_runs (cs_world s)). run_core r = run_core run)"

lemma tick_mem: "r \<in> set (orchestrator_tick e w) \<Longrightarrow> r \<in> set (w_runs w)"
  by (auto simp: orchestrator_tick_def ClaimPendingRuns_def ClaimRetryingRuns_def db_read_def
      split: option.splits sum.splits dest!: in_set_takeD)

lemma begun_run: "dispatch_begin o' e run w = (Some c, w') \<Longrightarrow> dc_run c = run"
  by (auto simp: dispatch_begin_def dispatch_route_def begin_attempt_def Let_def split_beta
      split: sum.splits if_splits option.splits)

lemma held_after_step:
  assumes "control_step pl s s'"
  shows "held_runs s' \<subseteq> held_runs s \<union> set (w_runs (cs_world s))"
  using assms
proof (induction rule: control_step.induct)
  case (tick s e)
  then show ?case using tick_mem by (auto simp: held_runs_def)
next
  case (begun run s e c w)
  then show ?case using set_remove1_subset[of run "cs_claimed s"]
    by (auto simp: held_runs_def dest!: begun_run split: option.splits)
next
  case (finished c s e)
  then show ?case using set_remove1_subset[of c "cs_calls s"] by (auto simp: held_runs_def)
qed (auto simp: held_runs_def)

lemma holds_rows_step:
  assumes "control_step pl s s'" "holds_rows s"
  shows "holds_rows s'"
  unfolding holds_rows_def
proof
  fix run assume "run \<in> held_runs s'"
  then have "run \<in> held_runs s \<or> run \<in> set (w_runs (cs_world s))" using held_after_step[OF assms(1)] by blast
  then obtain r where "r \<in> set (w_runs (cs_world s))" "run_core r = run_core run"
    using assms(2) by (auto simp: holds_rows_def)
  then show "\<exists>r\<in>set (w_runs (cs_world s')). run_core r = run_core run"
    using kept.control_evolves[OF assms(1)] by metis
qed

lemma holds_rows_reachable: "(control_step pl)\<^sup>*\<^sup>* s s' \<Longrightarrow> holds_rows s \<Longrightarrow> holds_rows s'"
  by (induction rule: rtranclp_induct) (auto intro: holds_rows_step)

section \<open>Properties\<close>

text \<open>
  C31: In every state the control plane reaches, by any interleaving of its components, requests and
  deletions, the table of runs is well typed: ids are unique, no two runs of a process have the same instant
  and origin, origins and actors are of the admitted kinds, and every run has its process and workspace.
\<close>

theorem runs_stay_typed:
  assumes "(full_step pl)\<^sup>*\<^sup>* s s'" "runs_typed (cs_world s)"
  shows "runs_typed (cs_world s')"
  using typed.full_steps_evolve[OF assms(1)] assms(2) by simp


definition sample_plane :: plane where
  "sample_plane = \<lparr>pl_methods = Register ''http'' (sample_blocking 0) NewRegistry, pl_log_backend = False,
     pl_base_url = [], pl_cron = \<lparr>cl_LoadLocation = (\<lambda>_. True), cl_Parse = (\<lambda>_ _. None)\<rparr>, pl_horizon = 0,
     pl_cleanup = cleanup_New \<lparr>cc_RunRetention = 0, cc_JobRetention = 0, cc_AuditRetention = 0, cc_BatchSize = 0,
       cc_Interval = 0\<rparr>, pl_hash = (\<lambda>x. x)\<rparr>"

definition sample_control :: control where
  "sample_control = \<lparr>cs_world = sample_world [sample_process ''prc_1''] [sample_run ''run_1'' Pending],
     cs_claimed = [], cs_calls = [], cs_jobs = [], cs_job_calls = []\<rparr>"

definition sample_user_ctx :: request_ctx where
  "sample_user_ctx = Some \<lparr>a_Type = ''user'', a_ID = ''usr_1'', a_WorkspaceID = ''wsp_1'', a_Role = ''operator'',
     a_IsPlatformAdmin = False\<rparr>"

lemma sample_control_typed: "runs_typed (cs_world sample_control)"
  by (simp add: sample_control_def runs_typed_def runs_ok_def typed_run_def sample_world_def sample_run_def
      new_run_def sample_params_def run_origins_def one_of_def actor_types_def sample_process_def sample_workspace_def)

theorem runs_stay_typed_witness:
  "\<exists>s'. (full_step sample_plane)\<^sup>*\<^sup>* sample_control s' \<and>
    state_at (cs_world s') ''run_1'' = Some Cancelled \<and> runs_typed (cs_world s')"
proof -
  let ?w = "snd (Service_CancelRun (calm 5) sample_user_ctx ''run_1'' (cs_world sample_control))"
  let ?s = "sample_control\<lparr>cs_world := ?w\<rparr>"
  have "full_step sample_plane sample_control ?s" by (intro full_step.control control_step.request request_step.cancel)
  then have step: "(full_step sample_plane)\<^sup>*\<^sup>* sample_control ?s" by (rule r_into_rtranclp)
  have "state_at ?w ''run_1'' = Some Cancelled"
    by (simp add: Service_CancelRun_def GetRun_def db_read_def one_row_def sample_control_def sample_user_ctx_def
        ctx_WorkspaceID_def UpdateRunState_ok state_at_def run_at_on_run sample_lookups)
  then show ?thesis using runs_stay_typed[OF step sample_control_typed] step by auto
qed




end
