(* ===== verification/Listings.thy ===== *)
theory Listings
  imports "HOL-Library.Word" Cleanup Credentials Account_Handlers Job_Handlers Process_Handlers Worker_Handlers
begin

text \<open>
  The listings of the HTTP interface that are ordered by name, the statistics and the deletion of
  queues, the audit records, and the small handlers of \<open>internal/handler/service.go\<close> that only read:
  health of a workspace and public configuration. Last the log-in with Google,
  \<open>internal/auth/google.go\<close>, whose client library is a parameter. \<open>coll\<close> is the place of a name in the
  order of the database.
\<close>

section \<open>Rows in the order of their names\<close>

definition by_name :: "(string \<Rightarrow> nat) \<Rightarrow> ('r \<Rightarrow> string) \<Rightarrow> ('r \<Rightarrow> string) \<Rightarrow> string \<Rightarrow> 'r list \<Rightarrow> 'r list" where
  "by_name coll name ws_of ws rows = sort_key (\<lambda>x. coll (name x)) (filter (\<lambda>x. ws_of x = ws) rows)"

definition ListProcesses ::
  "(string \<Rightarrow> nat) \<Rightarrow> env \<Rightarrow> string \<Rightarrow> int \<Rightarrow> int \<Rightarrow> world \<Rightarrow> process list answer" where
  "ListProcesses coll e ws lmt off w = db_read e ''ListProcesses''
     (Inr (take (nat lmt) (drop (nat off) (by_name coll p_name p_workspace_id ws (w_processes w)))))"

definition ListQueues :: "(string \<Rightarrow> nat) \<Rightarrow> env \<Rightarrow> string \<Rightarrow> world \<Rightarrow> queue list answer" where
  "ListQueues coll e ws w = db_read e ''ListQueues''
     (Inr (by_name coll q_name q_workspace_id ws (w_queues w)))"

definition ListWorkersByWorkspace :: "(string \<Rightarrow> nat) \<Rightarrow> env \<Rightarrow> string \<Rightarrow> world \<Rightarrow> worker list answer" where
  "ListWorkersByWorkspace coll e ws w = db_read e ''ListWorkersByWorkspace''
     (Inr (by_name coll wk_name wk_workspace_id ws (w_workers w)))"

text \<open>A listing replies with the rows and their number.\<close>

definition listing :: "string \<Rightarrow> 'r list answer \<Rightarrow> ('r list \<times> int) reply" where
  "listing failure answer =
     (case answer of
        Inl _ \<Rightarrow> writeError 500 ''INTERNAL_ERROR'' failure []
      | Inr rows \<Rightarrow> writeJSON 200 (rows, int (length rows)))"

definition Service_ListProcesses ::
  "(string \<Rightarrow> nat) \<Rightarrow> env \<Rightarrow> request_ctx \<Rightarrow> world \<Rightarrow> (process list \<times> int) reply" where
  "Service_ListProcesses coll e ctx w =
     listing ''Failed to list processes'' (ListProcesses coll e (ctx_WorkspaceID ctx) 50 0 w)"

definition Service_ListQueues ::
  "(string \<Rightarrow> nat) \<Rightarrow> env \<Rightarrow> request_ctx \<Rightarrow> world \<Rightarrow> (queue list \<times> int) reply" where
  "Service_ListQueues coll e ctx w =
     listing ''Failed to list queues'' (ListQueues coll e (ctx_WorkspaceID ctx) w)"

definition Service_ListWorkers ::
  "(string \<Rightarrow> nat) \<Rightarrow> env \<Rightarrow> request_ctx \<Rightarrow> world \<Rightarrow> (worker list \<times> int) reply" where
  "Service_ListWorkers coll e ctx w =
     listing ''Failed to list workers'' (ListWorkersByWorkspace coll e (ctx_WorkspaceID ctx) w)"

section \<open>Queues\<close>

record queue_stats =
  qs_id :: string
  qs_name :: string
  qs_pending_count :: int
  qs_running_count :: int
  qs_retrying_count :: int
  qs_failed_24h :: int
  qs_completed_24h :: int

definition count_jobs :: "queue \<Rightarrow> job_state \<Rightarrow> world \<Rightarrow> int" where
  "count_jobs q st w = count_where (\<lambda>j. j_queue_id j = q_id q \<and> j_state j = st) (w_jobs w)"

definition count_recent :: "env \<Rightarrow> queue \<Rightarrow> job_state \<Rightarrow> world \<Rightarrow> int" where
  "count_recent e q st w = count_where
     (\<lambda>j. j_queue_id j = q_id q \<and> j_state j = st \<and> j_updated_at j \<ge> e_db_now e - 24 * hour) (w_jobs w)"

definition stats_of :: "env \<Rightarrow> world \<Rightarrow> queue \<Rightarrow> queue_stats" where
  "stats_of e w q =
     \<lparr>qs_id = q_id q, qs_name = q_name q,
      qs_pending_count = count_jobs q JobPending w, qs_running_count = count_jobs q JobRunning w,
      qs_retrying_count = count_jobs q JobRetrying w, qs_failed_24h = count_recent e q JobFailed w,
      qs_completed_24h = count_recent e q JobCompleted w\<rparr>"

definition GetQueueStats :: "env \<Rightarrow> string \<Rightarrow> string \<Rightarrow> world \<Rightarrow> queue_stats answer" where
  "GetQueueStats e qid ws w = db_read e ''GetQueueStats'' (one_row (map_option (stats_of e w)
     (List.find (\<lambda>q. q_id q = qid \<and> q_workspace_id q = ws) (w_queues w))))"

text \<open>A queue is deleted with its jobs and their attempts; replays of these jobs stay.\<close>

definition delete_queue_rows :: "string \<Rightarrow> string \<Rightarrow> world \<Rightarrow> world" where
  "delete_queue_rows qid ws w =
     (let gone = q_id ` set (filter (\<lambda>q. q_id q = qid \<and> q_workspace_id q = ws) (w_queues w));
          jobs = j_id ` set (filter (\<lambda>j. j_queue_id j \<in> gone) (w_jobs w))
      in drop_jobs jobs (w\<lparr>w_queues := filter (\<lambda>q. q_id q \<notin> gone) (w_queues w)\<rparr>))"

definition DeleteQueue :: "env \<Rightarrow> string \<Rightarrow> string \<Rightarrow> world \<Rightarrow> int answer \<times> world" where
  "DeleteQueue e qid ws w =
     deleting e ''DeleteQueue'' (\<lambda>q. q_id q = qid \<and> q_workspace_id q = ws) (w_queues w)
       (delete_queue_rows qid ws) w"

section \<open>Audit records\<close>

text \<open>The table stands beside the world, no other component uses it.\<close>

definition CreateAuditEntry ::
  "env \<Rightarrow> audit_entry \<Rightarrow> world \<Rightarrow> audit_entry list \<Rightarrow> audit_entry answer \<times> audit_entry list" where
  "CreateAuditEntry e a w entries =
     (let stored = a\<lparr>au_created_at := e_db_now e\<rparr>
      in case e_fault e ''CreateAuditEntry'' of
           Some err \<Rightarrow> (Inl err, entries)
         | None \<Rightarrow>
             (case first_violation
                [(au_actor_type a \<notin> set actor_types, check_violation ''audit_log_actor_type_check''),
                 (has_key au_id (au_id a) entries, unique_violation ''audit_log_pkey''),
                 (\<not> has_key wsp_id (au_workspace_id a) (w_workspaces w),
                  foreign_key_violation ''audit_log_workspace_id_fkey'')] of
                Some err \<Rightarrow> (Inl err, entries)
              | None \<Rightarrow> (Inr stored, entries @ [stored])))"

definition audit_page :: "(audit_entry \<Rightarrow> bool) \<Rightarrow> int \<Rightarrow> int \<Rightarrow> audit_entry list \<Rightarrow> audit_entry list" where
  "audit_page P lmt off entries =
     take (nat lmt) (drop (nat off) (sort_key (\<lambda>a. - au_created_at a) (filter P entries)))"

definition ListAuditByEntity ::
  "env \<Rightarrow> string \<Rightarrow> string \<Rightarrow> string \<Rightarrow> int \<Rightarrow> int \<Rightarrow> audit_entry list \<Rightarrow> audit_entry list answer" where
  "ListAuditByEntity e ws etype eid lmt off entries = db_read e ''ListAuditByEntity''
     (Inr (audit_page (\<lambda>a. au_workspace_id a = ws \<and> au_entity_type a = etype \<and> au_entity_id a = eid)
        lmt off entries))"

definition ListAuditByWorkspace ::
  "env \<Rightarrow> string \<Rightarrow> int \<Rightarrow> int \<Rightarrow> audit_entry list \<Rightarrow> audit_entry list answer" where
  "ListAuditByWorkspace e ws lmt off entries = db_read e ''ListAuditByWorkspace''
     (Inr (audit_page (\<lambda>a. au_workspace_id a = ws) lmt off entries))"

section \<open>Handlers that only read\<close>

record workspace_health =
  wh_processes :: int
  wh_running_runs :: int
  wh_pending_runs :: int
  wh_failed_runs :: int

text \<open>A count that cannot be read is 0; the three counts of runs fail apart.\<close>

definition or_zero :: "int answer \<Rightarrow> int" where
  "or_zero a = (case a of Inl _ \<Rightarrow> 0 | Inr n \<Rightarrow> n)"

definition Service_GetWorkspaceHealth :: "env \<Rightarrow> request_ctx \<Rightarrow> world \<Rightarrow> workspace_health reply" where
  "Service_GetWorkspaceHealth e ctx w =
     (let ws = ctx_WorkspaceID ctx in writeJSON 200
        \<lparr>wh_processes = or_zero (CountProcesses e ws w),
         wh_running_runs = or_zero (CountRuns e ws [] ''running'' [] w),
         wh_pending_runs = or_zero (CountRuns (again e) ws [] ''pending'' [] w),
         wh_failed_runs = or_zero (CountRuns (again (again e)) ws [] ''failed'' [] w)\<rparr>)"

text \<open>The flags, and the banner of the environment when there is one.\<close>

definition Service_GetPublicConfig :: "bool \<Rightarrow> string \<Rightarrow> go_map reply" where
  "Service_GetPublicConfig google banner = writeJSON 200
     ((''google_oauth_enabled'', JBool google) #
      (if banner = [] then [] else [(''demo_banner'', JStr banner)]))"

section \<open>Log-in with Google\<close>

record google_config =
  gc_ClientID :: string
  gc_ClientSecret :: string
  gc_RedirectURL :: string

record google_user_info =
  gu_Sub :: string
  gu_Email :: string
  gu_EmailVerified :: bool
  gu_Name :: string
  gu_Picture :: string

text \<open>
  What the library answers: the token of a code, the body at an address for a token (an error of the
  request, or one of reading), the decoder of the body, and the address of the consent page.
\<close>

record 't oauth_lib =
  ol_Exchange :: "google_config \<Rightarrow> string \<Rightarrow> 't answer"
  ol_Get :: "'t \<Rightarrow> string \<Rightarrow> string answer answer"
  ol_Unmarshal :: "string \<Rightarrow> google_user_info answer"
  ol_AuthCodeURL :: "google_config \<Rightarrow> string \<Rightarrow> string"

definition NewGoogleAuth :: "google_config \<Rightarrow> google_config option" where
  "NewGoogleAuth cfg = (if gc_ClientID cfg = [] \<or> gc_ClientSecret cfg = [] then None else Some cfg)"

definition userinfo_url :: string where
  "userinfo_url = ''https://www.googleapis.com/oauth2/v3/userinfo''"

definition google_Exchange :: "'t oauth_lib \<Rightarrow> google_config \<Rightarrow> string \<Rightarrow> google_user_info answer" where
  "google_Exchange ol g code =
     (case ol_Exchange ol g code of
        Inl err \<Rightarrow> Inl (ErrText (''exchange code: '' @ Error err))
      | Inr token \<Rightarrow>
          (case ol_Get ol token userinfo_url of
             Inl err \<Rightarrow> Inl (ErrText (''get userinfo: '' @ Error err))
           | Inr (Inl err) \<Rightarrow> Inl (ErrText (''read userinfo: '' @ Error err))
           | Inr (Inr body) \<Rightarrow>
               (case ol_Unmarshal ol body of
                  Inl err \<Rightarrow> Inl (ErrText (''parse userinfo: '' @ Error err))
                | Inr info \<Rightarrow>
                    if gu_Email info = [] then Inl (ErrText ''no email in Google response'')
                    else Inr info)))"

text \<open>The part of it the call-back uses.\<close>

definition google_identity :: "'t oauth_lib \<Rightarrow> google_config \<Rightarrow> string \<Rightarrow> (string \<times> string) option" where
  "google_identity ol g code =
     (case google_Exchange ol g code of Inl _ \<Rightarrow> None | Inr info \<Rightarrow> Some (gu_Email info, gu_Name info))"

definition hex_digits :: string where "hex_digits = ''0123456789abcdef''"

text \<open>\<open>generateState\<close> on sixteen random bytes.\<close>

definition generateState :: "8 word list \<Rightarrow> string" where
  "generateState bytes =
     concat (map (\<lambda>b. [hex_digits ! (unat b div 16), hex_digits ! (unat b mod 16)]) (take 16 bytes))"

text \<open>The state goes into a cookie, the reply redirects to the page.\<close>

definition Service_GoogleLogin ::
  "'t oauth_lib \<Rightarrow> google_config option \<Rightarrow> 8 word list \<Rightarrow> (string \<times> string) reply" where
  "Service_GoogleLogin ol google bytes =
     (case google of
        None \<Rightarrow> writeError 501 ''NOT_IMPLEMENTED'' ''Google OAuth is not configured''
                  ''Set CC_AUTH_GOOGLE_CLIENT_ID and CC_AUTH_GOOGLE_CLIENT_SECRET''
      | Some g \<Rightarrow> let st = generateState bytes in writeJSON 302 (ol_AuthCodeURL ol g st, st))"

section \<open>Properties of the listings\<close>

lemma set_by_name [simp]: "set (by_name coll name ws_of ws rows) = {x \<in> set rows. ws_of x = ws}"
  by (simp add: by_name_def)

lemma sorted_by_name: "sorted (map (\<lambda>x. coll (name x)) (by_name coll name ws_of ws rows))"
  by (simp add: by_name_def)

lemma length_by_name: "length (by_name coll name ws_of ws rows) = length (filter (\<lambda>x. ws_of x = ws) rows)"
  by (simp add: by_name_def)

text \<open>A page is a sorted piece of the listing.\<close>

lemma sorted_page: "sorted (map f xs) \<Longrightarrow> sorted (map f (take n (drop m xs)))"
  by (simp add: take_map [symmetric] drop_map [symmetric] sorted_wrt_take sorted_wrt_drop)

lemma set_page: "x \<in> set (take n (drop m xs)) \<Longrightarrow> x \<in> set xs"
  by (blast dest: in_set_takeD in_set_dropD)

lemma ListProcesses_page:
  assumes "ListProcesses coll e ws lmt off w = Inr ps"
  shows "sorted (map (\<lambda>p. coll (p_name p)) ps)" "length ps \<le> nat lmt"
    "p \<in> set ps \<Longrightarrow> p \<in> set (w_processes w) \<and> p_workspace_id p = ws"
  using assms
  by (auto simp: ListProcesses_def db_read_def intro!: sorted_page sorted_by_name
      dest!: set_page split: option.splits)

lemma listing_Data: "listing failure answer = Data n d \<Longrightarrow> answer = Inr (fst d) \<and> n = 200 \<and> snd d = int (length (fst d))"
  by (auto simp: listing_def writeError_def writeJSON_def split: sum.splits)

section \<open>Properties of the deletion of queues\<close>

lemma drop_jobs_frames [simp]:
  "w_queues (drop_jobs ids w) = w_queues w" "w_runs (drop_jobs ids w) = w_runs w"
  "w_processes (drop_jobs ids w) = w_processes w"
  by (simp_all add: drop_jobs_def)

lemma DeleteQueue_cases:
  obtains (failed) err where "DeleteQueue e qid ws w = (Inl err, w)"
  | (gone) n where "DeleteQueue e qid ws w = (Inr n, delete_queue_rows qid ws w)"
  by (cases "e_fault e ''DeleteQueue''") (auto simp: DeleteQueue_def deleting_def db_exec_def)

lemma delete_queue_rows_other:
  assumes "\<not> (q_id q = qid \<and> q_workspace_id q = ws)" "distinct (map q_id (w_queues w))"
    "q \<in> set (w_queues w)"
  shows "q \<in> set (w_queues (delete_queue_rows qid ws w))"
  using assms by (fastforce simp: delete_queue_rows_def Let_def distinct_map dest: inj_onD)

lemma delete_queue_rows_job:
  assumes "j' \<in> set (w_jobs (delete_queue_rows qid ws w))"
    "q \<in> set (w_queues w)" "q_id q = qid" "q_workspace_id q = ws"
  shows "j_queue_id j' \<noteq> qid"
  using assms by (fastforce simp: delete_queue_rows_def drop_jobs_def Let_def)

lemma delete_queue_rows_attempt:
  assumes "a \<in> set (w_job_attempts (delete_queue_rows qid ws w))" "j \<in> set (w_jobs w)" "j_queue_id j = qid"
    "q \<in> set (w_queues w)" "q_id q = qid" "q_workspace_id q = ws"
  shows "ja_job_id a \<noteq> j_id j"
  using assms by (fastforce simp: delete_queue_rows_def drop_jobs_def Let_def)

lemma count_jobs_bound: "count_recent e q st w \<le> count_jobs q st w"
proof -
  have "length (filter (\<lambda>j. P j \<and> Q j \<and> R j) js) \<le> length (filter (\<lambda>j. P j \<and> Q j) js)"
    for P Q R :: "job \<Rightarrow> bool" and js
    by (induction js) auto
  then show ?thesis by (simp add: count_recent_def count_jobs_def count_where_def)
qed

text \<open>The counted states are different ones, so no job is counted twice.\<close>

lemma count_jobs_sum:
  "count_jobs q JobPending w + count_jobs q JobRunning w + count_jobs q JobRetrying w + count_jobs q JobFailed w +
   count_jobs q JobCompleted w \<le> count_where (\<lambda>j. j_queue_id j = q_id q) (w_jobs w)"
proof -
  have "length (filter (\<lambda>j. j_queue_id j = q_id q \<and> j_state j = JobPending) js) +
      length (filter (\<lambda>j. j_queue_id j = q_id q \<and> j_state j = JobRunning) js) +
      length (filter (\<lambda>j. j_queue_id j = q_id q \<and> j_state j = JobRetrying) js) +
      length (filter (\<lambda>j. j_queue_id j = q_id q \<and> j_state j = JobFailed) js) +
      length (filter (\<lambda>j. j_queue_id j = q_id q \<and> j_state j = JobCompleted) js)
      \<le> length (filter (\<lambda>j. j_queue_id j = q_id q) js)" for js :: "job list"
    by (induction js) auto
  from this [of "w_jobs w"] show ?thesis
    by (simp add: count_jobs_def count_where_def)
qed

lemma stats_are_bounded:
  assumes "GetQueueStats e qid ws w = Inr s"
  shows "qs_pending_count s + qs_running_count s + qs_retrying_count s + qs_failed_24h s + qs_completed_24h s
    \<le> count_where (\<lambda>j. j_queue_id j = qs_id s) (w_jobs w)"
proof -
  obtain q where "s = stats_of e w q"
    using assms by (auto simp: GetQueueStats_def db_read_def one_row_def split: option.splits)
  then show ?thesis
    using count_jobs_sum [of q w] count_jobs_bound [of e q JobFailed w] count_jobs_bound [of e q JobCompleted w]
    by (simp add: stats_of_def)
qed

section \<open>Properties of the log-in\<close>

lemma google_Exchange_email: "google_Exchange ol g code = Inr info \<Longrightarrow> gu_Email info \<noteq> []"
  by (auto simp: google_Exchange_def split: sum.splits if_splits)

lemma length_generateState: "length (generateState bytes) = 2 * min 16 (length bytes)"
proof -
  have "length (concat (map (\<lambda>b. [f b, g b]) bs)) = 2 * length bs" for f g :: "8 word \<Rightarrow> char" and bs
    by (induction bs) auto
  then show ?thesis by (simp add: generateState_def)
qed

text \<open>The state that the log-in put into the cookie is the one the call-back accepts, no other.\<close>

lemma callback_checks_state:
  assumes "st \<noteq> generateState bytes"
  shows "reply_status (fst (Service_GoogleCallback lib rnd (Some ex) e (Some (generateState bytes)) st code w)) = 400"
  using assms by (simp add: Service_GoogleCallback_def writeError_def)

end
