(* ===== verification/Director.thy ===== *)
theory Director
  imports Listings Orchestra_Handlers
begin

text \<open>
  The director of an orchestra, \<open>internal/orchestra/director.go\<close>: it shows the history to a language
  model and does what the model asks for. Before it stand the providers, \<open>internal/orchestra/provider.go\<close>:
  how a conversation with its tools becomes the request of each service, and how its reply becomes text
  and calls of tools. The transport, the decoders of replies, the texts made of rows and PostgreSQL's cast of
  a text to an integer are parameters. Sleeping between the attempts changes no state.
\<close>

section \<open>What the director and a provider exchange\<close>

record tool =
  tl_Name :: string
  tl_Description :: string
  tl_InputSchema :: json

record tool_call =
  tc_Name :: string
  tc_Input :: "go_map option"

record provider_response =
  pr_Text :: string
  pr_ToolCalls :: "tool_call list"
  pr_StopReason :: string

record message =
  mg_Role :: string
  mg_Content :: string

text \<open>The zero response.\<close>

definition no_response :: provider_response where
  "no_response = \<lparr>pr_Text = [], pr_ToolCalls = [], pr_StopReason = []\<rparr>"

text \<open>A nil slice is \<open>null\<close>.\<close>

definition json_slice :: "json list \<Rightarrow> json" where
  "json_slice xs = (if xs = [] then JNull else JArr xs)"

section \<open>The replies of the services\<close>

record anthropic_block =
  ab_Type :: string
  ab_Text :: string
  ab_Name :: string
  ab_Input :: "go_map option"

record anthropic_result =
  an_Content :: "anthropic_block list"
  an_StopReason :: string

record openai_call =
  oa_Name :: string
  oa_Arguments :: string

record openai_choice =
  oa_Content :: string
  oa_ToolCalls :: "openai_call list"
  oa_FinishReason :: string

record google_part =
  gp_Text :: string
  gp_FunctionCall :: "(string \<times> go_map option) option"

text \<open>
  The transport gives status and body of the reply to a \<open>POST\<close>, the decoders what is left in the
  struct after \<open>json.Unmarshal\<close>, whose error the code ignores. \<open>lh_url_ok\<close> says that a request can be
  made for an address: the error is ignored too, and a nil request panics.
\<close>

record llm_http =
  lh_Do :: "string \<Rightarrow> (string \<times> string) list \<Rightarrow> json \<Rightarrow> (int \<times> string) answer"
  lh_anthropic :: "string \<Rightarrow> anthropic_result"
  lh_openai :: "string \<Rightarrow> openai_choice list"
  lh_google :: "string \<Rightarrow> google_part list list"
  lh_parse :: "string \<Rightarrow> json option"
  lh_url_ok :: "string \<Rightarrow> bool"

record provider =
  pv_Name :: string
  pv_apiKey :: string
  pv_model :: string

text \<open>What the three calls do with the answer of the service.\<close>

definition provider_answer ::
  "string \<Rightarrow> (string \<Rightarrow> provider_response) \<Rightarrow> (int \<times> string) answer \<Rightarrow> provider_response answer" where
  "provider_answer name response answer =
     (case answer of
        Inl err \<Rightarrow> Inl (ErrText (name @ '': '' @ Error err))
      | Inr (status, body) \<Rightarrow>
          if status \<ge> 400 then Inl (ErrText (name @ '': HTTP '' @ Itoa status @ '': '' @ body))
          else Inr (response body))"

section \<open>Anthropic\<close>

definition NewAnthropicProvider :: "string \<Rightarrow> string \<Rightarrow> provider" where
  "NewAnthropicProvider key model =
     \<lparr>pv_Name = ''anthropic'', pv_apiKey = key,
      pv_model = (if model = [] then ''claude-sonnet-4-20250514'' else model)\<rparr>"

definition anthropic_body :: "provider \<Rightarrow> string \<Rightarrow> message list \<Rightarrow> tool list \<Rightarrow> json" where
  "anthropic_body p system messages tools = JObj
     [(''max_tokens'', JNum 4096),
      (''messages'', json_slice (map (\<lambda>m. JObj [(''content'', JStr (mg_Content m)), (''role'', JStr (mg_Role m))])
         messages)),
      (''model'', JStr (pv_model p)), (''system'', JStr system),
      (''tools'', json_slice (map (\<lambda>t. JObj [(''description'', JStr (tl_Description t)),
         (''input_schema'', tl_InputSchema t), (''name'', JStr (tl_Name t))]) tools))]"

definition add_block :: "anthropic_block \<Rightarrow> provider_response \<Rightarrow> provider_response" where
  "add_block c r =
     (if ab_Type c = ''text'' then r\<lparr>pr_Text := pr_Text r @ ab_Text c\<rparr>
      else if ab_Type c = ''tool_use''
      then r\<lparr>pr_ToolCalls := pr_ToolCalls r @ [\<lparr>tc_Name = ab_Name c, tc_Input = ab_Input c\<rparr>]\<rparr>
      else r)"

definition anthropic_response :: "anthropic_result \<Rightarrow> provider_response" where
  "anthropic_response result =
     fold add_block (an_Content result) (no_response\<lparr>pr_StopReason := an_StopReason result\<rparr>)"

definition anthropic_Call ::
  "llm_http \<Rightarrow> provider \<Rightarrow> string \<Rightarrow> message list \<Rightarrow> tool list \<Rightarrow> provider_response answer" where
  "anthropic_Call lh p system messages tools =
     provider_answer ''anthropic'' (\<lambda>body. anthropic_response (lh_anthropic lh body))
       (lh_Do lh ''https://api.anthropic.com/v1/messages''
          [(''Content-Type'', ''application/json''), (''X-Api-Key'', pv_apiKey p),
           (''Anthropic-Version'', ''2023-06-01'')]
          (anthropic_body p system messages tools))"

section \<open>OpenAI\<close>

definition NewOpenAIProvider :: "string \<Rightarrow> string \<Rightarrow> provider" where
  "NewOpenAIProvider key model =
     \<lparr>pv_Name = ''openai'', pv_apiKey = key, pv_model = (if model = [] then ''gpt-4o'' else model)\<rparr>"

definition openai_body :: "provider \<Rightarrow> string \<Rightarrow> message list \<Rightarrow> tool list \<Rightarrow> json" where
  "openai_body p system messages tools = JObj
     [(''messages'', JArr (JObj [(''content'', JStr system), (''role'', JStr ''system'')] #
         map (\<lambda>m. JObj [(''content'', JStr (mg_Content m)), (''role'', JStr (mg_Role m))]) messages)),
      (''model'', JStr (pv_model p)),
      (''tools'', json_slice (map (\<lambda>t. JObj [(''function'', JObj [(''description'', JStr (tl_Description t)),
         (''name'', JStr (tl_Name t)), (''parameters'', tl_InputSchema t)]), (''type'', JStr ''function'')]) tools))]"

text \<open>Arguments that are no JSON object leave the map nil.\<close>

definition arguments :: "llm_http \<Rightarrow> string \<Rightarrow> go_map option" where
  "arguments lh text = (case lh_parse lh text of
     None \<Rightarrow> None
   | Some j \<Rightarrow> (case unmarshal_map j of None \<Rightarrow> None | Some m \<Rightarrow> m))"

definition openai_response :: "llm_http \<Rightarrow> openai_choice list \<Rightarrow> provider_response" where
  "openai_response lh cs =
     (case cs of
        [] \<Rightarrow> no_response
      | choice # _ \<Rightarrow>
          \<lparr>pr_Text = oa_Content choice,
           pr_ToolCalls = map (\<lambda>tc. \<lparr>tc_Name = oa_Name tc, tc_Input = arguments lh (oa_Arguments tc)\<rparr>)
             (oa_ToolCalls choice),
           pr_StopReason = oa_FinishReason choice\<rparr>)"

definition openai_Call ::
  "llm_http \<Rightarrow> provider \<Rightarrow> string \<Rightarrow> message list \<Rightarrow> tool list \<Rightarrow> provider_response answer" where
  "openai_Call lh p system messages tools =
     provider_answer ''openai'' (\<lambda>body. openai_response lh (lh_openai lh body))
       (lh_Do lh ''https://api.openai.com/v1/chat/completions''
          [(''Content-Type'', ''application/json''), (''Authorization'', ''Bearer '' @ pv_apiKey p)]
          (openai_body p system messages tools))"

section \<open>Google\<close>

definition NewGoogleProvider :: "string \<Rightarrow> string \<Rightarrow> provider" where
  "NewGoogleProvider key model =
     \<lparr>pv_Name = ''google'', pv_apiKey = key,
      pv_model = (if model = [] then ''gemini-2.0-flash'' else model)\<rparr>"

definition text_part :: "string \<Rightarrow> json" where
  "text_part s = JArr [JObj [(''text'', JStr s)]]"

definition google_body :: "string \<Rightarrow> message list \<Rightarrow> tool list \<Rightarrow> json" where
  "google_body system messages tools = JObj
     [(''contents'', json_slice (map (\<lambda>m. JObj [(''parts'', text_part (mg_Content m)),
         (''role'', JStr (if mg_Role m = ''assistant'' then ''model'' else mg_Role m))]) messages)),
      (''systemInstruction'', JObj [(''parts'', text_part system)]),
      (''tools'', JArr [JObj [(''functionDeclarations'', json_slice (map (\<lambda>t.
         JObj [(''description'', JStr (tl_Description t)), (''name'', JStr (tl_Name t)),
               (''parameters'', tl_InputSchema t)]) tools))]])]"

definition add_part :: "google_part \<Rightarrow> provider_response \<Rightarrow> provider_response" where
  "add_part g r =
     (let r1 = r\<lparr>pr_Text := pr_Text r @ gp_Text g\<rparr>
      in case gp_FunctionCall g of
           None \<Rightarrow> r1
         | Some (name, args) \<Rightarrow> r1\<lparr>pr_ToolCalls := pr_ToolCalls r1 @ [\<lparr>tc_Name = name, tc_Input = args\<rparr>]\<rparr>)"

text \<open>The parts of the candidates; the first one counts.\<close>

definition google_response :: "google_part list list \<Rightarrow> provider_response" where
  "google_response candidates =
     (case candidates of [] \<Rightarrow> no_response | parts # _ \<Rightarrow> fold add_part parts no_response)"

definition google_url :: "provider \<Rightarrow> string" where
  "google_url p = ''https://generativelanguage.googleapis.com/v1beta/models/'' @ pv_model p @
     '':generateContent?key='' @ pv_apiKey p"

text \<open>\<open>None\<close> is the panic on a nil request.\<close>

definition google_Call ::
  "llm_http \<Rightarrow> provider \<Rightarrow> string \<Rightarrow> message list \<Rightarrow> tool list \<Rightarrow> provider_response answer option" where
  "google_Call lh p system messages tools =
     (if \<not> lh_url_ok lh (google_url p) then None
      else Some (provider_answer ''google'' (\<lambda>body. google_response (lh_google lh body))
        (lh_Do lh (google_url p) [(''Content-Type'', ''application/json'')] (google_body system messages tools))))"

section \<open>The choice of a provider\<close>

definition NewProvider :: "string \<Rightarrow> string \<Rightarrow> string \<Rightarrow> provider answer" where
  "NewProvider name key model =
     (if name = ''anthropic'' then Inr (NewAnthropicProvider key model)
      else if name = ''openai'' then Inr (NewOpenAIProvider key model)
      else if name = ''google'' then Inr (NewGoogleProvider key model)
      else Inl (ErrText (''unknown AI provider: '' @ name)))"

text \<open>The dynamic dispatch of the interface \<open>Provider\<close>.\<close>

definition provider_Call ::
  "llm_http \<Rightarrow> provider \<Rightarrow> string \<Rightarrow> message list \<Rightarrow> tool list \<Rightarrow> provider_response answer option" where
  "provider_Call lh p system messages tools =
     (if pv_Name p = ''anthropic'' then Some (anthropic_Call lh p system messages tools)
      else if pv_Name p = ''openai'' then Some (openai_Call lh p system messages tools)
      else google_Call lh p system messages tools)"

section \<open>What a provider promises\<close>

text \<open>Text and calls of an Anthropic reply: the concatenation of its blocks, in their order.\<close>

lemma fold_add_block:
  "pr_Text (fold add_block cs r) = pr_Text r @ concat (map ab_Text (filter (\<lambda>c. ab_Type c = ''text'') cs))"
  "pr_ToolCalls (fold add_block cs r) = pr_ToolCalls r @
     map (\<lambda>c. \<lparr>tc_Name = ab_Name c, tc_Input = ab_Input c\<rparr>) (filter (\<lambda>c. ab_Type c = ''tool_use'') cs)"
  "pr_StopReason (fold add_block cs r) = pr_StopReason r"
  by (induction cs arbitrary: r) (simp_all add: add_block_def)

lemma fold_add_part:
  "pr_Text (fold add_part ps r) = pr_Text r @ concat (map gp_Text ps)"
  "pr_ToolCalls (fold add_part ps r) = pr_ToolCalls r @
     map (\<lambda>(n, a). \<lparr>tc_Name = n, tc_Input = a\<rparr>) (List.map_filter gp_FunctionCall ps)"
  by (induction ps arbitrary: r) (simp_all add: add_part_def Let_def map_filter_simps split: option.split)

text \<open>
  Every provider of \<open>NewProvider\<close> turns a transport error and a status from 400 on into an error, in the
  name of the provider.
\<close>

lemma provider_Call_failed:
  assumes "NewProvider name key model = Inr p" and "\<And>url hs body. lh_Do lh url hs body = Inr (status, text)"
    and "status \<ge> 400" and "lh_url_ok lh (google_url p)"
  shows "provider_Call lh p system messages tools =
    Some (Inl (ErrText (name @ '': HTTP '' @ Itoa status @ '': '' @ text)))"
  using assms
  by (auto simp: NewProvider_def NewAnthropicProvider_def NewOpenAIProvider_def NewGoogleProvider_def
      provider_Call_def anthropic_Call_def openai_Call_def google_Call_def provider_answer_def split: if_splits)

text \<open>Only the address of Google's service, which holds the configured model, can make the call panic.\<close>

lemma provider_Call_panics:
  "provider_Call lh p system messages tools = None \<Longrightarrow> pv_Name p \<noteq> ''anthropic'' \<and> \<not> lh_url_ok lh (google_url p)"
  by (auto simp: provider_Call_def google_Call_def split: if_splits)

section \<open>The tools\<close>

definition text_field :: "string \<Rightarrow> json" where
  "text_field description =
     JObj [(''type'', JStr ''string''), (''description'', JStr description)]"

definition object_schema :: "(string \<times> json) list \<Rightarrow> string list \<Rightarrow> json" where
  "object_schema properties required =
     JObj [(''type'', JStr ''object''), (''properties'', JObj properties), (''required'', JArr (map JStr required))]"

definition DirectorTools :: "tool list" where
  "DirectorTools =
     [\<lparr>tl_Name = ''next_movement'', tl_Description = ''Trigger the next musician process in the orchestra'',
       tl_InputSchema = object_schema
         [(''process_id'', text_field ''ID or name of the process to run next''),
          (''message'', text_field ''Why this musician was chosen'')] [''process_id'']\<rparr>,
      \<lparr>tl_Name = ''ask_choice'',
       tl_Description = ''Present choices to a human operator. The orchestra pauses until they decide.'',
       tl_InputSchema = object_schema
         [(''message'', text_field ''Question or context for the human''),
          (''choices'', JObj [(''type'', JStr ''array''),
             (''items'', JObj [(''type'', JStr ''object''), (''properties'', JObj
                [(''label'', JObj [(''type'', JStr ''string'')]),
                 (''process_id'', text_field ''Process to trigger if chosen, or null to end''),
                 (''style'', JObj [(''type'', JStr ''string''),
                    (''enum'', JArr [JStr ''primary'', JStr ''danger'', JStr ''default''])])])])])]
         [''message'', ''choices'']\<rparr>,
      \<lparr>tl_Name = ''post_chat'',
       tl_Description = ''Send a message to the orchestra chat visible to all participants'',
       tl_InputSchema = object_schema [(''message'', text_field ''Message to post'')] [''message'']\<rparr>,
      \<lparr>tl_Name = ''finish_orchestra'',
       tl_Description = ''End the orchestra with a summary. No more movements will be triggered.'',
       tl_InputSchema = object_schema
         [(''summary'', text_field ''Summary of what the orchestra accomplished'')] [''summary'']\<rparr>,
      \<lparr>tl_Name = ''list_musicians'',
       tl_Description = ''List all available processes (musicians) in the workspace'',
       tl_InputSchema = JObj [(''type'', JStr ''object''), (''properties'', JObj [])]\<rparr>]"

section \<open>What the director knows\<close>

record director_event =
  de_Type :: string
  de_OrchestraID :: string
  de_RunID :: string
  de_ProcessName :: string
  de_Step :: int

text \<open>
  The provider by its attempts, the JSON of the score (orchestra, movements, event, chat), the JSON of
  a list of processes, the order of names and the cast of a text to \<open>integer\<close>, which may fail.
\<close>

record director =
  dr_Call :: "nat \<Rightarrow> string \<Rightarrow> message list \<Rightarrow> tool list \<Rightarrow> provider_response answer"
  dr_score :: "orchestra \<Rightarrow> run list \<Rightarrow> director_event \<Rightarrow> orchestra_message list \<Rightarrow> string"
  dr_processes :: "process list \<Rightarrow> string"
  dr_coll :: "string \<Rightarrow> nat"
  dr_int4 :: "string \<Rightarrow> int option"

text \<open>An answer with its error ignored: no rows.\<close>

definition rows_or_none :: "'r list answer \<Rightarrow> 'r list" where
  "rows_or_none a = (case a of Inl _ \<Rightarrow> [] | Inr rows \<Rightarrow> rows)"

definition musicians :: "director \<Rightarrow> env \<Rightarrow> orchestra \<Rightarrow> world \<Rightarrow> process list" where
  "musicians d e orch w = rows_or_none (ListProcesses (dr_coll d) e (oc_workspace_id orch) 100 0 w)"

definition postChat :: "env \<Rightarrow> string \<Rightarrow> string \<Rightarrow> string \<Rightarrow> world \<Rightarrow> world" where
  "postChat e ocid content msgType w =
     (let (mid, w1) = id_New e ''msg_'' w
      in snd (CreateChatMessage e \<lparr>cm_id = mid, cm_orchestra_id = ocid, cm_sender_type = ''director'',
           cm_sender_id = None, cm_message_type = msgType, cm_content = content, cm_data = None\<rparr> w1))"

section \<open>Counting calls\<close>

text \<open>
  \<open>jsonb_set\<close> of the count in the budget: \<open>None\<close> when the statement fails, because the count is no
  integer or too big, or because the budget is no object.
\<close>

definition counted_calls :: "(string \<Rightarrow> int option) \<Rightarrow> env \<Rightarrow> json option \<Rightarrow> json option" where
  "counted_calls int4 e used =
     (case used of
        None \<Rightarrow> Some (JObj [(''ai_calls'', JNum 1)])
      | Some (JObj kvs) \<Rightarrow>
          let n = (case map_of kvs ''ai_calls'' of
                     None \<Rightarrow> Some 0
                   | Some JNull \<Rightarrow> Some 0
                   | Some (JStr s) \<Rightarrow> int4 s
                   | Some j \<Rightarrow> int4 (e_json_text e j))
          in (case n of
                None \<Rightarrow> None
              | Some k \<Rightarrow> if wrap32 (k + 1) \<noteq> k + 1 then None
                          else Some (JObj (map_put ''ai_calls'' (JNum (of_int (k + 1))) kvs)))
      | Some _ \<Rightarrow> None)"

definition incrementAICalls :: "director \<Rightarrow> env \<Rightarrow> string \<Rightarrow> world \<Rightarrow> world" where
  "incrementAICalls d e ocid w =
     (if \<exists>x\<in>set (w_orchestras w). oc_id x = ocid \<and> counted_calls (dr_int4 d) e (oc_budget_used x) = None then w
      else snd (db_exec e ''IncrementAICalls'' None
        (on_orchestra ocid (\<lambda>x. x\<lparr>oc_budget_used := counted_calls (dr_int4 d) e (oc_budget_used x)\<rparr>)) w))"

section \<open>Executing tools\<close>

definition director_run_params :: "env \<Rightarrow> orchestra \<Rightarrow> string \<Rightarrow> string \<Rightarrow> string \<Rightarrow> create_run_params" where
  "director_run_params e orch rid triggeredByRunID processID =
     \<lparr>cr_id = rid, cr_workspace_id = oc_workspace_id orch, cr_process_id = processID,
      cr_scheduled_at = Some (e_now e), cr_state = Pending, cr_origin = ''orchestra'',
      cr_max_attempts = 1, cr_actor_type = Some ''system'', cr_actor_id = None,
      cr_triggered_by_run_id = Some triggeredByRunID, cr_replayed_from_run_id = None,
      cr_runtime = None, cr_worker_id = None, cr_tags = []\<rparr>"

definition triggerMovement ::
  "env \<Rightarrow> orchestra \<Rightarrow> string \<Rightarrow> string \<Rightarrow> world \<Rightarrow> go_error option \<times> world" where
  "triggerMovement e orch triggeredByRunID processID w =
     (let step = wrap32 (oc_movement_count orch + 1);
          w1 = snd (IncrementMovementCount e (oc_id orch) w);
          (rid, w2) = id_New e PrefixRun w1;
          (err, w3) = CreateRun e (director_run_params e orch rid triggeredByRunID processID) w2
      in case err of
           Some x \<Rightarrow> (Some x, w3)
         | None \<Rightarrow> (None, postChat (again e) (oc_id orch)
             (''Triggered movement '' @ Itoa step @ '': '' @ processID) ''status''
             (link_movement e (oc_id orch) step rid w3)))"

text \<open>The run of the event asks for a choice, the orchestra waits.\<close>

definition await_choice :: "env \<Rightarrow> orchestra \<Rightarrow> string \<Rightarrow> json \<Rightarrow> json \<Rightarrow> world \<Rightarrow> world" where
  "await_choice e orch runID message cs w =
     snd (UpdateOrchestraState e (oc_id orch) ''waiting_for_choice''
       (snd (SetRunChoiceConfig e runID (Some (JObj [(''choices'', cs), (''message'', message)])) w)))"

definition executeTool ::
  "director \<Rightarrow> env \<Rightarrow> orchestra \<Rightarrow> director_event \<Rightarrow> tool_call \<Rightarrow> world \<Rightarrow> go_error option \<times> world" where
  "executeTool d e orch event tc w =
     (let input = (case tc_Input tc of None \<Rightarrow> [] | Some m \<Rightarrow> m);
          message = map_string input ''message''
      in if tc_Name tc = ''next_movement'' then
           triggerMovement e orch (de_RunID event) (map_string input ''process_id'')
             (if message = [] then w else postChat e (oc_id orch) message ''text'' w)
         else if tc_Name tc = ''ask_choice'' then
           (None, postChat e (oc_id orch) message ''choice'' (await_choice e orch (de_RunID event)
              (JStr message) (case map_of input ''choices'' of None \<Rightarrow> JNull | Some cs \<Rightarrow> cs) w))
         else if tc_Name tc = ''post_chat'' then (None, postChat e (oc_id orch) message ''text'' w)
         else if tc_Name tc = ''finish_orchestra'' then
           let summary = map_string input ''summary''
           in (None, postChat e (oc_id orch) (''Orchestra finished: '' @ summary) ''status''
                 (snd (FinishOrchestra e (oc_id orch) (Some summary) w)))
         else if tc_Name tc = ''list_musicians'' then
           (None, postChat e (oc_id orch) (''Available musicians: '' @ dr_processes d (musicians d e orch w)) ''text'' w)
         else (Some (ErrText (''unknown tool: '' @ tc_Name tc)), w))"

text \<open>The tools of a reply in their order; a failed one is logged and the next is tried. Every
  tool sends its queries again.\<close>

fun executeTools ::
  "director \<Rightarrow> env \<Rightarrow> orchestra \<Rightarrow> director_event \<Rightarrow> tool_call list \<Rightarrow> world \<Rightarrow> world" where
  "executeTools d e orch event [] w = w"
| "executeTools d e orch event (tc # tcs) w =
     executeTools d (again e) orch event tcs (snd (executeTool d e orch event tc w))"

section \<open>Events\<close>

definition choice_of :: "process \<Rightarrow> json" where
  "choice_of p = JObj [(''label'', JStr (p_name p)), (''process_id'', JStr (p_id p))]"

definition cancel_choice :: json where
  "cancel_choice =
     JObj [(''label'', JStr ''Cancel orchestra''), (''process_id'', JNull), (''style'', JStr ''danger'')]"

definition fallbackToHuman :: "director \<Rightarrow> env \<Rightarrow> orchestra \<Rightarrow> director_event \<Rightarrow> world \<Rightarrow> world" where
  "fallbackToHuman d e orch event w =
     await_choice e orch (de_RunID event)
       (JStr ''AI Director is unavailable. Please choose the next action.'')
       (JArr (map choice_of (filter p_enabled (musicians d e orch w)) @ [cancel_choice])) w"

text \<open>The attempts 1 to 3 of the call.\<close>

fun attempts :: "(nat \<Rightarrow> provider_response answer) \<Rightarrow> nat \<Rightarrow> nat \<Rightarrow> provider_response answer" where
  "attempts call n 0 = call n"
| "attempts call n (Suc left) =
     (case call n of Inr r \<Rightarrow> Inr r | Inl _ \<Rightarrow> attempts call (Suc n) left)"

text \<open>\<open>fmt.Sprintf("%v", names)\<close>\<close>

fun spaced :: "string list \<Rightarrow> string" where
  "spaced [] = []"
| "spaced [s] = s"
| "spaced (s # ss) = s @ '' '' @ spaced ss"

definition systemPrompt :: "orchestra \<Rightarrow> process list \<Rightarrow> string" where
  "systemPrompt orch ps =
     ''You are the AI Director of the \"'' @ oc_name orch @ ''\" orchestra in CronControl.'' @ [CHR 0x0A] @
     ''Your job is to coordinate musicians (processes) to achieve the orchestra'' @ [CHR 0x27] @ ''s goal.'' @
     [CHR 0x0A, CHR 0x0A] @ ''Available musicians:'' @ [CHR 0x0A] @
     ''['' @ spaced (map (\<lambda>p. p_name p @ '' ('' @ p_execution_method p @ '', '' @ p_schedule_type p @ '')'') ps) @ '']'' @
     [CHR 0x0A, CHR 0x0A] @ ''Based on the score (history) and the latest event, decide what to do next.'' @
     [CHR 0x0A] @ ''Use the tools provided. Be decisive and concise.''"

definition ask_provider :: "director \<Rightarrow> env \<Rightarrow> orchestra \<Rightarrow> director_event \<Rightarrow> world \<Rightarrow> provider_response answer" where
  "ask_provider d e orch event w =
     (let movements = rows_or_none (ListMovementsByOrchestra e (Some (oc_id orch)) w);
          chat = rows_or_none (ListChatMessagesAll e (oc_id orch) 50 0 w)
      in attempts (\<lambda>n. dr_Call d n (systemPrompt orch (musicians d e orch w))
           [\<lparr>mg_Role = ''user'', mg_Content = dr_score d orch movements event chat\<rparr>] DirectorTools) 1 2)"

definition HandleEvent ::
  "director \<Rightarrow> env \<Rightarrow> orchestra \<Rightarrow> director_event \<Rightarrow> world \<Rightarrow> go_error option \<times> world" where
  "HandleEvent d e orch event w =
     (case ask_provider d e orch event w of
        Inl err \<Rightarrow>
          (Some err, fallbackToHuman d (again e) orch event (postChat e (oc_id orch)
             ''AI Director unavailable after 3 attempts. Please decide manually.'' ''warning'' w))
      | Inr response \<Rightarrow>
          let w1 = executeTools d (again e) orch event (pr_ToolCalls response) (incrementAICalls d e (oc_id orch) w)
          in (None, if pr_ToolCalls response = [] \<and> pr_Text response \<noteq> []
                    then postChat e (oc_id orch) (pr_Text response) ''text'' w1 else w1))"

end
