(* ===== verification/Director_Properties.thy ===== *)
theory Director_Properties
  imports Director Orchestra_Properties
begin

text \<open>
  What holds of the director: when it asks again, what it leaves to the people, and that it starts
  nothing.
\<close>

section \<open>Attempts\<close>

text \<open>An answer is that of one of the attempts, none of those before it answered.\<close>

lemma attempts_Inr:
  "attempts call n left = Inr r \<Longrightarrow> \<exists>k \<le> left. call (n + k) = Inr r \<and> (\<forall>i < k. \<exists>err. call (n + i) = Inl err)"
proof (induction call n left rule: attempts.induct)
  case (2 call n left)
  show ?case
  proof (cases "call n")
    case (Inl err)
    with 2 obtain k where "k \<le> left" "call (Suc n + k) = Inr r" "\<forall>i<k. \<exists>err. call (Suc n + i) = Inl err" by auto
    with Inl show ?thesis by (intro exI [of _ "Suc k"]) (auto simp: less_Suc_eq_0_disj)
  qed (use 2 in auto)
qed simp

lemma attempts_Inl: "(attempts call 1 2 = Inl err) \<longleftrightarrow> (\<exists>x. call 1 = Inl x) \<and> (\<exists>x. call 2 = Inl x) \<and> call 3 = Inl err"
  by (auto simp: numeral_2_eq_2 numeral_3_eq_3 split: sum.splits)

section \<open>Frames\<close>

lemma run_ids_postChat [simp]: "run_ids (postChat e ocid content kind w) = run_ids w"
  by (simp add: postChat_def Let_def split_beta run_ids_def)

lemma run_ids_choice_config [simp]: "run_ids (snd (SetRunChoiceConfig e rid cfg w)) = run_ids w"
  by (simp add: run_ids_def SetRunChoiceConfig_def on_run_def db_exec_def map_update_key split: option.split)

lemma run_ids_finish [simp]: "run_ids (snd (FinishOrchestra e ocid s w)) = run_ids w"
  by (simp add: run_ids_def FinishOrchestra_def db_exec_def split: option.split)

lemma run_ids_await [simp]: "run_ids (await_choice e orch rid m cs w) = run_ids w"
  by (simp add: await_choice_def)

lemma run_ids_count [simp]: "run_ids (incrementAICalls d e ocid w) = run_ids w"
  by (simp add: incrementAICalls_def run_ids_def db_exec_def split: option.split)

section \<open>Movements\<close>

lemma director_run_refused: "\<exists>err. CreateRun e (director_run_params e orch rid t p) w = (Some err, w)"
proof -
  have "create_run_violation (director_run_params e orch rid t p) w \<noteq> None"
    unfolding create_run_violation_def first_violation_None_iff
    by (simp add: director_run_params_def run_origins_def)
  then obtain x where "create_run_violation (director_run_params e orch rid t p) w = Some x" by blast
  then show ?thesis by (cases "e_fault e ''CreateRun''") (simp_all add: CreateRun_def db_exec_def)
qed

lemma triggerMovement_fails:
  obtains err where "triggerMovement e orch t p w =
    (Some err, snd (id_New e PrefixRun (snd (IncrementMovementCount e (oc_id orch) w))))"
proof -
  let ?w = "snd (id_New e PrefixRun (snd (IncrementMovementCount e (oc_id orch) w)))"
  obtain err where "CreateRun e (director_run_params e orch
      (fst (id_New e PrefixRun (snd (IncrementMovementCount e (oc_id orch) w)))) t p) ?w = (Some err, ?w)"
    using director_run_refused by blast
  then show ?thesis by (intro that) (simp add: triggerMovement_def Let_def split_beta)
qed

lemma triggerMovement_run_ids [simp]: "run_ids (snd (triggerMovement e orch t p w)) = run_ids w"
proof -
  obtain err where "triggerMovement e orch t p w =
      (Some err, snd (id_New e PrefixRun (snd (IncrementMovementCount e (oc_id orch) w))))"
    by (rule triggerMovement_fails)
  then show ?thesis by simp
qed

lemma executeTool_run_ids [simp]: "run_ids (snd (executeTool d e orch ev tc w)) = run_ids w"
  by (simp add: executeTool_def Let_def)

lemma executeTools_run_ids [simp]: "run_ids (executeTools d e orch ev tcs w) = run_ids w"
  by (induction tcs arbitrary: e w) simp_all

lemma HandleEvent_run_ids: "run_ids (snd (HandleEvent d e orch ev w)) = run_ids w"
  by (simp add: HandleEvent_def fallbackToHuman_def Let_def split: sum.split)

section \<open>Falling back\<close>

lemma postChat_tables [simp]:
  "w_runs (postChat e ocid content kind w) = w_runs w"
  "w_orchestras (postChat e ocid content kind w) = w_orchestras w"
  "w_processes (postChat e ocid content kind w) = w_processes w"
  by (simp_all add: postChat_def Let_def split_beta CreateChatMessage_def returning_def db_exec_def id_New_def
      split: option.split)

lemma musicians_eq:
  "e_fault e ''ListProcesses'' = None \<Longrightarrow>
   musicians d e orch w = take 100 (by_name (dr_coll d) p_name p_workspace_id (oc_workspace_id orch) (w_processes w))"
  by (simp add: musicians_def rows_or_none_def ListProcesses_def db_read_def)

text \<open>The row an update finds is in the new table.\<close>

lemma updated_mem: "r \<in> set rows \<Longrightarrow> key r = k \<Longrightarrow> f r = r' \<Longrightarrow> r' \<in> set (update_key key k f rows)"
  by (force simp: update_key_def set_update_where)

text \<open>Waiting writes the choices into the run and the state into the orchestra.\<close>

lemma await_choice_writes:
  assumes "e_fault e ''SetRunChoiceConfig'' = None" "e_fault e ''UpdateOrchestraState'' = None"
  shows "w_runs (await_choice e orch rid m cs w) = update_key r_id rid
      (\<lambda>r. r\<lparr>r_choice_config := Some (JObj [(''choices'', cs), (''message'', m)]), r_updated_at := e_db_now e\<rparr>) (w_runs w)"
    and "w_orchestras (await_choice e orch rid m cs w) = update_key oc_id (oc_id orch)
      (\<lambda>x. x\<lparr>oc_state := ''waiting_for_choice'', oc_updated_at := e_db_now e\<rparr>) (w_orchestras w)"
  using assms
  by (simp_all add: await_choice_def SetRunChoiceConfig_def UpdateOrchestraState_def db_exec_def on_run_def
      on_orchestra_def orchestra_states_def)

text \<open>
  C36: when the language model fails three times, the people decide. The director reports the error of
  the third attempt, the orchestra waits for a choice, and the run of the event gets a choice for each
  enabled process of the workspace, in the order of the names and among the first hundred, then the
  choice that ends the orchestra.
\<close>

theorem director_falls_back:
  assumes "no_faults e" and "\<And>n p m t. n \<in> {1, 2, 3} \<Longrightarrow> \<exists>err. dr_Call d n p m t = Inl err"
    and "x \<in> set (w_orchestras w)" "oc_id x = oc_id orch"
    and "r \<in> set (w_runs w)" "r_id r = de_RunID ev"
  shows "\<exists>err p m x' r'. dr_Call d 3 p m DirectorTools = Inl err \<and>
    fst (HandleEvent d e orch ev w) = Some err \<and>
    x' \<in> set (w_orchestras (snd (HandleEvent d e orch ev w))) \<and> oc_id x' = oc_id orch \<and>
    oc_state x' = ''waiting_for_choice'' \<and>
    r' \<in> set (w_runs (snd (HandleEvent d e orch ev w))) \<and> r_id r' = de_RunID ev \<and> r_state r' = r_state r \<and>
    r_choice_config r' = Some (JObj
      [(''choices'', JArr (map choice_of (filter p_enabled (take 100
          (by_name (dr_coll d) p_name p_workspace_id (oc_workspace_id orch) (w_processes w)))) @ [cancel_choice])),
       (''message'', JStr ''AI Director is unavailable. Please choose the next action.'')])"
proof -
  let ?p = "systemPrompt orch (musicians d e orch w)"
  let ?m = "[\<lparr>mg_Role = ''user'', mg_Content = dr_score d orch
      (rows_or_none (ListMovementsByOrchestra e (Some (oc_id orch)) w)) ev
      (rows_or_none (ListChatMessagesAll e (oc_id orch) 50 0 w))\<rparr>]"
  obtain e1 e2 e3 where calls: "dr_Call d 1 ?p ?m DirectorTools = Inl e1"
      "dr_Call d 2 ?p ?m DirectorTools = Inl e2" "dr_Call d 3 ?p ?m DirectorTools = Inl e3"
    using assms(2) [of 1 ?p ?m DirectorTools] assms(2) [of 2 ?p ?m DirectorTools]
      assms(2) [of 3 ?p ?m DirectorTools] by auto
  have ok: "e_fault e q = None" "e_fault (again e) q = None" for q
    using assms(1) by (simp_all add: no_faults_def again_def)
  have "ask_provider d e orch ev w = Inl e3"
    unfolding ask_provider_def Let_def attempts_Inl using calls by simp
  then have h: "HandleEvent d e orch ev w = (Some e3, fallbackToHuman d (again e) orch ev (postChat e (oc_id orch)
      ''AI Director unavailable after 3 attempts. Please decide manually.'' ''warning'' w))"
    by (simp add: HandleEvent_def)
  let ?cs = "JArr (map choice_of (filter p_enabled (take 100
      (by_name (dr_coll d) p_name p_workspace_id (oc_workspace_id orch) (w_processes w)))) @ [cancel_choice])"
  let ?x = "x\<lparr>oc_state := ''waiting_for_choice'', oc_updated_at := e_db_now (again e)\<rparr>"
  let ?r = "r\<lparr>r_choice_config := Some (JObj [(''choices'', ?cs),
      (''message'', JStr ''AI Director is unavailable. Please choose the next action.'')]),
      r_updated_at := e_db_now (again e)\<rparr>"
  have "?x \<in> set (w_orchestras (snd (HandleEvent d e orch ev w)))"
    unfolding h fallbackToHuman_def snd_conv await_choice_writes(2) [OF ok(2) ok(2)]
    using assms(3,4) by (intro updated_mem) simp_all
  moreover have "?r \<in> set (w_runs (snd (HandleEvent d e orch ev w)))"
    unfolding h fallbackToHuman_def snd_conv await_choice_writes(1) [OF ok(2) ok(2)] musicians_eq [OF ok(2)]
      postChat_tables
    using assms(5,6) by (intro updated_mem [of r]) simp_all
  ultimately show ?thesis
    using calls(3) h assms(4,6) by (intro exI [of _ e3] exI [of _ ?p] exI [of _ ?m] exI [of _ ?x] exI [of _ ?r]) simp
qed

section \<open>What the tools do\<close>

lemma executeTool_unknown:
  "tc_Name tc \<notin> tl_Name ` set DirectorTools \<Longrightarrow>
   executeTool d e orch ev tc w = (Some (ErrText (''unknown tool: '' @ tc_Name tc)), w)"
  by (simp add: executeTool_def DirectorTools_def)

text \<open>Nothing keeps a finished orchestra finished: a later tool of the same reply opens it again.\<close>

lemma finished_orchestra_reopens:
  assumes "no_faults e" "x \<in> set (w_orchestras w)" "oc_id x = oc_id orch"
    "tc_Name t1 = ''finish_orchestra''" "tc_Name t2 = ''ask_choice''"
  shows "\<exists>x'. x' \<in> set (w_orchestras (executeTools d e orch ev [t1, t2] w)) \<and> oc_id x' = oc_id orch \<and>
    oc_state x' = ''waiting_for_choice''"
proof -
  have ok: "e_fault e q = None" "e_fault (again e) q = None" for q
    using assms(1) by (simp_all add: no_faults_def again_def)
  let ?s = "map_string (case tc_Input t1 of None \<Rightarrow> [] | Some m \<Rightarrow> m) ''summary''"
  let ?y = "x\<lparr>oc_state := ''completed'', oc_summary := Some ?s, oc_updated_at := e_db_now e\<rparr>"
  have "?y \<in> set (w_orchestras (snd (executeTool d e orch ev t1 w)))"
    using assms(2-4) by (auto simp: executeTool_def Let_def FinishOrchestra_def db_exec_def ok on_orchestra_def
        intro!: updated_mem [of x])
  then have "?y\<lparr>oc_state := ''waiting_for_choice'', oc_updated_at := e_db_now (again e)\<rparr>
      \<in> set (w_orchestras (executeTools d e orch ev [t1, t2] w))"
    using assms(3,5) by (simp add: executeTool_def [of d "again e"] Let_def await_choice_writes [OF ok(2) ok(2)]
        updated_mem [of ?y])
  with assms(3) show ?thesis by (intro exI) (rule conjI, assumption, simp)
qed

text \<open>The count of calls grows by one and nothing else of the budget changes, while it is a number.\<close>

lemma counted_grows:
  assumes "used = Some (JObj kvs)" "map_of kvs ''ai_calls'' = Some (JNum (of_int n))"
    "int4 (e_json_text e (JNum (of_int n))) = Some n" "0 \<le> n" "n < 2147483647"
  shows "\<exists>kvs'. counted_calls int4 e used = Some (JObj kvs') \<and> map_of kvs' = (map_of kvs)(''ai_calls'' \<mapsto> JNum (of_int (n + 1)))"
  using assms by (simp add: counted_calls_def Let_def wrap32_id in_int32_def)

lemma counted_new: "counted_calls int4 e (Some (JObj [])) = Some (JObj [(''ai_calls'', JNum 1)])"
  by (simp add: counted_calls_def Let_def wrap32_def map_put_def)

section \<open>A sample director\<close>

definition sample_director :: director where
  "sample_director =
     \<lparr>dr_Call = (\<lambda>n _ _ _. Inl (ErrText (''anthropic: HTTP '' @ Itoa (500 + int n)))),
      dr_score = (\<lambda>_ _ _ _. ''{}''), dr_processes = (\<lambda>_. ''[]''), dr_coll = length, dr_int4 = (\<lambda>_. None)\<rparr>"

definition sample_stage :: world where
  "sample_stage = (sample_world [sample_process ''prc_1''] [sample_run ''run_1'' Completed])
     \<lparr>w_orchestras := [sample_orchestra ''orc_1'' None]\<rparr>"

definition sample_event :: director_event where
  "sample_event = \<lparr>de_Type = ''movement_completed'', de_OrchestraID = ''orc_1'', de_RunID = ''run_1'',
     de_ProcessName = ''prc_1'', de_Step = 1\<rparr>"

lemma director_falls_back_witness:
  "\<exists>x' r'. x' \<in> set (w_orchestras (snd (HandleEvent sample_director (calm 9) (sample_orchestra ''orc_1'' None)
       sample_event sample_stage))) \<and> oc_state x' = ''waiting_for_choice'' \<and>
     r' \<in> set (w_runs (snd (HandleEvent sample_director (calm 9) (sample_orchestra ''orc_1'' None)
       sample_event sample_stage))) \<and> r_state r' = Completed \<and>
     r_choice_config r' = Some (JObj [(''choices'', JArr [choice_of (sample_process ''prc_1''), cancel_choice]),
       (''message'', JStr ''AI Director is unavailable. Please choose the next action.'')])"
proof -
  have calls: "\<exists>err. dr_Call sample_director n p m t = Inl err" for n p m t
    by (simp add: sample_director_def)
  have rows: "sample_orchestra ''orc_1'' None \<in> set (w_orchestras sample_stage)"
      "sample_run ''run_1'' Completed \<in> set (w_runs sample_stage)"
      "r_id (sample_run ''run_1'' Completed) = de_RunID sample_event"
      "r_state (sample_run ''run_1'' Completed) = Completed"
    by (simp_all add: sample_stage_def sample_world_def sample_event_def sample_run_def new_run_def sample_params_def)
  have ps: "filter p_enabled (take 100 (by_name (dr_coll sample_director) p_name p_workspace_id
      (oc_workspace_id (sample_orchestra ''orc_1'' None)) (w_processes sample_stage))) = [sample_process ''prc_1'']"
    by (simp add: by_name_def sample_stage_def sample_world_def sample_process_def sample_orchestra_def new_orchestra_def
        sample_director_def)
  show ?thesis
    using director_falls_back [of "calm 9" sample_director, OF no_faults_calm calls rows(1) refl rows(2,3)]
    unfolding ps rows(4) list.simps(8,9) append.simps by blast
qed

end
