(* ===== verification/Log_Backends.thy ===== *)
theory Log_Backends
  imports Artifacts Job_Queries Samples
begin

text \<open>
  The backends of the operational logs, \<open>internal/logging/backend.go\<close>, \<open>database/database.go\<close>,
  \<open>file/file.go\<close> and \<open>opensearch/opensearch.go\<close>: a backend is the record of its operations on a state.
  The JSON texts, the operating system, the cluster and the zone of the date are parameters. The default
  backend writes nothing at all; the one on files gives back what was written on the same day, while
  every line fits into the buffer of the reader.
\<close>

section \<open>What is logged\<close>

record output_chunk =
  ck_Stream :: string
  ck_Content :: string
  ck_CreatedAt :: instant

record log_heartbeat =
  lh_Total :: int
  lh_Current :: int
  lh_Progress :: int
  lh_Message :: string
  lh_CreatedAt :: instant

text \<open>\<open>JobAttemptLog\<close> with the field the queue processor leaves empty.\<close>

record attempt_log = job_attempt_log +
  jl_worker_id :: string

text \<open>The interface \<open>Backend\<close>; the clock of the process is an argument.\<close>

record 's log_backend =
  lb_WriteRunOutput :: "instant \<Rightarrow> string \<Rightarrow> string \<Rightarrow> string \<Rightarrow> 's \<Rightarrow> go_error option \<times> 's"
  lb_WriteHeartbeat :: "instant \<Rightarrow> string \<Rightarrow> log_heartbeat \<Rightarrow> 's \<Rightarrow> go_error option \<times> 's"
  lb_WriteJobAttempt :: "instant \<Rightarrow> string \<Rightarrow> attempt_log \<Rightarrow> 's \<Rightarrow> go_error option \<times> 's"
  lb_QueryRunOutput :: "instant \<Rightarrow> string \<Rightarrow> string \<Rightarrow> 's \<Rightarrow> output_chunk list \<times> go_error option"
  lb_QueryHeartbeats :: "instant \<Rightarrow> string \<Rightarrow> 's \<Rightarrow> log_heartbeat list \<times> go_error option"
  lb_QueryJobAttempts :: "instant \<Rightarrow> string \<Rightarrow> 's \<Rightarrow> attempt_log list \<times> go_error option"

section \<open>The database\<close>

text \<open>
  The rows the statements insert: \<open>None\<close> stands for a column that is not given and has no default.
  PostgreSQL checks the columns that must not be NULL first.
\<close>

definition log_output_violation :: "string option \<Rightarrow> string \<Rightarrow> string \<Rightarrow> world \<Rightarrow> go_error option" where
  "log_output_violation xid run stream w = first_violation
     [(xid = None, not_null_violation ''id''),
      (stream \<notin> {''stdout'', ''stderr''}, check_violation ''run_output_stream_check''),
      (has_key ro_id (the xid) (w_run_output w), unique_violation ''run_output_pkey''),
      (\<not> has_key r_id run (w_runs w), foreign_key_violation ''run_output_run_id_fkey'')]"

definition database_WriteRunOutput ::
  "env \<Rightarrow> string \<Rightarrow> string \<Rightarrow> string \<Rightarrow> world \<Rightarrow> go_error option \<times> world" where
  "database_WriteRunOutput e run stream content w =
     (let xid = None :: string option
      in db_exec e ''WriteRunOutput'' (log_output_violation xid run stream w)
           (\<lambda>w. w\<lparr>w_run_output := w_run_output w @
              [\<lparr>ro_id = the xid, ro_run_id = run, ro_stream = stream, ro_content = content,
                ro_truncated = False, ro_created_at = e_db_now e\<rparr>]\<rparr>) w)"

definition log_heartbeat_violation :: "string option \<Rightarrow> string \<Rightarrow> world \<Rightarrow> go_error option" where
  "log_heartbeat_violation xid run w = first_violation
     [(xid = None, not_null_violation ''id''),
      (has_key hb_id (the xid) (w_heartbeats w), unique_violation ''heartbeats_pkey''),
      (\<not> has_key r_id run (w_runs w), foreign_key_violation ''heartbeats_run_id_fkey'')]"

definition database_WriteHeartbeat ::
  "env \<Rightarrow> string \<Rightarrow> log_heartbeat \<Rightarrow> world \<Rightarrow> go_error option \<times> world" where
  "database_WriteHeartbeat e run h w =
     (let xid = None :: string option
      in db_exec e ''WriteHeartbeat'' (log_heartbeat_violation xid run w)
           (\<lambda>w. w\<lparr>w_heartbeats := w_heartbeats w @
              [\<lparr>hb_id = the xid, hb_run_id = run, hb_total = Some (lh_Total h), hb_current = Some (lh_Current h),
                hb_progress = Some (lh_Progress h), hb_message = Some (lh_Message h),
                hb_created_at = lh_CreatedAt h\<rparr>]\<rparr>) w)"

text \<open>\<open>gen_random_uuid()\<close> is a parameter; the request of an attempt is not given.\<close>

definition log_attempt_violation ::
  "string \<Rightarrow> json option \<Rightarrow> string \<Rightarrow> string option \<Rightarrow> world \<Rightarrow> go_error option" where
  "log_attempt_violation xid request job wk w = first_violation
     [(request = None, not_null_violation ''request''),
      (has_key ja_id xid (w_job_attempts w), unique_violation ''job_attempts_pkey''),
      (\<not> has_key j_id job (w_jobs w), foreign_key_violation ''job_attempts_job_id_fkey''),
      (dangling wk_id wk (w_workers w), foreign_key_violation ''job_attempts_worker_id_fkey'')]"

definition database_WriteJobAttempt ::
  "string \<Rightarrow> env \<Rightarrow> string \<Rightarrow> attempt_log \<Rightarrow> world \<Rightarrow> go_error option \<times> world" where
  "database_WriteJobAttempt uuid e job a w =
     (let request = None :: json option
      in db_exec e ''WriteJobAttempt'' (log_attempt_violation uuid request job (Some (jl_worker_id a)) w)
           (\<lambda>w. w\<lparr>w_job_attempts := w_job_attempts w @
              [\<lparr>ja_id = uuid, ja_job_id = job, ja_attempt_number = jl_attempt_number a,
                ja_started_at = jl_started_at a, ja_finished_at = jl_finished_at a,
                ja_duration_ms = Some (jl_duration_ms a), ja_request = the request,
                ja_response_code = jl_response_code a, ja_response_headers = None,
                ja_response_body = Some (jl_response_body a), ja_truncated = False, ja_original_size = None,
                ja_error_message = Some (jl_error_message a), ja_worker_id = Some (jl_worker_id a),
                ja_created_at = e_db_now e\<rparr>]\<rparr>) w)"

text \<open>The rows in their order; a row that cannot be scanned ends the query with an error and no rows.\<close>

fun scan_rows :: "('r \<Rightarrow> 'x option) \<Rightarrow> 'r list \<Rightarrow> 'x list option" where
  "scan_rows scan [] = Some []"
| "scan_rows scan (r # rs) =
     (case scan r of None \<Rightarrow> None | Some x \<Rightarrow> map_option (Cons x) (scan_rows scan rs))"

definition query_rows ::
  "env \<Rightarrow> string \<Rightarrow> ('r \<Rightarrow> 'x option) \<Rightarrow> 'r list \<Rightarrow> 'x list \<times> go_error option" where
  "query_rows e q scan rows =
     (case e_fault e q of
        Some err \<Rightarrow> ([], Some err)
      | None \<Rightarrow> (case scan_rows scan rows of
          None \<Rightarrow> ([], Some (ErrText ''can't scan into dest: cannot scan NULL'')) | Some xs \<Rightarrow> (xs, None)))"

definition scan_output :: "run_output \<Rightarrow> output_chunk option" where
  "scan_output r = Some \<lparr>ck_Stream = ro_stream r, ck_Content = ro_content r, ck_CreatedAt = ro_created_at r\<rparr>"

definition database_QueryRunOutput ::
  "env \<Rightarrow> string \<Rightarrow> string \<Rightarrow> world \<Rightarrow> output_chunk list \<times> go_error option" where
  "database_QueryRunOutput e run stream w = query_rows e ''QueryRunOutput'' scan_output
     (sort_key ro_created_at
        (filter (\<lambda>r. ro_run_id r = run \<and> (stream = [] \<or> ro_stream r = stream)) (w_run_output w)))"

text \<open>The destinations are plain integers and strings, which a NULL does not fit.\<close>

definition scan_heartbeat :: "heartbeat \<Rightarrow> log_heartbeat option" where
  "scan_heartbeat r =
     (case (hb_total r, hb_current r, hb_progress r, hb_message r) of
        (Some t, Some c, Some p, Some m) \<Rightarrow>
          Some \<lparr>lh_Total = t, lh_Current = c, lh_Progress = p, lh_Message = m, lh_CreatedAt = hb_created_at r\<rparr>
      | _ \<Rightarrow> None)"

definition database_QueryHeartbeats ::
  "env \<Rightarrow> string \<Rightarrow> world \<Rightarrow> log_heartbeat list \<times> go_error option" where
  "database_QueryHeartbeats e run w = query_rows e ''QueryHeartbeats'' scan_heartbeat
     (sort_key hb_created_at (filter (\<lambda>r. hb_run_id r = run) (w_heartbeats w)))"

definition scan_attempt :: "job_attempt \<Rightarrow> attempt_log option" where
  "scan_attempt r =
     (case (ja_duration_ms r, ja_response_body r, ja_error_message r) of
        (Some d, Some b, Some m) \<Rightarrow>
          Some \<lparr>jl_attempt_number = ja_attempt_number r, jl_started_at = ja_started_at r,
            jl_finished_at = ja_finished_at r, jl_duration_ms = d, jl_response_code = ja_response_code r,
            jl_response_body = b, jl_error_message = m,
            jl_worker_id = (case ja_worker_id r of None \<Rightarrow> [] | Some x \<Rightarrow> x)\<rparr>
      | _ \<Rightarrow> None)"

definition database_QueryJobAttempts ::
  "env \<Rightarrow> string \<Rightarrow> world \<Rightarrow> attempt_log list \<times> go_error option" where
  "database_QueryJobAttempts e job w = query_rows e ''QueryJobAttempts'' scan_attempt
     (sort_key ja_attempt_number (filter (\<lambda>r. ja_job_id r = job) (w_job_attempts w)))"

definition database_New :: "string \<Rightarrow> env \<Rightarrow> world log_backend" where
  "database_New uuid e =
     \<lparr>lb_WriteRunOutput = (\<lambda>_. database_WriteRunOutput e),
      lb_WriteHeartbeat = (\<lambda>_. database_WriteHeartbeat e),
      lb_WriteJobAttempt = (\<lambda>_. database_WriteJobAttempt uuid e),
      lb_QueryRunOutput = (\<lambda>_. database_QueryRunOutput e),
      lb_QueryHeartbeats = (\<lambda>_. database_QueryHeartbeats e),
      lb_QueryJobAttempts = (\<lambda>_. database_QueryJobAttempts e)\<rparr>"

section \<open>Files\<close>

record output_entry =
  oe_RunID :: string
  oe_Stream :: string
  oe_Content :: string
  oe_CreatedAt :: instant

text \<open>
  The JSON of the three entries and its decoder, the date of an instant in the local zone, and the
  operating system as in \<open>Artifacts\<close>.
\<close>

record log_files =
  lf_output :: "output_entry \<Rightarrow> string"
  lf_output_of :: "string \<Rightarrow> output_entry option"
  lf_heartbeat :: "string \<times> log_heartbeat \<Rightarrow> string"
  lf_heartbeat_of :: "string \<Rightarrow> (string \<times> log_heartbeat) option"
  lf_attempt :: "string \<times> attempt_log \<Rightarrow> string"
  lf_attempt_of :: "string \<Rightarrow> (string \<times> attempt_log) option"
  lf_day :: "instant \<Rightarrow> string"
  lf_os :: "string \<Rightarrow> string \<Rightarrow> go_error option"
  lf_written :: "string \<Rightarrow> nat"

abbreviation newline :: char where "newline \<equiv> CHR 0x0A"

definition filePath :: "log_files \<Rightarrow> string \<Rightarrow> instant \<Rightarrow> string \<Rightarrow> string \<Rightarrow> string" where
  "filePath lf base now subdir key =
     filepath_Join base (subdir @ ''/'' @ lf_day lf now @ ''_'' @ key @ ''.jsonl'')"

definition contents :: "string option \<Rightarrow> string" where
  "contents f = (case f of None \<Rightarrow> [] | Some s \<Rightarrow> s)"

definition appendJSON ::
  "log_files \<Rightarrow> string \<Rightarrow> instant \<Rightarrow> string \<Rightarrow> string \<Rightarrow> string \<Rightarrow> files \<Rightarrow> go_error option \<times> files" where
  "appendJSON lf base now subdir key line fs =
     (let path = filePath lf base now subdir key; data = line @ [newline]; old = contents (fs path)
      in case lf_os lf ''open'' path of
           Some err \<Rightarrow> (Some err, fs)
         | None \<Rightarrow>
             (case lf_os lf ''write'' path of
                Some err \<Rightarrow> (Some err, fs(path \<mapsto> old @ take (lf_written lf path) data))
              | None \<Rightarrow> (None, fs(path \<mapsto> old @ data))))"

text \<open>
  \<open>bufio.Scanner\<close> with a buffer of at most \<open>max\<close> bytes: the lines without their end, and whether a line
  with its end did not fit, which stops the scanner.
\<close>

definition dropCR :: "string \<Rightarrow> string" where
  "dropCR s = (if s \<noteq> [] \<and> last s = CHR 0x0D then butlast s else s)"

function scan_lines :: "nat \<Rightarrow> string \<Rightarrow> string list \<times> bool" where
  "scan_lines mx s =
     (if s = [] then ([], False)
      else let line = takeWhile (\<lambda>c. c \<noteq> newline) s
           in if length line \<ge> mx then ([], True)
              else let rest = scan_lines mx (drop (Suc (length line)) s)
                   in (dropCR line # fst rest, snd rest))"
  by auto
termination by (relation "measure (\<lambda>(_, s). length s)") auto

declare scan_lines.simps [simp del]

definition too_long :: go_error where
  "too_long = ErrText ''bufio.Scanner: token too long''"

text \<open>Lines that are no entry are skipped. A missing file holds nothing, and that is no error.\<close>

definition read_entries ::
  "log_files \<Rightarrow> nat \<Rightarrow> (string \<Rightarrow> 'x option) \<Rightarrow> string \<Rightarrow> files \<Rightarrow> 'x list \<times> go_error option" where
  "read_entries lf mx decode path fs =
     (case lf_os lf ''open'' path of
        Some err \<Rightarrow> ([], Some err)
      | None \<Rightarrow> (case fs path of
          None \<Rightarrow> ([], None)
        | Some s \<Rightarrow> (List.map_filter decode (fst (scan_lines mx s)),
                     if snd (scan_lines mx s) then Some too_long else None)))"

definition line_buffer :: nat where "line_buffer = 1024 * 1024"
definition default_buffer :: nat where "default_buffer = 64 * 1024"

definition file_WriteRunOutput ::
  "log_files \<Rightarrow> string \<Rightarrow> instant \<Rightarrow> string \<Rightarrow> string \<Rightarrow> string \<Rightarrow> files \<Rightarrow> go_error option \<times> files" where
  "file_WriteRunOutput lf base now run stream content =
     appendJSON lf base now ''output'' run (lf_output lf
       \<lparr>oe_RunID = run, oe_Stream = stream, oe_Content = content, oe_CreatedAt = now\<rparr>)"

definition file_WriteHeartbeat ::
  "log_files \<Rightarrow> string \<Rightarrow> instant \<Rightarrow> string \<Rightarrow> log_heartbeat \<Rightarrow> files \<Rightarrow> go_error option \<times> files" where
  "file_WriteHeartbeat lf base now run h = appendJSON lf base now ''heartbeats'' run (lf_heartbeat lf (run, h))"

definition file_WriteJobAttempt ::
  "log_files \<Rightarrow> string \<Rightarrow> instant \<Rightarrow> string \<Rightarrow> attempt_log \<Rightarrow> files \<Rightarrow> go_error option \<times> files" where
  "file_WriteJobAttempt lf base now job a = appendJSON lf base now ''attempts'' job (lf_attempt lf (job, a))"

definition chunk_of :: "string \<Rightarrow> output_entry \<Rightarrow> output_chunk option" where
  "chunk_of stream x =
     (if stream \<noteq> [] \<and> oe_Stream x \<noteq> stream then None
      else Some \<lparr>ck_Stream = oe_Stream x, ck_Content = oe_Content x, ck_CreatedAt = oe_CreatedAt x\<rparr>)"

definition file_QueryRunOutput ::
  "log_files \<Rightarrow> string \<Rightarrow> instant \<Rightarrow> string \<Rightarrow> string \<Rightarrow> files \<Rightarrow> output_chunk list \<times> go_error option" where
  "file_QueryRunOutput lf base now run stream fs =
     read_entries lf line_buffer (\<lambda>l. Option.bind (lf_output_of lf l) (chunk_of stream))
       (filePath lf base now ''output'' run) fs"

definition file_QueryHeartbeats ::
  "log_files \<Rightarrow> string \<Rightarrow> instant \<Rightarrow> string \<Rightarrow> files \<Rightarrow> log_heartbeat list \<times> go_error option" where
  "file_QueryHeartbeats lf base now run fs =
     read_entries lf default_buffer (\<lambda>l. map_option snd (lf_heartbeat_of lf l))
       (filePath lf base now ''heartbeats'' run) fs"

definition file_QueryJobAttempts ::
  "log_files \<Rightarrow> string \<Rightarrow> instant \<Rightarrow> string \<Rightarrow> files \<Rightarrow> attempt_log list \<times> go_error option" where
  "file_QueryJobAttempts lf base now job fs =
     read_entries lf default_buffer (\<lambda>l. map_option snd (lf_attempt_of lf l))
       (filePath lf base now ''attempts'' job) fs"

text \<open>\<open>New\<close> makes the three directories; the first that cannot be made is the error.\<close>

definition file_New :: "log_files \<Rightarrow> string \<Rightarrow> go_error + files log_backend" where
  "file_New lf base =
     (case List.find (\<lambda>sub. lf_os lf ''mkdir'' (filepath_Join base sub) \<noteq> None) [''output'', ''heartbeats'', ''attempts''] of
        Some sub \<Rightarrow> Inl (ErrText (''create '' @ sub @ '' dir: '' @ Error (the (lf_os lf ''mkdir'' (filepath_Join base sub)))))
      | None \<Rightarrow> Inr
          \<lparr>lb_WriteRunOutput = file_WriteRunOutput lf base, lb_WriteHeartbeat = file_WriteHeartbeat lf base,
           lb_WriteJobAttempt = file_WriteJobAttempt lf base, lb_QueryRunOutput = file_QueryRunOutput lf base,
           lb_QueryHeartbeats = file_QueryHeartbeats lf base, lb_QueryJobAttempts = file_QueryJobAttempts lf base\<rparr>)"

section \<open>OpenSearch\<close>

record search_config =
  so_URL :: string
  so_Username :: string
  so_Password :: string

text \<open>
  The cluster with its state, the check of an address when a request is made, the decoder of the hits
  of a reply, the month of an instant, and the JSON of the documents with its decoders.
\<close>

record 's search_cluster =
  sc_Do :: "string \<Rightarrow> (string \<times> string) option \<Rightarrow> json \<Rightarrow> 's \<Rightarrow> (int \<times> string) answer \<times> 's"
  sc_request :: "string \<Rightarrow> go_error option"
  sc_hits :: "string \<Rightarrow> json list answer"
  sc_month :: "instant \<Rightarrow> string"
  sc_output :: "output_entry \<Rightarrow> json"
  sc_output_of :: "json \<Rightarrow> output_entry option"
  sc_heartbeat :: "string \<times> log_heartbeat \<Rightarrow> json"
  sc_heartbeat_of :: "json \<Rightarrow> (string \<times> log_heartbeat) option"
  sc_attempt :: "string \<times> attempt_log \<times> instant \<Rightarrow> json"
  sc_attempt_of :: "json \<Rightarrow> (string \<times> attempt_log \<times> instant) option"

definition search_auth :: "search_config \<Rightarrow> (string \<times> string) option" where
  "search_auth cfg = (if so_Username cfg = [] then None else Some (so_Username cfg, so_Password cfg))"

definition search_index ::
  "'s search_cluster \<Rightarrow> search_config \<Rightarrow> instant \<Rightarrow> string \<Rightarrow> json \<Rightarrow> 's \<Rightarrow> go_error option \<times> 's" where
  "search_index sc cfg now prefix doc s =
     (let url = so_URL cfg @ ''/'' @ prefix @ ''-'' @ sc_month sc now @ ''/_doc''
      in case sc_request sc url of
           Some err \<Rightarrow> (Some err, s)
         | None \<Rightarrow>
             (case sc_Do sc url (search_auth cfg) doc s of
                (Inl err, s1) \<Rightarrow> (Some (ErrText (''opensearch index: '' @ Error err)), s1)
              | (Inr (status, _), s1) \<Rightarrow>
                  (if status \<ge> 300 then Some (ErrText (''opensearch index returned '' @ Itoa status)) else None, s1)))"

definition term_filter :: "string \<Rightarrow> string \<Rightarrow> json" where
  "term_filter field value = JObj [(''term'', JObj [(field, JStr value)])]"

definition search_query :: "json list \<Rightarrow> string \<Rightarrow> int \<Rightarrow> json" where
  "search_query filters sortField sz = JObj
     [(''query'', JObj [(''bool'', JObj [(''filter'', JArr filters)])]),
      (''size'', JNum (of_int sz)),
      (''sort'', JArr [JObj [(sortField, JStr ''asc'')]])]"

definition search ::
  "'s search_cluster \<Rightarrow> search_config \<Rightarrow> string \<Rightarrow> json list \<Rightarrow> string \<Rightarrow> int \<Rightarrow> 's \<Rightarrow> json list answer" where
  "search sc cfg prefix filters sortField sz s =
     (let url = so_URL cfg @ ''/'' @ prefix @ ''-*/_search''
      in case sc_request sc url of
           Some err \<Rightarrow> Inl err
         | None \<Rightarrow>
             (case fst (sc_Do sc url (search_auth cfg) (search_query filters sortField sz) s) of
                Inl err \<Rightarrow> Inl (ErrText (''opensearch search: '' @ Error err))
              | Inr (status, body) \<Rightarrow>
                  if status \<ge> 300
                  then Inl (ErrText (''opensearch search returned '' @ Itoa status @ '': '' @ body))
                  else (case sc_hits sc body of
                          Inl err \<Rightarrow> Inl (ErrText (''opensearch decode: '' @ Error err))
                        | Inr docs \<Rightarrow> Inr docs)))"

text \<open>Documents that cannot be decoded are skipped.\<close>

definition decoded :: "(json \<Rightarrow> 'x option) \<Rightarrow> json list answer \<Rightarrow> 'x list \<times> go_error option" where
  "decoded decode answer =
     (case answer of Inl err \<Rightarrow> ([], Some err) | Inr docs \<Rightarrow> (List.map_filter decode docs, None))"

definition search_QueryRunOutput ::
  "'s search_cluster \<Rightarrow> search_config \<Rightarrow> string \<Rightarrow> string \<Rightarrow> 's \<Rightarrow> output_chunk list \<times> go_error option" where
  "search_QueryRunOutput sc cfg run stream s =
     decoded (\<lambda>j. Option.bind (sc_output_of sc j) (chunk_of []))
       (search sc cfg ''croncontrol-output''
          (term_filter ''run_id'' run # (if stream = [] then [] else [term_filter ''stream'' stream]))
          ''created_at'' 10000 s)"

definition search_WriteRunOutput ::
  "'s search_cluster \<Rightarrow> search_config \<Rightarrow> instant \<Rightarrow> string \<Rightarrow> string \<Rightarrow> string \<Rightarrow> 's \<Rightarrow> go_error option \<times> 's" where
  "search_WriteRunOutput sc cfg now run stream content =
     search_index sc cfg now ''croncontrol-output'' (sc_output sc
       \<lparr>oe_RunID = run, oe_Stream = stream, oe_Content = content, oe_CreatedAt = now\<rparr>)"

definition search_WriteHeartbeat ::
  "'s search_cluster \<Rightarrow> search_config \<Rightarrow> instant \<Rightarrow> string \<Rightarrow> log_heartbeat \<Rightarrow> 's \<Rightarrow> go_error option \<times> 's" where
  "search_WriteHeartbeat sc cfg now run h =
     search_index sc cfg now ''croncontrol-heartbeats'' (sc_heartbeat sc (run, h))"

definition search_WriteJobAttempt ::
  "'s search_cluster \<Rightarrow> search_config \<Rightarrow> instant \<Rightarrow> string \<Rightarrow> attempt_log \<Rightarrow> 's \<Rightarrow> go_error option \<times> 's" where
  "search_WriteJobAttempt sc cfg now job a =
     search_index sc cfg now ''croncontrol-attempts'' (sc_attempt sc (job, a, now))"

definition search_QueryHeartbeats ::
  "'s search_cluster \<Rightarrow> search_config \<Rightarrow> string \<Rightarrow> 's \<Rightarrow> log_heartbeat list \<times> go_error option" where
  "search_QueryHeartbeats sc cfg run s =
     decoded (\<lambda>j. map_option snd (sc_heartbeat_of sc j))
       (search sc cfg ''croncontrol-heartbeats'' [term_filter ''run_id'' run] ''created_at'' 10000 s)"

definition search_QueryJobAttempts ::
  "'s search_cluster \<Rightarrow> search_config \<Rightarrow> string \<Rightarrow> 's \<Rightarrow> attempt_log list \<times> go_error option" where
  "search_QueryJobAttempts sc cfg job s =
     decoded (\<lambda>j. map_option (\<lambda>(_, a, _). a) (sc_attempt_of sc j))
       (search sc cfg ''croncontrol-attempts'' [term_filter ''job_id'' job] ''attempt_number'' 100 s)"

definition search_New :: "'s search_cluster \<Rightarrow> search_config \<Rightarrow> 's log_backend" where
  "search_New sc cfg =
     \<lparr>lb_WriteRunOutput = search_WriteRunOutput sc cfg,
      lb_WriteHeartbeat = search_WriteHeartbeat sc cfg,
      lb_WriteJobAttempt = search_WriteJobAttempt sc cfg,
      lb_QueryRunOutput = (\<lambda>_. search_QueryRunOutput sc cfg),
      lb_QueryHeartbeats = (\<lambda>_. search_QueryHeartbeats sc cfg),
      lb_QueryJobAttempts = (\<lambda>_. search_QueryJobAttempts sc cfg)\<rparr>"

section \<open>The choice of \<open>main.go\<close>\<close>

record logging_config =
  lg_Backend :: string
  lg_FilePath :: string
  lg_OpenSearchURL :: string
  lg_OpenSearchAuth :: string

datatype log_choice = FileLog string | SearchLog search_config | DatabaseLog

definition splitOnce :: "string \<Rightarrow> char \<Rightarrow> string \<times> string" where
  "splitOnce s sep = (if sep \<in> set s then (takeWhile (\<lambda>c. c \<noteq> sep) s, tl (dropWhile (\<lambda>c. c \<noteq> sep) s)) else (s, []))"

definition log_backend_of :: "logging_config \<Rightarrow> log_choice" where
  "log_backend_of cfg =
     (if lg_Backend cfg = ''file'' then FileLog (if lg_FilePath cfg = [] then ''./data/logs'' else lg_FilePath cfg)
      else if lg_Backend cfg = ''opensearch'' then
        let auth = (if lg_OpenSearchAuth cfg = [] then ([], []) else splitOnce (lg_OpenSearchAuth cfg) (CHR '':''))
        in SearchLog \<lparr>so_URL = (if lg_OpenSearchURL cfg = [] then ''http://localhost:9200'' else lg_OpenSearchURL cfg),
             so_Username = fst auth, so_Password = snd auth\<rparr>
      else DatabaseLog)"

section \<open>Properties of the database\<close>

lemma database_writes_fail:
  "\<exists>err. database_WriteRunOutput e run stream content w = (Some err, w)"
  "\<exists>err. database_WriteHeartbeat e run h w = (Some err, w)"
  "\<exists>err. database_WriteJobAttempt uuid e job a w = (Some err, w)"
  by (simp_all add: database_WriteRunOutput_def database_WriteHeartbeat_def database_WriteJobAttempt_def
      log_output_violation_def log_heartbeat_violation_def log_attempt_violation_def db_exec_def Let_def
      split: option.split)

text \<open>
  With the default backend nothing is ever logged. The statements leave out a column that has no
  default (the id of an output or of a heartbeat, the request of an attempt), so every write of the
  backend is an error and changes nothing, whatever the run, the job and the database hold.
\<close>

theorem default_backend_never_writes:
  "\<exists>e1 e2 e3.
     lb_WriteRunOutput (database_New uuid e) now run stream content w = (Some e1, w) \<and>
     lb_WriteHeartbeat (database_New uuid e) now run h w = (Some e2, w) \<and>
     lb_WriteJobAttempt (database_New uuid e) now job a w = (Some e3, w)"
  using database_writes_fail(1) [of e run stream content w] database_writes_fail(2) [of e run h w]
    database_writes_fail(3) [of uuid e job a w]
  by (simp add: database_New_def)

text \<open>What others wrote is read in the order of the time, restricted to the stream.\<close>

lemma scan_rows_map: "(\<And>r. r \<in> set rows \<Longrightarrow> scan r = Some (f r)) \<Longrightarrow> scan_rows scan rows = Some (map f rows)"
  by (induction rows) simp_all

lemma scan_rows_None: "r \<in> set rows \<Longrightarrow> scan r = None \<Longrightarrow> scan_rows scan rows = None"
  by (induction rows) (auto split: option.split)

lemma database_QueryRunOutput_rows:
  assumes "e_fault e ''QueryRunOutput'' = None"
  shows "database_QueryRunOutput e run [] w = (map (\<lambda>r. \<lparr>ck_Stream = ro_stream r, ck_Content = ro_content r,
      ck_CreatedAt = ro_created_at r\<rparr>) (sort_key ro_created_at (filter (\<lambda>r. ro_run_id r = run) (w_run_output w))), None)"
  by (simp add: database_QueryRunOutput_def query_rows_def assms scan_rows_map [OF refl] scan_output_def
      scan_rows_map [where f = "\<lambda>r. \<lparr>ck_Stream = ro_stream r, ck_Content = ro_content r, ck_CreatedAt = ro_created_at r\<rparr>"])

text \<open>An attempt that has not ended has no duration, and hides the others of its job.\<close>

lemma open_attempt_hides_all:
  assumes "e_fault e ''QueryJobAttempts'' = None" "x \<in> set (w_job_attempts w)" "ja_job_id x = job"
    "ja_duration_ms x = None"
  shows "fst (database_QueryJobAttempts e job w) = [] \<and> snd (database_QueryJobAttempts e job w) \<noteq> None"
proof -
  have "scan_rows scan_attempt (sort_key ja_attempt_number (filter (\<lambda>r. ja_job_id r = job) (w_job_attempts w))) = None"
    using assms(2-4) by (intro scan_rows_None [of x]) (simp_all add: scan_attempt_def)
  with assms(1) show ?thesis by (simp add: database_QueryJobAttempts_def query_rows_def)
qed

section \<open>Lines\<close>

text \<open>A line that the scanner gives back as it is.\<close>

definition plain_line :: "nat \<Rightarrow> string \<Rightarrow> bool" where
  "plain_line mx l \<longleftrightarrow> newline \<notin> set l \<and> length l < mx \<and> dropCR l = l"

definition unlines :: "string list \<Rightarrow> string" where
  "unlines ls = concat (map (\<lambda>l. l @ [newline]) ls)"

lemma takeWhile_line: "newline \<notin> set l \<Longrightarrow> takeWhile (\<lambda>c. c \<noteq> newline) (l @ newline # s) = l"
  by (induction l) auto

lemma scan_line:
  "newline \<notin> set l \<Longrightarrow> scan_lines mx (l @ newline # s) =
     (if length l \<ge> mx then ([], True) else (dropCR l # fst (scan_lines mx s), snd (scan_lines mx s)))"
  by (subst scan_lines.simps) (simp add: Let_def takeWhile_line)

lemma scan_lines_Nil [simp]: "scan_lines mx [] = ([], False)"
  by (simp add: scan_lines.simps)

lemma scan_unlines:
  "list_all (plain_line mx) ls \<Longrightarrow> scan_lines mx (unlines ls @ s) = (ls @ fst (scan_lines mx s), snd (scan_lines mx s))"
  by (induction ls) (simp_all add: unlines_def scan_line plain_line_def)

text \<open>A line that does not fit hides all the lines after it.\<close>

lemma scan_too_long:
  assumes "list_all (plain_line mx) ls" "newline \<notin> set l" "length l \<ge> mx"
  shows "scan_lines mx (unlines ls @ l @ newline # s) = (ls, True)"
  using assms by (simp add: scan_unlines scan_line)

section \<open>Properties of the files\<close>

text \<open>The operating system does not fail, and the texts of the entries can be read back and fit.\<close>

definition codec_reads :: "log_files \<Rightarrow> output_entry \<Rightarrow> bool" where
  "codec_reads lf x \<longleftrightarrow> lf_output_of lf (lf_output lf x) = Some x \<and> plain_line line_buffer (lf_output lf x)"

definition files_work :: "log_files \<Rightarrow> bool" where
  "files_work lf \<longleftrightarrow> (\<forall>op path. lf_os lf op path = None)"

text \<open>A write is an instant, a stream and a content.\<close>

definition entry_of :: "string \<Rightarrow> instant \<times> string \<times> string \<Rightarrow> output_entry" where
  "entry_of run a = (case a of (now, stream, content) \<Rightarrow>
     \<lparr>oe_RunID = run, oe_Stream = stream, oe_Content = content, oe_CreatedAt = now\<rparr>)"

definition write_all :: "log_files \<Rightarrow> string \<Rightarrow> string \<Rightarrow> (instant \<times> string \<times> string) list \<Rightarrow> files \<Rightarrow> files" where
  "write_all lf base run ws fs =
     fold (\<lambda>(now, stream, content) fs. snd (file_WriteRunOutput lf base now run stream content fs)) ws fs"

lemma filePath_day: "lf_day lf t = lf_day lf t' \<Longrightarrow> filePath lf base t sub key = filePath lf base t' sub key"
  by (simp add: filePath_def)

lemma file_write:
  assumes "files_work lf"
  shows "file_WriteRunOutput lf base now run stream content fs =
    (None, fs(filePath lf base now ''output'' run \<mapsto> contents (fs (filePath lf base now ''output'' run)) @
       unlines [lf_output lf (entry_of run (now, stream, content))]))"
  using assms by (simp add: file_WriteRunOutput_def appendJSON_def files_work_def Let_def unlines_def entry_of_def)

lemma write_all_contents:
  assumes "files_work lf" "\<forall>a\<in>set ws. lf_day lf (fst a) = lf_day lf t"
  shows "contents (write_all lf base run ws fs (filePath lf base t ''output'' run)) =
    contents (fs (filePath lf base t ''output'' run)) @ unlines (map (\<lambda>a. lf_output lf (entry_of run a)) ws)"
  using assms(2)
proof (induction ws arbitrary: fs)
  case (Cons a ws)
  obtain now stream content where a: "a = (now, stream, content)" by (cases a)
  have path: "filePath lf base now ''output'' run = filePath lf base t ''output'' run"
    using Cons.prems a by (intro filePath_day) simp
  have "write_all lf base run (a # ws) fs =
      write_all lf base run ws (snd (file_WriteRunOutput lf base now run stream content fs))"
    by (simp add: write_all_def a)
  with Cons show ?case
    by (simp add: file_write [OF assms(1)] path a contents_def [of "Some _"] unlines_def)
qed (simp add: write_all_def unlines_def)

lemma write_all_other:
  assumes "files_work lf" "\<forall>a\<in>set ws. filePath lf base (fst a) ''output'' run \<noteq> path"
  shows "write_all lf base run ws fs path = fs path"
  using assms(2)
proof (induction ws arbitrary: fs)
  case (Cons a ws)
  obtain now stream content where "a = (now, stream, content)" by (cases a)
  with Cons show ?case by (auto simp: write_all_def file_write [OF assms(1)])
qed (simp add: write_all_def)

lemma map_filter_entries:
  assumes "\<forall>a\<in>set ws. codec_reads lf (entry_of run a)"
  shows "List.map_filter (\<lambda>l. Option.bind (lf_output_of lf l) (chunk_of stream))
      (map (\<lambda>a. lf_output lf (entry_of run a)) ws) =
    map (\<lambda>(t, s, c). \<lparr>ck_Stream = s, ck_Content = c, ck_CreatedAt = t\<rparr>)
      (filter (\<lambda>(t, s, c). stream = [] \<or> s = stream) ws)"
  using assms
  by (induction ws) (auto simp: codec_reads_def entry_of_def chunk_of_def map_filter_simps split: prod.split)

text \<open>
  C37: the output of a run that was written to files on one day is read back on that day, in the order of
  the writes, all of it or only one stream, while every entry fits into the buffer of one mebibyte and
  its text can be decoded.
\<close>

theorem file_output_roundtrip:
  assumes "files_work lf" "\<forall>a\<in>set ws. codec_reads lf (entry_of run a)"
    and "\<forall>a\<in>set ws. lf_day lf (fst a) = lf_day lf t"
    and "contents (fs (filePath lf base t ''output'' run)) = []"
  shows "file_QueryRunOutput lf base t run stream (write_all lf base run ws fs) =
    (map (\<lambda>(t, s, c). \<lparr>ck_Stream = s, ck_Content = c, ck_CreatedAt = t\<rparr>)
       (filter (\<lambda>(t, s, c). stream = [] \<or> s = stream) ws), None)"
proof -
  let ?path = "filePath lf base t ''output'' run" and ?ls = "map (\<lambda>a. lf_output lf (entry_of run a)) ws"
  have plain: "list_all (plain_line line_buffer) ?ls"
    using assms(2) by (auto simp: list_all_iff codec_reads_def)
  have stored: "contents (write_all lf base run ws fs ?path) = unlines ?ls"
    using write_all_contents [OF assms(1,3)] assms(4) by simp
  have "read_entries lf line_buffer g ?path (write_all lf base run ws fs) = (List.map_filter g ?ls, None)"
    if g: "g = (\<lambda>l. Option.bind (lf_output_of lf l) (chunk_of stream))" for g
  proof (cases "write_all lf base run ws fs ?path")
    case None
    with stored have "unlines ?ls = []" by (simp add: contents_def)
    then have "ws = []" by (cases ws) (auto simp: unlines_def)
    with None assms(1) show ?thesis by (simp add: read_entries_def files_work_def map_filter_simps)
  next
    case (Some s)
    with stored have "s = unlines ?ls" by (simp add: contents_def)
    with Some assms(1) scan_unlines [OF plain, of "[]"] show ?thesis
      by (simp add: read_entries_def files_work_def)
  qed
  then show ?thesis by (simp add: file_QueryRunOutput_def map_filter_entries [OF assms(2)])
qed

text \<open>The next day there is another file: what was written before midnight is not found any more.\<close>

lemma yesterday_is_not_found:
  assumes "files_work lf" "\<forall>a\<in>set ws. filePath lf base (fst a) ''output'' run \<noteq> filePath lf base t ''output'' run"
    "fs (filePath lf base t ''output'' run) = None"
  shows "file_QueryRunOutput lf base t run stream (write_all lf base run ws fs) = ([], None)"
  using write_all_other [OF assms(1,2), of fs] assms(1,3)
  by (simp add: file_QueryRunOutput_def read_entries_def files_work_def)

section \<open>A sample of files\<close>

definition sample_writes :: "(instant \<times> string \<times> string) list" where
  "sample_writes = [(1, ''stdout'', ''a''), (2, ''stderr'', ''b''), (3, ''stdout'', ''c'')]"

text \<open>A codec for the entries of the sample: their contents.\<close>

definition sample_log :: log_files where
  "sample_log =
     \<lparr>lf_output = oe_Content,
      lf_output_of = (\<lambda>l. map_option (entry_of ''run_1'') (List.find (\<lambda>(t, s, c). c = l) sample_writes)),
      lf_heartbeat = (\<lambda>_. []), lf_heartbeat_of = (\<lambda>_. None), lf_attempt = (\<lambda>_. []), lf_attempt_of = (\<lambda>_. None),
      lf_day = (\<lambda>t. if t < 10 then ''2026-01-01'' else ''2026-01-02''), lf_os = (\<lambda>_ _. None), lf_written = (\<lambda>_. 0)\<rparr>"

lemma file_output_roundtrip_witness:
  "file_QueryRunOutput sample_log ''/logs'' 5 ''run_1'' ''stdout'' (write_all sample_log ''/logs'' ''run_1'' sample_writes (\<lambda>_. None)) =
   ([\<lparr>ck_Stream = ''stdout'', ck_Content = ''a'', ck_CreatedAt = 1\<rparr>,
     \<lparr>ck_Stream = ''stdout'', ck_Content = ''c'', ck_CreatedAt = 3\<rparr>], None)"
proof -
  have "\<forall>a\<in>set sample_writes. codec_reads sample_log (entry_of ''run_1'' a)"
    by (simp add: sample_writes_def codec_reads_def sample_log_def entry_of_def plain_line_def line_buffer_def dropCR_def)
  moreover have "\<forall>a\<in>set sample_writes. lf_day sample_log (fst a) = lf_day sample_log 5"
    by (simp add: sample_writes_def sample_log_def)
  moreover have "files_work sample_log" by (simp add: files_work_def sample_log_def)
  ultimately show ?thesis
    using file_output_roundtrip [of sample_log sample_writes "''run_1''" 5 "\<lambda>_. None" "''/logs''" "''stdout''"]
    by (simp add: contents_def) (simp add: sample_writes_def)
qed

end
