(* ===== verification/Routing.thy ===== *)
theory Routing
  imports Security_Properties
begin

text \<open>
  The routes of the HTTP interface and the checks in front of them, \<open>buildRouter\<close> in \<open>main.go\<close>. The
  router of the library, which finds the route of a request, is a parameter; a handler is its name.
\<close>

section \<open>The routes\<close>

datatype access = Public | Member | Platform

type_synonym route = "string \<times> string \<times> string"

text \<open>Method, pattern and handler; \<open>*\<close> is any method.\<close>

definition public_routes :: "route list" where
  "public_routes =
     [(''*'', ''/metrics'', ''promhttp''), (''GET'', ''/health'', ''health''),
      (''GET'', ''/api/v1/openapi.yaml'', ''ServeOpenAPI''),
      (''GET'', ''/api/v1/config'', ''GetPublicConfig''),
      (''POST'', ''/api/v1/register'', ''Register''),
      (''POST'', ''/api/v1/login'', ''Login''),
      (''POST'', ''/api/v1/heartbeat'', ''Heartbeat''),
      (''POST'', ''/api/v1/workers/enroll'', ''EnrollWorker''),
      (''GET'', ''/api/v1/workers/poll'', ''WorkerPoll''),
      (''POST'', ''/api/v1/workers/result'', ''WorkerResult''),
      (''POST'', ''/api/v1/workers/heartbeat'', ''WorkerHeartbeat''),
      (''POST'', ''/api/v1/workers/control-poll'', ''WorkerControlPoll''),
      (''POST'', ''/api/v1/infra/servers/{id}/ready'', ''ServerReadyCallback''),
      (''POST'', ''/api/v1/chat/simulate'', ''ChatSimulate''),
      (''POST'', ''/api/v1/register/verify'', ''VerifyEmail''),
      (''POST'', ''/api/v1/register/resend'', ''ResendVerification''),
      (''POST'', ''/api/v1/auth/forgot-password'', ''ForgotPassword''),
      (''POST'', ''/api/v1/auth/reset-password'', ''ResetPassword''),
      (''GET'', ''/api/v1/auth/google/login'', ''GoogleLogin''),
      (''GET'', ''/api/v1/auth/google/callback'', ''GoogleCallback'')]"

definition member_routes :: "route list" where
  "member_routes =
     [(''GET'', ''/api/v1/workspace'', ''GetWorkspace''),
      (''GET'', ''/api/v1/workspace/health'', ''GetWorkspaceHealth''),
      (''GET'', ''/api/v1/workspaces'', ''ListWorkspaces''),
      (''POST'', ''/api/v1/workspaces/{id}/switch'', ''SwitchWorkspace''),
      (''GET'', ''/api/v1/processes'', ''ListProcesses''),
      (''POST'', ''/api/v1/processes'', ''CreateProcess''),
      (''GET'', ''/api/v1/processes/{id}'', ''GetProcess''),
      (''PUT'', ''/api/v1/processes/{id}'', ''UpdateProcess''),
      (''DELETE'', ''/api/v1/processes/{id}'', ''DeleteProcess''),
      (''POST'', ''/api/v1/processes/{id}/trigger'', ''TriggerProcess''),
      (''POST'', ''/api/v1/processes/{id}/pause'', ''PauseProcess''),
      (''POST'', ''/api/v1/processes/{id}/resume'', ''ResumeProcess''),
      (''GET'', ''/api/v1/runs'', ''ListRuns''),
      (''GET'', ''/api/v1/runs/{id}'', ''GetRun''),
      (''POST'', ''/api/v1/runs/{id}/cancel'', ''CancelRun''),
      (''POST'', ''/api/v1/runs/{id}/kill'', ''KillRun''),
      (''POST'', ''/api/v1/runs/{id}/replay'', ''ReplayRun''),
      (''GET'', ''/api/v1/runs/{id}/output'', ''GetRunOutput''),
      (''PATCH'', ''/api/v1/runs/{id}/result'', ''SetRunResult''),
      (''GET'', ''/api/v1/runs/{id}/result'', ''GetRunResult''),
      (''POST'', ''/api/v1/runs/{id}/artifacts'', ''UploadArtifact''),
      (''GET'', ''/api/v1/runs/{id}/artifacts'', ''ListArtifacts''),
      (''GET'', ''/api/v1/runs/{id}/artifacts/{name}'', ''DownloadArtifact''),
      (''POST'', ''/api/v1/orchestras'', ''CreateOrchestra''),
      (''GET'', ''/api/v1/orchestras'', ''ListOrchestras''),
      (''GET'', ''/api/v1/orchestras/{id}'', ''GetOrchestraHandler''),
      (''GET'', ''/api/v1/orchestras/{id}/score'', ''GetOrchestraScore''),
      (''POST'', ''/api/v1/orchestras/{id}/cancel'', ''CancelOrchestra''),
      (''POST'', ''/api/v1/orchestras/{id}/pause'', ''PauseOrchestra''),
      (''POST'', ''/api/v1/orchestras/{id}/resume'', ''ResumeOrchestra''),
      (''POST'', ''/api/v1/orchestras/{id}/finish'', ''FinishOrchestraHandler''),
      (''POST'', ''/api/v1/orchestras/{id}/chat'', ''PostChatMessage''),
      (''GET'', ''/api/v1/orchestras/{id}/chat'', ''ListChatMessages''),
      (''GET'', ''/api/v1/orchestras/{id}/stream'', ''StreamChat''),
      (''POST'', ''/api/v1/runs/{id}/next'', ''NextMovement''),
      (''POST'', ''/api/v1/runs/{id}/choice'', ''SetChoiceConfig''),
      (''POST'', ''/api/v1/runs/{id}/choose'', ''Choose''),
      (''GET'', ''/api/v1/secrets'', ''ListSecrets''),
      (''POST'', ''/api/v1/secrets'', ''CreateSecretHandler''),
      (''PUT'', ''/api/v1/secrets/{name}'', ''UpdateSecretHandler''),
      (''DELETE'', ''/api/v1/secrets/{name}'', ''DeleteSecretHandler''),
      (''GET'', ''/api/v1/queues'', ''ListQueues''),
      (''POST'', ''/api/v1/queues'', ''CreateQueue''),
      (''GET'', ''/api/v1/queues/{id}'', ''GetQueue''),
      (''PUT'', ''/api/v1/queues/{id}'', ''UpdateQueue''),
      (''GET'', ''/api/v1/jobs'', ''ListJobs''),
      (''POST'', ''/api/v1/jobs'', ''EnqueueJob''),
      (''POST'', ''/api/v1/jobs/batch'', ''BatchEnqueueJobs''),
      (''GET'', ''/api/v1/jobs/{id}'', ''GetJob''),
      (''POST'', ''/api/v1/jobs/{id}/cancel'', ''CancelJob''),
      (''POST'', ''/api/v1/jobs/{id}/replay'', ''ReplayJob''),
      (''GET'', ''/api/v1/workers'', ''ListWorkers''),
      (''POST'', ''/api/v1/workers'', ''CreateWorker''),
      (''GET'', ''/api/v1/workers/{id}'', ''GetWorker''),
      (''PUT'', ''/api/v1/workers/{id}'', ''UpdateWorker''),
      (''DELETE'', ''/api/v1/workers/{id}'', ''DeleteWorker''),
      (''GET'', ''/api/v1/api-keys'', ''ListAPIKeys''),
      (''POST'', ''/api/v1/api-keys'', ''CreateAPIKey''),
      (''DELETE'', ''/api/v1/api-keys/{id}'', ''DeleteAPIKey''),
      (''GET'', ''/api/v1/users'', ''ListMembers''),
      (''POST'', ''/api/v1/users/invite'', ''InviteMember''),
      (''GET'', ''/api/v1/webhook-subscriptions'', ''ListWebhookSubscriptions''),
      (''POST'', ''/api/v1/webhook-subscriptions'', ''CreateWebhookSubscription''),
      (''DELETE'', ''/api/v1/webhook-subscriptions/{id}'', ''DeleteWebhookSubscription''),
      (''POST'', ''/api/v1/webhook-subscriptions/{id}/test'', ''TestWebhookDelivery''),
      (''GET'', ''/api/v1/ssh-credentials'', ''ListSSHCredentials''),
      (''POST'', ''/api/v1/ssh-credentials'', ''CreateSSHCredential''),
      (''DELETE'', ''/api/v1/ssh-credentials/{id}'', ''DeleteSSHCredential''),
      (''GET'', ''/api/v1/ssm-profiles'', ''ListSSMProfiles''),
      (''POST'', ''/api/v1/ssm-profiles'', ''CreateSSMProfile''),
      (''DELETE'', ''/api/v1/ssm-profiles/{id}'', ''DeleteSSMProfile''),
      (''GET'', ''/api/v1/k8s-clusters'', ''ListK8sClusters''),
      (''POST'', ''/api/v1/k8s-clusters'', ''CreateK8sCluster''),
      (''DELETE'', ''/api/v1/k8s-clusters/{id}'', ''DeleteK8sCluster''),
      (''POST'', ''/api/v1/system/cleanup'', ''TriggerCleanup''),
      (''GET'', ''/api/v1/infra/servers'', ''ListInfraServers''),
      (''GET'', ''/api/v1/infra/pool'', ''GetInfraPool''),
      (''POST'', ''/api/v1/infra/servers'', ''ProvisionServer''),
      (''DELETE'', ''/api/v1/infra/servers/{id}'', ''DestroyInfraServer'')]"

definition platform_routes :: "route list" where
  "platform_routes =
     [(''GET'', ''/api/v1/admin/stats'', ''AdminGetStats''),
      (''GET'', ''/api/v1/admin/workspaces'', ''AdminListWorkspaces''),
      (''POST'', ''/api/v1/admin/workspaces/{id}/state'', ''AdminUpdateWorkspaceState''),
      (''POST'', ''/api/v1/admin/workspaces/{id}/impersonate'', ''AdminImpersonate''),
      (''GET'', ''/api/v1/admin/users'', ''AdminListUsers''),
      (''POST'', ''/api/v1/admin/users/{id}/platform-admin'', ''AdminSetPlatformAdmin''),
      (''GET'', ''/api/v1/admin/infra/servers'', ''ListAllInfraServers'')]"

definition routes :: "(access \<times> route) list" where
  "routes = map (Pair Public) public_routes @ map (Pair Member) member_routes @ map (Pair Platform) platform_routes"

text \<open>The paths the authentication lets through.\<close>

definition skipPaths :: "string list" where
  "skipPaths =
     [''/health'', ''/api/v1/heartbeat'', ''/api/v1/workers/poll'', ''/api/v1/workers/result'',
      ''/api/v1/workers/heartbeat'', ''/api/v1/workers/control-poll'', ''/api/v1/register'',
      ''/api/v1/register/verify'', ''/api/v1/login'']"

section \<open>Serving a request\<close>

text \<open>What becomes of a request: a handler with its context, a refusal, or the embedded pages.\<close>

datatype served = Handled string request_ctx | Refused int string | Frontend

text \<open>The groups of routes nest: the platform routes pass the checks of the member routes first.\<close>

definition guard ::
  "(string \<Rightarrow> string) \<Rightarrow> env \<Rightarrow> http_request \<Rightarrow> access \<Rightarrow> world \<Rightarrow> gate \<times> world" where
  "guard hash e r a w =
     (case a of
        Public \<Rightarrow> (Passed None, w)
      | Member \<Rightarrow> Middleware hash skipPaths e r None w
      | Platform \<Rightarrow>
          (case Middleware hash skipPaths e r None w of
             (Passed ctx, w1) \<Rightarrow> (RequirePlatformAdmin ctx, w1)
           | (g, w1) \<Rightarrow> (g, w1)))"

definition serve ::
  "(string \<Rightarrow> string \<Rightarrow> (access \<times> route) option) \<Rightarrow> (string \<Rightarrow> string) \<Rightarrow> env \<Rightarrow> string \<Rightarrow> http_request \<Rightarrow>
   world \<Rightarrow> served \<times> world" where
  "serve find_route hash e verb r w =
     (case find_route verb (h_Path r) of
        None \<Rightarrow> (Frontend, w)
      | Some (a, rt) \<Rightarrow>
          (case guard hash e r a w of
             (Unauthorized s, w1) \<Rightarrow> (Refused 401 s, w1)
           | (Forbidden s, w1) \<Rightarrow> (Refused 403 s, w1)
           | (Passed ctx, w1) \<Rightarrow> (Handled (snd (snd rt)) ctx, w1)))"

section \<open>Who reaches a handler\<close>

definition handlers :: "access \<Rightarrow> string set" where
  "handlers a = (snd \<circ> snd) ` set (case a of
     Public \<Rightarrow> public_routes | Member \<Rightarrow> member_routes | Platform \<Rightarrow> platform_routes)"

text \<open>No handler stands behind checks of two kinds.\<close>

lemma handlers_apart: "handlers Public \<inter> handlers Member = {}" "(handlers Public \<union> handlers Member) \<inter> handlers Platform = {}"
  by (simp_all add: handlers_def public_routes_def member_routes_def platform_routes_def)

lemma route_handler: "(a, rt) \<in> set routes \<Longrightarrow> snd (snd rt) \<in> handlers a"
  by (auto simp: routes_def handlers_def)

text \<open>What the key of a request says about its actor.\<close>

definition speaks_for :: "(string \<Rightarrow> string) \<Rightarrow> http_request \<Rightarrow> world \<Rightarrow> actor \<Rightarrow> bool" where
  "speaks_for hash r w a \<longleftrightarrow> (\<exists>k\<in>set (w_api_keys w). \<exists>ws\<in>set (w_workspaces w).
     ak_enabled k \<and> ak_key_hash k = hash (h_X_API_Key r) \<and>
     ak_key_prefix k = GenerateAPIKeyPrefix (h_X_API_Key r) \<and> h_X_API_Key r \<noteq> [] \<and>
     a_ID a = ak_id k \<and> wsp_id ws = ak_workspace_id k \<and>
     (if a_IsPlatformAdmin a
      then a_Role a = ''admin'' \<and>
        (\<exists>u\<in>set (w_users w). ak_created_by k = Some (u_id u) \<and> u_is_platform_admin u)
      else a_WorkspaceID a = ak_workspace_id k \<and> a_Role a = ak_role k \<and>
        wsp_state ws \<notin> {''suspended'', ''archived''}))"

lemma Middleware_cases:
  assumes "Middleware hash skip e r None w = (Passed ctx, w')"
  obtains (skipped) "h_Path r \<in> set skip" "ctx = None"
  | (actor) a where "ctx = Some a" "speaks_for hash r w a" "h_Path r \<notin> set skip"
proof (cases "h_Path r \<in> set skip")
  case True
  with assms that(1) show ?thesis by (simp add: Middleware_def)
next
  case False
  with assms obtain a where a: "fst (Authenticate hash e r w) = Inr a" "ctx = Some a"
    by (auto simp: Middleware_def WithActor_def split: prod.splits sum.splits)
  from authenticate_sound [OF a(1)] have "speaks_for hash r w a" by (simp add: speaks_for_def)
  with a False that(2) show ?thesis by blast
qed

lemma guard_Platform:
  assumes "guard hash e r Platform w = (Passed ctx, w')"
  shows "\<exists>a. ctx = Some a \<and> speaks_for hash r w a \<and> a_IsPlatformAdmin a"
proof -
  from assms obtain c where c: "Middleware hash skipPaths e r None w = (Passed c, w')"
      "RequirePlatformAdmin c = Passed ctx"
    by (auto simp: guard_def split: prod.splits gate.splits)
  then have "c = ctx" "ctx_IsPlatformAdmin ctx"
    by (auto simp: RequirePlatformAdmin_def split: if_splits)
  with c(1) show ?thesis
    by (cases rule: Middleware_cases [OF c(1)]) (auto simp: ctx_IsPlatformAdmin_def)
qed

text \<open>
  C35: who reaches a handler. Of the routes \<open>main.go\<close> installs, whatever route the router picks: a
  handler that is not public runs either for the holder of an enabled key, in a workspace that is
  neither suspended nor archived unless a platform administrator made the key, or without an actor, for
  a path on the list of paths that are let through; the handlers of the platform run for platform
  administrators only.
\<close>

theorem handlers_are_guarded:
  assumes "\<And>v p x. find_route v p = Some x \<Longrightarrow> x \<in> set routes"
    and "serve find_route hash e verb r w = (Handled h ctx, w')"
  shows "h \<in> handlers Public \<and> ctx = None \<or>
    h \<in> handlers Member \<and> ctx = None \<and> h_Path r \<in> set skipPaths \<or>
    h \<in> handlers Member \<and> (\<exists>a. ctx = Some a \<and> speaks_for hash r w a) \<or>
    h \<in> handlers Platform \<and> (\<exists>a. ctx = Some a \<and> speaks_for hash r w a \<and> a_IsPlatformAdmin a)"
proof -
  obtain a rt where found: "find_route verb (h_Path r) = Some (a, rt)" and h: "h = snd (snd rt)"
      and g: "guard hash e r a w = (Passed ctx, w')"
    using assms(2) by (auto simp: serve_def split: option.splits gate.splits prod.splits)
  have "(a, rt) \<in> set routes" using assms(1) found .
  then have mem: "h \<in> handlers a" unfolding h by (rule route_handler)
  show ?thesis
  proof (cases a)
    case Public
    with mem g show ?thesis by (simp add: guard_def)
  next
    case Member
    with g have m: "Middleware hash skipPaths e r None w = (Passed ctx, w')" by (simp add: guard_def)
    from Member mem show ?thesis by (cases rule: Middleware_cases [OF m]) auto
  next
    case Platform
    with mem g guard_Platform [of hash e r w ctx w'] show ?thesis by simp
  qed
qed

text \<open>
  The list of paths goes further than the routes it is meant for: when the router takes the last part of
  such a path for an id, the handler of a worker runs without an actor.
\<close>

lemma skipped_path_reaches_member_handler:
  assumes "find_route ''PUT'' ''/api/v1/workers/result'' =
      Some (Member, (''PUT'', ''/api/v1/workers/{id}'', ''UpdateWorker''))"
    and "h_Path r = ''/api/v1/workers/result''"
  shows "serve find_route hash e ''PUT'' r w = (Handled ''UpdateWorker'' None, w)"
  using assms by (simp add: serve_def guard_def Middleware_def skipPaths_def)

lemma handlers_are_guarded_witness:
  "speaks_for (\<lambda>s. CHR ''#'' # s) (sample_request\<lparr>h_Path := ''/api/v1/runs''\<rparr>) sample_accounts
     \<lparr>a_Type = ''api_key'', a_ID = ''key_1'', a_WorkspaceID = ''wsp_1'', a_Role = ''operator'', a_IsPlatformAdmin = False\<rparr>"
proof -
  let ?find = "\<lambda>v p. if v = ''GET'' \<and> p = ''/api/v1/runs''
      then Some (Member, (''GET'', ''/api/v1/runs'', ''ListRuns'')) else None"
  let ?r = "sample_request\<lparr>h_Path := ''/api/v1/runs''\<rparr>"
  let ?a = "\<lparr>a_Type = ''api_key'', a_ID = ''key_1'', a_WorkspaceID = ''wsp_1'', a_Role = ''operator'',
      a_IsPlatformAdmin = False\<rparr>"
  have found: "x \<in> set routes" if "?find v p = Some x" for v p x
    using that by (auto simp: routes_def member_routes_def split: if_splits)
  obtain w' where "serve ?find (\<lambda>s. CHR ''#'' # s) (calm hour) ''GET'' ?r sample_accounts =
      (Handled ''ListRuns'' (Some ?a), w')"
    by (simp add: serve_def guard_def Middleware_def skipPaths_def sample_request_def WithActor_def
        Authenticate_def sample_accounts_def sample_key_def GetAPIKeyByHash_def db_read_def workspace_of_key_def
        sample_workspace_def)
  from handlers_are_guarded [of ?find, OF found this] handlers_apart show ?thesis by auto
qed

section \<open>Metrics\<close>

text \<open>
  \<open>internal/metrics\<close>. A handler is the list of the status codes it passes to \<open>WriteHeader\<close>, and its
  effect; the counter \<open>api_requests_total\<close> is the list of the labels it was raised for. The latency
  is left out.
\<close>

definition normalizePath :: "string \<Rightarrow> string" where
  "normalizePath path =
     strings_Join (CHR ''/'') (map (\<lambda>p. if length p > 20 \<and> CHR ''_'' \<in> set (take 6 p) then '':id'' else p)
       (strings_Split (CHR ''/'') path))"

definition metrics_Middleware ::
  "('s \<Rightarrow> int list \<times> 's) \<Rightarrow> string \<Rightarrow> string \<Rightarrow> (string \<times> string \<times> string) list \<times> 's \<Rightarrow>
   (string \<times> string \<times> string) list \<times> 's" where
  "metrics_Middleware serve_next verb path st =
     (let (codes, s) = serve_next (snd st)
      in if path = ''/metrics'' then (fst st, s)
         else let status = last (200 # codes)
              in (fst st @ [(verb, normalizePath path, Itoa status)], s))"

text \<open>
  The writer a handler gets, by whether it implements \<open>http.Flusher\<close>: \<open>responseWriter\<close> embeds the
  interface \<open>http.ResponseWriter\<close>, which has no \<open>Flush\<close>.
\<close>

definition metrics_writer :: "string \<Rightarrow> bool \<Rightarrow> bool" where
  "metrics_writer path flusher = (if path = ''/metrics'' then flusher else False)"

text \<open>The gauge \<open>runs_active\<close>, by state; an error of the query leaves its old value.\<close>

definition collect_states :: "string list" where
  "collect_states = [''pending'', ''running'', ''retrying'', ''queued'', ''waiting_for_worker'']"

definition collect :: "(nat \<Rightarrow> env) \<Rightarrow> world \<Rightarrow> (string \<rightharpoonup> int) \<Rightarrow> (string \<rightharpoonup> int)" where
  "collect e w gauges =
     fold (\<lambda>(i, st) g. case CountRuns (e i) [] [] st [] w of Inl _ \<Rightarrow> g | Inr n \<Rightarrow> g(st \<mapsto> n))
       (List.enumerate 0 collect_states) gauges"

text \<open>
  The runs are counted for the workspace with the empty name, so the gauge of every state is zero
  however many runs are active.
\<close>

lemma CountRuns_without_workspace:
  assumes "\<forall>r\<in>set (w_runs w). r_workspace_id r \<noteq> []" "e_fault e ''CountRuns'' = None"
  shows "CountRuns e [] pid st origin w = Inr 0"
  using assms by (auto simp: CountRuns_def db_read_def filter_empty_conv)

lemma active_runs_are_not_counted:
  assumes "\<forall>r\<in>set (w_runs w). r_workspace_id r \<noteq> []" "\<And>i. e_fault (e i) ''CountRuns'' = None"
    and "st \<in> set collect_states"
  shows "collect e w gauges st = Some 0"
  using assms by (auto simp: collect_def collect_states_def CountRuns_without_workspace)

text \<open>The segments of a path are normalized one by one.\<close>

lemma strings_Split_append:
  "strings_Split sep (a @ sep # b) = strings_Split sep a @ strings_Split sep b"
  by (induction a) (auto split: list.splits)

lemma strings_Split_single: "sep \<notin> set p \<Longrightarrow> strings_Split sep p = [p]"
  by (induction p) auto

lemma strings_Join_append:
  "ps \<noteq> [] \<Longrightarrow> qs \<noteq> [] \<Longrightarrow> strings_Join sep (ps @ qs) = strings_Join sep ps @ sep # strings_Join sep qs"
  by (induction sep ps rule: strings_Join.induct) (auto simp: strings_Join_Cons)

lemma normalizePath_append:
  "normalizePath (a @ CHR ''/'' # b) = normalizePath a @ CHR ''/'' # normalizePath b"
  by (simp add: normalizePath_def strings_Split_append strings_Join_append)

text \<open>An id of a canonical prefix and a ULID of 26 characters becomes \<open>:id\<close>.\<close>

lemma normalizePath_id:
  assumes "p \<in> set validPrefixes" "length ulid = 26" "CHR ''/'' \<notin> set ulid"
  shows "normalizePath (p @ ulid) = '':id''"
proof -
  have p: "length p = 4" "CHR ''_'' \<in> set p" "CHR ''/'' \<notin> set p"
    using assms(1) by (auto simp: validPrefixes_def prefix_defs)
  have "CHR ''/'' \<notin> set (p @ ulid)" using p(3) assms(3) by simp
  moreover have "CHR ''_'' \<in> set (take 6 (p @ ulid))" using p(1,2) by simp
  ultimately show ?thesis
    using p(1) assms(2) by (simp add: normalizePath_def strings_Split_single)
qed

text \<open>
  Requests that differ in the id of a resource are counted under one label, so the number of labels
  does not grow with the number of resources.
\<close>

lemma requests_share_label:
  assumes "p \<in> set validPrefixes" "length u = 26" "CHR ''/'' \<notin> set u" "length v = 26" "CHR ''/'' \<notin> set v"
    and "serve_next s = (codes, s')"
  shows "fst (metrics_Middleware serve_next verb (a @ CHR ''/'' # (p @ u) @ CHR ''/'' # b) (reg, s)) =
    fst (metrics_Middleware serve_next verb (a @ CHR ''/'' # (p @ v) @ CHR ''/'' # b) (reg, s))"
proof -
  have "normalizePath (a @ CHR ''/'' # (p @ x) @ CHR ''/'' # b) =
      normalizePath a @ CHR ''/'' # '':id/'' @ normalizePath b" if "length x = 26" "CHR ''/'' \<notin> set x" for x
    using normalizePath_id [OF assms(1) that]
      normalizePath_append [of a "(p @ x) @ CHR ''/'' # b"] normalizePath_append [of "p @ x" b] by simp
  moreover have "a @ CHR ''/'' # (p @ x) @ CHR ''/'' # b \<noteq> ''/metrics''" if "length x = 26" for x
  proof
    assume "a @ CHR ''/'' # (p @ x) @ CHR ''/'' # b = ''/metrics''"
    then have "length (a @ CHR ''/'' # (p @ x) @ CHR ''/'' # b) = length ''/metrics''" by (rule arg_cong)
    then show False using that by simp
  qed
  ultimately show ?thesis using assms by (simp add: metrics_Middleware_def)
qed

text \<open>The status that is counted is the last one written, not the first, which is the one that is sent.\<close>

lemma second_status_is_counted:
  "metrics_Middleware (\<lambda>s. ([200, 500], s)) ''GET'' ''/health'' ([], ()) = ([(''GET'', ''/health'', ''500'')], ())"
  by code_simp

end
