(* ===== verification/Clients.thy ===== *)
theory Clients
  imports Routing Schema Exec_Http
begin

text \<open>
  The clients of the HTTP interface: the server of the model context protocol, \<open>mcp/server.go\<close> and
  \<open>mcp/client.go\<close>, the command line, \<open>cmd/cronctl/main.go\<close>, and the library for Go,
  \<open>sdk/go/croncontrol.go\<close>. The other side of the connection with its state, the parser of JSON and its
  indented text are parameters.
\<close>

section \<open>The client of the protocol server and of the command line\<close>

record 's api_http =
  ah_Do :: "string \<Rightarrow> string \<Rightarrow> string \<Rightarrow> json option \<Rightarrow> 's \<Rightarrow> (int \<times> string) answer \<times> 's"
  ah_request :: "string \<Rightarrow> go_error option"
  ah_parse :: "string \<Rightarrow> json option"
  ah_text :: "json \<Rightarrow> string"

record api_client =
  ac_baseURL :: string
  ac_apiKey :: string

definition NewAPIClient :: "string \<Rightarrow> string \<Rightarrow> api_client" where
  "NewAPIClient base key = \<lparr>ac_baseURL = base @ ''/api/v1'', ac_apiKey = key\<rparr>"

text \<open>
  \<open>do\<close>: the first argument says whether there is a context. \<open>http.NewRequestWithContext\<close> refuses a nil
  one. No body is a nil interface.
\<close>

definition api_do ::
  "bool \<Rightarrow> 's api_http \<Rightarrow> api_client \<Rightarrow> string \<Rightarrow> string \<Rightarrow> json option \<Rightarrow> 's \<Rightarrow> json answer \<times> 's" where
  "api_do has_ctx h c verb path body s =
     (if \<not> has_ctx then (Inl (ErrText ''net/http: nil Context''), s)
      else case ah_request h (ac_baseURL c @ path) of
        Some err \<Rightarrow> (Inl err, s)
      | None \<Rightarrow>
          (case ah_Do h verb (ac_baseURL c @ path) (ac_apiKey c) body s of
             (Inl err, s1) \<Rightarrow> (Inl err, s1)
           | (Inr (status, text), s1) \<Rightarrow>
               let data = take (2 ^ 20) text
               in if status \<ge> 400 then (Inl (ErrText (''API error '' @ Itoa status @ '': '' @ data)), s1)
                  else (Inr (case ah_parse h data of Some j \<Rightarrow> j | None \<Rightarrow> JStr data), s1)))"

section \<open>The tools of the protocol server\<close>

text \<open>A request is a verb, a path and a body. A handler that asserts the type of a missing argument panics.\<close>

type_synonym api_request = "string \<times> string \<times> json option"

record mcp_tool =
  mt_Name :: string
  mt_Description :: string
  mt_InputSchema :: json
  mt_Handler :: "go_map option \<Rightarrow> api_request option"

text \<open>A nil map (\<open>None\<close>) reads as the empty one.\<close>

definition arg :: "string \<Rightarrow> go_map option \<Rightarrow> json option" where
  "arg k m = (case m of None \<Rightarrow> None | Some kvs \<Rightarrow> map_of kvs k)"

definition string_arg :: "string \<Rightarrow> go_map option \<Rightarrow> string option" where
  "string_arg k m = (case arg k m of Some (JStr s) \<Rightarrow> Some s | _ \<Rightarrow> None)"

text \<open>The tools that put one argument into a path.\<close>

definition on_id :: "string \<Rightarrow> string \<Rightarrow> string \<Rightarrow> string \<Rightarrow> go_map option \<Rightarrow> api_request option" where
  "on_id k verb before after m = map_option (\<lambda>x. (verb, before @ x @ after, None)) (string_arg k m)"

definition pause_query :: "go_map option \<Rightarrow> string" where
  "pause_query m = (if arg ''cancel_pending'' m = Some (JBool True) then ''?cancel_pending=true'' else [])"

definition runs_query :: "go_map option \<Rightarrow> string" where
  "runs_query m =
     (let params = (case string_arg ''process_id'' m of None \<Rightarrow> [] | Some x \<Rightarrow> [''process_id='' @ x]) @
                   (case string_arg ''state'' m of None \<Rightarrow> [] | Some x \<Rightarrow> [''state='' @ x])
      in if params = [] then [] else CHR ''?'' # strings_Join (CHR ''&'') params)"

definition replay_overrides :: "go_map option \<Rightarrow> json" where
  "replay_overrides m = JObj
     ((case arg ''payload'' m of None \<Rightarrow> [] | Some p \<Rightarrow> [(''payload'', p)]) @
      (case arg ''priority'' m of None \<Rightarrow> [] | Some p \<Rightarrow> [(''priority'', p)]))"

text \<open>The input as a body: a nil map is \<open>null\<close>.\<close>

definition input_body :: "go_map option \<Rightarrow> json" where
  "input_body m = (case m of None \<Rightarrow> JNull | Some kvs \<Rightarrow> JObj kvs)"

definition typed :: "string \<Rightarrow> json" where "typed t = JObj [(''type'', JStr t)]"
definition described :: "string \<Rightarrow> string \<Rightarrow> json" where
  "described t d = JObj [(''type'', JStr t), (''description'', JStr d)]"
definition enumerated :: "string list \<Rightarrow> json" where
  "enumerated xs = JObj [(''type'', JStr ''string''), (''enum'', JArr (map JStr xs))]"
definition defaulted :: "string \<Rightarrow> json \<Rightarrow> json" where
  "defaulted t d = JObj [(''type'', JStr t), (''default'', d)]"

definition mcp_schema :: "string list \<Rightarrow> (string \<times> json) list \<Rightarrow> json" where
  "mcp_schema required properties = JObj ([(''type'', JStr ''object'')] @
     (if required = [] then [] else [(''required'', JArr (map JStr required))]) @
     [(''properties'', JObj properties)])"

definition mcp_process_tools :: "mcp_tool list" where
  "mcp_process_tools =
     [\<lparr>mt_Name = ''list_processes'',
       mt_Description = ''List all configured processes in the workspace. Returns name, schedule type, execution method, state, and tags.'',
       mt_InputSchema = mcp_schema [] [],
       mt_Handler = (\<lambda>m. Some (''GET'', ''/processes'', None))\<rparr>,
      \<lparr>mt_Name = ''create_process'',
       mt_Description = ''Create a new scheduled process. Requires name, schedule_type (cron/fixed_delay/on_demand), and execution_method (http/ssh/ssm/k8s).'',
       mt_InputSchema = mcp_schema [''name'', ''schedule_type'', ''execution_method'']
         [(''name'', described ''string'' ''Unique process name''),
          (''schedule_type'', enumerated [''cron'', ''fixed_delay'', ''on_demand'']),
          (''schedule'', described ''string'' ''Cron expression (for cron type)''),
          (''delay_duration'', described ''string'' ''Delay duration like 5m, 1h (for fixed_delay type)''),
          (''execution_method'', enumerated [''http'', ''ssh'', ''ssm'', ''k8s'']),
          (''method_config'', described ''object'' ''Method-specific config (url, headers, command, etc.)''),
          (''enabled'', defaulted ''boolean'' (JBool True))],
       mt_Handler = (\<lambda>m. Some (''POST'', ''/processes'', Some (input_body m)))\<rparr>,
      \<lparr>mt_Name = ''trigger_process'', mt_Description = ''Manually trigger a process to create an immediate run.'',
       mt_InputSchema = mcp_schema [''process_id''] [(''process_id'', described ''string'' ''Process ID (prc_...)'')],
       mt_Handler = on_id ''process_id'' ''POST'' ''/processes/'' ''/trigger''\<rparr>,
      \<lparr>mt_Name = ''pause_process'',
       mt_Description = ''Pause scheduling for a process. Pending runs can optionally be cancelled.'',
       mt_InputSchema = mcp_schema [''process_id'']
         [(''process_id'', typed ''string''), (''cancel_pending'', defaulted ''boolean'' (JBool False))],
       mt_Handler = (\<lambda>m. on_id ''process_id'' ''POST'' ''/processes/'' (''/pause'' @ pause_query m) m)\<rparr>,
      \<lparr>mt_Name = ''resume_process'', mt_Description = ''Resume scheduling for a paused process.'',
       mt_InputSchema = mcp_schema [''process_id''] [(''process_id'', typed ''string'')],
       mt_Handler = on_id ''process_id'' ''POST'' ''/processes/'' ''/resume''\<rparr>]"

definition mcp_run_tools :: "mcp_tool list" where
  "mcp_run_tools =
     [\<lparr>mt_Name = ''list_runs'', mt_Description = ''List recent runs. Can filter by process_id, state, or origin.'',
       mt_InputSchema = mcp_schema []
         [(''process_id'', described ''string'' ''Filter by process''),
          (''state'', described ''string'' ''Filter by state (pending, running, completed, failed, hung, etc.)''),
          (''limit'', defaulted ''integer'' (JNum 10))],
       mt_Handler = (\<lambda>m. Some (''GET'', ''/runs'' @ runs_query m, None))\<rparr>,
      \<lparr>mt_Name = ''get_run'',
       mt_Description = ''Get detailed information about a specific run, including attempts and progress.'',
       mt_InputSchema = mcp_schema [''run_id''] [(''run_id'', described ''string'' ''Run ID (run_...)'')],
       mt_Handler = on_id ''run_id'' ''GET'' ''/runs/'' []\<rparr>,
      \<lparr>mt_Name = ''kill_run'', mt_Description = ''Request to kill a running execution.'',
       mt_InputSchema = mcp_schema [''run_id''] [(''run_id'', typed ''string'')],
       mt_Handler = on_id ''run_id'' ''POST'' ''/runs/'' ''/kill''\<rparr>,
      \<lparr>mt_Name = ''enqueue_job'', mt_Description = ''Enqueue a job into a queue for processing.'',
       mt_InputSchema = mcp_schema [''queue_id'', ''payload'']
         [(''queue_id'', described ''string'' ''Queue ID (que_...)''),
          (''payload'', described ''object'' ''Job payload data''), (''priority'', defaulted ''integer'' (JNum 0)),
          (''reference'', described ''string'' ''External reference (e.g., order ID)'')],
       mt_Handler = (\<lambda>m. Some (''POST'', ''/jobs'', Some (input_body m)))\<rparr>,
      \<lparr>mt_Name = ''get_job'', mt_Description = ''Get detailed information about a job including attempt history.'',
       mt_InputSchema = mcp_schema [''job_id''] [(''job_id'', typed ''string'')],
       mt_Handler = on_id ''job_id'' ''GET'' ''/jobs/'' []\<rparr>,
      \<lparr>mt_Name = ''replay_job'',
       mt_Description = ''Replay a failed or terminal job. Optionally override payload or priority.'',
       mt_InputSchema = mcp_schema [''job_id'']
         [(''job_id'', typed ''string''), (''payload'', described ''object'' ''Override payload''),
          (''priority'', described ''integer'' ''Override priority'')],
       mt_Handler = (\<lambda>m. map_option (\<lambda>(v, p, _). (v, p, Some (replay_overrides m)))
         (on_id ''job_id'' ''POST'' ''/jobs/'' ''/replay'' m))\<rparr>,
      \<lparr>mt_Name = ''get_health'',
       mt_Description = ''Get system health status including component status, run counts, and queue depths.'',
       mt_InputSchema = mcp_schema [] [],
       mt_Handler = (\<lambda>m. Some (''GET'', ''/workspace/health'', None))\<rparr>]"

definition mcp_tools :: "mcp_tool list" where
  "mcp_tools = mcp_process_tools @ mcp_run_tools"

section \<open>The protocol server\<close>

record rpc_request =
  rq_ID :: json
  rq_Method :: string
  rq_Params :: "json option"

record rpc_response =
  rs_ID :: json
  rs_Result :: "json option"
  rs_Error :: "(int \<times> string) option"

definition rpc_result :: "json \<Rightarrow> json \<Rightarrow> rpc_response" where
  "rpc_result i r = \<lparr>rs_ID = i, rs_Result = Some r, rs_Error = None\<rparr>"

definition rpc_error :: "json \<Rightarrow> int \<Rightarrow> string \<Rightarrow> rpc_response" where
  "rpc_error i code msg = \<lparr>rs_ID = i, rs_Result = None, rs_Error = Some (code, msg)\<rparr>"

text \<open>The parameters of a call: the name of a tool and its arguments.\<close>

definition call_params :: "json option \<Rightarrow> (string \<times> go_map option) option" where
  "call_params p =
     (case p of
        Some JNull \<Rightarrow> Some ([], None)
      | Some (JObj kvs) \<Rightarrow>
          (case (case map_of kvs ''name'' of None \<Rightarrow> Some [] | Some j \<Rightarrow> unmarshal_string j,
                 case map_of kvs ''arguments'' of None \<Rightarrow> Some None | Some j \<Rightarrow> unmarshal_map j) of
             (Some name, Some args) \<Rightarrow> Some (name, args)
           | _ \<Rightarrow> None)
      | _ \<Rightarrow> None)"

definition find_tool :: "string \<Rightarrow> mcp_tool option" where
  "find_tool name = List.find (\<lambda>t. mt_Name t = name) mcp_tools"

definition text_content :: "string \<Rightarrow> (string \<times> json) list" where
  "text_content s = [(''content'', JArr [JObj [(''text'', JStr s), (''type'', JStr ''text'')]])]"

definition call_reply :: "'s api_http \<Rightarrow> json \<Rightarrow> json answer \<Rightarrow> rpc_response" where
  "call_reply h i answer =
     (case answer of
        Inl err \<Rightarrow> rpc_result i (JObj (text_content (''Error: '' @ Error err) @ [(''isError'', JBool True)]))
      | Inr r \<Rightarrow> rpc_result i (JObj (text_content (ah_text h r))))"

definition listed_tool :: "mcp_tool \<Rightarrow> json" where
  "listed_tool t = JObj [(''description'', JStr (mt_Description t)), (''inputSchema'', mt_InputSchema t),
     (''name'', JStr (mt_Name t))]"

text \<open>\<open>None\<close> is a panic. The order in which a map is listed is a parameter.\<close>

definition handleRequest ::
  "(mcp_tool list \<Rightarrow> mcp_tool list) \<Rightarrow> 's api_http \<Rightarrow> api_client \<Rightarrow> rpc_request \<Rightarrow> 's \<Rightarrow>
   (rpc_response \<times> 's) option" where
  "handleRequest order h c req s =
     (let i = rq_ID req
      in if rq_Method req = ''initialize'' then
           Some (rpc_result i (JObj
             [(''capabilities'', JObj [(''tools'', JObj [])]), (''protocolVersion'', JStr ''2024-11-05''),
              (''serverInfo'', JObj [(''name'', JStr ''croncontrol''), (''version'', JStr ''1.0.0'')])]), s)
         else if rq_Method req = ''tools/list'' then
           Some (rpc_result i (JObj [(''tools'', JArr (map listed_tool (order mcp_tools)))]), s)
         else if rq_Method req = ''tools/call'' then
           (case call_params (rq_Params req) of
              None \<Rightarrow> Some (rpc_error i (- 32602) ''invalid params'', s)
            | Some (name, args) \<Rightarrow>
                (case find_tool name of
                   None \<Rightarrow> Some (rpc_error i (- 32601) (''unknown tool: '' @ name), s)
                 | Some t \<Rightarrow>
                     (case mt_Handler t args of
                        None \<Rightarrow> None
                      | Some (verb, path, body) \<Rightarrow>
                          (case api_do True h c verb path body s of
                             (answer, s1) \<Rightarrow> Some (call_reply h i answer, s1)))))
         else if rq_Method req = ''notifications/initialized'' then Some (rpc_result i (JObj []), s)
         else Some (rpc_error i (- 32601) ''method not found'', s))"

text \<open>
  The loop over the lines of the input; a line without its end is not read. The decoder of a request is
  a parameter. The last component says whether the loop reached the end of the input.
\<close>

fun mcp_run ::
  "(mcp_tool list \<Rightarrow> mcp_tool list) \<Rightarrow> (string \<Rightarrow> rpc_request option) \<Rightarrow> 's api_http \<Rightarrow> api_client \<Rightarrow>
   string list \<Rightarrow> 's \<Rightarrow> rpc_response list \<times> 's \<times> bool" where
  "mcp_run order decode h c [] s = ([], s, True)"
| "mcp_run order decode h c (line # lines) s =
     (case decode line of
        None \<Rightarrow> (case mcp_run order decode h c lines s of
          (rs, s1, b) \<Rightarrow> (rpc_error JNull (- 32700) ''parse error'' # rs, s1, b))
      | Some req \<Rightarrow>
          (case handleRequest order h c req s of
             None \<Rightarrow> ([], s, False)
           | Some (r, s1) \<Rightarrow> (case mcp_run order decode h c lines s1 of (rs, s2, b) \<Rightarrow> (r # rs, s2, b))))"

section \<open>The command line\<close>

text \<open>What a command does once the configuration is read: it exits with a code or calls the interface.\<close>

datatype cli_action = Exits int | Calls string string "json option"

text \<open>A command exits, stores a log-in, or reads the configuration first.\<close>

datatype cli_command = Stops int | LogsIn string string | WithClient cli_action

fun getFlag_from :: "string \<Rightarrow> string \<Rightarrow> string list \<Rightarrow> string" where
  "getFlag_from name def [] = def"
| "getFlag_from name def (a # rest) =
     (if a = name \<and> rest \<noteq> [] then hd rest
      else if take (length name + 1) a = name @ ''='' then drop (length name + 1) a
      else getFlag_from name def rest)"

text \<open>\<open>getFlag\<close> over \<open>os.Args\<close>; the first argument is the name of the program.\<close>

definition getFlag :: "string list \<Rightarrow> string \<Rightarrow> string \<Rightarrow> string" where
  "getFlag args name def = getFlag_from name def args"

text \<open>\<open>requireArg(3, ...)\<close> before a call.\<close>

definition with_arg :: "string list \<Rightarrow> (string \<Rightarrow> cli_action) \<Rightarrow> cli_action" where
  "with_arg args f = (if length args \<le> 3 then Exits 1 else f (args ! 3))"

definition state_query :: "string list \<Rightarrow> string" where
  "state_query args = (let st = getFlag args ''--state'' [] in if st = [] then [] else ''?state='' @ st)"

definition handleProcesses :: "string list \<Rightarrow> cli_action" where
  "handleProcesses args =
     (let action = args ! 2; on = (\<lambda>suffix. with_arg args (\<lambda>x. Calls ''POST'' (''/processes/'' @ x @ suffix) None))
      in if action = ''list'' then Calls ''GET'' ''/processes'' None
         else if action = ''trigger'' then on ''/trigger''
         else if action = ''pause'' then on ''/pause''
         else if action = ''resume'' then on ''/resume''
         else Exits 1)"

definition handleRuns :: "string list \<Rightarrow> cli_action" where
  "handleRuns args =
     (let action = args ! 2
      in if action = ''list'' then Calls ''GET'' (''/runs'' @ state_query args) None
         else if action = ''get'' then with_arg args (\<lambda>x. Calls ''GET'' (''/runs/'' @ x) None)
         else if action = ''kill'' then with_arg args (\<lambda>x. Calls ''POST'' (''/runs/'' @ x @ ''/kill'') None)
         else Exits 1)"

definition handleJobs :: "(string \<Rightarrow> json option) \<Rightarrow> string list \<Rightarrow> cli_action" where
  "handleJobs parse args =
     (let action = args ! 2
      in if action = ''list'' then Calls ''GET'' (''/jobs'' @ state_query args) None
         else if action = ''get'' then with_arg args (\<lambda>x. Calls ''GET'' (''/jobs/'' @ x) None)
         else if action = ''enqueue'' then
           let queueID = getFlag args ''--queue'' []; payload = getFlag args ''--payload'' ''{}''
           in if queueID = [] then Exits 1
              else Calls ''POST'' ''/jobs'' (Some (JObj
                [(''payload'', case parse payload of None \<Rightarrow> JNull | Some j \<Rightarrow> j), (''queue_id'', JStr queueID),
                 (''reference'', JStr (getFlag args ''--reference'' []))]))
         else if action = ''replay'' then with_arg args (\<lambda>x. Calls ''POST'' (''/jobs/'' @ x @ ''/replay'') None)
         else Exits 1)"

text \<open>An unknown action of these two is reported, and the exit code is 0.\<close>

definition handleAdmin :: "string list \<Rightarrow> cli_action" where
  "handleAdmin args =
     (let action = args ! 2;
          admin = (\<lambda>b. with_arg args (\<lambda>x. Calls ''POST'' (''/admin/users/'' @ x @ ''/platform-admin'')
             (Some (JObj [(''is_platform_admin'', JBool b)]))))
      in if action = ''stats'' then Calls ''GET'' ''/admin/stats'' None
         else if action = ''workspaces'' then Calls ''GET'' ''/admin/workspaces'' None
         else if action = ''users'' then Calls ''GET'' ''/admin/users'' None
         else if action = ''promote'' then admin True
         else if action = ''demote'' then admin False
         else if action = ''impersonate''
         then with_arg args (\<lambda>x. Calls ''POST'' (''/admin/workspaces/'' @ x @ ''/impersonate'') None)
         else Exits 0)"

definition handleWorkers :: "string list \<Rightarrow> cli_action" where
  "handleWorkers args =
     (let action = args ! 2
      in if action = ''list'' then Calls ''GET'' ''/workers'' None
         else if action = ''enroll''
         then Calls ''POST'' ''/workers'' (Some (JObj [(''name'', JStr (getFlag args ''--name'' ''worker''))]))
         else Exits 0)"

definition handleCompletion :: "string list \<Rightarrow> cli_command" where
  "handleCompletion args =
     (let shell = (if length args > 2 then args ! 2 else ''bash'')
      in Stops (if shell = ''bash'' \<or> shell = ''zsh'' then 0 else 1))"

text \<open>\<open>stdin\<close> is the key that is typed when the flag is missing.\<close>

definition handleLogin :: "string \<Rightarrow> string list \<Rightarrow> cli_command" where
  "handleLogin stdin args =
     (let key = getFlag args ''--key'' []
      in LogsIn (getFlag args ''--url'' ''http://localhost:8080'') (if key = [] then stdin else key))"

text \<open>The commands with an action need a second argument before the configuration is read.\<close>

definition with_action :: "string list \<Rightarrow> cli_action \<Rightarrow> cli_command" where
  "with_action args a = (if length args < 3 then Stops 1 else WithClient a)"

definition cronctl :: "(string \<Rightarrow> json option) \<Rightarrow> string \<Rightarrow> string list \<Rightarrow> cli_command" where
  "cronctl parse stdin args =
     (if length args < 2 then Stops 1
      else let cmd = args ! 1
        in if cmd = ''login'' then handleLogin stdin args
           else if cmd = ''version'' then Stops 0
           else if cmd = ''health'' then WithClient (Calls ''GET'' ''/workspace/health'' None)
           else if cmd = ''processes'' then with_action args (handleProcesses args)
           else if cmd = ''runs'' then with_action args (handleRuns args)
           else if cmd = ''queues'' then WithClient (Calls ''GET'' ''/queues'' None)
           else if cmd = ''jobs'' then with_action args (handleJobs parse args)
           else if cmd = ''workers'' then with_action args (handleWorkers args)
           else if cmd = ''admin'' then with_action args (handleAdmin args)
           else if cmd = ''completion'' then handleCompletion args
           else if cmd \<in> {''help'', ''--help'', ''-h''} then Stops 0
           else Stops 1)"

text \<open>
  The run of the program: exit code, stored configuration and the other side. The commands call the
  client with a nil context.
\<close>

definition cronctl_main ::
  "'s api_http \<Rightarrow> string \<Rightarrow> string list \<Rightarrow> (string \<times> string) option \<Rightarrow> 's \<Rightarrow>
   int \<times> (string \<times> string) option \<times> 's" where
  "cronctl_main h stdin args cfg s =
     (case cronctl (ah_parse h) stdin args of
        Stops n \<Rightarrow> (n, cfg, s)
      | LogsIn url key \<Rightarrow> (0, Some (url, key), s)
      | WithClient a \<Rightarrow>
          (case cfg of
             None \<Rightarrow> (1, cfg, s)
           | Some (url, key) \<Rightarrow>
               (case a of
                  Exits n \<Rightarrow> (n, cfg, s)
                | Calls verb path body \<Rightarrow>
                    (case api_do False h (NewAPIClient url key) verb path body s of
                       (Inl _, s1) \<Rightarrow> (1, cfg, s1) | (Inr _, s1) \<Rightarrow> (0, cfg, s1)))))"

section \<open>The library for Go\<close>

record sdk_client =
  sk_BaseURL :: string
  sk_APIKey :: string

text \<open>\<open>New\<close> with the two variables of the environment.\<close>

definition sdk_New :: "string \<Rightarrow> string \<Rightarrow> string \<Rightarrow> string \<Rightarrow> sdk_client" where
  "sdk_New env_url env_key base key =
     (let b = (if base = [] then env_url else base)
      in \<lparr>sk_BaseURL = (if b = [] then ''http://localhost:8080'' else b),
          sk_APIKey = (if key = [] then env_key else key)\<rparr>)"

text \<open>
  The other side, the encoder of a query (values that are not empty), the decoders of an error and of the
  data of a reply, and the texts of statuses.
\<close>

record 's sdk_http =
  sh_Do :: "string \<Rightarrow> string \<Rightarrow> string option \<Rightarrow> json option \<Rightarrow> 's \<Rightarrow> (int \<times> string) answer \<times> 's"
  sh_request :: "string \<Rightarrow> go_error option"
  sh_Encode :: "(string \<times> string) list \<Rightarrow> string"
  sh_error :: "string \<Rightarrow> string \<times> string \<times> string"
  sh_data :: "string \<Rightarrow> json"
  sh_StatusText :: "int \<Rightarrow> string"

datatype sdk_failure = Transport go_error | ApiError int string string string

definition sdk_url :: "'s sdk_http \<Rightarrow> sdk_client \<Rightarrow> string \<Rightarrow> (string \<times> string) list \<Rightarrow> string" where
  "sdk_url h c path params =
     (let u = sk_BaseURL c @ ''/api/v1'' @ path; qs = sh_Encode h (filter (\<lambda>(_, v). v \<noteq> []) params)
      in if params \<noteq> [] \<and> qs \<noteq> [] then u @ ''?'' @ qs else u)"

text \<open>\<open>do\<close>: no body at all for the status 204.\<close>

definition sdk_do ::
  "'s sdk_http \<Rightarrow> sdk_client \<Rightarrow> string \<Rightarrow> string \<Rightarrow> json option \<Rightarrow> (string \<times> string) list \<Rightarrow> 's \<Rightarrow>
   (sdk_failure + string option) \<times> 's" where
  "sdk_do h c verb path body params s =
     (let u = sdk_url h c path params
      in case sh_request h u of
           Some err \<Rightarrow> (Inl (Transport err), s)
         | None \<Rightarrow>
             (case sh_Do h verb u (if sk_APIKey c = [] then None else Some (sk_APIKey c)) body s of
                (Inl err, s1) \<Rightarrow> (Inl (Transport err), s1)
              | (Inr (status, text), s1) \<Rightarrow>
                  let data = take (5 * 2 ^ 20) text
                  in (if status = 204 then Inr None
                      else if status \<ge> 400 then
                        (case sh_error h data of (code, msg, hint) \<Rightarrow>
                          Inl (if code = [] then ApiError status ''UNKNOWN'' (sh_StatusText h status) hint
                               else ApiError status code msg hint))
                      else Inr (Some data), s1)))"

definition any_json :: "json option \<Rightarrow> json" where
  "any_json v = (case v of None \<Rightarrow> JNull | Some j \<Rightarrow> j)"

text \<open>What a method makes of the reply: its data, a list, nothing, or the whole of it.\<close>

datatype sdk_kind = Single | Many | Plain | Raw

text \<open>The methods of the client with their arguments, and the request each one makes.\<close>

datatype sdk_call =
    SdkGetWorkspace
  | SdkListProcesses "(string \<times> string) list"
  | SdkGetProcess string
  | SdkCreateProcess "go_map option"
  | SdkUpdateProcess string "go_map option"
  | SdkDeleteProcess string
  | SdkTriggerProcess string
  | SdkPauseProcess string bool
  | SdkResumeProcess string
  | SdkListRuns "(string \<times> string) list"
  | SdkGetRun string
  | SdkCancelRun string
  | SdkKillRun string
  | SdkReplayRun string
  | SdkGetRunOutput string string
  | SdkListQueues
  | SdkGetQueue string
  | SdkCreateQueue "go_map option"
  | SdkListJobs "(string \<times> string) list"
  | SdkGetJob string
  | SdkEnqueueJob "go_map option"
  | SdkCancelJob string
  | SdkReplayJob string "go_map option"
  | SdkListWorkers
  | SdkCreateWorker "go_map option"
  | SdkDeleteWorker string
  | SdkListAPIKeys
  | SdkCreateAPIKey "go_map option"
  | SdkDeleteAPIKey string
  | SdkSetResult string "json option"
  | SdkGetResult string
  | SdkListSecrets
  | SdkCreateSecret string string
  | SdkUpdateSecret string string
  | SdkDeleteSecret string
  | SdkListArtifacts string
  | SdkCreateOrchestra "go_map option"
  | SdkGetScore string
  | SdkFinishOrchestra string string
  | SdkCancelOrchestra string
  | SdkNextMovement string string "json option"
  | SdkAskChoice string string "json"
  | SdkPostChat string string
  | SdkGetChat string
  | SdkHealth
  | SdkHeartbeat string int int string

fun sdk_request ::
  "sdk_call \<Rightarrow> string \<times> string \<times> json option \<times> (string \<times> string) list \<times> sdk_kind" where
  "sdk_request SdkGetWorkspace = (''GET'', ''/workspace'', None, [], Single)"
| "sdk_request (SdkListProcesses params) = (''GET'', ''/processes'', None, params, Many)"
| "sdk_request (SdkGetProcess i) = (''GET'', ''/processes/'' @ i, None, [], Single)"
| "sdk_request (SdkCreateProcess data) = (''POST'', ''/processes'', Some (input_body data), [], Single)"
| "sdk_request (SdkUpdateProcess i data) = (''PUT'', ''/processes/'' @ i, Some (input_body data), [], Single)"
| "sdk_request (SdkDeleteProcess i) = (''DELETE'', ''/processes/'' @ i, None, [], Plain)"
| "sdk_request (SdkTriggerProcess i) = (''POST'', ''/processes/'' @ i @ ''/trigger'', None, [], Single)"
| "sdk_request (SdkPauseProcess i cancelPending) = (''POST'', ''/processes/'' @ i @ ''/pause'', None, (if cancelPending then [(''cancel_pending'', ''true'')] else []), Plain)"
| "sdk_request (SdkResumeProcess i) = (''POST'', ''/processes/'' @ i @ ''/resume'', None, [], Plain)"
| "sdk_request (SdkListRuns params) = (''GET'', ''/runs'', None, params, Many)"
| "sdk_request (SdkGetRun i) = (''GET'', ''/runs/'' @ i, None, [], Single)"
| "sdk_request (SdkCancelRun i) = (''POST'', ''/runs/'' @ i @ ''/cancel'', None, [], Plain)"
| "sdk_request (SdkKillRun i) = (''POST'', ''/runs/'' @ i @ ''/kill'', None, [], Plain)"
| "sdk_request (SdkReplayRun i) = (''POST'', ''/runs/'' @ i @ ''/replay'', None, [], Single)"
| "sdk_request (SdkGetRunOutput i stream) = (''GET'', ''/runs/'' @ i @ ''/output'', None, (if stream = [] then [] else [(''stream'', stream)]), Many)"
| "sdk_request SdkListQueues = (''GET'', ''/queues'', None, [], Many)"
| "sdk_request (SdkGetQueue i) = (''GET'', ''/queues/'' @ i, None, [], Single)"
| "sdk_request (SdkCreateQueue data) = (''POST'', ''/queues'', Some (input_body data), [], Single)"
| "sdk_request (SdkListJobs params) = (''GET'', ''/jobs'', None, params, Many)"
| "sdk_request (SdkGetJob i) = (''GET'', ''/jobs/'' @ i, None, [], Single)"
| "sdk_request (SdkEnqueueJob data) = (''POST'', ''/jobs'', Some (input_body data), [], Single)"
| "sdk_request (SdkCancelJob i) = (''POST'', ''/jobs/'' @ i @ ''/cancel'', None, [], Plain)"
| "sdk_request (SdkReplayJob i overrides) = (''POST'', ''/jobs/'' @ i @ ''/replay'', Some (input_body overrides), [], Single)"
| "sdk_request SdkListWorkers = (''GET'', ''/workers'', None, [], Many)"
| "sdk_request (SdkCreateWorker data) = (''POST'', ''/workers'', Some (input_body data), [], Single)"
| "sdk_request (SdkDeleteWorker i) = (''DELETE'', ''/workers/'' @ i, None, [], Plain)"
| "sdk_request SdkListAPIKeys = (''GET'', ''/api-keys'', None, [], Many)"
| "sdk_request (SdkCreateAPIKey data) = (''POST'', ''/api-keys'', Some (input_body data), [], Single)"
| "sdk_request (SdkDeleteAPIKey i) = (''DELETE'', ''/api-keys/'' @ i, None, [], Plain)"
| "sdk_request (SdkSetResult runID data) = (''PATCH'', ''/runs/'' @ runID @ ''/result'', data, [], Plain)"
| "sdk_request (SdkGetResult runID) = (''GET'', ''/runs/'' @ runID @ ''/result'', None, [], Single)"
| "sdk_request SdkListSecrets = (''GET'', ''/secrets'', None, [], Many)"
| "sdk_request (SdkCreateSecret name value) = (''POST'', ''/secrets'', Some (JObj [(''name'', JStr name), (''value'', JStr value)]), [], Single)"
| "sdk_request (SdkUpdateSecret name value) = (''PUT'', ''/secrets/'' @ name, Some (JObj [(''value'', JStr value)]), [], Plain)"
| "sdk_request (SdkDeleteSecret name) = (''DELETE'', ''/secrets/'' @ name, None, [], Plain)"
| "sdk_request (SdkListArtifacts runID) = (''GET'', ''/runs/'' @ runID @ ''/artifacts'', None, [], Many)"
| "sdk_request (SdkCreateOrchestra data) = (''POST'', ''/orchestras'', Some (input_body data), [], Single)"
| "sdk_request (SdkGetScore i) = (''GET'', ''/orchestras/'' @ i @ ''/score'', None, [], Single)"
| "sdk_request (SdkFinishOrchestra i summary) = (''POST'', ''/orchestras/'' @ i @ ''/finish'', Some (JObj [(''summary'', JStr summary)]), [], Plain)"
| "sdk_request (SdkCancelOrchestra i) = (''POST'', ''/orchestras/'' @ i @ ''/cancel'', None, [], Plain)"
| "sdk_request (SdkNextMovement runID processID payload) = (''POST'', ''/runs/'' @ runID @ ''/next'', Some (JObj [(''payload'', any_json payload), (''process_id'', JStr processID)]), [], Single)"
| "sdk_request (SdkAskChoice runID message choices) = (''POST'', ''/runs/'' @ runID @ ''/choice'', Some (JObj [(''choices'', choices), (''message'', JStr message)]), [], Plain)"
| "sdk_request (SdkPostChat orchestraID content) = (''POST'', ''/orchestras/'' @ orchestraID @ ''/chat'', Some (JObj [(''content'', JStr content)]), [], Single)"
| "sdk_request (SdkGetChat orchestraID) = (''GET'', ''/orchestras/'' @ orchestraID @ ''/chat'', None, [], Many)"
| "sdk_request SdkHealth = (''GET'', ''/health'', None, [], Raw)"
| "sdk_request (SdkHeartbeat runID tot current message) = (''POST'', ''/heartbeat'', Some (JObj [(''current'', JNum (of_int current)), (''message'', JStr message), (''run_id'', JStr runID), (''total'', JNum (of_int tot))]), [], Plain)"

text \<open>
  The result of a method. Errors of the decoder are ignored: \<open>sh_data\<close> is what is left, also of no body
  at all for a list.
\<close>

definition sdk_perform ::
  "'s sdk_http \<Rightarrow> sdk_client \<Rightarrow> sdk_call \<Rightarrow> 's \<Rightarrow> (sdk_failure + json option) \<times> 's" where
  "sdk_perform h c call s =
     (case sdk_request call of (verb, path, body, params, kind) \<Rightarrow>
        (case sdk_do h c verb path body params s of
           (Inl err, s1) \<Rightarrow> (Inl err, s1)
         | (Inr reply, s1) \<Rightarrow>
             (Inr (case kind of
                Plain \<Rightarrow> None
              | Single \<Rightarrow> map_option (sh_data h) reply
              | _ \<Rightarrow> Some (sh_data h (case reply of None \<Rightarrow> [] | Some b \<Rightarrow> b))), s1)))"

section \<open>Every request has a route\<close>

text \<open>A pattern with its parameters replaced by a text.\<close>

fun fill :: "string \<Rightarrow> bool \<Rightarrow> string \<Rightarrow> string" where
  "fill x inside [] = []"
| "fill x inside (c # cs) =
     (if inside then fill x (c \<noteq> CHR ''}'') cs
      else if c = CHR ''{'' then x @ fill x True cs else c # fill x False cs)"

text \<open>An id that is one part of a path.\<close>

definition plain_id :: "string \<Rightarrow> bool" where
  "plain_id x \<longleftrightarrow> x \<noteq> [] \<and> CHR ''/'' \<notin> set x \<and> CHR ''?'' \<notin> set x"

text \<open>A path below the common prefix, with or without a query, is an instance of a route for the verb.\<close>

definition has_route :: "string \<Rightarrow> string \<Rightarrow> bool" where
  "has_route verb path \<longleftrightarrow> (\<exists>a pattern h x q. (a, verb, pattern, h) \<in> set routes \<and>
     ''/api/v1'' @ path = fill x False pattern @ q \<and> (q = [] \<or> hd q = CHR ''?'') \<and>
     (CHR ''{'' \<in> set pattern \<longrightarrow> plain_id x))"

definition route_keys :: "(string \<times> string) list" where
  "route_keys = map (\<lambda>(a, v, p, h). (v, p)) routes"

lemma route_keys_eval: "set route_keys = (\<lambda>(v, p, h). (v, p)) ` (set public_routes \<union> set member_routes \<union> set platform_routes)"
  by (force simp: route_keys_def routes_def)

lemma has_routeI:
  assumes "(verb, pattern) \<in> set route_keys" "fill x False pattern = ''/api/v1'' @ p"
    "q = [] \<or> hd q = CHR ''?''" "CHR ''{'' \<in> set pattern \<Longrightarrow> plain_id x"
  shows "has_route verb (p @ q)"
proof -
  obtain a h where "(a, verb, pattern, h) \<in> set routes"
    using assms(1) by (auto simp: route_keys_def)
  with assms(2-) show ?thesis
    unfolding has_route_def by (intro exI [of _ a] exI [of _ pattern] exI [of _ h] exI [of _ x] exI [of _ q]) simp
qed

text \<open>The routes the clients use: those without a parameter and those with one.\<close>

definition fixed_keys :: "(string \<times> string) list" where
  "fixed_keys =
     [(''GET'', ''/api/v1/processes''),
      (''POST'', ''/api/v1/processes''),
      (''GET'', ''/api/v1/runs''),
      (''GET'', ''/api/v1/queues''),
      (''POST'', ''/api/v1/queues''),
      (''GET'', ''/api/v1/jobs''),
      (''POST'', ''/api/v1/jobs''),
      (''GET'', ''/api/v1/workers''),
      (''POST'', ''/api/v1/workers''),
      (''GET'', ''/api/v1/api-keys''),
      (''POST'', ''/api/v1/api-keys''),
      (''GET'', ''/api/v1/secrets''),
      (''POST'', ''/api/v1/secrets''),
      (''POST'', ''/api/v1/orchestras''),
      (''GET'', ''/api/v1/workspace''),
      (''GET'', ''/api/v1/workspace/health''),
      (''POST'', ''/api/v1/heartbeat''),
      (''GET'', ''/api/v1/admin/stats''),
      (''GET'', ''/api/v1/admin/workspaces''),
      (''GET'', ''/api/v1/admin/users'')]"

definition id_keys :: "(string \<times> string) list" where
  "id_keys =
     [(''GET'', ''/api/v1/processes/{id}''),
      (''PUT'', ''/api/v1/processes/{id}''),
      (''DELETE'', ''/api/v1/processes/{id}''),
      (''POST'', ''/api/v1/processes/{id}/trigger''),
      (''POST'', ''/api/v1/processes/{id}/pause''),
      (''POST'', ''/api/v1/processes/{id}/resume''),
      (''GET'', ''/api/v1/runs/{id}''),
      (''POST'', ''/api/v1/runs/{id}/cancel''),
      (''POST'', ''/api/v1/runs/{id}/kill''),
      (''POST'', ''/api/v1/runs/{id}/replay''),
      (''GET'', ''/api/v1/runs/{id}/output''),
      (''PATCH'', ''/api/v1/runs/{id}/result''),
      (''GET'', ''/api/v1/runs/{id}/result''),
      (''GET'', ''/api/v1/runs/{id}/artifacts''),
      (''POST'', ''/api/v1/runs/{id}/next''),
      (''POST'', ''/api/v1/runs/{id}/choice''),
      (''GET'', ''/api/v1/queues/{id}''),
      (''GET'', ''/api/v1/jobs/{id}''),
      (''POST'', ''/api/v1/jobs/{id}/cancel''),
      (''POST'', ''/api/v1/jobs/{id}/replay''),
      (''DELETE'', ''/api/v1/workers/{id}''),
      (''DELETE'', ''/api/v1/api-keys/{id}''),
      (''PUT'', ''/api/v1/secrets/{name}''),
      (''DELETE'', ''/api/v1/secrets/{name}''),
      (''GET'', ''/api/v1/orchestras/{id}/score''),
      (''POST'', ''/api/v1/orchestras/{id}/finish''),
      (''POST'', ''/api/v1/orchestras/{id}/cancel''),
      (''POST'', ''/api/v1/orchestras/{id}/chat''),
      (''GET'', ''/api/v1/orchestras/{id}/chat''),
      (''POST'', ''/api/v1/admin/users/{id}/platform-admin''),
      (''POST'', ''/api/v1/admin/workspaces/{id}/impersonate'')]"

lemma keys_are_routes: "set fixed_keys \<union> set id_keys \<subseteq> set route_keys"
  unfolding route_keys_eval by (simp add: fixed_keys_def id_keys_def public_routes_def member_routes_def platform_routes_def)

lemma prefixed_keys: "list_all (\<lambda>(v, p). p = ''/api/v1'' @ drop 7 p \<and> CHR ''{'' \<notin> set p) fixed_keys"
    "list_all (\<lambda>(v, p). take 8 p = ''/api/v1/'') id_keys"
  by (simp_all add: fixed_keys_def id_keys_def)

lemma fill_plain: "CHR ''{'' \<notin> set p \<Longrightarrow> fill x False p = p"
  by (induction p) auto

lemma fixed_route:
  assumes "(v, p) \<in> set fixed_keys" "q = [] \<or> hd q = CHR ''?''"
  shows "has_route v (drop 7 p @ q)"
proof -
  from assms(1) prefixed_keys(1) have p: "p = ''/api/v1'' @ drop 7 p" "CHR ''{'' \<notin> set p"
    by (auto simp: list_all_iff)
  with assms keys_are_routes show ?thesis by (intro has_routeI [of v p "[]"]) (auto simp: fill_plain)
qed

lemma id_route:
  assumes "(v, p) \<in> set id_keys" "plain_id x" "q = [] \<or> hd q = CHR ''?''"
  shows "has_route v (drop 7 (fill x False p) @ q)"
proof -
  from assms(1) prefixed_keys(2) have "take 8 p = ''/api/v1/''" by (auto simp: list_all_iff)
  then obtain r where "p = ''/api/v1/'' @ r" by (metis append_take_drop_id)
  then have "fill x False p = ''/api/v1'' @ drop 7 (fill x False p)" by simp
  with assms keys_are_routes show ?thesis by (intro has_routeI [of v p x]) auto
qed

lemma fixed_routes:
  "q = [] \<or> hd q = CHR ''?'' \<Longrightarrow> list_all (\<lambda>(v, p). has_route v (drop 7 p @ q)) fixed_keys"
  by (auto simp: list_all_iff intro: fixed_route)

lemma id_routes:
  "plain_id x \<Longrightarrow> q = [] \<or> hd q = CHR ''?'' \<Longrightarrow> list_all (\<lambda>(v, p). has_route v (drop 7 (fill x False p) @ q)) id_keys"
  by (auto simp: list_all_iff intro: id_route)

lemmas client_routes =
  fixed_routes [of "[]", simplified fixed_keys_def, simplified]
  fixed_routes [simplified fixed_keys_def, simplified]
  id_routes [of _ "[]", simplified id_keys_def, simplified]
  id_routes [simplified id_keys_def, simplified]

text \<open>The requests of the three clients whose ids are single parts of a path.\<close>

definition mcp_requests :: "(string \<times> string) set" where
  "mcp_requests = {(v, p). \<exists>t m b. t \<in> set mcp_tools \<and> mt_Handler t m = Some (v, p, b) \<and>
     (\<forall>k x. k \<in> {''process_id'', ''run_id'', ''job_id''} \<longrightarrow> string_arg k m = Some x \<longrightarrow> plain_id x)}"

definition cli_requests :: "(string \<times> string) set" where
  "cli_requests = {(v, p). \<exists>parse stdin args b. cronctl parse stdin args = WithClient (Calls v p b) \<and>
     (length args > 3 \<longrightarrow> plain_id (args ! 3))}"

fun sdk_ids :: "sdk_call \<Rightarrow> string list" where
  "sdk_ids (SdkGetProcess i) = [i]" | "sdk_ids (SdkUpdateProcess i _) = [i]" | "sdk_ids (SdkDeleteProcess i) = [i]"
| "sdk_ids (SdkTriggerProcess i) = [i]" | "sdk_ids (SdkPauseProcess i _) = [i]" | "sdk_ids (SdkResumeProcess i) = [i]"
| "sdk_ids (SdkGetRun i) = [i]" | "sdk_ids (SdkCancelRun i) = [i]" | "sdk_ids (SdkKillRun i) = [i]"
| "sdk_ids (SdkReplayRun i) = [i]" | "sdk_ids (SdkGetRunOutput i _) = [i]" | "sdk_ids (SdkGetQueue i) = [i]"
| "sdk_ids (SdkGetJob i) = [i]" | "sdk_ids (SdkCancelJob i) = [i]" | "sdk_ids (SdkReplayJob i _) = [i]"
| "sdk_ids (SdkDeleteWorker i) = [i]" | "sdk_ids (SdkDeleteAPIKey i) = [i]" | "sdk_ids (SdkSetResult i _) = [i]"
| "sdk_ids (SdkGetResult i) = [i]" | "sdk_ids (SdkUpdateSecret i _) = [i]" | "sdk_ids (SdkDeleteSecret i) = [i]"
| "sdk_ids (SdkListArtifacts i) = [i]" | "sdk_ids (SdkGetScore i) = [i]" | "sdk_ids (SdkFinishOrchestra i _) = [i]"
| "sdk_ids (SdkCancelOrchestra i) = [i]" | "sdk_ids (SdkNextMovement i _ _) = [i]" | "sdk_ids (SdkAskChoice i _ _) = [i]"
| "sdk_ids (SdkPostChat i _) = [i]" | "sdk_ids (SdkGetChat i) = [i]" | "sdk_ids _ = []"

definition sdk_requests :: "(string \<times> string) set" where
  "sdk_requests = {(v, p). \<exists>call b q k. sdk_request call = (v, p, b, q, k) \<and> call \<noteq> SdkHealth \<and>
     (\<forall>x\<in>set (sdk_ids call). plain_id x)}"

lemma sdk_has_routes: "(v, p) \<in> sdk_requests \<Longrightarrow> has_route v p"
proof -
  assume "(v, p) \<in> sdk_requests"
  then obtain call b q k where c: "sdk_request call = (v, p, b, q, k)" "call \<noteq> SdkHealth"
      "\<forall>x\<in>set (sdk_ids call). plain_id x"
    by (auto simp: sdk_requests_def)
  from c show ?thesis by (cases call) (auto simp: client_routes)
qed

lemma query_mark: "pause_query m = [] \<or> hd (pause_query m) = CHR ''?''" "runs_query m = [] \<or> hd (runs_query m) = CHR ''?''"
    "state_query args = [] \<or> hd (state_query args) = CHR ''?''"
  by (auto simp: pause_query_def runs_query_def state_query_def Let_def)

lemma mcp_has_routes: "(v, p) \<in> mcp_requests \<Longrightarrow> has_route v p"
proof -
  assume "(v, p) \<in> mcp_requests"
  then obtain t m b where c: "t \<in> set mcp_tools" "mt_Handler t m = Some (v, p, b)"
      "\<And>x. string_arg ''process_id'' m = Some x \<Longrightarrow> plain_id x" "\<And>x. string_arg ''run_id'' m = Some x \<Longrightarrow> plain_id x"
      "\<And>x. string_arg ''job_id'' m = Some x \<Longrightarrow> plain_id x"
    by (auto simp: mcp_requests_def)
  from c(1,2) show ?thesis
    unfolding mcp_tools_def mcp_process_tools_def mcp_run_tools_def
    by (auto simp: on_id_def client_routes query_mark c(3-5))
qed

lemma cli_has_routes: "(v, p) \<in> cli_requests \<Longrightarrow> has_route v p"
proof -
  assume "(v, p) \<in> cli_requests"
  then obtain parse stdin args b where c: "cronctl parse stdin args = WithClient (Calls v p b)"
      "length args > 3 \<Longrightarrow> plain_id (args ! 3)"
    by (auto simp: cli_requests_def)
  from c(1) show ?thesis
    by (auto simp: cronctl_def handleLogin_def handleProcesses_def handleRuns_def handleJobs_def handleWorkers_def
        handleAdmin_def handleCompletion_def with_action_def with_arg_def Let_def client_routes query_mark c(2)
        split: if_splits)
qed



text \<open>The health check of the library asks for a path below the prefix, where the server has none.\<close>

lemma sdk_health_has_no_route: "\<not> has_route ''GET'' (fst (snd (sdk_request SdkHealth)))"
  unfolding has_route_def routes_def
  by (auto simp: public_routes_def member_routes_def platform_routes_def)

section \<open>The loop of the protocol server\<close>

text \<open>A line that the server survives: no tool misses an argument whose type it asserts.\<close>

definition survives :: "rpc_request \<Rightarrow> bool" where
  "survives req \<longleftrightarrow> rq_Method req \<noteq> ''tools/call'' \<or>
     (case call_params (rq_Params req) of None \<Rightarrow> True | Some (name, args) \<Rightarrow>
        (case find_tool name of None \<Rightarrow> True | Some t \<Rightarrow> mt_Handler t args \<noteq> None))"

definition survivable :: "(string \<Rightarrow> rpc_request option) \<Rightarrow> string \<Rightarrow> bool" where
  "survivable decode line = (case decode line of None \<Rightarrow> True | Some req \<Rightarrow> survives req)"

definition answer_id :: "(string \<Rightarrow> rpc_request option) \<Rightarrow> string \<Rightarrow> json" where
  "answer_id decode line = (case decode line of None \<Rightarrow> JNull | Some req \<Rightarrow> rq_ID req)"

lemma handleRequest_None_iff: "handleRequest order h c req s = None \<longleftrightarrow> \<not> survives req"
  by (auto simp: handleRequest_def survives_def Let_def split: option.split prod.split)

lemma handleRequest_id: "handleRequest order h c req s = Some (r, s1) \<Longrightarrow> rs_ID r = rq_ID req"
  by (auto simp: handleRequest_def rpc_result_def rpc_error_def call_reply_def Let_def
      split: if_splits option.splits prod.splits sum.splits)

text \<open>
  Every line gets exactly one answer, with its id, up to the first call that misses an argument; there
  the server ends.
\<close>

theorem mcp_answers_lines:
  "map rs_ID (fst (mcp_run order decode h c lines s)) =
     map (answer_id decode) (takeWhile (survivable decode) lines) \<and>
   snd (snd (mcp_run order decode h c lines s)) = list_all (survivable decode) lines"
proof (induction lines arbitrary: s)
  case (Cons line lines)
  show ?case
  proof (cases "decode line")
    case None
    with Cons.IH [of s] show ?thesis
      by (simp add: survivable_def answer_id_def rpc_error_def split_beta)
  next
    case (Some req)
    show ?thesis
    proof (cases "handleRequest order h c req s")
      case None
      with Some handleRequest_None_iff [of order h c req s] show ?thesis
        by (simp add: survivable_def)
    next
      case (Some a)
      obtain r s1 where a: "a = (r, s1)" by (cases a)
      have "survives req" using handleRequest_None_iff [of order h c req s] Some by simp
      with Some a Cons.IH [of s1] \<open>decode line = Some req\<close> handleRequest_id [of order h c req s r s1]
      show ?thesis by (simp add: survivable_def answer_id_def split_beta)
    qed
  qed
qed simp

lemma missing_argument_ends_server:
  "rq_Method req = ''tools/call'' \<Longrightarrow>
   rq_Params req = Some (JObj [(''name'', JStr ''get_run''), (''arguments'', JObj [])]) \<Longrightarrow> \<not> survives req"
  by (simp add: survives_def call_params_def find_tool_def mcp_tools_def mcp_process_tools_def mcp_run_tools_def on_id_def string_arg_def arg_def)

section \<open>The command line reaches nobody\<close>

text \<open>
  The context of every call is nil, so no command changes anything on the other side, and every command
  that calls the interface ends with the exit code 1.
\<close>

theorem cronctl_reaches_nobody:
  "snd (snd (cronctl_main h stdin args cfg s)) = s \<and>
   (case cronctl (ah_parse h) stdin args of
      WithClient (Calls _ _ _) \<Rightarrow> fst (cronctl_main h stdin args cfg s) = 1 | _ \<Rightarrow> True)"
  by (simp add: cronctl_main_def api_do_def split: cli_command.split cli_action.split option.split)

end
