(* ===== verification/Masking.thy ===== *)
theory Masking
  imports Go_Std "HOL-Library.Sublist"
begin

text \<open>
  The masking of secrets in log output, \<open>internal/logging/mask.go\<close>, with the part of the
  standard library's \<open>regexp\<close> its patterns need: alternatives of literals, greedy repetitions of
  a class, and the choice of the leftmost match whose alternatives come first. A string is its list
  of bytes; letters are folded in ASCII.
\<close>

section \<open>Regular expressions\<close>

text \<open>
  An atom is a choice of literals (in lower case, and folded, when the flag is set), at least so many characters of
  a class, or exactly so many; an expression is a sequence of atoms.
\<close>

datatype atom = Literal bool "string list" | AtLeast nat "char \<Rightarrow> bool" | Exactly nat "char \<Rightarrow> bool"

definition reads :: "bool \<Rightarrow> string \<Rightarrow> string \<Rightarrow> bool" where
  "reads fold_case w s = list_all2 (\<lambda>a c. c = a \<or> fold_case \<and> ToLower_char c = a) w s"

text \<open>The lengths an atom can take at the start of a string, in the order in which they are tried.\<close>

fun lengths :: "atom \<Rightarrow> string \<Rightarrow> nat list" where
  "lengths (Literal fc ws) s = filter (\<lambda>n. n \<le> length s) (map length (filter (\<lambda>w. reads fc w (take (length w) s)) ws))"
| "lengths (AtLeast n p) s = rev [n ..< Suc (length (takeWhile p s))]"
| "lengths (Exactly n p) s = (if n \<le> length s \<and> list_all p (take n s) then [n] else [])"

fun first_some :: "('a \<Rightarrow> 'b option) \<Rightarrow> 'a list \<Rightarrow> 'b option" where
  "first_some f [] = None"
| "first_some f (x # xs) = (case f x of None \<Rightarrow> first_some f xs | Some y \<Rightarrow> Some y)"

text \<open>The length of the match at the start of a string.\<close>

primrec re_match :: "atom list \<Rightarrow> string \<Rightarrow> nat option" where
  "re_match [] s = Some 0"
| "re_match (a # as) s = first_some (\<lambda>k. map_option ((+) k) (re_match as (drop k s))) (lengths a s)"

text \<open>\<open>ReplaceAllStringFunc\<close>, for an expression without an empty match.\<close>

fun replace_all :: "atom list \<Rightarrow> (string \<Rightarrow> string) \<Rightarrow> string \<Rightarrow> string" where
  "replace_all r f [] = []"
| "replace_all r f (c # cs) =
     (case re_match r (c # cs) of
        Some (Suc n) \<Rightarrow> f (c # take n cs) @ replace_all r f (drop n cs)
      | _ \<Rightarrow> c # replace_all r f cs)"

text \<open>Whether an expression matches anywhere.\<close>

definition found :: "atom list \<Rightarrow> string \<Rightarrow> bool" where
  "found r s = list_ex (\<lambda>t. re_match r t \<noteq> None) (suffixes s)"

section \<open>The patterns\<close>

definition is_hex :: "char \<Rightarrow> bool" where
  "is_hex c = (c \<in> set ''0123456789abcdefABCDEF'')"

definition is_upper_digit :: "char \<Rightarrow> bool" where
  "is_upper_digit c = (c \<in> set ''0123456789ABCDEFGHIJKLMNOPQRSTUVWXYZ'')"

definition is_token :: "char \<Rightarrow> bool" where
  "is_token c = (is_upper_digit c \<or> c \<in> set ''abcdefghijklmnopqrstuvwxyz_-.'')"

text \<open>Tab, new line, form feed, carriage return and space.\<close>

definition is_blank :: "char \<Rightarrow> bool" where
  "is_blank c = (c \<in> {CHR 0x09, CHR 0x0A, CHR 0x0C, CHR 0x0D, CHR '' ''})"

definition is_separator :: "char \<Rightarrow> bool" where
  "is_separator c = (c = CHR ''='' \<or> c = CHR '':'')"

definition assigned :: "atom list" where
  "assigned = [AtLeast 0 is_blank, Exactly 1 is_separator, AtLeast 0 is_blank, AtLeast 1 (\<lambda>c. \<not> is_blank c)]"

definition secretPatterns :: "atom list list" where
  "secretPatterns =
     [[Literal False [''cc_live_''], AtLeast 16 is_hex],
      [Literal False [''wrk_cred_''], AtLeast 16 is_hex],
      [Literal False [''enroll_cc_live_''], AtLeast 16 is_hex],
      [Literal False [''Bearer''], AtLeast 1 is_blank, AtLeast 20 is_token],
      Literal True [''password'', ''passwd'', ''secret'', ''token'', ''api_key'', ''apikey'', ''authorization'']
        # assigned,
      [Literal False [''AKIA''], Exactly 16 is_upper_digit],
      Literal True [''aws_secret_access_key''] # assigned]"

section \<open>Masking\<close>

text \<open>
  The function literal of \<open>MaskSecrets\<close>. \<open>Split\<close> at the first separator gives two parts whenever
  there is a separator.
\<close>

definition redact :: "string \<Rightarrow> string" where
  "redact m =
     (if length m \<le> 8 then ''****''
      else if CHR ''='' \<in> set m \<or> CHR '':'' \<in> set m
      then takeWhile (\<lambda>c. \<not> is_separator c) m @ (if CHR '':'' \<in> set m then '':'' else ''='') @ ''****''
      else take 4 m @ ''****'')"

definition MaskSecrets :: "string \<Rightarrow> string" where
  "MaskSecrets s = fold (\<lambda>r. replace_all r redact) secretPatterns s"

section \<open>What an expression matches\<close>

fun accepts :: "atom \<Rightarrow> string \<Rightarrow> bool" where
  "accepts (Literal fc ws) u = (\<exists>w\<in>set ws. length u = length w \<and> reads fc w u)"
| "accepts (AtLeast n p) u = (n \<le> length u \<and> list_all p u)"
| "accepts (Exactly n p) u = (n = length u \<and> list_all p u)"

primrec lang :: "atom list \<Rightarrow> string \<Rightarrow> bool" where
  "lang [] u = (u = [])"
| "lang (a # as) u = (\<exists>v w. u = v @ w \<and> accepts a v \<and> lang as w)"

lemma first_some_None: "first_some f xs = None \<longleftrightarrow> (\<forall>x\<in>set xs. f x = None)"
  by (induction xs) (auto split: option.splits)

lemma first_some_Some: "first_some f xs = Some y \<Longrightarrow> \<exists>x\<in>set xs. f x = Some y"
  by (induction xs) (auto split: option.splits)

lemma takeWhile_least: "k \<le> length (takeWhile p s) \<longleftrightarrow> k \<le> length s \<and> list_all p (take k s)"
proof (induction s arbitrary: k)
  case (Cons c s)
  show ?case by (cases k) (auto simp: Cons)
qed simp

lemma lengths_accepted: "k \<in> set (lengths a s) \<longleftrightarrow> k \<le> length s \<and> accepts a (take k s)"
proof (cases a)
  case (AtLeast n p)
  have "k \<in> set (lengths a s) \<longleftrightarrow> n \<le> k \<and> k \<le> length (takeWhile p s)"
    by (auto simp: AtLeast)
  also have "\<dots> \<longleftrightarrow> n \<le> k \<and> k \<le> length s \<and> list_all p (take k s)"
    by (simp add: takeWhile_least)
  finally show ?thesis by (auto simp: AtLeast)
qed (auto simp: min_def)

lemma re_match_reads: "re_match r s = Some n \<Longrightarrow> n \<le> length s \<and> lang r (take n s)"
proof (induction r arbitrary: s n)
  case (Cons a r)
  then obtain k m where k: "k \<in> set (lengths a s)" "re_match r (drop k s) = Some m" "n = k + m"
    by (auto dest!: first_some_Some)
  with Cons.IH [OF k(2)] show ?case
    by (auto simp: lengths_accepted take_add)
qed simp

lemma re_match_complete: "lang r u \<Longrightarrow> re_match r (u @ t) \<noteq> None"
proof (induction r arbitrary: u)
  case (Cons a r)
  then obtain v w where "u = v @ w" "accepts a v" "lang r w" by auto
  with Cons.IH [of w] have "length v \<in> set (lengths a (u @ t))"
      "re_match r (drop (length v) (u @ t)) \<noteq> None"
    by (auto simp: lengths_accepted)
  then show ?case by (auto simp: first_some_None)
qed simp

text \<open>An expression is found in a string when the string has a stretch of its language.\<close>

lemma found_iff: "found r s \<longleftrightarrow> (\<exists>u. lang r u \<and> sublist u s)"
proof
  assume "found r s"
  then obtain t n where t: "suffix t s" "re_match r t = Some n" by (auto simp: found_def list_ex_iff)
  have "sublist (take n t) s"
    using t(1) take_is_prefix [of n t] by (auto simp: sublist_altdef')
  with re_match_reads [OF t(2)] show "\<exists>u. lang r u \<and> sublist u s" by blast
next
  assume "\<exists>u. lang r u \<and> sublist u s"
  then obtain u a b where "lang r u" "s = a @ u @ b" by (auto simp: sublist_def)
  then show "found r s"
    using re_match_complete [of r u b] by (auto simp: found_def list_ex_iff suffix_def)
qed

section \<open>What masking leaves\<close>

text \<open>The characters that \<open>redact\<close> can write.\<close>

definition marks :: "string" where "marks = ''*=:''"

lemma redact_shape: "\<exists>p x t. redact m = p @ x # t \<and> prefix p m \<and> set (x # t) \<subseteq> set marks"
proof -
  consider "length m \<le> 8" | "8 < length m" "CHR ''='' \<in> set m \<or> CHR '':'' \<in> set m"
    | "8 < length m" "\<not> (CHR ''='' \<in> set m \<or> CHR '':'' \<in> set m)" by linarith
  then show ?thesis
  proof cases
    case 1
    then show ?thesis
      by (intro exI[of _ "[]"] exI[of _ "CHR ''*''"] exI[of _ "''***''"]) (simp add: redact_def marks_def)
  next
    case 2
    then show ?thesis
      by (intro exI[of _ "takeWhile (\<lambda>c. \<not> is_separator c) m"]
            exI[of _ "if CHR '':'' \<in> set m then CHR '':'' else CHR ''=''"] exI[of _ "''****''"])
        (auto simp: redact_def marks_def takeWhile_is_prefix)
  next
    case 3
    then show ?thesis
      by (intro exI[of _ "take 4 m"] exI[of _ "CHR ''*''"] exI[of _ "''***''"])
        (simp add: redact_def marks_def take_is_prefix)
  qed
qed

text \<open>A stretch without a mark that stands before or after a mark stands on one side of it.\<close>

lemma prefix_before_mark: "prefix u (p @ x # t) \<Longrightarrow> x \<notin> set u \<Longrightarrow> prefix u p"
  by (induction p arbitrary: u) (auto simp: prefix_Cons)

lemma sublist_around_mark: "sublist u (p @ x # t) \<Longrightarrow> x \<notin> set u \<Longrightarrow> sublist u p \<or> sublist u t"
proof (induction p)
  case Nil
  then show ?case by (auto simp: sublist_Cons_right prefix_Cons)
next
  case (Cons c p)
  then show ?case
    using prefix_before_mark [of u "c # p" x t] by (auto simp: sublist_Cons_right)
qed

lemma sublist_after_marks: "sublist u (t @ s) \<Longrightarrow> set t \<inter> set u = {} \<Longrightarrow> u = [] \<or> sublist u s"
  by (induction t) (auto simp: sublist_Cons_right prefix_Cons)

text \<open>A replacement goes on behind a match, or behind a character that starts none.\<close>

lemma replace_hit:
  "re_match r (c # cs) = Some (Suc n) \<Longrightarrow>
   replace_all r f (c # cs) = f (c # take n cs) @ replace_all r f (drop n cs)"
  by simp

lemma replace_miss:
  "\<forall>n. re_match r (c # cs) \<noteq> Some (Suc n) \<Longrightarrow> replace_all r f (c # cs) = c # replace_all r f cs"
  by (auto split: option.splits nat.splits)

lemma replace_induct [case_names Nil hit miss]:
  assumes "P []"
    and "\<And>c cs n. re_match r (c # cs) = Some (Suc n) \<Longrightarrow> P (drop n cs) \<Longrightarrow> P (c # cs)"
    and "\<And>c cs. \<forall>n. re_match r (c # cs) \<noteq> Some (Suc n) \<Longrightarrow> P cs \<Longrightarrow> P (c # cs)"
  shows "P s"
proof (induction s rule: length_induct)
  case (1 s)
  show ?case
  proof (cases s)
    case (Cons c cs)
    have "P (drop n cs)" for n using 1 Cons by (simp add: less_Suc_eq_le)
    moreover have "P cs" using 1 Cons by simp
    ultimately show ?thesis using assms(2,3) Cons by blast
  qed (simp add: assms(1))
qed

declare replace_all.simps(2) [simp del]

text \<open>A replacement writes no stretch of its own, but for its marks.\<close>

lemma replace_prefix:
  "prefix u (replace_all r redact s) \<Longrightarrow> set u \<inter> set marks = {} \<Longrightarrow> prefix u s"
proof (induction s arbitrary: u rule: replace_induct [of _ r])
  case (hit c cs n)
  obtain p x t where p: "redact (c # take n cs) = p @ x # t" "prefix p (c # take n cs)" "x \<in> set marks"
    using redact_shape [of "c # take n cs"] by auto
  have "prefix u (p @ x # t @ replace_all r redact (drop n cs))"
    using hit.prems(1) by (simp add: replace_hit [OF hit.hyps] p(1))
  moreover have "x \<notin> set u" using p(3) hit.prems(2) by blast
  ultimately have "prefix u p" by (rule prefix_before_mark)
  then show ?case using p(2) take_is_prefix [of n cs]
    by (meson prefix_order.trans Cons_prefix_Cons)
next
  case (miss c cs)
  then show ?case by (cases u) (auto simp: replace_miss)
qed simp

lemma replace_sublist:
  "sublist u (replace_all r redact s) \<Longrightarrow> set u \<inter> set marks = {} \<Longrightarrow> sublist u s"
proof (induction s rule: replace_induct [of _ r])
  case (hit c cs n)
  obtain p x t where p: "redact (c # take n cs) = p @ x # t" "prefix p (c # take n cs)"
      "set (x # t) \<subseteq> set marks"
    using redact_shape [of "c # take n cs"] by auto
  have m: "x \<notin> set u" "set t \<inter> set u = {}" using p(3) hit.prems(2) by auto
  have "sublist u (p @ x # t @ replace_all r redact (drop n cs))"
    using hit.prems(1) by (simp add: replace_hit [OF hit.hyps] p(1))
  from sublist_around_mark [OF this m(1)] sublist_after_marks [OF _ m(2)]
  have "sublist u p \<or> u = [] \<or> sublist u (drop n cs)" using hit by blast
  moreover have "sublist p (c # cs)"
    using p(2) take_is_prefix [of n cs] by (meson prefix_order.trans Cons_prefix_Cons prefix_imp_sublist)
  moreover have "sublist (drop n cs) (c # cs)"
    by (meson sublist_drop sublist_Cons_right)
  ultimately show ?case by (auto dest: sublist_order.order_trans)
next
  case (miss c cs)
  from miss.prems(1) have "prefix u (replace_all r redact (c # cs)) \<or> sublist u (replace_all r redact cs)"
    unfolding replace_miss [OF miss.hyps] by (simp add: sublist_Cons_right)
  then show ?case
    using replace_prefix [of u r "c # cs"] miss by (auto simp: sublist_Cons_right)
qed simp

text \<open>An expression of tokens: longer than what \<open>redact\<close> keeps, and without its marks.\<close>

definition tokens :: "atom list \<Rightarrow> bool" where
  "tokens r \<longleftrightarrow> (\<forall>u. lang r u \<longrightarrow> 4 < length u \<and> set u \<inter> set marks = {})"

lemma redact_token:
  assumes "set m \<inter> set marks = {}"
  shows "\<exists>p. redact m = p @ ''****'' \<and> length p \<le> 4"
  using assms by (auto simp: redact_def marks_def)

lemma replace_masks:
  assumes "tokens r" "lang r u"
  shows "\<not> sublist u (replace_all r redact s)"
proof (induction s rule: replace_induct [of _ r])
  case Nil
  show ?case using assms by (auto simp: tokens_def)
next
  case (hit c cs n)
  have u: "4 < length u" "set u \<inter> set marks = {}" using assms by (auto simp: tokens_def)
  from re_match_reads [OF hit.hyps] have "lang r (c # take n cs)" by simp
  then have "set (c # take n cs) \<inter> set marks = {}" using assms(1) unfolding tokens_def by blast
  then obtain p where p: "redact (c # take n cs) = p @ ''****''" "length p \<le> 4"
    using redact_token by blast
  have "\<not> sublist u p" using u(1) p(2) by (auto dest: sublist_length_le)
  then show ?case
    using sublist_around_mark [of u p "CHR ''*''" "''***'' @ replace_all r redact (drop n cs)"]
      sublist_after_marks [of u "''***''" "replace_all r redact (drop n cs)"] u hit.IH
    by (auto simp: replace_hit [OF hit.hyps] p(1) marks_def)
next
  case (miss c cs)
  have u: "set u \<inter> set marks = {}" using assms by (auto simp: tokens_def)
  have "\<not> prefix u (c # cs)"
  proof
    assume "prefix u (c # cs)"
    then obtain t where t: "c # cs = u @ t" by (auto simp: prefix_def)
    obtain k where k: "re_match r (c # cs) = Some k"
      using re_match_complete [OF assms(2), of t] unfolding t by auto
    with miss.hyps have "k = 0" by (cases k) auto
    with re_match_reads [OF k] assms(1) show False by (auto simp: tokens_def)
  qed
  then have "\<not> prefix u (replace_all r redact (c # cs))" using replace_prefix u by blast
  then show ?case
    using miss.IH unfolding replace_miss [OF miss.hyps] by (simp add: sublist_Cons_right)
qed

section \<open>Tokens do not survive\<close>

lemma fold_replace_sublist:
  "sublist u (fold (\<lambda>r. replace_all r redact) rs s) \<Longrightarrow> set u \<inter> set marks = {} \<Longrightarrow> sublist u s"
  by (induction rs arbitrary: s) (auto dest: replace_sublist)

lemma mask_removes_tokens:
  assumes "r \<in> set secretPatterns" "tokens r"
  shows "\<not> found r (MaskSecrets s)"
proof
  assume "found r (MaskSecrets s)"
  then obtain u where u: "lang r u" "sublist u (MaskSecrets s)" by (auto simp: found_iff)
  have marks: "set u \<inter> set marks = {}" using assms(2) u(1) by (auto simp: tokens_def)
  obtain xs ys where xy: "secretPatterns = xs @ r # ys" using split_list [OF assms(1)] by blast
  then have "sublist u (fold (\<lambda>r. replace_all r redact) ys
      (replace_all r redact (fold (\<lambda>r. replace_all r redact) xs s)))"
    using u(2) unfolding MaskSecrets_def xy by simp
  then have "sublist u (replace_all r redact (fold (\<lambda>r. replace_all r redact) xs s))"
    using marks by (rule fold_replace_sublist)
  with replace_masks [OF assms(2) u(1)] show False by blast
qed

text \<open>The patterns of keys, credentials, enrolment tokens, bearer tokens and AWS keys.\<close>

definition token_patterns :: "atom list list" where
  "token_patterns = take 4 secretPatterns @ [secretPatterns ! 5]"

lemma class_marks:
  "c \<in> set marks \<Longrightarrow> \<not> is_hex c \<and> \<not> is_upper_digit c \<and> \<not> is_token c \<and> \<not> is_blank c"
  by (auto simp: marks_def is_hex_def is_upper_digit_def is_token_def is_blank_def)

lemma class_has_no_mark:
  assumes "list_all p w" "\<And>c. c \<in> set marks \<Longrightarrow> \<not> p c"
  shows "CHR ''*'' \<notin> set w \<and> CHR ''='' \<notin> set w \<and> CHR '':'' \<notin> set w"
  using assms unfolding marks_def list_all_iff by auto

lemmas classes_have_no_mark =
  class_has_no_mark [of is_hex] class_has_no_mark [of is_upper_digit] class_has_no_mark [of is_token]
  class_has_no_mark [of is_blank]

lemma reads_exactly: "reads False w s \<longleftrightarrow> s = w"
proof -
  have "list_all2 (\<lambda>a c. c = a) w s \<longleftrightarrow> list_all2 (=) w s" by (simp add: eq_commute)
  then show ?thesis by (auto simp: reads_def list.rel_eq)
qed

lemma token_patterns_are_tokens: "r \<in> set token_patterns \<Longrightarrow> tokens r"
  by (auto simp: token_patterns_def secretPatterns_def tokens_def reads_exactly marks_def class_marks
      dest!: classes_have_no_mark)

lemma token_patterns_subset: "set token_patterns \<subseteq> set secretPatterns"
  by (simp add: token_patterns_def secretPatterns_def)


text \<open>
  The credentials of an \<open>Authorization\<close> header other than a bearer token stay, and so do the secrets
  of a JSON text, whose keys end in a quote.
\<close>

lemma credentials_stay:
  "MaskSecrets ''Authorization: Basic dXNlcjpwYXNz'' = ''Authorization:**** dXNlcjpwYXNz''"
  "MaskSecrets ''{\"password\": \"hunter2\"}'' = ''{\"password\": \"hunter2\"}''"
  by code_simp+

text \<open>The pattern of API keys is found in enrolment tokens, before their own pattern is tried.\<close>

lemma enrolment_token_masked:
  "MaskSecrets ''enroll_cc_live_0123456789abcdef'' = ''enroll_cc_l****''"
  by code_simp

end
