(* ===== verification/Config.thy ===== *)
theory Config
  imports Wiring Exec_Ssh Exec_Ssm Exec_K8s Vault Log_Backends Cleanup
begin

text \<open>
  The configuration, \<open>config/config.go\<close>, and what \<open>main.go\<close> makes of it: the address of the
  database, the intervals of the components, the loaders of credentials it gives to the execution
  methods, and the first platform administrator. The reader of files and of the environment is a
  third-party library: a parameter. Of \<open>net/url\<close> the model has the escaping of the parts of an
  address, for the ASCII modes the code uses.
\<close>

section \<open>Sections of the configuration\<close>

record database_config =
  dc_Host :: string
  dc_Port :: int
  dc_User :: string
  dc_Password :: string
  dc_Name :: string
  dc_SSLMode :: string

record retention_config =
  rt_Slots :: string
  rt_Output :: string
  rt_Heartbeats :: string
  rt_Jobs :: string
  rt_JobAttempts :: string
  rt_Audit :: string
  rt_CleanupSchedule :: string
  rt_CleanupBatchSize :: int

record infra_config =
  ic_Enabled :: bool
  ic_Provider :: string
  ic_HetznerToken :: string
  ic_Datacenter :: string
  ic_ServerType :: string
  ic_SSHKeyName :: string
  ic_SwarmManagerIP :: string
  ic_SwarmJoinToken :: string
  ic_GracePeriod :: string
  ic_MaxServers :: int
  ic_InfraSecret :: string

record concurrency_config =
  cn_MaxGlobal :: int
  cn_MaxHTTP :: int
  cn_MaxSSH :: int
  cn_MaxSSM :: int
  cn_MaxK8s :: int

record auth_config =
  au_GoogleClientID :: string
  au_GoogleClientSecret :: string
  au_SessionSecret :: string
  au_EncryptionKey :: string

record saas_config =
  sa_RegistrationEnabled :: bool
  sa_DisposableEmailCheck :: bool
  sa_BaseURL :: string
  sa_PlatformAdminEmail :: string

text \<open>The sections of one field are that field.\<close>

record config =
  cf_Server_Port :: int
  cf_Database :: database_config
  cf_Planner_Interval :: string
  cf_Planner_Horizon :: string
  cf_Executor_Interval :: string
  cf_Monitor_Interval :: string
  cf_Concurrency :: concurrency_config
  cf_Auth :: auth_config
  cf_Retention :: retention_config
  cf_Logging :: logging_config
  cf_SaaS :: saas_config
  cf_Infra :: infra_config

datatype config_file = FileRead | FileNotFound | FileError go_error

definition config_Load :: "config_file \<Rightarrow> (go_error + config) \<Rightarrow> go_error + config" where
  "config_Load file unmarshalled =
     (case file of
        FileError err \<Rightarrow> Inl (ErrText (''read config: '' @ Error err))
      | _ \<Rightarrow> (case unmarshalled of
                 Inl err \<Rightarrow> Inl (ErrText (''unmarshal config: '' @ Error err))
               | Inr cfg \<Rightarrow> Inr cfg))"

text \<open>The error, and the section with its defaults.\<close>

definition required :: "string \<Rightarrow> go_error" where
  "required field = ErrText (''infra.'' @ field @ '' is required when infra is enabled'')"

definition InfraConfig_Validate :: "infra_config \<Rightarrow> go_error option \<times> infra_config" where
  "InfraConfig_Validate c =
     (if \<not> ic_Enabled c then (None, c)
      else if ic_HetznerToken c = [] then (Some (required ''hetzner_api_token''), c)
      else if ic_SwarmManagerIP c = [] then (Some (required ''swarm_manager_ip''), c)
      else if ic_SwarmJoinToken c = [] then (Some (required ''swarm_join_token''), c)
      else if ic_InfraSecret c = [] then (Some (required ''infra_secret''), c)
      else
        let c = (if ic_MaxServers c = 0 then c\<lparr>ic_MaxServers := 10\<rparr> else c);
            c = (if ic_GracePeriod c = [] then c\<lparr>ic_GracePeriod := ''1h''\<rparr> else c);
            c = (if ic_Datacenter c = [] then c\<lparr>ic_Datacenter := ''fsn1''\<rparr> else c);
            c = (if ic_ServerType c = [] then c\<lparr>ic_ServerType := ''cx22''\<rparr> else c)
        in (None, c))"

section \<open>The address of the database\<close>

datatype encoding = EncodePath | EncodeHost | EncodeUserPassword | EncodeQueryComponent

definition unreserved :: "char \<Rightarrow> bool" where
  "unreserved c \<longleftrightarrow> c \<in> set ''ABCDEFGHIJKLMNOPQRSTUVWXYZabcdefghijklmnopqrstuvwxyz0123456789-_.~''"

definition shouldEscape :: "encoding \<Rightarrow> char \<Rightarrow> bool" where
  "shouldEscape mode c =
     (if unreserved c then False
      else if mode = EncodeHost \<and> (c \<in> set ''!$&()*+,;=:[]<>'' \<or> c = CHR 0x27 \<or> c = CHR 0x22) then False
      else if c \<in> set ''$&+,/:;=?@'' then
        (case mode of
           EncodePath \<Rightarrow> c = CHR ''?''
         | EncodeUserPassword \<Rightarrow> c \<in> set ''@/?:''
         | EncodeQueryComponent \<Rightarrow> True
         | EncodeHost \<Rightarrow> True)
      else True)"

definition upperhex :: "nat \<Rightarrow> char" where
  "upperhex k = ''0123456789ABCDEF'' ! k"

definition url_escape :: "encoding \<Rightarrow> string \<Rightarrow> string" where
  "url_escape mode s = concat (map (\<lambda>c.
     let n = (of_char c :: nat)
     in if shouldEscape mode c
        then (if c = CHR '' '' \<and> mode = EncodeQueryComponent then ''+''
              else [CHR ''%'', upperhex (n div 16), upperhex (n mod 16)])
        else [c]) s)"

definition Userinfo_String :: "string \<Rightarrow> string \<Rightarrow> string" where
  "Userinfo_String user password =
     (if user \<noteq> [] \<or> password \<noteq> []
      then url_escape EncodeUserPassword user @ '':'' @ url_escape EncodeUserPassword password else [])"

definition EscapedPath :: "string \<Rightarrow> string" where
  "EscapedPath path = (if path = ''*'' then ''*'' else url_escape EncodePath path)"

definition DatabaseConfig_URL :: "database_config \<Rightarrow> string" where
  "DatabaseConfig_URL d =
     (let host = dc_Host d @ '':'' @ Itoa (dc_Port d); path = EscapedPath (dc_Name d)
      in ''postgres://'' @ Userinfo_String (dc_User d) (dc_Password d) @ ''@'' @ url_escape EncodeHost host
         @ (if path \<noteq> [] \<and> hd path \<noteq> CHR ''/'' then ''/'' else []) @ path
         @ ''?sslmode='' @ url_escape EncodeQueryComponent (dc_SSLMode d))"

text \<open>
  How such an address is read, as a reference: \<open>url.Parse\<close> cuts the query at the first question
  mark, the authority at the first slash, the user at the last at sign and the password at the
  first colon, and undoes the escapes.
\<close>

definition unhex :: "char \<Rightarrow> nat option" where
  "unhex c = map_of (zip ''0123456789ABCDEFabcdef'' ([0..<16] @ [10..<16])) c"

fun url_unescape :: "encoding \<Rightarrow> string \<Rightarrow> string option" where
  "url_unescape mode [] = Some []"
| "url_unescape mode (c # cs) =
     (if c = CHR ''%'' then
        (case cs of
           a # b # r \<Rightarrow>
             (case (unhex a, unhex b) of
                (Some x, Some y) \<Rightarrow> map_option (Cons (char_of (16 * x + y))) (url_unescape mode r)
              | _ \<Rightarrow> None)
         | _ \<Rightarrow> None)
      else map_option (Cons (if c = CHR ''+'' \<and> mode = EncodeQueryComponent then CHR '' '' else c))
             (url_unescape mode cs))"

definition split_last :: "char \<Rightarrow> string \<Rightarrow> (string \<times> string) option" where
  "split_last c s =
     (if c \<in> set s
      then Some (rev (tl (dropWhile (\<lambda>x. x \<noteq> c) (rev s))), rev (takeWhile (\<lambda>x. x \<noteq> c) (rev s))) else None)"

text \<open>User, password, host with its port, path and mode of an address.\<close>

definition read_database_url :: "string \<Rightarrow> (string \<times> string \<times> string \<times> string \<times> string) option" where
  "read_database_url s =
     (let (before, query) = splitOnce (drop (length ''postgres://'') s) (CHR ''?'');
          authority = takeWhile (\<lambda>c. c \<noteq> CHR ''/'') before; path = dropWhile (\<lambda>c. c \<noteq> CHR ''/'') before
      in case split_last (CHR ''@'') authority of
           None \<Rightarrow> None
         | Some (userinfo, host) \<Rightarrow>
             let (u, p) = splitOnce userinfo (CHR '':'')
             in case (url_unescape EncodeUserPassword u, url_unescape EncodeUserPassword p,
                      url_unescape EncodePath path, url_unescape EncodeQueryComponent (drop (length ''sslmode='') query)) of
                  (Some user, Some password, Some pth, Some mode) \<Rightarrow> Some (user, password, host, pth, mode)
                | _ \<Rightarrow> None)"

section \<open>The components\<close>

definition parseDurationOrDefault :: "string \<Rightarrow> duration \<Rightarrow> duration" where
  "parseDurationOrDefault s def =
     (if s = [] then def else case ParseDuration s of None \<Rightarrow> def | Some d \<Rightarrow> d)"

record intervals =
  iv_planner :: duration
  iv_horizon :: duration
  iv_executor :: duration
  iv_monitor :: duration

definition component_intervals :: "config \<Rightarrow> intervals" where
  "component_intervals cfg =
     \<lparr>iv_planner = parseDurationOrDefault (cf_Planner_Interval cfg) hour,
      iv_horizon = parseDurationOrDefault (cf_Planner_Horizon cfg) (24 * hour),
      iv_executor = parseDurationOrDefault (cf_Executor_Interval cfg) (30 * second),
      iv_monitor = parseDurationOrDefault (cf_Monitor_Interval cfg) (30 * second)\<rparr>"

definition cleanup_of_config :: "retention_config \<Rightarrow> cleanup_config" where
  "cleanup_of_config r = cleanup_New
     \<lparr>cc_RunRetention = parseDurationOrDefault (rt_Slots r) (30 * 24 * hour),
      cc_JobRetention = parseDurationOrDefault (rt_Jobs r) (30 * 24 * hour),
      cc_AuditRetention = parseDurationOrDefault (rt_Audit r) (90 * 24 * hour),
      cc_BatchSize = wrap32 (rt_CleanupBatchSize r), cc_Interval = 24 * hour\<rparr>"

text \<open>The first platform administrator; the error of the write is dropped.\<close>

definition bootstrap_admin :: "env \<Rightarrow> string \<Rightarrow> world \<Rightarrow> world" where
  "bootstrap_admin e adminEmail w =
     (if adminEmail = [] then w
      else case GetUserByEmail e adminEmail w of
        Inl _ \<Rightarrow> w
      | Inr user \<Rightarrow>
          if u_is_platform_admin user then w else snd (SetPlatformAdmin e (u_id user) True w))"

text \<open>The loaders of the registry; \<open>Scan\<close> reads the columns that may be NULL into pointers.\<close>

definition registry_ssh :: "env \<Rightarrow> world \<Rightarrow> string \<Rightarrow> go_error + string \<times> string \<times> int \<times> bool" where
  "registry_ssh e w credentialID =
     (case db_read e ''SelectSshCredential'' (one_row (lookup_key sc_id credentialID (w_ssh_credentials w))) of
        Inl err \<Rightarrow> Inl err
      | Inr c \<Rightarrow>
          let user = (case sc_username c of Some u \<Rightarrow> u | None \<Rightarrow> []);
              p = (case sc_port c of Some p \<Rightarrow> if p > 0 then p else 22 | None \<Rightarrow> 22)
          in Inr (sc_private_key_enc c, user, p, sc_strict_host_key c))"

definition registry_ssm :: "env \<Rightarrow> world \<Rightarrow> string \<Rightarrow> go_error + string \<times> string" where
  "registry_ssm e w profileID =
     (case db_read e ''SelectSsmProfile'' (one_row (lookup_key sm_id profileID (w_ssm_profiles w))) of
        Inl err \<Rightarrow> Inl err
      | Inr p \<Rightarrow> Inr (sm_region p, case sm_role_arn p of Some arn \<Rightarrow> arn | None \<Rightarrow> []))"

definition registry_k8s :: "env \<Rightarrow> world \<Rightarrow> string \<Rightarrow> go_error + string \<times> string" where
  "registry_k8s e w clusterID =
     (case db_read e ''SelectK8sCluster'' (one_row (lookup_key kc_id clusterID (w_k8s_clusters w))) of
        Inl err \<Rightarrow> Inl err
      | Inr c \<Rightarrow> Inr (kc_kubeconfig_enc c, case kc_default_namespace c of Some ns \<Rightarrow> ns | None \<Rightarrow> []))"

section \<open>Reading the address back\<close>

lemma unhex_upperhex: "k < 16 \<Longrightarrow> unhex (upperhex k) = Some k"
proof -
  have "\<forall>k\<in>set [0..<16]. unhex (upperhex k) = Some k" by code_simp
  then show "k < 16 \<Longrightarrow> unhex (upperhex k) = Some k" by simp
qed

lemma url_escape_Cons: "url_escape mode (c # s) = url_escape mode [c] @ url_escape mode s"
  by (simp add: url_escape_def)

lemma escape_digits: "char_of (16 * ((of_char c :: nat) div 16) + of_char c mod 16) = (c :: char)"
  by (simp only: mult_div_mod_eq char_of_char)

lemma of_char_less: "(of_char c :: nat) < 256"
  using of_char_mod_256 [of c, where 'a = nat] by (metis mod_less_divisor zero_less_numeral)

lemma of_char_digits: "(of_char c :: nat) div 16 < 16" "(of_char c :: nat) mod 16 < 16"
  using of_char_less [of c] by (simp_all add: less_mult_imp_div_less)

lemma escapes_special: "shouldEscape mode (CHR ''%'')" "shouldEscape EncodeQueryComponent (CHR ''+'')"
  by (simp_all add: shouldEscape_def unreserved_def)

lemma unescape_escape: "url_unescape mode (url_escape mode s) = Some s"
proof (induction s)
  case Nil
  then show ?case by (simp add: url_escape_def)
next
  case (Cons c s)
  have u: "unhex (upperhex ((of_char c :: nat) div 16)) = Some (of_char c div 16)"
    "unhex (upperhex ((of_char c :: nat) mod 16)) = Some (of_char c mod 16)"
    by (simp_all add: unhex_upperhex of_char_digits)
  have "url_unescape mode (url_escape mode [c] @ t) = map_option (Cons c) (url_unescape mode t)" for t
  proof -
    consider (plain) "\<not> shouldEscape mode c"
      | (blank) "shouldEscape mode c" "c = CHR '' '' \<and> mode = EncodeQueryComponent"
      | (hex) "shouldEscape mode c" "\<not> (c = CHR '' '' \<and> mode = EncodeQueryComponent)" by blast
    then show ?thesis
    proof cases
      case plain
      then show ?thesis using escapes_special by (auto simp: url_escape_def)
    next
      case blank
      then show ?thesis by (simp add: url_escape_def)
    next
      case hex
      then have "url_escape mode [c] =
          [CHR ''%'', upperhex ((of_char c :: nat) div 16), upperhex ((of_char c :: nat) mod 16)]"
        by (simp only: url_escape_def Let_def list.map concat.simps if_True if_False append_Nil2)
      then show ?thesis by (simp only: append_Cons append_Nil url_unescape.simps if_True simp_thms list.case
            u option.case prod.case escape_digits)
    qed
  qed
  then show ?case by (subst url_escape_Cons) (simp add: Cons)
qed

lemma upperhex_unreserved: "k < 16 \<Longrightarrow> unreserved (upperhex k)"
proof -
  have "\<forall>k\<in>set [0..<16]. unreserved (upperhex k)" by code_simp
  then show "k < 16 \<Longrightarrow> unreserved (upperhex k)" by simp
qed

text \<open>A character that is escaped does not occur in the escaped text.\<close>

lemma escaped_absent:
  assumes "shouldEscape mode x" "x \<noteq> CHR ''%''" "x \<noteq> CHR ''+''"
  shows "x \<notin> set (url_escape mode s)"
proof (induction s)
  case (Cons c s)
  have "\<not> unreserved x" using assms(1) by (auto simp: shouldEscape_def)
  moreover have "unreserved (upperhex ((of_char c :: nat) div 16))"
      "unreserved (upperhex ((of_char c :: nat) mod 16))"
    by (simp_all add: upperhex_unreserved of_char_digits)
  ultimately have "x \<notin> set (url_escape mode [c])"
    using assms by (auto simp: url_escape_def Let_def)
  with Cons show ?case by (subst url_escape_Cons) simp
qed (simp add: url_escape_def)

lemma escape_plain: "\<forall>c\<in>set s. \<not> shouldEscape mode c \<Longrightarrow> url_escape mode s = s"
  by (induction s) (auto simp: url_escape_def Let_def)

lemma while_cut:
  "c \<notin> set a \<Longrightarrow> takeWhile (\<lambda>x. x \<noteq> c) (a @ c # b) = a \<and> dropWhile (\<lambda>x. x \<noteq> c) (a @ c # b) = c # b"
  by (induction a) auto

lemma cut_at: "c \<notin> set a \<Longrightarrow> splitOnce (a @ c # b) c = (a, b)"
  using while_cut [of c a b] by (simp add: splitOnce_def)

lemma split_last_at: "c \<notin> set b \<Longrightarrow> split_last c (a @ c # b) = Some (a, b)"
  using while_cut [of c "rev b" "rev a"] by (simp add: split_last_def)

lemma nat_digits_unreserved: "c \<in> set (nat_digits n) \<Longrightarrow> unreserved c"
proof (induction n rule: nat_digits.induct)
  case (1 n)
  have digit: "unreserved (char_of (48 + k))" if "k < 10" for k :: nat
  proof -
    have "\<forall>k\<in>set [0..<10]. unreserved (char_of (48 + k :: nat))" by code_simp
    with that show ?thesis by simp
  qed
  show ?case using 1 digit [of n] digit [of "n mod 10"]
    by (subst (asm) (2) nat_digits.simps) (auto split: if_splits)
qed

lemma Itoa_plain: "c \<in> set (Itoa n) \<Longrightarrow> \<not> shouldEscape mode c"
  by (auto simp: Itoa_def shouldEscape_def unreserved_def dest: nat_digits_unreserved split: if_splits)

text \<open>The path with the slash that is put in front of it.\<close>

definition url_path :: "string \<Rightarrow> string" where
  "url_path name = (let path = EscapedPath name
     in (if path \<noteq> [] \<and> hd path \<noteq> CHR ''/'' then ''/'' else []) @ path)"

lemma hd_escape_path: "hd (url_escape EncodePath (c # s)) = CHR ''/'' \<longleftrightarrow> c = CHR ''/''"
  by (auto simp: url_escape_def Let_def shouldEscape_def unreserved_def)

lemma escape_empty: "url_escape mode s = [] \<longleftrightarrow> s = []"
  by (cases s) (auto simp: url_escape_def Let_def)

lemma unescape_path:
  "url_unescape EncodePath (url_path name) =
     Some (if name = [] \<or> hd name = CHR ''/'' then name else CHR ''/'' # name)"
proof (cases "name = ''*''")
  case False
  then show ?thesis
    using unescape_escape [of EncodePath name] hd_escape_path
    by (cases name) (auto simp: url_path_def EscapedPath_def Let_def escape_empty)
qed (simp add: url_path_def EscapedPath_def)

lemma url_path_shape: "url_path name = [] \<or> hd (url_path name) = CHR ''/''"
  by (simp add: url_path_def Let_def)

lemma url_path_query: "CHR ''?'' \<notin> set (url_path name)"
  using escaped_absent [of EncodePath "CHR ''?''" name]
  by (auto simp: url_path_def EscapedPath_def Let_def shouldEscape_def unreserved_def)

lemma while_front:
  "c \<notin> set a \<Longrightarrow> b = [] \<or> hd b = c \<Longrightarrow>
   takeWhile (\<lambda>x. x \<noteq> c) (a @ b) = a \<and> dropWhile (\<lambda>x. x \<noteq> c) (a @ b) = b"
  by (induction a) (auto simp: takeWhile_eq_Nil_iff dropWhile_eq_self_iff)

lemma userinfo_free:
  "CHR ''@'' \<notin> set (Userinfo_String u p)" "CHR ''/'' \<notin> set (Userinfo_String u p)"
  "CHR ''?'' \<notin> set (Userinfo_String u p)"
  by (simp_all add: Userinfo_String_def escaped_absent shouldEscape_def unreserved_def)

lemma userinfo_cut:
  "splitOnce (Userinfo_String u p) (CHR '':'') = (url_escape EncodeUserPassword u, url_escape EncodeUserPassword p)"
proof (cases "u = [] \<and> p = []")
  case True
  then show ?thesis by (simp add: Userinfo_String_def splitOnce_def url_escape_def)
next
  case False
  have "CHR '':'' \<notin> set (url_escape EncodeUserPassword u)"
    by (rule escaped_absent) (simp_all add: shouldEscape_def unreserved_def)
  from cut_at [OF this] False show ?thesis by (auto simp: Userinfo_String_def)
qed

text \<open>
  C40: the address of the database says what the configuration says. Whatever user, password, database
  name and mode are configured, the address that is built from them is read back as them: no
  character of a password ends the user's part early, and none is lost. Only the name of the host
  must consist of characters that a host may have.
\<close>

theorem database_url_reads_back:
  assumes "\<And>c. c \<in> set (dc_Host d) \<Longrightarrow> \<not> shouldEscape EncodeHost c"
  shows "read_database_url (DatabaseConfig_URL d) =
    Some (dc_User d, dc_Password d, dc_Host d @ '':'' @ Itoa (dc_Port d),
      if dc_Name d = [] \<or> hd (dc_Name d) = CHR ''/'' then dc_Name d else CHR ''/'' # dc_Name d,
      dc_SSLMode d)"
proof -
  define host where "host = dc_Host d @ '':'' @ Itoa (dc_Port d)"
  define authority where "authority = Userinfo_String (dc_User d) (dc_Password d) @ CHR ''@'' # host"
  define query where "query = ''sslmode='' @ url_escape EncodeQueryComponent (dc_SSLMode d)"
  have plain: "\<forall>c\<in>set host. \<not> shouldEscape EncodeHost c"
  proof -
    have "\<not> shouldEscape EncodeHost (CHR '':'')" by (simp add: shouldEscape_def unreserved_def)
    then show ?thesis using assms Itoa_plain by (auto simp: host_def)
  qed
  have special: "shouldEscape EncodeHost (CHR ''@'')" "shouldEscape EncodeHost (CHR ''/'')"
      "shouldEscape EncodeHost (CHR ''?'')"
    by (simp_all add: shouldEscape_def unreserved_def)
  have free: "CHR ''@'' \<notin> set host" "CHR ''/'' \<notin> set host" "CHR ''?'' \<notin> set host"
    using plain special by blast+
  have url: "drop (length ''postgres://'') (DatabaseConfig_URL d) = (authority @ url_path (dc_Name d)) @ CHR ''?'' # query"
    using escape_plain [OF plain]
    by (simp add: DatabaseConfig_URL_def host_def authority_def query_def url_path_def Let_def)
  have "CHR ''?'' \<notin> set (authority @ url_path (dc_Name d))"
    using free userinfo_free url_path_query by (simp add: authority_def)
  note cut = cut_at [OF this, of query]
  have "CHR ''/'' \<notin> set authority" using free userinfo_free by (simp add: authority_def)
  note front = while_front [OF this url_path_shape]
  have last: "split_last (CHR ''@'') authority = Some (Userinfo_String (dc_User d) (dc_Password d), host)"
    unfolding authority_def by (rule split_last_at [OF free(1)])
  have mode: "drop (length ''sslmode='') query = url_escape EncodeQueryComponent (dc_SSLMode d)"
    by (simp add: query_def)
  show ?thesis
    unfolding read_database_url_def url cut prod.case Let_def
    by (simp add: front last userinfo_cut mode unescape_escape unescape_path host_def
        del: list.size)
qed

lemma database_url_reads_back_witness:
  "read_database_url (DatabaseConfig_URL
     \<lparr>dc_Host = ''db.internal'', dc_Port = 5432, dc_User = ''cron@corp'', dc_Password = ''p:a/s?s#w% rd'',
      dc_Name = ''cron'', dc_SSLMode = ''verify-full''\<rparr>) =
   Some (''cron@corp'', ''p:a/s?s#w% rd'', ''db.internal:5432'', ''/cron'', ''verify-full'')"
proof -
  let ?d = "\<lparr>dc_Host = ''db.internal'', dc_Port = 5432, dc_User = ''cron@corp'',
      dc_Password = ''p:a/s?s#w% rd'', dc_Name = ''cron'', dc_SSLMode = ''verify-full''\<rparr>"
  have plain: "\<not> shouldEscape EncodeHost c" if "c \<in> set (dc_Host ?d)" for c
    using that by (auto simp: shouldEscape_def unreserved_def)
  have "map char_of [53, 52, 51, 50 :: nat] = ''5432''" by code_simp
  then have port: "Itoa 5432 = ''5432''" by (simp add: Itoa_def nat_digits.simps)
  from database_url_reads_back [of ?d, OF plain] show ?thesis by (simp add: port)
qed

section \<open>What the settings come to\<close>

text \<open>
  A day is no unit of a duration, so the retentions of the shipped configuration are not what
  decides: seven days keep thirty.
\<close>

lemma days_are_not_parsed:
  "parseDurationOrDefault ''30d'' def = def" "parseDurationOrDefault ''7d'' def = def"
  "parseDurationOrDefault ''90d'' def = def" "parseDurationOrDefault ''720h'' def = 720 * hour"
  by (simp_all add: parseDurationOrDefault_def duration_eval)

lemma a_week_is_kept_a_month:
  assumes "rt_Slots r = ''7d''"
  shows "cc_RunRetention (cleanup_of_config r) = 30 * 24 * hour"
  using assms by (simp add: cleanup_of_config_def cleanup_New_def days_are_not_parsed)

text \<open>However the size of a batch is configured, the scheduler gets a positive one of 32 bits.\<close>

lemma batch_size_positive:
  "0 < cc_BatchSize (cleanup_of_config r) \<and> in_int32 (cc_BatchSize (cleanup_of_config r))"
  using wrap32_range [of "rt_CleanupBatchSize r"]
  by (auto simp: cleanup_of_config_def cleanup_New_def Let_def in_int32_def)

text \<open>The key of the shipped configuration has thirty bytes, which no cipher of the vault takes.\<close>

lemma shipped_key_refused:
  "EncryptionKeyBytes ''dev-encryption-key-32bytes!!!!'' =
   Inl (ErrText ''encryption key must be exactly 32 bytes, got 30'')"
proof -
  have "Itoa 30 = ''30''" by code_simp
  then show ?thesis by (simp add: EncryptionKeyBytes_def)
qed

text \<open>A section that passes the check is complete, and checking it again changes nothing.\<close>

lemma InfraConfig_Validate_complete:
  assumes "InfraConfig_Validate c = (None, c')" "ic_Enabled c"
  shows "ic_HetznerToken c' \<noteq> [] \<and> ic_SwarmManagerIP c' \<noteq> [] \<and> ic_SwarmJoinToken c' \<noteq> [] \<and> ic_InfraSecret c' \<noteq> [] \<and>
    ic_MaxServers c' \<noteq> 0 \<and> ic_GracePeriod c' \<noteq> [] \<and> ic_Datacenter c' \<noteq> [] \<and> ic_ServerType c' \<noteq> []"
  using assms by (auto simp: InfraConfig_Validate_def Let_def split: if_splits)

lemma InfraConfig_Validate_idem:
  assumes "InfraConfig_Validate c = (None, c')"
  shows "InfraConfig_Validate c' = (None, c')"
proof (cases "ic_Enabled c")
  case True
  have "ic_Enabled c'" using assms True by (auto simp: InfraConfig_Validate_def Let_def split: if_splits)
  with InfraConfig_Validate_complete [OF assms True] show ?thesis by (simp add: InfraConfig_Validate_def)
qed (use assms in \<open>auto simp: InfraConfig_Validate_def\<close>)

text \<open>
  A credential without user name or port is good for a run in the control plane, which takes port
  22, and refused when the run goes to a worker.
\<close>

lemma same_credential_two_readings:
  assumes "lookup_key sc_id cid (w_ssh_credentials w) = Some c" "sc_port c = None" "cid \<noteq> []"
    and "e_fault e ''SelectSshCredential'' = None" "map_string cfg ''ssh_credential_id'' = cid"
  shows "\<exists>user. registry_ssh e w cid = Inr (sc_private_key_enc c, user, 22, sc_strict_host_key c)"
    and "\<exists>err. resolveCredentialsForWorker e ''ssh'' cfg w = Inl err"
  using assms
  by (auto simp: registry_ssh_def resolveCredentialsForWorker_def resolve_ssh_def scan_ssh_def db_read_def one_row_def
      split: option.splits)

text \<open>Where both succeed they read the same key, user and check of the host key.\<close>

lemma readings_agree:
  assumes "scan_ssh e cid w = Inr (k, u, p, strict)"
  shows "\<exists>p'. registry_ssh e w cid = Inr (k, u, p', strict) \<and> (0 < p \<longrightarrow> p' = p)"
  using assms
  by (auto simp: scan_ssh_def registry_ssh_def db_read_def one_row_def split: option.splits)

text \<open>The start makes at most the configured user a platform administrator.\<close>

lemma bootstrap_admin_only:
  assumes "u \<in> set (w_users (bootstrap_admin e email w))" "u_is_platform_admin u"
  shows "(\<exists>v\<in>set (w_users w). u_id v = u_id u \<and> u_is_platform_admin v) \<or>
    (\<exists>v\<in>set (w_users w). u_id v = u_id u \<and> u_email v = email)"
proof (cases "w_users (bootstrap_admin e email w) = w_users w")
  case False
  then obtain v where v: "lookup_key u_email email (w_users w) = Some v"
      and w: "w_users (bootstrap_admin e email w) = w_users (snd (SetPlatformAdmin e (u_id v) True w))"
    by (auto simp: bootstrap_admin_def GetUserByEmail_def db_read_def one_row_def split: if_splits option.splits)
  from lookup_key_SomeD [OF v] have "v \<in> set (w_users w)" "u_email v = email" by auto
  with assms w show ?thesis
    by (auto simp: SetPlatformAdmin_def db_exec_def on_user_def update_key_def update_where_def split: if_splits option.splits)
qed (use assms in auto)

end
