(* ===== verification/Spec2Isabelle.thy ===== *)
theory Spec2Isabelle
  imports Executor_Properties Dispatch_Properties Schedule_Properties Queue_Properties
    Worker_Properties Upkeep_Properties Security_Properties Run_Api_Properties Api_Properties
    Account_Properties Orchestra_Properties Http_Properties
    Remote_Properties Infra_Properties K8s_Properties
    Worker_Binary_Properties Vault_Properties Control_Plane
    Director_Properties Log_Backends Clients
    Masking Config
begin

text \<open>
  CronControl: a control plane for scheduled and queued work, written in Go over a PostgreSQL
  database. This theory collects the development; the properties stand in the theories whose names
  end in Properties and in the components they are about.

  \<^bold>\<open>How the program is put together.\<close> Workspaces own processes and queues. The planner writes
  future runs of cron processes into the database, recovery repairs the table of runs after a restart,
  and the handlers of the HTTP interface write what users ask for. On every tick the executor claims
  due runs, checks overlap and runtime, and starts them with an execution method, or hands them to
  the worker dispatcher, which keeps a channel of tasks for each worker. Blocking methods answer at
  once; asynchronous ones leave a handle in the row, which later ticks poll. Ended runs reach the
  dependency resolver, which creates the runs of dependent processes, and the notifier, which delivers
  webhooks. The queue processor does for jobs what the executor does for runs. The monitor hangs runs
  that exceed a timeout, the cleanup deletes old records, and the monitor of orchestras ends overdue
  and exhausted ones. The components share nothing but the database and a few maps in memory.

  \<^bold>\<open>How it is modelled.\<close>
  \<^item> \<open>Prelude\<close>, \<open>Go_Std\<close>: tables as lists of rows with their lookups and updates, the collections of
    simplification rules, the locales \<open>row_update\<close> (an update that keeps the key) and \<open>life_cycle\<close> (a
    finite state machine), and what the program uses of Go's standard library.
  \<^item> \<open>Run_State\<close>, \<open>Job_State\<close>: \<open>internal/runstate\<close> and \<open>internal/jobstate\<close>, both interpretations of
    \<open>life_cycle\<close> and instances of the class \<open>enum\<close>.
  \<^item> \<open>Schema\<close>, \<open>World\<close>: the rows of \<open>internal/db/models.go\<close> as records, and the state: one table for each
    list of rows, the maps in memory of the executor and the dispatcher, and the trace of what leaves
    the process. \<open>env\<close> is what an operation reads from outside: the clock of the program and of the
    database, the fault of each statement, the advisory locks other instances hold and the digits of
    new ids. Every statement goes through \<open>db_read\<close> or \<open>db_exec\<close>, which answer with the fault of the
    environment, with the constraint of the schema that is violated, or with the rows.
  \<^item> \<open>Run_Queries\<close>, \<open>Run_Store\<close>, \<open>Process_Queries\<close>, \<open>Job_Queries\<close>, \<open>Worker_Queries\<close>, \<open>Account_Queries\<close>:
    the statements of \<open>internal/db\<close>, with the name of the generated Go function, over the tables.
  \<^item> \<open>Exec_Method\<close>: the contract of \<open>internal/executor/method.go\<close>; a method is a record of functions,
    what they answer is a parameter. \<open>Backoff\<close>: the three copies of the retry delays, one locale.
  \<^item> \<open>Exec_Http\<close>, \<open>Exec_Ssh\<close>, \<open>Exec_Ssm\<close>: the methods of \<open>internal/executor/http\<close>, \<open>ssh\<close> and \<open>ssm\<close>, up to
    the libraries they call, which are parameters. \<open>Exec_Shell\<close>: the commands the last two send and a
    reader for the words of the shell. The scripts of detached runs are modelled by what the remote
    host answers to them. \<open>Exec_K8s\<close>, \<open>Exec_Container\<close>: the methods of \<open>k8s\<close> and \<open>container\<close>, over the
    answers of a cluster; \<open>Servers\<close>, \<open>Provisioner\<close>: the servers of \<open>internal/infra\<close>, which the container
    method uses by the locale \<open>slot_pool\<close>.
  \<^item> \<open>Orchestrator\<close>, \<open>Async_Runs\<close>, \<open>Executor_Facts\<close>: \<open>internal/executor\<close>. \<open>Dependency\<close>:
    \<open>internal/dependency\<close>. The contract between them is the locale \<open>run_spawner\<close>: what is called when a
    run ends only adds runs.
  \<^item> \<open>Planner\<close>, \<open>Recovery\<close>, \<open>Monitor\<close>, \<open>Queue_Processor\<close>, \<open>Cleanup\<close>, \<open>Notifier\<close>, \<open>Ssrf\<close>, \<open>Resource_Ids\<close>,
    \<open>Access\<close>: the packages of the same names (\<open>Access\<close> is \<open>internal/auth\<close>).
    \<open>Worker_Dispatch\<close>: \<open>internal/worker/dispatcher.go\<close>, its channels an interpretation of the
    locale \<open>fifo\<close>. \<open>Wiring\<close>: the callbacks \<open>main.go\<close> installs. \<open>Config\<close>: \<open>config/config.go\<close>, and the
    intervals, retentions and loaders of credentials \<open>main.go\<close> makes of it. \<open>Orchestra\<close>: the queries and the monitor of
    \<open>internal/orchestra\<close>.
  \<^item> \<open>Vault\<close>: \<open>internal/crypto\<close> and the secrets. \<open>Artifacts\<close>: \<open>internal/storage\<close>, whose two backends are
    interpretations of the locale \<open>artifact_store\<close>. \<open>Credentials\<close>: the stored credentials with their
    handlers. \<open>Log_Backends\<close>, \<open>Masking\<close>: \<open>internal/logging\<close>, the latter with the regular expressions its
    patterns need. \<open>Director\<close>: the director of \<open>internal/orchestra\<close> with
    its providers. \<open>Listings\<close>: the queries and handlers that only list or count, and the log-in with
    Google. \<open>Routing\<close>: the routes of \<open>main.go\<close>, the checks before them and the metrics around them.
  \<^item> \<open>Worker_Binary\<close>: the program of a worker, \<open>cmd/croncontrol-worker\<close>, composed with the handlers it
    talks to. \<open>Clients\<close>: the command line, the protocol server and the library for Go.
  \<^item> \<open>Run_Evolution\<close>: the locale \<open>run_evolution\<close> of relations between two worlds that every operation
    keeps, and its extension \<open>run_life\<close> by deletions, with one lemma for each operation of the program.
    \<open>Control_Plane\<close>: the whole control plane as a step relation, in which the rounds of the components,
    the requests and the halves of dispatches interleave in any order; its invariants are
    interpretations of these locales.
  \<^item> \<open>Api\<close> and the theories that end in Handlers: \<open>internal/handler/service.go\<close>, one definition for each
    handler, from the request to the reply and the new state. \<open>Worker_Handlers\<close> holds the enrolment of
    \<open>internal/worker/enrollment.go\<close> as well. A body that cannot be decoded is
    \<open>None\<close>; a reply is a status with data or an error.
  \<^item> \<open>Samples\<close>: small worlds on which theorems with hypotheses are shown to apply.

  \<^bold>\<open>What the theorems show.\<close> \<open>Executor_Properties\<close>, \<open>Dispatch_Properties\<close>: how the outcome of an
  execution decides the state of its run, that polls keep to the state machine and away from ended
  runs, when a dispatch starts an attempt, which dependent runs are created. \<open>Schedule_Properties\<close>: the
  planner fills its window once and ends, the monitor hangs exactly the overdue runs, recovery is
  bounded. \<open>Queue_Properties\<close>: which jobs a claim takes, that rounds respect the concurrency, how
  results classify. \<open>Worker_Properties\<close>: where tasks go, in which order they come out, what results do.
  \<open>Security_Properties\<close>, \<open>Account_Properties\<close>: who is authenticated, which addresses are refused, what
  tokens open. \<open>Run_Api_Properties\<close>, \<open>Api_Properties\<close>: the handlers of runs implement an abstract
  specification of their commands; which requests can never succeed. \<open>Upkeep_Properties\<close>: what the
  cleanup may delete and when webhooks are disabled. \<open>Orchestra_Properties\<close>: what the monitor of
  orchestras ends. \<open>Http_Properties\<close>, \<open>Remote_Properties\<close>: what the execution methods report, that
  handles survive the row, that quoted texts reach the remote program unchanged and that the output of
  detached runs is collected once. \<open>Infra_Properties\<close>, \<open>K8s_Properties\<close>: slots and servers stay within
  their limits and come back; what the cluster method collects, and that its jobs are refused.
  \<open>Worker_Binary_Properties\<close>: a round of a worker concludes the run of its task. \<open>Vault_Properties\<close>,
  \<open>Log_Backends\<close>, \<open>Config\<close>: round trips of secrets, artifacts, logs and the address of the database.
  \<open>Masking\<close>: no token survives. \<open>Director_Properties\<close>: what happens when
  the language model fails. \<open>Routing\<close>, \<open>Clients\<close>: who reaches which handler, and that the clients call
  routes that exist. \<open>Control_Plane\<close>: whatever the components do in whatever order, the table of runs
  stays well typed. Several theorems show where the code departs from its comments or its
  purpose; the manifest lists them as findings.

  \<^bold>\<open>Parameters, bounds and fuel.\<close> The cron library, the time zone database, hashes, random digits,
  \<open>url.Parse\<close>, the look-up of names and the answers of the execution methods are parameters, with what
  the code relies on as hypotheses of the theorems that need it. The loops of the planner and of
  recovery may not end and are partial functions into options: that they return is proved, and so is
  that one of them does not for a schedule that never fires. The parser of IPv6 addresses has a fuel
  of eight, one for each group an address can have. Integers of 32 bits wrap around where the code
  computes with them. In recovery the test of the state of the workspace is left out where the query
  already has it.

  \<^bold>\<open>Not modelled.\<close> Goroutines of one round run one after the other, except in the theorems about races,
  which interleave the steps; the ticker loops, the blocking of the long poll, signals and start-up
  are left out. Durations and amounts are exact numbers; instants are not cut to microseconds; the
  lengths of columns, the texts of log lines, the difference of nil and empty lists in tags, and the
  random order of Go's maps where it does not matter are abstracted. The order of names is a parameter, as
  it depends on the collation of the database. The libraries for SSH, AWS, Docker, Kubernetes, Hetzner and
  OAuth, the router, the services of language models and the decoders of JSON texts are parameters: their
  code is not part of the repository, and so is the reader of the configuration file. Of the metrics,
  latencies are left out and most counters are events of the trace. The wrappers for NULL values (an
  option here), the package of error codes (which nothing imports), the scripts for shells and the
  libraries for other languages than Go have no state or logic of their own and are not modelled.
\<close>

section \<open>Across the components\<close>

text \<open>
  The metrics wrap every handler of a route, so the writer that reaches the stream of a chat cannot
  flush, whatever the writer of the server can do: the stream is never opened.
\<close>

lemma stream_is_never_opened:
  assumes "path \<noteq> ''/metrics''"
  shows "reply_status (Service_StreamChat (metrics_writer path flusher) ctx orchID now ticks) = 500"
  using assms by (simp add: metrics_writer_def Service_StreamChat_def writeError_def)

end
